(* ===== verification/Prelude.thy ===== *)
theory Prelude
  imports Main "HOL-Library.AList" "HOL-Library.Multiset" "HOL-Library.Char_ord" "HOL-Library.List_Lexorder"
begin

text \<open>
  Shared vocabulary of the development.

  \<^item> Go's pair of a value and an error is a sum: \<open>Inl e\<close> is a non-nil error, \<open>Inr x\<close> the
    value of a nil one. \<open>and_then\<close> is the early return on an error, \<open>foldR\<close> a loop that
    carries an accumulator and returns at the first error, \<open>check_all\<close> a loop that only checks.
  \<^item> A Go map is an association list with distinct keys (its order is the iteration order, which
    Go leaves unspecified) where the code iterates over it, and a partial function where it
    only looks keys up.
  \<^item> A \<open>time.Time\<close> is the integer number of nanoseconds since the epoch and a
    \<open>time.Duration\<close> a number of nanoseconds.
  \<^item> A Go string is its bytes, a \<open>char list\<close>.
\<close>

named_theorems result_simps "facts that take an early return apart"
named_theorems store_simps "what one operation of a store does to what another returns"

type_synonym ('e, 'a) result = "'e + 'a"
type_synonym time = int
type_synonym duration = int
type_synonym 'v assoc = "(string \<times> 'v) list"

section \<open>Results\<close>

definition and_then :: "'e + 'a \<Rightarrow> ('a \<Rightarrow> 'e + 'b) \<Rightarrow> 'e + 'b" where
  "and_then m f = (case m of Inl e \<Rightarrow> Inl e | Inr x \<Rightarrow> f x)"

definition require :: "bool \<Rightarrow> 'e \<Rightarrow> 'e + unit" where
  "require b e = (if b then Inr () else Inl e)"

definition of_option :: "'e \<Rightarrow> 'a option \<Rightarrow> 'e + 'a" where
  "of_option e m = (case m of None \<Rightarrow> Inl e | Some x \<Rightarrow> Inr x)"

definition is_ok :: "'e + 'a \<Rightarrow> bool" where
  "is_ok m = (case m of Inl _ \<Rightarrow> False | Inr _ \<Rightarrow> True)"

fun foldR :: "('a \<Rightarrow> 'b \<Rightarrow> 'e + 'a) \<Rightarrow> 'a \<Rightarrow> 'b list \<Rightarrow> 'e + 'a" where
  "foldR f acc [] = Inr acc"
| "foldR f acc (x # xs) = and_then (f acc x) (\<lambda>acc'. foldR f acc' xs)"

fun check_all :: "('b \<Rightarrow> 'e + unit) \<Rightarrow> 'b list \<Rightarrow> 'e + unit" where
  "check_all f [] = Inr ()"
| "check_all f (x # xs) = and_then (f x) (\<lambda>_. check_all f xs)"

fun mapR :: "('a \<Rightarrow> 'e + 'b) \<Rightarrow> 'a list \<Rightarrow> 'e + 'b list" where
  "mapR f [] = Inr []"
| "mapR f (x # xs) = and_then (f x) (\<lambda>y. and_then (mapR f xs) (\<lambda>ys. Inr (y # ys)))"

lemma and_then_Inl [simp]: "and_then (Inl e) f = Inl e"
  by (simp add: and_then_def)

lemma and_then_Inr [simp]: "and_then (Inr x) f = f x"
  by (simp add: and_then_def)

lemma and_then_eq_Inr [result_simps]:
  "and_then m f = Inr y \<longleftrightarrow> (\<exists>x. m = Inr x \<and> f x = Inr y)"
  by (cases m) simp_all

lemma and_then_eq_Inl [result_simps]:
  "and_then m f = Inl e \<longleftrightarrow> m = Inl e \<or> (\<exists>x. m = Inr x \<and> f x = Inl e)"
  by (cases m) simp_all

lemma and_then_cong [fundef_cong]:
  assumes "m = m'" and "\<And>x. m' = Inr x \<Longrightarrow> f x = g x"
  shows "and_then m f = and_then m' g"
  using assms by (cases m') simp_all

lemma and_then_assoc: "and_then (and_then m f) g = and_then m (\<lambda>x. and_then (f x) g)"
  by (cases m) simp_all

lemma require_eq_Inr [simp]: "require b e = Inr u \<longleftrightarrow> b"
  by (simp add: require_def)

lemma require_eq_Inl [simp]: "require b e = Inl e' \<longleftrightarrow> \<not> b \<and> e' = e"
  by (auto simp: require_def)

lemma of_option_simps [simp]: "of_option e (Some x) = Inr x" "of_option e None = Inl e"
  by (simp_all add: of_option_def)

lemma of_option_eq_Inr [simp]: "of_option e m = Inr x \<longleftrightarrow> m = Some x"
  by (simp add: of_option_def split: option.split)

lemma of_option_eq_Inl [simp]: "of_option e m = Inl e' \<longleftrightarrow> m = None \<and> e' = e"
  by (auto simp: of_option_def split: option.split)

lemma is_ok_simps [simp]: "is_ok (Inr x)" "\<not> is_ok (Inl e)"
  by (simp_all add: is_ok_def)

lemma is_ok_iff: "is_ok m \<longleftrightarrow> (\<exists>x. m = Inr x)"
  by (cases m) simp_all

lemma check_all_Inr [result_simps]:
  "check_all f xs = Inr u \<longleftrightarrow> (\<forall>x \<in> set xs. f x = Inr ())"
  by (induction xs) (auto simp: and_then_eq_Inr)

lemma check_all_Inl: "check_all f xs = Inl e \<Longrightarrow> \<exists>x \<in> set xs. f x = Inl e"
  by (induction xs) (auto simp: and_then_eq_Inl)

lemma mapR_Inr: "mapR f xs = Inr ys \<longleftrightarrow> list_all2 (\<lambda>x y. f x = Inr y) xs ys"
  by (induction xs arbitrary: ys) (auto simp: and_then_eq_Inr list_all2_Cons1)

lemma ex_unit: "(\<exists>u :: unit. P u) \<longleftrightarrow> P ()"
  by (metis old.unit.exhaust)

text \<open>A loop keeps an invariant that each of its steps keeps.\<close>

lemma foldR_invariant:
  assumes "foldR f acc xs = Inr r" and "P acc"
    and "\<And>a x b. x \<in> set xs \<Longrightarrow> P a \<Longrightarrow> f a x = Inr b \<Longrightarrow> P b"
  shows "P r"
  using assms
proof (induction xs arbitrary: acc)
  case Nil
  then show ?case by simp
next
  case (Cons x xs)
  from Cons.prems(1) obtain b where b: "f acc x = Inr b" "foldR f b xs = Inr r"
    by (auto simp: result_simps)
  have "P b" using Cons.prems(2,3) b(1) by auto
  then show ?case using Cons.IH [OF b(2)] Cons.prems(3) by auto
qed

section \<open>Association lists as Go maps\<close>

lemma map_of_update [simp]: "map_of (AList.update k v al) = (map_of al)(k \<mapsto> v)"
  by (rule update_conv')

lemma map_of_update_apply: "map_of (AList.update k v al) k' = (if k' = k then Some v else map_of al k')"
  by simp

lemma map_of_filter_key:
  "map_of (filter (\<lambda>(k, _). P k) al) k = (if P k then map_of al k else None)"
  by (induction al) auto

lemma distinct_keys_update [simp]:
  "distinct (map fst al) \<Longrightarrow> distinct (map fst (AList.update k v al))"
  by (rule distinct_update)

lemma map_of_cong_set:
  assumes "distinct (map fst xs)" "distinct (map fst ys)" "set xs = set ys"
  shows "map_of xs = map_of ys"
  using assms by (metis map_of_inject_set)

lemma map_of_sort_key [simp]:
  fixes xs :: "('k :: linorder \<times> 'v) list"
  assumes "distinct (map fst xs)"
  shows "map_of (sort_key fst xs) = map_of xs"
proof (rule map_of_cong_set)
  have "mset (map fst (sort_key fst xs)) = mset (map fst xs)"
    by simp
  then show "distinct (map fst (sort_key fst xs))"
    using assms by (metis mset_eq_imp_distinct_iff)
qed (use assms in simp_all)

text \<open>
  A Go loop that builds a map by running a fallible computation on every entry of another one:
  the outcome per key does not depend on the iteration order.
\<close>

lemma foldR_update_map_of:
  assumes "foldR (\<lambda>acc (k, v). and_then (f k v) (\<lambda>w. Inr (AList.update k w acc))) acc xs = Inr r"
    and "distinct (map fst xs)"
  shows "map_of r k = (case map_of xs k of None \<Rightarrow> map_of acc k
                       | Some v \<Rightarrow> (case f k v of Inr w \<Rightarrow> Some w | Inl _ \<Rightarrow> None))"
  using assms
proof (induction xs arbitrary: acc)
  case Nil
  then show ?case by simp
next
  case (Cons kv xs)
  obtain k0 v0 where kv: "kv = (k0, v0)" by (cases kv)
  from Cons.prems obtain w where w: "f k0 v0 = Inr w"
    and rest: "foldR (\<lambda>acc (k, v). and_then (f k v) (\<lambda>w. Inr (AList.update k w acc)))
        (AList.update k0 w acc) xs = Inr r"
    by (auto simp: kv and_then_eq_Inr)
  have "map_of xs k0 = None"
    using Cons.prems(2) by (auto simp: kv map_of_eq_None_iff)
  with Cons.IH [OF rest] Cons.prems(2) w show ?case
    by (auto simp: kv split: option.splits)
qed

lemma foldR_update_ok:
  assumes "foldR (\<lambda>acc (k, v). and_then (f k v) (\<lambda>w. Inr (AList.update k w acc))) acc xs = Inr r"
    and "(k, v) \<in> set xs"
  shows "\<exists>w. f k v = Inr w"
  using assms by (induction xs arbitrary: acc) (auto simp: and_then_eq_Inr)

text \<open>
  The loop that merges one map into another: a key of only one of them is kept, a key of both is
  combined. The merge is pointwise, whatever the iteration order.
\<close>

lemma foldR_merge_map_of:
  assumes "foldR (\<lambda>m (k, v). case map_of m k of None \<Rightarrow> Inr (AList.update k (g k v) m)
      | Some c \<Rightarrow> and_then (f k c v) (\<lambda>w. Inr (AList.update k w m))) acc xs = Inr r"
    and "distinct (map fst xs)"
  shows "map_of r k = (case map_of xs k of None \<Rightarrow> map_of acc k
      | Some v \<Rightarrow> (case map_of acc k of None \<Rightarrow> Some (g k v)
          | Some c \<Rightarrow> (case f k c v of Inr w \<Rightarrow> Some w | Inl _ \<Rightarrow> None)))"
  using assms
proof (induction xs arbitrary: acc)
  case Nil
  then show ?case by simp
next
  case (Cons kv xs)
  obtain k0 v0 where kv: "kv = (k0, v0)" by (cases kv)
  have none: "map_of xs k0 = None"
    using Cons.prems(2) by (auto simp: kv map_of_eq_None_iff)
  show ?case
  proof (cases "map_of acc k0")
    case None
    with Cons.prems Cons.IH [of "AList.update k0 (g k0 v0) acc"] none show ?thesis
      by (auto simp: kv split: option.splits)
  next
    case (Some c)
    with Cons.prems obtain w where w: "f k0 c v0 = Inr w"
      by (auto simp: kv and_then_eq_Inr)
    with Some Cons.prems Cons.IH [of "AList.update k0 w acc"] none show ?thesis
      by (auto simp: kv split: option.splits)
  qed
qed

lemma foldR_merge_ok:
  assumes "foldR (\<lambda>m (k, v). case map_of m k of None \<Rightarrow> Inr (AList.update k (g k v) m)
      | Some c \<Rightarrow> and_then (f k c v) (\<lambda>w. Inr (AList.update k w m))) acc xs = Inr r"
    and "distinct (map fst xs)" and "map_of xs k = Some v" and "map_of acc k = Some c"
  shows "\<exists>w. f k c v = Inr w \<and> map_of r k = Some w"
proof -
  have "\<exists>w. f k c v = Inr w"
    using assms
  proof (induction xs arbitrary: acc)
    case (Cons kv xs)
    obtain k0 v0 where kv: "kv = (k0, v0)" by (cases kv)
    show ?case
    proof (cases "map_of acc k0")
      case None
      with Cons.prems Cons.IH [of "AList.update k0 (g k0 v0) acc"] show ?thesis
        by (auto simp: kv split: if_splits)
    next
      case (Some c0)
      with Cons.prems obtain w where "f k0 c0 v0 = Inr w"
        by (auto simp: kv and_then_eq_Inr)
      with Some Cons.prems Cons.IH [of "AList.update k0 w acc"] show ?thesis
        by (auto simp: kv split: if_splits)
    qed
  qed simp
  with foldR_merge_map_of [OF assms(1,2), of k] assms(3,4) show ?thesis by auto
qed

lemma foldR_merge_distinct:
  assumes "foldR (\<lambda>m (k, v). case map_of m k of None \<Rightarrow> Inr (AList.update k (g k v) m)
      | Some c \<Rightarrow> and_then (f k c v) (\<lambda>w. Inr (AList.update k w m))) acc xs = Inr r"
    and "distinct (map fst acc)"
  shows "distinct (map fst r)"
  by (rule foldR_invariant [where P = "\<lambda>m. distinct (map fst m)", OF assms])
    (auto simp: and_then_eq_Inr split: option.splits)

text \<open>A loop over distinct keys that stores a result under some of them.\<close>

lemma foldR_put:
  assumes "foldR (\<lambda>acc x. and_then (f x) (\<lambda>w. Inr (case w of None \<Rightarrow> acc
      | Some j \<Rightarrow> AList.update x j acc))) acc xs = Inr r" and "distinct xs"
  shows "map_of r x = (if x \<in> set xs then (case f x of Inr (Some j) \<Rightarrow> Some j | _ \<Rightarrow> map_of acc x)
      else map_of acc x) \<and> (x \<in> set xs \<longrightarrow> (\<exists>w. f x = Inr w))"
  using assms
proof (induction xs arbitrary: acc)
  case (Cons y ys)
  then obtain w where w: "f y = Inr w" by (auto simp: and_then_eq_Inr)
  with Cons.prems Cons.IH [of "case w of None \<Rightarrow> acc | Some j \<Rightarrow> AList.update y j acc"] show ?case
    by (auto split: option.splits sum.splits)
qed simp

lemma distinct_foldR_put:
  assumes "foldR (\<lambda>acc x. and_then (f x) (\<lambda>w. Inr (case w of None \<Rightarrow> acc
      | Some j \<Rightarrow> AList.update x j acc))) acc xs = Inr r" and "distinct (map fst acc)"
  shows "distinct (map fst r)"
  by (rule foldR_invariant [where P = "\<lambda>m. distinct (map fst m)", OF assms])
    (auto simp: and_then_eq_Inr split: option.splits)

section \<open>Strings\<close>

definition has_prefix :: "string \<Rightarrow> string \<Rightarrow> bool" where
  "has_prefix s p = (take (length p) s = p)"

definition trim_suffix :: "string \<Rightarrow> string \<Rightarrow> string" where
  "trim_suffix s suf = (if has_prefix (rev s) (rev suf) then take (length s - length suf) s else s)"

lemma has_prefix_iff: "has_prefix s p \<longleftrightarrow> (\<exists>t. s = p @ t)"
  unfolding has_prefix_def by (metis append_eq_conv_conj append_take_drop_id)

end
