(* ===== verification/Json.thy ===== *)
theory Json
  imports Prelude
begin

text \<open>
  JSON as \<^verbatim>\<open>encoding/json\<close> reads it, for the code that works on
  \<^verbatim>\<open>json.RawMessage\<close>. A raw message is the syntax tree of its text (every raw message
  of the modelled code was cut out of a document that already parsed); insignificant white space
  is not kept. A number literal is its sign, its digits read as one integer and its decimal
  exponent (\<open>None\<close> for a literal with neither a fraction nor an exponent), so \<open>1\<close>,
  \<open>1.0\<close> and \<open>10e-1\<close> are different raw messages, and \<open>-0\<close> differs from \<open>0\<close>. \<open>None\<close> is the nil raw message of an absent value.
\<close>

datatype json = JNull | JBool bool | JNum bool nat "int option" | JStr string
  | JArr "json list" | JObj "(string \<times> json) list"

type_synonym raw = "json option"

text \<open>
  What \<^verbatim>\<open>json.Unmarshal\<close> stores in an \<^verbatim>\<open>any\<close>: a finite
  \<^verbatim>\<open>float64\<close> is its sign, its integer significand below \<open>2^53\<close> and its binary
  exponent; a \<^verbatim>\<open>map[string]any\<close> is listed by increasing key.
\<close>

datatype gov = GNil | GBool bool | GFloat bool nat int | GStr string
  | GSlice "gov list" | GMap "(string \<times> gov) list"

section \<open>Decimal literals to float64\<close>

fun bitlen :: "nat \<Rightarrow> nat" where
  "bitlen n = (if n = 0 then 0 else Suc (bitlen (n div 2)))"

declare bitlen.simps [simp del]

definition div_half_even :: "nat \<Rightarrow> nat \<Rightarrow> nat" where
  "div_half_even n d =
     (let q = n div d; r = n mod d in
      if 2 * r < d then q else if d < 2 * r then Suc q else if even q then q else Suc q)"

text \<open>
  \<^verbatim>\<open>strconv.ParseFloat(s, 64)\<close> for the literal \<open>m \<cdot> 10^e\<close>: the nearest
  \<^verbatim>\<open>float64\<close>, ties to even, and a range error (\<open>None\<close>) beyond the largest one.
  The value is \<open>num / den\<close>; \<open>ex\<close> is the exponent of the last significant bit.
\<close>

definition parse_float64 :: "bool \<Rightarrow> nat \<Rightarrow> int \<Rightarrow> (bool \<times> nat \<times> int) option" where
  "parse_float64 neg m e =
     (if m = 0 then Some (neg, 0, 0)
      else
        let num = m * 10 ^ nat e; den = 10 ^ nat (- e);
            k = int (bitlen num) - int (bitlen den);
            l = (if num * 2 ^ nat (- k) < den * 2 ^ nat k then k - 1 else k);
            ex = max (l - 52) (- 1074);
            s = div_half_even (num * 2 ^ nat (- ex)) (den * 2 ^ nat ex);
            (s', ex') = (if s = 2 ^ 53 then (2 ^ 52, ex + 1) else (s, ex))
        in if s' = 0 then Some (neg, 0, 0) else if 971 < ex' then None else Some (neg, s', ex'))"

section \<open>Decoding\<close>

text \<open>
  Members of an object decoded into a Go map: a later duplicate replaces an earlier one.
  \<open>sorted_members\<close> is the order in which \<^verbatim>\<open>json.Marshal\<close> writes a map.
\<close>

definition obj_members :: "(string \<times> 'a) list \<Rightarrow> 'a assoc" where
  "obj_members ms = foldl (\<lambda>acc (k, v). AList.update k v acc) [] ms"

definition sorted_members :: "'a assoc \<Rightarrow> 'a assoc" where
  "sorted_members ms = sort_key fst ms"

fun unmarshal_any :: "json \<Rightarrow> gov option"
  and unmarshal_anys :: "json list \<Rightarrow> gov list option"
  and unmarshal_members :: "(string \<times> json) list \<Rightarrow> (string \<times> gov) list option" where
  "unmarshal_any JNull = Some GNil"
| "unmarshal_any (JBool b) = Some (GBool b)"
| "unmarshal_any (JNum neg m e) =
     map_option (\<lambda>(n, s, ex). GFloat n s ex)
       (parse_float64 neg m (case e of None \<Rightarrow> 0 | Some e \<Rightarrow> e))"
| "unmarshal_any (JStr s) = Some (GStr s)"
| "unmarshal_any (JArr xs) = map_option GSlice (unmarshal_anys xs)"
| "unmarshal_any (JObj ms) =
     map_option (\<lambda>ys. GMap (sorted_members (obj_members ys))) (unmarshal_members ms)"
| "unmarshal_anys [] = Some []"
| "unmarshal_anys (x # xs) =
     (case unmarshal_any x of None \<Rightarrow> None
      | Some y \<Rightarrow> map_option ((#) y) (unmarshal_anys xs))"
| "unmarshal_members [] = Some []"
| "unmarshal_members ((k, x) # ms) =
     (case unmarshal_any x of None \<Rightarrow> None
      | Some y \<Rightarrow> map_option ((#) (k, y)) (unmarshal_members ms))"

text \<open>
  \<^verbatim>\<open>json.Unmarshal\<close> into a typed variable holding its zero value. The literal
  \<open>null\<close> leaves any of them as it is and is no error.
\<close>

fun unmarshal_array :: "json \<Rightarrow> json list option" where
  "unmarshal_array (JArr xs) = Some xs"
| "unmarshal_array JNull = Some []"
| "unmarshal_array _ = None"

fun unmarshal_bool :: "json \<Rightarrow> bool option" where
  "unmarshal_bool (JBool b) = Some b"
| "unmarshal_bool JNull = Some False"
| "unmarshal_bool _ = None"

fun unmarshal_string :: "json \<Rightarrow> string option" where
  "unmarshal_string (JStr s) = Some s"
| "unmarshal_string JNull = Some []"
| "unmarshal_string _ = None"

fun unmarshal_object :: "json \<Rightarrow> json assoc option" where
  "unmarshal_object (JObj ms) = Some (obj_members ms)"
| "unmarshal_object JNull = Some []"
| "unmarshal_object _ = None"

text \<open>
  Into an \<^verbatim>\<open>int64\<close> (an \<^verbatim>\<open>int\<close> of the platforms the code runs on) only a
  literal without fraction or exponent goes, and only in range. A \<^verbatim>\<open>[]string\<close> takes
  an array of strings, a null element leaving its element empty; the nil slice is \<open>None\<close>.
\<close>

definition minInt64 :: int where "minInt64 = - (2 ^ 63)"
definition maxInt64 :: int where "maxInt64 = 2 ^ 63 - 1"

fun unmarshal_int64 :: "json \<Rightarrow> int option" where
  "unmarshal_int64 JNull = Some 0"
| "unmarshal_int64 (JNum neg m None) =
     (let n = (if neg then - int m else int m) in
      if minInt64 \<le> n \<and> n \<le> maxInt64 then Some n else None)"
| "unmarshal_int64 _ = None"

fun traverse :: "('a \<Rightarrow> 'b option) \<Rightarrow> 'a list \<Rightarrow> 'b list option" where
  "traverse f [] = Some []"
| "traverse f (x # xs) =
     (case f x of None \<Rightarrow> None | Some y \<Rightarrow> map_option ((#) y) (traverse f xs))"

fun unmarshal_strings :: "json \<Rightarrow> string list option option" where
  "unmarshal_strings JNull = Some None"
| "unmarshal_strings (JArr xs) = map_option Some (traverse unmarshal_string xs)"
| "unmarshal_strings _ = None"

text \<open>\<^verbatim>\<open>json.Marshal\<close> of a Go map of raw messages.\<close>

definition marshal_object :: "json assoc \<Rightarrow> json" where
  "marshal_object ms = JObj (sorted_members ms)"

section \<open>Facts\<close>

lemma distinct_obj_members [simp]: "distinct (map fst (obj_members ms))"
proof -
  have "distinct (map fst acc) \<Longrightarrow>
      distinct (map fst (foldl (\<lambda>acc (k, v). AList.update k v acc) acc ms))" for acc
    by (induction ms arbitrary: acc) auto
  then show ?thesis by (simp add: obj_members_def)
qed

lemma keys_obj_members: "fst ` set (obj_members ms) = fst ` set ms"
proof -
  have dom_up: "fst ` set (AList.update k v al) = insert k (fst ` set al)"
    for k :: string and v :: 'a and al
    using dom_update [of k v al] by (simp add: dom_map_of_conv_image_fst)
  have "fst ` set (foldl (\<lambda>acc (k, v). AList.update k v acc) acc ms) = fst ` set acc \<union> fst ` set ms" for acc
  proof (induction ms arbitrary: acc)
    case (Cons m ms)
    show ?case by (cases m) (simp add: Cons.IH dom_up)
  qed simp
  then show ?thesis by (simp add: obj_members_def)
qed

lemma obj_members_distinct: "distinct (map fst ms) \<Longrightarrow> obj_members ms = ms"
proof -
  have up: "k \<notin> set (map fst acc) \<Longrightarrow> AList.update k v acc = acc @ [(k, v)]"
    for k :: string and v :: 'a and acc
    by (induction acc) auto
  have "distinct (map fst (acc @ ms)) \<Longrightarrow>
      foldl (\<lambda>acc (k, v). AList.update k v acc) acc ms = acc @ ms" for acc
  proof (induction ms arbitrary: acc)
    case (Cons p ms)
    obtain k v where p: "p = (k, v)" by (cases p)
    from Cons.prems have "AList.update k v acc = acc @ [(k, v)]"
      by (intro up) (auto simp: p)
    with Cons.IH [of "acc @ [(k, v)]"] Cons.prems show ?case by (simp add: p)
  qed simp
  then show "distinct (map fst ms) \<Longrightarrow> obj_members ms = ms"
    by (simp add: obj_members_def)
qed

lemma distinct_sorted_members [simp]:
  "distinct (map fst (sorted_members ms)) \<longleftrightarrow> distinct (map fst ms)"
proof -
  have "mset (map fst (sorted_members ms)) = mset (map fst ms)"
    by (simp add: sorted_members_def)
  then show ?thesis by (rule mset_eq_imp_distinct_iff)
qed

lemma unmarshal_marshal_object:
  "distinct (map fst ms) \<Longrightarrow>
   \<exists>ms'. unmarshal_object (marshal_object ms) = Some ms' \<and> map_of ms' = map_of ms"
  by (simp add: marshal_object_def obj_members_distinct) (simp add: sorted_members_def)

lemma unmarshal_any_GNil [simp]: "unmarshal_any j = Some GNil \<longleftrightarrow> j = JNull"
  by (cases j) auto

lemma unmarshal_any_GStr [simp]: "unmarshal_any j = Some (GStr s) \<longleftrightarrow> j = JStr s"
  by (cases j) auto

lemma unmarshal_anys_map: "unmarshal_anys xs = Some ys \<longleftrightarrow> map unmarshal_any xs = map Some ys"
  by (induction xs arbitrary: ys) (auto split: option.splits simp: Cons_eq_map_conv)

end
