(* ===== verification/Policy.thy ===== *)
theory Policy
  imports Json
begin

text \<open>
  OpenID Federation metadata policies: \<^verbatim>\<open>internal/federation/policy.go\<close> and
  \<^verbatim>\<open>policy_space_delimited.go\<close>. A policy maps an entity type to its parameters, a
  parameter to its operators and an operator to its operand; each of the three maps is an
  association list. Every error of these files wraps \<^verbatim>\<open>ErrPolicyError\<close>; the model
  keeps which check failed and drops the text around it.
\<close>

type_synonym policy_ops = "json assoc"
type_synonym param_policies = "policy_ops assoc"
type_synonym metadata_policy = "param_policies assoc"

datatype policy_error =
    ExpectedArray
  | MustBeArray string
  | EssentialNotBoolean
  | DefaultNull
  | OneOfCombined string
  | NullWithDefault
  | NullWithAdd
  | NullWithEssential
  | ValueNotAmongOneOf
  | NotSubset string string
  | NotASet string
  | CriticalOperator string
  | OperatorValuesDiffer string
  | NoCommonOneOf
  | NotAllowedValue
  | NotAnArrayParameter
  | MissingSupersetValues
  | EssentialAbsent
  | MetadataNotObject string
  | SpaceDelimitedNotString
  | SpaceDelimitedBadValue string
  | BadJSON

definition opValue :: string where "opValue = ''value''"
definition opAdd :: string where "opAdd = ''add''"
definition opDefault :: string where "opDefault = ''default''"
definition opOneOf :: string where "opOneOf = ''one_of''"
definition opSubsetOf :: string where "opSubsetOf = ''subset_of''"
definition opSupersetOf :: string where "opSupersetOf = ''superset_of''"
definition opEssential :: string where "opEssential = ''essential''"

lemmas op_defs = opValue_def opAdd_def opDefault_def opOneOf_def opSubsetOf_def
  opSupersetOf_def opEssential_def

definition operatorApplicationOrder :: "string list" where
  "operatorApplicationOrder =
     [opValue, opAdd, opDefault, opOneOf, opSubsetOf, opSupersetOf, opEssential]"

definition isStandardOperator :: "string \<Rightarrow> bool" where
  "isStandardOperator name \<longleftrightarrow>
     name = opValue \<or> name = opAdd \<or> name = opDefault \<or> name = opOneOf \<or> name = opSubsetOf \<or>
     name = opSupersetOf \<or> name = opEssential"

definition newCritSet :: "string list list \<Rightarrow> string list" where
  "newCritSet crits = concat crits"

section \<open>Comparing JSON values\<close>

fun normalizeZero :: "gov \<Rightarrow> gov"
  and normalizeZero_members :: "(string \<times> gov) list \<Rightarrow> (string \<times> gov) list"
  and normalizeZero_list :: "gov list \<Rightarrow> gov list" where
  "normalizeZero (GFloat n s e) = (if s = 0 then GFloat False 0 0 else GFloat n s e)"
| "normalizeZero (GSlice xs) = GSlice (normalizeZero_list xs)"
| "normalizeZero (GMap ms) = GMap (normalizeZero_members ms)"
| "normalizeZero v = v"
| "normalizeZero_members [] = []"
| "normalizeZero_members ((k, x) # ms) = (k, normalizeZero x) # normalizeZero_members ms"
| "normalizeZero_list [] = []"
| "normalizeZero_list (x # xs) = normalizeZero x # normalizeZero_list xs"

text \<open>
  The canonical text of a value is represented by the decoded value it is the text of:
  \<^verbatim>\<open>json.Marshal\<close> writes equal decoded values alike and different ones differently.
\<close>

definition canonicalJSON :: "raw \<Rightarrow> policy_error + gov" where
  "canonicalJSON raw =
     (case raw of None \<Rightarrow> Inl BadJSON
      | Some j \<Rightarrow> (case unmarshal_any j of None \<Rightarrow> Inl BadJSON | Some v \<Rightarrow> Inr (normalizeZero v)))"

definition jsonEqual :: "json \<Rightarrow> json \<Rightarrow> policy_error + bool" where
  "jsonEqual a b =
     and_then (canonicalJSON (Some a)) (\<lambda>ak.
     and_then (canonicalJSON (Some b)) (\<lambda>bk. Inr (ak = bk)))"

definition valueSet_add :: "gov list \<Rightarrow> json \<Rightarrow> policy_error + (gov list \<times> bool)" where
  "valueSet_add s v =
     and_then (canonicalJSON (Some v)) (\<lambda>key.
       if key \<in> set s then Inr (s, False) else Inr (key # s, True))"

definition valueSet_contains :: "gov list \<Rightarrow> raw \<Rightarrow> policy_error + bool" where
  "valueSet_contains s v = and_then (canonicalJSON v) (\<lambda>key. Inr (key \<in> set s))"

definition newValueSet :: "json list \<Rightarrow> policy_error + gov list" where
  "newValueSet values =
     foldR (\<lambda>s v. and_then (valueSet_add s v) (\<lambda>(s', _). Inr s')) [] values"

definition contains :: "json list \<Rightarrow> raw \<Rightarrow> policy_error + bool" where
  "contains arr target = and_then (newValueSet arr) (\<lambda>s. valueSet_contains s target)"

definition decodeArray :: "raw \<Rightarrow> policy_error + json list" where
  "decodeArray raw =
     (case raw of None \<Rightarrow> Inr [] | Some j \<Rightarrow> of_option ExpectedArray (unmarshal_array j))"

definition isJSONNull :: "json \<Rightarrow> bool" where
  "isJSONNull raw = (unmarshal_any raw = Some GNil)"

definition unionArrays :: "raw \<Rightarrow> raw \<Rightarrow> policy_error + json" where
  "unionArrays a b =
     and_then (decodeArray a) (\<lambda>aArr.
     and_then (decodeArray b) (\<lambda>bArr.
     and_then (newValueSet aArr) (\<lambda>seen.
     and_then
       (foldR (\<lambda>(seen, out) v. and_then (valueSet_add seen v) (\<lambda>(seen', added).
            Inr (seen', if added then out @ [v] else out))) (seen, aArr) bArr)
       (\<lambda>(_, out). Inr (JArr out)))))"

definition intersectArrays :: "raw \<Rightarrow> raw \<Rightarrow> policy_error + json" where
  "intersectArrays a b =
     and_then (decodeArray a) (\<lambda>aArr.
     and_then (decodeArray b) (\<lambda>bArr.
     and_then (newValueSet bArr) (\<lambda>bSet.
     and_then
       (foldR (\<lambda>out v. and_then (valueSet_contains bSet (Some v)) (\<lambda>ok.
            Inr (if ok then out @ [v] else out))) [] aArr)
       (\<lambda>out. Inr (JArr out)))))"

section \<open>Validating one parameter's operators\<close>

definition validateOperandTypes :: "policy_ops \<Rightarrow> policy_error + unit" where
  "validateOperandTypes ops =
     and_then (check_all (\<lambda>name. case map_of ops name of None \<Rightarrow> Inr ()
          | Some raw \<Rightarrow> (case decodeArray (Some raw) of Inl _ \<Rightarrow> Inl (MustBeArray name)
                        | Inr _ \<Rightarrow> Inr ()))
        [opAdd, opOneOf, opSubsetOf, opSupersetOf]) (\<lambda>_.
     and_then (case map_of ops opEssential of None \<Rightarrow> Inr ()
          | Some raw \<Rightarrow> require (unmarshal_bool raw \<noteq> None) EssentialNotBoolean) (\<lambda>_.
     case map_of ops opDefault of None \<Rightarrow> Inr ()
     | Some raw \<Rightarrow> require (\<not> isJSONNull raw) DefaultNull))"

definition policyValues :: "string \<Rightarrow> json \<Rightarrow> policy_error + json list" where
  "policyValues op raw =
     (if isJSONNull raw then Inr []
      else case decodeArray (Some raw) of Inl _ \<Rightarrow> Inl (NotASet op) | Inr vs \<Rightarrow> Inr vs)"

definition requireSubset :: "policy_ops \<Rightarrow> string \<Rightarrow> string \<Rightarrow> policy_error + unit" where
  "requireSubset ops sub super =
     (case map_of ops sub of None \<Rightarrow> Inr () | Some subRaw \<Rightarrow>
     (case map_of ops super of None \<Rightarrow> Inr () | Some superRaw \<Rightarrow>
        and_then (policyValues sub subRaw) (\<lambda>subValues.
        and_then (policyValues super superRaw) (\<lambda>superValues.
        and_then (newValueSet superValues) (\<lambda>superSet.
        check_all (\<lambda>v. and_then (valueSet_contains superSet (Some v)) (\<lambda>found.
            require found (NotSubset sub super))) subValues)))))"

definition validateNullValueCombinations :: "policy_ops \<Rightarrow> policy_error + unit" where
  "validateNullValueCombinations ops =
     (if map_of ops opDefault \<noteq> None then Inl NullWithDefault
      else if map_of ops opAdd \<noteq> None then Inl NullWithAdd
      else case map_of ops opEssential of None \<Rightarrow> Inr ()
        | Some raw \<Rightarrow> require (unmarshal_bool raw \<noteq> Some True) NullWithEssential)"

definition validateValueCombinations :: "json \<Rightarrow> policy_ops \<Rightarrow> policy_error + unit" where
  "validateValueCombinations valueRaw ops =
     and_then (if isJSONNull valueRaw then validateNullValueCombinations ops else Inr ()) (\<lambda>_.
     and_then (case map_of ops opOneOf of None \<Rightarrow> Inr ()
        | Some raw \<Rightarrow>
            (let options = (case decodeArray (Some raw) of Inr xs \<Rightarrow> xs | Inl _ \<Rightarrow> []) in
             and_then (contains options (Some valueRaw)) (\<lambda>found.
               require found ValueNotAmongOneOf))) (\<lambda>_.
     check_all (\<lambda>(op, subsetOf). requireSubset ops op subsetOf)
       [(opAdd, opValue), (opValue, opSubsetOf), (opSupersetOf, opValue)]))"

definition validateCombination :: "policy_ops \<Rightarrow> string list \<Rightarrow> policy_error + unit" where
  "validateCombination ops crit =
     and_then (validateOperandTypes ops) (\<lambda>_.
     and_then (if map_of ops opOneOf = None then Inr ()
        else check_all (\<lambda>other. require (map_of ops other = None) (OneOfCombined other))
               [opAdd, opSubsetOf, opSupersetOf]) (\<lambda>_.
     and_then (case map_of ops opValue of None \<Rightarrow> Inr ()
        | Some valueRaw \<Rightarrow> validateValueCombinations valueRaw ops) (\<lambda>_.
     and_then (requireSubset ops opAdd opSubsetOf) (\<lambda>_.
     and_then (requireSubset ops opSupersetOf opSubsetOf) (\<lambda>_.
     check_all (\<lambda>(name, _). require (isStandardOperator name \<or> name \<notin> set crit)
        (CriticalOperator name)) ops)))))"

section \<open>Space-delimited parameters\<close>

definition spaceDelimitedParameters :: "string list" where
  "spaceDelimitedParameters = [''scope'']"

text \<open>
  \<^verbatim>\<open>strings.Fields\<close> on valid UTF-8: the encodings of the white space runes, and the
  length of the one a string starts with (0 for none).
\<close>

definition space_runes :: "nat list list" where
  "space_runes =
     [[9], [10], [11], [12], [13], [32], [194, 133], [194, 160], [225, 154, 128],
      [226, 128, 128], [226, 128, 129], [226, 128, 130], [226, 128, 131], [226, 128, 132],
      [226, 128, 133], [226, 128, 134], [226, 128, 135], [226, 128, 136], [226, 128, 137],
      [226, 128, 138], [226, 128, 168], [226, 128, 169], [226, 128, 175], [226, 129, 159],
      [227, 128, 128]]"

definition space_len :: "string \<Rightarrow> nat" where
  "space_len s =
     (case find (\<lambda>bs. map of_char (take (length bs) s) = bs) space_runes of
        None \<Rightarrow> 0 | Some bs \<Rightarrow> length bs)"

function fields_from :: "string \<Rightarrow> string \<Rightarrow> string list" where
  "fields_from w [] = (if w = [] then [] else [rev w])"
| "fields_from w (c # cs) =
     (let n = space_len (c # cs) in
      if n = 0 then fields_from (c # w) cs
      else (if w = [] then [] else [rev w]) @ fields_from [] (drop (n - 1) cs))"
  by pat_completeness auto
termination
  by (relation "measure (\<lambda>(w, s). length s)") auto

definition strings_Fields :: "string \<Rightarrow> string list" where
  "strings_Fields s = fields_from [] s"

fun join_space :: "string list \<Rightarrow> string" where
  "join_space [] = []"
| "join_space [s] = s"
| "join_space (s # t # ss) = s @ '' '' @ join_space (t # ss)"

definition splitSpaceDelimited :: "json \<Rightarrow> json" where
  "splitSpaceDelimited raw =
     (case unmarshal_any raw of
        Some (GStr s) \<Rightarrow> JArr (map JStr (strings_Fields s))
      | _ \<Rightarrow> raw)"

definition splitOneOfOptions :: "json \<Rightarrow> json" where
  "splitOneOfOptions operand =
     (case operand of JArr options \<Rightarrow> JArr (map splitSpaceDelimited options) | _ \<Rightarrow> operand)"

definition splitSpaceDelimitedOperators :: "policy_ops \<Rightarrow> policy_ops" where
  "splitSpaceDelimitedOperators ops =
     map (\<lambda>(name, operand).
        (name, if name = opValue \<or> name = opDefault then splitSpaceDelimited operand
               else if name = opOneOf then splitOneOfOptions operand else operand)) ops"

definition join_char_ok :: "char \<Rightarrow> bool" where
  "join_char_ok c = (c \<notin> {CHR '' '', CHR 0x09, CHR 0x0A, CHR 0x0D})"

definition joinSpaceDelimited :: "json \<Rightarrow> policy_error + json" where
  "joinSpaceDelimited raw =
     (case unmarshal_array raw of None \<Rightarrow> Inr raw
      | Some values \<Rightarrow>
          and_then (mapR (\<lambda>v. and_then (of_option SpaceDelimitedNotString (unmarshal_string v)) (\<lambda>s.
              and_then (require (s \<noteq> [] \<and> list_all join_char_ok s) (SpaceDelimitedBadValue s))
                (\<lambda>_. Inr s))) values)
            (\<lambda>parts. Inr (JStr (join_space parts))))"

definition parameterOperators :: "string \<Rightarrow> policy_ops \<Rightarrow> policy_ops" where
  "parameterOperators claim ops =
     (if claim \<in> set spaceDelimitedParameters then splitSpaceDelimitedOperators ops else ops)"

section \<open>Merging\<close>

definition mergeOperatorValue :: "string \<Rightarrow> json \<Rightarrow> json \<Rightarrow> policy_error + json" where
  "mergeOperatorValue name current next =
     (if name = opValue \<or> name = opDefault then
        and_then (jsonEqual current next) (\<lambda>equal.
          if equal then Inr current else Inl (OperatorValuesDiffer name))
      else if name = opAdd \<or> name = opSupersetOf then unionArrays (Some current) (Some next)
      else if name = opOneOf then
        and_then (intersectArrays (Some current) (Some next)) (\<lambda>result.
          if unmarshal_array result = Some [] then Inl NoCommonOneOf else Inr result)
      else if name = opSubsetOf then intersectArrays (Some current) (Some next)
      else if name = opEssential then
        (case unmarshal_bool current of None \<Rightarrow> Inl EssentialNotBoolean
         | Some a \<Rightarrow> (case unmarshal_bool next of None \<Rightarrow> Inl EssentialNotBoolean
            | Some b \<Rightarrow> Inr (JBool (a \<or> b))))
      else
        and_then (jsonEqual current next) (\<lambda>equal.
          if equal then Inr current else Inl (OperatorValuesDiffer name)))"

definition mergeOperators :: "policy_ops \<Rightarrow> policy_ops \<Rightarrow> string list \<Rightarrow> policy_error + policy_ops" where
  "mergeOperators current next crit =
     and_then
       (foldR (\<lambda>merged (name, nextValue).
          case map_of merged name of
            None \<Rightarrow> Inr (AList.update name nextValue merged)
          | Some currentValue \<Rightarrow>
              and_then (mergeOperatorValue name currentValue nextValue) (\<lambda>mergedValue.
                Inr (AList.update name mergedValue merged))) current next)
       (\<lambda>merged. and_then (validateCombination merged crit) (\<lambda>_. Inr merged))"

definition validatePolicy :: "metadata_policy \<Rightarrow> string list \<Rightarrow> policy_error + unit" where
  "validatePolicy policy crit =
     check_all (\<lambda>(entityType, params).
       check_all (\<lambda>(claim, ops). validateCombination (parameterOperators claim ops) crit) params)
     policy"

definition ValidatePolicy :: "metadata_policy \<Rightarrow> string list \<Rightarrow> policy_error + unit" where
  "ValidatePolicy policy crit = validatePolicy policy (newCritSet [crit])"

definition cloneParamPolicies :: "param_policies \<Rightarrow> param_policies" where
  "cloneParamPolicies params = map (\<lambda>(claim, ops). (claim, ops)) params"

definition mergeParams :: "string list \<Rightarrow> param_policies \<Rightarrow> param_policies
    \<Rightarrow> policy_error + param_policies" where
  "mergeParams crit currentParams nextParams =
     foldR (\<lambda>params (claim, nextOps).
        case map_of params claim of
          None \<Rightarrow> Inr (AList.update claim nextOps params)
        | Some currentOps \<Rightarrow>
            and_then (mergeOperators (parameterOperators claim currentOps)
                        (parameterOperators claim nextOps) crit)
              (\<lambda>mergedOps. Inr (AList.update claim mergedOps params))) currentParams nextParams"

definition MergePolicy :: "metadata_policy option \<Rightarrow> string list \<Rightarrow> metadata_policy option
    \<Rightarrow> string list \<Rightarrow> policy_error + metadata_policy option" where
  "MergePolicy current currentCrit next nextCrit =
     (let crit = newCritSet [currentCrit, nextCrit] in
      and_then (validatePolicy (case next of None \<Rightarrow> [] | Some n \<Rightarrow> n) crit) (\<lambda>_.
      case current of None \<Rightarrow> Inr next
      | Some cur \<Rightarrow>
        (case next of None \<Rightarrow> Inr current
         | Some nxt \<Rightarrow>
            and_then
              (foldR (\<lambda>merged (entityType, nextParams).
                 case map_of merged entityType of
                   None \<Rightarrow> Inr (AList.update entityType (cloneParamPolicies nextParams) merged)
                 | Some currentParams \<Rightarrow>
                     and_then (mergeParams crit currentParams nextParams) (\<lambda>params.
                       Inr (AList.update entityType params merged)))
                 (map (\<lambda>(entityType, params). (entityType, cloneParamPolicies params)) cur) nxt)
              (\<lambda>merged. Inr (Some merged)))))"

section \<open>Applying\<close>

type_synonym param_value = "raw \<times> bool"

definition applyValueOperator :: "json \<Rightarrow> policy_error + param_value" where
  "applyValueOperator operand =
     (case unmarshal_any operand of None \<Rightarrow> Inl BadJSON
      | Some GNil \<Rightarrow> Inr (None, False)
      | Some _ \<Rightarrow> Inr (Some operand, True))"

definition applyAddOperator :: "json \<Rightarrow> raw \<Rightarrow> policy_error + param_value" where
  "applyAddOperator operand value =
     and_then (unionArrays value (Some operand)) (\<lambda>merged. Inr (Some merged, True))"

definition applyDefaultOperator :: "json \<Rightarrow> raw \<Rightarrow> bool \<Rightarrow> policy_error + param_value" where
  "applyDefaultOperator operand value present =
     (if present then Inr (value, present) else Inr (Some operand, True))"

definition applyOneOfOperator :: "json \<Rightarrow> raw \<Rightarrow> bool \<Rightarrow> policy_error + param_value" where
  "applyOneOfOperator operand value present =
     (if \<not> present then Inr (value, present)
      else and_then (of_option BadJSON (unmarshal_array operand)) (\<lambda>options.
           and_then (contains options value) (\<lambda>ok.
             if ok then Inr (value, present) else Inl NotAllowedValue)))"

definition applySubsetOfOperator :: "json \<Rightarrow> raw \<Rightarrow> bool \<Rightarrow> policy_error + param_value" where
  "applySubsetOfOperator operand value present =
     (if \<not> present then Inr (value, present)
      else and_then (intersectArrays value (Some operand)) (\<lambda>result. Inr (Some result, True)))"

definition applySupersetOfOperator :: "json \<Rightarrow> raw \<Rightarrow> bool \<Rightarrow> policy_error + param_value" where
  "applySupersetOfOperator operand value present =
     (if \<not> present then Inr (value, present)
      else and_then (of_option BadJSON (unmarshal_array operand)) (\<lambda>required.
           and_then (of_option NotAnArrayParameter (Option.bind value unmarshal_array)) (\<lambda>have.
           and_then (newValueSet have) (\<lambda>haveSet.
           and_then (check_all (\<lambda>want. and_then (valueSet_contains haveSet (Some want)) (\<lambda>ok.
               require ok MissingSupersetValues)) required)
             (\<lambda>_. Inr (value, present))))))"

definition applyEssentialOperator :: "json \<Rightarrow> raw \<Rightarrow> bool \<Rightarrow> policy_error + param_value" where
  "applyEssentialOperator operand value present =
     and_then (of_option EssentialNotBoolean (unmarshal_bool operand)) (\<lambda>essential.
       if essential \<and> \<not> present then Inl EssentialAbsent else Inr (value, present))"

definition applyOperator :: "string \<Rightarrow> json \<Rightarrow> raw \<Rightarrow> bool \<Rightarrow> policy_error + param_value" where
  "applyOperator op operand value present =
     (if op = opValue then applyValueOperator operand
      else if op = opAdd then applyAddOperator operand value
      else if op = opDefault then applyDefaultOperator operand value present
      else if op = opOneOf then applyOneOfOperator operand value present
      else if op = opSubsetOf then applySubsetOfOperator operand value present
      else if op = opSupersetOf then applySupersetOfOperator operand value present
      else if op = opEssential then applyEssentialOperator operand value present
      else Inr (value, present))"

definition applyClaimPolicy :: "policy_ops \<Rightarrow> string list \<Rightarrow> raw \<Rightarrow> bool \<Rightarrow> policy_error + param_value" where
  "applyClaimPolicy ops crit value present =
     and_then
       (foldR (\<lambda>(value, present) op.
          case map_of ops op of None \<Rightarrow> Inr (value, present)
          | Some raw \<Rightarrow> applyOperator op raw value present)
        (value, present) operatorApplicationOrder)
       (\<lambda>result.
          and_then (check_all (\<lambda>(name, _). require (isStandardOperator name \<or> name \<notin> set crit)
              (CriticalOperator name)) ops)
            (\<lambda>_. Inr result))"

definition applyParameterPolicy :: "string \<Rightarrow> policy_ops \<Rightarrow> string list \<Rightarrow> raw \<Rightarrow> bool
    \<Rightarrow> policy_error + param_value" where
  "applyParameterPolicy claim ops crit value present =
     (if claim \<notin> set spaceDelimitedParameters \<or> ops = [] then
        applyClaimPolicy ops crit value present
      else
        and_then (applyClaimPolicy (splitSpaceDelimitedOperators ops) crit
            (if present then map_option splitSpaceDelimited value else value) present)
          (\<lambda>(value', present').
             if \<not> present' then Inr (value', present')
             else case value' of None \<Rightarrow> Inr (None, True)
               | Some j \<Rightarrow> and_then (joinSpaceDelimited j) (\<lambda>joined. Inr (Some joined, True))))"

definition applyEntityTypePolicy :: "param_policies \<Rightarrow> string list \<Rightarrow> json assoc
    \<Rightarrow> policy_error + json assoc" where
  "applyEntityTypePolicy params crit current =
     (let claims = remdups (map fst params @ map fst current) in
      foldR (\<lambda>resolved claim.
         let (value', present') =
               (case map_of current claim of Some j \<Rightarrow> if isJSONNull j then (None, False) else (Some j, True)
                | None \<Rightarrow> (None, False));
             ops = (case map_of params claim of None \<Rightarrow> [] | Some ops \<Rightarrow> ops)
         in and_then (applyParameterPolicy claim ops crit value' present') (\<lambda>(v, p).
              Inr (if p then AList.update claim (case v of None \<Rightarrow> JNull | Some j \<Rightarrow> j) resolved
                   else resolved))) [] claims)"

definition ApplyPolicy :: "metadata_policy option \<Rightarrow> string list \<Rightarrow> json assoc
    \<Rightarrow> policy_error + json assoc" where
  "ApplyPolicy policy critNames metadata =
     (let crit = newCritSet [critNames]; pol = (case policy of None \<Rightarrow> [] | Some p \<Rightarrow> p) in
      and_then (validatePolicy pol crit) (\<lambda>_.
      foldR (\<lambda>resolved (entityType, raw).
         and_then (of_option (MetadataNotObject entityType) (unmarshal_object raw)) (\<lambda>current.
         and_then (applyEntityTypePolicy
              (case map_of pol entityType of None \<Rightarrow> [] | Some ps \<Rightarrow> ps) crit current) (\<lambda>result.
         Inr (AList.update entityType (marshal_object result) resolved)))) [] metadata))"

definition PermittedStrings :: "policy_ops \<Rightarrow> policy_error + (string list \<times> bool)" where
  "PermittedStrings ops =
     (case map_of ops opValue of
        Some raw \<Rightarrow>
          if \<not> isJSONNull raw then
            (case unmarshal_string raw of None \<Rightarrow> Inr ([], True) | Some v \<Rightarrow> Inr ([v], True))
          else
            (case map_of ops opOneOf of None \<Rightarrow> Inr ([], False)
             | Some raw \<Rightarrow> and_then (decodeArray (Some raw)) (\<lambda>options.
                 Inr (List.map_filter unmarshal_string options, True)))
      | None \<Rightarrow>
          (case map_of ops opOneOf of None \<Rightarrow> Inr ([], False)
           | Some raw \<Rightarrow> and_then (decodeArray (Some raw)) (\<lambda>options.
               Inr (List.map_filter unmarshal_string options, True))))"

end
