(* ===== verification/Canonical.thy ===== *)
theory Canonical
  imports Prelude
begin

text \<open>
  \<^verbatim>\<open>internal/canonical/ascii.go\<close>: comparing host names and URI schemes by their ASCII
  letters only. A byte is a \<^typ>\<open>char\<close>, read as a number by \<open>of_char\<close>.
\<close>

definition IsASCII :: "string \<Rightarrow> bool" where
  "IsASCII s = list_all (\<lambda>c. (of_char c :: nat) < 128) s"

definition is_upper :: "char \<Rightarrow> bool" where
  "is_upper c = (65 \<le> (of_char c :: nat) \<and> (of_char c :: nat) \<le> 90)"

definition lowerASCIIByte :: "char \<Rightarrow> char" where
  "lowerASCIIByte c = (if is_upper c then char_of ((of_char c :: nat) + 97 - 65) else c)"

text \<open>The same on the bits of the byte, for evaluation.\<close>

lemma is_upper_bits [code]:
  "is_upper (Char b0 b1 b2 b3 b4 b5 b6 b7) =
     (\<not> b7 \<and> b6 \<and> \<not> b5 \<and> (b0 \<or> b1 \<or> b2 \<or> b3 \<or> b4) \<and> \<not> (b4 \<and> b3 \<and> (b2 \<or> b1 \<and> b0)))"
  by (cases b0; cases b1; cases b2; cases b3; cases b4; cases b5; cases b6; cases b7)
    (simp_all add: is_upper_def)

lemma lowerASCIIByte_bits [code]:
  "lowerASCIIByte (Char b0 b1 b2 b3 b4 b5 b6 b7) =
     (if is_upper (Char b0 b1 b2 b3 b4 b5 b6 b7) then Char b0 b1 b2 b3 b4 True b6 b7
      else Char b0 b1 b2 b3 b4 b5 b6 b7)"
  by (cases b0; cases b1; cases b2; cases b3; cases b4; cases b5; cases b6; cases b7)
    (simp_all add: lowerASCIIByte_def is_upper_bits char_of_def bit_Suc_0_iff)

text \<open>
  \<open>LowerASCII\<close> returns its argument itself when there is nothing to lower, and otherwise
  lowers every byte from the first upper-case one on.
\<close>

fun LowerASCII :: "string \<Rightarrow> string" where
  "LowerASCII [] = []"
| "LowerASCII (c # cs) = (if is_upper c then map lowerASCIIByte (c # cs) else c # LowerASCII cs)"

fun equal_fold_loop :: "string \<Rightarrow> string \<Rightarrow> bool" where
  "equal_fold_loop (a # as) (b # bs) =
     (if lowerASCIIByte a \<noteq> lowerASCIIByte b then False else equal_fold_loop as bs)"
| "equal_fold_loop _ _ = True"

definition EqualFoldASCII :: "string \<Rightarrow> string \<Rightarrow> bool" where
  "EqualFoldASCII a b = (if length a \<noteq> length b then False else equal_fold_loop a b)"

lemma of_char_lowerASCIIByte:
  "(of_char (lowerASCIIByte c) :: nat) = (if is_upper c then of_char c + 32 else of_char c)"
  by (simp add: lowerASCIIByte_def is_upper_def)

lemma lowerASCIIByte_not_upper [simp]: "\<not> is_upper (lowerASCIIByte c)"
  by (simp add: is_upper_def [of "lowerASCIIByte c"] of_char_lowerASCIIByte) (auto simp: is_upper_def)

lemma lowerASCIIByte_id: "\<not> is_upper c \<Longrightarrow> lowerASCIIByte c = c"
  by (simp add: lowerASCIIByte_def)

lemma lowerASCIIByte_idem [simp]: "lowerASCIIByte (lowerASCIIByte c) = lowerASCIIByte c"
  by (simp add: lowerASCIIByte_id)

text \<open>The early exit of \<open>LowerASCII\<close> makes no difference: it lowers every byte.\<close>

lemma LowerASCII_map: "LowerASCII s = map lowerASCIIByte s"
  by (induction s) (auto simp: lowerASCIIByte_id)

lemma equal_fold_loop_map:
  "length a = length b \<Longrightarrow> equal_fold_loop a b \<longleftrightarrow> map lowerASCIIByte a = map lowerASCIIByte b"
  by (induction a b rule: equal_fold_loop.induct) auto

lemma EqualFoldASCII_iff: "EqualFoldASCII a b \<longleftrightarrow> LowerASCII a = LowerASCII b"
  by (auto simp: EqualFoldASCII_def equal_fold_loop_map LowerASCII_map dest: map_eq_imp_length_eq)

lemma LowerASCII_idem [simp]: "LowerASCII (LowerASCII s) = LowerASCII s"
  by (simp add: LowerASCII_map)

end
