(* ===== verification/Strict_Json.thy ===== *)
theory Strict_Json
  imports Json
begin

text \<open>
  How \<^verbatim>\<open>encoding/json\<close> fills a struct from an object, and the checks
  \<^verbatim>\<open>internal/strictjson/strictjson.go\<close> adds to it: \<^verbatim>\<open>encoding/json\<close>
  matches a member to a field by its exact name first and by its case-folded name otherwise;
  the strict decoder refuses a member that only folds to a field's name, at every depth.
\<close>

section \<open>Folding member names\<close>

text \<open>
  \<open>FoldKey\<close>: every rune becomes the least of its fold orbit. Among the runes whose orbit holds
  an ASCII letter the non-ASCII ones are U+017F (long s, bytes \<open>C5 BF\<close>) and U+212A (Kelvin
  sign, bytes \<open>E2 84 AA\<close>). Other runes are kept as they are, so the model decides equality of
  folded names exactly when one of the two names is ASCII, as every field name of the code is.
\<close>

definition upper_byte :: "char \<Rightarrow> char" where
  "upper_byte c = (if 97 \<le> (of_char c :: nat) \<and> (of_char c :: nat) \<le> 122
     then char_of ((of_char c :: nat) - 32) else c)"

text \<open>The same on the bits of the byte, for evaluation.\<close>

lemma upper_byte_bits [code]:
  "upper_byte (Char b0 b1 b2 b3 b4 b5 b6 b7) =
     (if \<not> b7 \<and> b6 \<and> b5 \<and> (b0 \<or> b1 \<or> b2 \<or> b3 \<or> b4) \<and> \<not> (b4 \<and> b3 \<and> (b2 \<or> b1 \<and> b0))
      then Char b0 b1 b2 b3 b4 False b6 b7 else Char b0 b1 b2 b3 b4 b5 b6 b7)"
  by (cases b0; cases b1; cases b2; cases b3; cases b4; cases b5; cases b6; cases b7)
    (simp_all add: upper_byte_def char_of_def bit_Suc_0_iff)

fun FoldKey :: "string \<Rightarrow> string" where
  "FoldKey [] = []"
| "FoldKey (c # cs) =
     (if c = CHR 0xC5 \<and> take 1 cs = [CHR 0xBF] then CHR ''S'' # FoldKey (drop 1 cs)
      else if c = CHR 0xE2 \<and> take 2 cs = [CHR 0x84, CHR 0xAA] then CHR ''K'' # FoldKey (drop 2 cs)
      else upper_byte c # FoldKey cs)"

section \<open>Decoding into a struct\<close>

text \<open>The field (by its JSON name) that \<^verbatim>\<open>encoding/json\<close> decodes member \<open>k\<close> into.\<close>

definition struct_field :: "string list \<Rightarrow> string \<Rightarrow> string option" where
  "struct_field names k =
     (if k \<in> set names then Some k else find (\<lambda>n. FoldKey n = FoldKey k) names)"

text \<open>
  Decoding an object into a struct \<open>s\<close> member by member; \<open>dec name v s\<close> stores value
  \<open>v\<close> in field \<open>name\<close>. Any member of the wrong type makes the whole decoding an error.
\<close>

fun decode_members :: "string list \<Rightarrow> (string \<Rightarrow> json \<Rightarrow> 's \<Rightarrow> 's option) \<Rightarrow> (string \<times> json) list
    \<Rightarrow> 's \<Rightarrow> 's option" where
  "decode_members names dec [] s = Some s"
| "decode_members names dec ((k, v) # ms) s =
     (case struct_field names k of None \<Rightarrow> decode_members names dec ms s
      | Some n \<Rightarrow> (case dec n v s of None \<Rightarrow> None | Some s' \<Rightarrow> decode_members names dec ms s'))"

fun decode_struct :: "string list \<Rightarrow> (string \<Rightarrow> json \<Rightarrow> 's \<Rightarrow> 's option) \<Rightarrow> 's \<Rightarrow> json \<Rightarrow> 's option" where
  "decode_struct names dec s JNull = Some s"
| "decode_struct names dec s (JObj ms) = decode_members names dec ms s"
| "decode_struct names dec s _ = None"

text \<open>Storing a member in a string field: null leaves the field as it is.\<close>

fun dec_string :: "(string \<Rightarrow> 's \<Rightarrow> 's) \<Rightarrow> json \<Rightarrow> 's \<Rightarrow> 's option" where
  "dec_string set_field (JStr v) s = Some (set_field v s)"
| "dec_string set_field JNull s = Some s"
| "dec_string set_field _ s = None"

section \<open>The strict check\<close>

text \<open>
  The part of a Go type that the check looks at: a struct's members, the elements of a slice, the
  values of a map; anything else, a raw message included, is a leaf.
\<close>

datatype go_type = TStruct "(string \<times> go_type) list" | TSlice go_type | TMap go_type | TLeaf

lemma size_field: "map_of fs k = Some t \<Longrightarrow> size t < Suc (size_list (size_prod (\<lambda>_. 0) size) fs)"
  by (induction fs) (auto split: if_splits)

function check :: "go_type \<Rightarrow> json \<Rightarrow> bool" where
  "check (TStruct fs) j =
     (case j of JObj ms \<Rightarrow>
        list_all (\<lambda>(name, value).
          case map_of fs name of
            Some t \<Rightarrow> check t value
          | None \<Rightarrow> FoldKey name \<notin> FoldKey ` fst ` set fs) (obj_members ms)
      | _ \<Rightarrow> True)"
| "check (TSlice t) j = (case j of JArr xs \<Rightarrow> list_all (check t) xs | _ \<Rightarrow> True)"
| "check (TMap t) j = (case j of JObj ms \<Rightarrow> list_all (\<lambda>(_, v). check t v) (obj_members ms) | _ \<Rightarrow> True)"
| "check TLeaf j = True"
  by pat_completeness auto
termination
  by (relation "measure (\<lambda>(t, _). size t)") (auto dest: size_field)

definition CheckFieldCase :: "go_type \<Rightarrow> json \<Rightarrow> bool" where
  "CheckFieldCase t j = check t j"

definition leaves :: "string list \<Rightarrow> go_type" where
  "leaves names = TStruct (map (\<lambda>n. (n, TLeaf)) names)"

section \<open>Facts\<close>

text \<open>
  After the strict check a member fills a field only under its exact name, so decoding is that of
  a case-sensitive reader.
\<close>

lemma struct_field_strict:
  assumes "CheckFieldCase (TStruct fs) (JObj ms)" "(k, v) \<in> set ms"
  shows "struct_field (map fst fs) k = (if k \<in> fst ` set fs then Some k else None)"
proof (cases "k \<in> fst ` set fs")
  case False
  have "k \<in> fst ` set (obj_members ms)"
    using assms(2) by (force simp: keys_obj_members)
  then obtain w where w: "(k, w) \<in> set (obj_members ms)" by force
  have "map_of fs k = None" using False by (simp add: map_of_eq_None_iff)
  then have "FoldKey k \<notin> FoldKey ` fst ` set fs"
    using assms(1) w by (auto simp only: CheckFieldCase_def check.simps json.case list_all_iff
        dest!: bspec [OF _ w] split: prod.splits option.splits)
  then have "\<forall>n \<in> set (map fst fs). FoldKey n \<noteq> FoldKey k"
    by (metis imageI list.set_map)
  then have "find (\<lambda>n. FoldKey n = FoldKey k) (map fst fs) = None"
    unfolding find_None_iff by blast
  with False show ?thesis by (simp add: struct_field_def)
qed (simp add: struct_field_def)

end
