(* ===== verification/Strict_B64.thy ===== *)
theory Strict_B64
  imports Prelude
begin

text \<open>
  \<^verbatim>\<open>internal/strictb64/strictb64.go\<close>: canonical base64, as the strict decoders of
  \<^verbatim>\<open>encoding/base64\<close> behave on strings without line breaks: no characters outside the
  alphabet, no missing or surplus padding, no bits left over.
\<close>

section \<open>Digits\<close>

definition digit_value :: "bool \<Rightarrow> char \<Rightarrow> nat option" where
  "digit_value url c =
     (let n = (of_char c :: nat) in
      if 65 \<le> n \<and> n \<le> 90 then Some (n - 65)
      else if 97 \<le> n \<and> n \<le> 122 then Some (n - 71)
      else if 48 \<le> n \<and> n \<le> 57 then Some (n + 4)
      else if n = (if url then 45 else 43) then Some 62
      else if n = (if url then 95 else 47) then Some 63
      else None)"

definition digit_char :: "bool \<Rightarrow> nat \<Rightarrow> char" where
  "digit_char url v =
     char_of (if v < 26 then v + 65 else if v < 52 then v + 71 else if v < 62 then v - 4
       else if v = 62 then (if url then 45 else 43) else (if url then 95 else (47::nat)))"

lemma digit_value_char [simp]: "v < 64 \<Longrightarrow> digit_value url (digit_char url v) = Some v"
  by (auto simp: digit_value_def digit_char_def Let_def)

lemma digit_char_value: "digit_value url c = Some v \<Longrightarrow> v < 64 \<and> digit_char url v = c"
  by (auto simp: digit_value_def digit_char_def Let_def split: if_splits) (metis char_of_char)+

section \<open>Decoding and encoding\<close>

type_synonym bytes = "nat list"

fun decode_raw :: "bool \<Rightarrow> string \<Rightarrow> bytes option" where
  "decode_raw url [] = Some []"
| "decode_raw url [_] = None"
| "decode_raw url [a, b] =
     (case (digit_value url a, digit_value url b) of
        (Some x, Some y) \<Rightarrow> if y mod 16 = 0 then Some [x * 4 + y div 16] else None
      | _ \<Rightarrow> None)"
| "decode_raw url [a, b, c] =
     (case (digit_value url a, digit_value url b, digit_value url c) of
        (Some x, Some y, Some z) \<Rightarrow>
          if z mod 4 = 0 then Some [x * 4 + y div 16, y mod 16 * 16 + z div 4] else None
      | _ \<Rightarrow> None)"
| "decode_raw url (a # b # c # d # s) =
     (case (digit_value url a, digit_value url b, digit_value url c, digit_value url d) of
        (Some x, Some y, Some z, Some w) \<Rightarrow>
          map_option ((@) [x * 4 + y div 16, y mod 16 * 16 + z div 4, z mod 4 * 64 + w]) (decode_raw url s)
      | _ \<Rightarrow> None)"

text \<open>With padding the last group is completed to four characters.\<close>

fun decode_padded :: "bool \<Rightarrow> string \<Rightarrow> bytes option" where
  "decode_padded url [] = Some []"
| "decode_padded url (a # b # c # d # s) =
     (if s = [] \<and> d = CHR ''='' then
        (if c = CHR ''='' then decode_raw url [a, b] else decode_raw url [a, b, c])
      else
        (case (decode_raw url [a, b, c, d], decode_padded url s) of
           (Some g, Some r) \<Rightarrow> Some (g @ r)
         | _ \<Rightarrow> None))"
| "decode_padded url _ = None"

datatype b64_error = ErrLineBreak | CorruptInput

definition has_line_break :: "string \<Rightarrow> bool" where
  "has_line_break s \<longleftrightarrow> list_ex (\<lambda>c. c = CHR 0x0D \<or> c = CHR 0x0A) s"

definition decode :: "(string \<Rightarrow> bytes option) \<Rightarrow> string \<Rightarrow> b64_error + bytes" where
  "decode enc s = (if has_line_break s then Inl ErrLineBreak else of_option CorruptInput (enc s))"

definition URL :: "string \<Rightarrow> b64_error + bytes" where
  "URL s = decode (decode_raw True) s"

definition Std :: "string \<Rightarrow> b64_error + bytes" where
  "Std s = decode (decode_padded False) s"

text \<open>\<^verbatim>\<open>RawURLEncoding.EncodeToString\<close>, which the code writes its JOSE values with.\<close>

fun encode_raw :: "bool \<Rightarrow> bytes \<Rightarrow> string" where
  "encode_raw url [] = []"
| "encode_raw url [x] = [digit_char url (x div 4), digit_char url (x mod 4 * 16)]"
| "encode_raw url [x, y] =
     [digit_char url (x div 4), digit_char url (x mod 4 * 16 + y div 16), digit_char url (y mod 16 * 4)]"
| "encode_raw url (x # y # z # r) =
     digit_char url (x div 4) # digit_char url (x mod 4 * 16 + y div 16)
       # digit_char url (y mod 16 * 4 + z div 64) # digit_char url (z mod 64) # encode_raw url r"

section \<open>Canonicity\<close>

lemma digit_not_break: "digit_value url c = Some v \<Longrightarrow> c \<noteq> CHR 0x0D \<and> c \<noteq> CHR 0x0A"
  by (auto simp: digit_value_def split: if_splits)

lemma div_mod_lt: "(a::nat) < 64 \<Longrightarrow> b < 64 \<Longrightarrow>
    (a * 4 + b div 16) div 4 = a \<and> (a * 4 + b div 16) mod 4 = b div 16"
  by auto

text \<open>What decodes is the encoding of what it decodes to.\<close>

lemma encode_decode_raw: "decode_raw url s = Some bs \<Longrightarrow> encode_raw url bs = s"
proof (induction url s arbitrary: bs rule: decode_raw.induct)
  case (3 url a b)
  then obtain x y where x: "digit_value url a = Some x" and y: "digit_value url b = Some y"
    and bs: "y mod 16 = 0" "bs = [x * 4 + y div 16]"
    by (auto split: option.splits if_splits)
  from digit_char_value [OF x] digit_char_value [OF y] bs show ?case
    by (auto simp: div_mod_lt mult_div_mod_eq)
next
  case (4 url a b c)
  then obtain x y z where x: "digit_value url a = Some x" and y: "digit_value url b = Some y"
    and z: "digit_value url c = Some z"
    and bs: "z mod 4 = 0" "bs = [x * 4 + y div 16, y mod 16 * 16 + z div 4]"
    by (auto split: option.splits if_splits)
  have "(y mod 16 * 16 + z div 4) div 16 = y mod 16" "(y mod 16 * 16 + z div 4) mod 16 = z div 4"
    using digit_char_value [OF z] by auto
  with digit_char_value [OF x] digit_char_value [OF y] digit_char_value [OF z] bs show ?case
    by (auto simp: div_mod_lt)
next
  case (5 url a b c d s)
  then obtain x y z w r where x: "digit_value url a = Some x" and y: "digit_value url b = Some y"
    and z: "digit_value url c = Some z" and w: "digit_value url d = Some w"
    and r: "decode_raw url s = Some r"
    and bs: "bs = [x * 4 + y div 16, y mod 16 * 16 + z div 4, z mod 4 * 64 + w] @ r"
    by (auto split: option.splits)
  have "(y mod 16 * 16 + z div 4) div 16 = y mod 16" "(y mod 16 * 16 + z div 4) mod 16 = z div 4"
    "(z mod 4 * 64 + w) div 64 = z mod 4" "(z mod 4 * 64 + w) mod 64 = w"
    using digit_char_value [OF z] digit_char_value [OF w] by auto
  with digit_char_value [OF x] digit_char_value [OF y] digit_char_value [OF z] digit_char_value [OF w]
    bs 5 x y z w r show ?case
    by (auto simp: div_mod_lt)
qed auto

lemma decode_encode_raw: "list_all (\<lambda>b. b < 256) bs \<Longrightarrow> decode_raw url (encode_raw url bs) = Some bs"
proof (induction url bs rule: encode_raw.induct)
  case (2 url x)
  then show ?case by auto
next
  case (3 url x y)
  then have "x mod 4 * 16 + y div 16 < 64" "y mod 16 * 4 < 64" "x div 4 < 64" "y div 16 < 16" by auto
  moreover from this have "y div 16 div 16 = 0" "y div 16 mod 16 = y div 16" by simp_all
  ultimately show ?case by simp
next
  case (4 url x y z r)
  then have "x mod 4 * 16 + y div 16 < 64" "y mod 16 * 4 + z div 64 < 64" "x div 4 < 64" "z mod 64 < 64"
    "y div 16 < 16" "z div 64 < 4" by auto
  moreover from this have "y div 16 div 16 = 0" "y div 16 mod 16 = y div 16"
    "z div 64 div 4 = 0" "z div 64 mod 4 = z div 64" by simp_all
  ultimately show ?case using 4 by simp
qed simp

lemma decode_raw_no_break: "decode_raw url s = Some bs \<Longrightarrow> \<not> has_line_break s"
proof (induction url s arbitrary: bs rule: decode_raw.induct)
  case (5 url a b c d s)
  then obtain x y z w r where "digit_value url a = Some x" "digit_value url b = Some y"
    "digit_value url c = Some z" "digit_value url d = Some w" and r: "decode_raw url s = Some r"
    by (auto split: option.splits)
  with "5.IH" [OF refl _ _ _ _ _ _ r] show ?case
    by (simp add: has_line_break_def digit_not_break)
qed (auto simp: has_line_break_def dest: digit_not_break split: option.splits if_splits)

text \<open>
  Base64url decoding is canonical: a string decodes to bytes exactly when it is the encoding
  of those bytes, so no two strings decode alike.
\<close>

theorem URL_canonical:
  assumes "list_all (\<lambda>b. b < 256) bs"
  shows "URL s = Inr bs \<longleftrightarrow> s = encode_raw True bs"
  using assms decode_encode_raw [OF assms, of True] encode_decode_raw [of True s bs]
    decode_raw_no_break [of True s bs]
  by (auto simp: URL_def decode_def)

lemma URL_canonical_witness: "URL ''_-8'' = Inr [255, 239]"
  using URL_canonical [of "[255, 239]" "''_-8''"] by code_simp

end
