(* ===== verification/Jwk.thy ===== *)
theory Jwk
  imports Canonical Strict_Json Strict_B64
begin

text \<open>
  Keys: \<^verbatim>\<open>algorithm.go\<close>, \<^verbatim>\<open>encryption_algorithm.go\<close> and, of
  \<^verbatim>\<open>internal/jose\<close>, \<^verbatim>\<open>jwk.go\<close>, \<^verbatim>\<open>callerkey.go\<close>,
  \<^verbatim>\<open>jwkset.go\<close>, \<^verbatim>\<open>jwkset_encryption.go\<close> and the verifying halves of
  \<^verbatim>\<open>ecdsa.go\<close>, \<^verbatim>\<open>rsa.go\<close>, \<^verbatim>\<open>eddsa.go\<close>. What is not in the
  repository is the record \<open>crypto\<close>: the JSON parser (text to tree) and the primitives of Go's
  crypto library.
\<close>

section \<open>Algorithms\<close>

datatype SignatureAlgorithm = ES256 | PS256 | EdDSA

definition alg_String :: "SignatureAlgorithm \<Rightarrow> string" where
  "alg_String a = (case a of ES256 \<Rightarrow> ''ES256'' | PS256 \<Rightarrow> ''PS256'' | EdDSA \<Rightarrow> ''EdDSA'')"

definition ParseSignatureAlgorithm :: "string \<Rightarrow> SignatureAlgorithm option" where
  "ParseSignatureAlgorithm alg =
     (if alg = ''ES256'' then Some ES256
      else if alg = ''PS256'' then Some PS256
      else if alg = ''EdDSA'' then Some EdDSA
      else None)"

lemma ParseSignatureAlgorithm_iff: "ParseSignatureAlgorithm s = Some a \<longleftrightarrow> s = alg_String a"
  by (cases a) (auto simp: ParseSignatureAlgorithm_def alg_String_def)

datatype KeyManagementAlgorithm = RSAOAEP256 | ECDHESA256KW

definition kmalg_String :: "KeyManagementAlgorithm \<Rightarrow> string" where
  "kmalg_String a = (case a of RSAOAEP256 \<Rightarrow> ''RSA-OAEP-256'' | ECDHESA256KW \<Rightarrow> ''ECDH-ES+A256KW'')"

definition ParseKeyManagementAlgorithm :: "string \<Rightarrow> KeyManagementAlgorithm option" where
  "ParseKeyManagementAlgorithm alg =
     (if alg = ''RSA-OAEP-256'' then Some RSAOAEP256
      else if alg = ''ECDH-ES+A256KW'' then Some ECDHESA256KW
      else None)"

lemma ParseKeyManagementAlgorithm_iff: "ParseKeyManagementAlgorithm s = Some a \<longleftrightarrow> s = kmalg_String a"
  by (cases a) (auto simp: ParseKeyManagementAlgorithm_def kmalg_String_def)

section \<open>Public keys\<close>

text \<open>
  A \<^verbatim>\<open>crypto.PublicKey\<close> of the types the code tells apart. Curves go by name, an
  Ed25519 key is its bytes.
\<close>

datatype public_key =
    ECDSAKey string nat nat
  | ECDHKey string nat nat
  | RSAKey nat nat
  | Ed25519Key bytes

record crypto =
  json_decode :: "bytes \<Rightarrow> json option"
  json_marshal :: "bool \<Rightarrow> json \<Rightarrow> bytes"
  asn1_signature :: "bytes \<Rightarrow> ((int \<times> int) \<times> bytes) option"
  is_on_curve :: "string \<Rightarrow> nat \<Rightarrow> nat \<Rightarrow> bool"
  sha256 :: "bytes \<Rightarrow> bytes"
  sha512 :: "bytes \<Rightarrow> bytes"
  ecdsa_verify :: "nat \<Rightarrow> nat \<Rightarrow> bytes \<Rightarrow> nat \<Rightarrow> nat \<Rightarrow> bool"
  rsa_verify_pss :: "nat \<Rightarrow> nat \<Rightarrow> bytes \<Rightarrow> bytes \<Rightarrow> bool"
  ed25519_verify :: "bytes \<Rightarrow> bytes \<Rightarrow> bytes \<Rightarrow> bool"

datatype key_error =
    ErrPrivateKeyMaterial
  | ErrUnsupportedRSAExponent
  | ErrRSAKeyTooLarge nat
  | ErrInvalidKeySignature
  | MalformedJWK
  | UnsupportedKty string
  | UnsupportedCurve string
  | EmptyValue
  | BadBase64 b64_error
  | PointAtInfinity
  | NotOnCurve
  | BadEd25519Length nat
  | NonCanonicalEd25519
  | SmallOrderEd25519
  | KeyDoesNotFit
  | EmptyKey

definition p256 :: string where "p256 = ''P-256''"
definition maxRSAModulusBits :: nat where "maxRSAModulusBits = 8192"
definition maxCallerRSAModulusBits :: nat where "maxCallerRSAModulusBits = 4096"
definition rsaPublicExponent :: nat where "rsaPublicExponent = 65537"

text \<open>\<^verbatim>\<open>big.Int.SetBytes\<close>, \<^verbatim>\<open>Bytes\<close> and \<^verbatim>\<open>FillBytes\<close>,
  which panics when the value does not fit.\<close>

definition SetBytes :: "bytes \<Rightarrow> nat" where
  "SetBytes bs = foldl (\<lambda>n b. n * 256 + b) 0 bs"

fun Bytes :: "nat \<Rightarrow> bytes" where
  "Bytes n = (if n = 0 then [] else Bytes (n div 256) @ [n mod 256])"

declare Bytes.simps [simp del]

definition FillBytes :: "nat \<Rightarrow> nat \<Rightarrow> bytes option" where
  "FillBytes width n =
     (let bs = Bytes n in if width < length bs then None else Some (replicate (width - length bs) 0 @ bs))"

definition checkRSAModulusCeiling :: "public_key \<Rightarrow> nat \<Rightarrow> key_error + unit" where
  "checkRSAModulusCeiling pub maxBits =
     (case pub of RSAKey n e \<Rightarrow> require (bitlen n \<le> maxBits) (ErrRSAKeyTooLarge (bitlen n)) | _ \<Rightarrow> Inr ())"

definition ed25519P :: nat where "ed25519P = 2 ^ 255 - 19"

definition ed25519_order8 :: nat where
  "ed25519_order8 = SetBytes (rev [0x26, 0xe8, 0x95, 0x8f, 0xc2, 0xb2, 0x27, 0xb0, 0x45, 0xc3, 0xf4, 0x89,
     0xf2, 0xef, 0x98, 0xf0, 0xd5, 0xdf, 0xac, 0x05, 0xd3, 0xc6, 0x33, 0x39, 0xb1, 0x38, 0x02, 0x88, 0x6d,
     0x53, 0xfc, 0x05])"

definition ed25519SmallOrderY :: "nat list" where
  "ed25519SmallOrderY = [0, 1, ed25519P - 1, ed25519_order8, ed25519P - ed25519_order8]"

text \<open>The little-endian \<open>y\<close> coordinate of an encoded point, without the sign bit of \<open>x\<close>.\<close>

definition ed25519_y :: "bytes \<Rightarrow> nat" where
  "ed25519_y pub = SetBytes (rev (butlast pub @ [last pub mod 128]))"

definition checkEd25519PublicKey :: "bytes \<Rightarrow> key_error + unit" where
  "checkEd25519PublicKey pub =
     (if length pub \<noteq> 32 then Inl (BadEd25519Length (length pub))
      else if ed25519P \<le> ed25519_y pub then Inl NonCanonicalEd25519
      else if ed25519_y pub \<in> set ed25519SmallOrderY then Inl SmallOrderEd25519
      else Inr ())"

definition validateKeyForAlgorithm :: "public_key \<Rightarrow> SignatureAlgorithm \<Rightarrow> key_error + unit" where
  "validateKeyForAlgorithm pub alg =
     (case alg of
        ES256 \<Rightarrow> (case pub of ECDSAKey curve x y \<Rightarrow> require (curve = p256) KeyDoesNotFit | _ \<Rightarrow> Inl KeyDoesNotFit)
      | PS256 \<Rightarrow>
          (case pub of
             RSAKey n e \<Rightarrow> require (2048 \<le> bitlen n \<and> bitlen n \<le> maxRSAModulusBits) KeyDoesNotFit
           | _ \<Rightarrow> Inl KeyDoesNotFit)
      | EdDSA \<Rightarrow> (case pub of Ed25519Key k \<Rightarrow> require (length k = 32) KeyDoesNotFit | _ \<Rightarrow> Inl KeyDoesNotFit))"

definition validateKeyForKeyManagementAlgorithm :: "public_key \<Rightarrow> KeyManagementAlgorithm \<Rightarrow> key_error + unit" where
  "validateKeyForKeyManagementAlgorithm pub alg =
     (case alg of
        RSAOAEP256 \<Rightarrow>
          (case pub of
             RSAKey n e \<Rightarrow> require (2048 \<le> bitlen n \<and> bitlen n \<le> maxRSAModulusBits) KeyDoesNotFit
           | _ \<Rightarrow> Inl KeyDoesNotFit)
      | ECDHESA256KW \<Rightarrow>
          (case pub of ECDHKey curve x y \<Rightarrow> require (curve = p256) KeyDoesNotFit | _ \<Rightarrow> Inl KeyDoesNotFit))"

text \<open>
  \<^verbatim>\<open>ecdsa.PublicKey.ECDH\<close>: the same point as an ECDH key, an error when it is not on
  its curve or the curve has no ECDH.
\<close>

definition ECDH :: "crypto \<Rightarrow> string \<Rightarrow> nat \<Rightarrow> nat \<Rightarrow> key_error + public_key" where
  "ECDH C curve x y =
     (if curve \<in> {''P-256'', ''P-384'', ''P-521''} \<and> is_on_curve C curve x y then Inr (ECDHKey curve x y)
      else Inl NotOnCurve)"

text \<open>A key a caller hands over as a Go value; nil parts do not occur in \<open>public_key\<close>.\<close>

definition checkCallerKeyMaterial :: "crypto \<Rightarrow> public_key \<Rightarrow> key_error + unit" where
  "checkCallerKeyMaterial C pub =
     (case pub of
        RSAKey n e \<Rightarrow>
          and_then (checkRSAModulusCeiling pub maxCallerRSAModulusBits) (\<lambda>_.
          require (e = rsaPublicExponent) ErrUnsupportedRSAExponent)
      | ECDSAKey curve x y \<Rightarrow> and_then (ECDH C curve x y) (\<lambda>_. Inr ())
      | _ \<Rightarrow> Inr ())"

definition ValidateCallerVerificationKey :: "crypto \<Rightarrow> public_key \<Rightarrow> SignatureAlgorithm \<Rightarrow> key_error + unit" where
  "ValidateCallerVerificationKey C pub alg =
     and_then (checkCallerKeyMaterial C pub) (\<lambda>_. validateKeyForAlgorithm pub alg)"

definition ValidateCallerEncryptionKey :: "crypto \<Rightarrow> public_key \<Rightarrow> KeyManagementAlgorithm \<Rightarrow> key_error + unit" where
  "ValidateCallerEncryptionKey C pub alg =
     and_then (checkCallerKeyMaterial C pub) (\<lambda>_. validateKeyForKeyManagementAlgorithm pub alg)"

definition ValidateCallerCertificateKey :: "crypto \<Rightarrow> public_key \<Rightarrow> key_error + unit" where
  "ValidateCallerCertificateKey C pub = checkCallerKeyMaterial C pub"

section \<open>Signatures\<close>

definition verifyECDSA :: "crypto \<Rightarrow> public_key \<Rightarrow> bytes \<Rightarrow> bytes \<Rightarrow> bool" where
  "verifyECDSA C pub hash sig =
     (case pub of
        ECDSAKey curve x y \<Rightarrow>
          curve = p256 \<and> length sig = 64 \<and>
          ecdsa_verify C x y hash (SetBytes (take 32 sig)) (SetBytes (drop 32 sig))
      | _ \<Rightarrow> False)"

definition verifyRSAPSS :: "crypto \<Rightarrow> public_key \<Rightarrow> bytes \<Rightarrow> bytes \<Rightarrow> bool" where
  "verifyRSAPSS C pub hash sig =
     (case pub of
        RSAKey n e \<Rightarrow> 2048 \<le> bitlen n \<and> bitlen n \<le> maxRSAModulusBits \<and> rsa_verify_pss C n e hash sig
      | _ \<Rightarrow> False)"

definition verifyEdDSA :: "crypto \<Rightarrow> public_key \<Rightarrow> bytes \<Rightarrow> bytes \<Rightarrow> bool" where
  "verifyEdDSA C pub message sig =
     (case pub of
        Ed25519Key k \<Rightarrow> is_ok (checkEd25519PublicKey k) \<and> length sig = 64 \<and> ed25519_verify C k message sig
      | _ \<Rightarrow> False)"

definition string_bytes :: "string \<Rightarrow> bytes" where
  "string_bytes s = map of_char s"

definition verify_signature :: "crypto \<Rightarrow> SignatureAlgorithm \<Rightarrow> public_key \<Rightarrow> string \<Rightarrow> bytes \<Rightarrow> bool" where
  "verify_signature C alg pub signingInput sig =
     (case alg of
        ES256 \<Rightarrow> verifyECDSA C pub (sha256 C (string_bytes signingInput)) sig
      | PS256 \<Rightarrow> verifyRSAPSS C pub (sha256 C (string_bytes signingInput)) sig
      | EdDSA \<Rightarrow> verifyEdDSA C pub (string_bytes signingInput) sig)"

section \<open>Parsing one key\<close>

record rawJWK =
  rjKty :: string
  rjCrv :: string
  rjX :: string
  rjY :: string
  rjN :: string
  rjE :: string
  rjUse :: string
  rjAlg :: string
  rjKid :: string
  rjPrivate :: "string list"

definition rawJWK_zero :: rawJWK where
  "rawJWK_zero = \<lparr>rjKty = [], rjCrv = [], rjX = [], rjY = [], rjN = [], rjE = [], rjUse = [], rjAlg = [],
     rjKid = [], rjPrivate = []\<rparr>"

text \<open>The members that indicate private key material; \<open>rjPrivate\<close> lists the ones present.\<close>

definition private_members :: "string list" where
  "private_members = [''d'', ''k'', ''p'', ''q'', ''dp'', ''dq'', ''qi'']"

definition rawJWK_fields :: "string list" where
  "rawJWK_fields =
     [''kty'', ''crv'', ''x'', ''y'', ''n'', ''e'', ''use'', ''alg'', ''kid''] @ private_members"

definition rawJWK_dec :: "string \<Rightarrow> json \<Rightarrow> rawJWK \<Rightarrow> rawJWK option" where
  "rawJWK_dec name v h =
     (if name = ''kty'' then dec_string (\<lambda>x. rjKty_update (\<lambda>_. x)) v h
      else if name = ''crv'' then dec_string (\<lambda>x. rjCrv_update (\<lambda>_. x)) v h
      else if name = ''x'' then dec_string (\<lambda>x. rjX_update (\<lambda>_. x)) v h
      else if name = ''y'' then dec_string (\<lambda>x. rjY_update (\<lambda>_. x)) v h
      else if name = ''n'' then dec_string (\<lambda>x. rjN_update (\<lambda>_. x)) v h
      else if name = ''e'' then dec_string (\<lambda>x. rjE_update (\<lambda>_. x)) v h
      else if name = ''use'' then dec_string (\<lambda>x. rjUse_update (\<lambda>_. x)) v h
      else if name = ''alg'' then dec_string (\<lambda>x. rjAlg_update (\<lambda>_. x)) v h
      else if name = ''kid'' then dec_string (\<lambda>x. rjKid_update (\<lambda>_. x)) v h
      else Some (h\<lparr>rjPrivate := name # rjPrivate h\<rparr>))"

definition decode_rawJWK :: "json \<Rightarrow> rawJWK option" where
  "decode_rawJWK j =
     (if CheckFieldCase (leaves rawJWK_fields) j
      then decode_struct rawJWK_fields rawJWK_dec rawJWK_zero j else None)"

datatype jwkUse = jwkUseSignature | jwkUseEncryption

definition jwkUse_String :: "jwkUse \<Rightarrow> string" where
  "jwkUse_String u = (case u of jwkUseSignature \<Rightarrow> ''sig'' | jwkUseEncryption \<Rightarrow> ''enc'')"

text \<open>
  A JWK is for one use; \<open>jkSigAlg\<close> is meaningful for a signature key and \<open>jkEncAlg\<close> for
  an encryption key (\<open>None\<close> is the zero value of either).
\<close>

record JWK =
  jkPub :: public_key
  jkUse :: jwkUse
  jkSigAlg :: "SignatureAlgorithm option"
  jkEncAlg :: "KeyManagementAlgorithm option"
  jkKid :: string

definition decodeCoordinate :: "string \<Rightarrow> key_error + nat" where
  "decodeCoordinate s =
     (if s = [] then Inl EmptyValue
      else case URL s of Inl e \<Rightarrow> Inl (BadBase64 e) | Inr b \<Rightarrow> Inr (SetBytes b))"

definition decodeExponent :: "string \<Rightarrow> key_error + nat" where
  "decodeExponent s =
     and_then (decodeCoordinate s) (\<lambda>n.
     if n = rsaPublicExponent then Inr rsaPublicExponent else Inl ErrUnsupportedRSAExponent)"

definition parseECPublicKey :: "crypto \<Rightarrow> rawJWK \<Rightarrow> key_error + public_key" where
  "parseECPublicKey C raw =
     (if rjCrv raw \<noteq> p256 then Inl (UnsupportedCurve (rjCrv raw))
      else and_then (decodeCoordinate (rjX raw)) (\<lambda>x.
        and_then (decodeCoordinate (rjY raw)) (\<lambda>y.
        if x = 0 \<and> y = 0 then Inl PointAtInfinity
        else if \<not> is_on_curve C p256 x y then Inl NotOnCurve
        else Inr (ECDSAKey p256 x y))))"

definition parseRSAPublicKey :: "rawJWK \<Rightarrow> key_error + public_key" where
  "parseRSAPublicKey raw =
     and_then (decodeCoordinate (rjN raw)) (\<lambda>n.
     and_then (decodeExponent (rjE raw)) (\<lambda>e. Inr (RSAKey n e)))"

definition parseOKPPublicKey :: "rawJWK \<Rightarrow> key_error + public_key" where
  "parseOKPPublicKey raw =
     (if rjCrv raw \<noteq> ''Ed25519'' then Inl (UnsupportedCurve (rjCrv raw))
      else if rjX raw = [] then Inl EmptyValue
      else case URL (rjX raw) of
        Inl e \<Rightarrow> Inl (BadBase64 e)
      | Inr x \<Rightarrow>
          if length x \<noteq> 32 then Inl (BadEd25519Length (length x))
          else and_then (checkEd25519PublicKey x) (\<lambda>_. Inr (Ed25519Key x)))"

definition parseJWK :: "crypto \<Rightarrow> json \<Rightarrow> SignatureAlgorithm \<Rightarrow> nat \<Rightarrow> key_error + JWK" where
  "parseJWK C data alg maxRSABits =
     and_then (of_option MalformedJWK (decode_rawJWK data)) (\<lambda>raw.
     if rjPrivate raw \<noteq> [] then Inl ErrPrivateKeyMaterial
     else and_then
       (if rjKty raw = ''EC'' then parseECPublicKey C raw
        else if rjKty raw = ''RSA'' then parseRSAPublicKey raw
        else if rjKty raw = ''OKP'' then parseOKPPublicKey raw
        else Inl (UnsupportedKty (rjKty raw))) (\<lambda>pub.
     and_then (checkRSAModulusCeiling pub maxRSABits) (\<lambda>_.
     and_then (validateKeyForAlgorithm pub alg) (\<lambda>_.
     Inr \<lparr>jkPub = pub, jkUse = jwkUseSignature, jkSigAlg = Some alg, jkEncAlg = None, jkKid = []\<rparr>))))"

definition ParseJWK :: "crypto \<Rightarrow> json \<Rightarrow> SignatureAlgorithm \<Rightarrow> key_error + JWK" where
  "ParseJWK C data alg = parseJWK C data alg maxCallerRSAModulusBits"

definition NewJWK :: "public_key \<Rightarrow> SignatureAlgorithm \<Rightarrow> key_error + JWK" where
  "NewJWK pub alg =
     and_then (validateKeyForAlgorithm pub alg) (\<lambda>_.
     Inr \<lparr>jkPub = pub, jkUse = jwkUseSignature, jkSigAlg = Some alg, jkEncAlg = None, jkKid = []\<rparr>)"

definition NewEncryptionJWK :: "public_key \<Rightarrow> KeyManagementAlgorithm \<Rightarrow> key_error + JWK" where
  "NewEncryptionJWK pub alg =
     and_then (validateKeyForKeyManagementAlgorithm pub alg) (\<lambda>_.
     Inr \<lparr>jkPub = pub, jkUse = jwkUseEncryption, jkSigAlg = None, jkEncAlg = Some alg, jkKid = []\<rparr>)"

definition WithKeyID :: "JWK \<Rightarrow> string \<Rightarrow> JWK" where
  "WithKeyID k kid = k\<lparr>jkKid := kid\<rparr>"

section \<open>Writing one key\<close>

definition algString :: "JWK \<Rightarrow> string" where
  "algString k =
     (if jkUse k = jwkUseEncryption then (case jkEncAlg k of None \<Rightarrow> [] | Some a \<Rightarrow> kmalg_String a)
      else (case jkSigAlg k of None \<Rightarrow> [] | Some a \<Rightarrow> alg_String a))"

definition coordinateSize :: "string \<Rightarrow> nat" where
  "coordinateSize curve =
     (if curve = ''P-224'' then 28 else if curve = ''P-384'' then 48 else if curve = ''P-521'' then 66 else 32)"

definition coordinate_text :: "nat \<Rightarrow> nat \<Rightarrow> string option" where
  "coordinate_text width n = map_option (encode_raw True) (FillBytes width n)"

text \<open>The members that \<^verbatim>\<open>MarshalJSON\<close> sets per key type, in the order of \<open>rawJWK\<close>;
  an empty one is omitted.\<close>

definition key_members :: "public_key \<Rightarrow> (string \<times> string) list option" where
  "key_members pub =
     (case pub of
        ECDSAKey curve x y \<Rightarrow>
          (case (coordinate_text (coordinateSize curve) x, coordinate_text (coordinateSize curve) y) of
             (Some xs, Some ys) \<Rightarrow> Some [(''kty'', ''EC''), (''crv'', p256), (''x'', xs), (''y'', ys)]
           | _ \<Rightarrow> None)
      | RSAKey n e \<Rightarrow> Some [(''kty'', ''RSA''), (''n'', encode_raw True (Bytes n)), (''e'', encode_raw True (Bytes e))]
      | Ed25519Key k \<Rightarrow> Some [(''kty'', ''OKP''), (''crv'', ''Ed25519''), (''x'', encode_raw True k)]
      | ECDHKey curve x y \<Rightarrow>
          (if curve \<noteq> p256 then None
           else case (coordinate_text 32 x, coordinate_text 32 y) of
             (Some xs, Some ys) \<Rightarrow> Some [(''kty'', ''EC''), (''crv'', p256), (''x'', xs), (''y'', ys)]
           | _ \<Rightarrow> None))"

definition MarshalJSON :: "JWK \<Rightarrow> json option" where
  "MarshalJSON k =
     map_option (\<lambda>ms. JObj (map (\<lambda>(name, v). (name, JStr v))
       (filter (\<lambda>(name, v). name = ''kty'' \<or> v \<noteq> [])
          (ms @ [(''use'', jwkUse_String (jkUse k)), (''alg'', algString k), (''kid'', jkKid k)]))))
       (key_members (jkPub k))"

section \<open>Key sets\<close>

record ParsedJWK =
  pkKeyID :: string
  pkAlgorithm :: SignatureAlgorithm
  pkPublicKey :: public_key
  pkCertificates :: "bytes list"

record jwkSetAlgHint =
  jhKty :: string
  jhCrv :: string
  jhAlg :: string
  jhKid :: string
  jhUse :: string
  jhX5C :: "string list"

definition jwkSetAlgHint_zero :: jwkSetAlgHint where
  "jwkSetAlgHint_zero = \<lparr>jhKty = [], jhCrv = [], jhAlg = [], jhKid = [], jhUse = [], jhX5C = []\<rparr>"

definition jwkSetAlgHint_fields :: "string list" where
  "jwkSetAlgHint_fields = [''kty'', ''crv'', ''alg'', ''kid'', ''use'', ''x5c'']"

definition jwkSetAlgHint_dec :: "string \<Rightarrow> json \<Rightarrow> jwkSetAlgHint \<Rightarrow> jwkSetAlgHint option" where
  "jwkSetAlgHint_dec name v h =
     (if name = ''kty'' then dec_string (\<lambda>x. jhKty_update (\<lambda>_. x)) v h
      else if name = ''crv'' then dec_string (\<lambda>x. jhCrv_update (\<lambda>_. x)) v h
      else if name = ''alg'' then dec_string (\<lambda>x. jhAlg_update (\<lambda>_. x)) v h
      else if name = ''kid'' then dec_string (\<lambda>x. jhKid_update (\<lambda>_. x)) v h
      else if name = ''use'' then dec_string (\<lambda>x. jhUse_update (\<lambda>_. x)) v h
      else (case unmarshal_strings v of None \<Rightarrow> None
            | Some None \<Rightarrow> Some (h\<lparr>jhX5C := []\<rparr>)
            | Some (Some xs) \<Rightarrow> Some (h\<lparr>jhX5C := xs\<rparr>)))"

definition decode_hint :: "json \<Rightarrow> jwkSetAlgHint option" where
  "decode_hint j =
     (if CheckFieldCase (leaves jwkSetAlgHint_fields) j
      then decode_struct jwkSetAlgHint_fields jwkSetAlgHint_dec jwkSetAlgHint_zero j else None)"

definition algorithmForJWKSetHint :: "jwkSetAlgHint \<Rightarrow> SignatureAlgorithm option" where
  "algorithmForJWKSetHint h =
     (if jhAlg h \<noteq> [] then ParseSignatureAlgorithm (jhAlg h)
      else if jhKty h = ''EC'' then (if jhCrv h = ''P-256'' then Some ES256 else None)
      else if jhKty h = ''RSA'' then Some PS256
      else if jhKty h = ''OKP'' then (if jhCrv h = ''Ed25519'' then Some EdDSA else None)
      else None)"

definition decodeX5C :: "string list \<Rightarrow> bytes list" where
  "decodeX5C x5c = List.map_filter (\<lambda>s. case Std s of Inl _ \<Rightarrow> None | Inr der \<Rightarrow> Some der) x5c"

text \<open>One entry of the set; \<open>None\<close> is an entry that is skipped.\<close>

definition parse_entry :: "crypto \<Rightarrow> nat \<Rightarrow> json \<Rightarrow> ParsedJWK option" where
  "parse_entry C maxRSABits raw =
     (case decode_hint raw of
        None \<Rightarrow> None
      | Some hint \<Rightarrow>
          if jhUse hint = jwkUse_String jwkUseEncryption then None
          else case algorithmForJWKSetHint hint of None \<Rightarrow> None
            | Some alg \<Rightarrow>
                (case parseJWK C raw alg maxRSABits of Inl _ \<Rightarrow> None
                 | Inr jwk \<Rightarrow> Some \<lparr>pkKeyID = jhKid hint, pkAlgorithm = alg, pkPublicKey = jkPub jwk,
                                  pkCertificates = decodeX5C (jhX5C hint)\<rparr>))"

definition set_entries :: "json \<Rightarrow> key_error + json list" where
  "set_entries body =
     and_then (require (CheckFieldCase (leaves [''keys'']) body) MalformedJWK) (\<lambda>_.
     of_option MalformedJWK (decode_struct [''keys''] (\<lambda>_ v _. unmarshal_array v) [] body))"

definition parseJWKSet :: "crypto \<Rightarrow> json \<Rightarrow> nat \<Rightarrow> key_error + ParsedJWK list" where
  "parseJWKSet C body maxRSABits =
     and_then (set_entries body) (\<lambda>keys. Inr (List.map_filter (parse_entry C maxRSABits) keys))"

definition ParseJWKSet :: "crypto \<Rightarrow> json \<Rightarrow> key_error + ParsedJWK list" where
  "ParseJWKSet C body = parseJWKSet C body maxCallerRSAModulusBits"

definition ParseTrustedJWKSet :: "crypto \<Rightarrow> json \<Rightarrow> key_error + ParsedJWK list" where
  "ParseTrustedJWKSet C body = parseJWKSet C body maxRSAModulusBits"

section \<open>Encryption keys\<close>

record ParsedEncryptionJWK =
  peKeyID :: string
  peAlgorithm :: KeyManagementAlgorithm
  pePublicKey :: public_key

definition encryptionAlgorithmFor :: "rawJWK \<Rightarrow> KeyManagementAlgorithm option" where
  "encryptionAlgorithmFor raw =
     (if rjAlg raw \<noteq> [] then ParseKeyManagementAlgorithm (rjAlg raw)
      else if rjUse raw \<noteq> jwkUse_String jwkUseEncryption then None
      else if rjKty raw = ''RSA'' then Some RSAOAEP256
      else if rjKty raw = ''EC'' \<and> rjCrv raw = p256 then Some ECDHESA256KW
      else None)"

definition parseEncryptionEntry :: "crypto \<Rightarrow> json \<Rightarrow> ParsedEncryptionJWK option" where
  "parseEncryptionEntry C data =
     (case decode_rawJWK data of
        None \<Rightarrow> None
      | Some raw \<Rightarrow>
          if rjUse raw = jwkUse_String jwkUseSignature then None
          else if rjPrivate raw \<noteq> [] then None
          else case encryptionAlgorithmFor raw of None \<Rightarrow> None
            | Some alg \<Rightarrow>
                (case (if rjKty raw = ''RSA'' then parseRSAPublicKey raw
                       else if rjKty raw = ''EC'' then
                         and_then (parseECPublicKey C raw) (\<lambda>ec. case ec of
                             ECDSAKey curve x y \<Rightarrow> ECDH C curve x y | _ \<Rightarrow> Inl KeyDoesNotFit)
                       else Inl (UnsupportedKty (rjKty raw))) of
                   Inl _ \<Rightarrow> None
                 | Inr pub \<Rightarrow>
                     if is_ok (checkRSAModulusCeiling pub maxCallerRSAModulusBits) \<and>
                       is_ok (validateKeyForKeyManagementAlgorithm pub alg)
                     then Some \<lparr>peKeyID = rjKid raw, peAlgorithm = alg, pePublicKey = pub\<rparr> else None))"

definition ParseEncryptionJWKSet :: "crypto \<Rightarrow> json \<Rightarrow> key_error + ParsedEncryptionJWK list" where
  "ParseEncryptionJWKSet C body =
     and_then (set_entries body) (\<lambda>keys. Inr (List.map_filter (parseEncryptionEntry C) keys))"

section \<open>An example\<close>

text \<open>
  Primitives of an example: the one point of the curve is \<open>(1, 1)\<close> and a signature is valid
  when its halves are equal, as those of \<open>example_signature\<close> are: both are 1.
\<close>

definition example_crypto :: "(bytes \<Rightarrow> json option) \<Rightarrow> crypto" where
  "example_crypto parser =
     \<lparr>json_decode = parser, json_marshal = (\<lambda>_ _. [123, 125]), asn1_signature = (\<lambda>_. None),
      is_on_curve = (\<lambda>curve x y. curve = p256 \<and> x = 1 \<and> y = 1),
      sha256 = take 32, sha512 = take 64, ecdsa_verify = (\<lambda>x y hash r s. r = s),
      rsa_verify_pss = (\<lambda>n e hash sig. False), ed25519_verify = (\<lambda>k m sig. False)\<rparr>"

definition example_key :: json where
  "example_key = JObj [(''kty'', JStr ''EC''), (''crv'', JStr ''P-256''), (''kid'', JStr ''k''),
     (''x'', JStr ''AQ''), (''y'', JStr ''AQ'')]"

definition example_jwks :: json where
  "example_jwks = JObj [(''keys'', JArr [example_key])]"

definition example_sig_bytes :: bytes where
  "example_sig_bytes = (let half = replicate 31 0 @ [1] in half @ half)"

definition example_signature :: string where
  "example_signature = ''AAAAAAAAAAAAAAAAAAAAAAAAAAAAAAAAAAAAAAAAAAEAAAAAAAAAAAAAAAAAAAAAAAAAAAAAAAAAAAAAAAAAAQ''"

end
