(* ===== verification/Jose.thy ===== *)
theory Jose
  imports Jwk
begin

text \<open>
  The JOSE layer under every JWT: \<^verbatim>\<open>internal/critical\<close>,
  \<^verbatim>\<open>internal/strictjson/lossless.go\<close> and \<^verbatim>\<open>compact.go\<close>,
  \<^verbatim>\<open>header.go\<close>, \<^verbatim>\<open>typ.go\<close> of \<^verbatim>\<open>internal/jose\<close>.
\<close>

datatype jose_error =
    ErrTooLarge
  | ErrMalformed
  | ErrAlgorithmMismatch
  | ErrSignature
  | ErrUnsupportedAlgorithm
  | ErrHeaderJSON
  | ErrHeaderKey key_error
  | CritNull
  | CritNotStrings
  | CritEmpty
  | CritTwice string
  | CritRegistered string
  | CritNotUnderstood string

section \<open>The crit header parameter\<close>

definition registered :: "string list" where
  "registered =
     [''alg'', ''jku'', ''jwk'', ''kid'', ''x5u'', ''x5c'', ''x5t'', ''x5t#S256'', ''typ'', ''cty'',
      ''crit'', ''enc'', ''zip'', ''epk'', ''apu'', ''apv'', ''iv'', ''tag'', ''p2s'', ''p2c'']"

fun check_names :: "string list \<Rightarrow> string list \<Rightarrow> string list \<Rightarrow> jose_error + unit" where
  "check_names understood seen [] = Inr ()"
| "check_names understood seen (name # names) =
     (if name \<in> set seen then Inl (CritTwice name)
      else if name \<in> set registered then Inl (CritRegistered name)
      else if name \<notin> set understood then Inl (CritNotUnderstood name)
      else check_names understood (name # seen) names)"

definition critical_Check :: "raw \<Rightarrow> string list \<Rightarrow> jose_error + unit" where
  "critical_Check raw understood =
     (case raw of None \<Rightarrow> Inr ()
      | Some j \<Rightarrow>
          if j = JNull then Inl CritNull
          else case unmarshal_strings j of
            None \<Rightarrow> Inl CritNotStrings
          | Some names \<Rightarrow>
              (case names of None \<Rightarrow> Inl CritEmpty | Some [] \<Rightarrow> Inl CritEmpty
               | Some (n # ns) \<Rightarrow> check_names understood [] (n # ns)))"

section \<open>Lossless JSON text\<close>

text \<open>\<^verbatim>\<open>utf8.Valid\<close>: the well-formed byte sequences of the Unicode standard.\<close>

definition cont_byte :: "nat \<Rightarrow> bool" where "cont_byte b \<longleftrightarrow> 128 \<le> b \<and> b \<le> 191"

definition between :: "nat \<Rightarrow> nat \<Rightarrow> nat \<Rightarrow> bool" where "between lo hi b \<longleftrightarrow> lo \<le> b \<and> b \<le> hi"

definition utf8_len :: "bytes \<Rightarrow> nat" where
  "utf8_len bs =
     (case bs of
        [] \<Rightarrow> 0
      | b # r \<Rightarrow>
          if b < 128 then 1
          else if between 194 223 b \<and> list_all cont_byte (take 1 r) \<and> 1 \<le> length r then 2
          else if 2 \<le> length r \<and> list_all cont_byte (take 2 r) \<and>
              ((b = 224 \<and> between 160 191 (r ! 0)) \<or> between 225 236 b \<or>
               (b = 237 \<and> between 128 159 (r ! 0)) \<or> between 238 239 b) then 3
          else if 3 \<le> length r \<and> list_all cont_byte (take 3 r) \<and>
              ((b = 240 \<and> between 144 191 (r ! 0)) \<or> between 241 243 b \<or>
               (b = 244 \<and> between 128 143 (r ! 0))) then 4
          else 0)"

function utf8_valid :: "bytes \<Rightarrow> bool" where
  "utf8_valid [] = True"
| "utf8_valid (b # r) = (let n = utf8_len (b # r) in n \<noteq> 0 \<and> utf8_valid (drop (n - 1) r))"
  by pat_completeness auto
termination
  by (relation "measure length") auto

definition hex_value :: "nat \<Rightarrow> nat option" where
  "hex_value b =
     (if between 48 57 b then Some (b - 48)
      else if between 97 102 b then Some (b - 87)
      else if between 65 70 b then Some (b - 55)
      else None)"

definition hexRune :: "bytes \<Rightarrow> nat option" where
  "hexRune bs =
     (case map hex_value (take 4 bs) of
        [Some a, Some b, Some c, Some d] \<Rightarrow> Some (((a * 16 + b) * 16 + c) * 16 + d)
      | _ \<Rightarrow> None)"

text \<open>
  The length of the escape that starts with a backslash and a \<open>u\<close>, \<open>bs\<close> being what
  follows them.
\<close>

definition unicodeEscapeLength :: "bytes \<Rightarrow> nat option" where
  "unicodeEscapeLength bs =
     (case hexRune bs of
        None \<Rightarrow> None
      | Some r \<Rightarrow>
          if \<not> (between 55296 57343 r) then Some 6
          else if 56320 \<le> r then None
          else if take 2 (drop 4 bs) = [92, 117] then
            (case hexRune (drop 6 bs) of
               Some low \<Rightarrow> if between 56320 57343 low then Some 12 else None
             | None \<Rightarrow> None)
          else None)"

function scan_escapes :: "bytes \<Rightarrow> bool" where
  "scan_escapes [] = True"
| "scan_escapes (b # r) =
     (if b \<noteq> 92 then scan_escapes r
      else case r of
        [] \<Rightarrow> True
      | e # r' \<Rightarrow>
          if e \<noteq> 117 then scan_escapes r'
          else (case unicodeEscapeLength r' of
                  None \<Rightarrow> False
                | Some n \<Rightarrow> scan_escapes (drop (n - 2) r')))"
  by pat_completeness auto
termination
  by (relation "measure length") auto

definition DecodesLosslessly :: "bytes \<Rightarrow> bool" where
  "DecodesLosslessly raw \<longleftrightarrow> utf8_valid raw \<and> scan_escapes raw"

section \<open>Header types\<close>

definition mediaType :: "string \<Rightarrow> string" where
  "mediaType typ =
     (let typ = LowerASCII typ in
      if CHR ''/'' \<notin> set typ then ''application/'' @ typ else typ)"

definition TypeIs :: "string \<Rightarrow> string \<Rightarrow> bool" where
  "TypeIs typ want \<longleftrightarrow> mediaType typ = mediaType want"

definition explicitTypes :: "string list" where
  "explicitTypes =
     [''dpop+jwt'', ''at+jwt'', ''oauth-authz-req+jwt'', ''oauth-client-attestation+jwt'',
      ''oauth-client-attestation-pop+jwt'', ''client-authentication+jwt'', ''entity-statement+jwt'',
      ''trust-mark+jwt'', ''trust-mark-delegation+jwt'', ''trust-mark-status-response+jwt'',
      ''resolve-response+jwt'', ''jwk-set+jwt'', ''logout+jwt'', ''secevent+jwt'',
      ''token-introspection+jwt'']"

definition RequireGenericType :: "string \<Rightarrow> bool" where
  "RequireGenericType typ \<longleftrightarrow> typ = [] \<or> TypeIs typ ''JWT''"

definition RefuseOtherExplicitType :: "string \<Rightarrow> string list \<Rightarrow> bool" where
  "RefuseOtherExplicitType typ own \<longleftrightarrow>
     typ = [] \<or> list_ex (TypeIs typ) own \<or> \<not> list_ex (TypeIs typ) explicitTypes"

section \<open>Headers\<close>

record Header =
  hdAlgorithm :: SignatureAlgorithm
  hdType :: string
  hdKeyID :: string
  hdJWK :: "JWK option"
  hdX5C :: raw

record rawHeader =
  rhAlg :: string
  rhTyp :: string
  rhKid :: string
  rhJwk :: raw
  rhX5C :: raw
  rhCrit :: raw

definition rawHeader_zero :: rawHeader where
  "rawHeader_zero = \<lparr>rhAlg = [], rhTyp = [], rhKid = [], rhJwk = None, rhX5C = None, rhCrit = None\<rparr>"

definition rawHeader_fields :: "string list" where
  "rawHeader_fields = [''alg'', ''typ'', ''kid'', ''jwk'', ''x5c'', ''crit'']"

definition rawHeader_dec :: "string \<Rightarrow> json \<Rightarrow> rawHeader \<Rightarrow> rawHeader option" where
  "rawHeader_dec name v h =
     (if name = ''alg'' then dec_string (\<lambda>x. rhAlg_update (\<lambda>_. x)) v h
      else if name = ''typ'' then dec_string (\<lambda>x. rhTyp_update (\<lambda>_. x)) v h
      else if name = ''kid'' then dec_string (\<lambda>x. rhKid_update (\<lambda>_. x)) v h
      else if name = ''jwk'' then Some (h\<lparr>rhJwk := Some v\<rparr>)
      else if name = ''x5c'' then Some (h\<lparr>rhX5C := Some v\<rparr>)
      else Some (h\<lparr>rhCrit := Some v\<rparr>))"

definition parseHeader :: "crypto \<Rightarrow> bytes \<Rightarrow> jose_error + Header" where
  "parseHeader C data =
     and_then (require (DecodesLosslessly data) ErrHeaderJSON) (\<lambda>_.
     and_then (of_option ErrHeaderJSON (json_decode C data)) (\<lambda>j.
     and_then (require (CheckFieldCase (leaves rawHeader_fields) j) ErrHeaderJSON) (\<lambda>_.
     and_then (of_option ErrHeaderJSON
         (decode_struct rawHeader_fields rawHeader_dec rawHeader_zero j)) (\<lambda>raw.
     and_then (critical_Check (rhCrit raw) []) (\<lambda>_.
     and_then (of_option ErrUnsupportedAlgorithm (ParseSignatureAlgorithm (rhAlg raw))) (\<lambda>alg.
     let h = \<lparr>hdAlgorithm = alg, hdType = rhTyp raw, hdKeyID = rhKid raw, hdJWK = None,
              hdX5C = rhX5C raw\<rparr> in
     case rhJwk raw of
       None \<Rightarrow> Inr h
     | Some jwk \<Rightarrow>
         (case ParseJWK C jwk alg of
            Inl e \<Rightarrow> Inl (ErrHeaderKey e)
          | Inr k \<Rightarrow> Inr (h\<lparr>hdJWK := Some k\<rparr>))))))))"

section \<open>Compact serialization\<close>

record Compact =
  cmHeader :: "Header"
  cmPayload :: bytes
  cmSigningInput :: string
  cmSignature :: bytes

definition DefaultMaxCompactBytes :: int where "DefaultMaxCompactBytes = 16 * 1024"

fun split_on :: "char \<Rightarrow> string \<Rightarrow> string list" where
  "split_on sep [] = [[]]"
| "split_on sep (c # cs) =
     (if c = sep then [] # split_on sep cs
      else case split_on sep cs of [] \<Rightarrow> [[c]] | w # ws \<Rightarrow> (c # w) # ws)"

definition b64_field :: "string \<Rightarrow> jose_error + bytes" where
  "b64_field s = (case URL s of Inl _ \<Rightarrow> Inl ErrMalformed | Inr bs \<Rightarrow> Inr bs)"

definition ParseCompactMax :: "crypto \<Rightarrow> string \<Rightarrow> int \<Rightarrow> jose_error + Compact" where
  "ParseCompactMax C s maxBytes =
     (if maxBytes < int (length s) then Inl ErrTooLarge
      else case split_on (CHR ''.'') s of
        [headerB64, payloadB64, sigB64] \<Rightarrow>
          if headerB64 = [] \<or> payloadB64 = [] \<or> sigB64 = [] then Inl ErrMalformed
          else
            and_then (b64_field headerB64) (\<lambda>headerJSON.
            and_then (parseHeader C headerJSON) (\<lambda>header.
            and_then (b64_field payloadB64) (\<lambda>payload.
            and_then (require (DecodesLosslessly payload) ErrMalformed) (\<lambda>_.
            and_then (b64_field sigB64) (\<lambda>sig.
            Inr \<lparr>cmHeader = header, cmPayload = payload,
                 cmSigningInput = headerB64 @ ''.'' @ payloadB64, cmSignature = sig\<rparr>)))))
      | _ \<Rightarrow> Inl ErrMalformed)"

definition ParseCompact :: "crypto \<Rightarrow> string \<Rightarrow> jose_error + Compact" where
  "ParseCompact C s = ParseCompactMax C s DefaultMaxCompactBytes"

definition Compact_Verify :: "crypto \<Rightarrow> Compact \<Rightarrow> public_key \<Rightarrow> SignatureAlgorithm \<Rightarrow> jose_error + unit" where
  "Compact_Verify C c pub alg =
     (if hdAlgorithm (cmHeader c) \<noteq> alg then Inl ErrAlgorithmMismatch
      else require (verify_signature C alg pub (cmSigningInput c) (cmSignature c)) ErrSignature)"

section \<open>Properties\<close>

lemma split_on_ne [simp]: "split_on sep s \<noteq> []"
  by (induction s) (auto split: list.splits)

fun join_on :: "char \<Rightarrow> string list \<Rightarrow> string" where
  "join_on sep [] = []"
| "join_on sep [s] = s"
| "join_on sep (s # t # ss) = s @ sep # join_on sep (t # ss)"

lemma join_split: "join_on sep (split_on sep s) = s"
proof (induction s)
  case (Cons c s)
  obtain w ws where "split_on sep s = w # ws" by (cases "split_on sep s") auto
  with Cons show ?case by (cases ws) auto
qed simp

lemma b64_field_Inr: "b64_field s = Inr bs \<Longrightarrow> encode_raw True bs = s"
  by (auto simp: b64_field_def URL_def decode_def encode_decode_raw split: sum.splits if_splits)

lemma ParseCompactMax_Inr:
  assumes "ParseCompactMax C s maxBytes = Inr c"
  obtains h p g hb where "s = h @ ''.'' @ p @ ''.'' @ g" "int (length s) \<le> maxBytes"
    "b64_field h = Inr hb" "parseHeader C hb = Inr (cmHeader c)"
    "b64_field p = Inr (cmPayload c)" "b64_field g = Inr (cmSignature c)"
    "cmSigningInput c = h @ ''.'' @ p"
proof -
  from assms obtain h p g where sp: "split_on (CHR ''.'') s = [h, p, g]" and l: "int (length s) \<le> maxBytes"
    by (auto simp: ParseCompactMax_def split: if_splits list.splits)
  from join_split [of "CHR ''.''" s] have "s = h @ ''.'' @ p @ ''.'' @ g" by (simp add: sp)
  with assms l sp that show ?thesis
    by (auto simp: ParseCompactMax_def and_then_eq_Inr split: if_splits)
qed

text \<open>
  A compact JWS parses in one way only: the token is the canonical base64url of the decoded
  header, payload and signature, and the input the signature is checked over is the token up to
  its second dot, so nothing outside what was signed (and no second spelling of it) is accepted.
\<close>

theorem ParseCompact_canonical:
  assumes "ParseCompact C s = Inr c"
  shows "int (length s) \<le> DefaultMaxCompactBytes \<and>
    s = cmSigningInput c @ ''.'' @ encode_raw True (cmSignature c) \<and>
    (\<exists>hb. parseHeader C hb = Inr (cmHeader c) \<and>
      cmSigningInput c = encode_raw True hb @ ''.'' @ encode_raw True (cmPayload c))"
  using assms unfolding ParseCompact_def
  by (rule ParseCompactMax_Inr) (auto dest!: b64_field_Inr)

definition toy_crypto :: crypto where
  "toy_crypto = example_crypto (\<lambda>bs. if bs = [123, 125] then Some (JObj [])
       else Some (JObj [(''alg'', JStr ''ES256''), (''kid'', JStr ''k'')]))"

lemma ParseCompact_canonical_witness:
  "\<exists>c. ParseCompact toy_crypto ''AA.e30.Zm8'' = Inr c \<and> cmSigningInput c = ''AA.e30''"
proof -
  have p: "ParseCompact toy_crypto ''AA.e30.Zm8'' =
      Inr \<lparr>cmHeader = \<lparr>hdAlgorithm = ES256, hdType = [], hdKeyID = ''k'', hdJWK = None, hdX5C = None\<rparr>,
           cmPayload = [123, 125], cmSigningInput = ''AA.e30'', cmSignature = [102, 111]\<rparr>"
    by code_simp
  from ParseCompact_canonical [OF p] p show ?thesis by simp
qed

text \<open>
  A signature is only ever checked under the algorithm the caller states, and a key of a set
  is only offered under an algorithm of the supported ones that its own entry names or its key
  type implies, never under one the token chose.
\<close>

theorem Verify_algorithm:
  assumes "Compact_Verify C c (pkPublicKey k) alg = Inr ()"
    and "ParseJWKSet C jwks = Inr keys" "k \<in> set keys"
  shows "hdAlgorithm (cmHeader c) = alg \<and>
    verify_signature C alg (pkPublicKey k) (cmSigningInput c) (cmSignature c) \<and>
    (\<exists>raw hint jwk. decode_hint raw = Some hint \<and> jhUse hint \<noteq> ''enc'' \<and> pkKeyID k = jhKid hint \<and>
      algorithmForJWKSetHint hint = Some (pkAlgorithm k) \<and>
      ParseJWK C raw (pkAlgorithm k) = Inr jwk \<and> jkPub jwk = pkPublicKey k)"
proof -
  from assms(2,3) obtain raw where "parse_entry C maxCallerRSAModulusBits raw = Some k"
    by (auto simp: ParseJWKSet_def parseJWKSet_def and_then_eq_Inr map_filter_def)
  then obtain hint jwk where
    "decode_hint raw = Some hint \<and> jhUse hint \<noteq> ''enc'' \<and> pkKeyID k = jhKid hint \<and>
      algorithmForJWKSetHint hint = Some (pkAlgorithm k) \<and>
      ParseJWK C raw (pkAlgorithm k) = Inr jwk \<and> jkPub jwk = pkPublicKey k"
    by (auto simp: parse_entry_def ParseJWK_def jwkUse_String_def split: if_splits option.splits sum.splits)
  moreover have "hdAlgorithm (cmHeader c) = alg \<and>
      verify_signature C alg (pkPublicKey k) (cmSigningInput c) (cmSignature c)"
    using assms(1) by (simp add: Compact_Verify_def split: if_splits)
  ultimately show ?thesis by blast
qed

lemma Verify_algorithm_witness:
  "\<exists>c keys. ParseJWKSet toy_crypto example_jwks = Inr keys \<and> keys \<noteq> [] \<and>
      Compact_Verify toy_crypto c (pkPublicKey (hd keys)) ES256 = Inr () \<and> hdAlgorithm (cmHeader c) = ES256"
proof -
  let ?k = "\<lparr>pkKeyID = ''k'', pkAlgorithm = ES256, pkPublicKey = ECDSAKey p256 1 1, pkCertificates = []\<rparr>"
  let ?c = "\<lparr>cmHeader = \<lparr>hdAlgorithm = ES256, hdType = [], hdKeyID = ''k'', hdJWK = None, hdX5C = None\<rparr>,
     cmPayload = [], cmSigningInput = ''x'', cmSignature = example_sig_bytes\<rparr>"
  have keys: "ParseJWKSet toy_crypto example_jwks = Inr [?k]" by code_simp
  have v: "Compact_Verify toy_crypto ?c (pkPublicKey ?k) ES256 = Inr ()" by code_simp
  from Verify_algorithm [OF v keys] have "hdAlgorithm (cmHeader ?c) = ES256" by simp
  with keys v show ?thesis by (intro exI [of _ ?c] exI [of _ "[?k]"]) simp
qed

end
