(* ===== verification/Timeutil.thy ===== *)
theory Timeutil
  imports Json
begin

text \<open>
  Times and durations: \<^verbatim>\<open>time.Time\<close> and \<^verbatim>\<open>time.Duration\<close> as the code
  uses them, \<^verbatim>\<open>internal/timeutil\<close> and \<^verbatim>\<open>internal/numericdate\<close>.
\<close>

section \<open>Go's time package\<close>

definition second :: duration where "second = 10 ^ 9"

text \<open>Two's complement at 64 bits, for the sums the code does not guard.\<close>

definition wrap64 :: "int \<Rightarrow> int" where
  "wrap64 x = (x + 2 ^ 63) mod 2 ^ 64 - 2 ^ 63"

definition time_unix :: "int \<Rightarrow> time" where "time_unix s = s * second"

definition zero_time :: time where "zero_time = - 62135596800 * second"

text \<open>\<^verbatim>\<open>Time.Sub\<close> saturates at the ends of \<^verbatim>\<open>Duration\<close>.\<close>

definition time_sub :: "time \<Rightarrow> time \<Rightarrow> duration" where
  "time_sub t u = max minInt64 (min maxInt64 (t - u))"

lemma int64_bounds: "minInt64 = -9223372036854775808" "maxInt64 = 9223372036854775807"
  by (simp_all add: minInt64_def maxInt64_def)

lemma wrap64_id [simp]: "minInt64 \<le> x \<Longrightarrow> x \<le> maxInt64 \<Longrightarrow> wrap64 x = x"
  unfolding wrap64_def int64_bounds by (subst mod_pos_pos_trivial) auto

lemma time_sub_gt: "minInt64 \<le> d \<Longrightarrow> d < maxInt64 \<Longrightarrow> d < time_sub t u \<longleftrightarrow> d < t - u"
  by (auto simp: time_sub_def int64_bounds)

section \<open>Saturating addition\<close>

fun saturating_loop :: "duration \<Rightarrow> duration list \<Rightarrow> duration" where
  "saturating_loop acc [] = acc"
| "saturating_loop acc (d # ds) =
     (if 0 < d \<and> maxInt64 - d < acc then maxInt64 else saturating_loop (wrap64 (acc + d)) ds)"

definition SaturatingAdd :: "duration list \<Rightarrow> duration" where
  "SaturatingAdd durations = saturating_loop 0 durations"

lemma saturating_loop_nonneg:
  assumes "list_all (\<lambda>d. 0 \<le> d \<and> d \<le> maxInt64) ds" "0 \<le> acc" "acc \<le> maxInt64"
  shows "saturating_loop acc ds = min maxInt64 (acc + sum_list ds)"
  using assms
proof (induction ds arbitrary: acc)
  case (Cons d ds)
  have nn: "0 \<le> sum_list ds"
    using Cons.prems(1) by (intro sum_list_nonneg) (simp add: list_all_iff)
  show ?case
  proof (cases "acc + d \<le> maxInt64")
    case True
    have "minInt64 \<le> acc + d" using Cons.prems by (simp add: int64_bounds)
    with True have "wrap64 (acc + d) = acc + d" by simp
    with True Cons show ?thesis by (simp add: add.assoc)
  next
    case False
    with Cons.prems nn show ?thesis by simp
  qed
qed simp

lemma SaturatingAdd_pair:
  assumes "0 \<le> a" "a \<le> maxInt64" "0 \<le> b" "b \<le> maxInt64"
  shows "SaturatingAdd [a, b] = min maxInt64 (a + b)"
  using saturating_loop_nonneg [of "[a, b]" 0] assms by (simp add: SaturatingAdd_def int64_bounds)

text \<open>
  For durations that are not negative the saturating sum is the exact sum capped at the
  largest duration: it never wraps to a negative one, so a record sized with it never expires
  earlier than any of the lifetimes in the acc.
\<close>

theorem SaturatingAdd_exact:
  assumes "list_all (\<lambda>d. 0 \<le> d \<and> d \<le> maxInt64) ds"
  shows "SaturatingAdd ds = min maxInt64 (sum_list ds) \<and> (\<forall>d \<in> set ds. d \<le> SaturatingAdd ds)"
proof -
  have "SaturatingAdd ds = min maxInt64 (sum_list ds)"
    using saturating_loop_nonneg [OF assms, of 0] by (simp add: SaturatingAdd_def int64_bounds)
  moreover have "d \<le> sum_list ds" if "d \<in> set ds" for d
    using that assms by (intro member_le_sum_list) (auto simp: list_all_iff)
  ultimately show ?thesis using assms by (auto simp: list_all_iff)
qed

lemma SaturatingAdd_exact_witness: "SaturatingAdd [maxInt64, 5] = maxInt64"
  using SaturatingAdd_exact [of "[maxInt64, 5]"] by (simp add: int64_bounds)

section \<open>NumericDate\<close>

definition MaxNumericDate :: int where "MaxNumericDate = 253402300799"

text \<open>
  An integer literal within \<^verbatim>\<open>int64\<close> is read exactly; any other number is read as a
  \<^verbatim>\<open>float64\<close> and floored.
\<close>

definition float_floor :: "bool \<Rightarrow> nat \<Rightarrow> int \<Rightarrow> int" where
  "float_floor neg s ex =
     (let v = (if neg then - int s else int s) in
      if 0 \<le> ex then v * 2 ^ nat ex else v div 2 ^ nat (- ex))"

definition float_fits :: "bool \<Rightarrow> nat \<Rightarrow> int \<Rightarrow> bool" where
  "float_fits neg s ex \<longleftrightarrow>
     (if neg then int s * 2 ^ nat ex \<le> 2 ^ 63 * 2 ^ nat (- ex)
      else int s * 2 ^ nat ex < 2 ^ 63 * 2 ^ nat (- ex))"

fun numericdate_parse :: "json \<Rightarrow> int option" where
  "numericdate_parse JNull = Some 0"
| "numericdate_parse (JNum neg m e) =
     (case unmarshal_int64 (JNum neg m e) of
        Some n \<Rightarrow> Some n
      | None \<Rightarrow>
          (case parse_float64 neg m (case e of None \<Rightarrow> 0 | Some e \<Rightarrow> e) of
             None \<Rightarrow> None
           | Some (n, s, ex) \<Rightarrow> if float_fits n s ex then Some (float_floor n s ex) else None))"
| "numericdate_parse _ = None"

definition NumericDate_Parse :: "json \<Rightarrow> int option" where
  "NumericDate_Parse raw =
     (case numericdate_parse raw of None \<Rightarrow> None
      | Some n \<Rightarrow> if MaxNumericDate < n then None else Some n)"

lemma float_floor_range:
  assumes "float_fits neg s ex"
  shows "minInt64 \<le> float_floor neg s ex \<and> float_floor neg s ex \<le> maxInt64"
proof (cases "0 \<le> ex")
  case True
  obtain v where v: "int s * 2 ^ nat ex = v" "0 \<le> v" by simp
  with True assms show ?thesis
    by (auto simp: v(1) float_fits_def float_floor_def Let_def minInt64_def maxInt64_def split: if_splits)
next
  case False
  define p :: int where "p = 2 ^ nat (- ex)"
  have p: "0 < p" by (simp add: p_def)
  have "float_floor neg s ex = (if neg then - int s else int s) div p"
    using False by (simp add: float_floor_def p_def)
  moreover have "if neg then int s \<le> 2 ^ 63 * p else int s < 2 ^ 63 * p"
    using assms False by (cases neg) (simp_all add: float_fits_def p_def)
  moreover have "- (2 ^ 63) \<le> - int s div p" if "int s \<le> 2 ^ 63 * p"
  proof -
    have "- (2 ^ 63) * p div p = - (2 ^ 63)" using p by (intro nonzero_mult_div_cancel_right) simp
    with zdiv_mono1 [of "- (2 ^ 63) * p" "- int s" p] p that show ?thesis by linarith
  qed
  moreover have "- int s div p \<le> maxInt64"
    using p zdiv_mono1 [of "- int s" 0 p] by (simp add: int64_bounds)
  moreover have "int s div p < 2 ^ 63" if "int s < 2 ^ 63 * p"
  proof -
    have "int s div p * p \<le> int s"
      using div_mult_mod_eq [of "int s" p] pos_mod_sign [OF p, of "int s"] by linarith
    with that have "int s div p * p < 2 ^ 63 * p" by linarith
    with p show ?thesis by (simp only: mult_less_cancel_right_pos)
  qed
  moreover have "0 \<le> int s div p" using p by (simp add: pos_imp_zdiv_nonneg_iff)
  ultimately show ?thesis by (auto simp: minInt64_def maxInt64_def)
qed

end
