(* ===== verification/Url.thy ===== *)
theory Url
  imports Canonical
begin

text \<open>
  What the code reads of \<^verbatim>\<open>net/url\<close>. \<^verbatim>\<open>url.Parse\<close> itself is a
  parameter of the development; \<open>Hostname\<close> is the method of its result.
\<close>

record url =
  uScheme :: string
  uHasUser :: bool
  uHost :: string
  uPath :: string
  uRawQuery :: string
  uForceQuery :: bool
  uOpaque :: string
  uRawPath :: string
  uOmitHost :: bool

definition is_digit :: "char \<Rightarrow> bool" where
  "is_digit c \<longleftrightarrow> 48 \<le> (of_char c :: nat) \<and> (of_char c :: nat) \<le> 57"

fun validOptionalPort :: "string \<Rightarrow> bool" where
  "validOptionalPort [] = True"
| "validOptionalPort (c # cs) = (c = CHR '':'' \<and> list_all is_digit cs)"

text \<open>The host before the last colon, when what follows it is a port; IPv6 brackets removed.\<close>

definition last_colon :: "string \<Rightarrow> nat option" where
  "last_colon s = (case takeWhile (\<lambda>c. c \<noteq> CHR '':'') (rev s) of
     t \<Rightarrow> if length t = length s then None else Some (length s - length t - 1))"

definition strip_port :: "string \<Rightarrow> string" where
  "strip_port host =
     (case last_colon host of None \<Rightarrow> host
      | Some i \<Rightarrow> if validOptionalPort (drop i host) then take i host else host)"

definition Hostname :: "url \<Rightarrow> string" where
  "Hostname u =
     (let host = strip_port (uHost u) in
      if has_prefix host ''['' \<and> has_prefix (rev host) '']'' then butlast (tl host) else host)"

lemma Hostname_examples:
  "Hostname \<lparr>uScheme = s, uHasUser = b, uHost = ''a.example:8443'', uPath = p, uRawQuery = q, uForceQuery = f,
     uOpaque = op, uRawPath = rp, uOmitHost = om\<rparr>
     = ''a.example''"
  "Hostname \<lparr>uScheme = s, uHasUser = b, uHost = ''[::1]'', uPath = p, uRawQuery = q, uForceQuery = f,
     uOpaque = op, uRawPath = rp, uOmitHost = om\<rparr> = ''::1''"
  by (simp_all add: Hostname_def strip_port_def last_colon_def is_digit_def has_prefix_def)

end
