(* ===== verification/Entity_Statement.thy ===== *)
theory Entity_Statement
  imports Policy Jose Timeutil Url
begin

text \<open>
  Entity Statements: \<^verbatim>\<open>claims.go\<close>, \<^verbatim>\<open>claims_validation.go\<close> and
  \<^verbatim>\<open>verify.go\<close> of \<^verbatim>\<open>internal/federation\<close>. Parsing is modelled from the
  compact token to the typed claims, verification from those to the trusted claims. The
  environment adds \<^verbatim>\<open>url.Parse\<close> and \<^verbatim>\<open>net.ParseIP\<close> to the
  cryptographic primitives.
\<close>

record fed_env =
  crypto_of :: "crypto"
  url_parse :: "string \<Rightarrow> url option"
  parse_ip :: "string \<Rightarrow> bool"

section \<open>Claims\<close>

record NamingConstraints =
  ncPermitted :: "string list"
  ncExcluded :: "string list"

record Constraints =
  coMaxPathLength :: int
  coHasMaxPathLength :: bool
  coNamingConstraints :: "NamingConstraints option"
  coAllowedEntityTypes :: "string list option"

record RawTrustMark =
  rtTrustMarkType :: string
  rtTrustMark :: string

record TrustMarkOwner =
  toSubject :: string
  toJWKS :: json

record Claims =
  clIssuer :: string
  clSubject :: string
  clIssuedAt :: time
  clExpiresAt :: time
  clJWKS :: json
  clMetadata :: "json assoc option"
  clAuthorityHints :: "string list"
  clTrustAnchorHints :: "string list"
  clMetadataPolicy :: "metadata_policy option"
  clMetadataPolicyCritical :: "string list"
  clSourceEndpoint :: string
  clConstraints :: "Constraints option"
  clTrustMarks :: "RawTrustMark list"
  clTrustMarkOwners :: "TrustMarkOwner assoc"
  clTrustMarkIssuers :: "string list assoc"

datatype stmt_error =
    JoseError jose_error
  | ErrWrongType
  | ErrMissingKeyID
  | ErrForbiddenHeader string
  | ErrMalformedClaims string
  | ErrMalformedJWKS
  | ErrUnsupportedCriticalClaim
  | BadVerifyPolicy
  | ErrIssuerMismatch
  | ErrSubjectMismatch
  | ErrExpired
  | ErrLifetimeExceeded
  | ErrNotYetValid

definition jwtType :: string where "jwtType = ''entity-statement+jwt''"

section \<open>Duplicate member names\<close>

definition maxJSONDepth :: nat where "maxJSONDepth = 64"

text \<open>
  The walk over the payload's tokens: containers nested too deeply and objects that repeat a
  member name are refused, in the order the tokens come.
\<close>

fun checkJSONValue :: "nat \<Rightarrow> json \<Rightarrow> bool"
  and checkJSONArray :: "nat \<Rightarrow> json list \<Rightarrow> bool"
  and checkJSONObject :: "nat \<Rightarrow> string list \<Rightarrow> (string \<times> json) list \<Rightarrow> bool" where
  "checkJSONValue depth (JArr xs) = (depth < maxJSONDepth \<and> checkJSONArray depth xs)"
| "checkJSONValue depth (JObj ms) = (depth < maxJSONDepth \<and> checkJSONObject depth [] ms)"
| "checkJSONValue depth _ = True"
| "checkJSONArray depth [] = True"
| "checkJSONArray depth (x # xs) = (checkJSONValue (depth + 1) x \<and> checkJSONArray depth xs)"
| "checkJSONObject depth seen [] = True"
| "checkJSONObject depth seen ((name, v) # ms) =
     (if name \<in> set seen then False
      else checkJSONValue (depth + 1) v \<and> checkJSONObject depth (name # seen) ms)"

definition refuseDuplicateMembers :: "json \<Rightarrow> stmt_error + unit" where
  "refuseDuplicateMembers payload = require (checkJSONValue 0 payload) (ErrMalformedClaims ''duplicate'')"

section \<open>Single claims\<close>

definition subordinateOnlyClaims :: "string list" where
  "subordinateOnlyClaims =
     [''metadata_policy'', ''metadata_policy_crit'', ''constraints'', ''source_endpoint'']"

definition entityConfigurationOnlyClaims :: "string list" where
  "entityConfigurationOnlyClaims =
     [''authority_hints'', ''trust_anchor_hints'', ''trust_marks'', ''trust_mark_issuers'', ''trust_mark_owners'']"

definition checkParsedClaimPlacement :: "json assoc \<Rightarrow> bool \<Rightarrow> stmt_error + unit" where
  "checkParsedClaimPlacement raw selfSigned =
     (let forbidden = (if \<not> selfSigned then entityConfigurationOnlyClaims else subordinateOnlyClaims) in
      check_all (\<lambda>claim. require (map_of raw claim = None) (ErrMalformedClaims claim)) forbidden)"

definition explicitRegistrationClaims :: "string list" where
  "explicitRegistrationClaims = [''aud'', ''trust_anchor'']"

definition refuseExplicitRegistrationClaims :: "json assoc \<Rightarrow> stmt_error + unit" where
  "refuseExplicitRegistrationClaims raw =
     check_all (\<lambda>claim. require (map_of raw claim = None) (ErrMalformedClaims claim))
       explicitRegistrationClaims"

definition popRequiredString :: "json assoc \<Rightarrow> string \<Rightarrow> stmt_error + (string \<times> json assoc)" where
  "popRequiredString m key =
     (case map_of m key of None \<Rightarrow> Inl (ErrMalformedClaims key)
      | Some raw \<Rightarrow>
          (case unmarshal_string raw of
             None \<Rightarrow> Inl (ErrMalformedClaims key)
           | Some s \<Rightarrow> if s = [] then Inl (ErrMalformedClaims key) else Inr (s, AList.delete key m)))"

definition popRequiredInt64 :: "json assoc \<Rightarrow> string \<Rightarrow> stmt_error + (int \<times> json assoc)" where
  "popRequiredInt64 m key =
     (case map_of m key of None \<Rightarrow> Inl (ErrMalformedClaims key)
      | Some raw \<Rightarrow>
          (case NumericDate_Parse raw of
             None \<Rightarrow> Inl (ErrMalformedClaims key)
           | Some n \<Rightarrow> Inr (n, AList.delete key m)))"

definition jwk_kids_type :: go_type where
  "jwk_kids_type = TStruct [(''keys'', TSlice (TStruct [(''kid'', TLeaf)]))]"

definition dec_kid :: "string \<Rightarrow> json \<Rightarrow> string option \<Rightarrow> string option option" where
  "dec_kid name v old =
     (case v of JStr s \<Rightarrow> Some (Some s) | JNull \<Rightarrow> Some None | _ \<Rightarrow> None)"

definition decode_kids :: "json \<Rightarrow> string option list option" where
  "decode_kids jwks =
     decode_struct [''keys'']
       (\<lambda>_ v _. case unmarshal_array v of None \<Rightarrow> None
          | Some ks \<Rightarrow> traverse (decode_struct [''kid''] dec_kid None) ks) [] jwks"

fun check_kids :: "string list \<Rightarrow> string option list \<Rightarrow> stmt_error + unit" where
  "check_kids seen [] = Inr ()"
| "check_kids seen (None # ks) = Inl ErrMalformedJWKS"
| "check_kids seen (Some kid # ks) =
     (if kid = [] \<or> kid \<in> set seen then Inl ErrMalformedJWKS else check_kids (kid # seen) ks)"

definition validateKeyIDs :: "json \<Rightarrow> stmt_error + unit" where
  "validateKeyIDs jwks =
     and_then (require (CheckFieldCase jwk_kids_type jwks) ErrMalformedJWKS) (\<lambda>_.
     and_then (of_option ErrMalformedJWKS (decode_kids jwks)) (\<lambda>kids. check_kids [] kids))"

definition rejectCriticalClaims :: "json assoc \<Rightarrow> stmt_error + unit" where
  "rejectCriticalClaims raw =
     (case map_of raw ''crit'' of None \<Rightarrow> Inr () | Some _ \<Rightarrow> Inl ErrUnsupportedCriticalClaim)"

section \<open>Claims by kind\<close>

definition isHTTPSURL :: "fed_env \<Rightarrow> string \<Rightarrow> bool" where
  "isHTTPSURL E s =
     (case url_parse E s of None \<Rightarrow> False
      | Some u \<Rightarrow> uScheme u = ''https'' \<and> uHost u \<noteq> [] \<and>
          list_all (\<lambda>c. c \<notin> {CHR ''#'', CHR '' '', CHR 0x09, CHR 0x0D, CHR 0x0A}) s)"

definition parseMetadataClaim :: "json \<Rightarrow> stmt_error + json assoc" where
  "parseMetadataClaim raw =
     (case raw of
        JObj ms \<Rightarrow>
          and_then (check_all (\<lambda>(entityType, value).
              case value of
                JObj ps \<Rightarrow> check_all (\<lambda>(name, param).
                    require (\<not> isJSONNull param) (ErrMalformedClaims ''metadata'')) (obj_members ps)
              | _ \<Rightarrow> Inl (ErrMalformedClaims ''metadata'')) (obj_members ms))
            (\<lambda>_. Inr (obj_members ms))
      | _ \<Rightarrow> Inl (ErrMalformedClaims ''metadata''))"

definition parseNonEmptyStrings :: "json \<Rightarrow> string \<Rightarrow> stmt_error + string list" where
  "parseNonEmptyStrings raw claim =
     (case unmarshal_strings raw of
        Some (Some values) \<Rightarrow>
          if values = [] \<or> [] \<in> set values then Inl (ErrMalformedClaims claim) else Inr values
      | _ \<Rightarrow> Inl (ErrMalformedClaims claim))"

definition parseEntityIdentifiers :: "fed_env \<Rightarrow> json \<Rightarrow> string \<Rightarrow> stmt_error + string list" where
  "parseEntityIdentifiers E raw claim =
     and_then (parseNonEmptyStrings raw claim) (\<lambda>ids.
     and_then (check_all (\<lambda>id. require (isHTTPSURL E id) (ErrMalformedClaims claim)) ids) (\<lambda>_.
     Inr ids))"

definition parseSourceEndpoint :: "fed_env \<Rightarrow> json \<Rightarrow> stmt_error + string" where
  "parseSourceEndpoint E raw =
     (case unmarshal_string raw of None \<Rightarrow> Inl (ErrMalformedClaims ''source_endpoint'')
      | Some source \<Rightarrow> if isHTTPSURL E source then Inr source
          else Inl (ErrMalformedClaims ''source_endpoint''))"

definition unmarshal_map :: "(json \<Rightarrow> 'a option) \<Rightarrow> json \<Rightarrow> 'a assoc option option" where
  "unmarshal_map f j =
     (case j of
        JNull \<Rightarrow> Some None
      | JObj ms \<Rightarrow> map_option Some
          (traverse (\<lambda>(k, v). map_option (Pair k) (f v)) (obj_members ms))
      | _ \<Rightarrow> None)"

definition nil_map :: "'a assoc option \<Rightarrow> 'a assoc" where
  "nil_map m = (case m of None \<Rightarrow> [] | Some xs \<Rightarrow> xs)"

definition unmarshal_policy :: "json \<Rightarrow> metadata_policy option option" where
  "unmarshal_policy =
     unmarshal_map (\<lambda>params. map_option nil_map
       (unmarshal_map (\<lambda>ops. map_option nil_map (unmarshal_map Some ops)) params))"

section \<open>Constraints and trust marks\<close>

text \<open>
  These claims are decoded into structs by plain \<^verbatim>\<open>json.Unmarshal\<close>, so their
  members match case-insensitively. A pointer field is \<open>None\<close> until a member sets it.
\<close>

record rawConstraints =
  rcMaxPathLength :: "int option"
  rcNamingConstraints :: "NamingConstraints option"
  rcAllowedEntityTypes :: "string list option"

definition dec_strings :: "(string list \<Rightarrow> 's \<Rightarrow> 's) \<Rightarrow> json \<Rightarrow> 's \<Rightarrow> 's option" where
  "dec_strings set_field v s =
     (case unmarshal_strings v of None \<Rightarrow> None
      | Some None \<Rightarrow> Some (set_field [] s)
      | Some (Some xs) \<Rightarrow> Some (set_field xs s))"

definition dec_naming :: "string \<Rightarrow> json \<Rightarrow> NamingConstraints \<Rightarrow> NamingConstraints option" where
  "dec_naming name v nc =
     (if name = ''permitted'' then dec_strings (\<lambda>x. ncPermitted_update (\<lambda>_. x)) v nc
      else dec_strings (\<lambda>x. ncExcluded_update (\<lambda>_. x)) v nc)"

definition dec_constraints :: "string \<Rightarrow> json \<Rightarrow> rawConstraints \<Rightarrow> rawConstraints option" where
  "dec_constraints name v c =
     (if name = ''max_path_length'' then
        (if v = JNull then Some (c\<lparr>rcMaxPathLength := None\<rparr>)
         else map_option (\<lambda>n. c\<lparr>rcMaxPathLength := Some n\<rparr>) (unmarshal_int64 v))
      else if name = ''naming_constraints'' then
        (if v = JNull then Some (c\<lparr>rcNamingConstraints := None\<rparr>)
         else map_option (\<lambda>nc. c\<lparr>rcNamingConstraints := Some nc\<rparr>)
           (decode_struct [''permitted'', ''excluded''] dec_naming
             (case rcNamingConstraints c of
                None \<Rightarrow> \<lparr>ncPermitted = [], ncExcluded = []\<rparr> | Some nc \<Rightarrow> nc) v))
      else map_option (\<lambda>xs. c\<lparr>rcAllowedEntityTypes := xs\<rparr>) (unmarshal_strings v))"

definition parseConstraints :: "json \<Rightarrow> stmt_error + Constraints" where
  "parseConstraints payload =
     (case decode_struct [''max_path_length'', ''naming_constraints'', ''allowed_entity_types'']
         dec_constraints
         \<lparr>rcMaxPathLength = None, rcNamingConstraints = None, rcAllowedEntityTypes = None\<rparr> payload of
        None \<Rightarrow> Inl (ErrMalformedClaims ''constraints'')
      | Some raw \<Rightarrow>
          let c = \<lparr>coMaxPathLength = 0, coHasMaxPathLength = False,
                   coNamingConstraints = rcNamingConstraints raw,
                   coAllowedEntityTypes = rcAllowedEntityTypes raw\<rparr> in
          (case rcMaxPathLength raw of None \<Rightarrow> Inr c
           | Some n \<Rightarrow>
               if n < 0 then Inl (ErrMalformedClaims ''constraints'')
               else Inr (c\<lparr>coMaxPathLength := n, coHasMaxPathLength := True\<rparr>)))"

definition dec_trust_mark :: "string \<Rightarrow> json \<Rightarrow> RawTrustMark \<Rightarrow> RawTrustMark option" where
  "dec_trust_mark name v tm =
     (if name = ''trust_mark_type'' then dec_string (\<lambda>x. rtTrustMarkType_update (\<lambda>_. x)) v tm
      else dec_string (\<lambda>x. rtTrustMark_update (\<lambda>_. x)) v tm)"

definition parseTrustMarks :: "json assoc \<Rightarrow> stmt_error + RawTrustMark list" where
  "parseTrustMarks raw =
     (case map_of raw ''trust_marks'' of None \<Rightarrow> Inr []
      | Some j \<Rightarrow>
          (case Option.bind (unmarshal_array j)
              (traverse (decode_struct [''trust_mark_type'', ''trust_mark''] dec_trust_mark
                 \<lparr>rtTrustMarkType = [], rtTrustMark = []\<rparr>)) of
             None \<Rightarrow> Inl (ErrMalformedClaims ''trust_marks'')
           | Some tms \<Rightarrow>
               if list_all (\<lambda>tm. rtTrustMarkType tm \<noteq> [] \<and> rtTrustMark tm \<noteq> []) tms then Inr tms
               else Inl (ErrMalformedClaims ''trust_marks'')))"

definition dec_owner :: "string \<Rightarrow> json \<Rightarrow> string \<times> raw \<Rightarrow> (string \<times> raw) option" where
  "dec_owner name v ow =
     (if name = ''sub'' then dec_string (\<lambda>x (_, k). (x, k)) v ow else Some (fst ow, Some v))"

fun check_owners :: "(string \<times> string \<times> raw) list \<Rightarrow> stmt_error + TrustMarkOwner assoc" where
  "check_owners [] = Inr []"
| "check_owners ((typ, sub, jwks) # ows) =
     (case jwks of
        None \<Rightarrow> Inl (ErrMalformedClaims ''trust_mark_owners'')
      | Some k \<Rightarrow>
          if sub = [] then Inl (ErrMalformedClaims ''trust_mark_owners'')
          else and_then (check_owners ows) (\<lambda>rest.
            Inr ((typ, \<lparr>toSubject = sub, toJWKS = k\<rparr>) # rest)))"

definition parseTrustMarkOwners :: "json assoc \<Rightarrow> stmt_error + TrustMarkOwner assoc" where
  "parseTrustMarkOwners raw =
     (case map_of raw ''trust_mark_owners'' of None \<Rightarrow> Inr []
      | Some j \<Rightarrow>
          and_then (of_option (ErrMalformedClaims ''trust_mark_owners'')
              (unmarshal_map (decode_struct [''sub'', ''jwks''] dec_owner ([], None)) j))
            (\<lambda>owners. check_owners (nil_map owners)))"

section \<open>Parsing a statement\<close>

definition optional_claim :: "json assoc \<Rightarrow> string \<Rightarrow> 'a \<Rightarrow> (json \<Rightarrow> stmt_error + 'a) \<Rightarrow> stmt_error + 'a" where
  "optional_claim raw claim absent f = (case map_of raw claim of None \<Rightarrow> Inr absent | Some j \<Rightarrow> f j)"

definition parseEntityConfigurationLists :: "fed_env \<Rightarrow> json assoc \<Rightarrow> Claims \<Rightarrow> stmt_error + Claims" where
  "parseEntityConfigurationLists E raw c =
     and_then (optional_claim raw ''metadata'' None
         (\<lambda>j. and_then (parseMetadataClaim j) (\<lambda>m. Inr (Some m)))) (\<lambda>metadata.
     and_then (optional_claim raw ''authority_hints'' []
         (\<lambda>j. parseEntityIdentifiers E j ''authority_hints'')) (\<lambda>hints.
     and_then (optional_claim raw ''trust_anchor_hints'' []
         (\<lambda>j. parseEntityIdentifiers E j ''trust_anchor_hints'')) (\<lambda>anchors.
     Inr (c\<lparr>clMetadata := metadata, clAuthorityHints := hints, clTrustAnchorHints := anchors\<rparr>))))"

definition parseSubordinateClaims :: "fed_env \<Rightarrow> json assoc \<Rightarrow> Claims \<Rightarrow> stmt_error + Claims" where
  "parseSubordinateClaims E raw c =
     and_then (optional_claim raw ''metadata_policy'' None
         (\<lambda>j. of_option (ErrMalformedClaims ''metadata_policy'') (unmarshal_policy j))) (\<lambda>policy.
     and_then (optional_claim raw ''metadata_policy_crit'' []
         (\<lambda>j. parseNonEmptyStrings j ''metadata_policy_crit'')) (\<lambda>crit.
     and_then (optional_claim raw ''source_endpoint'' [] (parseSourceEndpoint E)) (\<lambda>source.
     Inr (c\<lparr>clMetadataPolicy := policy, clMetadataPolicyCritical := crit, clSourceEndpoint := source\<rparr>))))"

definition parseTrustMarkIssuers :: "json assoc \<Rightarrow> stmt_error + string list assoc" where
  "parseTrustMarkIssuers raw =
     optional_claim raw ''trust_mark_issuers'' []
       (\<lambda>j. of_option (ErrMalformedClaims ''trust_mark_issuers'')
          (map_option nil_map (unmarshal_map (\<lambda>v. map_option
             (\<lambda>xs. case xs of None \<Rightarrow> [] | Some ys \<Rightarrow> ys) (unmarshal_strings v)) j)))"

definition base_claims :: "string \<Rightarrow> string \<Rightarrow> int \<Rightarrow> int \<Rightarrow> json \<Rightarrow> Claims" where
  "base_claims iss sub iat exp jwks =
     \<lparr>clIssuer = iss, clSubject = sub, clIssuedAt = time_unix iat, clExpiresAt = time_unix exp,
      clJWKS = jwks, clMetadata = None, clAuthorityHints = [], clTrustAnchorHints = [],
      clMetadataPolicy = None, clMetadataPolicyCritical = [], clSourceEndpoint = [],
      clConstraints = None, clTrustMarks = [], clTrustMarkOwners = [], clTrustMarkIssuers = []\<rparr>"

definition parseClaims :: "fed_env \<Rightarrow> json \<Rightarrow> stmt_error + Claims" where
  "parseClaims E payload =
     and_then (of_option (ErrMalformedClaims []) (unmarshal_object payload)) (\<lambda>raw0.
     and_then (popRequiredString raw0 ''iss'') (\<lambda>(iss, raw1).
     and_then (popRequiredString raw1 ''sub'') (\<lambda>(sub, raw2).
     and_then (popRequiredInt64 raw2 ''iat'') (\<lambda>(iat, raw3).
     and_then (popRequiredInt64 raw3 ''exp'') (\<lambda>(exp, raw4).
     and_then (checkParsedClaimPlacement raw4 (iss = sub)) (\<lambda>_.
     and_then (refuseExplicitRegistrationClaims raw4) (\<lambda>_.
     and_then (of_option (ErrMalformedClaims ''jwks'') (map_of raw4 ''jwks'')) (\<lambda>jwks.
     and_then (validateKeyIDs jwks) (\<lambda>_.
     let raw = AList.delete ''jwks'' raw4 in
     and_then (rejectCriticalClaims raw) (\<lambda>_.
     and_then (parseEntityConfigurationLists E raw (base_claims iss sub iat exp jwks)) (\<lambda>c.
     and_then (parseSubordinateClaims E raw c) (\<lambda>c.
     and_then (optional_claim raw ''constraints'' None
         (\<lambda>j. and_then (parseConstraints j) (\<lambda>x. Inr (Some x)))) (\<lambda>constraints.
     and_then (parseTrustMarks raw) (\<lambda>marks.
     and_then (parseTrustMarkOwners raw) (\<lambda>owners.
     and_then (parseTrustMarkIssuers raw) (\<lambda>issuers.
     Inr (c\<lparr>clConstraints := constraints, clTrustMarks := marks, clTrustMarkOwners := owners,
            clTrustMarkIssuers := issuers\<rparr>)))))))))))))))))"

record Statement =
  stCompact :: "Compact"
  stClaims :: Claims

definition KeyID :: "Statement \<Rightarrow> string" where
  "KeyID s = hdKeyID (cmHeader (stCompact s))"

definition Algorithm :: "Statement \<Rightarrow> SignatureAlgorithm" where
  "Algorithm s = hdAlgorithm (cmHeader (stCompact s))"

definition forbiddenStatementHeaders :: "string list" where
  "forbiddenStatementHeaders = [''trust_chain'', ''peer_trust_chain'']"

definition refuseForbiddenHeaders :: "fed_env \<Rightarrow> string \<Rightarrow> stmt_error + unit" where
  "refuseForbiddenHeaders E token =
     and_then (of_option (ErrForbiddenHeader [])
         (decode_raw True (takeWhile (\<lambda>c. c \<noteq> CHR ''.'') token))) (\<lambda>headerJSON.
     and_then (of_option (ErrForbiddenHeader [])
         (Option.bind (json_decode (crypto_of E) headerJSON) unmarshal_object)) (\<lambda>header.
     check_all (\<lambda>name. require (map_of header name = None) (ErrForbiddenHeader name))
       forbiddenStatementHeaders))"

definition Parse :: "fed_env \<Rightarrow> string \<Rightarrow> stmt_error + Statement" where
  "Parse E token =
     (case ParseCompact (crypto_of E) token of
        Inl e \<Rightarrow> Inl (JoseError e)
      | Inr compact \<Rightarrow>
          and_then (require (TypeIs (hdType (cmHeader compact)) jwtType) ErrWrongType) (\<lambda>_.
          and_then (require (hdKeyID (cmHeader compact) \<noteq> []) ErrMissingKeyID) (\<lambda>_.
          and_then (refuseForbiddenHeaders E token) (\<lambda>_.
          and_then (of_option (ErrMalformedClaims [])
              (json_decode (crypto_of E) (cmPayload compact))) (\<lambda>payload.
          and_then (refuseDuplicateMembers payload) (\<lambda>_.
          and_then (parseClaims E payload) (\<lambda>claims.
          Inr \<lparr>stCompact = compact, stClaims = claims\<rparr>)))))))"

section \<open>Verifying a statement\<close>

record VerifyPolicy =
  vpExpectedIssuer :: string
  vpExpectedSubject :: string
  vpAlgorithm :: SignatureAlgorithm
  vpNow :: time
  vpMaxLifetime :: duration
  vpMaxClockSkew :: duration

definition Verify :: "fed_env \<Rightarrow> Statement \<Rightarrow> public_key \<Rightarrow> VerifyPolicy \<Rightarrow> stmt_error + Claims" where
  "Verify E s pub policy =
     (if vpExpectedIssuer policy = [] then Inl BadVerifyPolicy
      else if vpExpectedSubject policy = [] then Inl BadVerifyPolicy
      else if vpNow policy = zero_time then Inl BadVerifyPolicy
      else if vpMaxLifetime policy \<le> 0 then Inl BadVerifyPolicy
      else case Compact_Verify (crypto_of E) (stCompact s) pub (vpAlgorithm policy) of
        Inl e \<Rightarrow> Inl (JoseError e)
      | Inr _ \<Rightarrow>
          let c = stClaims s; now = vpNow policy; skew = vpMaxClockSkew policy in
          if clIssuer c \<noteq> vpExpectedIssuer policy then Inl ErrIssuerMismatch
          else if clSubject c \<noteq> vpExpectedSubject policy then Inl ErrSubjectMismatch
          else if clExpiresAt c + skew < now then Inl ErrExpired
          else if SaturatingAdd [vpMaxLifetime policy, skew] < time_sub (clExpiresAt c) now
            then Inl ErrLifetimeExceeded
          else if now < clIssuedAt c - skew then Inl ErrNotYetValid
          else Inr c)"

end
