(* ===== verification/Chain_Constraints.thy ===== *)
theory Chain_Constraints
  imports Entity_Statement
begin

text \<open>
  Trust Chain constraints: \<^verbatim>\<open>federation/constraints.go\<close>, and what
  \<^verbatim>\<open>federation/fetch.go\<close> accepts as an Entity Identifier.
\<close>

section \<open>Entity Identifiers\<close>

definition hostNameByte :: "char \<Rightarrow> bool" where
  "hostNameByte c =
     (let n = (of_char c :: nat) in
      97 \<le> n \<and> n \<le> 122 \<or> 65 \<le> n \<and> n \<le> 90 \<or> 48 \<le> n \<and> n \<le> 57 \<or> c = CHR ''-'' \<or> c = CHR ''.'')"

definition asciiHost :: "fed_env \<Rightarrow> url \<Rightarrow> bool" where
  "asciiHost E u =
     (let host = Hostname u in
      if parse_ip E host then True
      else if \<not> list_all hostNameByte host then False else host \<noteq> [])"

datatype entity_error = InvalidURL | NotHTTPS | QueryOrFragment | Userinfo | TrailingDot | NotASCIIHost

definition WellKnownPath :: string where "WellKnownPath = ''/.well-known/openid-federation''"

definition wellKnownURL :: "fed_env \<Rightarrow> string \<Rightarrow> entity_error + url" where
  "wellKnownURL E entityID =
     (case url_parse E entityID of
        None \<Rightarrow> Inl InvalidURL
      | Some u \<Rightarrow>
          if uScheme u \<noteq> ''https'' \<or> uHost u = [] then Inl NotHTTPS
          else if uRawQuery u \<noteq> [] \<or> uForceQuery u \<or> CHR ''#'' \<in> set entityID then Inl QueryOrFragment
          else if uHasUser u then Inl Userinfo
          else if has_prefix (rev (Hostname u)) ''.'' then Inl TrailingDot
          else if \<not> asciiHost E u then Inl NotASCIIHost
          else Inr (u\<lparr>uPath := trim_suffix (uPath u) ''/'' @ WellKnownPath\<rparr>))"

definition ValidEntityID :: "fed_env \<Rightarrow> string \<Rightarrow> entity_error + unit" where
  "ValidEntityID E entityID = and_then (wellKnownURL E entityID) (\<lambda>_. Inr ())"

section \<open>Constraints\<close>

record subordinateConstraint =
  scConstraints :: Constraints
  scAppliesTo :: "string list"

datatype constraint_error =
    BadEntityIdentifier string
  | Excluded string string
  | NotPermitted string
  | PathTooLong int int

definition entityIDHost :: "fed_env \<Rightarrow> string \<Rightarrow> constraint_error + string" where
  "entityIDHost E entityID =
     (case url_parse E entityID of
        None \<Rightarrow> Inl (BadEntityIdentifier entityID)
      | Some u \<Rightarrow> Inr (trim_suffix (Hostname u) ''.''))"

definition domainNameConstraintMatches :: "string \<Rightarrow> string \<Rightarrow> bool" where
  "domainNameConstraintMatches constr host =
     (if has_prefix constr ''.'' then
        length constr < length host \<and>
        EqualFoldASCII (drop (length host - length constr) host) constr
      else EqualFoldASCII constr host)"

definition checkNamingConstraint :: "fed_env \<Rightarrow> NamingConstraints \<Rightarrow> string \<Rightarrow> constraint_error + unit" where
  "checkNamingConstraint E nc entityID =
     and_then (entityIDHost E entityID) (\<lambda>host.
     and_then (check_all (\<lambda>excluded. require (\<not> domainNameConstraintMatches excluded host)
         (Excluded entityID excluded)) (ncExcluded nc)) (\<lambda>_.
     if ncPermitted nc = [] then Inr ()
     else require (list_ex (\<lambda>permitted. domainNameConstraintMatches permitted host) (ncPermitted nc))
       (NotPermitted entityID)))"

definition checkNamingConstraints :: "fed_env \<Rightarrow> subordinateConstraint list \<Rightarrow> constraint_error + unit" where
  "checkNamingConstraints E constraints =
     check_all (\<lambda>sc. case coNamingConstraints (scConstraints sc) of
         None \<Rightarrow> Inr ()
       | Some nc \<Rightarrow> check_all (checkNamingConstraint E nc) (scAppliesTo sc)) constraints"

definition checkMaxPathLengthConstraints :: "subordinateConstraint list \<Rightarrow> constraint_error + unit" where
  "checkMaxPathLengthConstraints constraints =
     check_all (\<lambda>sc.
       if \<not> coHasMaxPathLength (scConstraints sc) then Inr ()
       else let intermediateCount = int (length (scAppliesTo sc)) - 1 in
         require (intermediateCount \<le> coMaxPathLength (scConstraints sc))
           (PathTooLong intermediateCount (coMaxPathLength (scConstraints sc)))) constraints"

definition federationEntityType :: string where "federationEntityType = ''federation_entity''"

definition filterAllowedEntityTypes :: "subordinateConstraint list \<Rightarrow> json assoc \<Rightarrow> json assoc" where
  "filterAllowedEntityTypes constraints metadata =
     (let allowedSets = List.map_filter (\<lambda>sc. coAllowedEntityTypes (scConstraints sc)) constraints in
      if allowedSets = [] then metadata
      else filter (\<lambda>(entityType, v).
        if entityType = federationEntityType then True
        else list_all (\<lambda>s. entityType \<in> set s) allowedSets) metadata)"

section \<open>Labels\<close>

text \<open>The reference reading of a domain name constraint (RFC 5280 section 4.2.1.10): by labels.\<close>

fun labels :: "string \<Rightarrow> string list" where
  "labels [] = [[]]"
| "labels (c # cs) =
     (if c = CHR ''.'' then [] # labels cs
      else case labels cs of [] \<Rightarrow> [[c]] | w # ws \<Rightarrow> (c # w) # ws)"

lemma labels_ne [simp]: "labels s \<noteq> []"
  by (induction s) (auto split: list.splits)

lemma labels_append: "labels (a @ CHR ''.'' # b) = labels a @ labels b"
proof (induction a)
  case (Cons c a)
  then show ?case by (cases "labels a") (auto simp: labels_ne)
qed simp

fun unlabels :: "string list \<Rightarrow> string" where
  "unlabels [] = []"
| "unlabels [w] = w"
| "unlabels (w # v # ws) = w @ CHR ''.'' # unlabels (v # ws)"

lemma unlabels_labels [simp]: "unlabels (labels s) = s"
proof (induction s)
  case (Cons c s)
  obtain w ws where w: "labels s = w # ws" by (cases "labels s") auto
  with Cons show ?case by (cases ws) auto
qed simp

lemma unlabels_append: "xs \<noteq> [] \<Longrightarrow> ys \<noteq> [] \<Longrightarrow> unlabels (xs @ ys) = unlabels xs @ CHR ''.'' # unlabels ys"
proof (induction xs rule: unlabels.induct)
  case (2 w)
  then show ?case by (cases ys) auto
qed auto

lemma lower_dot [simp]: "lowerASCIIByte c = CHR ''.'' \<longleftrightarrow> c = CHR ''.''"
proof (cases "is_upper c")
  case True
  then have "(of_char (lowerASCIIByte c) :: nat) \<noteq> 46"
    by (simp add: of_char_lowerASCIIByte is_upper_def)
  then have "lowerASCIIByte c \<noteq> CHR ''.''" by auto
  with True show ?thesis by (auto simp: is_upper_def)
qed (simp add: lowerASCIIByte_id)

lemma labels_lower: "labels (LowerASCII s) = map LowerASCII (labels s)"
proof (induction s)
  case (Cons c s)
  then show ?case by (cases "labels s") (auto simp: LowerASCII_map)
qed (simp add: LowerASCII_map)

lemma labels_inject: "labels a = labels b \<longleftrightarrow> a = b"
  by (metis unlabels_labels)

lemma EqualFoldASCII_labels: "EqualFoldASCII a b \<longleftrightarrow> map LowerASCII (labels a) = map LowerASCII (labels b)"
  unfolding EqualFoldASCII_iff labels_lower [symmetric] labels_inject ..

text \<open>
  Naming constraints are decided label by label, ignoring the case of ASCII letters only. A
  constraint without a leading dot names one host; one with a leading dot names the hosts that
  have at least one further label before it, never the bare domain and never a host that merely
  ends in the same letters.
\<close>

theorem domainNameConstraintMatches_labels:
  "domainNameConstraintMatches constr host \<longleftrightarrow>
     (if has_prefix constr ''.'' then
        \<exists>ls. ls \<noteq> [] \<and> ls \<noteq> [[]] \<and>
          map LowerASCII (labels host) = ls @ map LowerASCII (labels (tl constr))
      else map LowerASCII (labels constr) = map LowerASCII (labels host))"
proof (cases "has_prefix constr ''.''")
  case True
  then obtain d where constr: "constr = CHR ''.'' # d" by (auto simp: has_prefix_iff)
  let ?h = "LowerASCII host" and ?d = "LowerASCII d"
  have "domainNameConstraintMatches constr host \<longleftrightarrow>
      length constr < length host \<and> drop (length host - length constr) ?h = CHR ''.'' # ?d"
    using True by (simp add: domainNameConstraintMatches_def EqualFoldASCII_iff constr
        LowerASCII_map drop_map lowerASCIIByte_id is_upper_def)
  also have "\<dots> \<longleftrightarrow> (\<exists>p. p \<noteq> [] \<and> ?h = p @ CHR ''.'' # ?d)"
  proof
    let ?n = "length host - length constr"
    assume *: "length constr < length host \<and> drop ?n ?h = CHR ''.'' # ?d"
    then have "?h = take ?n ?h @ CHR ''.'' # ?d" by (metis append_take_drop_id)
    moreover have "take ?n ?h \<noteq> []" using * by (cases host) (auto simp: LowerASCII_map)
    ultimately show "\<exists>p. p \<noteq> [] \<and> ?h = p @ CHR ''.'' # ?d" by blast
  next
    assume "\<exists>p. p \<noteq> [] \<and> ?h = p @ CHR ''.'' # ?d"
    then obtain p where p: "p \<noteq> []" "?h = p @ CHR ''.'' # ?d" by blast
    then have "length host = length p + Suc (length d)"
      by (metis LowerASCII_map length_append length_Cons length_map)
    with p show "length constr < length host \<and> drop (length host - length constr) ?h = CHR ''.'' # ?d"
      by (simp add: constr)
  qed
  also have "\<dots> \<longleftrightarrow> (\<exists>ls. ls \<noteq> [] \<and> ls \<noteq> [[]] \<and> labels ?h = ls @ labels ?d)"
  proof
    assume "\<exists>p. p \<noteq> [] \<and> ?h = p @ CHR ''.'' # ?d"
    then obtain p where p: "p \<noteq> []" "?h = p @ CHR ''.'' # ?d" by blast
    then have "labels p \<noteq> [[]]" by (metis unlabels.simps(2) unlabels_labels)
    with p show "\<exists>ls. ls \<noteq> [] \<and> ls \<noteq> [[]] \<and> labels ?h = ls @ labels ?d"
      by (intro exI [of _ "labels p"]) (simp add: labels_append)
  next
    assume "\<exists>ls. ls \<noteq> [] \<and> ls \<noteq> [[]] \<and> labels ?h = ls @ labels ?d"
    then obtain ls where ls: "ls \<noteq> []" "ls \<noteq> [[]]" "labels ?h = ls @ labels ?d" by blast
    then have "?h = unlabels ls @ CHR ''.'' # ?d"
      by (metis labels_ne unlabels_append unlabels_labels)
    moreover have "unlabels ls \<noteq> []" using ls(1,2) by (cases ls rule: unlabels.cases) auto
    ultimately show "\<exists>p. p \<noteq> [] \<and> ?h = p @ CHR ''.'' # ?d" by blast
  qed
  finally show ?thesis using True by (simp add: constr labels_lower)
qed (simp add: domainNameConstraintMatches_def EqualFoldASCII_labels)

section \<open>What the checks guarantee\<close>

lemma checkNamingConstraint_Inr:
  "checkNamingConstraint E nc entityID = Inr u \<longleftrightarrow>
     (\<exists>host. entityIDHost E entityID = Inr host \<and>
        (\<forall>x \<in> set (ncExcluded nc). \<not> domainNameConstraintMatches x host) \<and>
        (ncPermitted nc = [] \<or> (\<exists>p \<in> set (ncPermitted nc). domainNameConstraintMatches p host)))"
  by (auto simp: checkNamingConstraint_def and_then_eq_Inr check_all_Inr list_ex_iff)

text \<open>
  The collected constraints pass exactly when each of them holds of the entities it was read
  above: no host of theirs matches an excluded name, whatever the permitted list says; when there
  is a permitted list, every host matches one of its names; and no more intermediates lie between
  the constraint's issuer and the subject than its \<open>max_path_length\<close> (entities it applies to,
  less the subject).
\<close>

theorem constraints_enforced:
  "(checkNamingConstraints E constraints = Inr () \<and> checkMaxPathLengthConstraints constraints = Inr ()) \<longleftrightarrow>
   (\<forall>sc \<in> set constraints.
      (coHasMaxPathLength (scConstraints sc) \<longrightarrow>
         int (length (scAppliesTo sc)) \<le> coMaxPathLength (scConstraints sc) + 1) \<and>
      (\<forall>nc. coNamingConstraints (scConstraints sc) = Some nc \<longrightarrow>
        (\<forall>entity \<in> set (scAppliesTo sc). \<exists>host. entityIDHost E entity = Inr host \<and>
          (\<forall>x \<in> set (ncExcluded nc). \<not> domainNameConstraintMatches x host) \<and>
          (ncPermitted nc = [] \<or> (\<exists>p \<in> set (ncPermitted nc). domainNameConstraintMatches p host)))))"
proof -
  have "(case coNamingConstraints (scConstraints sc) of None \<Rightarrow> Inr ()
       | Some nc \<Rightarrow> check_all (checkNamingConstraint E nc) (scAppliesTo sc)) = Inr () \<longleftrightarrow>
     (\<forall>nc. coNamingConstraints (scConstraints sc) = Some nc \<longrightarrow>
        (\<forall>entity \<in> set (scAppliesTo sc). \<exists>host. entityIDHost E entity = Inr host \<and>
          (\<forall>x \<in> set (ncExcluded nc). \<not> domainNameConstraintMatches x host) \<and>
          (ncPermitted nc = [] \<or> (\<exists>p \<in> set (ncPermitted nc). domainNameConstraintMatches p host))))" for sc
    by (cases "coNamingConstraints (scConstraints sc)") (simp_all add: check_all_Inr checkNamingConstraint_Inr)
  moreover have "(if \<not> coHasMaxPathLength (scConstraints sc) then Inr ()
       else let intermediateCount = int (length (scAppliesTo sc)) - 1 in
         require (intermediateCount \<le> coMaxPathLength (scConstraints sc))
           (PathTooLong intermediateCount (coMaxPathLength (scConstraints sc)))) = Inr () \<longleftrightarrow>
     (coHasMaxPathLength (scConstraints sc) \<longrightarrow>
         int (length (scAppliesTo sc)) \<le> coMaxPathLength (scConstraints sc) + 1)" for sc
    by (auto simp: Let_def)
  ultimately show ?thesis
    unfolding checkNamingConstraints_def checkMaxPathLengthConstraints_def check_all_Inr by blast
qed

definition host_env :: "fed_env" where
  "host_env = \<lparr>crypto_of = toy_crypto,
     url_parse = (\<lambda>s. Some \<lparr>uScheme = ''https'', uHasUser = False, uHost = s, uPath = [],
       uRawQuery = [], uForceQuery = False, uOpaque = [], uRawPath = [], uOmitHost = False\<rparr>), parse_ip = (\<lambda>s. False)\<rparr>"

definition example_constraint :: subordinateConstraint where
  "example_constraint = \<lparr>scConstraints = \<lparr>coMaxPathLength = 0, coHasMaxPathLength = True,
      coNamingConstraints = Some \<lparr>ncPermitted = [''.Example''], ncExcluded = [''b.example'']\<rparr>,
      coAllowedEntityTypes = None\<rparr>, scAppliesTo = [''a.example'']\<rparr>"

lemma constraints_enforced_witness:
  "checkNamingConstraints host_env [example_constraint] = Inr () \<and>
   checkMaxPathLengthConstraints [example_constraint] = Inr ()"
proof -
  have "entityIDHost host_env ''a.example'' = Inr ''a.example'' \<and>
      \<not> domainNameConstraintMatches ''b.example'' ''a.example'' \<and>
      domainNameConstraintMatches ''.Example'' ''a.example''" by code_simp
  then show ?thesis
    by (subst constraints_enforced) (simp add: example_constraint_def)
qed

lemma map_of_filterAllowedEntityTypes:
  "map_of (filterAllowedEntityTypes constraints metadata) et =
     (if et = federationEntityType \<or>
        (\<forall>sc \<in> set constraints. \<forall>allowed. coAllowedEntityTypes (scConstraints sc) = Some allowed \<longrightarrow>
          et \<in> set allowed)
      then map_of metadata et else None)"
proof -
  have s: "set (List.map_filter (\<lambda>sc. coAllowedEntityTypes (scConstraints sc)) constraints) =
      {a. \<exists>sc \<in> set constraints. coAllowedEntityTypes (scConstraints sc) = Some a}"
    by (force simp: map_filter_def)
  show ?thesis
  proof (cases "List.map_filter (\<lambda>sc. coAllowedEntityTypes (scConstraints sc)) constraints = []")
    case True
    with s have "coAllowedEntityTypes (scConstraints sc) = None" if "sc \<in> set constraints" for sc
      using that by (cases "coAllowedEntityTypes (scConstraints sc)") auto
    with True show ?thesis by (simp add: filterAllowedEntityTypes_def)
  next
    case False
    have "(\<lambda>(entityType, v). if entityType = federationEntityType then True
        else list_all (\<lambda>s. entityType \<in> set s)
          (List.map_filter (\<lambda>sc. coAllowedEntityTypes (scConstraints sc)) constraints)) =
      (\<lambda>(entityType, v :: json). entityType = federationEntityType \<or>
        (\<forall>sc \<in> set constraints. \<forall>allowed. coAllowedEntityTypes (scConstraints sc) = Some allowed \<longrightarrow>
          entityType \<in> set allowed))"
      using s by (auto simp: fun_eq_iff list_all_iff)
    with False show ?thesis
      unfolding filterAllowedEntityTypes_def Let_def by (simp add: map_of_filter_key)
  qed
qed

lemma filterAllowedEntityTypes_allowed:
  "map_of (filterAllowedEntityTypes constraints metadata) et \<noteq> None \<Longrightarrow> sc \<in> set constraints \<Longrightarrow>
   coAllowedEntityTypes (scConstraints sc) = Some allowed \<Longrightarrow> et = federationEntityType \<or> et \<in> set allowed"
  unfolding map_of_filterAllowedEntityTypes by (auto split: if_splits)

text \<open>
  Of the subject's metadata an Entity Type survives the \<open>allowed_entity_types\<close>
  constraints exactly when every constraint that has the list names it; the type
  \<open>federation_entity\<close> always survives, an empty list leaves only it, and what survives is
  unchanged.
\<close>

theorem filterAllowedEntityTypes_spec:
  "map_of (filterAllowedEntityTypes constraints metadata) et =
     (if et = federationEntityType \<or>
        (\<forall>sc \<in> set constraints. \<forall>allowed. coAllowedEntityTypes (scConstraints sc) = Some allowed \<longrightarrow>
          et \<in> set allowed)
      then map_of metadata et else None)"
  by (rule map_of_filterAllowedEntityTypes)

lemma filterAllowedEntityTypes_spec_witness:
  "map_of (filterAllowedEntityTypes [] [(''rp'', JNull)]) ''rp'' = Some JNull"
  using filterAllowedEntityTypes_spec [of "[]" "[(''rp'', JNull)]" "''rp''"] by simp

end
