(* ===== verification/Resolver.thy ===== *)
theory Resolver
  imports Chain_Constraints
begin

text \<open>
  Trust Chain resolution: \<^verbatim>\<open>federation/resolver.go\<close>,
  \<^verbatim>\<open>entity_metadata.go\<close> and the fetching part of \<^verbatim>\<open>fetch.go\<close>.
  The search is state passing: \<open>search\<close> is what every branch shares (the cache of fetched
  statements and the remaining budget), and records every request sent; \<open>chainWalkState\<close> is what
  a branch copies. The network is a function of the number of requests sent before and of the
  request, so a peer may answer the same request differently each time.
\<close>

section \<open>Configuration\<close>

record TrustAnchor =
  taEntityID :: string
  taJWKS :: raw

record Limits =
  liMaxPathLength :: int
  liMaxAuthorityHints :: int
  liMaxStatementLifetime :: duration
  liMaxClockSkew :: duration
  liMaxTrustMarkStatusAge :: duration

datatype request = ConfigRequest string | SubordinateRequest string string

record Resolver =
  rvEnv :: "fed_env"
  rvHTTP :: "nat \<Rightarrow> request \<Rightarrow> string option"
  rvLimits :: Limits
  rvTrustAnchorsByID :: "json assoc"

datatype config_error =
    NoTrustAnchors | EmptyAnchorID | EmptyAnchorJWKS string | BadMaxPathLength | BadMaxAuthorityHints
  | BadMaxStatementLifetime | BadMaxClockSkew | BadMaxTrustMarkStatusAge

fun anchors_by_id :: "json assoc \<Rightarrow> TrustAnchor list \<Rightarrow> config_error + json assoc" where
  "anchors_by_id byID [] = Inr byID"
| "anchors_by_id byID (a # as) =
     (if taEntityID a = [] then Inl EmptyAnchorID
      else case taJWKS a of
        None \<Rightarrow> Inl (EmptyAnchorJWKS (taEntityID a))
      | Some jwks \<Rightarrow> anchors_by_id (AList.update (taEntityID a) jwks byID) as)"

definition NewResolver :: "fed_env \<Rightarrow> (nat \<Rightarrow> request \<Rightarrow> string option) \<Rightarrow> TrustAnchor list \<Rightarrow> Limits
    \<Rightarrow> config_error + Resolver" where
  "NewResolver E http anchors limits =
     and_then (require (anchors \<noteq> []) NoTrustAnchors) (\<lambda>_.
     and_then (anchors_by_id [] anchors) (\<lambda>byID.
     and_then (require (0 < liMaxPathLength limits) BadMaxPathLength) (\<lambda>_.
     and_then (require (0 < liMaxAuthorityHints limits) BadMaxAuthorityHints) (\<lambda>_.
     and_then (require (0 < liMaxStatementLifetime limits) BadMaxStatementLifetime) (\<lambda>_.
     and_then (require (0 \<le> liMaxClockSkew limits) BadMaxClockSkew) (\<lambda>_.
     and_then (require (0 \<le> liMaxTrustMarkStatusAge limits) BadMaxTrustMarkStatusAge) (\<lambda>_.
     Inr \<lparr>rvEnv = E, rvHTTP = http, rvLimits = limits, rvTrustAnchorsByID = byID\<rparr>)))))))"

definition is_anchor :: "Resolver \<Rightarrow> string \<Rightarrow> bool" where
  "is_anchor R entityID \<longleftrightarrow> map_of (rvTrustAnchorsByID R) entityID \<noteq> None"

section \<open>Errors\<close>

datatype resolver_error =
    EmptySubject
  | BadEntityID entity_error
  | FetchFailed request
  | BadFetchEndpoint string
  | StatementError stmt_error
  | WrongParties string string
  | BadJWKS
  | NoCandidateKey
  | NoKeyVerifies stmt_error
  | BadEntityMetadata string
  | NoFetchEndpoint string
  | ConstraintFailed constraint_error
  | SubjectMetadataNotObject string
  | SuperiorMetadataNotObject string
  | PolicyFailed policy_error
  | PathLengthExceeded
  | NoAuthorityHints string
  | TooManyAuthorityHints string nat
  | NoUnvisitedSuperior string
  | BudgetExhausted string "(string \<times> resolver_error) list"
  | NoPath string "(string \<times> resolver_error) list"

section \<open>Fetching, once per statement\<close>

type_synonym fetched = "resolver_error + (Statement \<times> string)"

record search =
  srConfigs :: "fetched assoc"
  srSubordinates :: "fetched assoc"
  srLog :: "request list"
  srBudget :: int

definition newStatementCache :: "int \<Rightarrow> search" where
  "newStatementCache budget = \<lparr>srConfigs = [], srSubordinates = [], srLog = [], srBudget = budget\<rparr>"

definition http_fetch :: "Resolver \<Rightarrow> request \<Rightarrow> search \<Rightarrow> fetched \<times> search" where
  "http_fetch R req s =
     ((case rvHTTP R (length (srLog s)) req of
         None \<Rightarrow> Inl (FetchFailed req)
       | Some token \<Rightarrow>
           (case Parse (rvEnv R) token of
              Inl e \<Rightarrow> Inl (StatementError e)
            | Inr stmt \<Rightarrow> Inr (stmt, token))),
      s\<lparr>srLog := srLog s @ [req]\<rparr>)"

definition fetchEntityConfiguration :: "Resolver \<Rightarrow> string \<Rightarrow> search \<Rightarrow> fetched \<times> search" where
  "fetchEntityConfiguration R entityID s =
     (case wellKnownURL (rvEnv R) entityID of
        Inl e \<Rightarrow> (Inl (BadEntityID e), s)
      | Inr _ \<Rightarrow> http_fetch R (ConfigRequest entityID) s)"

definition fetchSubordinateStatement :: "Resolver \<Rightarrow> string \<Rightarrow> string \<Rightarrow> search
    \<Rightarrow> fetched \<times> search" where
  "fetchSubordinateStatement R endpoint subjectID s =
     (case url_parse (rvEnv R) endpoint of
        None \<Rightarrow> (Inl (BadFetchEndpoint endpoint), s)
      | Some u \<Rightarrow>
          if uScheme u \<noteq> ''https'' then (Inl (BadFetchEndpoint endpoint), s)
          else http_fetch R (SubordinateRequest endpoint subjectID) s)"

definition entityConfiguration :: "Resolver \<Rightarrow> string \<Rightarrow> search \<Rightarrow> fetched \<times> search" where
  "entityConfiguration R entityID s =
     (case map_of (srConfigs s) entityID of
        Some f \<Rightarrow> (f, s)
      | None \<Rightarrow>
          (case fetchEntityConfiguration R entityID s of
             (f, s') \<Rightarrow> (f, s'\<lparr>srConfigs := AList.update entityID f (srConfigs s')\<rparr>)))"

definition subordinate_key :: "string \<Rightarrow> string \<Rightarrow> string" where
  "subordinate_key endpoint subjectID = endpoint @ [CHR 0x00] @ subjectID"

definition subordinateStatement :: "Resolver \<Rightarrow> string \<Rightarrow> string \<Rightarrow> search \<Rightarrow> fetched \<times> search" where
  "subordinateStatement R endpoint subjectID s =
     (case map_of (srSubordinates s) (subordinate_key endpoint subjectID) of
        Some f \<Rightarrow> (f, s)
      | None \<Rightarrow>
          (case fetchSubordinateStatement R endpoint subjectID s of
             (f, s') \<Rightarrow> (f, s'\<lparr>srSubordinates :=
                 AList.update (subordinate_key endpoint subjectID) f (srSubordinates s')\<rparr>)))"

section \<open>Verifying against a key set\<close>

fun try_candidates :: "Resolver \<Rightarrow> Statement \<Rightarrow> VerifyPolicy \<Rightarrow> resolver_error
    \<Rightarrow> ParsedJWK list \<Rightarrow> resolver_error + Claims" where
  "try_candidates R stmt policy lastErr [] = Inl lastErr"
| "try_candidates R stmt policy lastErr (c # cs) =
     (if pkAlgorithm c \<noteq> vpAlgorithm policy \<or> pkKeyID c \<noteq> KeyID stmt
      then try_candidates R stmt policy lastErr cs
      else case Verify (rvEnv R) stmt (pkPublicKey c) policy of
        Inr claims \<Rightarrow> Inr claims
      | Inl e \<Rightarrow> try_candidates R stmt policy (NoKeyVerifies e) cs)"

definition verifyAgainstJWKS :: "Resolver \<Rightarrow> Statement \<Rightarrow> json \<Rightarrow> string \<Rightarrow> string
    \<Rightarrow> SignatureAlgorithm \<Rightarrow> time \<Rightarrow> resolver_error + Claims" where
  "verifyAgainstJWKS R stmt jwksRaw expectedIssuer expectedSubject algorithm now =
     (case ParseJWKSet (crypto_of (rvEnv R)) jwksRaw of
        Inl _ \<Rightarrow> Inl BadJWKS
      | Inr candidates \<Rightarrow>
          try_candidates R stmt
            \<lparr>vpExpectedIssuer = expectedIssuer, vpExpectedSubject = expectedSubject,
             vpAlgorithm = algorithm, vpNow = now,
             vpMaxLifetime = liMaxStatementLifetime (rvLimits R),
             vpMaxClockSkew = liMaxClockSkew (rvLimits R)\<rparr> NoCandidateKey candidates)"

definition verifySelfSigned :: "Resolver \<Rightarrow> Statement \<Rightarrow> string \<Rightarrow> time \<Rightarrow> resolver_error + Claims" where
  "verifySelfSigned R stmt entityID now =
     verifyAgainstJWKS R stmt (clJWKS (stClaims stmt)) entityID entityID (Algorithm stmt) now"

section \<open>Metadata\<close>

record entityMetadata =
  emFetchEndpoint :: string
  emTrustMarkStatusEndpoint :: string

definition entityMetadata_fields :: "string list" where
  "entityMetadata_fields = [''federation_fetch_endpoint'', ''federation_trust_mark_status_endpoint'']"

definition entityMetadata_dec :: "string \<Rightarrow> json \<Rightarrow> entityMetadata \<Rightarrow> entityMetadata option" where
  "entityMetadata_dec name v m =
     (if name = ''federation_fetch_endpoint'' then dec_string (\<lambda>x. emFetchEndpoint_update (\<lambda>_. x)) v m
      else dec_string (\<lambda>x. emTrustMarkStatusEndpoint_update (\<lambda>_. x)) v m)"

definition parseEntityMetadata :: "json assoc option \<Rightarrow> entityMetadata option" where
  "parseEntityMetadata metadata =
     (let zero = \<lparr>emFetchEndpoint = [], emTrustMarkStatusEndpoint = []\<rparr> in
      case map_of (nil_map metadata) federationEntityType of
        None \<Rightarrow> Some zero
      | Some raw \<Rightarrow>
          if CheckFieldCase (leaves entityMetadata_fields) raw
          then decode_struct entityMetadata_fields entityMetadata_dec zero raw else None)"

definition applySuperiorMetadata :: "json assoc \<Rightarrow> json assoc \<Rightarrow> resolver_error + json assoc" where
  "applySuperiorMetadata subject superior =
     (if superior = [] then Inr subject
      else foldR (\<lambda>out (entityType, raw).
        and_then
          (case map_of superior entityType of
             None \<Rightarrow> Inr raw
           | Some override \<Rightarrow>
               and_then (of_option (SubjectMetadataNotObject entityType) (unmarshal_object raw)) (\<lambda>params.
               and_then (of_option (SuperiorMetadataNotObject entityType) (unmarshal_object override)) (\<lambda>overrides.
               Inr (marshal_object (foldl (\<lambda>ps (name, value). AList.update name value ps) params overrides)))))
          (\<lambda>v. Inr (AList.update entityType v out))) [] subject)"

type_synonym subordinatePolicy = "metadata_policy option \<times> string list"

definition mergeCrit :: "string list \<Rightarrow> string list \<Rightarrow> string list" where
  "mergeCrit a b = foldl (\<lambda>out s. if s \<in> set out then out else out @ [s]) a b"

definition resolveMetadataPolicies :: "subordinatePolicy list
    \<Rightarrow> policy_error + (metadata_policy option \<times> string list)" where
  "resolveMetadataPolicies policies =
     foldR (\<lambda>(merged, crit) (policy, pcrit).
        and_then (MergePolicy merged crit policy pcrit) (\<lambda>merged'.
        Inr (merged', mergeCrit crit pcrit))) (None, []) (rev policies)"

definition resolveMetadata :: "subordinatePolicy list \<Rightarrow> json assoc
    \<Rightarrow> policy_error + (json assoc \<times> metadata_policy option)" where
  "resolveMetadata policies leafMetadata =
     and_then (resolveMetadataPolicies policies) (\<lambda>(merged, crit).
     and_then (ApplyPolicy merged crit leafMetadata) (\<lambda>resolved. Inr (resolved, merged)))"

section \<open>The walk\<close>

record ResolvedEntity =
  reEntityID :: string
  reTrustAnchor :: string
  reChain :: "string list"
  reMetadata :: "json assoc"
  reExpiresAt :: time
  reJWKS :: json
  reTrustMarks :: "RawTrustMark list"
  reTrustMarkOwners :: "TrustMarkOwner assoc"
  reTrustMarkIssuers :: "string list assoc"
  reTokens :: "string list"
  rePolicy :: "metadata_policy option"
  reConfigurationMetadata :: "json assoc"

record chainWalkState =
  wsSubjectID :: string
  wsLeafClaims :: Claims
  wsMinExpiry :: time
  wsBelowStmt :: "Statement"
  wsBelowIssuer :: string
  wsBelowSubject :: string
  wsEntityAt :: string
  wsVisited :: "string list"
  wsChain :: "string list"
  wsTokens :: "string list"
  wsSubordinatePolicies :: "subordinatePolicy list"
  wsSubordinateConstraints :: "subordinateConstraint list"
  wsSuperiorMetadata :: "json assoc"
  wsSubjectJWKS :: json
  wsEntityAtClaims :: Claims

definition newChainWalkState :: "string \<Rightarrow> Statement \<Rightarrow> string \<Rightarrow> Claims \<Rightarrow> chainWalkState" where
  "newChainWalkState subjectID leafStmt leafToken leafClaims =
     \<lparr>wsSubjectID = subjectID, wsLeafClaims = leafClaims, wsMinExpiry = clExpiresAt leafClaims,
      wsBelowStmt = leafStmt, wsBelowIssuer = subjectID, wsBelowSubject = subjectID,
      wsEntityAt = subjectID, wsVisited = [subjectID], wsChain = [subjectID], wsTokens = [leafToken],
      wsSubordinatePolicies = [], wsSubordinateConstraints = [], wsSuperiorMetadata = [],
      wsSubjectJWKS = JNull, wsEntityAtClaims = leafClaims\<rparr>"

definition foldExpiry :: "time \<Rightarrow> chainWalkState \<Rightarrow> chainWalkState" where
  "foldExpiry exp st = (if exp < wsMinExpiry st then st\<lparr>wsMinExpiry := exp\<rparr> else st)"

record hopSuperior =
  hsID :: string
  hsConfig :: "Statement"
  hsClaims :: Claims
  hsToken :: string
  hsAboveStmt :: "Statement"

text \<open>The constraints claim of the statement just read governs the chain below its issuer.\<close>

definition collectConstraints :: "Constraints option \<Rightarrow> chainWalkState \<Rightarrow> chainWalkState" where
  "collectConstraints constraints st =
     (case constraints of None \<Rightarrow> st
      | Some c \<Rightarrow> st\<lparr>wsSubordinateConstraints := wsSubordinateConstraints st @
          [\<lparr>scConstraints = c, scAppliesTo = butlast (wsChain st)\<rparr>]\<rparr>)"

definition firstHop :: "int \<Rightarrow> Claims \<Rightarrow> chainWalkState \<Rightarrow> chainWalkState" where
  "firstHop hop abv st =
     (if hop = 0 then st\<lparr>wsSubjectJWKS := clJWKS abv, wsSuperiorMetadata := nil_map (clMetadata abv)\<rparr>
      else st)"

definition collectPolicy :: "Claims \<Rightarrow> chainWalkState \<Rightarrow> chainWalkState" where
  "collectPolicy abv st = st\<lparr>wsSubordinatePolicies := wsSubordinatePolicies st @
     [(clMetadataPolicy abv, clMetadataPolicyCritical abv)]\<rparr>"

definition map_error :: "('e \<Rightarrow> 'f) \<Rightarrow> 'e + 'a \<Rightarrow> 'f + 'a" where
  "map_error f m = (case m of Inl e \<Rightarrow> Inl (f e) | Inr x \<Rightarrow> Inr x)"

definition finalizeTrustChain :: "Resolver \<Rightarrow> chainWalkState \<Rightarrow> int \<Rightarrow> hopSuperior \<Rightarrow> json
    \<Rightarrow> time \<Rightarrow> resolver_error + ResolvedEntity" where
  "finalizeTrustChain R st hop hs anchorJWKS now =
     and_then (verifyAgainstJWKS R (hsConfig hs) anchorJWKS (hsID hs) (hsID hs)
         (Algorithm (hsConfig hs)) now) (\<lambda>_.
     and_then (verifyAgainstJWKS R (hsAboveStmt hs) (clJWKS (hsClaims hs)) (hsID hs) (wsEntityAt st)
         (Algorithm (hsAboveStmt hs)) now) (\<lambda>abv.
     and_then (verifyAgainstJWKS R (wsBelowStmt st) (clJWKS abv) (wsBelowIssuer st) (wsBelowSubject st)
         (Algorithm (wsBelowStmt st)) now) (\<lambda>below.
     let st = collectConstraints (clConstraints abv) (collectPolicy abv (firstHop hop abv
                (foldExpiry (clExpiresAt below) (foldExpiry (clExpiresAt abv) st)))) in
     and_then (map_error ConstraintFailed (checkNamingConstraints (rvEnv R) (wsSubordinateConstraints st))) (\<lambda>_.
     and_then (map_error ConstraintFailed (checkMaxPathLengthConstraints (wsSubordinateConstraints st))) (\<lambda>_.
     and_then (applySuperiorMetadata (nil_map (clMetadata (wsLeafClaims st))) (wsSuperiorMetadata st)) (\<lambda>declared.
     and_then (map_error PolicyFailed (resolveMetadata (wsSubordinatePolicies st)
         (filterAllowedEntityTypes (wsSubordinateConstraints st) declared))) (\<lambda>(resolved, policy).
     Inr \<lparr>reEntityID = wsSubjectID st, reTrustAnchor = hsID hs, reChain = wsChain st,
          reMetadata = resolved, reExpiresAt = wsMinExpiry st, reJWKS = wsSubjectJWKS st,
          reTrustMarks = clTrustMarks (wsLeafClaims st),
          reTrustMarkOwners = clTrustMarkOwners (wsLeafClaims st),
          reTrustMarkIssuers = clTrustMarkIssuers (wsLeafClaims st),
          reTokens = wsTokens st @ [hsToken hs], rePolicy = policy,
          reConfigurationMetadata = nil_map (clMetadata (wsLeafClaims st))\<rparr>)))))))"

definition advanceIntermediateHop :: "Resolver \<Rightarrow> chainWalkState \<Rightarrow> int \<Rightarrow> hopSuperior
    \<Rightarrow> time \<Rightarrow> resolver_error + chainWalkState" where
  "advanceIntermediateHop R st hop hs now =
     (let abv = stClaims (hsAboveStmt hs) in
      and_then (verifyAgainstJWKS R (wsBelowStmt st) (clJWKS abv) (wsBelowIssuer st) (wsBelowSubject st)
          (Algorithm (wsBelowStmt st)) now) (\<lambda>below.
      let st = collectConstraints (clConstraints abv) (collectPolicy abv (firstHop hop abv
                 (foldExpiry (clExpiresAt below) st))) in
      Inr (st\<lparr>wsBelowStmt := hsAboveStmt hs, wsBelowIssuer := hsID hs, wsBelowSubject := wsEntityAt st,
              wsEntityAt := hsID hs, wsEntityAtClaims := hsClaims hs\<rparr>)))"

definition trustAnchorsFirst :: "Resolver \<Rightarrow> string list \<Rightarrow> string list" where
  "trustAnchorsFirst R hints = filter (is_anchor R) hints @ filter (\<lambda>h. \<not> is_anchor R h) hints"

text \<open>
  \<open>fetchAboveStatement\<close> fetches what a superior says about the entity below it, from the
  endpoint the superior's own Entity Configuration names.
\<close>

definition fetchAboveStatement :: "Resolver \<Rightarrow> string \<Rightarrow> Claims \<Rightarrow> string \<Rightarrow> search
    \<Rightarrow> fetched \<times> search" where
  "fetchAboveStatement R superiorID superiorClaims entityAt s =
     (case parseEntityMetadata (clMetadata superiorClaims) of
        None \<Rightarrow> (Inl (BadEntityMetadata superiorID), s)
      | Some aboveMeta \<Rightarrow>
          if emFetchEndpoint aboveMeta = [] then (Inl (NoFetchEndpoint superiorID), s)
          else case subordinateStatement R (emFetchEndpoint aboveMeta) entityAt s of
            (Inl e, s') \<Rightarrow> (Inl e, s')
          | (Inr (aboveStmt, aboveToken), s') \<Rightarrow>
              (if clIssuer (stClaims aboveStmt) \<noteq> superiorID \<or> clSubject (stClaims aboveStmt) \<noteq> entityAt
               then Inl (WrongParties superiorID entityAt) else Inr (aboveStmt, aboveToken), s'))"

text \<open>
  The Entity Configuration of a superior and its statement about \<open>entityAt\<close>, as
  \<open>tryHint\<close> obtains them before it extends the chain.
\<close>

definition fetchSuperior :: "Resolver \<Rightarrow> string \<Rightarrow> string \<Rightarrow> time \<Rightarrow> search
    \<Rightarrow> (resolver_error + (hopSuperior \<times> string)) \<times> search" where
  "fetchSuperior R hint entityAt now s =
     (case entityConfiguration R hint s of
        (Inl e, s') \<Rightarrow> (Inl e, s')
      | (Inr (config, token), s') \<Rightarrow>
          if clIssuer (stClaims config) \<noteq> hint \<or> clSubject (stClaims config) \<noteq> hint
          then (Inl (WrongParties hint hint), s')
          else case verifySelfSigned R config hint now of
            Inl e \<Rightarrow> (Inl e, s')
          | Inr claims \<Rightarrow>
              (case fetchAboveStatement R hint claims entityAt s' of
                 (Inl e, s'') \<Rightarrow> (Inl e, s'')
               | (Inr (aboveStmt, aboveToken), s'') \<Rightarrow>
                   (Inr (\<lparr>hsID = hint, hsConfig = config, hsClaims = claims, hsToken = token,
                          hsAboveStmt = aboveStmt\<rparr>, aboveToken), s'')))"

text \<open>The copy of the walk's state that a branch through \<open>hs\<close> extends.\<close>

definition extendBranch :: "hopSuperior \<Rightarrow> string \<Rightarrow> chainWalkState \<Rightarrow> chainWalkState" where
  "extendBranch hs aboveToken st =
     (foldExpiry (clExpiresAt (hsClaims hs)) st)
       \<lparr>wsVisited := hsID hs # wsVisited st, wsChain := wsChain st @ [hsID hs],
        wsTokens := wsTokens st @ [aboveToken]\<rparr>"

type_synonym outcome = "(resolver_error + ResolvedEntity) \<times> search"

text \<open>
  \<open>tryHint\<close> is given the walk one hop further up, and \<open>walk_hints\<close>, the loop over the
  ordered hints, the attempt of one hint; \<open>walk\<close> ties the knot.
\<close>

definition tryHint :: "Resolver \<Rightarrow> (chainWalkState \<Rightarrow> search \<Rightarrow> outcome) \<Rightarrow> time
    \<Rightarrow> chainWalkState \<Rightarrow> int \<Rightarrow> string \<Rightarrow> search \<Rightarrow> outcome" where
  "tryHint R walk_on now st hop hint s =
     (case fetchSuperior R hint (wsEntityAt st) now s of
        (Inl e, s') \<Rightarrow> (Inl e, s')
      | (Inr (hs, aboveToken), s') \<Rightarrow>
          let branch = extendBranch hs aboveToken st in
          (case map_of (rvTrustAnchorsByID R) hint of
             Some anchorJWKS \<Rightarrow> (finalizeTrustChain R branch hop hs anchorJWKS now, s')
           | None \<Rightarrow>
               (case advanceIntermediateHop R branch hop hs now of
                  Inl e \<Rightarrow> (Inl e, s')
                | Inr branch' \<Rightarrow> walk_on branch' s')))"

fun walk_hints :: "(string \<Rightarrow> search \<Rightarrow> outcome) \<Rightarrow> chainWalkState
    \<Rightarrow> (string \<times> resolver_error) list \<Rightarrow> string list \<Rightarrow> search \<Rightarrow> outcome" where
  "walk_hints attempt st branches [] s =
     (Inl (if branches = [] then NoUnvisitedSuperior (wsEntityAt st) else NoPath (wsEntityAt st) branches), s)"
| "walk_hints attempt st branches (hint # hints) s =
     (if hint \<in> set (wsVisited st) then walk_hints attempt st branches hints s
      else if srBudget s \<le> 0 then (Inl (BudgetExhausted (wsEntityAt st) branches), s)
      else case attempt hint (s\<lparr>srBudget := srBudget s - 1\<rparr>) of
        (Inr result, s') \<Rightarrow> (Inr result, s')
      | (Inl e, s') \<Rightarrow> walk_hints attempt st (branches @ [(hint, e)]) hints s')"

function walk :: "Resolver \<Rightarrow> time \<Rightarrow> int \<Rightarrow> chainWalkState \<Rightarrow> search \<Rightarrow> outcome" where
  "walk R now hop st s =
     (if liMaxPathLength (rvLimits R) \<le> hop then (Inl PathLengthExceeded, s)
      else let hints = clAuthorityHints (wsEntityAtClaims st) in
        if hints = [] then (Inl (NoAuthorityHints (wsEntityAt st)), s)
        else if liMaxAuthorityHints (rvLimits R) < int (length hints)
        then (Inl (TooManyAuthorityHints (wsEntityAt st) (length hints)), s)
        else walk_hints (tryHint R (walk R now (hop + 1)) now st hop) st [] (trustAnchorsFirst R hints) s)"
  by pat_completeness auto
termination
  by (relation "measure (\<lambda>(R, now, hop, _). nat (liMaxPathLength (rvLimits R) - hop))") auto

declare walk.simps [simp del]

definition resolveSelfAsTrustAnchor :: "Resolver \<Rightarrow> string \<Rightarrow> Statement \<Rightarrow> string \<Rightarrow> Claims \<Rightarrow> json
    \<Rightarrow> time \<Rightarrow> resolver_error + ResolvedEntity" where
  "resolveSelfAsTrustAnchor R subjectID leafStmt leafToken leafClaims anchorJWKS now =
     and_then (verifyAgainstJWKS R leafStmt anchorJWKS subjectID subjectID (Algorithm leafStmt) now) (\<lambda>_.
     Inr \<lparr>reEntityID = subjectID, reTrustAnchor = subjectID, reChain = [subjectID],
          reMetadata = nil_map (clMetadata leafClaims), reExpiresAt = clExpiresAt leafClaims,
          reJWKS = anchorJWKS, reTrustMarks = clTrustMarks leafClaims,
          reTrustMarkOwners = clTrustMarkOwners leafClaims,
          reTrustMarkIssuers = clTrustMarkIssuers leafClaims, reTokens = [leafToken],
          rePolicy = None, reConfigurationMetadata = nil_map (clMetadata leafClaims)\<rparr>)"

definition initial_budget :: "Resolver \<Rightarrow> int" where
  "initial_budget R = wrap64 (liMaxPathLength (rvLimits R) * liMaxAuthorityHints (rvLimits R))"

definition Resolve :: "Resolver \<Rightarrow> time \<Rightarrow> string \<Rightarrow> outcome" where
  "Resolve R now subjectID =
     (let s0 = newStatementCache (initial_budget R) in
      if subjectID = [] then (Inl EmptySubject, s0)
      else case entityConfiguration R subjectID s0 of
        (Inl e, s) \<Rightarrow> (Inl e, s)
      | (Inr (leafStmt, leafToken), s) \<Rightarrow>
          if clIssuer (stClaims leafStmt) \<noteq> subjectID \<or> clSubject (stClaims leafStmt) \<noteq> subjectID
          then (Inl (WrongParties subjectID subjectID), s)
          else case verifySelfSigned R leafStmt subjectID now of
            Inl e \<Rightarrow> (Inl e, s)
          | Inr leafClaims \<Rightarrow>
              (case map_of (rvTrustAnchorsByID R) subjectID of
                 Some anchorJWKS \<Rightarrow>
                   (resolveSelfAsTrustAnchor R subjectID leafStmt leafToken leafClaims anchorJWKS now, s)
               | None \<Rightarrow> walk R now 0 (newChainWalkState subjectID leafStmt leafToken leafClaims) s))"

end
