(* ===== verification/Resolver_Fetch.thy ===== *)
theory Resolver_Fetch
  imports Resolver
begin

text \<open>
  How often a resolution goes to the network. The two lookups of the statement cache keep one
  contract, the locale \<open>fetch_once\<close>: an answer is asked for at most once and never changes.
  The search spends at most two requests per unit of its budget.
\<close>

section \<open>The contract of a cache\<close>

locale fetch_once =
  fixes get :: "'a \<Rightarrow> 's \<Rightarrow> 'r \<times> 's"
    and cached :: "'s \<Rightarrow> 'a \<Rightarrow> 'r option"
    and requests :: "'s \<Rightarrow> 'q list"
    and ok :: "'s \<Rightarrow> bool"
  assumes keeps_ok: "ok s \<Longrightarrow> ok (snd (get a s))"
    and ok_distinct: "ok s \<Longrightarrow> distinct (requests s)"
    and hit: "cached s a = Some r \<Longrightarrow> get a s = (r, s)"
    and stored: "cached (snd (get a s)) a = Some (fst (get a s))"
    and kept: "cached s b = Some r \<Longrightarrow> cached (snd (get a s)) b = Some r"
    and one_request: "\<exists>new. requests (snd (get a s)) = requests s @ new \<and> length new \<le> 1"
begin

definition gets :: "'a list \<Rightarrow> 's \<Rightarrow> 's" where
  "gets as s = foldl (\<lambda>s a. snd (get a s)) s as"

lemma gets_simps [simp]: "gets [] s = s" "gets (a # as) s = gets as (snd (get a s))"
  by (simp_all add: gets_def)

lemma gets_ok: "ok s \<Longrightarrow> ok (gets as s)"
  by (induction as arbitrary: s) (simp_all add: keeps_ok)

lemma gets_kept: "cached s a = Some r \<Longrightarrow> cached (gets as s) a = Some r"
  by (induction as arbitrary: s) (simp_all add: kept)

text \<open>Whatever is asked in between, asking again gives the first answer and sends nothing.\<close>

lemma get_again: "get a (gets as (snd (get a s))) = (fst (get a s), gets as (snd (get a s)))"
  using hit [OF gets_kept [OF stored]] .

lemma gets_distinct: "ok s \<Longrightarrow> distinct (requests (gets as s))"
  by (simp add: gets_ok ok_distinct)

lemma get_requests: "length (requests (snd (get a s))) \<le> length (requests s) + 1"
  using one_request [of a s] by auto

end

section \<open>The statement cache\<close>

text \<open>
  Every request sent has its answer cached, no request was sent twice, and every statement in the
  cache is what its token parses to.
\<close>

definition genuine :: "Resolver \<Rightarrow> fetched \<Rightarrow> bool" where
  "genuine R f = (case f of Inl _ \<Rightarrow> True | Inr (stmt, token) \<Rightarrow> Parse (rvEnv R) token = Inr stmt)"

definition cache_ok :: "Resolver \<Rightarrow> search \<Rightarrow> bool" where
  "cache_ok R s \<longleftrightarrow>
     distinct (srLog s) \<and>
     (\<forall>e. ConfigRequest e \<in> set (srLog s) \<longrightarrow> map_of (srConfigs s) e \<noteq> None) \<and>
     (\<forall>u e. SubordinateRequest u e \<in> set (srLog s) \<longrightarrow>
        map_of (srSubordinates s) (subordinate_key u e) \<noteq> None) \<and>
     (\<forall>e f. map_of (srConfigs s) e = Some f \<longrightarrow> genuine R f) \<and>
     (\<forall>k f. map_of (srSubordinates s) k = Some f \<longrightarrow> genuine R f)"

lemma http_fetch_state: "snd (http_fetch R req s) = s\<lparr>srLog := srLog s @ [req]\<rparr>"
  by (simp add: http_fetch_def)

lemma http_fetch_genuine: "genuine R (fst (http_fetch R req s))"
  by (auto simp: http_fetch_def genuine_def split: option.splits sum.splits)

lemma fetchEntityConfiguration_cases:
  obtains "snd (fetchEntityConfiguration R e s) = s"
  | "snd (fetchEntityConfiguration R e s) = s\<lparr>srLog := srLog s @ [ConfigRequest e]\<rparr>"
  by (cases "wellKnownURL (rvEnv R) e") (auto simp: fetchEntityConfiguration_def http_fetch_state)

lemma fetchEntityConfiguration_genuine: "genuine R (fst (fetchEntityConfiguration R e s))"
  by (cases "wellKnownURL (rvEnv R) e")
    (auto simp: fetchEntityConfiguration_def http_fetch_genuine genuine_def [of R "Inl _"])

lemma fetchSubordinateStatement_cases:
  obtains "snd (fetchSubordinateStatement R u e s) = s"
  | "snd (fetchSubordinateStatement R u e s) = s\<lparr>srLog := srLog s @ [SubordinateRequest u e]\<rparr>"
proof -
  have "snd (fetchSubordinateStatement R u e s) = s \<or>
      snd (fetchSubordinateStatement R u e s) = s\<lparr>srLog := srLog s @ [SubordinateRequest u e]\<rparr>"
    by (auto simp: fetchSubordinateStatement_def http_fetch_state split: option.split)
  with that show ?thesis by blast
qed

lemma fetchSubordinateStatement_genuine: "genuine R (fst (fetchSubordinateStatement R u e s))"
  by (cases "url_parse (rvEnv R) u")
    (auto simp: fetchSubordinateStatement_def http_fetch_genuine genuine_def [of R "Inl _"])

lemma entityConfiguration_miss:
  "map_of (srConfigs s) e = None \<Longrightarrow>
   entityConfiguration R e s = (let r = fetchEntityConfiguration R e s in
     (fst r, (snd r)\<lparr>srConfigs := AList.update e (fst r) (srConfigs s)\<rparr>))"
  by (rule fetchEntityConfiguration_cases [of R e s])
    (simp_all add: entityConfiguration_def Let_def case_prod_unfold)

lemma subordinateStatement_miss:
  "map_of (srSubordinates s) (subordinate_key u e) = None \<Longrightarrow>
   subordinateStatement R u e s = (let r = fetchSubordinateStatement R u e s in
     (fst r, (snd r)\<lparr>srSubordinates := AList.update (subordinate_key u e) (fst r) (srSubordinates s)\<rparr>))"
  by (rule fetchSubordinateStatement_cases [of R u e s])
    (simp_all add: subordinateStatement_def Let_def case_prod_unfold)

lemma entityConfiguration_ok:
  assumes "cache_ok R s"
  shows "cache_ok R (snd (entityConfiguration R e s))"
proof (cases "map_of (srConfigs s) e")
  case None
  have "genuine R (fst (fetchEntityConfiguration R e s))" by (rule fetchEntityConfiguration_genuine)
  with assms None show ?thesis
    by (cases rule: fetchEntityConfiguration_cases [of R e s])
      (auto simp: entityConfiguration_miss Let_def cache_ok_def)
qed (use assms in \<open>simp add: entityConfiguration_def\<close>)

lemma subordinateStatement_ok:
  assumes "cache_ok R s"
  shows "cache_ok R (snd (subordinateStatement R u e s))"
proof (cases "map_of (srSubordinates s) (subordinate_key u e)")
  case None
  have "genuine R (fst (fetchSubordinateStatement R u e s))" by (rule fetchSubordinateStatement_genuine)
  moreover have "SubordinateRequest u e \<notin> set (srLog s)" using assms None by (force simp: cache_ok_def)
  ultimately show ?thesis using assms None
    by (cases rule: fetchSubordinateStatement_cases [of R u e s])
      (auto simp: subordinateStatement_miss Let_def cache_ok_def)
qed (use assms in \<open>simp add: subordinateStatement_def\<close>)

interpretation configs: fetch_once "entityConfiguration R" "\<lambda>s. map_of (srConfigs s)" srLog "cache_ok R"
  for R :: "Resolver"
proof
  fix s :: "search" and a b r
  show "cache_ok R s \<Longrightarrow> cache_ok R (snd (entityConfiguration R a s))" by (rule entityConfiguration_ok)
  show "cache_ok R s \<Longrightarrow> distinct (srLog s)" by (simp add: cache_ok_def)
  show hit: "map_of (srConfigs s) a = Some r \<Longrightarrow> entityConfiguration R a s = (r, s)" for a r
    by (simp add: entityConfiguration_def)
  show "map_of (srConfigs (snd (entityConfiguration R a s))) a = Some (fst (entityConfiguration R a s))"
    by (cases "map_of (srConfigs s) a") (simp_all add: hit entityConfiguration_miss Let_def)
  show "map_of (srConfigs s) b = Some r \<Longrightarrow> map_of (srConfigs (snd (entityConfiguration R a s))) b = Some r"
    by (cases "map_of (srConfigs s) a") (auto simp: hit entityConfiguration_miss Let_def)
  show "\<exists>new. srLog (snd (entityConfiguration R a s)) = srLog s @ new \<and> length new \<le> 1"
    by (cases "map_of (srConfigs s) a"; cases rule: fetchEntityConfiguration_cases [of R a s])
      (auto simp: hit entityConfiguration_miss Let_def)
qed

interpretation subordinates: fetch_once "\<lambda>(u, e). subordinateStatement R u e"
    "\<lambda>s (u, e). map_of (srSubordinates s) (subordinate_key u e)" srLog "cache_ok R"
  for R :: "Resolver"
proof
  fix s :: "search" and a b :: "string \<times> string" and r :: "fetched"
  obtain u e where a: "a = (u, e)" by (cases a)
  have hit: "map_of (srSubordinates s) (subordinate_key u e) = Some r \<Longrightarrow> subordinateStatement R u e s = (r, s)"
    for u e r by (simp add: subordinateStatement_def)
  show "cache_ok R s \<Longrightarrow> cache_ok R (snd ((case a of (u, e) \<Rightarrow> subordinateStatement R u e) s))"
    by (simp add: a subordinateStatement_ok)
  show "cache_ok R s \<Longrightarrow> distinct (srLog s)" by (simp add: cache_ok_def)
  show "(case a of (u, e) \<Rightarrow> map_of (srSubordinates s) (subordinate_key u e)) = Some r \<Longrightarrow>
      (case a of (u, e) \<Rightarrow> subordinateStatement R u e) s = (r, s)"
    by (simp add: a hit)
  show "(case a of (u, e) \<Rightarrow> map_of (srSubordinates
        (snd ((case a of (u, e) \<Rightarrow> subordinateStatement R u e) s))) (subordinate_key u e)) =
      Some (fst ((case a of (u, e) \<Rightarrow> subordinateStatement R u e) s))"
    by (cases "map_of (srSubordinates s) (subordinate_key u e)")
      (simp_all add: a hit subordinateStatement_miss Let_def)
  show "(case b of (u, e) \<Rightarrow> map_of (srSubordinates s) (subordinate_key u e)) = Some r \<Longrightarrow>
      (case b of (u, e) \<Rightarrow> map_of (srSubordinates
        (snd ((case a of (u, e) \<Rightarrow> subordinateStatement R u e) s))) (subordinate_key u e)) = Some r"
    by (cases "map_of (srSubordinates s) (subordinate_key u e)"; cases b)
      (auto simp: a hit subordinateStatement_miss Let_def)
  show "\<exists>new. srLog (snd ((case a of (u, e) \<Rightarrow> subordinateStatement R u e) s)) = srLog s @ new \<and> length new \<le> 1"
    by (cases "map_of (srSubordinates s) (subordinate_key u e)";
        cases rule: fetchSubordinateStatement_cases [of R u e s])
      (auto simp: a hit subordinateStatement_miss Let_def)
qed

section \<open>The budget\<close>

lemma srLog_budget [simp]: "srLog (s\<lparr>srBudget := b\<rparr>) = srLog s"
  by simp

lemma cache_ok_budget [simp]: "cache_ok R (s\<lparr>srBudget := b\<rparr>) = cache_ok R s"
  by (simp add: cache_ok_def)

lemma http_fetch_budget [simp]: "srBudget (snd (http_fetch R req s)) = srBudget s"
  by (simp add: http_fetch_def)

lemma entityConfiguration_budget [simp]: "srBudget (snd (entityConfiguration R e s)) = srBudget s"
  by (cases rule: fetchEntityConfiguration_cases [of R e s])
    (auto simp: entityConfiguration_def case_prod_unfold split: option.split)

lemma subordinateStatement_budget [simp]: "srBudget (snd (subordinateStatement R u e s)) = srBudget s"
  by (cases rule: fetchSubordinateStatement_cases [of R u e s])
    (auto simp: subordinateStatement_def case_prod_unfold split: option.split)

text \<open>\<open>spent R k s s'\<close>: from \<open>s\<close> to \<open>s'\<close> at most \<open>k\<close> requests, the cache still sound.\<close>

definition spent :: "Resolver \<Rightarrow> nat \<Rightarrow> search \<Rightarrow> search \<Rightarrow> bool" where
  "spent R k s s' \<longleftrightarrow> (cache_ok R s \<longrightarrow> cache_ok R s') \<and> srBudget s' = srBudget s \<and>
     length (srLog s') \<le> length (srLog s) + k"

lemma spent_refl [simp]: "spent R k s s"
  by (simp add: spent_def)

lemma spent_trans: "spent R k s s' \<Longrightarrow> spent R l s' s'' \<Longrightarrow> spent R (k + l) s s''"
  by (auto simp: spent_def)

lemma spent_mono: "spent R k s s' \<Longrightarrow> k \<le> l \<Longrightarrow> spent R l s s'"
  by (auto simp: spent_def)

lemma spent_config: "spent R 1 s (snd (entityConfiguration R e s))"
  using configs.get_requests [of R e s] by (simp add: spent_def entityConfiguration_ok)

lemma spent_subordinate: "spent R 1 s (snd (subordinateStatement R u e s))"
  using subordinates.get_requests [of R "(u, e)" s] by (simp add: spent_def subordinateStatement_ok)

lemma spent_above: "spent R 1 s (snd (fetchAboveStatement R i c e s))"
proof (cases "parseEntityMetadata (clMetadata c)")
  case (Some m)
  then show ?thesis
    using spent_subordinate [of R s "emFetchEndpoint m" e]
    by (auto simp: fetchAboveStatement_def split: prod.splits sum.splits)
qed (simp add: fetchAboveStatement_def)

lemma spent_superior: "spent R 2 s (snd (fetchSuperior R hint e now s))"
proof -
  obtain r s' where c: "entityConfiguration R hint s = (r, s')" by (cases "entityConfiguration R hint s")
  have 1: "spent R 1 s s'" using spent_config [of R s hint] by (simp add: c)
  have 2: "spent R 2 s (snd (fetchAboveStatement R hint cl e s'))" for cl
    using spent_trans [OF 1 spent_above, of hint cl e] by (simp add: numeral_2_eq_2)
  have 3: "spent R 2 s s'" using 1 by (rule spent_mono) simp
  show ?thesis
    using 2 3 by (auto simp: fetchSuperior_def c split: sum.splits prod.splits) (metis snd_conv)+
qed

text \<open>
  \<open>within R k s\<close>: the requests sent and the two that every remaining unit of the budget can
  still cost stay within \<open>k\<close>.
\<close>

definition within :: "Resolver \<Rightarrow> int \<Rightarrow> search \<Rightarrow> bool" where
  "within R k s \<longleftrightarrow> cache_ok R s \<and> int (length (srLog s)) + 2 * max 0 (srBudget s) \<le> k"

lemma within_spend:
  assumes "within R k s" "0 < srBudget s" "spent R 2 (s\<lparr>srBudget := srBudget s - 1\<rparr>) s'"
  shows "within R k s'"
  using assms by (auto simp: within_def spent_def)

lemma walk_hints_within:
  assumes "\<And>hint s. 0 < srBudget s \<Longrightarrow> within R k s \<Longrightarrow>
      within R k (snd (attempt hint (s\<lparr>srBudget := srBudget s - 1\<rparr>)))"
    and "within R k s"
  shows "within R k (snd (walk_hints attempt st branches hints s))"
  using assms(2)
proof (induction hints arbitrary: branches s)
  case (Cons hint hints)
  show ?case
  proof (cases "hint \<in> set (wsVisited st) \<or> srBudget s \<le> 0")
    case False
    obtain r s' where a: "attempt hint (s\<lparr>srBudget := srBudget s - 1\<rparr>) = (r, s')"
      by (cases "attempt hint (s\<lparr>srBudget := srBudget s - 1\<rparr>)")
    have "within R k s'" using assms(1) [of s hint] Cons.prems False by (simp add: a)
    with False Cons.IH [of s'] show ?thesis by (cases r) (simp_all add: a)
  qed (use Cons in auto)
qed simp

text \<open>Induction over a walk: what holds of every walk one hop further up holds of this one.\<close>

lemma walk_hop_induct:
  assumes "\<And>hop st s. (hop < liMaxPathLength (rvLimits R) \<Longrightarrow> \<forall>st s. P (hop + 1) st s) \<Longrightarrow> P hop st s"
  shows "P hop st s"
proof (induction "nat (liMaxPathLength (rvLimits R) - hop)" arbitrary: hop st s rule: less_induct)
  case less
  show ?case
    by (rule assms) (use less in auto)
qed

lemma tryHint_within:
  assumes ih: "\<And>st s. within R k s \<Longrightarrow> within R k (snd (walk_on st s))"
    and b: "0 < srBudget s" and w: "within R k s"
  shows "within R k (snd (tryHint R walk_on now st hop hint (s\<lparr>srBudget := srBudget s - 1\<rparr>)))"
proof -
  let ?s = "s\<lparr>srBudget := srBudget s - 1\<rparr>"
  obtain r s' where f: "fetchSuperior R hint (wsEntityAt st) now ?s = (r, s')"
    by (cases "fetchSuperior R hint (wsEntityAt st) now ?s")
  have "within R k s'"
    using within_spend [OF w b] spent_superior [of R ?s hint "wsEntityAt st" now] by (simp add: f)
  then show ?thesis
    using ih by (auto simp: tryHint_def f Let_def split: sum.splits prod.splits option.splits)
qed

lemma walk_within: "within R k s \<Longrightarrow> within R k (snd (walk R now hop st s))"
proof (induction hop st s rule: walk_hop_induct [where R = R])
  case (1 hop st s)
  show ?case
  proof (cases "hop < liMaxPathLength (rvLimits R)")
    case True
    have ih: "within R k s' \<Longrightarrow> within R k (snd (walk R now (hop + 1) st' s'))" for st' s'
      using 1(1) True by blast
    have "within R k (snd (walk_hints (tryHint R (walk R now (hop + 1)) now st hop) st []
        (trustAnchorsFirst R (clAuthorityHints (wsEntityAtClaims st))) s))"
    proof (rule walk_hints_within [OF _ "1.prems"])
      fix hint s
      assume "0 < srBudget s" "within R k s"
      then show "within R k (snd (tryHint R (walk R now (hop + 1)) now st hop hint
          (s\<lparr>srBudget := srBudget s - 1\<rparr>)))"
        by (intro tryHint_within ih)
    qed
    with "1.prems" True show ?thesis by (simp add: walk.simps [of R now hop] Let_def)
  qed (use 1 in \<open>simp add: walk.simps [of R now hop]\<close>)
qed

lemma wrap64_le: "0 \<le> x \<Longrightarrow> wrap64 x \<le> x"
proof -
  assume "0 \<le> x"
  then have "(x + 2 ^ 63) mod 2 ^ 64 \<le> x + 2 ^ 63" by (intro zmod_le_nonneg_dividend) simp
  then show ?thesis by (simp add: wrap64_def)
qed

lemma Resolve_within:
  assumes "0 < liMaxPathLength (rvLimits R)" "0 < liMaxAuthorityHints (rvLimits R)"
  shows "within R (2 * (liMaxPathLength (rvLimits R) * liMaxAuthorityHints (rvLimits R)) + 1)
    (snd (Resolve R now subjectID))"
proof -
  let ?k = "2 * (liMaxPathLength (rvLimits R) * liMaxAuthorityHints (rvLimits R)) + 1"
  let ?s0 = "newStatementCache (initial_budget R) :: search"
  have b: "max 0 (initial_budget R) \<le> liMaxPathLength (rvLimits R) * liMaxAuthorityHints (rvLimits R)"
    using assms wrap64_le [of "liMaxPathLength (rvLimits R) * liMaxAuthorityHints (rvLimits R)"]
    by (simp add: initial_budget_def)
  have ok: "cache_ok R ?s0" by (simp add: cache_ok_def newStatementCache_def)
  have w0: "within R ?k ?s0"
    using b ok unfolding within_def by (simp add: newStatementCache_def) linarith
  obtain r s where c: "entityConfiguration R subjectID ?s0 = (r, s)" by (cases "entityConfiguration R subjectID ?s0")
  have "spent R 1 ?s0 s" using spent_config [of R ?s0 subjectID] by (simp add: c)
  then have "cache_ok R s" "length (srLog s) \<le> 1" "srBudget s = initial_budget R"
    using ok by (auto simp: spent_def newStatementCache_def)
  with b have w: "within R ?k s" unfolding within_def by simp linarith
  show ?thesis
    using w0 w walk_within [OF w]
    by (auto simp: Resolve_def Let_def c split: sum.splits prod.splits option.splits)
qed

end
