(* ===== verification/Resolver_Correct.thy ===== *)
theory Resolver_Correct
  imports Resolver_Fetch
begin

text \<open>
  What a resolved Trust Chain has been checked for. A chain is a list of \<open>link\<close>s from the
  subject upward: the statement issued by \<open>lkIssuer\<close> about \<open>lkSubject\<close>. The invariant of the walk
  ties every field of \<open>chainWalkState\<close> to the links verified so far.
\<close>

record link =
  lkIssuer :: string
  lkSubject :: string
  lkStmt :: "Statement"
  lkToken :: string

definition lkClaims :: "link \<Rightarrow> Claims" where
  "lkClaims l = stClaims (lkStmt l)"

definition link_ok :: "Resolver \<Rightarrow> link \<Rightarrow> bool" where
  "link_ok R l \<longleftrightarrow> Parse (rvEnv R) (lkToken l) = Inr (lkStmt l) \<and>
     clIssuer (lkClaims l) = lkIssuer l \<and> clSubject (lkClaims l) = lkSubject l"

text \<open>\<open>keys_verify R now jwks l\<close>: some key of the set verifies the statement, now.\<close>

definition keys_verify :: "Resolver \<Rightarrow> time \<Rightarrow> json \<Rightarrow> link \<Rightarrow> bool" where
  "keys_verify R now jwks l \<longleftrightarrow>
     verifyAgainstJWKS R (lkStmt l) jwks (lkIssuer l) (lkSubject l) (Algorithm (lkStmt l)) now
       = Inr (lkClaims l)"

text \<open>Every link but the last is about the issuer below it and verifies under the keys above it.\<close>

fun vouched :: "Resolver \<Rightarrow> time \<Rightarrow> link list \<Rightarrow> bool" where
  "vouched R now (a # b # ls) =
     (lkSubject b = lkIssuer a \<and> keys_verify R now (clJWKS (lkClaims b)) a \<and> vouched R now (b # ls))"
| "vouched R now _ = True"

lemma vouched_snoc:
  "vouched R now (ls @ [a, b]) \<longleftrightarrow>
     vouched R now (ls @ [a]) \<and> lkSubject b = lkIssuer a \<and> keys_verify R now (clJWKS (lkClaims b)) a"
proof (induction ls)
  case (Cons l ls)
  then show ?case by (cases ls) auto
qed simp

text \<open>The constraints read above each link, with the entities they govern.\<close>

definition governed :: "Constraints option \<Rightarrow> string list \<Rightarrow> subordinateConstraint list" where
  "governed constraints below =
     (case constraints of None \<Rightarrow> [] | Some c \<Rightarrow> [\<lparr>scConstraints = c, scAppliesTo = below\<rparr>])"

fun collected_from :: "string list \<Rightarrow> link list \<Rightarrow> subordinateConstraint list" where
  "collected_from below [] = []"
| "collected_from below (l # ls) =
     (governed (clConstraints (lkClaims l)) below) @ collected_from (below @ [lkIssuer l]) ls"

lemma collected_from_snoc:
  "collected_from below (ls @ [l]) = collected_from below ls @
     (governed (clConstraints (lkClaims l)) (below @ map lkIssuer ls))"
  by (induction ls arbitrary: below) simp_all

definition collected :: "link list \<Rightarrow> subordinateConstraint list" where
  "collected ls = collected_from [lkIssuer (hd ls)] (tl ls)"

lemma collected_snoc:
  "ls \<noteq> [] \<Longrightarrow> collected (ls @ [l]) = collected ls @
     (governed (clConstraints (lkClaims l)) (map lkIssuer ls))"
  by (cases ls) (simp_all add: collected_def collected_from_snoc)

definition policies_of :: "link list \<Rightarrow> subordinatePolicy list" where
  "policies_of ls = map (\<lambda>l. (clMetadataPolicy (lkClaims l), clMetadataPolicyCritical (lkClaims l))) (tl ls)"

section \<open>Verification steps\<close>

lemma try_candidates_Inr:
  "try_candidates R stmt policy e cs = Inr c \<Longrightarrow>
   \<exists>k \<in> set cs. pkAlgorithm k = vpAlgorithm policy \<and> pkKeyID k = KeyID stmt \<and>
     Verify (rvEnv R) stmt (pkPublicKey k) policy = Inr c"
  by (induction R stmt policy e cs rule: try_candidates.induct) (auto split: if_splits sum.splits)

lemma verifyAgainstJWKS_Inr:
  assumes "verifyAgainstJWKS R stmt jwks iss sub alg now = Inr c"
  shows "\<exists>keys k. ParseJWKSet (crypto_of (rvEnv R)) jwks = Inr keys \<and> k \<in> set keys \<and>
    pkAlgorithm k = alg \<and> pkKeyID k = KeyID stmt \<and>
    Verify (rvEnv R) stmt (pkPublicKey k) \<lparr>vpExpectedIssuer = iss, vpExpectedSubject = sub,
      vpAlgorithm = alg, vpNow = now, vpMaxLifetime = liMaxStatementLifetime (rvLimits R),
      vpMaxClockSkew = liMaxClockSkew (rvLimits R)\<rparr> = Inr c"
  using assms by (auto simp: verifyAgainstJWKS_def split: sum.splits dest!: try_candidates_Inr)

lemma verifyAgainstJWKS_claims:
  assumes "verifyAgainstJWKS R stmt jwks iss sub alg now = Inr c"
  shows "c = stClaims stmt \<and> clIssuer c = iss \<and> clSubject c = sub \<and>
    now \<le> clExpiresAt c + liMaxClockSkew (rvLimits R)"
proof -
  have "c = stClaims stmt \<and> clIssuer c = vpExpectedIssuer p \<and> clSubject c = vpExpectedSubject p \<and>
      vpNow p \<le> clExpiresAt c + vpMaxClockSkew p" if "Verify E stmt k p = Inr c" for E k p
    using that by (auto simp: Verify_def Let_def not_less split: if_splits sum.splits)
  with verifyAgainstJWKS_Inr [OF assms] show ?thesis by fastforce
qed

lemma keys_verify_time:
  "keys_verify R now jwks l \<Longrightarrow> now \<le> clExpiresAt (lkClaims l) + liMaxClockSkew (rvLimits R)"
  using verifyAgainstJWKS_claims unfolding keys_verify_def by blast

text \<open>What \<open>tryHint\<close> has established about a superior before it extends the chain.\<close>

definition superior_ok :: "Resolver \<Rightarrow> time \<Rightarrow> string \<Rightarrow> string \<Rightarrow> hopSuperior \<Rightarrow> string \<Rightarrow> bool" where
  "superior_ok R now hint entityAt hs aboveToken \<longleftrightarrow>
     hsID hs = hint \<and> hsClaims hs = stClaims (hsConfig hs) \<and>
     link_ok R \<lparr>lkIssuer = hint, lkSubject = hint, lkStmt = hsConfig hs, lkToken = hsToken hs\<rparr> \<and>
     keys_verify R now (clJWKS (hsClaims hs))
       \<lparr>lkIssuer = hint, lkSubject = hint, lkStmt = hsConfig hs, lkToken = hsToken hs\<rparr> \<and>
     link_ok R \<lparr>lkIssuer = hint, lkSubject = entityAt, lkStmt = hsAboveStmt hs, lkToken = aboveToken\<rparr>"

lemma entityConfiguration_genuine:
  assumes "cache_ok R s" "entityConfiguration R e s = (Inr (stmt, token), s')"
  shows "Parse (rvEnv R) token = Inr stmt"
proof -
  have "map_of (srConfigs s') e = Some (Inr (stmt, token))"
    using configs.stored [where a = e and s = s and R = R] assms(2) by simp
  moreover have "cache_ok R s'" using entityConfiguration_ok [OF assms(1), of e] assms(2) by simp
  ultimately show ?thesis by (fastforce simp: cache_ok_def genuine_def)
qed

lemma subordinateStatement_genuine:
  assumes "cache_ok R s" "subordinateStatement R u e s = (Inr (stmt, token), s')"
  shows "Parse (rvEnv R) token = Inr stmt"
proof -
  have "map_of (srSubordinates s') (subordinate_key u e) = Some (Inr (stmt, token))"
    using subordinates.stored [where a = "(u, e)" and s = s and R = R] assms(2) by simp
  moreover have "cache_ok R s'" using subordinateStatement_ok [OF assms(1), of u e] assms(2) by simp
  ultimately show ?thesis by (fastforce simp: cache_ok_def genuine_def)
qed

lemma fetchAboveStatement_Inr:
  assumes "cache_ok R s" "fetchAboveStatement R i c e s = (Inr (stmt, token), s')"
  shows "link_ok R \<lparr>lkIssuer = i, lkSubject = e, lkStmt = stmt, lkToken = token\<rparr>"
proof -
  from assms(2) obtain m :: entityMetadata where "subordinateStatement R (emFetchEndpoint m) e s = (Inr (stmt, token), s')"
    and "clIssuer (stClaims stmt) = i" "clSubject (stClaims stmt) = e"
    by (auto simp: fetchAboveStatement_def split: option.splits prod.splits sum.splits if_splits)
  with subordinateStatement_genuine [OF assms(1)] show ?thesis by (simp add: link_ok_def lkClaims_def)
qed

lemma fetchSuperior_Inr:
  assumes ok: "cache_ok R s" and f: "fetchSuperior R hint e now s = (Inr (hs, token), s')"
  shows "superior_ok R now hint e hs token \<and> cache_ok R s'"
proof -
  from f obtain config tok s1 claims aboveStmt where
    c: "entityConfiguration R hint s = (Inr (config, tok), s1)"
    and p: "clIssuer (stClaims config) = hint" "clSubject (stClaims config) = hint"
    and v: "verifySelfSigned R config hint now = Inr claims"
    and a: "fetchAboveStatement R hint claims e s1 = (Inr (aboveStmt, token), s')"
    and hs: "hs = \<lparr>hsID = hint, hsConfig = config, hsClaims = claims, hsToken = tok, hsAboveStmt = aboveStmt\<rparr>"
    by (auto simp: fetchSuperior_def split: prod.splits sum.splits if_splits)
  have s1: "cache_ok R s1" using entityConfiguration_ok [OF ok, of hint] c by simp
  have claims: "claims = stClaims config"
    using verifyAgainstJWKS_claims v unfolding verifySelfSigned_def by blast
  have "link_ok R \<lparr>lkIssuer = hint, lkSubject = hint, lkStmt = config, lkToken = tok\<rparr>"
    using entityConfiguration_genuine [OF ok c] p by (simp add: link_ok_def lkClaims_def)
  moreover have "cache_ok R s'"
    using spent_superior [of R s hint e now] ok f by (simp add: spent_def)
  ultimately show ?thesis
    using fetchAboveStatement_Inr [OF s1 a] v claims
    by (simp add: superior_ok_def hs keys_verify_def lkClaims_def verifySelfSigned_def)
qed

section \<open>The invariant of the walk\<close>

definition expiries :: "link list \<Rightarrow> time set" where
  "expiries ls = (\<lambda>l. clExpiresAt (lkClaims l)) ` set ls"

text \<open>
  After \<open>ls\<close>, the links of the chain so far, and \<open>cs\<close>, the Entity Configurations of the superiors
  on it: the last link is still to be verified, so its expiry is still to be counted, except the
  subject's own.
\<close>

definition chain_inv :: "Resolver \<Rightarrow> time \<Rightarrow> string \<Rightarrow> int \<Rightarrow> link list \<Rightarrow> link list
    \<Rightarrow> chainWalkState \<Rightarrow> bool" where
  "chain_inv R now subjectID hop ls cs st \<longleftrightarrow>
     ls \<noteq> [] \<and> hop = int (length ls) - 1 \<and>
     lkIssuer (hd ls) = subjectID \<and> lkSubject (hd ls) = subjectID \<and>
     list_all (link_ok R) (ls @ cs) \<and> vouched R now ls \<and>
     keys_verify R now (clJWKS (lkClaims (hd ls))) (hd ls) \<and>
     list_all (\<lambda>c. lkIssuer c = lkSubject c \<and> keys_verify R now (clJWKS (lkClaims c)) c) cs \<and>
     map lkIssuer cs = map lkIssuer (tl ls) \<and>
     list_all (\<lambda>l. \<not> is_anchor R (lkIssuer l)) ls \<and>
     wsSubjectID st = subjectID \<and> wsLeafClaims st = lkClaims (hd ls) \<and>
     wsBelowStmt st = lkStmt (last ls) \<and> wsBelowIssuer st = lkIssuer (last ls) \<and>
     wsBelowSubject st = lkSubject (last ls) \<and> wsEntityAt st = lkIssuer (last ls) \<and>
     set (wsVisited st) = set (wsChain st) \<and> distinct (wsChain st) \<and>
     wsChain st = map lkIssuer ls \<and> wsTokens st = map lkToken ls \<and>
     wsSubordinatePolicies st = policies_of ls \<and> wsSubordinateConstraints st = collected ls \<and>
     (tl ls \<noteq> [] \<longrightarrow> wsSuperiorMetadata st = nil_map (clMetadata (lkClaims (ls ! 1))) \<and>
        wsSubjectJWKS st = clJWKS (lkClaims (ls ! 1))) \<and>
     wsMinExpiry st \<in> expiries (ls @ cs) \<and>
     (\<forall>x \<in> expiries (hd ls # butlast ls @ cs). wsMinExpiry st \<le> x)"

lemma foldExpiry_simps [simp]:
  "wsMinExpiry (foldExpiry e st) = min (wsMinExpiry st) e"
  "wsSubjectID (foldExpiry e st) = wsSubjectID st" "wsLeafClaims (foldExpiry e st) = wsLeafClaims st"
  "wsBelowStmt (foldExpiry e st) = wsBelowStmt st" "wsBelowIssuer (foldExpiry e st) = wsBelowIssuer st"
  "wsBelowSubject (foldExpiry e st) = wsBelowSubject st" "wsEntityAt (foldExpiry e st) = wsEntityAt st"
  "wsVisited (foldExpiry e st) = wsVisited st" "wsChain (foldExpiry e st) = wsChain st"
  "wsTokens (foldExpiry e st) = wsTokens st"
  "wsSubordinatePolicies (foldExpiry e st) = wsSubordinatePolicies st"
  "wsSubordinateConstraints (foldExpiry e st) = wsSubordinateConstraints st"
  "wsSuperiorMetadata (foldExpiry e st) = wsSuperiorMetadata st"
  "wsSubjectJWKS (foldExpiry e st) = wsSubjectJWKS st"
  "wsEntityAtClaims (foldExpiry e st) = wsEntityAtClaims st"
  by (simp_all add: foldExpiry_def min_def)

lemma collectConstraints_simps [simp]:
  "wsMinExpiry (collectConstraints c st) = wsMinExpiry st"
  "wsSubjectID (collectConstraints c st) = wsSubjectID st"
  "wsLeafClaims (collectConstraints c st) = wsLeafClaims st"
  "wsBelowStmt (collectConstraints c st) = wsBelowStmt st"
  "wsEntityAt (collectConstraints c st) = wsEntityAt st"
  "wsVisited (collectConstraints c st) = wsVisited st" "wsChain (collectConstraints c st) = wsChain st"
  "wsTokens (collectConstraints c st) = wsTokens st"
  "wsSubordinatePolicies (collectConstraints c st) = wsSubordinatePolicies st"
  "wsSubordinateConstraints (collectConstraints c st) = wsSubordinateConstraints st @
     (governed c (butlast (wsChain st)))"
  "wsSuperiorMetadata (collectConstraints c st) = wsSuperiorMetadata st"
  "wsSubjectJWKS (collectConstraints c st) = wsSubjectJWKS st"
  by (simp_all add: collectConstraints_def governed_def split: option.split)

lemma firstHop_simps [simp]:
  "wsMinExpiry (firstHop hop c st) = wsMinExpiry st" "wsSubjectID (firstHop hop c st) = wsSubjectID st"
  "wsLeafClaims (firstHop hop c st) = wsLeafClaims st" "wsBelowStmt (firstHop hop c st) = wsBelowStmt st"
  "wsEntityAt (firstHop hop c st) = wsEntityAt st" "wsVisited (firstHop hop c st) = wsVisited st"
  "wsChain (firstHop hop c st) = wsChain st" "wsTokens (firstHop hop c st) = wsTokens st"
  "wsSubordinatePolicies (firstHop hop c st) = wsSubordinatePolicies st"
  "wsSubordinateConstraints (firstHop hop c st) = wsSubordinateConstraints st"
  "wsSuperiorMetadata (firstHop hop c st) =
     (if hop = 0 then nil_map (clMetadata c) else wsSuperiorMetadata st)"
  "wsSubjectJWKS (firstHop hop c st) = (if hop = 0 then clJWKS c else wsSubjectJWKS st)"
  by (simp_all add: firstHop_def)

lemma collectPolicy_simps [simp]:
  "wsMinExpiry (collectPolicy c st) = wsMinExpiry st" "wsSubjectID (collectPolicy c st) = wsSubjectID st"
  "wsLeafClaims (collectPolicy c st) = wsLeafClaims st" "wsBelowStmt (collectPolicy c st) = wsBelowStmt st"
  "wsEntityAt (collectPolicy c st) = wsEntityAt st" "wsVisited (collectPolicy c st) = wsVisited st"
  "wsChain (collectPolicy c st) = wsChain st" "wsTokens (collectPolicy c st) = wsTokens st"
  "wsSubordinatePolicies (collectPolicy c st) = wsSubordinatePolicies st @
     [(clMetadataPolicy c, clMetadataPolicyCritical c)]"
  "wsSubordinateConstraints (collectPolicy c st) = wsSubordinateConstraints st"
  "wsSuperiorMetadata (collectPolicy c st) = wsSuperiorMetadata st"
  "wsSubjectJWKS (collectPolicy c st) = wsSubjectJWKS st"
  by (simp_all add: collectPolicy_def)

lemma extendBranch_simps [simp]:
  "wsMinExpiry (extendBranch hs t st) = min (wsMinExpiry st) (clExpiresAt (hsClaims hs))"
  "wsSubjectID (extendBranch hs t st) = wsSubjectID st" "wsLeafClaims (extendBranch hs t st) = wsLeafClaims st"
  "wsBelowStmt (extendBranch hs t st) = wsBelowStmt st" "wsBelowIssuer (extendBranch hs t st) = wsBelowIssuer st"
  "wsBelowSubject (extendBranch hs t st) = wsBelowSubject st" "wsEntityAt (extendBranch hs t st) = wsEntityAt st"
  "wsVisited (extendBranch hs t st) = hsID hs # wsVisited st"
  "wsChain (extendBranch hs t st) = wsChain st @ [hsID hs]" "wsTokens (extendBranch hs t st) = wsTokens st @ [t]"
  "wsSubordinatePolicies (extendBranch hs t st) = wsSubordinatePolicies st"
  "wsSubordinateConstraints (extendBranch hs t st) = wsSubordinateConstraints st"
  "wsSuperiorMetadata (extendBranch hs t st) = wsSuperiorMetadata st"
  "wsSubjectJWKS (extendBranch hs t st) = wsSubjectJWKS st"
  by (simp_all add: extendBranch_def)

definition above_link :: "hopSuperior \<Rightarrow> string \<Rightarrow> string \<Rightarrow> link" where
  "above_link hs entityAt token =
     \<lparr>lkIssuer = hsID hs, lkSubject = entityAt, lkStmt = hsAboveStmt hs, lkToken = token\<rparr>"

definition config_link :: "hopSuperior \<Rightarrow> link" where
  "config_link hs = \<lparr>lkIssuer = hsID hs, lkSubject = hsID hs, lkStmt = hsConfig hs, lkToken = hsToken hs\<rparr>"

lemma superior_ok_links:
  assumes "superior_ok R now hint entityAt hs token"
  shows "hsID hs = hint" "link_ok R (above_link hs entityAt token)" "link_ok R (config_link hs)"
    "keys_verify R now (clJWKS (lkClaims (config_link hs))) (config_link hs)"
    "lkClaims (config_link hs) = hsClaims hs"
  using assms by (auto simp: superior_ok_def above_link_def config_link_def lkClaims_def)

lemma policies_of_snoc: "ls \<noteq> [] \<Longrightarrow> policies_of (ls @ [l]) =
    policies_of ls @ [(clMetadataPolicy (lkClaims l), clMetadataPolicyCritical (lkClaims l))]"
  by (simp add: policies_of_def)

lemma nth_1_snoc: "ls \<noteq> [] \<Longrightarrow> (ls @ [l]) ! 1 = (if tl ls = [] then l else ls ! 1)"
  by (cases ls; cases "tl ls") (auto simp: nth_append)

lemma vouched_last:
  assumes "ls \<noteq> []" "vouched R now ls" "lkSubject l = lkIssuer (last ls)"
    "keys_verify R now (clJWKS (lkClaims l)) (last ls)"
  shows "vouched R now (ls @ [l])"
proof -
  have "ls @ [l] = butlast ls @ [last ls, l]" "butlast ls @ [last ls] = ls" using assms(1) by simp_all
  with assms vouched_snoc [of R now "butlast ls" "last ls" l] show ?thesis by metis
qed

lemma chain_inv_new:
  assumes "link_ok R \<lparr>lkIssuer = i, lkSubject = i, lkStmt = stmt, lkToken = token\<rparr>"
    and "verifySelfSigned R stmt i now = Inr claims" and "\<not> is_anchor R i"
  shows "chain_inv R now i 0 [\<lparr>lkIssuer = i, lkSubject = i, lkStmt = stmt, lkToken = token\<rparr>] []
    (newChainWalkState i stmt token claims)"
proof -
  have "claims = stClaims stmt"
    using verifyAgainstJWKS_claims assms(2) unfolding verifySelfSigned_def by blast
  with assms show ?thesis
    by (simp add: chain_inv_def newChainWalkState_def keys_verify_def verifySelfSigned_def lkClaims_def
        policies_of_def collected_def expiries_def)
qed

text \<open>Both ways a hop ends count the verified statement below and the superior's own.\<close>

lemma chain_inv_extend:
  assumes inv: "chain_inv R now i hop ls cs st" and hs: "superior_ok R now hint (wsEntityAt st) hs token"
    and new: "hint \<notin> set (wsVisited st)"
    and v: "keys_verify R now (clJWKS (lkClaims (above_link hs (wsEntityAt st) token))) (last ls)"
  defines "l \<equiv> above_link hs (wsEntityAt st) token" and "c \<equiv> config_link hs"
  shows "list_all (link_ok R) ((ls @ [l]) @ cs @ [c])" "vouched R now (ls @ [l])"
    "lkIssuer (hd (ls @ [l])) = i" "lkSubject (hd (ls @ [l])) = i"
    "keys_verify R now (clJWKS (lkClaims (hd (ls @ [l])))) (hd (ls @ [l]))"
    "list_all (\<lambda>c. lkIssuer c = lkSubject c \<and> keys_verify R now (clJWKS (lkClaims c)) c) (cs @ [c])"
    "map lkIssuer (cs @ [c]) = map lkIssuer (tl (ls @ [l]))"
    "hop + 1 = int (length (ls @ [l])) - 1"
    "lkIssuer l = hint" "lkIssuer c = hint"
    "distinct (map lkIssuer (ls @ [l]))" "wsChain (extendBranch hs token st) = map lkIssuer (ls @ [l])"
    "wsTokens (extendBranch hs token st) = map lkToken (ls @ [l])"
    "policies_of (ls @ [l]) = wsSubordinatePolicies st @
       [(clMetadataPolicy (lkClaims l), clMetadataPolicyCritical (lkClaims l))]"
    "collected (ls @ [l]) = wsSubordinateConstraints st @
       (governed (clConstraints (lkClaims l)) (butlast (map lkIssuer (ls @ [l]))))"
    "nil_map (clMetadata (lkClaims ((ls @ [l]) ! 1))) =
       (if hop = 0 then nil_map (clMetadata (lkClaims l)) else wsSuperiorMetadata st)"
    "clJWKS (lkClaims ((ls @ [l]) ! 1)) = (if hop = 0 then clJWKS (lkClaims l) else wsSubjectJWKS st)"
proof -
  note h = superior_ok_links [OF hs]
  have ne: "ls \<noteq> []" and hop: "hop = int (length ls) - 1" and at: "wsEntityAt st = lkIssuer (last ls)"
    using inv by (simp_all add: chain_inv_def)
  have subj: "lkSubject l = lkIssuer (last ls)" by (simp add: l_def above_link_def at)
  have iss: "lkIssuer l = hint" "lkIssuer c = hint" "lkSubject c = hint"
    using h(1) by (simp_all add: l_def c_def above_link_def config_link_def)
  show "lkIssuer l = hint" "lkIssuer c = hint" using iss by simp_all
  show "list_all (link_ok R) ((ls @ [l]) @ cs @ [c])" using inv h by (simp add: chain_inv_def l_def c_def)
  show "vouched R now (ls @ [l])"
    using vouched_last [OF ne _ subj] inv v by (simp add: chain_inv_def l_def)
  show "lkIssuer (hd (ls @ [l])) = i" "lkSubject (hd (ls @ [l])) = i"
    "keys_verify R now (clJWKS (lkClaims (hd (ls @ [l])))) (hd (ls @ [l]))"
    using inv ne by (simp_all add: chain_inv_def)
  show "list_all (\<lambda>c. lkIssuer c = lkSubject c \<and> keys_verify R now (clJWKS (lkClaims c)) c) (cs @ [c])"
    using inv h iss by (simp add: chain_inv_def c_def)
  show "map lkIssuer (cs @ [c]) = map lkIssuer (tl (ls @ [l]))"
    using inv iss ne by (simp add: chain_inv_def)
  show "hop + 1 = int (length (ls @ [l])) - 1" using hop ne by simp
  show "distinct (map lkIssuer (ls @ [l]))"
    using inv new iss by (auto simp: chain_inv_def)
  show "wsChain (extendBranch hs token st) = map lkIssuer (ls @ [l])"
    "wsTokens (extendBranch hs token st) = map lkToken (ls @ [l])"
    using inv h(1) iss by (simp_all add: chain_inv_def) (simp add: l_def above_link_def)
  show "policies_of (ls @ [l]) = wsSubordinatePolicies st @
       [(clMetadataPolicy (lkClaims l), clMetadataPolicyCritical (lkClaims l))]"
    using inv ne by (simp add: chain_inv_def policies_of_snoc)
  show "collected (ls @ [l]) = wsSubordinateConstraints st @
       (governed (clConstraints (lkClaims l)) (butlast (map lkIssuer (ls @ [l]))))"
    using inv ne by (auto simp: chain_inv_def collected_snoc butlast_append)
  have "tl ls = [] \<longleftrightarrow> hop = 0" using hop ne by (cases ls) auto
  then show "nil_map (clMetadata (lkClaims ((ls @ [l]) ! 1))) =
       (if hop = 0 then nil_map (clMetadata (lkClaims l)) else wsSuperiorMetadata st)"
    "clJWKS (lkClaims ((ls @ [l]) ! 1)) = (if hop = 0 then clJWKS (lkClaims l) else wsSubjectJWKS st)"
    using inv unfolding nth_1_snoc [OF ne] by (auto simp: chain_inv_def)
qed

lemma min_expiry_step:
  fixes ls cs :: "link list" and l c :: "link"
  assumes "m \<in> expiries (ls @ cs)" "\<forall>x \<in> expiries (hd ls # butlast ls @ cs). m \<le> x" "ls \<noteq> []"
  defines "m' \<equiv> min (min m (clExpiresAt (lkClaims c))) (clExpiresAt (lkClaims (last ls)))"
  shows "m' \<in> expiries ((ls @ [l]) @ cs @ [c])" "\<forall>x \<in> expiries (ls @ cs @ [c]). m' \<le> x"
proof -
  have ls: "ls = butlast ls @ [last ls]" using assms(3) by simp
  have last: "last ls \<in> set ls" using assms(3) by simp
  show "m' \<in> expiries ((ls @ [l]) @ cs @ [c])"
    using assms(1) last by (auto simp: m'_def min_def expiries_def)
  show "\<forall>x \<in> expiries (ls @ cs @ [c]). m' \<le> x"
    using assms(2) by (subst ls) (auto simp: expiries_def m'_def min_le_iff_disj)
qed

lemma chain_inv_advance:
  assumes inv: "chain_inv R now i hop ls cs st" and hs: "superior_ok R now hint (wsEntityAt st) hs token"
    and new: "hint \<notin> set (wsVisited st)" and anchor: "\<not> is_anchor R hint"
    and adv: "advanceIntermediateHop R (extendBranch hs token st) hop hs now = Inr st'"
  shows "chain_inv R now i (hop + 1) (ls @ [above_link hs (wsEntityAt st) token]) (cs @ [config_link hs]) st'"
proof -
  let ?l = "above_link hs (wsEntityAt st) token" and ?c = "config_link hs"
  have ne: "ls \<noteq> []" using inv by (simp add: chain_inv_def)
  have lc: "lkClaims ?l = stClaims (hsAboveStmt hs)" by (simp add: above_link_def lkClaims_def)
  from adv obtain below where b: "verifyAgainstJWKS R (wsBelowStmt st) (clJWKS (lkClaims ?l))
      (wsBelowIssuer st) (wsBelowSubject st) (Algorithm (wsBelowStmt st)) now = Inr below"
    and st': "st' = (collectConstraints (clConstraints (lkClaims ?l)) (collectPolicy (lkClaims ?l)
        (firstHop hop (lkClaims ?l) (foldExpiry (clExpiresAt below) (extendBranch hs token st)))))
      \<lparr>wsBelowStmt := hsAboveStmt hs, wsBelowIssuer := hsID hs, wsBelowSubject := wsEntityAt st,
       wsEntityAt := hsID hs, wsEntityAtClaims := hsClaims hs\<rparr>"
    by (auto simp: advanceIntermediateHop_def Let_def and_then_eq_Inr lc)
  have below: "below = lkClaims (last ls)"
    using verifyAgainstJWKS_claims [OF b] inv by (simp add: chain_inv_def lkClaims_def)
  have v: "keys_verify R now (clJWKS (lkClaims ?l)) (last ls)"
    using b inv below by (simp add: chain_inv_def keys_verify_def)
  note ext = chain_inv_extend [OF inv hs new v]
  have mn: "wsMinExpiry st \<in> expiries (ls @ cs)" "\<forall>x \<in> expiries (hd ls # butlast ls @ cs). wsMinExpiry st \<le> x"
    using inv by (simp_all add: chain_inv_def)
  note m = min_expiry_step(1) [OF mn ne, of ?c ?l] min_expiry_step(2) [OF mn ne, of ?c]
  have exps: "expiries (hd (ls @ [?l]) # butlast (ls @ [?l]) @ cs @ [?c]) = expiries (ls @ cs @ [?c])"
    using ne by (auto simp: expiries_def)
  have mst: "wsMinExpiry st' = min (min (wsMinExpiry st) (clExpiresAt (lkClaims ?c))) (clExpiresAt (lkClaims (last ls)))"
    by (simp add: st' below superior_ok_links(5) [OF hs])
  have set: "set (wsVisited st') = set (wsChain st')"
    using inv superior_ok_links(1) [OF hs] by (simp add: st' chain_inv_def)
  have hid: "hsID hs = hint" by (rule superior_ok_links(1) [OF hs])
  show ?thesis
    unfolding chain_inv_def exps mst
    using ext inv ne anchor set hid m
    by (simp add: st' chain_inv_def above_link_def [of hs _ token, THEN arg_cong, of lkStmt]
        above_link_def [of hs _ token, THEN arg_cong, of lkSubject])
qed

section \<open>A certified chain\<close>

text \<open>
  \<open>certified R now i ls cs re\<close>: \<open>re\<close> is the result for subject \<open>i\<close> of the chain whose statements
  are \<open>ls\<close>, from the subject's Entity Configuration to the Trust Anchor's statement about the
  entity below it, and whose superiors have the Entity Configurations \<open>cs\<close>, the Trust Anchor's
  last.
\<close>

definition certified :: "Resolver \<Rightarrow> time \<Rightarrow> string \<Rightarrow> link list \<Rightarrow> link list
    \<Rightarrow> ResolvedEntity \<Rightarrow> bool" where
  "certified R now i ls cs re \<longleftrightarrow>
     2 \<le> length ls \<and> int (length ls) - 1 \<le> liMaxPathLength (rvLimits R) \<and>
     lkIssuer (hd ls) = i \<and> lkSubject (hd ls) = i \<and>
     list_all (link_ok R) (ls @ cs) \<and> vouched R now ls \<and>
     keys_verify R now (clJWKS (lkClaims (hd ls))) (hd ls) \<and>
     list_all (\<lambda>c. lkIssuer c = lkSubject c \<and> keys_verify R now (clJWKS (lkClaims c)) c) cs \<and>
     map lkIssuer cs = map lkIssuer (tl ls) \<and>
     keys_verify R now (clJWKS (lkClaims (last cs))) (last ls) \<and>
     (\<exists>jwks. map_of (rvTrustAnchorsByID R) (lkIssuer (last cs)) = Some jwks \<and>
        keys_verify R now jwks (last cs)) \<and>
     list_all (\<lambda>l. \<not> is_anchor R (lkIssuer l)) (butlast ls) \<and>
     reEntityID re = i \<and> reTrustAnchor re = lkIssuer (last ls) \<and>
     reChain re = map lkIssuer ls \<and> distinct (reChain re) \<and>
     reTokens re = map lkToken ls @ [lkToken (last cs)] \<and>
     reJWKS re = clJWKS (lkClaims (ls ! 1)) \<and>
     reExpiresAt re \<in> expiries (ls @ cs) \<and> (\<forall>x \<in> expiries (ls @ cs). reExpiresAt re \<le> x) \<and>
     checkNamingConstraints (rvEnv R) (collected ls) = Inr () \<and>
     checkMaxPathLengthConstraints (collected ls) = Inr () \<and>
     (\<exists>declared. applySuperiorMetadata (nil_map (clMetadata (lkClaims (hd ls))))
          (nil_map (clMetadata (lkClaims (ls ! 1)))) = Inr declared \<and>
        resolveMetadata (policies_of ls) (filterAllowedEntityTypes (collected ls) declared)
          = Inr (reMetadata re, rePolicy re))"

lemma map_error_Inr [simp]: "map_error f m = Inr x \<longleftrightarrow> m = Inr x"
  by (cases m) (simp_all add: map_error_def)

lemma finalize_certified:
  assumes inv: "chain_inv R now i hop ls cs st" and hs: "superior_ok R now hint (wsEntityAt st) hs token"
    and new: "hint \<notin> set (wsVisited st)" and hop: "hop < liMaxPathLength (rvLimits R)"
    and anchor: "map_of (rvTrustAnchorsByID R) hint = Some jwks"
    and fin: "finalizeTrustChain R (extendBranch hs token st) hop hs jwks now = Inr re"
  shows "certified R now i (ls @ [above_link hs (wsEntityAt st) token]) (cs @ [config_link hs]) re"
proof -
  let ?l = "above_link hs (wsEntityAt st) token" and ?c = "config_link hs"
  let ?st = "extendBranch hs token st"
  have ne: "ls \<noteq> []" using inv by (simp add: chain_inv_def)
  note h = superior_ok_links [OF hs]
  have lc: "lkClaims ?l = stClaims (hsAboveStmt hs)" by (simp add: above_link_def lkClaims_def)
  obtain anc abv below declared resolved policy where
    anc: "verifyAgainstJWKS R (hsConfig hs) jwks (hsID hs) (hsID hs) (Algorithm (hsConfig hs)) now = Inr anc"
    and abv: "verifyAgainstJWKS R (hsAboveStmt hs) (clJWKS (hsClaims hs)) (hsID hs) (wsEntityAt ?st)
         (Algorithm (hsAboveStmt hs)) now = Inr abv"
    and below: "verifyAgainstJWKS R (wsBelowStmt ?st) (clJWKS abv) (wsBelowIssuer ?st) (wsBelowSubject ?st)
         (Algorithm (wsBelowStmt ?st)) now = Inr below"
    and rest: "let st = collectConstraints (clConstraints abv) (collectPolicy abv (firstHop hop abv
                (foldExpiry (clExpiresAt below) (foldExpiry (clExpiresAt abv) ?st)))) in
      checkNamingConstraints (rvEnv R) (wsSubordinateConstraints st) = Inr () \<and>
      checkMaxPathLengthConstraints (wsSubordinateConstraints st) = Inr () \<and>
      applySuperiorMetadata (nil_map (clMetadata (wsLeafClaims st))) (wsSuperiorMetadata st) = Inr declared \<and>
      resolveMetadata (wsSubordinatePolicies st)
         (filterAllowedEntityTypes (wsSubordinateConstraints st) declared) = Inr (resolved, policy) \<and>
      re = \<lparr>reEntityID = wsSubjectID st, reTrustAnchor = hsID hs, reChain = wsChain st,
          reMetadata = resolved, reExpiresAt = wsMinExpiry st, reJWKS = wsSubjectJWKS st,
          reTrustMarks = clTrustMarks (wsLeafClaims st),
          reTrustMarkOwners = clTrustMarkOwners (wsLeafClaims st),
          reTrustMarkIssuers = clTrustMarkIssuers (wsLeafClaims st),
          reTokens = wsTokens st @ [hsToken hs], rePolicy = policy,
          reConfigurationMetadata = nil_map (clMetadata (wsLeafClaims st))\<rparr>"
    using fin unfolding finalizeTrustChain_def and_then_eq_Inr Let_def map_error_Inr split_paired_Ex
      prod.case ex_unit sum.inject by blast
  have abv': "abv = lkClaims ?l" using verifyAgainstJWKS_claims [OF abv] by (simp add: lc)
  have anc': "anc = lkClaims ?c" using verifyAgainstJWKS_claims [OF anc] by (simp add: config_link_def lkClaims_def)
  have below': "below = lkClaims (last ls)"
    using verifyAgainstJWKS_claims [OF below] inv by (simp add: chain_inv_def lkClaims_def)
  have v: "keys_verify R now (clJWKS (lkClaims ?l)) (last ls)"
    using below inv by (simp add: chain_inv_def keys_verify_def below' abv')
  have va: "keys_verify R now jwks ?c"
    using anc by (simp add: keys_verify_def anc') (simp add: config_link_def)
  have vl: "keys_verify R now (clJWKS (lkClaims ?c)) ?l"
    using abv by (simp add: keys_verify_def abv' h(5)) (simp add: above_link_def)
  note ext = chain_inv_extend [OF inv hs new v]
  have mn: "wsMinExpiry st \<in> expiries (ls @ cs)" "\<forall>x \<in> expiries (hd ls # butlast ls @ cs). wsMinExpiry st \<le> x"
    using inv by (simp_all add: chain_inv_def)
  note m = min_expiry_step(1) [OF mn ne, of ?c ?l] min_expiry_step(2) [OF mn ne, of ?c]
  let ?m = "min (min (wsMinExpiry st) (clExpiresAt (lkClaims ?c))) (clExpiresAt (lkClaims (last ls)))"
  let ?exp = "min (min (min (wsMinExpiry st) (clExpiresAt (lkClaims ?c))) (clExpiresAt (lkClaims ?l)))
      (clExpiresAt (lkClaims (last ls)))"
  have exp: "?exp = min ?m (clExpiresAt (lkClaims ?l))" by (simp add: min.assoc min.commute min.left_commute)
  have "clExpiresAt (lkClaims ?l) \<in> expiries ((ls @ [?l]) @ cs @ [?c])"
    by (simp add: expiries_def)
  then have mem: "?exp \<in> expiries ((ls @ [?l]) @ cs @ [?c])"
    using m(1) unfolding exp by (simp add: min_def)
  have all: "\<forall>x \<in> expiries ((ls @ [?l]) @ cs @ [?c]). ?exp \<le> x"
  proof
    fix x assume "x \<in> expiries ((ls @ [?l]) @ cs @ [?c])"
    then have "x \<in> expiries (ls @ cs @ [?c]) \<or> x = clExpiresAt (lkClaims ?l)"
      by (auto simp: expiries_def)
    then show "?exp \<le> x" using m(2) unfolding exp by (auto intro: min.coboundedI1)
  qed
  have expires: "reExpiresAt re = ?exp"
    using rest by (simp add: Let_def below' abv' h(5))
  have len: "2 \<le> length (ls @ [?l])" using ne by (cases ls) simp_all
  have sub: "wsSubjectID st = i" "wsLeafClaims st = lkClaims (hd ls)"
      "list_all (\<lambda>l. \<not> is_anchor R (lkIssuer l)) ls"
    using inv by (simp_all add: chain_inv_def)
  have tok: "lkToken ?c = hsToken hs" by (simp add: config_link_def)
  show ?thesis
    unfolding certified_def expires
    using ext len hop anchor va vl mem all sub ne rest h(1) tok
    by (cases "hop = 0") (simp_all add: Let_def abv')
qed

section \<open>What every step of the search keeps\<close>

text \<open>
  A predicate of the search state that fetching a statement keeps, and that does not look at the
  budget, is kept by the whole walk.
\<close>

definition search_invariant :: "Resolver \<Rightarrow> (search \<Rightarrow> bool) \<Rightarrow> bool" where
  "search_invariant R P \<longleftrightarrow>
     (\<forall>s b. P s \<longrightarrow> P (s\<lparr>srBudget := b\<rparr>)) \<and>
     (\<forall>s e. P s \<longrightarrow> P (snd (entityConfiguration R e s))) \<and>
     (\<forall>s u e. P s \<longrightarrow> P (snd (subordinateStatement R u e s)))"

lemma fetchAboveStatement_keeps:
  "search_invariant R P \<Longrightarrow> P s \<Longrightarrow> P (snd (fetchAboveStatement R i c e s))"
proof (cases "parseEntityMetadata (clMetadata c)")
  case (Some m)
  assume P: "search_invariant R P" "P s"
  then have "P (snd (subordinateStatement R (emFetchEndpoint m) e s))" by (simp add: search_invariant_def)
  with P(2) Some show ?thesis
    by (auto simp: fetchAboveStatement_def split: prod.splits sum.splits)
qed (simp add: fetchAboveStatement_def)

lemma fetchSuperior_keeps:
  assumes "search_invariant R P" "P s"
  shows "P (snd (fetchSuperior R hint e now s))"
proof -
  obtain r s' where c: "entityConfiguration R hint s = (r, s')" by (cases "entityConfiguration R hint s")
  have s': "P s'" using assms by (metis c search_invariant_def snd_conv)
  have "P (snd (fetchAboveStatement R hint claims e s'))" for claims
    by (rule fetchAboveStatement_keeps [OF assms(1) s'])
  with s' show ?thesis by (auto simp: fetchSuperior_def c split: sum.splits prod.splits) (metis snd_conv)+
qed

lemma tryHint_keeps:
  assumes "search_invariant R P" "\<And>st s. P s \<Longrightarrow> P (snd (walk_on st s))" "P s"
  shows "P (snd (tryHint R walk_on now st hop hint s))"
proof -
  obtain r s' where f: "fetchSuperior R hint (wsEntityAt st) now s = (r, s')"
    by (cases "fetchSuperior R hint (wsEntityAt st) now s")
  have "P s'" using fetchSuperior_keeps [OF assms(1,3), of hint "wsEntityAt st" now] by (simp add: f)
  then show ?thesis
    using assms(2) by (auto simp: tryHint_def f Let_def split: sum.splits prod.splits option.splits)
qed

lemma walk_hints_keeps:
  assumes "search_invariant R P" "\<And>hint s. P s \<Longrightarrow> P (snd (attempt hint s))" "P s"
  shows "P (snd (walk_hints attempt st branches hints s))"
  using assms(3)
proof (induction hints arbitrary: branches s)
  case (Cons hint hints)
  let ?s = "s\<lparr>srBudget := srBudget s - 1\<rparr>"
  obtain r s' where a: "attempt hint ?s = (r, s')" by (cases "attempt hint ?s")
  have "P ?s" using assms(1) Cons.prems by (simp add: search_invariant_def)
  with assms(2) [of ?s hint] have "P s'" by (simp add: a)
  with Cons show ?case by (cases r) (simp_all add: a)
qed simp

lemma walk_keeps: "search_invariant R P \<Longrightarrow> P s \<Longrightarrow> P (snd (walk R now hop st s))"
proof (induction hop st s rule: walk_hop_induct [where R = R])
  case (1 hop st s)
  show ?case
  proof (cases "hop < liMaxPathLength (rvLimits R)")
    case True
    have on: "P s \<Longrightarrow> P (snd (walk R now (hop + 1) st s))" for st s
      using "1"(1) [OF True] "1.prems"(1) by blast
    have "P (snd (walk_hints (tryHint R (walk R now (hop + 1)) now st hop) st []
        (trustAnchorsFirst R (clAuthorityHints (wsEntityAtClaims st))) s))"
      by (rule walk_hints_keeps [OF "1.prems"(1) _ "1.prems"(2)], rule tryHint_keeps [OF "1.prems"(1) on])
    with "1.prems"(2) show ?thesis by (simp add: walk.simps [of R now hop] Let_def)
  qed (use 1 in \<open>simp add: walk.simps [of R now hop]\<close>)
qed

text \<open>The Entity Configurations fetched so far, a link's among them.\<close>

definition configuration_held :: "search \<Rightarrow> link \<Rightarrow> bool" where
  "configuration_held s c \<longleftrightarrow> map_of (srConfigs s) (lkIssuer c) = Some (Inr (lkStmt c, lkToken c))"

definition sound_search :: "Resolver \<Rightarrow> link list \<Rightarrow> search \<Rightarrow> bool" where
  "sound_search R cs s \<longleftrightarrow> cache_ok R s \<and> list_all (configuration_held s) cs"

lemma subordinateStatement_configs [simp]: "srConfigs (snd (subordinateStatement R u e s)) = srConfigs s"
  by (cases rule: fetchSubordinateStatement_cases [of R u e s])
    (auto simp: subordinateStatement_def case_prod_unfold split: option.split)

lemma sound_search_invariant: "search_invariant R (sound_search R cs)"
proof -
  have "configuration_held (snd (entityConfiguration R e s)) c" if "configuration_held s c" for s e c
    using configs.kept that unfolding configuration_held_def by fast
  then have "list_all (configuration_held (snd (entityConfiguration R e s))) cs"
    if "list_all (configuration_held s) cs" for s e
    using that by (auto simp: list_all_iff)
  then show ?thesis
    unfolding search_invariant_def sound_search_def
    by (simp add: entityConfiguration_ok subordinateStatement_ok)
      (simp add: configuration_held_def list_all_iff)
qed

lemma fetchSuperior_held:
  assumes f: "fetchSuperior R hint e now s = (Inr (hs, token), s')"
  shows "configuration_held s' (config_link hs)"
proof -
  from f obtain config tok s1 claims aboveStmt where
    c: "entityConfiguration R hint s = (Inr (config, tok), s1)"
    and a: "fetchAboveStatement R hint claims e s1 = (Inr (aboveStmt, token), s')"
    and hs: "hs = \<lparr>hsID = hint, hsConfig = config, hsClaims = claims, hsToken = tok, hsAboveStmt = aboveStmt\<rparr>"
    by (auto simp: fetchSuperior_def split: prod.splits sum.splits if_splits)
  have "map_of (srConfigs s1) hint = Some (Inr (config, tok))"
    using configs.stored [where a = hint and s = s and R = R] c by simp
  moreover from a obtain m :: entityMetadata where "subordinateStatement R (emFetchEndpoint m) e s1 = (Inr (aboveStmt, token), s')"
    by (auto simp: fetchAboveStatement_def split: option.splits prod.splits sum.splits if_splits)
  then have "srConfigs s' = srConfigs s1" using subordinateStatement_configs [of R "emFetchEndpoint m" e s1] by simp
  ultimately show ?thesis by (simp add: configuration_held_def config_link_def hs)
qed

section \<open>Every result is certified\<close>

lemma walk_hints_Inr:
  assumes "walk_hints attempt st branches hints s = (Inr re, s')" "P s"
    and "search_invariant R P" "\<And>hint s. P s \<Longrightarrow> P (snd (attempt hint s))"
  shows "\<exists>hint s1. hint \<in> set hints \<and> hint \<notin> set (wsVisited st) \<and> P s1 \<and> attempt hint s1 = (Inr re, s')"
  using assms(1,2)
proof (induction hints arbitrary: branches s)
  case (Cons h hints)
  let ?s = "s\<lparr>srBudget := srBudget s - 1\<rparr>"
  consider "h \<in> set (wsVisited st)" | "h \<notin> set (wsVisited st)" "0 < srBudget s"
    using Cons.prems(1) by (auto split: if_splits)
  then show ?case
  proof cases
    case 1
    with Cons.prems(1) have "walk_hints attempt st branches hints s = (Inr re, s')" by simp
    from Cons.IH [OF this Cons.prems(2)] show ?thesis by auto
  next
    case 2
    obtain r s2 where a: "attempt h ?s = (r, s2)" by (cases "attempt h ?s")
    have ok: "P ?s" using Cons.prems(2) assms(3) by (simp add: search_invariant_def)
    show ?thesis
    proof (cases r)
      case (Inl e)
      with Cons.prems(1) 2 a have w: "walk_hints attempt st (branches @ [(h, e)]) hints s2 = (Inr re, s')"
        by simp
      have "P s2" using assms(4) [OF ok, of h] a by simp
      from Cons.IH [OF w this] show ?thesis by auto
    next
      case (Inr re')
      with Cons.prems(1) 2 a have "attempt h ?s = (Inr re, s')" by simp
      with 2 ok show ?thesis by (intro exI [of _ h] exI [of _ ?s]) simp
    qed
  qed
qed simp

lemma walk_certified:
  "chain_inv R now i hop ls cs st \<Longrightarrow> sound_search R cs s \<Longrightarrow> walk R now hop st s = (Inr re, s') \<Longrightarrow>
   \<exists>ls' cs'. certified R now i ls' cs' re \<and> sound_search R cs' s'"
proof (induction hop st s arbitrary: ls cs s' rule: walk_hop_induct [where R = R])
  case (1 hop st s)
  have hop: "hop < liMaxPathLength (rvLimits R)"
    using "1.prems"(3) by (auto simp: walk.simps [of R now hop] split: if_splits)
  let ?attempt = "tryHint R (walk R now (hop + 1)) now st hop"
  note inv = sound_search_invariant [of R cs]
  from "1.prems"(3) hop have w: "walk_hints ?attempt st []
      (trustAnchorsFirst R (clAuthorityHints (wsEntityAtClaims st))) s = (Inr re, s')"
    by (auto simp: walk.simps [of R now hop] Let_def split: if_splits)
  obtain hint s1 where new: "hint \<notin> set (wsVisited st)" and ok: "sound_search R cs s1"
    and t: "?attempt hint s1 = (Inr re, s')"
    using walk_hints_Inr [OF w "1.prems"(2) inv tryHint_keeps [OF inv walk_keeps [OF inv]]] by blast
  from t obtain hs token s2 where f: "fetchSuperior R hint (wsEntityAt st) now s1 = (Inr (hs, token), s2)"
    by (auto simp: tryHint_def split: prod.splits sum.splits)
  have "cache_ok R s1" using ok by (simp add: sound_search_def)
  from fetchSuperior_Inr [OF this f] have hs: "superior_ok R now hint (wsEntityAt st) hs token" by blast
  have "sound_search R cs s2" using fetchSuperior_keeps [OF inv ok, of hint "wsEntityAt st" now] by (simp add: f)
  with fetchSuperior_held [OF f] have s2: "sound_search R (cs @ [config_link hs]) s2"
    by (simp add: sound_search_def)
  show ?case
  proof (cases "map_of (rvTrustAnchorsByID R) hint")
    case (Some jwks)
    with t f have "finalizeTrustChain R (extendBranch hs token st) hop hs jwks now = Inr re" "s' = s2"
      by (simp_all add: tryHint_def Let_def)
    with finalize_certified [OF "1.prems"(1) hs new hop Some] s2 show ?thesis by blast
  next
    case None
    with t f obtain st' where adv: "advanceIntermediateHop R (extendBranch hs token st) hop hs now = Inr st'"
      and on: "walk R now (hop + 1) st' s2 = (Inr re, s')"
      by (auto simp: tryHint_def Let_def split: sum.splits)
    from None have "\<not> is_anchor R hint" by (simp add: is_anchor_def)
    from chain_inv_advance [OF "1.prems"(1) hs new this adv] "1"(1) [OF hop] s2 on show ?thesis by blast
  qed
qed

lemma Resolve_certified_held:
  assumes "Resolve R now i = (Inr re, s)" "\<not> is_anchor R i"
  shows "\<exists>ls cs. certified R now i ls cs re \<and> list_all (configuration_held s) cs"
proof -
  let ?s0 = "newStatementCache (initial_budget R) :: search"
  from assms obtain stmt token s1 claims where
    c: "entityConfiguration R i ?s0 = (Inr (stmt, token), s1)"
    and p: "clIssuer (stClaims stmt) = i" "clSubject (stClaims stmt) = i"
    and v: "verifySelfSigned R stmt i now = Inr claims"
    and w: "walk R now 0 (newChainWalkState i stmt token claims) s1 = (Inr re, s)"
    by (auto simp: Resolve_def Let_def is_anchor_def split: if_splits sum.splits prod.splits)
  have ok: "cache_ok R ?s0" by (simp add: cache_ok_def newStatementCache_def)
  have "link_ok R \<lparr>lkIssuer = i, lkSubject = i, lkStmt = stmt, lkToken = token\<rparr>"
    using entityConfiguration_genuine [OF ok c] p by (simp add: link_ok_def lkClaims_def)
  moreover have "sound_search R [] s1"
    using entityConfiguration_ok [OF ok, of i] c by (simp add: sound_search_def)
  ultimately show ?thesis
    using walk_certified [OF chain_inv_new [OF _ v assms(2)] _ w] unfolding sound_search_def by blast
qed

lemma Resolve_certified:
  assumes "Resolve R now i = (Inr re, s)" "\<not> is_anchor R i"
  shows "\<exists>ls cs. certified R now i ls cs re"
  using Resolve_certified_held [OF assms] by blast

end
