(* ===== verification/Policy_Correct.thy ===== *)
theory Policy_Correct
  imports Policy
begin

text \<open>
  Correctness of the metadata policy engine of theory \<open>Policy\<close>. \<open>honours ops r\<close> says
  what OpenID Federation 1.0 section 6.1.3.1 lets a policy's operators promise about a resolved
  parameter \<open>r\<close> (\<open>None\<close> when it is absent), and \<open>stricter m ops\<close> that the operators
  \<open>m\<close> promise at least as much as \<open>ops\<close>. Applying valid operators makes their promises
  true, merging yields operators stricter than both arguments, so no policy lower in a chain can
  loosen a superior's.
\<close>

section \<open>Sets of JSON values\<close>

abbreviation key :: "json \<Rightarrow> policy_error + gov" where
  "key j \<equiv> canonicalJSON (Some j)"

definition keyset :: "json list \<Rightarrow> gov set" where
  "keyset xs = {k. \<exists>x \<in> set xs. key x = Inr k}"

definition arr_of :: "json \<Rightarrow> json list" where
  "arr_of j = (case unmarshal_array j of None \<Rightarrow> [] | Some xs \<Rightarrow> xs)"

definition elems :: "json \<Rightarrow> gov set" where
  "elems j = keyset (arr_of j)"

lemma keyset_simps [simp]: "keyset [] = {}"
  "keyset (xs @ ys) = keyset xs \<union> keyset ys"
  by (auto simp: keyset_def)

lemma keyset_Cons: "key x = Inr k \<Longrightarrow> keyset (x # xs) = insert k (keyset xs)"
  by (auto simp: keyset_def)

lemma keyset_mono: "set xs \<subseteq> set ys \<Longrightarrow> keyset xs \<subseteq> keyset ys"
  by (auto simp: keyset_def)

lemma arr_of_simps [simp]: "arr_of (JArr xs) = xs" "arr_of JNull = []"
  by (simp_all add: arr_of_def)

lemma decodeArray_Some: "decodeArray (Some j) = Inr xs \<longleftrightarrow> unmarshal_array j = Some xs"
  by (simp add: decodeArray_def)

lemma decodeArray_arr_of: "decodeArray (Some j) = Inr xs \<Longrightarrow> arr_of j = xs"
  by (simp add: decodeArray_Some arr_of_def)

lemma unmarshal_array_cases:
  assumes "unmarshal_array j = Some xs"
  obtains "j = JArr xs" | "j = JNull" "xs = []"
  using assms by (cases j) auto

lemma valueSet_add_Inr:
  "valueSet_add s v = Inr (s', b) \<longleftrightarrow>
     (\<exists>k. key v = Inr k \<and> b = (k \<notin> set s) \<and> s' = (if k \<in> set s then s else k # s))"
  by (cases "key v") (auto simp: valueSet_add_def)

lemma newValueSet_fold:
  assumes "foldR (\<lambda>s v. and_then (valueSet_add s v) (\<lambda>(s', _). Inr s')) s0 xs = Inr s"
  shows "set s = set s0 \<union> keyset xs \<and> (\<forall>x \<in> set xs. \<exists>k. key x = Inr k)"
  using assms
proof (induction xs arbitrary: s0)
  case Nil
  then show ?case by simp
next
  case (Cons x xs)
  from Cons.prems obtain s1 b where add: "valueSet_add s0 x = Inr (s1, b)"
    and rest: "foldR (\<lambda>s v. and_then (valueSet_add s v) (\<lambda>(s', _). Inr s')) s1 xs = Inr s"
    by (auto simp only: foldR.simps and_then_eq_Inr prod.case sum.inject)
  from add obtain k where k: "key x = Inr k" and s1: "set s1 = insert k (set s0)"
    unfolding valueSet_add_Inr by (auto simp: insert_absorb split: if_splits)
  from Cons.IH [OF rest] k s1 show ?case by (auto simp: keyset_Cons)
qed

lemma newValueSet_set: "newValueSet xs = Inr s \<Longrightarrow> set s = keyset xs"
  using newValueSet_fold [of "[]" xs s] by (simp add: newValueSet_def)

lemma newValueSet_keys: "newValueSet xs = Inr s \<Longrightarrow> x \<in> set xs \<Longrightarrow> \<exists>k. key x = Inr k"
  using newValueSet_fold [of "[]" xs s] by (simp add: newValueSet_def)

lemma contains_Inr:
  "contains arr v = Inr b \<Longrightarrow> \<exists>k. canonicalJSON v = Inr k \<and> b = (k \<in> keyset arr)"
  by (auto simp: contains_def valueSet_contains_def and_then_eq_Inr dest: newValueSet_set)

lemma union_fold:
  assumes "foldR (\<lambda>(seen, out) v. and_then (valueSet_add seen v) (\<lambda>(seen', added).
        Inr (seen', if added then out @ [v] else out))) (s0, out0) xs = Inr (s, out)"
    and "set s0 = keyset out0"
  shows "keyset out = keyset out0 \<union> keyset xs \<and> (\<forall>x \<in> set xs. \<exists>k. key x = Inr k)
     \<and> set out0 \<subseteq> set out \<and> set out \<subseteq> set out0 \<union> set xs
     \<and> (keyset xs \<subseteq> keyset out0 \<longrightarrow> out = out0)"
  using assms
proof (induction xs arbitrary: s0 out0)
  case (Cons x xs)
  then obtain k where k: "key x = Inr k"
    by (auto simp: valueSet_add_def and_then_eq_Inr split: if_splits)
  show ?case
  proof (cases "k \<in> set s0")
    case True
    with Cons.prems k have "foldR (\<lambda>(seen, out) v. and_then (valueSet_add seen v)
        (\<lambda>(seen', added). Inr (seen', if added then out @ [v] else out))) (s0, out0) xs = Inr (s, out)"
      by (simp add: valueSet_add_def)
    from Cons.IH [OF this Cons.prems(2)] k True Cons.prems(2) show ?thesis
      by (auto simp: keyset_Cons)
  next
    case False
    with Cons.prems k have "foldR (\<lambda>(seen, out) v. and_then (valueSet_add seen v)
        (\<lambda>(seen', added). Inr (seen', if added then out @ [v] else out)))
        (k # s0, out0 @ [x]) xs = Inr (s, out)"
      by (simp add: valueSet_add_def)
    from Cons.IH [OF this] k False Cons.prems(2) show ?thesis
      by (auto simp: keyset_Cons)
  qed
qed simp

lemma unionArrays_Inr:
  assumes "unionArrays a b = Inr r"
  obtains xs ys out where "decodeArray a = Inr xs" "decodeArray b = Inr ys" "r = JArr out"
    "keyset out = keyset xs \<union> keyset ys" "set out \<subseteq> set xs \<union> set ys"
    "keyset ys \<subseteq> keyset xs \<Longrightarrow> out = xs"
proof -
  from assms obtain xs ys seen out s where
    dec: "decodeArray a = Inr xs" "decodeArray b = Inr ys" "newValueSet xs = Inr seen"
    and f: "foldR (\<lambda>(seen, out) v. and_then (valueSet_add seen v) (\<lambda>(seen', added).
        Inr (seen', if added then out @ [v] else out))) (seen, xs) ys = Inr (s, out)"
    and r: "r = JArr out"
    by (auto simp: unionArrays_def and_then_eq_Inr)
  from union_fold [OF f newValueSet_set [OF dec(3)]] dec r that show ?thesis by auto
qed

lemma intersectArrays_Inr:
  assumes "intersectArrays a b = Inr r"
  obtains xs ys out where "decodeArray a = Inr xs" "decodeArray b = Inr ys" "r = JArr out"
    "keyset out = keyset xs \<inter> keyset ys" "set out \<subseteq> set xs"
    "keyset xs \<subseteq> keyset ys \<Longrightarrow> out = xs"
proof -
  have fold: "(\<forall>x \<in> set xs. \<exists>k. key x = Inr k) \<and>
      out = out0 @ filter (\<lambda>x. \<exists>k. key x = Inr k \<and> k \<in> set s) xs"
    if "foldR (\<lambda>out v. and_then (valueSet_contains s (Some v)) (\<lambda>ok.
      Inr (if ok then out @ [v] else out))) out0 xs = Inr out" for s out0 out xs
    using that
  proof (induction xs arbitrary: out0)
    case (Cons x xs)
    then obtain k where k: "key x = Inr k"
      by (auto simp: valueSet_contains_def and_then_eq_Inr)
    with Cons.prems Cons.IH [of "if k \<in> set s then out0 @ [x] else out0"] show ?case
      by (auto simp: valueSet_contains_def)
  qed simp
  from assms obtain xs ys s out where
    dec: "decodeArray a = Inr xs" "decodeArray b = Inr ys" "newValueSet ys = Inr s"
    and f: "foldR (\<lambda>out v. and_then (valueSet_contains s (Some v)) (\<lambda>ok.
        Inr (if ok then out @ [v] else out))) [] xs = Inr out" and r: "r = JArr out"
    by (auto simp: intersectArrays_def and_then_eq_Inr)
  have s: "set s = keyset ys" by (rule newValueSet_set [OF dec(3)])
  from fold [OF f] have keys: "\<forall>x \<in> set xs. \<exists>k. key x = Inr k"
    and out: "out = filter (\<lambda>x. \<exists>k. key x = Inr k \<and> k \<in> keyset ys) xs"
    by (simp_all add: s)
  have "keyset out = keyset xs \<inter> keyset ys"
    by (auto simp: out keyset_def)
  moreover have "keyset xs \<subseteq> keyset ys \<Longrightarrow> out = xs"
    unfolding out using keys by (intro filter_True) (force simp: keyset_def subset_iff)
  ultimately show ?thesis using that dec r out by auto
qed

section \<open>What operators promise\<close>

definition op_honours :: "string \<Rightarrow> json \<Rightarrow> raw \<Rightarrow> bool" where
  "op_honours name x r =
     (if name = opValue then
        (if isJSONNull x then r = None else (\<exists>y. r = Some y \<and> jsonEqual x y = Inr True))
      else if name = opAdd then (\<exists>y. r = Some y \<and> elems x \<subseteq> elems y)
      else if name = opDefault then r \<noteq> None
      else if name = opOneOf then (\<forall>y. r = Some y \<longrightarrow> (\<exists>k \<in> elems x. key y = Inr k))
      else if name = opSubsetOf then
        (\<forall>y. r = Some y \<longrightarrow> unmarshal_array y \<noteq> None \<and> elems y \<subseteq> elems x)
      else if name = opSupersetOf then (\<forall>y. r = Some y \<longrightarrow> elems x \<subseteq> elems y)
      else if name = opEssential then (unmarshal_bool x = Some True \<longrightarrow> r \<noteq> None)
      else True)"

definition honours :: "policy_ops \<Rightarrow> raw \<Rightarrow> bool" where
  "honours ops r \<longleftrightarrow> (\<forall>name x. map_of ops name = Some x \<longrightarrow> op_honours name x r)"

definition op_stricter :: "string \<Rightarrow> json \<Rightarrow> json \<Rightarrow> bool" where
  "op_stricter name x x' =
     (if name = opValue then x' = x \<or> jsonEqual x x' = Inr True
      else if name = opAdd \<or> name = opSupersetOf then elems x \<subseteq> elems x'
      else if name = opOneOf \<or> name = opSubsetOf then elems x' \<subseteq> elems x
      else if name = opEssential then
        (unmarshal_bool x = Some True \<longrightarrow> unmarshal_bool x' = Some True)
      else True)"

definition stricter :: "policy_ops \<Rightarrow> policy_ops \<Rightarrow> bool" where
  "stricter m ops \<longleftrightarrow>
     (\<forall>name x. map_of ops name = Some x \<longrightarrow>
        (\<exists>x'. map_of m name = Some x' \<and> op_stricter name x x'))"

lemma normalizeZero_GNil [simp]: "normalizeZero v = GNil \<longleftrightarrow> v = GNil"
  by (cases v) auto

lemma isJSONNull_iff [simp]: "isJSONNull j \<longleftrightarrow> j = JNull"
  by (simp add: isJSONNull_def)

lemma key_JNull: "key j = Inr GNil \<longleftrightarrow> j = JNull"
  by (auto simp: canonicalJSON_def split: option.splits)

lemma jsonEqual_True:
  "jsonEqual a b = Inr True \<longleftrightarrow> (\<exists>k. key a = Inr k \<and> key b = Inr k)"
  by (auto simp: jsonEqual_def and_then_eq_Inr)

lemma jsonEqual_null: "jsonEqual a b = Inr True \<Longrightarrow> a = JNull \<longleftrightarrow> b = JNull"
  by (metis jsonEqual_True key_JNull)

lemma op_stricter_refl [simp]: "op_stricter name x x"
  by (simp add: op_stricter_def)

lemma op_stricter_trans:
  "op_stricter name x y \<Longrightarrow> op_stricter name y z \<Longrightarrow> op_stricter name x z"
  by (auto simp: op_stricter_def jsonEqual_True split: if_splits)

lemma op_honours_stricter:
  assumes "op_stricter name x x'" "op_honours name x' r"
  shows "op_honours name x r"
proof (cases "name = opValue")
  case True
  then have x': "x' = x \<or> jsonEqual x x' = Inr True"
    using assms(1) by (simp add: op_stricter_def)
  then have "x' = JNull \<longleftrightarrow> x = JNull" using jsonEqual_null by blast
  with x' assms(2) True show ?thesis
    by (auto simp: op_honours_def jsonEqual_True split: if_splits)
next
  case False
  with assms show ?thesis
    by (fastforce simp: op_honours_def op_stricter_def op_defs split: if_splits)
qed

lemma stricter_refl [simp]: "stricter ops ops"
  by (simp add: stricter_def)

lemma stricter_trans: "stricter a b \<Longrightarrow> stricter b c \<Longrightarrow> stricter a c"
  unfolding stricter_def by (meson op_stricter_trans)

lemma honours_stricter: "honours m r \<Longrightarrow> stricter m ops \<Longrightarrow> honours ops r"
  unfolding stricter_def honours_def by (meson op_honours_stricter)

section \<open>Valid operators\<close>

lemma policyValues_Inr: "policyValues op raw = Inr xs \<Longrightarrow> unmarshal_array raw = Some xs"
  by (auto simp: policyValues_def decodeArray_Some split: if_splits sum.splits)

lemma unmarshal_array_elems: "unmarshal_array j = Some xs \<Longrightarrow> elems j = keyset xs"
  by (simp add: elems_def arr_of_def)

lemma requireSubset_Inr:
  assumes "requireSubset ops sub super = Inr u" "map_of ops sub = Some x" "map_of ops super = Some y"
  shows "unmarshal_array x \<noteq> None \<and> unmarshal_array y \<noteq> None \<and> elems x \<subseteq> elems y"
proof -
  from assms obtain xs ys s where xs: "policyValues sub x = Inr xs" and ys: "policyValues super y = Inr ys"
    and s: "newValueSet ys = Inr s"
    and all: "\<forall>v \<in> set xs. and_then (valueSet_contains s (Some v)) (\<lambda>found.
        require found (NotSubset sub super)) = Inr ()"
    by (auto simp: requireSubset_def and_then_eq_Inr check_all_Inr)
  have "keyset xs \<subseteq> keyset ys"
    using all newValueSet_set [OF s] by (fastforce simp: keyset_def valueSet_contains_def and_then_eq_Inr)
  then show ?thesis
    using xs ys by (simp add: policyValues_Inr unmarshal_array_elems)
qed

lemma validateCombination_Inr:
  assumes "validateCombination ops crit = Inr u"
  shows "requireSubset ops opAdd opSubsetOf = Inr ()"
    and "requireSubset ops opSupersetOf opSubsetOf = Inr ()"
    and "map_of ops opValue \<noteq> None \<Longrightarrow> requireSubset ops opAdd opValue = Inr ()"
    and "map_of ops opValue \<noteq> None \<Longrightarrow> requireSubset ops opValue opSubsetOf = Inr ()"
    and "map_of ops opValue = Some JNull \<Longrightarrow> map_of ops opDefault = None"
    and "map_of ops opValue = Some JNull \<Longrightarrow> map_of ops opAdd = None"
    and "name \<in> {opAdd, opSubsetOf, opSupersetOf} \<Longrightarrow> map_of ops opOneOf \<noteq> None \<Longrightarrow> map_of ops name = None"
    and "name \<in> fst ` set ops \<Longrightarrow> isStandardOperator name \<or> name \<notin> set crit"
  using assms
  by (auto simp: validateCombination_def and_then_eq_Inr check_all_Inr validateValueCombinations_def
      validateNullValueCombinations_def split: if_splits option.splits)

section \<open>Applying valid operators keeps their promises\<close>

definition apply_opt :: "policy_ops \<Rightarrow> string \<Rightarrow> raw \<times> bool \<Rightarrow> policy_error + raw \<times> bool" where
  "apply_opt ops op = (\<lambda>(value, present). case map_of ops op of None \<Rightarrow> Inr (value, present)
     | Some raw \<Rightarrow> applyOperator op raw value present)"

definition coherent :: "raw \<times> bool \<Rightarrow> bool" where
  "coherent = (\<lambda>(v, p). p \<longleftrightarrow> v \<noteq> None)"

lemma apply_opt_value:
  assumes "apply_opt ops opValue (v, p) = Inr r" "coherent (v, p)"
  shows "coherent r" and "map_of ops opValue = Some x \<Longrightarrow> fst r = (if x = JNull then None else Some x)"
    and "map_of ops opValue = Some x \<Longrightarrow> x \<noteq> JNull \<Longrightarrow> \<exists>k. key x = Inr k"
    and "map_of ops opValue = None \<Longrightarrow> r = (v, p)"
  using assms
  by (auto simp: apply_opt_def applyOperator_def applyValueOperator_def coherent_def canonicalJSON_def
      split: option.splits gov.splits)

lemma decodeArray_JArr: "decodeArray (Some j) = Inr xs \<Longrightarrow> j \<noteq> JNull \<Longrightarrow> j = JArr xs"
  by (auto simp: decodeArray_Some elim: unmarshal_array_cases)

lemma apply_opt_add:
  assumes "apply_opt ops opAdd (v, p) = Inr r" "coherent (v, p)"
  shows "coherent r"
    and "map_of ops opAdd = Some x \<Longrightarrow> \<exists>y. fst r = Some y \<and> elems x \<subseteq> elems y"
    and "map_of ops opAdd = Some x \<Longrightarrow> v = Some j \<Longrightarrow> j \<noteq> JNull \<Longrightarrow> elems x \<subseteq> elems j \<Longrightarrow> r = (v, p)"
    and "map_of ops opAdd = None \<Longrightarrow> r = (v, p)"
proof -
  from assms show "coherent r" "map_of ops opAdd = None \<Longrightarrow> r = (v, p)"
    by (auto simp: apply_opt_def applyOperator_def applyAddOperator_def coherent_def op_defs
        and_then_eq_Inr split: option.splits)
next
  assume x: "map_of ops opAdd = Some x"
  with assms obtain m where m: "unionArrays v (Some x) = Inr m" and r: "r = (Some m, True)"
    by (auto simp: apply_opt_def applyOperator_def applyAddOperator_def op_defs and_then_eq_Inr)
  from m obtain xs ys out where dec: "decodeArray v = Inr xs" "decodeArray (Some x) = Inr ys"
    and out: "m = JArr out" "keyset out = keyset xs \<union> keyset ys"
    and same: "keyset ys \<subseteq> keyset xs \<Longrightarrow> out = xs"
    by (rule unionArrays_Inr) auto
  from dec(2) have ys: "elems x = keyset ys" by (simp add: elems_def decodeArray_arr_of)
  with out r show "\<exists>y. fst r = Some y \<and> elems x \<subseteq> elems y"
    by (simp add: elems_def)
  assume j: "v = Some j" "j \<noteq> JNull" "elems x \<subseteq> elems j"
  with dec(1) have "j = JArr xs" by (auto dest: decodeArray_JArr)
  with j same out(1) r ys assms(2) show "r = (v, p)"
    by (simp add: elems_def coherent_def)
qed

lemma apply_opt_default:
  assumes "apply_opt ops opDefault (v, p) = Inr r" "coherent (v, p)"
  shows "coherent r" and "map_of ops opDefault = Some x \<Longrightarrow> fst r \<noteq> None"
    and "v \<noteq> None \<Longrightarrow> r = (v, p)" and "map_of ops opDefault = None \<Longrightarrow> r = (v, p)"
  using assms
  by (auto simp: apply_opt_def applyOperator_def applyDefaultOperator_def coherent_def op_defs
      split: option.splits if_splits)

lemma apply_opt_one_of:
  assumes "apply_opt ops opOneOf (v, p) = Inr r" "coherent (v, p)"
  shows "r = (v, p)"
    and "map_of ops opOneOf = Some x \<Longrightarrow> v = Some y \<Longrightarrow> \<exists>k \<in> elems x. key y = Inr k"
  using assms
  by (auto simp: apply_opt_def applyOperator_def applyOneOfOperator_def coherent_def op_defs and_then_eq_Inr
        unmarshal_array_elems
      dest!: contains_Inr split: option.splits if_splits)

lemma apply_opt_subset_of:
  assumes "apply_opt ops opSubsetOf (v, p) = Inr r" "coherent (v, p)"
  shows "coherent r" and "fst r = None \<longleftrightarrow> v = None"
    and "map_of ops opSubsetOf = Some x \<Longrightarrow> v = Some j \<Longrightarrow>
      \<exists>out. fst r = Some (JArr out) \<and> keyset out = elems j \<inter> elems x \<and>
        (elems j \<subseteq> elems x \<longrightarrow> j \<noteq> JNull \<longrightarrow> r = (v, p))"
    and "map_of ops opSubsetOf = None \<Longrightarrow> r = (v, p)"
  using assms
  by (auto simp: apply_opt_def applyOperator_def applySubsetOfOperator_def coherent_def op_defs
        and_then_eq_Inr decodeArray_Some unmarshal_array_elems
      elim!: intersectArrays_Inr unmarshal_array_cases split: option.splits if_splits)

lemma apply_opt_superset_of:
  assumes "apply_opt ops opSupersetOf (v, p) = Inr r" "coherent (v, p)"
  shows "r = (v, p)"
    and "map_of ops opSupersetOf = Some x \<Longrightarrow> v = Some y \<Longrightarrow> elems x \<subseteq> elems y"
proof -
  from assms show "r = (v, p)"
    by (auto simp: apply_opt_def applyOperator_def applySupersetOfOperator_def coherent_def op_defs
        and_then_eq_Inr split: option.splits if_splits)
next
  assume x: "map_of ops opSupersetOf = Some x" "v = Some y"
  with assms obtain xs ys s where "unmarshal_array x = Some xs" "unmarshal_array y = Some ys"
    "newValueSet ys = Inr s"
    "\<forall>w \<in> set xs. and_then (valueSet_contains s (Some w)) (\<lambda>ok. require ok MissingSupersetValues) = Inr ()"
    by (auto simp: apply_opt_def applyOperator_def applySupersetOfOperator_def coherent_def op_defs
        and_then_eq_Inr check_all_Inr)
  then show "elems x \<subseteq> elems y"
    by (fastforce simp: unmarshal_array_elems keyset_def valueSet_contains_def and_then_eq_Inr
        dest!: newValueSet_set)
qed

lemma apply_opt_essential:
  assumes "apply_opt ops opEssential (v, p) = Inr r" "coherent (v, p)"
  shows "r = (v, p)"
    and "map_of ops opEssential = Some x \<Longrightarrow> unmarshal_bool x = Some True \<Longrightarrow> v \<noteq> None"
  using assms
  by (auto simp: apply_opt_def applyOperator_def applyEssentialOperator_def coherent_def op_defs
      and_then_eq_Inr split: option.splits if_splits)

lemma applyClaimPolicy_steps:
  assumes "applyClaimPolicy ops crit v p = Inr r"
  obtains r1 r2 r3 r4 r5 r6 where
    "apply_opt ops opValue (v, p) = Inr r1" "apply_opt ops opAdd r1 = Inr r2"
    "apply_opt ops opDefault r2 = Inr r3" "apply_opt ops opOneOf r3 = Inr r4"
    "apply_opt ops opSubsetOf r4 = Inr r5" "apply_opt ops opSupersetOf r5 = Inr r6"
    "apply_opt ops opEssential r6 = Inr r"
proof -
  have "foldR (\<lambda>s op. apply_opt ops op s) (v, p) operatorApplicationOrder = Inr r"
    using assms by (auto simp: applyClaimPolicy_def apply_opt_def and_then_eq_Inr case_prod_unfold)
  then show ?thesis
    using that by (auto simp: operatorApplicationOrder_def and_then_eq_Inr)
qed

text \<open>
  The operators run in the fixed order; \<open>v2\<close> is the value after \<open>add\<close>, \<open>v3\<close> after
  \<open>default\<close> and \<open>v5\<close> after \<open>subset_of\<close>. The checks after it change nothing.
\<close>

lemma applyClaimPolicy_values:
  assumes "applyClaimPolicy ops crit v p = Inr r" "coherent (v, p)"
  obtains v1 v2 v3 v5 p1 p2 p3 where
    "apply_opt ops opValue (v, p) = Inr (v1, p1)" "coherent (v1, p1)"
    "apply_opt ops opAdd (v1, p1) = Inr (v2, p2)" "coherent (v2, p2)"
    "apply_opt ops opDefault (v2, p2) = Inr (v3, p3)" "coherent (v3, p3)"
    "apply_opt ops opOneOf (v3, p3) = Inr (v3, p3)"
    "apply_opt ops opSubsetOf (v3, p3) = Inr r" "coherent r" "r = (v5, v5 \<noteq> None)"
    "apply_opt ops opSupersetOf r = Inr r" "apply_opt ops opEssential r = Inr r"
proof -
  from assms(1) obtain r1 r2 r3 r4 r5 r6 where
    s: "apply_opt ops opValue (v, p) = Inr r1" "apply_opt ops opAdd r1 = Inr r2"
      "apply_opt ops opDefault r2 = Inr r3" "apply_opt ops opOneOf r3 = Inr r4"
      "apply_opt ops opSubsetOf r4 = Inr r5" "apply_opt ops opSupersetOf r5 = Inr r6"
      "apply_opt ops opEssential r6 = Inr r"
    by (rule applyClaimPolicy_steps)
  obtain v1 p1 v2 p2 v3 p3 where r: "r1 = (v1, p1)" "r2 = (v2, p2)" "r3 = (v3, p3)"
    by (cases r1, cases r2, cases r3)
  note s = s [unfolded r]
  have c1: "coherent (v1, p1)" by (rule apply_opt_value(1) [OF s(1) assms(2)])
  have c2: "coherent (v2, p2)" by (rule apply_opt_add(1) [OF s(2) c1])
  have c3: "coherent (v3, p3)" by (rule apply_opt_default(1) [OF s(3) c2])
  have r4: "r4 = (v3, p3)" by (rule apply_opt_one_of(1) [OF s(4) c3])
  obtain v5 p5 where r5: "r5 = (v5, p5)" by (cases r5)
  have c5: "coherent (v5, p5)"
    using apply_opt_subset_of(1) [OF s(5) [unfolded r4] c3] by (simp add: r5)
  have r6: "r6 = (v5, p5)" by (rule apply_opt_superset_of(1) [OF s(6) [unfolded r5] c5])
  have r: "r = (v5, p5)" by (rule apply_opt_essential(1) [OF s(7) [unfolded r6] c5])
  show ?thesis
    using that [OF s(1) c1 s(2) c2 s(3) c3 s(4) [unfolded r4] s(5) [unfolded r4 r5 r [symmetric]]]
      c5 s(6,7) by (simp add: r r5 r6 coherent_def)
qed

lemma apply_honours:
  assumes valid: "validateCombination ops crit0 = Inr u"
    and app: "applyClaimPolicy ops crit v p = Inr r" and coh: "coherent (v, p)"
  shows "coherent r \<and> honours ops (fst r)"
proof -
  note req = validateCombination_Inr [OF valid]
  from app coh obtain v1 v2 v3 v5 p1 p2 p3 where
    v1: "apply_opt ops opValue (v, p) = Inr (v1, p1)" and c1: "coherent (v1, p1)"
    and v2: "apply_opt ops opAdd (v1, p1) = Inr (v2, p2)" and c2: "coherent (v2, p2)"
    and v3: "apply_opt ops opDefault (v2, p2) = Inr (v3, p3)" and c3: "coherent (v3, p3)"
    and v4: "apply_opt ops opOneOf (v3, p3) = Inr (v3, p3)"
    and v5: "apply_opt ops opSubsetOf (v3, p3) = Inr (v5, v5 \<noteq> None)"
    and r: "coherent r" "r = (v5, v5 \<noteq> None)"
    and v6: "apply_opt ops opSupersetOf (v5, v5 \<noteq> None) = Inr (v5, v5 \<noteq> None)"
    and v7: "apply_opt ops opEssential (v5, v5 \<noteq> None) = Inr (v5, v5 \<noteq> None)"
    by (rule applyClaimPolicy_values) auto
  note o1 = apply_opt_value [OF v1 coh] and o2 = apply_opt_add [OF v2 c1]
    and o3 = apply_opt_default [OF v3 c2] and o4 = apply_opt_one_of [OF v4 c3]
    and o5 = apply_opt_subset_of [OF v5 c3]
    and o6 = apply_opt_superset_of [OF v6 r(1) [unfolded r(2)]]
    and o7 = apply_opt_essential [OF v7 r(1) [unfolded r(2)]]
  have none5: "v5 = None \<longleftrightarrow> v3 = None" using o5(2) by simp
  have "op_honours name x v5" if x: "map_of ops name = Some x" for name x
  proof -
    consider "name = opValue" "x = JNull" | "name = opValue" "x \<noteq> JNull" | "name = opAdd"
      | "name = opDefault" | "name = opOneOf" | "name = opSubsetOf" | "name = opSupersetOf"
      | "name = opEssential" | "\<not> isStandardOperator name"
      by (auto simp: isStandardOperator_def)
    then show ?thesis
    proof cases
      case 1
      with x req(5,6) o1(2) o2(4) o3(4) none5 show ?thesis by (simp add: op_honours_def)
    next
      case 2
      with x o1(2) have x1: "v1 = Some x" by simp
      have x2: "v2 = Some x"
      proof (cases "map_of ops opAdd")
        case (Some a)
        with 2 x requireSubset_Inr [OF req(3) Some, of x] have "elems a \<subseteq> elems x" by simp
        with 2 o2(3) [OF Some x1] x1 show ?thesis by simp
      qed (use o2(4) x1 in simp)
      have x3: "v3 = Some x" using o3(3) x2 by simp
      have "v5 = Some x"
      proof (cases "map_of ops opSubsetOf")
        case (Some a)
        with 2 x requireSubset_Inr [OF req(4) _ Some, of x] have "elems x \<subseteq> elems a" by simp
        with 2 o5(3) [OF Some x3] x3 show ?thesis by auto
      qed (use o5(4) x3 in simp)
      with 2 x o1(3) show ?thesis by (simp add: op_honours_def jsonEqual_True)
    next
      case 3
      with x o2(2) obtain y where y: "v2 = Some y" "elems x \<subseteq> elems y" by auto
      have y3: "v3 = Some y" using o3(3) y by simp
      have "\<exists>y'. v5 = Some y' \<and> elems x \<subseteq> elems y'"
      proof (cases "map_of ops opSubsetOf")
        case (Some a)
        with 3 x requireSubset_Inr [OF req(1) _ Some, of x] have "elems x \<subseteq> elems a" by simp
        with y o5(3) [OF Some y3] show ?thesis by (auto simp: elems_def)
      qed (use o5(4) y3 y in simp)
      with 3 show ?thesis by (auto simp: op_honours_def op_defs)
    next
      case 4
      with x o3(2) none5 show ?thesis by (simp add: op_honours_def op_defs)
    next
      case 5
      with x req(7) [of opSubsetOf] o5(4) have "v5 = v3" by simp
      with 5 x o4(2) show ?thesis by (simp add: op_honours_def op_defs)
    next
      case 6
      show ?thesis
      proof (cases v3)
        case (Some j)
        with 6 x o5(3) [of x j] obtain out where "v5 = Some (JArr out)"
          "keyset out = elems j \<inter> elems x" by auto
        with 6 show ?thesis by (simp add: op_honours_def op_defs elems_def)
      qed (use 6 none5 in \<open>simp add: op_honours_def op_defs\<close>)
    next
      case 7
      with x o6(2) show ?thesis by (simp add: op_honours_def op_defs)
    next
      case 8
      with x o7(2) show ?thesis by (simp add: op_honours_def op_defs)
    next
      case 9
      then show ?thesis by (simp add: op_honours_def isStandardOperator_def)
    qed
  qed
  with r show ?thesis by (simp add: honours_def)
qed

section \<open>Merging operators\<close>

lemma mergeOperatorValue_stricter:
  assumes "mergeOperatorValue name c n = Inr w"
  shows "op_stricter name c w \<and> op_stricter name n w"
proof -
  consider "name = opAdd \<or> name = opSupersetOf" | "name = opOneOf \<or> name = opSubsetOf"
    | "name = opEssential" | "name \<notin> {opAdd, opSupersetOf, opOneOf, opSubsetOf, opEssential}" by blast
  then show ?thesis
  proof cases
    case 1
    with assms have "unionArrays (Some c) (Some n) = Inr w"
      by (auto simp: mergeOperatorValue_def op_defs)
    then have "elems c \<subseteq> elems w \<and> elems n \<subseteq> elems w"
      by (rule unionArrays_Inr) (auto simp: elems_def dest!: decodeArray_arr_of)
    with 1 show ?thesis by (auto simp: op_stricter_def op_defs)
  next
    case 2
    with assms have "intersectArrays (Some c) (Some n) = Inr w"
      by (auto simp: mergeOperatorValue_def op_defs and_then_eq_Inr split: if_splits)
    then have "elems w \<subseteq> elems c \<and> elems w \<subseteq> elems n"
      by (rule intersectArrays_Inr) (auto simp: elems_def dest!: decodeArray_arr_of)
    with 2 show ?thesis by (auto simp: op_stricter_def op_defs)
  next
    case 3
    with assms show ?thesis
      by (auto simp: mergeOperatorValue_def op_stricter_def op_defs split: option.splits)
  next
    case 4
    with assms have w: "w = c" "jsonEqual c n = Inr True"
      by (auto simp: mergeOperatorValue_def and_then_eq_Inr split: if_splits)
    then have "jsonEqual n c = Inr True" by (auto simp: jsonEqual_True)
    with 4 w show ?thesis by (simp add: op_stricter_def)
  qed
qed

text \<open>Merging is pointwise on operator names.\<close>

lemma mergeOperators_fold:
  "mergeOperators c n crit = Inr m \<longleftrightarrow>
     foldR (\<lambda>m (k, v). case map_of m k of None \<Rightarrow> Inr (AList.update k v m)
       | Some c \<Rightarrow> and_then (mergeOperatorValue k c v) (\<lambda>w. Inr (AList.update k w m))) c n = Inr m
     \<and> validateCombination m crit = Inr ()"
  by (auto simp: mergeOperators_def and_then_eq_Inr)

lemma mergeOperators_map_of:
  assumes "mergeOperators c n crit = Inr m" "distinct (map fst n)"
  shows "map_of m name = (case map_of n name of None \<Rightarrow> map_of c name
      | Some v \<Rightarrow> (case map_of c name of None \<Rightarrow> Some v
          | Some cv \<Rightarrow> (case mergeOperatorValue name cv v of Inr w \<Rightarrow> Some w | Inl _ \<Rightarrow> None)))"
  using assms foldR_merge_map_of [where g = "\<lambda>_ v. v"] by (fastforce simp: mergeOperators_fold)

lemma mergeOperators_both:
  assumes "mergeOperators c n crit = Inr m" "distinct (map fst n)"
    and "map_of n name = Some v" "map_of c name = Some cv"
  obtains w where "mergeOperatorValue name cv v = Inr w" "map_of m name = Some w"
proof -
  from assms(1) have "foldR (\<lambda>m (k, v). case map_of m k of None \<Rightarrow> Inr (AList.update k v m)
      | Some c \<Rightarrow> and_then (mergeOperatorValue k c v) (\<lambda>w. Inr (AList.update k w m))) c n = Inr m"
    unfolding mergeOperators_fold by blast
  from foldR_merge_ok [OF this assms(2,3,4)] that show ?thesis by blast
qed

lemma mergeOperators_stricter:
  assumes "mergeOperators c n crit = Inr m" "distinct (map fst n)"
  shows "stricter m c \<and> stricter m n"
proof -
  have "\<exists>x'. map_of m name = Some x' \<and> op_stricter name x x'" if x: "map_of c name = Some x" for name x
  proof (cases "map_of n name")
    case None
    with x mergeOperators_map_of [OF assms, of name] show ?thesis by auto
  next
    case (Some v)
    obtain w where "mergeOperatorValue name x v = Inr w" "map_of m name = Some w"
      by (rule mergeOperators_both [OF assms Some x])
    with mergeOperatorValue_stricter show ?thesis by blast
  qed
  moreover have "\<exists>x'. map_of m name = Some x' \<and> op_stricter name x x'" if x: "map_of n name = Some x" for name x
  proof (cases "map_of c name")
    case None
    with x mergeOperators_map_of [OF assms, of name] show ?thesis by auto
  next
    case (Some v)
    obtain w where "mergeOperatorValue name v x = Inr w" "map_of m name = Some w"
      by (rule mergeOperators_both [OF assms x Some])
    with mergeOperatorValue_stricter show ?thesis by blast
  qed
  ultimately show ?thesis by (simp add: stricter_def)
qed

section \<open>Splitting space-delimited operands\<close>

definition split_operand :: "string \<Rightarrow> json \<Rightarrow> json" where
  "split_operand name x =
     (if name = opValue \<or> name = opDefault then splitSpaceDelimited x
      else if name = opOneOf then splitOneOfOptions x else x)"

lemma splitSpaceDelimited_idem [simp]: "splitSpaceDelimited (splitSpaceDelimited x) = splitSpaceDelimited x"
  by (auto simp: splitSpaceDelimited_def split: option.splits gov.splits)

lemma splitOneOfOptions_idem [simp]: "splitOneOfOptions (splitOneOfOptions x) = splitOneOfOptions x"
  by (auto simp: splitOneOfOptions_def split: json.splits)

lemma split_operand_idem [simp]: "split_operand name (split_operand name x) = split_operand name x"
  by (simp add: split_operand_def)

lemma map_of_split [simp]:
  "map_of (splitSpaceDelimitedOperators ops) name = map_option (split_operand name) (map_of ops name)"
  by (induction ops) (auto simp: splitSpaceDelimitedOperators_def split_operand_def)

definition is_split :: "policy_ops \<Rightarrow> bool" where
  "is_split ops \<longleftrightarrow> (\<forall>name x. map_of ops name = Some x \<longrightarrow> split_operand name x = x)"

lemma is_split_split [simp]: "is_split (splitSpaceDelimitedOperators ops)"
  by (auto simp: is_split_def)

lemma map_of_split_is_split: "is_split ops \<Longrightarrow> map_of (splitSpaceDelimitedOperators ops) = map_of ops"
  by (auto simp: is_split_def fun_eq_iff map_option_case split: option.splits)

lemma split_filtered:
  assumes "split_operand name c = c" "arr_of c = xs" "set out \<subseteq> set xs" "name \<noteq> opValue" "name \<noteq> opDefault"
  shows "split_operand name (JArr out) = JArr out"
proof (cases "name = opOneOf")
  case True
  with assms(1) have "splitOneOfOptions c = c" by (simp add: split_operand_def op_defs)
  then have "\<forall>x \<in> set xs. splitSpaceDelimited x = x"
    using assms(2) map_eq_conv [of splitSpaceDelimited _ "\<lambda>x. x"]
    by (cases c) (auto simp: splitOneOfOptions_def arr_of_def)
  with assms(3) have "map splitSpaceDelimited out = out" by (simp add: map_idI subset_iff)
  with True show ?thesis by (simp add: split_operand_def splitOneOfOptions_def op_defs)
qed (use assms in \<open>simp add: split_operand_def\<close>)

lemma mergeOperatorValue_split:
  assumes "mergeOperatorValue name c n = Inr w" "split_operand name c = c" "split_operand name n = n"
  shows "split_operand name w = w"
proof -
  consider "name = opOneOf" | "name = opValue \<or> name = opDefault"
    | "name \<noteq> opOneOf" "name \<noteq> opValue" "name \<noteq> opDefault" by blast
  then show ?thesis
  proof cases
    case 1
    with assms(1) have "intersectArrays (Some c) (Some n) = Inr w"
      by (auto simp: mergeOperatorValue_def op_defs and_then_eq_Inr split: if_splits)
    then show ?thesis
      by (rule intersectArrays_Inr)
        (use 1 assms(2) split_filtered in \<open>auto simp: op_defs dest!: decodeArray_arr_of\<close>)
  next
    case 2
    with assms show ?thesis
      by (auto simp: mergeOperatorValue_def and_then_eq_Inr split: if_splits)
  next
    case 3
    then show ?thesis by (simp add: split_operand_def)
  qed
qed

lemma mergeOperators_split:
  assumes "mergeOperators c n crit = Inr m" "distinct (map fst n)" "is_split c" "is_split n"
  shows "is_split m"
  unfolding is_split_def
proof (intro allI impI)
  fix name x assume x: "map_of m name = Some x"
  show "split_operand name x = x"
  proof (cases "map_of n name")
    case None
    with x mergeOperators_map_of [OF assms(1,2), of name] assms(3) show ?thesis
      by (simp add: is_split_def)
  next
    case n: (Some v)
    show ?thesis
    proof (cases "map_of c name")
      case None
      with n x mergeOperators_map_of [OF assms(1,2), of name] assms(4) show ?thesis
        by (simp add: is_split_def)
    next
      case (Some cv)
      obtain w where "mergeOperatorValue name cv v = Inr w" "map_of m name = Some w"
        by (rule mergeOperators_both [OF assms(1,2) n Some])
      with x n Some assms(3,4) mergeOperatorValue_split show ?thesis by (simp add: is_split_def)
    qed
  qed
qed

lemma distinct_split [simp]:
  "distinct (map fst (splitSpaceDelimitedOperators ops)) \<longleftrightarrow> distinct (map fst ops)"
  by (simp add: splitSpaceDelimitedOperators_def case_prod_unfold comp_def)

lemma distinct_parameterOperators [simp]:
  "distinct (map fst (parameterOperators claim ops)) \<longleftrightarrow> distinct (map fst ops)"
  by (simp add: parameterOperators_def)

lemma parameterOperators_Nil [simp]: "parameterOperators claim ops = [] \<longleftrightarrow> ops = []"
  by (simp add: parameterOperators_def splitSpaceDelimitedOperators_def)

lemma stricter_cong: "map_of m = map_of m' \<Longrightarrow> stricter m ops = stricter m' ops"
  by (simp add: stricter_def)

lemma merge_parameter_stricter:
  assumes "mergeOperators (parameterOperators claim c) (parameterOperators claim n) crit = Inr m"
    and "distinct (map fst n)"
  shows "stricter (parameterOperators claim m) (parameterOperators claim c)
    \<and> stricter (parameterOperators claim m) (parameterOperators claim n)"
proof -
  have "map_of (parameterOperators claim m) = map_of m"
  proof (cases "claim \<in> set spaceDelimitedParameters")
    case True
    with mergeOperators_split [OF assms(1)] assms(2) have "is_split m"
      by (simp add: parameterOperators_def)
    with True show ?thesis by (simp only: parameterOperators_def if_True map_of_split_is_split)
  qed (simp add: parameterOperators_def)
  from stricter_cong [OF this] mergeOperators_stricter [OF assms(1)] assms(2) show ?thesis
    by (simp only: distinct_parameterOperators)
qed

section \<open>Merging whole policies\<close>

definition plookup :: "metadata_policy \<Rightarrow> string \<Rightarrow> string \<Rightarrow> policy_ops option" where
  "plookup pol et claim = Option.bind (map_of pol et) (\<lambda>ps. map_of ps claim)"

text \<open>Decoded from JSON, each of a policy's maps has distinct keys.\<close>

definition wf_policy :: "metadata_policy \<Rightarrow> bool" where
  "wf_policy pol \<longleftrightarrow> distinct (map fst pol) \<and>
     list_all (\<lambda>(_, ps). distinct (map fst ps) \<and> list_all (\<lambda>(_, ops). distinct (map fst ops)) ps) pol"

lemma wf_policy_ops:
  "wf_policy pol \<Longrightarrow> plookup pol et claim = Some ops \<Longrightarrow> distinct (map fst ops)"
  by (fastforce simp: wf_policy_def plookup_def list_all_iff bind_eq_Some_conv dest: map_of_SomeD)

lemma wf_policy_params:
  "wf_policy pol \<Longrightarrow> map_of pol et = Some ps \<Longrightarrow> distinct (map fst ps)"
  by (fastforce simp: wf_policy_def list_all_iff dest: map_of_SomeD)

lemma cloneParamPolicies_id [simp]: "cloneParamPolicies ps = ps"
  by (simp add: cloneParamPolicies_def)

definition mergeOps :: "string list \<Rightarrow> string \<Rightarrow> policy_ops \<Rightarrow> policy_ops \<Rightarrow> policy_error + policy_ops" where
  "mergeOps crit claim c n = mergeOperators (parameterOperators claim c) (parameterOperators claim n) crit"

lemma mergeParams_fold:
  "mergeParams crit cp np =
     foldR (\<lambda>m (k, v). case map_of m k of None \<Rightarrow> Inr (AList.update k v m)
       | Some c \<Rightarrow> and_then (mergeOps crit k c v) (\<lambda>w. Inr (AList.update k w m))) cp np"
  unfolding mergeParams_def mergeOps_def ..

lemma MergePolicy_fold:
  "MergePolicy (Some c) cc (Some n) nc = Inr r \<longleftrightarrow>
     validatePolicy n (cc @ nc) = Inr () \<and>
     (\<exists>m. r = Some m \<and>
       foldR (\<lambda>m (k, v). case map_of m k of None \<Rightarrow> Inr (AList.update k v m)
         | Some cp \<Rightarrow> and_then (mergeParams (cc @ nc) cp v) (\<lambda>w. Inr (AList.update k w m))) c n = Inr m)"
proof -
  have c: "newCritSet [cc, nc] = cc @ nc" by (simp add: newCritSet_def)
  show ?thesis
    unfolding MergePolicy_def Let_def cloneParamPolicies_id c by (auto simp: and_then_eq_Inr)
qed

lemma validatePolicy_Inr:
  assumes "validatePolicy pol crit = Inr u" "map_of pol et = Some ps" "(claim, ops) \<in> set ps"
  shows "validateCombination (parameterOperators claim ops) crit = Inr ()"
proof -
  from assms(1) have "\<forall>(et, ps) \<in> set pol. \<forall>(claim, ops) \<in> set ps.
      validateCombination (parameterOperators claim ops) crit = Inr ()"
    unfolding validatePolicy_def check_all_Inr case_prod_unfold .
  with map_of_SomeD [OF assms(2)] assms(3) show ?thesis by blast
qed

lemma mergeParams_map_of:
  assumes "mergeParams crit cp np = Inr mp" "distinct (map fst np)"
  shows "map_of mp claim = (case map_of np claim of None \<Rightarrow> map_of cp claim
      | Some n \<Rightarrow> (case map_of cp claim of None \<Rightarrow> Some n
          | Some c \<Rightarrow> (case mergeOps crit claim c n of Inr w \<Rightarrow> Some w | Inl _ \<Rightarrow> None)))"
    and "map_of np claim = Some n \<Longrightarrow> map_of cp claim = Some c \<Longrightarrow>
      \<exists>w. mergeOps crit claim c n = Inr w \<and> map_of mp claim = Some w"
  using foldR_merge_map_of [OF assms(1) [unfolded mergeParams_fold] assms(2)]
    foldR_merge_ok [OF assms(1) [unfolded mergeParams_fold] assms(2)] by auto

text \<open>
  Merging is pointwise: what one side alone says about a parameter is kept as it is, and what
  both say is merged operator by operator. No entry of the next policy is lost or misplaced,
  whatever the order in which Go walks its maps.
\<close>

lemma MergePolicy_plookup:
  assumes "MergePolicy (Some c) cc (Some n) nc = Inr (Some m)" "wf_policy n"
  shows "plookup m et claim = (case plookup n et claim of None \<Rightarrow> plookup c et claim
      | Some no \<Rightarrow> (case plookup c et claim of None \<Rightarrow> Some no
          | Some co \<Rightarrow> (case mergeOps (cc @ nc) claim co no of Inr w \<Rightarrow> Some w | Inl _ \<Rightarrow> None)))"
    and "plookup n et claim = Some no \<Longrightarrow> plookup c et claim = Some co \<Longrightarrow>
      \<exists>w. mergeOps (cc @ nc) claim co no = Inr w \<and> plookup m et claim = Some w"
proof -
  from assms(1) have f: "foldR (\<lambda>m (k, v). case map_of m k of None \<Rightarrow> Inr (AList.update k v m)
      | Some cp \<Rightarrow> and_then (mergeParams (cc @ nc) cp v) (\<lambda>w. Inr (AList.update k w m))) c n = Inr m"
    by (simp add: MergePolicy_fold)
  have d: "distinct (map fst n)" using assms(2) by (simp add: wf_policy_def)
  note outer = foldR_merge_map_of [OF f d, of et]
  note ok = foldR_merge_ok [OF f d, of et]
  show "plookup m et claim = (case plookup n et claim of None \<Rightarrow> plookup c et claim
      | Some no \<Rightarrow> (case plookup c et claim of None \<Rightarrow> Some no
          | Some co \<Rightarrow> (case mergeOps (cc @ nc) claim co no of Inr w \<Rightarrow> Some w | Inl _ \<Rightarrow> None)))"
  proof (cases "map_of n et")
    case None
    with outer show ?thesis by (simp add: plookup_def)
  next
    case n: (Some np)
    show ?thesis
    proof (cases "map_of c et")
      case None
      with outer n show ?thesis by (simp add: plookup_def split: option.split)
    next
      case (Some cp)
      with ok [OF n] obtain w where w: "mergeParams (cc @ nc) cp np = Inr w" "map_of m et = Some w"
        by blast
      from mergeParams_map_of(1) [OF w(1) wf_policy_params [OF assms(2) n], of claim]
      moreover have "plookup n et claim = map_of np claim" "plookup c et claim = map_of cp claim"
        "plookup m et claim = map_of w claim" using n Some w(2) by (simp_all add: plookup_def)
      ultimately show ?thesis by (simp only:)
    qed
  qed
  assume no: "plookup n et claim = Some no" and co: "plookup c et claim = Some co"
  then obtain np cp where np: "map_of n et = Some np" "map_of np claim = Some no"
    and cp: "map_of c et = Some cp" "map_of cp claim = Some co"
    by (auto simp: plookup_def bind_eq_Some_conv)
  from ok [OF np(1) cp(1)] obtain w where w: "mergeParams (cc @ nc) cp np = Inr w" "map_of m et = Some w"
    by blast
  from mergeParams_map_of(2) [OF w(1) wf_policy_params [OF assms(2) np(1)] np(2) cp(2)] w(2)
  show "\<exists>w. mergeOps (cc @ nc) claim co no = Inr w \<and> plookup m et claim = Some w"
    by (simp add: plookup_def)
qed

definition pol_stricter :: "metadata_policy \<Rightarrow> metadata_policy \<Rightarrow> bool" where
  "pol_stricter m p \<longleftrightarrow>
     (\<forall>et claim ops. plookup p et claim = Some ops \<longrightarrow>
        (\<exists>ops'. plookup m et claim = Some ops' \<and> (ops \<noteq> [] \<longrightarrow> ops' \<noteq> []) \<and>
           stricter (parameterOperators claim ops') (parameterOperators claim ops)))"

lemma pol_stricter_refl [simp]: "pol_stricter p p"
  by (simp add: pol_stricter_def)

lemma pol_stricter_trans: "pol_stricter a b \<Longrightarrow> pol_stricter b c \<Longrightarrow> pol_stricter a c"
  unfolding pol_stricter_def by (meson stricter_trans)

lemma stricter_nonempty: "stricter m ops \<Longrightarrow> ops \<noteq> [] \<Longrightarrow> m \<noteq> []"
  using map_of_eq_empty_iff [of ops] by (fastforce simp: stricter_def fun_eq_iff)

lemma MergePolicy_stricter:
  assumes "MergePolicy (Some c) cc (Some n) nc = Inr (Some m)" "wf_policy n"
  shows "pol_stricter m c \<and> pol_stricter m n"
proof -
  have both: "stricter (parameterOperators claim w) (parameterOperators claim co)
      \<and> stricter (parameterOperators claim w) (parameterOperators claim no)"
    if "plookup n et claim = Some no" "mergeOps (cc @ nc) claim co no = Inr w" for et claim co no w
    using that wf_policy_ops [OF assms(2)] merge_parameter_stricter by (simp add: mergeOps_def)
  have "\<exists>ops'. plookup m et claim = Some ops' \<and>
      stricter (parameterOperators claim ops') (parameterOperators claim ops)"
    if "plookup c et claim = Some ops \<or> plookup n et claim = Some ops" for et claim ops
  proof (cases "plookup n et claim")
    case None
    with that MergePolicy_plookup(1) [OF assms, of et claim] show ?thesis by auto
  next
    case no: (Some no)
    show ?thesis
    proof (cases "plookup c et claim")
      case None
      with that no MergePolicy_plookup(1) [OF assms, of et claim] show ?thesis by auto
    next
      case (Some co)
      with MergePolicy_plookup(2) [OF assms no] obtain w where
        "mergeOps (cc @ nc) claim co no = Inr w" "plookup m et claim = Some w" by blast
      with both [OF no] that no Some show ?thesis by auto
    qed
  qed
  then show ?thesis
    unfolding pol_stricter_def by (metis parameterOperators_Nil stricter_nonempty)
qed

section \<open>Applying a whole policy\<close>

definition joins :: "raw \<Rightarrow> raw \<Rightarrow> bool" where
  "joins r' r \<longleftrightarrow> (case r' of None \<Rightarrow> r = None
     | Some j \<Rightarrow> (\<exists>j'. joinSpaceDelimited j = Inr j' \<and> r = Some j'))"

text \<open>A space-delimited parameter honours its operators in the form of the array it stands for.\<close>

definition honours_param :: "string \<Rightarrow> policy_ops \<Rightarrow> raw \<Rightarrow> bool" where
  "honours_param claim ops r \<longleftrightarrow>
     (if claim \<notin> set spaceDelimitedParameters then honours ops r
      else ops = [] \<or> (\<exists>r'. joins r' r \<and> honours (splitSpaceDelimitedOperators ops) r'))"

lemma honours_param_stricter:
  assumes "honours_param claim m r" "stricter (parameterOperators claim m) (parameterOperators claim ops)"
    and "ops \<noteq> [] \<longrightarrow> m \<noteq> []"
  shows "honours_param claim ops r"
  using assms honours_stricter by (auto simp: honours_param_def parameterOperators_def split: if_splits)

lemma applyParameterPolicy_honours:
  assumes "validateCombination (parameterOperators claim ops) crit0 = Inr u"
    and "applyParameterPolicy claim ops crit v p = Inr r" and "coherent (v, p)"
  shows "coherent r \<and> honours_param claim ops (fst r)"
proof (cases "claim \<notin> set spaceDelimitedParameters \<or> ops = []")
  case True
  then have "parameterOperators claim ops = ops" "applyClaimPolicy ops crit v p = Inr r"
    using assms(2) by (auto simp: parameterOperators_def applyParameterPolicy_def splitSpaceDelimitedOperators_def)
  with assms apply_honours True show ?thesis by (auto simp: honours_param_def)
next
  case False
  then have po: "parameterOperators claim ops = splitSpaceDelimitedOperators ops"
    by (simp add: parameterOperators_def)
  from False assms(2) obtain v' p' where
    app: "applyClaimPolicy (splitSpaceDelimitedOperators ops) crit
        (if p then map_option splitSpaceDelimited v else v) p = Inr (v', p')"
    and r: "(if \<not> p' then Inr (v', p') else case v' of None \<Rightarrow> Inr (None, True)
        | Some j \<Rightarrow> and_then (joinSpaceDelimited j) (\<lambda>joined. Inr (Some joined, True))) = Inr r"
    by (auto simp: applyParameterPolicy_def and_then_eq_Inr)
  have "coherent (if p then map_option splitSpaceDelimited v else v, p)"
    using assms(3) by (simp add: coherent_def)
  from apply_honours [OF assms(1) [unfolded po] app this]
  have "coherent (v', p')" "honours (splitSpaceDelimitedOperators ops) v'" by simp_all
  moreover from this(1) r have "coherent r" "joins v' (fst r)"
    by (cases v'; auto simp: coherent_def joins_def and_then_eq_Inr split: if_splits)+
  ultimately show ?thesis using False by (auto simp: honours_param_def)
qed

definition present_value :: "json assoc \<Rightarrow> string \<Rightarrow> raw" where
  "present_value current claim =
     (case map_of current claim of None \<Rightarrow> None | Some j \<Rightarrow> if j = JNull then None else Some j)"

definition claim_ops :: "param_policies \<Rightarrow> string \<Rightarrow> policy_ops" where
  "claim_ops params claim = (case map_of params claim of None \<Rightarrow> [] | Some ops \<Rightarrow> ops)"

lemma applyEntityTypePolicy_put:
  "applyEntityTypePolicy params crit current =
     foldR (\<lambda>acc claim. and_then
        (and_then (applyParameterPolicy claim (claim_ops params claim) crit (present_value current claim)
            (present_value current claim \<noteq> None))
          (\<lambda>(v, p). Inr (if p then Some (case v of None \<Rightarrow> JNull | Some j \<Rightarrow> j) else None)))
        (\<lambda>w. Inr (case w of None \<Rightarrow> acc | Some j \<Rightarrow> AList.update claim j acc)))
      [] (remdups (map fst params @ map fst current))"
proof -
  have eq: "(case map_of current claim of None \<Rightarrow> (None, False)
      | Some j \<Rightarrow> if isJSONNull j then (None, False) else (Some j, True))
      = (present_value current claim, present_value current claim \<noteq> None)" for claim
    by (simp add: present_value_def split: option.split)
  show ?thesis
    unfolding applyEntityTypePolicy_def Let_def eq claim_ops_def
    by (rule arg_cong [of _ _ "\<lambda>f. foldR f [] _"])
      (auto simp: fun_eq_iff and_then_assoc and_then_def split: sum.split option.split)
qed

lemma applyEntityTypePolicy_map_of:
  assumes "applyEntityTypePolicy params crit current = Inr out"
  shows "claim \<in> set (map fst params @ map fst current) \<Longrightarrow>
      \<exists>v p. applyParameterPolicy claim (claim_ops params claim) crit (present_value current claim)
          (present_value current claim \<noteq> None) = Inr (v, p) \<and>
        map_of out claim = (if p then Some (case v of None \<Rightarrow> JNull | Some j \<Rightarrow> j) else None)"
    and "claim \<notin> set (map fst params @ map fst current) \<Longrightarrow> map_of out claim = None"
    and "distinct (map fst out)"
proof -
  let ?f = "\<lambda>claim. and_then (applyParameterPolicy claim (claim_ops params claim) crit
      (present_value current claim) (present_value current claim \<noteq> None))
      (\<lambda>(v, p). Inr (if p then Some (case v of None \<Rightarrow> JNull | Some j \<Rightarrow> j) else None))"
  note put = assms [unfolded applyEntityTypePolicy_put]
  note claim = foldR_put [where f = ?f, OF put distinct_remdups, of claim]
  show "distinct (map fst out)"
    by (rule distinct_foldR_put [where f = ?f, OF put]) simp
  show "claim \<notin> set (map fst params @ map fst current) \<Longrightarrow> map_of out claim = None"
    using claim by simp
  assume "claim \<in> set (map fst params @ map fst current)"
  with claim obtain w where w: "?f claim = Inr w" and out: "map_of out claim = w"
    by (auto split: option.splits)
  from w obtain v p where "applyParameterPolicy claim (claim_ops params claim) crit
      (present_value current claim) (present_value current claim \<noteq> None) = Inr (v, p)"
    and "w = (if p then Some (case v of None \<Rightarrow> JNull | Some j \<Rightarrow> j) else None)"
    unfolding and_then_eq_Inr by auto
  with out show "\<exists>v p. applyParameterPolicy claim (claim_ops params claim) crit (present_value current claim)
          (present_value current claim \<noteq> None) = Inr (v, p) \<and>
        map_of out claim = (if p then Some (case v of None \<Rightarrow> JNull | Some j \<Rightarrow> j) else None)"
    by blast
qed

lemma applyEntityTypePolicy_honours:
  assumes app: "applyEntityTypePolicy params crit current = Inr out"
    and valid: "\<forall>(claim, ops) \<in> set params. validateCombination (parameterOperators claim ops) crit0 = Inr ()"
    and ops: "map_of params claim = Some ops"
  shows "honours_param claim ops (map_of out claim)"
proof -
  from ops have "claim \<in> set (map fst params @ map fst current)" "(claim, ops) \<in> set params"
    by (force dest: map_of_SomeD)+
  with applyEntityTypePolicy_map_of(1) [OF app, of claim] ops obtain v p where
    vp: "applyParameterPolicy claim ops crit (present_value current claim)
        (present_value current claim \<noteq> None) = Inr (v, p)"
      "map_of out claim = (if p then Some (case v of None \<Rightarrow> JNull | Some j \<Rightarrow> j) else None)"
    by (auto simp: claim_ops_def)
  from valid \<open>(claim, ops) \<in> set params\<close>
  have "validateCombination (parameterOperators claim ops) crit0 = Inr ()" by blast
  from applyParameterPolicy_honours [OF this vp(1)] vp(2) show ?thesis
    by (auto simp: coherent_def)
qed

lemma ApplyPolicy_entity:
  assumes "ApplyPolicy policy crit metadata = Inr resolved" "distinct (map fst metadata)"
  shows "map_of metadata et = Some raw \<Longrightarrow>
      \<exists>current out. unmarshal_object raw = Some current \<and>
        applyEntityTypePolicy (case Option.bind policy (\<lambda>p. map_of p et) of None \<Rightarrow> [] | Some ps \<Rightarrow> ps)
          crit current = Inr out \<and>
        map_of resolved et = Some (marshal_object out)"
    and "map_of metadata et = None \<Longrightarrow> map_of resolved et = None"
proof -
  let ?pol = "case policy of None \<Rightarrow> [] | Some p \<Rightarrow> p"
  let ?f = "\<lambda>et raw. and_then (of_option (MetadataNotObject et) (unmarshal_object raw)) (\<lambda>current.
      and_then (applyEntityTypePolicy (case map_of ?pol et of None \<Rightarrow> [] | Some ps \<Rightarrow> ps) crit current)
        (\<lambda>out. Inr (marshal_object out)))"
  from assms(1) have f: "foldR (\<lambda>acc (et, raw). and_then (?f et raw)
      (\<lambda>w. Inr (AList.update et w acc))) [] metadata = Inr resolved"
    by (simp add: ApplyPolicy_def Let_def newCritSet_def and_then_eq_Inr and_then_assoc)
  have pol: "Option.bind policy (\<lambda>p. map_of p et) = map_of ?pol et"
    by (cases policy) simp_all
  show "map_of metadata et = None \<Longrightarrow> map_of resolved et = None"
    using foldR_update_map_of [OF f assms(2), of et] by simp
  assume raw: "map_of metadata et = Some raw"
  then obtain w where w: "?f et raw = Inr w"
    using foldR_update_ok [OF f] by (blast dest: map_of_SomeD)
  with raw foldR_update_map_of [OF f assms(2), of et] have "map_of resolved et = Some w" by simp
  with w show "\<exists>current out. unmarshal_object raw = Some current \<and>
        applyEntityTypePolicy (case Option.bind policy (\<lambda>p. map_of p et) of None \<Rightarrow> [] | Some ps \<Rightarrow> ps)
          crit current = Inr out \<and> map_of resolved et = Some (marshal_object out)"
    unfolding pol by (auto simp: and_then_eq_Inr)
qed

text \<open>The member \<open>claim\<close> of the resolved metadata of entity type \<open>et\<close>.\<close>

definition resolved_member :: "json assoc \<Rightarrow> string \<Rightarrow> string \<Rightarrow> raw" where
  "resolved_member resolved et claim =
     Option.bind (map_of resolved et) (\<lambda>j. Option.bind (unmarshal_object j) (\<lambda>ms. map_of ms claim))"

lemma resolved_member_marshal:
  assumes "map_of resolved et = Some (marshal_object out)" "distinct (map fst out)"
  shows "resolved_member resolved et claim = map_of out claim"
  using assms unmarshal_marshal_object [OF assms(2)] by (auto simp: resolved_member_def)

lemma ApplyPolicy_honours:
  assumes app: "ApplyPolicy (Some pol) crit metadata = Inr resolved" and d: "distinct (map fst metadata)"
    and et: "map_of metadata et \<noteq> None" and ops: "plookup pol et claim = Some ops"
  shows "honours_param claim ops (resolved_member resolved et claim)"
proof -
  from et obtain raw where raw: "map_of metadata et = Some raw" by blast
  from ops obtain ps where ps: "map_of pol et = Some ps" "map_of ps claim = Some ops"
    by (auto simp: plookup_def bind_eq_Some_conv)
  from ApplyPolicy_entity(1) [OF app d raw] ps(1) obtain current out where
    out: "applyEntityTypePolicy ps crit current = Inr out" "map_of resolved et = Some (marshal_object out)"
    by auto
  from app have "validatePolicy pol crit = Inr ()"
    by (auto simp: ApplyPolicy_def Let_def newCritSet_def and_then_eq_Inr)
  then have "\<forall>(claim, ops) \<in> set ps. validateCombination (parameterOperators claim ops) crit = Inr ()"
    using validatePolicy_Inr ps(1) by blast
  from applyEntityTypePolicy_honours [OF out(1) this ps(2)] show ?thesis
    using resolved_member_marshal [OF out(2) applyEntityTypePolicy_map_of(3) [OF out(1)]] by simp
qed

end
