(* ===== verification/Entity_Statement_Properties.thy ===== *)
theory Entity_Statement_Properties
  imports Entity_Statement
begin

text \<open>
  What a parsed and a verified Entity Statement guarantees.
\<close>

section \<open>Duplicate members\<close>

text \<open>\<open>well_nested n j\<close>: containers nest at most \<open>n\<close> deep and no object repeats a name.\<close>

fun well_nested :: "nat \<Rightarrow> json \<Rightarrow> bool" where
  "well_nested n (JArr xs) = (case n of 0 \<Rightarrow> False | Suc n' \<Rightarrow> list_all (well_nested n') xs)"
| "well_nested n (JObj ms) = (case n of 0 \<Rightarrow> False
     | Suc n' \<Rightarrow> distinct (map fst ms) \<and> list_all (\<lambda>(_, v). well_nested n' v) ms)"
| "well_nested n _ = True"

lemma checkJSON_well_nested:
  "d \<le> maxJSONDepth \<Longrightarrow> checkJSONValue d j = well_nested (maxJSONDepth - d) j"
  "d < maxJSONDepth \<Longrightarrow> checkJSONArray d xs = list_all (well_nested (maxJSONDepth - Suc d)) xs"
  "d < maxJSONDepth \<Longrightarrow> checkJSONObject d seen ms =
     (distinct (map fst ms) \<and> set seen \<inter> fst ` set ms = {} \<and>
      list_all (\<lambda>(_, v). well_nested (maxJSONDepth - Suc d) v) ms)"
proof (induction d j and d xs and d seen ms
    rule: checkJSONValue_checkJSONArray_checkJSONObject.induct)
  case (1 depth xs)
  then show ?case by (cases "depth < maxJSONDepth") (simp_all add: Suc_diff_Suc [symmetric])
next
  case (2 depth ms)
  then show ?case by (cases "depth < maxJSONDepth") (simp_all add: Suc_diff_Suc [symmetric])
qed auto

section \<open>Parsing\<close>

lemma parseClaims_Inr:
  assumes "parseClaims E payload = Inr c"
  obtains ms iss sub iat exp jwks raw c1 c2 constraints marks owners issuers where
    "unmarshal_object payload = Some ms" "iss \<noteq> []" "sub \<noteq> []"
    "map_of ms ''iss'' = Some (JStr iss)" "map_of ms ''sub'' = Some (JStr sub)"
    "checkParsedClaimPlacement raw (iss = sub) = Inr ()"
    "refuseExplicitRegistrationClaims raw = Inr ()"
    "map_of raw ''jwks'' = Some jwks" "validateKeyIDs jwks = Inr ()"
    "rejectCriticalClaims (AList.delete ''jwks'' raw) = Inr ()"
    "\<And>k. k \<notin> {''iss'', ''sub'', ''iat'', ''exp''} \<Longrightarrow> map_of raw k = map_of ms k"
    "parseEntityConfigurationLists E (AList.delete ''jwks'' raw) (base_claims iss sub iat exp jwks) = Inr c1"
    "parseSubordinateClaims E (AList.delete ''jwks'' raw) c1 = Inr c2"
    "optional_claim (AList.delete ''jwks'' raw) ''constraints'' None
         (\<lambda>j. and_then (parseConstraints j) (\<lambda>x. Inr (Some x))) = Inr constraints"
    "parseTrustMarks (AList.delete ''jwks'' raw) = Inr marks"
    "parseTrustMarkOwners (AList.delete ''jwks'' raw) = Inr owners"
    "parseTrustMarkIssuers (AList.delete ''jwks'' raw) = Inr issuers"
    "c = c2\<lparr>clConstraints := constraints, clTrustMarks := marks, clTrustMarkOwners := owners,
            clTrustMarkIssuers := issuers\<rparr>"
proof -
  have str: "map_of m k = Some (JStr s) \<and> s \<noteq> [] \<and> m' = AList.delete k m"
    if "popRequiredString m k = Inr (s, m')" for m k s m'
    using that by (auto simp: popRequiredString_def elim: unmarshal_string.elims
        split: option.splits if_splits)
  have int: "m' = AList.delete k m" if "popRequiredInt64 m k = Inr (n, m')" for m k n m'
    using that by (auto simp: popRequiredInt64_def split: option.splits)
  from assms obtain raw0 iss raw1 sub raw2 iat raw3 exp raw jwks c1 c2 constraints marks owners issuers where
    s: "unmarshal_object payload = Some raw0" "popRequiredString raw0 ''iss'' = Inr (iss, raw1)"
      "popRequiredString raw1 ''sub'' = Inr (sub, raw2)" "popRequiredInt64 raw2 ''iat'' = Inr (iat, raw3)"
      "popRequiredInt64 raw3 ''exp'' = Inr (exp, raw)"
      "checkParsedClaimPlacement raw (iss = sub) = Inr ()"
      "refuseExplicitRegistrationClaims raw = Inr ()"
      "map_of raw ''jwks'' = Some jwks" "validateKeyIDs jwks = Inr ()"
      "rejectCriticalClaims (AList.delete ''jwks'' raw) = Inr ()"
      "parseEntityConfigurationLists E (AList.delete ''jwks'' raw) (base_claims iss sub iat exp jwks) = Inr c1"
      "parseSubordinateClaims E (AList.delete ''jwks'' raw) c1 = Inr c2"
      "optional_claim (AList.delete ''jwks'' raw) ''constraints'' None
         (\<lambda>j. and_then (parseConstraints j) (\<lambda>x. Inr (Some x))) = Inr constraints"
      "parseTrustMarks (AList.delete ''jwks'' raw) = Inr marks"
      "parseTrustMarkOwners (AList.delete ''jwks'' raw) = Inr owners"
      "parseTrustMarkIssuers (AList.delete ''jwks'' raw) = Inr issuers"
      "c = c2\<lparr>clConstraints := constraints, clTrustMarks := marks, clTrustMarkOwners := owners,
            clTrustMarkIssuers := issuers\<rparr>"
    unfolding parseClaims_def and_then_eq_Inr of_option_eq_Inr Let_def split_paired_Ex prod.case
      ex_unit sum.inject by blast
  from str [OF s(2)] str [OF s(3)] int [OF s(4)] int [OF s(5)]
  have raw: "raw1 = AList.delete ''iss'' raw0" "raw2 = AList.delete ''sub'' raw1"
    "raw3 = AList.delete ''iat'' raw2" "raw = AList.delete ''exp'' raw3"
    and m: "map_of raw0 ''iss'' = Some (JStr iss)" "iss \<noteq> []" "map_of raw1 ''sub'' = Some (JStr sub)" "sub \<noteq> []"
    by blast+
  have "map_of raw0 ''sub'' = Some (JStr sub)"
    using m(3) by (simp add: raw(1) delete_conv')
  moreover have "map_of raw k = map_of raw0 k" if "k \<notin> {''iss'', ''sub'', ''iat'', ''exp''}" for k
    using that by (simp add: raw delete_conv')
  ultimately show ?thesis
    using that [OF s(1) m(2,4,1) _ s(6-10) _ s(11-17)] by blast
qed

lemma Parse_Inr:
  assumes "Parse E token = Inr s"
  obtains payload where "ParseCompact (crypto_of E) token = Inr (stCompact s)"
    "TypeIs (hdType (cmHeader (stCompact s))) jwtType" "KeyID s \<noteq> []"
    "refuseForbiddenHeaders E token = Inr ()"
    "json_decode (crypto_of E) (cmPayload (stCompact s)) = Some payload"
    "refuseDuplicateMembers payload = Inr ()" "parseClaims E payload = Inr (stClaims s)"
  using assms unfolding Parse_def KeyID_def
  by (auto simp: and_then_eq_Inr split: sum.splits)

lemma optional_claim_absent [simp]:
  "map_of raw claim = None \<Longrightarrow> optional_claim raw claim absent f = Inr x \<longleftrightarrow> x = absent"
  by (auto simp: optional_claim_def)

lemma parseEntityConfigurationLists_Inr:
  "parseEntityConfigurationLists E raw c = Inr c' \<longleftrightarrow>
     (\<exists>metadata hints anchors.
       optional_claim raw ''metadata'' None
         (\<lambda>j. and_then (parseMetadataClaim j) (\<lambda>m. Inr (Some m))) = Inr metadata \<and>
       optional_claim raw ''authority_hints'' []
         (\<lambda>j. parseEntityIdentifiers E j ''authority_hints'') = Inr hints \<and>
       optional_claim raw ''trust_anchor_hints'' []
         (\<lambda>j. parseEntityIdentifiers E j ''trust_anchor_hints'') = Inr anchors \<and>
       c' = c\<lparr>clMetadata := metadata, clAuthorityHints := hints, clTrustAnchorHints := anchors\<rparr>)"
  unfolding parseEntityConfigurationLists_def and_then_eq_Inr sum.inject by auto

lemma parseSubordinateClaims_Inr:
  "parseSubordinateClaims E raw c = Inr c' \<longleftrightarrow>
     (\<exists>policy crit source.
       optional_claim raw ''metadata_policy'' None
         (\<lambda>j. of_option (ErrMalformedClaims ''metadata_policy'') (unmarshal_policy j)) = Inr policy \<and>
       optional_claim raw ''metadata_policy_crit'' []
         (\<lambda>j. parseNonEmptyStrings j ''metadata_policy_crit'') = Inr crit \<and>
       optional_claim raw ''source_endpoint'' [] (parseSourceEndpoint E) = Inr source \<and>
       c' = c\<lparr>clMetadataPolicy := policy, clMetadataPolicyCritical := crit, clSourceEndpoint := source\<rparr>)"
  unfolding parseSubordinateClaims_def and_then_eq_Inr sum.inject by auto

lemma checkParsedClaimPlacement_Inr:
  "checkParsedClaimPlacement raw self = Inr u \<longleftrightarrow>
     (\<forall>claim \<in> set (if self then subordinateOnlyClaims else entityConfigurationOnlyClaims).
        map_of raw claim = None)"
  unfolding checkParsedClaimPlacement_def Let_def check_all_Inr by simp

lemma hints_https:
  "optional_claim raw claim [] (\<lambda>j. parseEntityIdentifiers E j claim) = Inr ids \<Longrightarrow>
   h \<in> set ids \<Longrightarrow> isHTTPSURL E h"
  by (auto simp: optional_claim_def parseEntityIdentifiers_def and_then_eq_Inr check_all_Inr
      split: option.splits)

lemma check_kids_Inr:
  "check_kids seen ks = Inr u \<Longrightarrow>
   distinct ks \<and> None \<notin> set ks \<and> Some [] \<notin> set ks \<and> (\<forall>k \<in> set seen. Some k \<notin> set ks)"
  by (induction seen ks rule: check_kids.induct) (auto split: if_splits)

text \<open>
  C20. No ambiguity in a signed payload: a statement parses only if no object at any depth of its
  payload repeats a member name and nothing is nested deeper than 64 levels, so a reader that
  keeps the first of two equal names and one that keeps the last read the same claims.
\<close>

theorem Parse_unambiguous:
  assumes "Parse E token = Inr s" "json_decode (crypto_of E) (cmPayload (stCompact s)) = Some payload"
  shows "well_nested maxJSONDepth payload"
  using assms checkJSON_well_nested(1) [of 0 payload]
  by (auto simp: refuseDuplicateMembers_def elim!: Parse_Inr)

text \<open>
  A parsed statement is of one kind only. It has a key identifier and the Entity Statement
  type, its issuer and subject are named, the keys it publishes have distinct identifiers; an
  Entity Configuration (issuer and subject equal) carries no metadata policy, constraints or
  source endpoint, and a Subordinate Statement no authority hints, trust anchor hints or trust
  marks; every authority hint is an https URL.
\<close>

theorem Parse_kind:
  assumes "Parse E token = Inr s"
  shows "KeyID s \<noteq> [] \<and> TypeIs (hdType (cmHeader (stCompact s))) jwtType \<and>
    clIssuer (stClaims s) \<noteq> [] \<and> clSubject (stClaims s) \<noteq> [] \<and>
    (\<exists>kids. decode_kids (clJWKS (stClaims s)) = Some kids \<and> distinct kids \<and>
       None \<notin> set kids \<and> Some [] \<notin> set kids) \<and>
    (if clIssuer (stClaims s) = clSubject (stClaims s)
     then clMetadataPolicy (stClaims s) = None \<and> clMetadataPolicyCritical (stClaims s) = [] \<and>
       clConstraints (stClaims s) = None \<and> clSourceEndpoint (stClaims s) = []
     else clAuthorityHints (stClaims s) = [] \<and> clTrustAnchorHints (stClaims s) = [] \<and>
       clTrustMarks (stClaims s) = [] \<and> clTrustMarkOwners (stClaims s) = [] \<and>
       clTrustMarkIssuers (stClaims s) = []) \<and>
    (\<forall>h \<in> set (clAuthorityHints (stClaims s)). isHTTPSURL E h)"
proof -
  from assms obtain payload where hd: "TypeIs (hdType (cmHeader (stCompact s))) jwtType" "KeyID s \<noteq> []"
    and pc: "parseClaims E payload = Inr (stClaims s)" by (rule Parse_Inr)
  from pc obtain iss sub iat exp jwks raw c1 c2 constraints marks owners issuers where
    ne: "iss \<noteq> []" "sub \<noteq> []"
    and place: "checkParsedClaimPlacement raw (iss = sub) = Inr ()"
    and kids: "validateKeyIDs jwks = Inr ()"
    and c1: "parseEntityConfigurationLists E (AList.delete ''jwks'' raw) (base_claims iss sub iat exp jwks) = Inr c1"
    and c2: "parseSubordinateClaims E (AList.delete ''jwks'' raw) c1 = Inr c2"
    and con: "optional_claim (AList.delete ''jwks'' raw) ''constraints'' None
         (\<lambda>j. and_then (parseConstraints j) (\<lambda>x. Inr (Some x))) = Inr constraints"
    and tm: "parseTrustMarks (AList.delete ''jwks'' raw) = Inr marks"
    and ow: "parseTrustMarkOwners (AList.delete ''jwks'' raw) = Inr owners"
    and tis: "parseTrustMarkIssuers (AList.delete ''jwks'' raw) = Inr issuers"
    and c: "stClaims s = c2\<lparr>clConstraints := constraints, clTrustMarks := marks,
       clTrustMarkOwners := owners, clTrustMarkIssuers := issuers\<rparr>"
    by (rule parseClaims_Inr)
  from c1 obtain metadata hints anchors where
    h: "optional_claim (AList.delete ''jwks'' raw) ''authority_hints'' []
         (\<lambda>j. parseEntityIdentifiers E j ''authority_hints'') = Inr hints"
    and a: "optional_claim (AList.delete ''jwks'' raw) ''trust_anchor_hints'' []
         (\<lambda>j. parseEntityIdentifiers E j ''trust_anchor_hints'') = Inr anchors"
    and c1': "c1 = (base_claims iss sub iat exp jwks)
       \<lparr>clMetadata := metadata, clAuthorityHints := hints, clTrustAnchorHints := anchors\<rparr>"
    unfolding parseEntityConfigurationLists_Inr by blast
  from c2 obtain policy crit source where
    p: "optional_claim (AList.delete ''jwks'' raw) ''metadata_policy'' None
         (\<lambda>j. of_option (ErrMalformedClaims ''metadata_policy'') (unmarshal_policy j)) = Inr policy"
    and cr: "optional_claim (AList.delete ''jwks'' raw) ''metadata_policy_crit'' []
         (\<lambda>j. parseNonEmptyStrings j ''metadata_policy_crit'') = Inr crit"
    and so: "optional_claim (AList.delete ''jwks'' raw) ''source_endpoint'' [] (parseSourceEndpoint E) = Inr source"
    and c2': "c2 = c1\<lparr>clMetadataPolicy := policy, clMetadataPolicyCritical := crit, clSourceEndpoint := source\<rparr>"
    unfolding parseSubordinateClaims_Inr by blast
  note fields = c c1' c2' base_claims_def
  have "\<exists>ks. decode_kids jwks = Some ks \<and> distinct ks \<and> None \<notin> set ks \<and> Some [] \<notin> set ks"
    using kids by (auto simp: validateKeyIDs_def and_then_eq_Inr dest!: check_kids_Inr)
  moreover have "policy = None \<and> crit = [] \<and> constraints = None \<and> source = []" if "iss = sub"
    using place p cr con so that
    unfolding checkParsedClaimPlacement_Inr by (simp add: subordinateOnlyClaims_def delete_conv')
  moreover have "hints = [] \<and> anchors = [] \<and> marks = [] \<and> owners = [] \<and> issuers = []" if "iss \<noteq> sub"
    using place h a tm ow tis that
    unfolding checkParsedClaimPlacement_Inr
    by (simp add: entityConfigurationOnlyClaims_def delete_conv' parseTrustMarks_def
        parseTrustMarkOwners_def parseTrustMarkIssuers_def)
  ultimately show ?thesis
    using hd ne hints_https [OF h] by (simp add: fields)
qed

section \<open>A concrete statement\<close>

text \<open>
  An environment whose JSON parser knows three texts: the header \<open>[0]\<close>, an Entity
  Configuration \<open>[1]\<close> and a Subordinate Statement \<open>[2]\<close>.
\<close>

definition toy_header :: json where
  "toy_header = JObj [(''alg'', JStr ''ES256''), (''typ'', JStr ''entity-statement+jwt''), (''kid'', JStr ''k'')]"

definition toy_config :: json where
  "toy_config = JObj [(''iss'', JStr ''l''), (''sub'', JStr ''l''), (''iat'', JNum False 1 None),
     (''exp'', JNum False 100 None), (''jwks'', example_jwks), (''authority_hints'', JArr [JStr ''t''])]"

definition toy_env :: fed_env where
  "toy_env = \<lparr>crypto_of = example_crypto (\<lambda>bs. if bs = [0] then Some toy_header
       else if bs = [1] then Some toy_config else None),
     url_parse = (\<lambda>s. Some \<lparr>uScheme = ''https'', uHasUser = False, uHost = s, uPath = [],
       uRawQuery = [], uForceQuery = False, uOpaque = [], uRawPath = [], uOmitHost = False\<rparr>), parse_ip = (\<lambda>s. False)\<rparr>"

definition toy_token :: string where "toy_token = ''AA.AQ.'' @ example_signature"

definition toy_stmt :: Statement where
  "toy_stmt = \<lparr>stCompact = \<lparr>cmHeader = \<lparr>hdAlgorithm = ES256, hdType = ''entity-statement+jwt'',
        hdKeyID = ''k'', hdJWK = None, hdX5C = None\<rparr>, cmPayload = [1], cmSigningInput = ''AA.AQ'',
        cmSignature = example_sig_bytes\<rparr>,
     stClaims = (base_claims ''l'' ''l'' 1 100 example_jwks)\<lparr>clAuthorityHints := [''t'']\<rparr>\<rparr>"

lemma toy_parse: "Parse toy_env toy_token = Inr toy_stmt"
  by code_simp

lemma Parse_unambiguous_witness: "well_nested maxJSONDepth toy_config"
proof -
  have "json_decode (crypto_of toy_env) (cmPayload (stCompact toy_stmt)) = Some toy_config" by code_simp
  from Parse_unambiguous [OF toy_parse this] show ?thesis .
qed

lemma Parse_kind_witness: "clAuthorityHints (stClaims toy_stmt) = [''t''] \<and> isHTTPSURL toy_env ''t''"
proof -
  have "clAuthorityHints (stClaims toy_stmt) = [''t'']" by code_simp
  with Parse_kind [OF toy_parse] show ?thesis by simp
qed

section \<open>Verification\<close>

lemma Verify_Inr:
  "Verify E s pub policy = Inr c \<longleftrightarrow>
     vpExpectedIssuer policy \<noteq> [] \<and> vpExpectedSubject policy \<noteq> [] \<and> vpNow policy \<noteq> zero_time \<and>
     0 < vpMaxLifetime policy \<and>
     Compact_Verify (crypto_of E) (stCompact s) pub (vpAlgorithm policy) = Inr () \<and>
     c = stClaims s \<and> clIssuer c = vpExpectedIssuer policy \<and> clSubject c = vpExpectedSubject policy \<and>
     vpNow policy \<le> clExpiresAt c + vpMaxClockSkew policy \<and>
     time_sub (clExpiresAt c) (vpNow policy) \<le> SaturatingAdd [vpMaxLifetime policy, vpMaxClockSkew policy] \<and>
     clIssuedAt c - vpMaxClockSkew policy \<le> vpNow policy"
  by (auto simp: Verify_def Let_def not_less not_le split: sum.splits)

text \<open>
  C17. A statement verifies exactly when its signature verifies under the stated algorithm and
  key, it is from the expected issuer about the expected subject, it was issued no later than the
  allowed clock skew from now, it has not been expired for longer than the skew, and it expires no
  further ahead than the maximum lifetime plus the skew. (The sum of the two stays below the
  largest duration, 292 years, beyond which Go's time difference saturates.)
\<close>

theorem Verify_window:
  assumes "0 \<le> vpMaxClockSkew policy" "vpMaxLifetime policy + vpMaxClockSkew policy < maxInt64"
  shows "Verify E s pub policy = Inr c \<longleftrightarrow>
     vpExpectedIssuer policy \<noteq> [] \<and> vpExpectedSubject policy \<noteq> [] \<and> vpNow policy \<noteq> zero_time \<and>
     0 < vpMaxLifetime policy \<and>
     hdAlgorithm (cmHeader (stCompact s)) = vpAlgorithm policy \<and>
     verify_signature (crypto_of E) (vpAlgorithm policy) pub (cmSigningInput (stCompact s)) (cmSignature (stCompact s)) \<and>
     c = stClaims s \<and> clIssuer c = vpExpectedIssuer policy \<and> clSubject c = vpExpectedSubject policy \<and>
     clIssuedAt c - vpMaxClockSkew policy \<le> vpNow policy \<and>
     vpNow policy \<le> clExpiresAt c + vpMaxClockSkew policy \<and>
     clExpiresAt c \<le> vpNow policy + vpMaxLifetime policy + vpMaxClockSkew policy"
proof -
  have cv: "Compact_Verify C m k a = Inr () \<longleftrightarrow> hdAlgorithm (cmHeader m) = a \<and>
      verify_signature C a k (cmSigningInput m) (cmSignature m)" for C :: crypto and m k a
    by (auto simp: Compact_Verify_def)
  have life: "time_sub e n \<le> SaturatingAdd [vpMaxLifetime policy, vpMaxClockSkew policy] \<longleftrightarrow>
      e \<le> n + vpMaxLifetime policy + vpMaxClockSkew policy" if "0 < vpMaxLifetime policy" for e n
    using that assms by (subst SaturatingAdd_pair) (auto simp: time_sub_def int64_bounds)
  show ?thesis
    unfolding Verify_Inr cv using life by blast
qed

lemma Verify_window_witness:
  "Verify toy_env toy_stmt (ECDSAKey p256 1 1) \<lparr>vpExpectedIssuer = ''l'', vpExpectedSubject = ''l'', vpAlgorithm = ES256,
      vpNow = 50 * second, vpMaxLifetime = 40 * second, vpMaxClockSkew = 10 * second\<rparr>
     = Inr (stClaims toy_stmt)"
proof -
  have "verify_signature (crypto_of toy_env) ES256 (ECDSAKey p256 1 1) (cmSigningInput (stCompact toy_stmt))
      (cmSignature (stCompact toy_stmt))" by code_simp
  then show ?thesis
    by (subst Verify_window)
      (simp_all add: int64_bounds second_def zero_time_def time_unix_def toy_stmt_def base_claims_def)
qed

text \<open>
  The members of \<open>constraints\<close> match case-insensitively although JSON member names are
  case-sensitive and the duplicate check compares them so: a superior's limit of 0 followed by
  the unknown member \<open>MAX_PATH_LENGTH\<close> is read as that member's value.
\<close>

definition shadowed_constraints :: json where
  "shadowed_constraints =
     JObj [(''max_path_length'', JNum False 0 None), (''MAX_PATH_LENGTH'', JNum False 9 None)]"

lemma parseConstraints_case_variant:
  "checkJSONValue 0 shadowed_constraints \<and>
   parseConstraints shadowed_constraints =
     Inr \<lparr>coMaxPathLength = 9, coHasMaxPathLength = True, coNamingConstraints = None,
          coAllowedEntityTypes = None\<rparr>"
  by code_simp

end
