(* ===== verification/Resolver_Policy.thy ===== *)
theory Resolver_Policy
  imports Resolver_Correct Policy_Correct Entity_Statement_Properties
begin

text \<open>
  From the chain to the resolved metadata: the policies of a certified chain merge, top down, into
  one that is stricter than each of them, and what a parsed statement carries is well formed.
\<close>

section \<open>Well-formed claims\<close>

lemma traverse_keys:
  "traverse (\<lambda>(k, v). map_option (Pair k) (f v)) ms = Some ys \<Longrightarrow>
   map fst ys = map fst ms \<and> (\<forall>(k, y) \<in> set ys. \<exists>v. f v = Some y)"
  by (induction ms arbitrary: ys) (auto split: option.splits)

lemma unmarshal_map_keys:
  assumes "unmarshal_map f j = Some (Some m)"
  shows "distinct (map fst m)" "(k, y) \<in> set m \<Longrightarrow> \<exists>v. f v = Some y"
proof -
  from assms obtain ms where "traverse (\<lambda>(k, v). map_option (Pair k) (f v)) (obj_members ms) = Some m"
    by (auto simp: unmarshal_map_def split: json.splits)
  from traverse_keys [OF this] show "distinct (map fst m)" "(k, y) \<in> set m \<Longrightarrow> \<exists>v. f v = Some y"
    by auto
qed

lemma unmarshal_map_nil_map:
  "map_option nil_map (unmarshal_map f j) = Some m \<Longrightarrow>
   distinct (map fst m) \<and> (\<forall>(k, y) \<in> set m. \<exists>v. f v = Some y)"
  by (auto simp: nil_map_def dest: unmarshal_map_keys split: option.splits)

lemma unmarshal_policy_wf:
  assumes "unmarshal_policy j = Some (Some pol)"
  shows "wf_policy pol"
  unfolding wf_policy_def list_all_iff
proof (intro conjI ballI)
  note keys = unmarshal_map_keys [OF assms [unfolded unmarshal_policy_def]]
  show "distinct (map fst pol)" by (rule keys(1))
  fix p assume mem: "p \<in> set pol"
  obtain et ps where p: "p = (et, ps)" by (cases p)
  from keys(2) [OF mem [unfolded p]] obtain v where
    ps: "map_option nil_map (unmarshal_map (\<lambda>ops. map_option nil_map (unmarshal_map Some ops)) v) = Some ps"
    by blast
  have d: "distinct (map fst ps)"
    and o: "\<forall>(claim, ops) \<in> set ps. \<exists>v. map_option nil_map (unmarshal_map Some v) = Some ops"
    using unmarshal_map_nil_map [OF ps] by simp_all
  have "distinct (map fst ops)" if "(claim, ops) \<in> set ps" for claim ops
  proof -
    from bspec [OF o that] obtain v where "map_option nil_map (unmarshal_map Some v) = Some ops" by auto
    from unmarshal_map_nil_map [OF this] show ?thesis by simp
  qed
  with d show "case p of (_, ps) \<Rightarrow> distinct (map fst ps) \<and> (\<forall>(_, ops) \<in> set ps. distinct (map fst ops))"
    by (auto simp: p)
qed

lemma Parse_wf:
  assumes "Parse E token = Inr s"
  shows "clMetadataPolicy (stClaims s) = Some pol \<Longrightarrow> wf_policy pol"
    and "distinct (map fst (nil_map (clMetadata (stClaims s))))"
proof -
  from assms obtain payload where pc: "parseClaims E payload = Inr (stClaims s)" by (rule Parse_Inr)
  from pc obtain iss sub iat exp jwks raw c1 c2 constraints marks owners issuers where
    c1: "parseEntityConfigurationLists E (AList.delete ''jwks'' raw) (base_claims iss sub iat exp jwks) = Inr c1"
    and c2: "parseSubordinateClaims E (AList.delete ''jwks'' raw) c1 = Inr c2"
    and c: "stClaims s = c2\<lparr>clConstraints := constraints, clTrustMarks := marks,
       clTrustMarkOwners := owners, clTrustMarkIssuers := issuers\<rparr>"
    by (rule parseClaims_Inr)
  from c1 obtain metadata hints anchors where
    m: "optional_claim (AList.delete ''jwks'' raw) ''metadata'' None
         (\<lambda>j. and_then (parseMetadataClaim j) (\<lambda>m. Inr (Some m))) = Inr metadata"
    and c1': "c1 = (base_claims iss sub iat exp jwks)
       \<lparr>clMetadata := metadata, clAuthorityHints := hints, clTrustAnchorHints := anchors\<rparr>"
    unfolding parseEntityConfigurationLists_Inr by blast
  from c2 obtain policy crit source where
    p: "optional_claim (AList.delete ''jwks'' raw) ''metadata_policy'' None
         (\<lambda>j. of_option (ErrMalformedClaims ''metadata_policy'') (unmarshal_policy j)) = Inr policy"
    and c2': "c2 = c1\<lparr>clMetadataPolicy := policy, clMetadataPolicyCritical := crit, clSourceEndpoint := source\<rparr>"
    unfolding parseSubordinateClaims_Inr by blast
  show "clMetadataPolicy (stClaims s) = Some pol \<Longrightarrow> wf_policy pol"
    using p unmarshal_policy_wf by (auto simp: c c2' optional_claim_def split: option.splits)
  have "metadata = Some md \<Longrightarrow> distinct (map fst md)" for md
    using m by (auto simp: optional_claim_def parseMetadataClaim_def and_then_eq_Inr
        split: option.splits json.splits)
  then show "distinct (map fst (nil_map (clMetadata (stClaims s))))"
    by (cases metadata) (simp_all add: c c2' c1' nil_map_def)
qed

section \<open>Merging up the chain\<close>

lemma MergePolicy_step:
  assumes "MergePolicy merged crit policy pcrit = Inr merged'" "\<forall>pol. policy = Some pol \<longrightarrow> wf_policy pol"
  shows "merged = Some m \<or> policy = Some m \<Longrightarrow> \<exists>m'. merged' = Some m' \<and> pol_stricter m' m"
proof (cases merged)
  case None
  with assms(1) have "merged' = policy" by (simp add: MergePolicy_def Let_def and_then_eq_Inr)
  with None show "merged = Some m \<or> policy = Some m \<Longrightarrow> \<exists>m'. merged' = Some m' \<and> pol_stricter m' m" by auto
next
  case c: (Some c)
  show "merged = Some m \<or> policy = Some m \<Longrightarrow> \<exists>m'. merged' = Some m' \<and> pol_stricter m' m"
  proof (cases policy)
    case None
    with c assms(1) have "merged' = merged" by (simp add: MergePolicy_def Let_def and_then_eq_Inr)
    with None c show "merged = Some m \<or> policy = Some m \<Longrightarrow> \<exists>m'. merged' = Some m' \<and> pol_stricter m' m" by auto
  next
    case (Some n)
    with c assms(1) obtain m' where m': "merged' = Some m'" by (auto simp: MergePolicy_fold)
    from MergePolicy_stricter [OF assms(1) [unfolded c Some m']] assms(2) Some
    show "merged = Some m \<or> policy = Some m \<Longrightarrow> \<exists>m'. merged' = Some m' \<and> pol_stricter m' m"
      by (auto simp: c m')
  qed
qed

lemma merge_fold_stricter:
  assumes "foldR (\<lambda>(merged, crit) (policy, pcrit). and_then (MergePolicy merged crit policy pcrit)
      (\<lambda>merged'. Inr (merged', mergeCrit crit pcrit))) (merged, crit) ps = Inr (merged', crit')"
    and "\<forall>(policy, _) \<in> set ps. \<forall>pol. policy = Some pol \<longrightarrow> wf_policy pol"
  shows "merged = Some pol \<or> Some pol \<in> fst ` set ps \<Longrightarrow> \<exists>m'. merged' = Some m' \<and> pol_stricter m' pol"
  using assms
proof (induction ps arbitrary: merged crit pol)
  case (Cons p ps)
  obtain policy pcrit where p: "p = (policy, pcrit)" by (cases p)
  from Cons.prems(2) obtain merged1 where m1: "MergePolicy merged crit policy pcrit = Inr merged1"
    and rest: "foldR (\<lambda>(merged, crit) (policy, pcrit). and_then (MergePolicy merged crit policy pcrit)
      (\<lambda>merged'. Inr (merged', mergeCrit crit pcrit))) (merged1, mergeCrit crit pcrit) ps = Inr (merged', crit')"
    by (auto simp: p and_then_eq_Inr)
  have wf: "\<forall>pol. policy = Some pol \<longrightarrow> wf_policy pol"
    "\<forall>(policy, _) \<in> set ps. \<forall>pol. policy = Some pol \<longrightarrow> wf_policy pol"
    using Cons.prems(3) by (simp_all add: p)
  show ?case
  proof (cases "Some pol \<in> fst ` set ps")
    case True
    with Cons.IH [OF _ rest wf(2), of pol] show ?thesis by blast
  next
    case False
    with Cons.prems(1) have "merged = Some pol \<or> policy = Some pol" by (auto simp: p)
    from MergePolicy_step [OF m1 wf(1) this] obtain m1' where "merged1 = Some m1'" "pol_stricter m1' pol" by blast
    with Cons.IH [OF _ rest wf(2), of m1'] pol_stricter_trans show ?thesis by blast
  qed
qed auto

lemma resolveMetadata_binds:
  assumes res: "resolveMetadata policies metadata = Inr (resolved, merged)"
    and wf: "\<forall>(policy, _) \<in> set policies. \<forall>pol. policy = Some pol \<longrightarrow> wf_policy pol"
    and d: "distinct (map fst metadata)"
    and pol: "(Some pol, crit) \<in> set policies" and ops: "plookup pol et claim = Some ops"
    and et: "map_of resolved et \<noteq> None"
  shows "honours_param claim ops (resolved_member resolved et claim)"
proof -
  from res obtain c where f: "resolveMetadataPolicies policies = Inr (merged, c)"
    and app: "ApplyPolicy merged c metadata = Inr resolved"
    by (auto simp: resolveMetadata_def and_then_eq_Inr)
  have "Some pol \<in> fst ` set (rev policies)" using pol by force
  with merge_fold_stricter [OF f [unfolded resolveMetadataPolicies_def], of pol] wf
  obtain m where m: "merged = Some m" "pol_stricter m pol" by auto
  from m(2) ops obtain ops' where o: "plookup m et claim = Some ops'" "ops \<noteq> [] \<longrightarrow> ops' \<noteq> []"
    "stricter (parameterOperators claim ops') (parameterOperators claim ops)"
    unfolding pol_stricter_def by blast
  have "map_of metadata et \<noteq> None"
    using ApplyPolicy_entity(2) [OF app d, of et] et by blast
  from ApplyPolicy_honours [OF app [unfolded m(1)] d this o(1)] o(2,3)
  show ?thesis by (blast intro: honours_param_stricter)
qed

section \<open>Metadata\<close>

lemma applySuperiorMetadata_f:
  "superior \<noteq> [] \<Longrightarrow> applySuperiorMetadata subject superior =
     foldR (\<lambda>acc (et, raw). and_then
        (case map_of superior et of None \<Rightarrow> Inr raw
         | Some override \<Rightarrow>
             and_then (of_option (SubjectMetadataNotObject et) (unmarshal_object raw)) (\<lambda>params.
             and_then (of_option (SuperiorMetadataNotObject et) (unmarshal_object override)) (\<lambda>overrides.
             Inr (marshal_object (foldl (\<lambda>ps (name, value). AList.update name value ps) params overrides)))))
        (\<lambda>w. Inr (AList.update et w acc))) [] subject"
  by (simp add: applySuperiorMetadata_def)

lemma applySuperiorMetadata_distinct:
  assumes "applySuperiorMetadata subject superior = Inr declared" "distinct (map fst subject)"
  shows "distinct (map fst declared)"
proof (cases "superior = []")
  case False
  show ?thesis
    by (rule foldR_invariant [where P = "\<lambda>m. distinct (map fst m)",
          OF assms(1) [unfolded applySuperiorMetadata_f [OF False]]])
      (auto simp: and_then_eq_Inr)
qed (use assms in \<open>simp add: applySuperiorMetadata_def\<close>)

lemma filterAllowedEntityTypes_distinct:
  "distinct (map fst metadata) \<Longrightarrow> distinct (map fst (filterAllowedEntityTypes constraints metadata))"
  by (simp add: filterAllowedEntityTypes_def Let_def distinct_map_filter)

end
