(* ===== verification/Resolver_Example.thy ===== *)
theory Resolver_Example
  imports Resolver_Correct
begin

text \<open>
  A federation of two entities, the subject \<open>l\<close> and the Trust Anchor \<open>t\<close>, on which the properties
  of the resolver are exercised. The environment's JSON parser knows four texts: the header
  \<open>[0]\<close>, both Entity Configurations \<open>[1]\<close> and \<open>[2]\<close>, and the Subordinate Statement \<open>[3]\<close>.
\<close>

definition ex_header :: json where
  "ex_header = JObj [(''alg'', JStr ''ES256''), (''typ'', JStr ''entity-statement+jwt''), (''kid'', JStr ''k'')]"

definition ex_statement :: "string \<Rightarrow> string \<Rightarrow> nat \<Rightarrow> (string \<times> json) list \<Rightarrow> json" where
  "ex_statement iss sub exp claims = JObj ([(''iss'', JStr iss), (''sub'', JStr sub),
     (''iat'', JNum False 1 None), (''exp'', JNum False exp None), (''jwks'', example_jwks)] @ claims)"

definition ex_subject :: json where
  "ex_subject = ex_statement ''l'' ''l'' 100
     [(''authority_hints'', JArr [JStr ''x'', JStr ''t'']),
      (''metadata'', JObj [(''rp'', JObj [(''grant_types'', JArr [JStr ''a'', JStr ''b''])]),
        (''op'', JObj [])])]"

definition ex_anchor :: json where
  "ex_anchor = ex_statement ''t'' ''t'' 120
     [(''metadata'', JObj [(''federation_entity'', JObj [(''federation_fetch_endpoint'', JStr ''f'')])])]"

definition ex_subordinate :: json where
  "ex_subordinate = ex_statement ''t'' ''l'' 90
     [(''metadata_policy'', JObj [(''rp'', JObj [(''grant_types'', JObj [(opSubsetOf, JArr [JStr ''a''])])])]),
      (''constraints'', JObj [(''max_path_length'', JNum False 0 None),
        (''allowed_entity_types'', JArr [JStr ''rp''])])]"

definition ex_env :: fed_env where
  "ex_env = \<lparr>crypto_of = example_crypto (\<lambda>bs. if bs = [0] then Some ex_header
       else if bs = [1] then Some ex_subject else if bs = [2] then Some ex_anchor
       else if bs = [3] then Some ex_subordinate else None),
     url_parse = (\<lambda>s. Some \<lparr>uScheme = ''https'', uHasUser = False, uHost = s, uPath = [],
       uRawQuery = [], uForceQuery = False, uOpaque = [], uRawPath = [], uOmitHost = False\<rparr>), parse_ip = (\<lambda>s. False)\<rparr>"

definition ex_token :: "string \<Rightarrow> string" where
  "ex_token payload = ''AA.'' @ payload @ ''.'' @ example_signature"

definition ex_http :: "nat \<Rightarrow> request \<Rightarrow> string option" where
  "ex_http n req = (case req of
       ConfigRequest e \<Rightarrow>
         if e = ''l'' then Some (ex_token ''AQ'') else if e = ''t'' then Some (ex_token ''Ag'') else None
     | SubordinateRequest u e \<Rightarrow> if u = ''f'' \<and> e = ''l'' then Some (ex_token ''Aw'') else None)"

definition ex_limits :: Limits where
  "ex_limits = \<lparr>liMaxPathLength = 2, liMaxAuthorityHints = 3, liMaxStatementLifetime = 200 * second,
     liMaxClockSkew = 0, liMaxTrustMarkStatusAge = 0\<rparr>"

definition ex_resolver :: "Resolver" where
  "ex_resolver = \<lparr>rvEnv = ex_env, rvHTTP = ex_http, rvLimits = ex_limits,
     rvTrustAnchorsByID = [(''t'', example_jwks)]\<rparr>"

definition ex_now :: time where "ex_now = 50 * second"

definition ex_resolved :: ResolvedEntity where
  "ex_resolved = \<lparr>reEntityID = ''l'', reTrustAnchor = ''t'', reChain = [''l'', ''t''],
     reMetadata = [(''rp'', JObj [(''grant_types'', JArr [JStr ''a''])])], reExpiresAt = 90 * second,
     reJWKS = example_jwks, reTrustMarks = [], reTrustMarkOwners = [], reTrustMarkIssuers = [],
     reTokens = [ex_token ''AQ'', ex_token ''Aw'', ex_token ''Ag''],
     rePolicy = Some [(''rp'', [(''grant_types'', [(opSubsetOf, JArr [JStr ''a''])])])],
     reConfigurationMetadata = [(''rp'', JObj [(''grant_types'', JArr [JStr ''a'', JStr ''b''])]), (''op'', JObj [])]\<rparr>"

lemma ex_resolver_new:
  "NewResolver ex_env ex_http [\<lparr>taEntityID = ''t'', taJWKS = Some example_jwks\<rparr>] ex_limits = Inr ex_resolver"
  by (simp add: NewResolver_def require_def ex_resolver_def ex_limits_def second_def)

lemma ex_not_anchor: "\<not> is_anchor ex_resolver ''l''"
  by code_simp

text \<open>The walk tries the Trust Anchor first, although the subject lists it last.\<close>

lemma ex_resolve: "fst (Resolve ex_resolver ex_now ''l'') = Inr ex_resolved"
  by code_simp

lemma ex_requests: "srLog (snd (Resolve ex_resolver ex_now ''l'')) =
    [ConfigRequest ''l'', ConfigRequest ''t'', SubordinateRequest ''f'' ''l'']"
  by code_simp

end
