(* ===== verification/Resolver_Properties.thy ===== *)
theory Resolver_Properties
  imports Resolver_Policy Resolver_Example
begin

text \<open>
  The properties of Trust Chain resolution, applied to the federation of
  \<open>Resolver_Example\<close>.
\<close>

section \<open>Helpers\<close>

lemma Resolve_ex: "\<exists>s. Resolve ex_resolver ex_now ''l'' = (Inr ex_resolved, s)"
  using ex_resolve by (metis prod.collapse)

lemma keys_verify_key:
  assumes "keys_verify R now jwks l"
  shows "\<exists>keys k. ParseJWKSet (crypto_of (rvEnv R)) jwks = Inr keys \<and> k \<in> set keys \<and>
    pkKeyID k = KeyID (lkStmt l) \<and> pkAlgorithm k = Algorithm (lkStmt l) \<and>
    verify_signature (crypto_of (rvEnv R)) (pkAlgorithm k) (pkPublicKey k)
      (cmSigningInput (stCompact (lkStmt l))) (cmSignature (stCompact (lkStmt l)))"
  using verifyAgainstJWKS_Inr [OF assms [unfolded keys_verify_def]]
  by (fastforce simp: Verify_Inr Compact_Verify_def split: if_splits)

lemma vouched_nth:
  "vouched R now ls \<Longrightarrow> Suc j < length ls \<Longrightarrow> lkSubject (ls ! Suc j) = lkIssuer (ls ! j) \<and>
     keys_verify R now (clJWKS (lkClaims (ls ! Suc j))) (ls ! j)"
proof (induction R now ls arbitrary: j rule: vouched.induct)
  case (1 R now a b ls)
  then show ?case by (cases j) auto
qed auto

lemma collected_from_nth:
  "j < length ls \<Longrightarrow> clConstraints (lkClaims (ls ! j)) = Some c \<Longrightarrow>
   \<lparr>scConstraints = c, scAppliesTo = below @ map lkIssuer (take j ls)\<rparr> \<in> set (collected_from below ls)"
proof (induction ls arbitrary: j below)
  case (Cons l ls)
  show ?case
  proof (cases j)
    case 0
    with Cons.prems show ?thesis by (simp add: governed_def)
  next
    case (Suc j')
    with Cons.IH [of j' "below @ [lkIssuer l]"] Cons.prems show ?thesis by simp
  qed
qed simp

lemma collected_nth:
  assumes "Suc j < length ls" "clConstraints (lkClaims (ls ! Suc j)) = Some c"
  shows "\<lparr>scConstraints = c, scAppliesTo = map lkIssuer (take (Suc j) ls)\<rparr> \<in> set (collected ls)"
  using assms collected_from_nth [of j "tl ls" c "[lkIssuer (hd ls)]"]
  by (cases ls) (simp_all add: collected_def)

lemma certifiedD:
  assumes "certified R now i ls cs re"
  shows "2 \<le> length ls" "list_all (link_ok R) (ls @ cs)" "vouched R now ls"
    "list_all (\<lambda>c. lkIssuer c = lkSubject c \<and> keys_verify R now (clJWKS (lkClaims c)) c) cs"
    "map lkIssuer cs = map lkIssuer (tl ls)"
    "keys_verify R now (clJWKS (lkClaims (last cs))) (last ls)"
    "\<exists>jwks. map_of (rvTrustAnchorsByID R) (lkIssuer (last cs)) = Some jwks \<and> keys_verify R now jwks (last cs)"
    "reChain re = map lkIssuer ls" "reTokens re = map lkToken ls @ [lkToken (last cs)]"
    "reJWKS re = clJWKS (lkClaims (ls ! 1))" "reTrustAnchor re = lkIssuer (last ls)"
    "lkIssuer (hd ls) = i" "lkSubject (hd ls) = i"
    "checkNamingConstraints (rvEnv R) (collected ls) = Inr ()"
    "checkMaxPathLengthConstraints (collected ls) = Inr ()"
  using assms unfolding certified_def by blast+

lemma certified_ne:
  assumes "certified R now i ls cs re"
  shows "ls \<noteq> []" "tl ls \<noteq> []" "cs \<noteq> []"
proof -
  show "ls \<noteq> []" "tl ls \<noteq> []" using certifiedD(1) [OF assms] by (cases ls; cases "tl ls"; simp)+
  then show "cs \<noteq> []" using certifiedD(5) [OF assms] by auto
qed

lemma certified_metadata:
  assumes "certified R now i ls cs re"
  obtains declared where
    "applySuperiorMetadata (nil_map (clMetadata (lkClaims (hd ls))))
          (nil_map (clMetadata (lkClaims (ls ! 1)))) = Inr declared"
    "resolveMetadata (policies_of ls) (filterAllowedEntityTypes (collected ls) declared)
          = Inr (reMetadata re, rePolicy re)"
  using assms unfolding certified_def by blast

lemma certified_parsed:
  assumes "certified R now i ls cs re" "l \<in> set (ls @ [last cs])"
  shows "Parse (rvEnv R) (lkToken l) = Inr (lkStmt l)" "clIssuer (lkClaims l) = lkIssuer l"
    "clSubject (lkClaims l) = lkSubject l" "lkToken l \<in> set (reTokens re)"
proof -
  have "l \<in> set (ls @ cs)" using assms(2) certified_ne(3) [OF assms(1)] by auto
  then have "link_ok R l" using certifiedD(2) [OF assms(1)] by (auto simp: list_all_iff)
  then show "Parse (rvEnv R) (lkToken l) = Inr (lkStmt l)" "clIssuer (lkClaims l) = lkIssuer l"
    "clSubject (lkClaims l) = lkSubject l" by (simp_all add: link_ok_def)
  show "lkToken l \<in> set (reTokens re)" using certifiedD(9) [OF assms(1)] assms(2) by auto
qed

lemma certified_anchor:
  assumes "certified R now i ls cs re"
  shows "lkIssuer (last cs) = reTrustAnchor re" "lkSubject (last cs) = reTrustAnchor re"
proof -
  note ne = certified_ne [OF assms]
  have "lkIssuer (last cs) = last (map lkIssuer (tl ls))"
    using ne by (simp add: last_map flip: certifiedD(5) [OF assms])
  then show "lkIssuer (last cs) = reTrustAnchor re"
    using ne certifiedD(11) [OF assms] by (simp add: last_map last_tl)
  with ne certifiedD(4) [OF assms] show "lkSubject (last cs) = reTrustAnchor re"
    by (auto simp: list_all_iff)
qed

text \<open>What the metadata a chain's policies apply to is.\<close>

lemma certified_declared_distinct:
  assumes "certified R now i ls cs re"
    and "applySuperiorMetadata (nil_map (clMetadata (lkClaims (hd ls)))) superior = Inr declared"
  shows "distinct (map fst (filterAllowedEntityTypes constraints declared))"
proof -
  have "distinct (map fst (nil_map (clMetadata (lkClaims (hd ls)))))"
    using Parse_wf(2) [OF certified_parsed(1) [OF assms(1), of "hd ls"]] certified_ne(1) [OF assms(1)]
    by (simp add: lkClaims_def)
  then show ?thesis
    by (intro filterAllowedEntityTypes_distinct applySuperiorMetadata_distinct [OF assms(2)])
qed

text \<open>
  The statements of a resolved chain, from the subject's own Entity Configuration upward, and the Trust
  Anchor's Entity Configuration: those behind the tokens returned, in their order, each about the
  issuer of the one before it and verified under the keys above it.
\<close>

definition signed_chain :: "Resolver \<Rightarrow> time \<Rightarrow> string \<Rightarrow> ResolvedEntity \<Rightarrow> link list \<Rightarrow> link \<Rightarrow> bool" where
  "signed_chain R now i re ls anchor \<longleftrightarrow>
     2 \<le> length ls \<and>
     reTokens re = map lkToken (ls @ [anchor]) \<and> reChain re = map lkIssuer ls \<and>
     (\<forall>l \<in> set (ls @ [anchor]). Parse (rvEnv R) (lkToken l) = Inr (lkStmt l) \<and>
        clIssuer (lkClaims l) = lkIssuer l \<and> clSubject (lkClaims l) = lkSubject l) \<and>
     lkIssuer (ls ! 0) = i \<and> lkSubject (ls ! 0) = i \<and>
     (\<forall>j. Suc j < length ls \<longrightarrow> lkSubject (ls ! Suc j) = lkIssuer (ls ! j) \<and>
        keys_verify R now (clJWKS (lkClaims (ls ! Suc j))) (ls ! j)) \<and>
     keys_verify R now (clJWKS (lkClaims anchor)) (last ls) \<and>
     lkIssuer anchor = reTrustAnchor re \<and> lkSubject anchor = reTrustAnchor re \<and>
     lkIssuer (last ls) = reTrustAnchor re \<and>
     (\<exists>jwks. map_of (rvTrustAnchorsByID R) (reTrustAnchor re) = Some jwks \<and> keys_verify R now jwks anchor)"

text \<open>The tokens leave no choice of them.\<close>

lemma signed_chain_unique:
  assumes "signed_chain R now i re ls anchor" "signed_chain R now i re ls' anchor'"
  shows "ls = ls' \<and> anchor = anchor'"
proof -
  let ?genuine = "{l. Parse (rvEnv R) (lkToken l) = Inr (lkStmt l) \<and>
    clIssuer (lkClaims l) = lkIssuer l \<and> clSubject (lkClaims l) = lkSubject l}"
  have "inj_on lkToken (?genuine :: link set)"
  proof (rule inj_onI)
    fix l l' :: link
    assume l: "l \<in> ?genuine" "l' \<in> ?genuine" "lkToken l = lkToken l'"
    then have "lkStmt l = lkStmt l'" by force
    with l show "l = l'" by (cases l; cases l') (auto simp: lkClaims_def)
  qed
  moreover have "set (ls @ [anchor]) \<subseteq> ?genuine" "set (ls' @ [anchor']) \<subseteq> ?genuine"
    using assms unfolding signed_chain_def by blast+
  ultimately have "inj_on lkToken (set (ls @ [anchor]) \<union> set (ls' @ [anchor']))"
    by (meson Un_least inj_on_subset)
  moreover have "map lkToken (ls @ [anchor]) = map lkToken (ls' @ [anchor'])"
    using assms unfolding signed_chain_def by simp
  ultimately have "ls @ [anchor] = ls' @ [anchor']" by (rule map_inj_on [rotated])
  then show ?thesis by simp
qed

lemma certified_signed:
  assumes c: "certified R now i ls cs re"
  shows "signed_chain R now i re ls (last cs)"
proof -
  have j: "\<exists>jwks. map_of (rvTrustAnchorsByID R) (reTrustAnchor re) = Some jwks \<and> keys_verify R now jwks (last cs)"
    using certifiedD(7) [OF c] unfolding certified_anchor [OF c] by blast
  have i: "lkIssuer (ls ! 0) = i" "lkSubject (ls ! 0) = i"
    using certifiedD(12,13) [OF c] certified_ne(1) [OF c] by (simp_all add: hd_conv_nth)
  show ?thesis
    unfolding signed_chain_def
    using certifiedD(1,6,8-11) [OF c] j i certified_anchor [OF c] vouched_nth [OF certifiedD(3) [OF c]]
      certified_parsed(1-3) [OF c] by (simp add: Ball_def)
qed

text \<open>In the example the one superior's statement has a policy and constraints.\<close>

lemma ex_parsed_superior:
  "case Parse ex_env (ex_token ''Aw'') of Inl _ \<Rightarrow> False
   | Inr stmt \<Rightarrow> clMetadataPolicy (stClaims stmt) = Some [(''rp'', [(''grant_types'', [(opSubsetOf, JArr [JStr ''a''])])])] \<and>
       (case clConstraints (stClaims stmt) of None \<Rightarrow> False
        | Some c \<Rightarrow> coAllowedEntityTypes c = Some [''rp''] \<and> coHasMaxPathLength c)"
  by code_simp

lemma ex_superior_statement:
  assumes "signed_chain ex_resolver ex_now ''l'' ex_resolved ls anchor"
  shows "clMetadataPolicy (lkClaims (ls ! Suc 0)) = Some [(''rp'', [(''grant_types'', [(opSubsetOf, JArr [JStr ''a''])])])]"
    "length ls = 2" "ls ! Suc 0 \<in> set (tl ls)"
    "\<exists>c. clConstraints (lkClaims (ls ! Suc 0)) = Some c \<and> coAllowedEntityTypes c = Some [''rp''] \<and> coHasMaxPathLength c"
proof -
  from assms have t: "map lkToken (ls @ [anchor]) = [ex_token ''AQ'', ex_token ''Aw'', ex_token ''Ag'']"
    by (simp add: signed_chain_def ex_resolved_def)
  then obtain a b where ls: "ls = [a, b]" "lkToken b = ex_token ''Aw''"
    by (auto simp: Cons_eq_append_conv append_eq_Cons_conv map_eq_Cons_conv)
  with assms have "Parse ex_env (ex_token ''Aw'') = Inr (lkStmt b)"
    by (auto simp: signed_chain_def ex_resolver_def)
  with ex_parsed_superior ls
  show "clMetadataPolicy (lkClaims (ls ! Suc 0)) = Some [(''rp'', [(''grant_types'', [(opSubsetOf, JArr [JStr ''a''])])])]"
    "length ls = 2" "ls ! Suc 0 \<in> set (tl ls)"
    "\<exists>c. clConstraints (lkClaims (ls ! Suc 0)) = Some c \<and> coAllowedEntityTypes c = Some [''rp''] \<and> coHasMaxPathLength c"
    by (auto simp: lkClaims_def split: option.splits)
qed

section \<open>Soundness\<close>

text \<open>
  C2. A resolved Trust Chain is signed all the way up. For a subject that is not itself a Trust
  Anchor there are statements, one per returned token, from the subject's own Entity Configuration
  to the Trust Anchor's statement about the entity below it; each is about the issuer of the
  one before it, and verifies now under a key that the next one publishes for that issuer; the
  topmost verifies under the Trust Anchor's own Entity Configuration, and that under the keys
  configured for the Trust Anchor. The keys returned for the subject are those its immediate
  superior vouches for.
\<close>

theorem Resolve_signed_chain:
  assumes "Resolve R now i = (Inr re, s)" "\<not> is_anchor R i"
  shows "\<exists>ls anchor jwks. 2 \<le> length ls \<and>
    reTokens re = map lkToken (ls @ [anchor]) \<and> reChain re = map lkIssuer ls \<and>
    (\<forall>l \<in> set (ls @ [anchor]). Parse (rvEnv R) (lkToken l) = Inr (lkStmt l) \<and>
       clIssuer (lkClaims l) = lkIssuer l \<and> clSubject (lkClaims l) = lkSubject l) \<and>
    lkIssuer (ls ! 0) = i \<and> lkSubject (ls ! 0) = i \<and>
    (\<forall>j. Suc j < length ls \<longrightarrow> lkSubject (ls ! Suc j) = lkIssuer (ls ! j) \<and>
       keys_verify R now (clJWKS (lkClaims (ls ! Suc j))) (ls ! j)) \<and>
    keys_verify R now (clJWKS (lkClaims anchor)) (last ls) \<and>
    lkIssuer anchor = reTrustAnchor re \<and> lkSubject anchor = reTrustAnchor re \<and>
    lkIssuer (last ls) = reTrustAnchor re \<and>
    map_of (rvTrustAnchorsByID R) (reTrustAnchor re) = Some jwks \<and> keys_verify R now jwks anchor \<and>
    reJWKS re = clJWKS (lkClaims (ls ! 1))"
proof -
  from Resolve_certified [OF assms] obtain ls cs where c: "certified R now i ls cs re" by blast
  from certified_signed [OF c] certifiedD(10) [OF c] show ?thesis
    unfolding signed_chain_def by (intro exI [of _ ls] exI [of _ "last cs"]) simp
qed

lemma Resolve_signed_chain_witness:
  "map_of (rvTrustAnchorsByID ex_resolver) (reTrustAnchor ex_resolved) \<noteq> None"
proof -
  from Resolve_ex obtain s where "Resolve ex_resolver ex_now ''l'' = (Inr ex_resolved, s)" by blast
  from Resolve_signed_chain [OF this ex_not_anchor] show ?thesis by blast
qed

text \<open>
  What "verifies under a key of a set" means: the set has an entry with exactly the
  statement's key identifier and algorithm, and the signature primitive accepts the statement
  under that key.
\<close>

theorem verifyAgainstJWKS_sound:
  assumes "verifyAgainstJWKS R stmt jwks iss sub alg now = Inr claims"
  shows "\<exists>keys k. ParseJWKSet (crypto_of (rvEnv R)) jwks = Inr keys \<and> k \<in> set keys \<and>
    pkKeyID k = KeyID stmt \<and> pkAlgorithm k = alg \<and> Algorithm stmt = alg \<and>
    verify_signature (crypto_of (rvEnv R)) alg (pkPublicKey k) (cmSigningInput (stCompact stmt))
      (cmSignature (stCompact stmt)) \<and>
    claims = stClaims stmt \<and> clIssuer claims = iss \<and> clSubject claims = sub"
  using verifyAgainstJWKS_Inr [OF assms] verifyAgainstJWKS_claims [OF assms]
  by (fastforce simp: Verify_Inr Compact_Verify_def Algorithm_def split: if_splits)

lemma verifyAgainstJWKS_sound_witness:
  "\<exists>stmt claims. verifyAgainstJWKS ex_resolver stmt example_jwks ''l'' ''l'' ES256 ex_now = Inr claims \<and>
     clIssuer claims = ''l'' \<and> Algorithm stmt = ES256"
proof -
  obtain stmt where p: "Parse ex_env (ex_token ''AQ'') = Inr stmt"
    and v: "verifyAgainstJWKS ex_resolver stmt example_jwks ''l'' ''l'' ES256 ex_now = Inr (stClaims stmt)"
  proof -
    have "case Parse ex_env (ex_token ''AQ'') of Inl _ \<Rightarrow> False
      | Inr stmt \<Rightarrow> verifyAgainstJWKS ex_resolver stmt example_jwks ''l'' ''l'' ES256 ex_now = Inr (stClaims stmt)"
      by code_simp
    with that show thesis by (auto split: sum.splits)
  qed
  from verifyAgainstJWKS_sound [OF v] v show ?thesis by blast
qed

text \<open>
  C6. No metadata policy of a Trust Chain is repealed. Take the statements of the chain that a subject
  was resolved by, those its tokens hold (\<open>signed_chain\<close>, which leaves no choice of them). Every
  operator that the policy of any superior's statement among them sets on any parameter of an
  Entity Type of the resolved metadata holds of the resolved value: the policies of the
  intermediates between cannot loosen it, nor can the subject's own metadata or its immediate
  superior's.
\<close>

theorem Resolve_policies_bind:
  assumes "Resolve R now i = (Inr re, s)" "\<not> is_anchor R i"
  shows "\<exists>ls anchor. signed_chain R now i re ls anchor \<and>
    (\<forall>l \<in> set (tl ls). \<forall>pol et claim ops.
       clMetadataPolicy (lkClaims l) = Some pol \<longrightarrow> plookup pol et claim = Some ops \<longrightarrow>
       map_of (reMetadata re) et \<noteq> None \<longrightarrow>
       honours_param claim ops (resolved_member (reMetadata re) et claim))"
proof -
  from Resolve_certified [OF assms] obtain ls cs where c: "certified R now i ls cs re" by blast
  obtain declared where
    dec: "applySuperiorMetadata (nil_map (clMetadata (lkClaims (hd ls))))
          (nil_map (clMetadata (lkClaims (ls ! 1)))) = Inr declared"
    and res: "resolveMetadata (policies_of ls) (filterAllowedEntityTypes (collected ls) declared)
          = Inr (reMetadata re, rePolicy re)" by (rule certified_metadata [OF c])
  have wf: "\<forall>(policy, _) \<in> set (policies_of ls). \<forall>pol. policy = Some pol \<longrightarrow> wf_policy pol"
    using Parse_wf(1) [OF certified_parsed(1) [OF c]] certified_ne(1) [OF c]
    by (auto simp: policies_of_def lkClaims_def dest: list.set_sel(2))
  note d = certified_declared_distinct [OF c dec]
  show ?thesis
  proof (intro exI [of _ ls] exI [of _ "last cs"] conjI ballI allI impI)
    fix l pol et claim ops
    assume "l \<in> set (tl ls)" "clMetadataPolicy (lkClaims l) = Some pol"
    then have "(Some pol, clMetadataPolicyCritical (lkClaims l)) \<in> set (policies_of ls)"
      by (force simp: policies_of_def)
    moreover assume "plookup pol et claim = Some ops" "map_of (reMetadata re) et \<noteq> None"
    ultimately show "honours_param claim ops (resolved_member (reMetadata re) et claim)"
      by (rule resolveMetadata_binds [OF res wf d])
  qed (rule certified_signed [OF c])
qed

lemma Resolve_policies_bind_witness:
  "honours_param ''grant_types'' [(opSubsetOf, JArr [JStr ''a''])] (Some (JArr [JStr ''a'']))"
proof -
  from Resolve_ex obtain s where "Resolve ex_resolver ex_now ''l'' = (Inr ex_resolved, s)" by blast
  from Resolve_policies_bind [OF this ex_not_anchor] obtain ls :: "link list" and anchor :: link where
    sc: "signed_chain ex_resolver ex_now ''l'' ex_resolved ls anchor" and
    binds: "\<forall>l \<in> set (tl ls). \<forall>pol et claim ops. clMetadataPolicy (lkClaims l) = Some pol \<longrightarrow>
      plookup pol et claim = Some ops \<longrightarrow> map_of (reMetadata ex_resolved) et \<noteq> None \<longrightarrow>
      honours_param claim ops (resolved_member (reMetadata ex_resolved) et claim)" by blast
  from binds [rule_format, OF ex_superior_statement(3,1) [OF sc], of "''rp''" "''grant_types''"]
  show ?thesis by (simp add: ex_resolved_def resolved_member_def obj_members_def plookup_def)
qed

text \<open>
  C8. Every constraint on the chain is enforced, the chain being that of the tokens returned
  (\<open>signed_chain\<close>). A constraint in a superior's statement binds the entities below that superior: no more intermediates lie between it and the subject than its
  \<open>max_path_length\<close>, each of their host names passes its naming constraints, and an Entity Type
  of the resolved metadata other than \<open>federation_entity\<close> is on its list of allowed types.
\<close>

theorem Resolve_constraints_hold:
  assumes "Resolve R now i = (Inr re, s)" "\<not> is_anchor R i"
  shows "\<exists>ls anchor. signed_chain R now i re ls anchor \<and>
    (\<forall>j c. Suc j < length ls \<longrightarrow> clConstraints (lkClaims (ls ! Suc j)) = Some c \<longrightarrow>
      (coHasMaxPathLength c \<longrightarrow> int j \<le> coMaxPathLength c) \<and>
      (\<forall>nc. coNamingConstraints c = Some nc \<longrightarrow>
        (\<forall>entity \<in> set (take (Suc j) (reChain re)). checkNamingConstraint (rvEnv R) nc entity = Inr ())) \<and>
      (\<forall>allowed et. coAllowedEntityTypes c = Some allowed \<longrightarrow> map_of (reMetadata re) et \<noteq> None \<longrightarrow>
        et = federationEntityType \<or> et \<in> set allowed))"
proof -
  from Resolve_certified [OF assms] obtain ls cs where c: "certified R now i ls cs re" by blast
  obtain declared where
    dec: "applySuperiorMetadata (nil_map (clMetadata (lkClaims (hd ls))))
          (nil_map (clMetadata (lkClaims (ls ! 1)))) = Inr declared"
    and res: "resolveMetadata (policies_of ls) (filterAllowedEntityTypes (collected ls) declared)
          = Inr (reMetadata re, rePolicy re)" by (rule certified_metadata [OF c])
  note d = certified_declared_distinct [OF c dec]
  have types: "map_of (filterAllowedEntityTypes (collected ls) declared) et \<noteq> None"
    if "map_of (reMetadata re) et \<noteq> None" for et
    using res that ApplyPolicy_entity(2) [OF _ d] by (fastforce simp: resolveMetadata_def and_then_eq_Inr)
  show ?thesis
  proof (intro exI [of _ ls] exI [of _ "last cs"] conjI ballI allI impI)
    fix j con assume j: "Suc j < length ls" "clConstraints (lkClaims (ls ! Suc j)) = Some con"
    let ?sc = "\<lparr>scConstraints = con, scAppliesTo = map lkIssuer (take (Suc j) ls)\<rparr>"
    have sc: "?sc \<in> set (collected ls)" by (rule collected_nth [OF j])
    note len = bspec [OF certifiedD(15) [OF c, unfolded checkMaxPathLengthConstraints_def check_all_Inr] sc]
    note nam = bspec [OF certifiedD(14) [OF c, unfolded checkNamingConstraints_def check_all_Inr] sc]
    show "int j \<le> coMaxPathLength con" if "coHasMaxPathLength con"
      using len that j(1) by (simp add: Let_def)
    show "checkNamingConstraint (rvEnv R) nc entity = Inr ()"
      if "coNamingConstraints con = Some nc" "entity \<in> set (take (Suc j) (reChain re))" for nc entity
      using nam that certifiedD(8) [OF c] by (auto simp: check_all_Inr take_map)
    show "et = federationEntityType \<or> et \<in> set allowed"
      if "coAllowedEntityTypes con = Some allowed" "map_of (reMetadata re) et \<noteq> None" for allowed et
      using types [OF that(2)] sc that(1) filterAllowedEntityTypes_allowed by fastforce
  qed (rule certified_signed [OF c])
qed

lemma Resolve_constraints_hold_witness:
  "\<exists>c :: Constraints. coAllowedEntityTypes c = Some [''rp''] \<and> coHasMaxPathLength c \<and> (0 :: int) \<le> coMaxPathLength c \<and>
     map fst (reMetadata ex_resolved) = [''rp'']"
proof -
  from Resolve_ex obtain s where "Resolve ex_resolver ex_now ''l'' = (Inr ex_resolved, s)" by blast
  from Resolve_constraints_hold [OF this ex_not_anchor] obtain ls :: "link list" and anchor :: link where
    sc: "signed_chain ex_resolver ex_now ''l'' ex_resolved ls anchor" and
    holds: "\<forall>j c. Suc j < length ls \<longrightarrow> clConstraints (lkClaims (ls ! Suc j)) = Some c \<longrightarrow>
      coHasMaxPathLength c \<longrightarrow> int j \<le> coMaxPathLength c" by blast
  note e = ex_superior_statement [OF sc]
  from e(1) obtain c where c: "clConstraints (lkClaims (ls ! Suc 0)) = Some c" "coAllowedEntityTypes c = Some [''rp'']"
      "coHasMaxPathLength c" using e(4) by blast
  from holds [rule_format, of 0 c] e(2) c have "(0 :: int) \<le> coMaxPathLength c" by simp
  with c show ?thesis by (intro exI [of _ c]) (simp add: ex_resolved_def)
qed

end
