(* ===== verification/Resolver_Search.thy ===== *)
theory Resolver_Search
  imports Resolver_Properties
begin

text \<open>
  The search itself: its bounds, the shape of a chain it returns, which hints it tries before it
  gives up, and what it starts from.
\<close>

section \<open>Configuration\<close>

lemma anchors_by_id_Inr:
  "anchors_by_id byID anchors = Inr r \<longleftrightarrow>
     (\<forall>a \<in> set anchors. taEntityID a \<noteq> [] \<and> taJWKS a \<noteq> None) \<and>
     r = foldl (\<lambda>m a. AList.update (taEntityID a) (the (taJWKS a)) m) byID anchors"
  by (induction byID anchors rule: anchors_by_id.induct) (auto split: option.splits)

lemma map_of_anchors:
  "map_of (foldl (\<lambda>m a. AList.update (taEntityID a) (the (taJWKS a)) m) byID anchors) e =
     (case find (\<lambda>a. taEntityID a = e) (rev anchors) of None \<Rightarrow> map_of byID e | Some a \<Rightarrow> Some (the (taJWKS a)))"
  by (induction anchors arbitrary: byID rule: rev_induct) auto

lemma NewResolver_Inr:
  assumes "NewResolver E http anchors limits = Inr R"
  shows "0 < liMaxPathLength limits" "0 < liMaxAuthorityHints limits" "rvLimits R = limits"
    "rvEnv R = E" "rvHTTP R = http"
    "rvTrustAnchorsByID R = foldl (\<lambda>m a. AList.update (taEntityID a) (the (taJWKS a)) m) [] anchors"
    "\<forall>a \<in> set anchors. taEntityID a \<noteq> [] \<and> taJWKS a \<noteq> None" "anchors \<noteq> []"
    "0 < liMaxStatementLifetime limits" "0 \<le> liMaxClockSkew limits"
  using assms by (auto simp: NewResolver_def and_then_eq_Inr anchors_by_id_Inr)

text \<open>
  A resolver is only built for a usable configuration: at least one Trust Anchor, each with
  an identifier and keys, positive limits and a clock skew that is not negative. An Entity
  Identifier is then a Trust Anchor exactly when it was configured, with the keys of the last
  entry for it.
\<close>

theorem NewResolver_usable:
  assumes "NewResolver E http anchors limits = Inr R"
  shows "anchors \<noteq> [] \<and> 0 < liMaxPathLength (rvLimits R) \<and> 0 < liMaxAuthorityHints (rvLimits R) \<and>
    0 < liMaxStatementLifetime (rvLimits R) \<and> 0 \<le> liMaxClockSkew (rvLimits R) \<and>
    \<not> is_anchor R [] \<and>
    (\<forall>e. map_of (rvTrustAnchorsByID R) e =
       (case find (\<lambda>a. taEntityID a = e) (rev anchors) of None \<Rightarrow> None | Some a \<Rightarrow> taJWKS a))"
proof -
  note n = NewResolver_Inr [OF assms]
  have e: "map_of (rvTrustAnchorsByID R) e =
      (case find (\<lambda>a. taEntityID a = e) (rev anchors) of None \<Rightarrow> None | Some a \<Rightarrow> taJWKS a)" for e
  proof (cases "find (\<lambda>a. taEntityID a = e) (rev anchors)")
    case (Some a)
    then have "a \<in> set anchors" by (auto simp: find_Some_iff) (metis length_rev nth_mem set_rev)
    with n(7) Some show ?thesis by (auto simp: n(6) map_of_anchors)
  qed (simp add: n(6) map_of_anchors)
  have "find (\<lambda>a. taEntityID a = []) (rev anchors) = None"
    using n(7) by (auto simp: find_None_iff)
  with e [of "[]"] have "\<not> is_anchor R []" by (simp add: is_anchor_def)
  with n e show ?thesis by simp
qed

lemma NewResolver_usable_witness: "\<not> is_anchor ex_resolver [] \<and> is_anchor ex_resolver ''t''"
  using NewResolver_usable [OF ex_resolver_new] by (simp add: is_anchor_def)

section \<open>Bounds\<close>

text \<open>
  C23. A resolution goes to the network a bounded number of times, whatever its peers answer: at
  most twice per unit of its budget, the maximum path length times the maximum number of hints,
  and once for the subject; and it never sends the same request twice.
\<close>

theorem Resolve_requests_bounded:
  assumes "NewResolver E http anchors limits = Inr R"
  shows "int (length (srLog (snd (Resolve R now i)))) \<le>
      2 * (liMaxPathLength limits * liMaxAuthorityHints limits) + 1 \<and>
    distinct (srLog (snd (Resolve R now i)))"
proof -
  note n = NewResolver_Inr [OF assms]
  have "within R (2 * (liMaxPathLength limits * liMaxAuthorityHints limits) + 1) (snd (Resolve R now i))"
    using Resolve_within [of R now i] n by simp
  then show ?thesis unfolding within_def cache_ok_def by linarith
qed

lemma Resolve_requests_bounded_witness:
  "length (srLog (snd (Resolve ex_resolver ex_now ''l''))) = 3 \<and> (3 :: int) \<le> 13 \<and>
   distinct [ConfigRequest ''l'', ConfigRequest ''t'', SubordinateRequest ''f'' ''l'']"
  using Resolve_requests_bounded [OF ex_resolver_new, of ex_now "''l''"]
  by (simp add: ex_requests ex_limits_def)

text \<open>
  A resolved Trust Chain starts at the subject, ends at its first Trust Anchor, visits no
  entity twice and has no more hops than the maximum path length.
\<close>

theorem Resolve_chain_shape:
  assumes "Resolve R now i = (Inr re, s)" "\<not> is_anchor R i"
  shows "2 \<le> length (reChain re) \<and> int (length (reChain re)) \<le> liMaxPathLength (rvLimits R) + 1 \<and>
    distinct (reChain re) \<and> hd (reChain re) = i \<and> reEntityID re = i \<and>
    last (reChain re) = reTrustAnchor re \<and> is_anchor R (reTrustAnchor re) \<and>
    (\<forall>e \<in> set (butlast (reChain re)). \<not> is_anchor R e)"
proof -
  from Resolve_certified [OF assms] obtain ls cs where c: "certified R now i ls cs re" by blast
  have "int (length ls) - 1 \<le> liMaxPathLength (rvLimits R)" "distinct (reChain re)"
    "reEntityID re = i" "list_all (\<lambda>l. \<not> is_anchor R (lkIssuer l)) (butlast ls)"
    using c unfolding certified_def by blast+
  moreover have "is_anchor R (reTrustAnchor re)"
    using certifiedD(7) [OF c] unfolding certified_anchor [OF c] by (auto simp: is_anchor_def)
  ultimately show ?thesis
    using certifiedD(1,8,11,12) [OF c] certified_ne [OF c]
    by (simp add: hd_map last_map list_all_iff flip: map_butlast)
qed

lemma Resolve_chain_shape_witness: "reTrustAnchor ex_resolved = ''t'' \<and> is_anchor ex_resolver ''t''"
proof -
  from Resolve_ex obtain s where "Resolve ex_resolver ex_now ''l'' = (Inr ex_resolved, s)" by blast
  from Resolve_chain_shape [OF this ex_not_anchor] show ?thesis by (simp add: ex_resolved_def)
qed

lemma certified_current:
  assumes "certified R now i ls cs re" "l \<in> set (ls @ cs)"
  shows "now \<le> clExpiresAt (lkClaims l) + liMaxClockSkew (rvLimits R)"
proof (cases "l \<in> set cs")
  case True
  with certifiedD(4) [OF assms(1)] keys_verify_time show ?thesis by (auto simp: list_all_iff)
next
  case False
  with assms(2) obtain j where j: "j < length ls" "l = ls ! j" by (auto simp: in_set_conv_nth)
  show ?thesis
  proof (cases "Suc j < length ls")
    case True
    with vouched_nth [OF certifiedD(3) [OF assms(1)]] j keys_verify_time show ?thesis by blast
  next
    case False
    with j have "j = length ls - 1" by linarith
    with j certified_ne(1) [OF assms(1)] have "l = last ls" by (simp add: last_conv_nth)
    with certifiedD(6) [OF assms(1)] keys_verify_time show ?thesis by blast
  qed
qed

text \<open>
  C24. What a resolution returns expires with the first of the statements it rests on. Those are
  the statements of the chain, which its tokens hold (\<open>signed_chain\<close>), and the Entity
  Configuration of each superior on it: the one this resolution obtained for that entity, signed by the
  keys it publishes, the last of them being the Trust Anchor's among the tokens. None of them had
  expired, up to the clock skew, when it was resolved.
\<close>

theorem Resolve_expiry:
  assumes "Resolve R now i = (Inr re, s)" "\<not> is_anchor R i"
  shows "\<exists>ls anchor cs. signed_chain R now i re ls anchor \<and>
    map lkIssuer cs = tl (reChain re) \<and> last cs = anchor \<and>
    (\<forall>c \<in> set cs. configuration_held s c \<and> Parse (rvEnv R) (lkToken c) = Inr (lkStmt c) \<and>
       clIssuer (lkClaims c) = lkIssuer c \<and> clSubject (lkClaims c) = lkIssuer c \<and>
       keys_verify R now (clJWKS (lkClaims c)) c) \<and>
    reExpiresAt re = Min ((\<lambda>l. clExpiresAt (lkClaims l)) ` set (ls @ cs)) \<and>
    now \<le> reExpiresAt re + liMaxClockSkew (rvLimits R)"
proof -
  from Resolve_certified_held [OF assms] obtain ls cs where
    c: "certified R now i ls cs re" and held: "list_all (configuration_held s) cs" by blast
  have m: "reExpiresAt re \<in> expiries (ls @ cs)" "\<forall>x \<in> expiries (ls @ cs). reExpiresAt re \<le> x"
    using c unfolding certified_def by blast+
  from m(1) obtain l where l: "l \<in> set (ls @ cs)" "reExpiresAt re = clExpiresAt (lkClaims l)"
    unfolding expiries_def by (rule imageE)
  show ?thesis
  proof (rule exI [of _ ls], rule exI [of _ "last cs"], rule exI [of _ cs], intro conjI ballI)
    show "signed_chain R now i re ls (last cs)" by (rule certified_signed [OF c])
    show "map lkIssuer cs = tl (reChain re)" by (simp only: certifiedD(5,8) [OF c] map_tl)
    show "reExpiresAt re = Min ((\<lambda>l. clExpiresAt (lkClaims l)) ` set (ls @ cs))"
      by (rule Min_eqI [symmetric]) (use m in \<open>simp_all only: expiries_def finite_imageI finite_set\<close>)
    show "now \<le> reExpiresAt re + liMaxClockSkew (rvLimits R)"
      unfolding l(2) by (rule certified_current [OF c l(1)])
  next
    fix x assume x: "x \<in> set cs"
    with held show "configuration_held s x" by (simp add: list_all_iff)
    from x certifiedD(2) [OF c] have ok: "link_ok R x" by (simp add: list_all_iff)
    from x certifiedD(4) [OF c] have self: "lkIssuer x = lkSubject x"
      and "keys_verify R now (clJWKS (lkClaims x)) x" by (simp_all add: list_all_iff)
    then show "keys_verify R now (clJWKS (lkClaims x)) x" by simp
    from ok self show "Parse (rvEnv R) (lkToken x) = Inr (lkStmt x)"
      "clIssuer (lkClaims x) = lkIssuer x" "clSubject (lkClaims x) = lkIssuer x"
      by (simp_all add: link_ok_def)
  qed (rule refl)
qed

lemma Resolve_expiry_witness: "ex_now \<le> reExpiresAt ex_resolved \<and> reExpiresAt ex_resolved = 90 * second"
proof -
  from Resolve_ex obtain s where "Resolve ex_resolver ex_now ''l'' = (Inr ex_resolved, s)" by blast
  from Resolve_expiry [OF this ex_not_anchor]
  have "ex_now \<le> reExpiresAt ex_resolved + liMaxClockSkew (rvLimits ex_resolver)" by blast
  then show ?thesis by (simp add: ex_resolver_def ex_limits_def ex_resolved_def)
qed

section \<open>A Trust Anchor as the subject\<close>

text \<open>
  A Trust Anchor resolves to itself in one request, and only when its Entity Configuration
  verifies under the keys configured for it: no policy applies to it, and the keys returned are
  the configured ones, not those it publishes.
\<close>

theorem Resolve_anchor:
  assumes "Resolve R now i = (Inr re, s)" "map_of (rvTrustAnchorsByID R) i = Some jwks"
  shows "reEntityID re = i \<and> reTrustAnchor re = i \<and> reChain re = [i] \<and> reJWKS re = jwks \<and>
    rePolicy re = None \<and> srLog s = [ConfigRequest i] \<and>
    (\<exists>stmt token. Parse (rvEnv R) token = Inr stmt \<and> reTokens re = [token] \<and>
       verifyAgainstJWKS R stmt jwks i i (Algorithm stmt) now = Inr (stClaims stmt) \<and>
       reMetadata re = nil_map (clMetadata (stClaims stmt)) \<and>
       reExpiresAt re = clExpiresAt (stClaims stmt))"
proof -
  let ?s0 = "newStatementCache (initial_budget R) :: search"
  have ok: "cache_ok R ?s0" by (simp add: cache_ok_def newStatementCache_def)
  from assms obtain stmt token claims where
    c: "entityConfiguration R i ?s0 = (Inr (stmt, token), s)"
    and v: "verifySelfSigned R stmt i now = Inr claims"
    and r: "resolveSelfAsTrustAnchor R i stmt token claims jwks now = Inr re"
    by (auto simp: Resolve_def Let_def split: if_splits sum.splits prod.splits)
  have claims: "claims = stClaims stmt"
    using verifyAgainstJWKS_claims v unfolding verifySelfSigned_def by blast
  from r obtain cl where v2: "verifyAgainstJWKS R stmt jwks i i (Algorithm stmt) now = Inr cl"
    by (auto simp: resolveSelfAsTrustAnchor_def and_then_eq_Inr)
  then have "cl = stClaims stmt" using verifyAgainstJWKS_claims by blast
  moreover have "srLog s = [ConfigRequest i]"
    using c by (auto simp: entityConfiguration_def newStatementCache_def fetchEntityConfiguration_def
        http_fetch_def split: sum.splits option.splits)
  moreover have "Parse (rvEnv R) token = Inr stmt" by (rule entityConfiguration_genuine [OF ok c])
  ultimately show ?thesis
    using r v2 by (auto simp: resolveSelfAsTrustAnchor_def and_then_eq_Inr claims)
qed

lemma ex_resolve_anchor: "\<exists>re. fst (Resolve ex_resolver ex_now ''t'') = Inr re"
proof -
  have "is_ok (fst (Resolve ex_resolver ex_now ''t''))" by code_simp
  then show ?thesis by (simp add: is_ok_iff)
qed

lemma Resolve_anchor_witness:
  "\<exists>re s. Resolve ex_resolver ex_now ''t'' = (Inr re, s) \<and> reChain re = [''t''] \<and> reJWKS re = example_jwks"
proof -
  from ex_resolve_anchor obtain re s where r: "Resolve ex_resolver ex_now ''t'' = (Inr re, s)"
    by (metis prod.collapse)
  have "map_of (rvTrustAnchorsByID ex_resolver) ''t'' = Some example_jwks" by (simp add: ex_resolver_def)
  from Resolve_anchor [OF r this] r show ?thesis by blast
qed

section \<open>A superior's metadata\<close>

lemma map_of_override:
  "map_of (foldl (\<lambda>ps (name, value). AList.update name value ps) params overrides) claim =
     (case map_of (rev overrides) claim of None \<Rightarrow> map_of params claim | Some v \<Rightarrow> Some v)"
  by (induction overrides arbitrary: params rule: rev_induct) auto

lemma map_of_rev_distinct: "distinct (map fst xs) \<Longrightarrow> map_of (rev xs) = map_of xs"
  by (rule map_of_cong_set) (simp_all add: rev_map [symmetric])

lemma unmarshal_object_distinct: "unmarshal_object j = Some ms \<Longrightarrow> distinct (map fst ms)"
  by (cases j) auto

lemma distinct_override:
  "distinct (map fst params) \<Longrightarrow>
   distinct (map fst (foldl (\<lambda>ps (name, value). AList.update name value ps) params overrides))"
  by (induction overrides arbitrary: params) auto

text \<open>
  The immediate superior's metadata overrides the subject's own, parameter by parameter, for
  the Entity Types the subject declares, and declares none on its behalf.
\<close>

theorem applySuperiorMetadata_spec:
  assumes "applySuperiorMetadata subject superior = Inr declared" "distinct (map fst subject)"
  shows "(map_of subject et = None \<longrightarrow> map_of declared et = None) \<and>
    (map_of superior et = None \<longrightarrow> map_of declared et = map_of subject et) \<and>
    (\<forall>raw override. map_of subject et = Some raw \<longrightarrow> map_of superior et = Some override \<longrightarrow>
      (\<exists>params overrides merged j. unmarshal_object raw = Some params \<and>
        unmarshal_object override = Some overrides \<and> map_of declared et = Some j \<and>
        unmarshal_object j = Some merged \<and>
        (\<forall>claim. map_of merged claim =
          (case map_of overrides claim of Some v \<Rightarrow> Some v | None \<Rightarrow> map_of params claim))))"
proof (cases "superior = []")
  case False
  note f = assms(1) [unfolded applySuperiorMetadata_f [OF False]]
  let ?f = "\<lambda>et raw. case map_of superior et of None \<Rightarrow> Inr raw
         | Some override \<Rightarrow>
             and_then (of_option (SubjectMetadataNotObject et) (unmarshal_object raw)) (\<lambda>params.
             and_then (of_option (SuperiorMetadataNotObject et) (unmarshal_object override)) (\<lambda>overrides.
             Inr (marshal_object (foldl (\<lambda>ps (name, value). AList.update name value ps) params overrides))))"
  have d: "map_of declared et = (case map_of subject et of None \<Rightarrow> None
      | Some raw \<Rightarrow> (case ?f et raw of Inr w \<Rightarrow> Some w | Inl _ \<Rightarrow> None))"
    unfolding foldR_update_map_of [OF f assms(2), of et] by (cases "map_of subject et") simp_all
  have k: "\<exists>w. ?f et raw = Inr w" if "map_of subject et = Some raw" for raw
    using foldR_update_ok [OF f map_of_SomeD [OF that]] .
  have m: "\<exists>params overrides merged j. unmarshal_object raw = Some params \<and>
        unmarshal_object override = Some overrides \<and> map_of declared et = Some j \<and>
        unmarshal_object j = Some merged \<and>
        (\<forall>claim. map_of merged claim =
          (case map_of overrides claim of Some v \<Rightarrow> Some v | None \<Rightarrow> map_of params claim))"
    if s: "map_of subject et = Some raw" "map_of superior et = Some override" for raw override
  proof -
    from k [OF s(1)] s(2) obtain params overrides where
      p: "unmarshal_object raw = Some params" "unmarshal_object override = Some overrides"
      by (auto simp: and_then_eq_Inr)
    let ?m = "foldl (\<lambda>ps (name, value). AList.update name value ps) params overrides"
    have dj: "map_of declared et = Some (marshal_object ?m)" by (simp add: d s p)
    from p have "distinct (map fst ?m)" by (blast intro: distinct_override unmarshal_object_distinct)
    from unmarshal_marshal_object [OF this] obtain merged where
      um: "unmarshal_object (marshal_object ?m) = Some merged" "map_of merged = map_of ?m" by blast
    have "\<forall>claim. map_of merged claim =
        (case map_of overrides claim of Some v \<Rightarrow> Some v | None \<Rightarrow> map_of params claim)"
      unfolding um(2) map_of_override map_of_rev_distinct [OF unmarshal_object_distinct [OF p(2)]]
      by (simp split: option.split)
    with p dj um(1) show ?thesis by blast
  qed
  show ?thesis
  proof (intro conjI allI impI)
    show "map_of declared et = None" if "map_of subject et = None" using that by (simp add: d)
    show "map_of declared et = map_of subject et" if "map_of superior et = None"
      using that by (cases "map_of subject et") (simp_all add: d)
  qed (rule m)
qed (use assms in \<open>simp add: applySuperiorMetadata_def\<close>)

lemma applySuperiorMetadata_spec_witness:
  "\<exists>declared. applySuperiorMetadata [(''rp'', JObj [(''a'', JNull)])] [(''rp'', JObj [(''a'', JBool True)])]
     = Inr declared \<and> map_of declared ''op'' = None"
proof -
  obtain declared where
    d: "applySuperiorMetadata [(''rp'', JObj [(''a'', JNull)])] [(''rp'', JObj [(''a'', JBool True)])] = Inr declared"
    by (simp add: applySuperiorMetadata_def obj_members_def of_option_def)
  from applySuperiorMetadata_spec [OF this, of "''op''"] d show ?thesis by auto
qed

section \<open>Giving up\<close>







end
