(* ===== verification/Jwk_Properties.thy ===== *)
theory Jwk_Properties
  imports Jose
begin

text \<open>
  What the parsed keys are: sound for their algorithm, without private parts, told apart by use,
  and read back from what is written for them.
\<close>

section \<open>Members\<close>

lemma check_leaf_names:
  assumes "CheckFieldCase (leaves names) (JObj ms)" "(name, v) \<in> set ms" "name \<notin> set names"
  shows "FoldKey name \<notin> FoldKey ` set names"
proof -
  have "name \<in> fst ` set (obj_members ms)" using assms(2) by (force simp: keys_obj_members)
  then obtain w where w: "(name, w) \<in> set (obj_members ms)" by force
  have f: "fst ` set (map (\<lambda>n. (n, TLeaf)) names) = set names" by force
  have "map_of (map (\<lambda>n. (n, TLeaf)) names) name = None"
    using assms(3) f by (simp only: map_of_eq_None_iff not_False_eq_True)
  then show ?thesis
    using assms(1) w by (fastforce simp: CheckFieldCase_def leaves_def list_all_iff f image_image
        split: option.splits dest!: bspec [OF _ w])
qed

lemma struct_field_leaf:
  assumes "CheckFieldCase (leaves names) (JObj ms)" "(name, v) \<in> set ms"
  shows "struct_field names name = (if name \<in> set names then Some name else None)"
  using struct_field_strict [of "map (\<lambda>n. (n, TLeaf)) names" ms name v] assms
  by (simp add: leaves_def comp_def image_image)

text \<open>A string field of the struct holds the last string member of its name.\<close>

definition string_member :: "string \<Rightarrow> (string \<times> json) list \<Rightarrow> string \<Rightarrow> string" where
  "string_member name ms dflt =
     foldl (\<lambda>acc (k, v). if k = name then (case v of JStr s \<Rightarrow> s | _ \<Rightarrow> acc) else acc) dflt ms"

lemma string_member_simps [simp]:
  "string_member name [] dflt = dflt"
  "string_member name ((k, v) # ms) dflt =
     string_member name ms (if k = name then (case v of JStr s \<Rightarrow> s | _ \<Rightarrow> dflt) else dflt)"
  by (simp_all add: string_member_def)

lemma decode_members_string:
  assumes "\<forall>(k, v) \<in> set ms. struct_field names k = (if k \<in> set names then Some k else None)"
    and "\<And>k v s s'. dec k v s = Some s' \<Longrightarrow>
      get s' = (if k = name then (case v of JStr x \<Rightarrow> x | _ \<Rightarrow> get s) else get s)"
    and "name \<in> set names"
    and "decode_members names dec ms s = Some s'"
  shows "get s' = string_member name ms (get s)"
  using assms(1,4)
proof (induction ms arbitrary: s)
  case (Cons m ms)
  obtain k v where m: "m = (k, v)" by (cases m)
  show ?case
  proof (cases "k \<in> set names")
    case True
    with Cons.prems obtain s1 where d: "dec k v s = Some s1" "decode_members names dec ms s1 = Some s'"
      by (auto simp: m split: option.splits)
    with Cons.IH [OF _ d(2)] Cons.prems(1) assms(2) [OF d(1)] show ?thesis by (simp add: m)
  next
    case False
    with Cons.prems have d: "decode_members names dec ms s = Some s'" by (auto simp: m)
    with False Cons.IH [OF _ d] Cons.prems(1) assms(3) show ?thesis by (auto simp: m)
  qed
qed simp

lemma dec_string_get:
  "dec_string f v s = Some s' \<Longrightarrow> (\<And>x. get (f x s) = (if b then x else get s)) \<Longrightarrow>
   get s' = (if b then (case v of JStr x \<Rightarrow> x | _ \<Rightarrow> get s) else get s)"
  by (cases v) auto

section \<open>Private parts\<close>

lemma private_fields: "k \<in> set private_members \<Longrightarrow> k \<in> set rawJWK_fields"
  by (simp add: rawJWK_fields_def)

lemma rawJWK_dec_private:
  assumes "rawJWK_dec n v h = Some h1" "n \<in> set private_members \<or> rjPrivate h \<noteq> []"
  shows "rjPrivate h1 \<noteq> []"
proof (cases "n \<in> set private_members")
  case True
  then have "rawJWK_dec n v h = Some (h\<lparr>rjPrivate := n # rjPrivate h\<rparr>)"
    by (auto simp: private_members_def rawJWK_dec_def)
  with assms(1) show ?thesis by auto
next
  case False
  have s: "dec_string f v h = Some h1 \<Longrightarrow> (\<And>x. rjPrivate (f x h) = rjPrivate h) \<Longrightarrow> rjPrivate h1 = rjPrivate h"
    for f by (cases v) auto
  from False assms show ?thesis
    by (auto simp: rawJWK_dec_def dest!: s split: if_splits)
qed

lemma decode_private:
  "decode_members rawJWK_fields rawJWK_dec ms h = Some h' \<Longrightarrow>
   (\<exists>k. k \<in> fst ` set ms \<and> k \<in> set private_members) \<or> rjPrivate h \<noteq> [] \<Longrightarrow> rjPrivate h' \<noteq> []"
proof (induction ms arbitrary: h)
  case (Cons m ms)
  obtain k v where m: "m = (k, v)" by (cases m)
  show ?case
  proof (cases "struct_field rawJWK_fields k")
    case None
    then have "k \<notin> set private_members"
      using private_fields by (auto simp: struct_field_def split: if_splits)
    with None Cons show ?thesis by (auto simp: m)
  next
    case (Some n)
    with Cons.prems obtain h1 where d: "rawJWK_dec n v h = Some h1"
      "decode_members rawJWK_fields rawJWK_dec ms h1 = Some h'"
      by (auto simp: m split: option.splits)
    have "k \<in> set private_members \<Longrightarrow> n = k"
      using Some private_fields by (auto simp: struct_field_def split: if_splits)
    with Cons.IH [OF d(2)] Cons.prems(2) rawJWK_dec_private [OF d(1)] show ?thesis by (auto simp: m)
  qed
qed auto

lemma public_fields_folded:
  "list_all (\<lambda>n. n \<in> set private_members \<or> list_all (\<lambda>m. FoldKey n \<noteq> FoldKey m) private_members) rawJWK_fields"
  by code_simp

lemma decode_rawJWK_private:
  assumes "decode_rawJWK j = Some raw" "rjPrivate raw = []"
  shows "j = JNull \<or> (\<exists>ms. j = JObj ms \<and> (\<forall>name \<in> fst ` set ms. FoldKey name \<notin> FoldKey ` set private_members))"
proof (cases j)
  case (JObj ms)
  have c: "CheckFieldCase (leaves rawJWK_fields) (JObj ms)"
    and d: "decode_members rawJWK_fields rawJWK_dec ms rawJWK_zero = Some raw"
    using assms(1) by (auto simp: decode_rawJWK_def JObj split: if_splits)
  have "FoldKey name \<notin> FoldKey ` set private_members" if "(name, v) \<in> set ms" for name v
  proof (cases "name \<in> set rawJWK_fields")
    case True
    have "name \<notin> set private_members"
      using decode_private [OF d] assms(2) that by force
    with True public_fields_folded show ?thesis by (auto simp only: list_all_iff)
  next
    case False
    from check_leaf_names [OF c that False] private_fields show ?thesis by blast
  qed
  then have "\<forall>name \<in> fst ` set ms. FoldKey name \<notin> FoldKey ` set private_members" by fastforce
  with JObj show ?thesis by blast
qed (use assms in \<open>auto simp: decode_rawJWK_def split: if_splits\<close>)

section \<open>Soundness\<close>

definition key_fits :: "crypto \<Rightarrow> nat \<Rightarrow> public_key \<Rightarrow> SignatureAlgorithm \<Rightarrow> bool" where
  "key_fits C maxBits pub alg =
     (case alg of
        ES256 \<Rightarrow> (\<exists>x y. pub = ECDSAKey p256 x y \<and> is_on_curve C p256 x y \<and> (x, y) \<noteq> (0, 0))
      | PS256 \<Rightarrow> (\<exists>n. pub = RSAKey n rsaPublicExponent \<and> 2048 \<le> bitlen n \<and> bitlen n \<le> maxBits)
      | EdDSA \<Rightarrow> (\<exists>k. pub = Ed25519Key k \<and> length k = 32 \<and> ed25519_y k < ed25519P \<and>
                  ed25519_y k \<notin> set ed25519SmallOrderY))"

lemma parseECPublicKey_Inr:
  "parseECPublicKey C raw = Inr pub \<longleftrightarrow>
     (\<exists>x y. rjCrv raw = p256 \<and> decodeCoordinate (rjX raw) = Inr x \<and> decodeCoordinate (rjY raw) = Inr y \<and>
        (x, y) \<noteq> (0, 0) \<and> is_on_curve C p256 x y \<and> pub = ECDSAKey p256 x y)"
  by (auto simp: parseECPublicKey_def and_then_eq_Inr)

lemma parseRSAPublicKey_Inr:
  "parseRSAPublicKey raw = Inr pub \<longleftrightarrow>
     (\<exists>n. decodeCoordinate (rjN raw) = Inr n \<and> decodeCoordinate (rjE raw) = Inr rsaPublicExponent \<and>
        pub = RSAKey n rsaPublicExponent)"
  by (auto simp: parseRSAPublicKey_def decodeExponent_def and_then_eq_Inr split: if_splits)

lemma parseOKPPublicKey_Inr:
  "parseOKPPublicKey raw = Inr pub \<longleftrightarrow>
     (\<exists>k. rjCrv raw = ''Ed25519'' \<and> rjX raw \<noteq> [] \<and> URL (rjX raw) = Inr k \<and> length k = 32 \<and>
        ed25519_y k < ed25519P \<and> ed25519_y k \<notin> set ed25519SmallOrderY \<and> pub = Ed25519Key k)"
  by (auto simp: parseOKPPublicKey_def checkEd25519PublicKey_def and_then_eq_Inr split: sum.splits if_splits)

lemma parseJWK_Inr:
  "parseJWK C j alg maxBits = Inr k \<longleftrightarrow>
     (\<exists>raw pub. decode_rawJWK j = Some raw \<and> rjPrivate raw = [] \<and>
        (rjKty raw = ''EC'' \<and> parseECPublicKey C raw = Inr pub \<or>
         rjKty raw = ''RSA'' \<and> parseRSAPublicKey raw = Inr pub \<or>
         rjKty raw = ''OKP'' \<and> parseOKPPublicKey raw = Inr pub) \<and>
        checkRSAModulusCeiling pub maxBits = Inr () \<and> validateKeyForAlgorithm pub alg = Inr () \<and>
        k = \<lparr>jkPub = pub, jkUse = jwkUseSignature, jkSigAlg = Some alg, jkEncAlg = None, jkKid = []\<rparr>)"
  by (auto simp: parseJWK_def and_then_eq_Inr ex_unit split: if_splits)

lemma validate_fits:
  assumes "parseECPublicKey C raw = Inr pub \<or> parseRSAPublicKey raw = Inr pub \<or> parseOKPPublicKey raw = Inr pub"
    and "checkRSAModulusCeiling pub maxBits = Inr ()" "validateKeyForAlgorithm pub alg = Inr ()"
  shows "key_fits C maxBits pub alg"
  using assms
  by (cases alg)
    (auto simp: key_fits_def validateKeyForAlgorithm_def checkRSAModulusCeiling_def parseECPublicKey_Inr
       parseRSAPublicKey_Inr parseOKPPublicKey_Inr)

text \<open>
  C26. A key parsed from untrusted data is public and fit for its algorithm: no member of the JWK
  is one of private key material, in any letter case; an elliptic curve point is a finite point of
  P-256; an RSA modulus has 2048 to 4096 bits and the exponent 65537; an Ed25519 key is a
  canonical encoding of a point that is not of small order.
\<close>

theorem ParseJWK_sound:
  assumes "ParseJWK C j alg = Inr k"
  shows "jkUse k = jwkUseSignature \<and> jkSigAlg k = Some alg \<and>
    key_fits C maxCallerRSAModulusBits (jkPub k) alg \<and>
    (\<exists>ms. j = JObj ms \<and> (\<forall>name \<in> fst ` set ms. FoldKey name \<notin> FoldKey ` set private_members))"
proof -
  from assms obtain raw pub where d: "decode_rawJWK j = Some raw" "rjPrivate raw = []"
    and p: "rjKty raw = ''EC'' \<and> parseECPublicKey C raw = Inr pub \<or>
         rjKty raw = ''RSA'' \<and> parseRSAPublicKey raw = Inr pub \<or>
         rjKty raw = ''OKP'' \<and> parseOKPPublicKey raw = Inr pub"
    and v: "checkRSAModulusCeiling pub maxCallerRSAModulusBits = Inr ()" "validateKeyForAlgorithm pub alg = Inr ()"
    and k: "k = \<lparr>jkPub = pub, jkUse = jwkUseSignature, jkSigAlg = Some alg, jkEncAlg = None, jkKid = []\<rparr>"
    unfolding ParseJWK_def parseJWK_Inr by blast
  from p have "parseECPublicKey C raw = Inr pub \<or> parseRSAPublicKey raw = Inr pub \<or> parseOKPPublicKey raw = Inr pub"
    by blast
  from validate_fits [OF this v] have "key_fits C maxCallerRSAModulusBits (jkPub k) alg" by (simp add: k)
  moreover have "j \<noteq> JNull"
  proof
    assume "j = JNull"
    with d(1) have "raw = rawJWK_zero" by (simp add: decode_rawJWK_def split: if_splits)
    with p show False by (simp add: rawJWK_zero_def)
  qed
  ultimately show ?thesis using decode_rawJWK_private [OF d] by (auto simp: k)
qed

lemma ParseJWK_sound_witness: "is_on_curve toy_crypto p256 1 1 \<and> (\<exists>ms. example_key = JObj ms)"
proof -
  have p: "ParseJWK toy_crypto example_key ES256 = Inr \<lparr>jkPub = ECDSAKey p256 1 1, jkUse = jwkUseSignature,
      jkSigAlg = Some ES256, jkEncAlg = None, jkKid = []\<rparr>" by code_simp
  from ParseJWK_sound [OF p] show ?thesis by (auto simp: key_fits_def)
qed

text \<open>
  A signature only verifies under a key of the algorithm's own type: a token never makes one
  kind of key be used as another.
\<close>

theorem verify_signature_key_type:
  assumes "verify_signature C alg pub input sig"
  shows "case alg of
      ES256 \<Rightarrow> \<exists>x y. pub = ECDSAKey p256 x y \<and> length sig = 64 \<and>
        ecdsa_verify C x y (sha256 C (string_bytes input)) (SetBytes (take 32 sig)) (SetBytes (drop 32 sig))
    | PS256 \<Rightarrow> \<exists>n e. pub = RSAKey n e \<and> 2048 \<le> bitlen n \<and> bitlen n \<le> maxRSAModulusBits \<and>
        rsa_verify_pss C n e (sha256 C (string_bytes input)) sig
    | EdDSA \<Rightarrow> \<exists>k. pub = Ed25519Key k \<and> length k = 32 \<and> ed25519_y k < ed25519P \<and>
        ed25519_y k \<notin> set ed25519SmallOrderY \<and> length sig = 64 \<and> ed25519_verify C k (string_bytes input) sig"
  using assms
  by (cases alg; cases pub)
    (auto simp: verify_signature_def verifyECDSA_def verifyRSAPSS_def verifyEdDSA_def checkEd25519PublicKey_def
       split: if_splits)

lemma verify_signature_key_type_witness: "length example_sig_bytes = 64"
proof -
  have "verify_signature toy_crypto ES256 (ECDSAKey p256 1 1) ''x'' example_sig_bytes" by code_simp
  from verify_signature_key_type [OF this] show ?thesis by simp
qed

section \<open>Whose keys\<close>

definition within_caller_ceiling :: "ParsedJWK \<Rightarrow> bool" where
  "within_caller_ceiling k = is_ok (checkRSAModulusCeiling (pkPublicKey k) maxCallerRSAModulusBits)"

lemma parseJWK_pub:
  "parseJWK C j alg m = Inr k \<Longrightarrow> checkRSAModulusCeiling (jkPub k) m = Inr ()"
  unfolding parseJWK_Inr by (elim exE conjE) simp

lemma parseJWK_other_ceiling:
  assumes "parseJWK C j alg m = Inr k" "checkRSAModulusCeiling (jkPub k) m' = Inr ()"
  shows "parseJWK C j alg m' = Inr k"
proof -
  from assms(1) obtain raw pub where r: "decode_rawJWK j = Some raw" "rjPrivate raw = []"
    "rjKty raw = ''EC'' \<and> parseECPublicKey C raw = Inr pub \<or>
     rjKty raw = ''RSA'' \<and> parseRSAPublicKey raw = Inr pub \<or>
     rjKty raw = ''OKP'' \<and> parseOKPPublicKey raw = Inr pub"
    "validateKeyForAlgorithm pub alg = Inr ()"
    and k: "k = \<lparr>jkPub = pub, jkUse = jwkUseSignature, jkSigAlg = Some alg, jkEncAlg = None, jkKid = []\<rparr>"
    unfolding parseJWK_Inr by blast
  have "checkRSAModulusCeiling pub m' = Inr ()" using assms(2) by (simp add: k)
  with r k show ?thesis unfolding parseJWK_Inr by blast
qed

lemma parseJWK_ceiling:
  assumes "m \<le> m'"
  shows "(case parseJWK C raw alg m of Inl _ \<Rightarrow> None | Inr k \<Rightarrow> Some k) =
     (case parseJWK C raw alg m' of Inl _ \<Rightarrow> None
      | Inr k \<Rightarrow> if is_ok (checkRSAModulusCeiling (jkPub k) m) then Some k else None)"
proof (cases "parseJWK C raw alg m")
  case (Inr k)
  have c: "checkRSAModulusCeiling (jkPub k) m = Inr ()" by (rule parseJWK_pub [OF Inr])
  then have "checkRSAModulusCeiling (jkPub k) m' = Inr ()"
    using assms by (cases "jkPub k") (simp_all add: checkRSAModulusCeiling_def)
  with parseJWK_other_ceiling [OF Inr this] c Inr show ?thesis by simp
next
  case l: (Inl e)
  show ?thesis
  proof (cases "parseJWK C raw alg m'")
    case (Inr k)
    with parseJWK_other_ceiling [OF Inr, of m] l show ?thesis by (auto simp: is_ok_iff)
  qed (simp add: l)
qed

lemma parse_entry_ceiling:
  "parse_entry C maxCallerRSAModulusBits raw =
     (case parse_entry C maxRSAModulusBits raw of None \<Rightarrow> None
      | Some k \<Rightarrow> if within_caller_ceiling k then Some k else None)"
proof -
  have le: "maxCallerRSAModulusBits \<le> maxRSAModulusBits"
    by (simp add: maxCallerRSAModulusBits_def maxRSAModulusBits_def)
  have "(case parseJWK C raw alg maxCallerRSAModulusBits of Inl _ \<Rightarrow> None | Inr jwk \<Rightarrow> Some (f jwk)) =
      (case (case parseJWK C raw alg maxRSAModulusBits of Inl _ \<Rightarrow> None | Inr jwk \<Rightarrow> Some (f jwk)) of None \<Rightarrow> None
       | Some k \<Rightarrow> if within_caller_ceiling k then Some k else None)"
    if f: "\<And>jwk. pkPublicKey (f jwk) = jkPub jwk" for alg f
    using parseJWK_ceiling [OF le, of C raw alg]
    by (cases "parseJWK C raw alg maxCallerRSAModulusBits"; cases "parseJWK C raw alg maxRSAModulusBits")
      (simp_all add: within_caller_ceiling_def f split: if_splits)
  then show ?thesis
    unfolding parse_entry_def by (simp split: option.split)
qed

text \<open>
  The key set of a party the operator trusts differs from that of a caller in one thing only:
  a caller's set is the trusted one without the RSA keys of more than 4096 bits, in the same order.
\<close>

theorem ParseJWKSet_of_trusted:
  "ParseJWKSet C body =
     (case ParseTrustedJWKSet C body of Inl e \<Rightarrow> Inl e | Inr keys \<Rightarrow> Inr (filter within_caller_ceiling keys))"
proof -
  have "List.map_filter (parse_entry C maxCallerRSAModulusBits) es =
      filter within_caller_ceiling (List.map_filter (parse_entry C maxRSAModulusBits) es)" for es
    by (induction es) (auto simp: parse_entry_ceiling split: option.splits)
  then show ?thesis
    by (cases "set_entries body") (simp_all add: ParseJWKSet_def ParseTrustedJWKSet_def parseJWKSet_def)
qed

section \<open>One use per entry\<close>

lemma hint_dec_strings:
  assumes "jwkSetAlgHint_dec k v h = Some h'"
  shows "jhUse h' = (if k = ''use'' then (case v of JStr x \<Rightarrow> x | _ \<Rightarrow> jhUse h) else jhUse h)"
    "jhAlg h' = (if k = ''alg'' then (case v of JStr x \<Rightarrow> x | _ \<Rightarrow> jhAlg h) else jhAlg h)"
    "jhKid h' = (if k = ''kid'' then (case v of JStr x \<Rightarrow> x | _ \<Rightarrow> jhKid h) else jhKid h)"
  using assms by (cases v; auto simp: jwkSetAlgHint_dec_def split: if_splits option.splits)+

lemma raw_dec_strings:
  assumes "rawJWK_dec k v h = Some h'"
  shows "rjUse h' = (if k = ''use'' then (case v of JStr x \<Rightarrow> x | _ \<Rightarrow> rjUse h) else rjUse h)"
    "rjAlg h' = (if k = ''alg'' then (case v of JStr x \<Rightarrow> x | _ \<Rightarrow> rjAlg h) else rjAlg h)"
    "rjKid h' = (if k = ''kid'' then (case v of JStr x \<Rightarrow> x | _ \<Rightarrow> rjKid h) else rjKid h)"
  using assms by (cases v; auto simp: rawJWK_dec_def split: if_splits)+

lemma decode_leaf_string:
  assumes "CheckFieldCase (leaves names) (JObj ms)" "decode_members names dec ms s = Some s'"
    and "\<And>k v s s'. dec k v s = Some s' \<Longrightarrow>
      get s' = (if k = name then (case v of JStr x \<Rightarrow> x | _ \<Rightarrow> get s) else get s)"
    and "name \<in> set names"
  shows "get s' = string_member name ms (get s)"
  by (rule decode_members_string [OF _ assms(3,4,2)]) (use struct_field_leaf [OF assms(1)] in auto)

lemma hint_raw_agree:
  assumes "decode_hint (JObj ms) = Some hint" "decode_rawJWK (JObj ms) = Some raw"
  shows "jhUse hint = rjUse raw" "jhAlg hint = rjAlg raw" "jhKid hint = rjKid raw"
proof -
  have h: "CheckFieldCase (leaves jwkSetAlgHint_fields) (JObj ms)"
    "decode_members jwkSetAlgHint_fields jwkSetAlgHint_dec ms jwkSetAlgHint_zero = Some hint"
    using assms(1) by (auto simp: decode_hint_def split: if_splits)
  have r: "CheckFieldCase (leaves rawJWK_fields) (JObj ms)"
    "decode_members rawJWK_fields rawJWK_dec ms rawJWK_zero = Some raw"
    using assms(2) by (auto simp: decode_rawJWK_def split: if_splits)
  have f: "name \<in> set jwkSetAlgHint_fields" "name \<in> set rawJWK_fields"
    if "name \<in> {''use'', ''alg'', ''kid''}" for name
    using that by (auto simp: jwkSetAlgHint_fields_def rawJWK_fields_def)
  note hs = decode_leaf_string [OF h, of jhUse "''use''"] decode_leaf_string [OF h, of jhAlg "''alg''"]
    decode_leaf_string [OF h, of jhKid "''kid''"]
  note rs = decode_leaf_string [OF r, of rjUse "''use''"] decode_leaf_string [OF r, of rjAlg "''alg''"]
    decode_leaf_string [OF r, of rjKid "''kid''"]
  have hz: "jhUse jwkSetAlgHint_zero = []" "jhAlg jwkSetAlgHint_zero = []" "jhKid jwkSetAlgHint_zero = []"
    "rjUse rawJWK_zero = []" "rjAlg rawJWK_zero = []" "rjKid rawJWK_zero = []"
    by (simp_all add: jwkSetAlgHint_zero_def rawJWK_zero_def)
  show "jhUse hint = rjUse raw" using hs(1) [OF hint_dec_strings(1) f(1)] rs(1) [OF raw_dec_strings(1) f(2)] hz by simp
  show "jhAlg hint = rjAlg raw" using hs(2) [OF hint_dec_strings(2) f(1)] rs(2) [OF raw_dec_strings(2) f(2)] hz by simp
  show "jhKid hint = rjKid raw" using hs(3) [OF hint_dec_strings(3) f(1)] rs(3) [OF raw_dec_strings(3) f(2)] hz by simp
qed

text \<open>
  No entry of a key set is both: an entry that yields a key to verify signatures with, under
  either ceiling, yields none to encrypt to.
\<close>

theorem no_key_for_both_uses:
  assumes "parse_entry C maxBits entry = Some k"
  shows "parseEncryptionEntry C entry = None"
proof -
  from assms obtain hint alg jwk where h: "decode_hint entry = Some hint" "jhUse hint \<noteq> ''enc''"
    "algorithmForJWKSetHint hint = Some alg" "parseJWK C entry alg maxBits = Inr jwk"
    by (auto simp: parse_entry_def jwkUse_String_def split: option.splits if_splits sum.splits)
  from h(4) obtain raw where r: "decode_rawJWK entry = Some raw" "rjPrivate raw = []"
    and t: "rjKty raw = ''EC'' \<or> rjKty raw = ''RSA'' \<or> rjKty raw = ''OKP''"
    unfolding parseJWK_Inr by blast
  from decode_rawJWK_private [OF r] consider "entry = JNull" | ms where "entry = JObj ms" by blast
  then show ?thesis
  proof cases
    case 1
    with r(1) t show ?thesis by (auto simp: decode_rawJWK_def rawJWK_zero_def split: if_splits)
  next
    case (2 ms)
    note agree = hint_raw_agree [OF h(1) [unfolded 2] r(1) [unfolded 2]]
    have "encryptionAlgorithmFor raw = None"
    proof (cases "rjAlg raw = []")
      case True
      with agree h(2) show ?thesis by (simp add: encryptionAlgorithmFor_def jwkUse_String_def)
    next
      case False
      with agree h(3) have "rjAlg raw = alg_String alg"
        by (simp add: algorithmForJWKSetHint_def ParseSignatureAlgorithm_iff)
      with False show ?thesis
        by (cases alg) (simp_all add: encryptionAlgorithmFor_def ParseKeyManagementAlgorithm_def alg_String_def)
    qed
    with r(1) show ?thesis by (simp add: parseEncryptionEntry_def)
  qed
qed

lemma no_key_for_both_uses_witness: "parseEncryptionEntry toy_crypto example_key = None"
proof -
  have "parse_entry toy_crypto maxRSAModulusBits example_key = Some
      \<lparr>pkKeyID = ''k'', pkAlgorithm = ES256, pkPublicKey = ECDSAKey p256 1 1, pkCertificates = []\<rparr>" by code_simp
  then show ?thesis by (rule no_key_for_both_uses)
qed

section \<open>Numbers as bytes\<close>

lemma SetBytes_snoc [simp]: "SetBytes (bs @ [b]) = SetBytes bs * 256 + b"
  by (simp add: SetBytes_def)

lemma SetBytes_Nil [simp]: "SetBytes [] = 0"
  by (simp add: SetBytes_def)

lemma SetBytes_zeros: "SetBytes (replicate k 0 @ bs) = SetBytes bs"
proof (induction bs rule: rev_induct)
  case Nil
  show ?case by (induction k) (simp_all add: SetBytes_def)
next
  case (snoc b bs)
  then show ?case by (simp flip: append_assoc)
qed

lemma SetBytes_Bytes: "SetBytes (Bytes n) = n"
  by (induction n rule: Bytes.induct) (subst Bytes.simps, simp)

lemma Bytes_bounded: "list_all (\<lambda>b. b < 256) (Bytes n)"
  by (induction n rule: Bytes.induct) (subst Bytes.simps, simp)

lemma length_Bytes: "n < 256 ^ w \<Longrightarrow> length (Bytes n) \<le> w"
proof (induction w arbitrary: n)
  case 0
  then show ?case by (simp add: Bytes.simps)
next
  case (Suc w)
  then have "n div 256 < 256 ^ w" by (simp add: less_mult_imp_div_less mult.commute)
  with Suc.IH show ?case by (subst Bytes.simps) simp
qed

lemma Bytes_Nil: "Bytes n = [] \<longleftrightarrow> n = 0"
  by (subst Bytes.simps) simp

lemma FillBytes_fits:
  assumes "n < 256 ^ w"
  obtains bs where "FillBytes w n = Some bs" "length bs = w" "SetBytes bs = n" "list_all (\<lambda>b. b < 256) bs"
  using length_Bytes [OF assms]
  by (force simp: FillBytes_def Let_def SetBytes_zeros SetBytes_Bytes Bytes_bounded list_all_append
      list_all_iff dest: Bytes_bounded [unfolded list_all_iff, rule_format])

lemma encode_raw_Nil: "encode_raw url bs = [] \<longleftrightarrow> bs = []"
  by (cases "(url, bs)" rule: encode_raw.cases) simp_all

lemma decodeCoordinate_encode:
  assumes "list_all (\<lambda>b. b < 256) bs" "bs \<noteq> []"
  shows "decodeCoordinate (encode_raw True bs) = Inr (SetBytes bs)"
proof -
  have "URL (encode_raw True bs) = Inr bs"
    using decode_encode_raw [OF assms(1), of True] decode_raw_no_break by (simp add: URL_def decode_def)
  with assms(2) show ?thesis by (simp add: decodeCoordinate_def encode_raw_Nil)
qed

lemma sextets:
  assumes "(x :: nat) < 64" "y < 64"
  shows "x * 4 + y div 16 < 256" "x mod 16 * 16 + y div 4 < 256" "x mod 4 * 64 + y < 256"
proof -
  have "y div 16 < 4" "y div 4 < 16" "x mod 16 < 16" "x mod 4 < 4" using assms by auto
  with assms show "x * 4 + y div 16 < 256" "x mod 16 * 16 + y div 4 < 256" "x mod 4 * 64 + y < 256"
    by linarith+
qed

lemma decode_raw_bytes: "decode_raw url s = Some bs \<Longrightarrow> list_all (\<lambda>b. b < 256) bs"
proof (induction url s arbitrary: bs rule: decode_raw.induct)
  case (5 url a b c d s)
  then obtain x y z w r where v: "digit_value url a = Some x" "digit_value url b = Some y"
    "digit_value url c = Some z" "digit_value url d = Some w" and r: "decode_raw url s = Some r"
    and bs: "bs = [x * 4 + y div 16, y mod 16 * 16 + z div 4, z mod 4 * 64 + w] @ r"
    by (auto split: option.splits)
  have lt: "x < 64" "y < 64" "z < 64" "w < 64" using v digit_char_value by blast+
  have "list_all (\<lambda>b. b < 256) r" using "5.IH" [OF refl _ _ _ _ _ _ r] v by blast
  with bs sextets [OF lt(1,2)] sextets [OF lt(2,3)] sextets [OF lt(3,4)] show ?case by simp
next
  case (3 url a b)
  then obtain x y where v: "digit_value url a = Some x" "digit_value url b = Some y"
    and bs: "bs = [x * 4 + y div 16]" by (auto split: option.splits if_splits)
  have lt: "x < 64" "y < 64" using v digit_char_value by blast+
  with bs sextets [OF lt] show ?case by simp
next
  case (4 url a b c)
  then obtain x y z where v: "digit_value url a = Some x" "digit_value url b = Some y" "digit_value url c = Some z"
    and bs: "bs = [x * 4 + y div 16, y mod 16 * 16 + z div 4]" by (auto split: option.splits if_splits)
  have lt: "x < 64" "y < 64" "z < 64" using v digit_char_value by blast+
  with bs sextets [OF lt(1,2)] sextets [OF lt(2,3)] show ?case by simp
qed auto

section \<open>Written keys\<close>

lemma decode_written_EC:
  "decode_rawJWK (JObj [(''kty'', JStr ''EC''), (''crv'', JStr p256), (''x'', JStr x), (''y'', JStr y),
       (''use'', JStr ''sig''), (''alg'', JStr a)]) =
   Some (rawJWK_zero\<lparr>rjKty := ''EC'', rjCrv := p256, rjX := x, rjY := y, rjUse := ''sig'', rjAlg := a\<rparr>)"
  by (simp add: decode_rawJWK_def CheckFieldCase_def leaves_def rawJWK_fields_def private_members_def
      obj_members_def struct_field_def rawJWK_dec_def)

lemma decode_written_RSA:
  "decode_rawJWK (JObj [(''kty'', JStr ''RSA''), (''n'', JStr n), (''e'', JStr e),
       (''use'', JStr ''sig''), (''alg'', JStr a)]) =
   Some (rawJWK_zero\<lparr>rjKty := ''RSA'', rjN := n, rjE := e, rjUse := ''sig'', rjAlg := a\<rparr>)"
  by (simp add: decode_rawJWK_def CheckFieldCase_def leaves_def rawJWK_fields_def private_members_def
      obj_members_def struct_field_def rawJWK_dec_def)

lemma decode_written_OKP:
  "decode_rawJWK (JObj [(''kty'', JStr ''OKP''), (''crv'', JStr ''Ed25519''), (''x'', JStr x),
       (''use'', JStr ''sig''), (''alg'', JStr a)]) =
   Some (rawJWK_zero\<lparr>rjKty := ''OKP'', rjCrv := ''Ed25519'', rjX := x, rjUse := ''sig'', rjAlg := a\<rparr>)"
  by (simp add: decode_rawJWK_def CheckFieldCase_def leaves_def rawJWK_fields_def private_members_def
      obj_members_def struct_field_def rawJWK_dec_def)

lemma coordinate_round_trip:
  assumes "n < 2 ^ 256"
  obtains s where "coordinate_text 32 n = Some s" "s \<noteq> []" "decodeCoordinate s = Inr n"
proof -
  have "n < 256 ^ 32" using assms by simp
  then obtain bs where "FillBytes 32 n = Some bs" "length bs = 32" "SetBytes bs = n" "list_all (\<lambda>b. b < 256) bs"
    by (rule FillBytes_fits)
  moreover from this have "bs \<noteq> []" by auto
  ultimately show thesis
    using that [of "encode_raw True bs"] decodeCoordinate_encode [of bs]
    by (simp add: coordinate_text_def encode_raw_Nil)
qed

lemma number_round_trip: "0 < n \<Longrightarrow> decodeCoordinate (encode_raw True (Bytes n)) = Inr n"
  using decodeCoordinate_encode [OF Bytes_bounded, of n] by (simp add: Bytes_Nil SetBytes_Bytes)

lemma parse_written:
  assumes "decode_rawJWK j = Some raw" "rjPrivate raw = []"
    "rjKty raw = ''EC'' \<and> parseECPublicKey C raw = Inr pub \<or> rjKty raw = ''RSA'' \<and> parseRSAPublicKey raw = Inr pub \<or>
     rjKty raw = ''OKP'' \<and> parseOKPPublicKey raw = Inr pub"
    "checkRSAModulusCeiling pub m = Inr ()" "validateKeyForAlgorithm pub alg = Inr ()"
  shows "parseJWK C j alg m = Inr \<lparr>jkPub = pub, jkUse = jwkUseSignature, jkSigAlg = Some alg, jkEncAlg = None, jkKid = []\<rparr>"
  unfolding parseJWK_Inr using assms by blast

lemma ParseJWK_written:
  assumes p256_bounded: "\<And>x y. is_on_curve C p256 x y \<Longrightarrow> x < 2 ^ 256 \<and> y < 2 ^ 256"
    and "ParseJWK C j alg = Inr k"
  shows "\<exists>j'. MarshalJSON k = Some j' \<and> ParseJWK C j' alg = Inr k"
proof -
  from assms(2) obtain raw pub where
    p: "rjKty raw = ''EC'' \<and> parseECPublicKey C raw = Inr pub \<or>
         rjKty raw = ''RSA'' \<and> parseRSAPublicKey raw = Inr pub \<or>
         rjKty raw = ''OKP'' \<and> parseOKPPublicKey raw = Inr pub"
    and v: "checkRSAModulusCeiling pub maxCallerRSAModulusBits = Inr ()" "validateKeyForAlgorithm pub alg = Inr ()"
    and k: "k = \<lparr>jkPub = pub, jkUse = jwkUseSignature, jkSigAlg = Some alg, jkEncAlg = None, jkKid = []\<rparr>"
    unfolding ParseJWK_def parseJWK_Inr by blast
  define a where "a = alg_String alg"
  have a: "a \<noteq> []" by (cases alg) (simp_all add: a_def alg_String_def)
  from p consider (EC) x y where "pub = ECDSAKey p256 x y" "is_on_curve C p256 x y" "(x, y) \<noteq> (0, 0)"
    | (RSA) n where "pub = RSAKey n rsaPublicExponent"
    | (OKP) b where "pub = Ed25519Key b" "URL (rjX raw) = Inr b" "length b = 32" "ed25519_y b < ed25519P"
        "ed25519_y b \<notin> set ed25519SmallOrderY"
    unfolding parseECPublicKey_Inr parseRSAPublicKey_Inr parseOKPPublicKey_Inr by blast
  then show ?thesis
  proof cases
    case EC
    obtain xs where xs: "coordinate_text 32 x = Some xs" "xs \<noteq> []" "decodeCoordinate xs = Inr x"
      by (rule coordinate_round_trip [OF conjunct1 [OF p256_bounded [OF EC(2)]]])
    obtain ys where ys: "coordinate_text 32 y = Some ys" "ys \<noteq> []" "decodeCoordinate ys = Inr y"
      by (rule coordinate_round_trip [OF conjunct2 [OF p256_bounded [OF EC(2)]]])
    let ?j = "JObj [(''kty'', JStr ''EC''), (''crv'', JStr p256), (''x'', JStr xs), (''y'', JStr ys),
       (''use'', JStr ''sig''), (''alg'', JStr a)]"
    have "MarshalJSON k = Some ?j"
      using xs ys a by (simp add: k EC(1) MarshalJSON_def key_members_def coordinateSize_def p256_def
          algString_def jwkUse_String_def flip: a_def)
    moreover have "ParseJWK C ?j alg = Inr k"
      unfolding ParseJWK_def k
      by (rule parse_written [OF decode_written_EC _ _ v]) (use EC xs ys in
          \<open>auto simp: rawJWK_zero_def parseECPublicKey_Inr\<close>)
    ultimately show ?thesis by blast
  next
    case (RSA n)
    have n: "0 < n"
    proof (rule ccontr)
      assume "\<not> 0 < n"
      with v(2) show False
        by (cases alg) (simp_all add: RSA validateKeyForAlgorithm_def bitlen.simps)
    qed
    let ?e = "encode_raw True (Bytes rsaPublicExponent)"
    let ?j = "JObj [(''kty'', JStr ''RSA''), (''n'', JStr (encode_raw True (Bytes n))), (''e'', JStr ?e),
       (''use'', JStr ''sig''), (''alg'', JStr a)]"
    have e0: "0 < rsaPublicExponent" by (simp add: rsaPublicExponent_def)
    have "MarshalJSON k = Some ?j"
      using n e0 a by (simp add: k RSA MarshalJSON_def key_members_def encode_raw_Nil Bytes_Nil
          algString_def jwkUse_String_def flip: a_def)
    moreover have "ParseJWK C ?j alg = Inr k"
      unfolding ParseJWK_def k
      by (rule parse_written [OF decode_written_RSA _ _ v]) (use RSA number_round_trip n e0 in
          \<open>auto simp: rawJWK_zero_def parseRSAPublicKey_Inr\<close>)
    ultimately show ?thesis by blast
  next
    case (OKP b)
    have bytes: "list_all (\<lambda>x. x < 256) b"
      using OKP(2) by (auto simp: URL_def decode_def intro: decode_raw_bytes split: if_splits)
    have "URL (encode_raw True b) = Inr b"
      using decode_encode_raw [OF bytes, of True] decode_raw_no_break by (simp add: URL_def decode_def)
    moreover have ne: "encode_raw True b \<noteq> []" using OKP(3) by (auto simp: encode_raw_Nil)
    moreover let ?j = "JObj [(''kty'', JStr ''OKP''), (''crv'', JStr ''Ed25519''), (''x'', JStr (encode_raw True b)),
       (''use'', JStr ''sig''), (''alg'', JStr a)]"
    have "MarshalJSON k = Some ?j"
      using ne a by (simp add: k OKP(1) MarshalJSON_def key_members_def algString_def jwkUse_String_def flip: a_def)
    ultimately have "ParseJWK C ?j alg = Inr k"
      unfolding ParseJWK_def k
      by (intro parse_written [OF decode_written_OKP _ _ v]) (use OKP in
          \<open>auto simp: rawJWK_zero_def parseOKPPublicKey_Inr\<close>)
    with \<open>MarshalJSON k = Some ?j\<close> show ?thesis by blast
  qed
qed

text \<open>
  C27. A parsed key survives being written and read again: what \<open>MarshalJSON\<close> writes for it parses,
  for the same algorithm, to the same key. (Coordinates of points on P-256 fit the 32 bytes they
  are written in.)
\<close>

theorem ParseJWK_MarshalJSON:
  assumes "\<And>x y. is_on_curve C p256 x y \<Longrightarrow> x < 2 ^ 256 \<and> y < 2 ^ 256" and "ParseJWK C j alg = Inr k"
  shows "\<exists>j'. MarshalJSON k = Some j' \<and> ParseJWK C j' alg = Inr k"
  using assms by (rule ParseJWK_written)

lemma ParseJWK_MarshalJSON_witness:
  "\<exists>k j'. ParseJWK toy_crypto example_key ES256 = Inr k \<and> MarshalJSON k = Some j' \<and> j' \<noteq> example_key \<and>
     ParseJWK toy_crypto j' ES256 = Inr k"
proof -
  let ?k = "\<lparr>jkPub = ECDSAKey p256 1 1, jkUse = jwkUseSignature, jkSigAlg = Some ES256, jkEncAlg = None, jkKid = []\<rparr>"
  have p: "ParseJWK toy_crypto example_key ES256 = Inr ?k" by code_simp
  have b: "x < 2 ^ 256 \<and> y < 2 ^ 256" if "is_on_curve toy_crypto p256 x y" for x y
    using that by (simp add: toy_crypto_def example_crypto_def)
  have "case MarshalJSON ?k of None \<Rightarrow> False | Some j' \<Rightarrow> j' \<noteq> example_key" by code_simp
  with ParseJWK_MarshalJSON [OF b p] p show ?thesis by auto
qed

section \<open>Keys handed over as Go values\<close>

text \<open>
  \<open>ValidateCallerVerificationKey\<close> is documented to apply the rules of \<open>ParseJWK\<close>; for an Ed25519 key
  it checks the length only, so the encoding of the point of order 1, which \<open>ParseJWK\<close> refuses,
  passes it.
\<close>

definition identity_point :: bytes where
  "identity_point = 1 # replicate 31 0"

lemma caller_key_small_order:
  "ValidateCallerVerificationKey C (Ed25519Key identity_point) EdDSA = Inr () \<and>
   checkEd25519PublicKey identity_point = Inl SmallOrderEd25519"
proof -
  have "ed25519_y identity_point = 1" "length identity_point = 32" by code_simp+
  then have "checkEd25519PublicKey identity_point = Inl SmallOrderEd25519"
    by (simp add: checkEd25519PublicKey_def ed25519SmallOrderY_def ed25519P_def)
  then show ?thesis
    by (simp add: ValidateCallerVerificationKey_def checkCallerKeyMaterial_def validateKeyForAlgorithm_def
        identity_point_def)
qed

end
