(* ===== verification/Policy_Properties.thy ===== *)
theory Policy_Properties
  imports Policy_Correct
begin

text \<open>
  The properties of the metadata policy engine, each with the concrete run it is applied to.
\<close>

section \<open>Helpers\<close>

lemma honours_parameterOperators_Nil [simp]: "honours [] r"
  by (simp add: honours_def)

lemma applyClaimPolicy_Nil [simp]: "applyClaimPolicy [] crit v p = Inr (v, p)"
  by (simp add: applyClaimPolicy_def operatorApplicationOrder_def)

lemma applyParameterPolicy_Nil [simp]: "applyParameterPolicy claim [] crit v p = Inr (v, p)"
  by (simp add: applyParameterPolicy_def)

lemma intersectArrays_elems: "intersectArrays (Some c) (Some n) = Inr w \<Longrightarrow> elems w = elems c \<inter> elems n"
  by (erule intersectArrays_Inr) (auto simp: elems_def dest!: decodeArray_arr_of)

lemma unionArrays_elems: "unionArrays (Some c) (Some n) = Inr w \<Longrightarrow> elems w = elems c \<union> elems n"
  by (erule unionArrays_Inr) (auto simp: elems_def dest!: decodeArray_arr_of)

section \<open>Superior policies bind\<close>

text \<open>
  C10. A superior's metadata policy cannot be repealed below it. When the policies of a superior and
  of the entity under it merge, and the merged policy applies to a metadata document, every
  operator that either of the two set on a parameter holds of the resolved value (its operand
  values are there, or contain it, or equal it, as the operator says), whatever the other policy
  and the metadata say.
\<close>

theorem superior_policy_binds:
  assumes "MergePolicy (Some upper) upperCrit (Some lower) lowerCrit = Inr (Some merged)" "wf_policy lower"
    and "ApplyPolicy (Some merged) crit metadata = Inr resolved" "distinct (map fst metadata)"
    and "map_of metadata et \<noteq> None"
    and "plookup upper et claim = Some ops \<or> plookup lower et claim = Some ops"
  shows "honours_param claim ops (resolved_member resolved et claim)"
proof -
  from MergePolicy_stricter [OF assms(1,2)] assms(6) obtain ops' where
    m: "plookup merged et claim = Some ops'" "ops \<noteq> [] \<longrightarrow> ops' \<noteq> []"
      "stricter (parameterOperators claim ops') (parameterOperators claim ops)"
    unfolding pol_stricter_def by blast
  from ApplyPolicy_honours [OF assms(3,4,5) m(1)] m(2,3) show ?thesis
    by (blast intro: honours_param_stricter)
qed

definition pol_sup :: metadata_policy where
  "pol_sup = [(''rp'', [(''grant_types'', [(opSubsetOf, JArr [JStr ''a'', JStr ''b''])])])]"

definition pol_sub :: metadata_policy where
  "pol_sub = [(''rp'', [(''grant_types'', [(opSubsetOf, JArr [JStr ''b'', JStr ''c''])])])]"

definition pol_merged :: metadata_policy where
  "pol_merged = [(''rp'', [(''grant_types'', [(opSubsetOf, JArr [JStr ''b''])])])]"

definition pol_metadata :: "json assoc" where
  "pol_metadata = [(''rp'', JObj [(''grant_types'', JArr [JStr ''a'', JStr ''b'', JStr ''c''])])]"

definition pol_resolved :: "json assoc" where
  "pol_resolved = [(''rp'', JObj [(''grant_types'', JArr [JStr ''b''])])]"

lemma pol_example:
  "MergePolicy (Some pol_sup) [] (Some pol_sub) [] = Inr (Some pol_merged)"
  "ApplyPolicy (Some pol_merged) [] pol_metadata = Inr pol_resolved"
  "wf_policy pol_sub" "distinct (map fst pol_metadata)" "map_of pol_metadata ''rp'' \<noteq> None"
  "plookup pol_sup ''rp'' ''grant_types'' = Some [(opSubsetOf, JArr [JStr ''a'', JStr ''b''])]"
  by code_simp+

lemma superior_policy_binds_witness:
  "honours_param ''grant_types'' [(opSubsetOf, JArr [JStr ''a'', JStr ''b''])]
     (resolved_member pol_resolved ''rp'' ''grant_types'')"
  by (rule superior_policy_binds [OF pol_example(1,3,2,4,5)]) (simp add: pol_example(6))

text \<open>
  Merging is pointwise on parameters: a parameter only one of the two policies mentions keeps
  that policy's operators, one that both mention gets the operators merged name by name (each
  name only one side has is kept, a name on both sides gets the merged operand), and no entry is
  lost, created or misplaced, in whatever order Go walks its maps.
\<close>

theorem MergePolicy_pointwise:
  assumes "MergePolicy (Some c) cc (Some n) nc = Inr (Some m)" "wf_policy n"
  shows "plookup m et claim = (case plookup n et claim of None \<Rightarrow> plookup c et claim
      | Some no \<Rightarrow> (case plookup c et claim of None \<Rightarrow> Some no
          | Some co \<Rightarrow> (case mergeOperators (parameterOperators claim co)
                (parameterOperators claim no) (cc @ nc) of Inr w \<Rightarrow> Some w | Inl _ \<Rightarrow> None)))"
  using MergePolicy_plookup(1) [OF assms] by (simp only: mergeOps_def)

lemma MergePolicy_pointwise_witness:
  "plookup pol_merged ''rp'' ''grant_types'' = Some [(opSubsetOf, JArr [JStr ''b''])]"
proof -
  have "plookup pol_sub ''rp'' ''grant_types'' = Some [(opSubsetOf, JArr [JStr ''b'', JStr ''c''])]"
    "mergeOperators (parameterOperators ''grant_types'' [(opSubsetOf, JArr [JStr ''a'', JStr ''b''])])
      (parameterOperators ''grant_types'' [(opSubsetOf, JArr [JStr ''b'', JStr ''c''])]) ([] @ [])
      = Inr [(opSubsetOf, JArr [JStr ''b''])]" by code_simp+
  then show ?thesis
    using MergePolicy_pointwise [OF pol_example(1,3), of "''rp''" "''grant_types''"]
    by (simp add: pol_example(6))
qed

text \<open>
  What one merged operator becomes, on every branch: \<open>value\<close>, \<open>default\<close> and an
  unknown operator merge only when the two operands are equal as JSON values, and keep them;
  \<open>add\<close> and \<open>superset_of\<close> become the union of the two sets of values; \<open>one_of\<close> and
  \<open>subset_of\<close> the intersection, which for \<open>one_of\<close> is never empty; \<open>essential\<close> is
  the disjunction.
\<close>

theorem mergeOperatorValue_spec:
  assumes "mergeOperatorValue name current next = Inr w"
  shows "if name = opAdd \<or> name = opSupersetOf then elems w = elems current \<union> elems next
    else if name = opOneOf then elems w = elems current \<inter> elems next \<and> arr_of w \<noteq> []
    else if name = opSubsetOf then elems w = elems current \<inter> elems next
    else if name = opEssential then
      \<exists>a b. unmarshal_bool current = Some a \<and> unmarshal_bool next = Some b \<and> w = JBool (a \<or> b)
    else w = current \<and> jsonEqual current next = Inr True"
proof -
  consider "name = opAdd \<or> name = opSupersetOf" | "name = opOneOf" | "name = opSubsetOf"
    | "name = opEssential" | "name \<notin> {opAdd, opSupersetOf, opOneOf, opSubsetOf, opEssential}" by blast
  then show ?thesis
  proof cases
    case 1
    with assms have "unionArrays (Some current) (Some next) = Inr w"
      by (auto simp: mergeOperatorValue_def op_defs)
    with 1 show ?thesis by (simp add: unionArrays_elems)
  next
    case 2
    with assms have "intersectArrays (Some current) (Some next) = Inr w"
      and ne: "unmarshal_array w \<noteq> Some []"
      by (auto simp: mergeOperatorValue_def op_defs and_then_eq_Inr split: if_splits)
    from this(1) have "elems w = elems current \<inter> elems next" "arr_of w \<noteq> []"
      using ne by (simp_all add: intersectArrays_elems) (auto elim!: intersectArrays_Inr)
    with 2 show ?thesis by (simp add: op_defs)
  next
    case 3
    with assms have "intersectArrays (Some current) (Some next) = Inr w"
      by (auto simp: mergeOperatorValue_def op_defs)
    with 3 show ?thesis by (simp add: intersectArrays_elems op_defs)
  next
    case 4
    with assms show ?thesis
      by (auto simp: mergeOperatorValue_def op_defs split: option.splits)
  next
    case 5
    with assms show ?thesis by (auto simp: mergeOperatorValue_def and_then_eq_Inr split: if_splits)
  qed
qed

lemma mergeOperatorValue_spec_witness:
  "elems (JArr [JStr ''b'']) = elems (JArr [JStr ''a'', JStr ''b'']) \<inter> elems (JArr [JStr ''b'', JStr ''c''])"
proof -
  have "mergeOperatorValue opSubsetOf (JArr [JStr ''a'', JStr ''b'']) (JArr [JStr ''b'', JStr ''c''])
      = Inr (JArr [JStr ''b''])" by code_simp
  from mergeOperatorValue_spec [OF this] show ?thesis by (simp add: op_defs)
qed

text \<open>
  Applying a policy invents nothing: the resolved metadata has exactly the Entity Types of the
  metadata it is applied to, and a parameter that the policy says nothing about comes out as it
  went in, except that a parameter whose value is null is dropped.
\<close>

theorem ApplyPolicy_unconstrained:
  assumes "ApplyPolicy (Some pol) crit metadata = Inr resolved" "distinct (map fst metadata)"
  shows "(map_of resolved et = None \<longleftrightarrow> map_of metadata et = None) \<and>
    (\<forall>raw. map_of metadata et = Some raw \<longrightarrow> plookup pol et claim = None \<longrightarrow>
      resolved_member resolved et claim =
        Option.bind (unmarshal_object raw) (\<lambda>current. present_value current claim))"
proof (intro conjI allI impI)
  note e = ApplyPolicy_entity [OF assms, of et]
  show "map_of resolved et = None \<longleftrightarrow> map_of metadata et = None"
    using e by (cases "map_of metadata et") fastforce+
  fix raw
  assume raw: "map_of metadata et = Some raw" and none: "plookup pol et claim = None"
  let ?ps = "case map_of pol et of None \<Rightarrow> [] | Some ps \<Rightarrow> ps"
  from e(1) [OF raw] obtain current out where u: "unmarshal_object raw = Some current"
    and app: "applyEntityTypePolicy ?ps crit current = Inr out"
    and res: "map_of resolved et = Some (marshal_object out)" by auto
  have ops: "claim_ops ?ps claim = []"
    using none by (auto simp: claim_ops_def plookup_def split: option.splits)
  have "map_of out claim = present_value current claim"
  proof (cases "claim \<in> set (map fst ?ps @ map fst current)")
    case True
    then show ?thesis using applyEntityTypePolicy_map_of(1) [OF app True] ops
      by (auto split: option.splits)
  next
    case False
    then have "map_of current claim = None" by (simp add: map_of_eq_None_iff)
    with applyEntityTypePolicy_map_of(2) [OF app False] show ?thesis
      by (simp add: present_value_def)
  qed
  with resolved_member_marshal [OF res applyEntityTypePolicy_map_of(3) [OF app]] u
  show "resolved_member resolved et claim =
      Option.bind (unmarshal_object raw) (\<lambda>current. present_value current claim)" by simp
qed

lemma ApplyPolicy_unconstrained_witness:
  "resolved_member pol_resolved ''rp'' ''client_name'' = None"
proof -
  have "plookup pol_merged ''rp'' ''client_name'' = None"
    "map_of pol_metadata ''rp'' = Some (JObj [(''grant_types'', JArr [JStr ''a'', JStr ''b'', JStr ''c''])])"
    "Option.bind (unmarshal_object (JObj [(''grant_types'', JArr [JStr ''a'', JStr ''b'', JStr ''c''])]))
      (\<lambda>current. present_value current ''client_name'') = None" by code_simp+
  with ApplyPolicy_unconstrained [OF pol_example(2,4), of "''rp''" "''client_name''"] show ?thesis
    by simp
qed

section \<open>Space-delimited parameters\<close>

text \<open>A byte of a word: ASCII, and none of the ASCII white space.\<close>

definition word_char :: "char \<Rightarrow> bool" where
  "word_char c \<longleftrightarrow> of_char c < (128::nat) \<and> of_char c \<notin> {9, 10, 11, 12, 13, 32 :: nat}"

definition is_word :: "string \<Rightarrow> bool" where
  "is_word s \<longleftrightarrow> s \<noteq> [] \<and> list_all word_char s"

lemma space_len_word_char: "word_char c \<Longrightarrow> space_len (c # cs) = 0"
  by (auto simp: word_char_def space_len_def space_runes_def find_None_iff split: option.split)

lemma space_len_space: "space_len (CHR '' '' # cs) = 1"
  by (simp add: space_len_def space_runes_def)

lemma fields_from_word:
  "list_all word_char s \<Longrightarrow> fields_from w (s @ t) = fields_from (rev s @ w) t"
  by (induction s arbitrary: w) (simp_all add: space_len_word_char Let_def)

lemma fields_from_space:
  "w \<noteq> [] \<Longrightarrow> fields_from w (CHR '' '' # t) = rev w # fields_from [] t"
  by (simp add: space_len_space Let_def)

text \<open>
  Joining a list of words into a space-delimited string and splitting it again gives the words
  back, in order: the array form a policy is evaluated in stands for the string it came from.
\<close>

theorem split_join_space_delimited:
  assumes "list_all is_word ws"
  shows "joinSpaceDelimited (JArr (map JStr ws)) = Inr (JStr (join_space ws)) \<and>
    splitSpaceDelimited (JStr (join_space ws)) = JArr (map JStr ws)"
proof
  have "s \<noteq> [] \<and> list_all join_char_ok s" if "is_word s" for s
    using that by (auto simp: is_word_def word_char_def join_char_ok_def elim!: list.pred_mono_strong)
  with assms have "mapR (\<lambda>v. and_then (of_option SpaceDelimitedNotString (unmarshal_string v)) (\<lambda>s.
      and_then (require (s \<noteq> [] \<and> list_all join_char_ok s) (SpaceDelimitedBadValue s)) (\<lambda>_. Inr s)))
      (map JStr ws) = Inr ws"
    by (induction ws) (auto simp: of_option_def require_def)
  then show "joinSpaceDelimited (JArr (map JStr ws)) = Inr (JStr (join_space ws))"
    by (simp add: joinSpaceDelimited_def)
  have "fields_from [] (join_space ws) = ws"
    using assms
  proof (induction ws rule: join_space.induct)
    case (2 s)
    then show ?case using fields_from_word [of s "[]" "[]"] by (simp add: is_word_def)
  next
    case (3 s t ss)
    then show ?case
      using fields_from_word [of s "[]"] by (simp add: is_word_def fields_from_space del: fields_from.simps)
  qed simp
  then show "splitSpaceDelimited (JStr (join_space ws)) = JArr (map JStr ws)"
    by (simp add: splitSpaceDelimited_def strings_Fields_def)
qed

lemma split_join_space_delimited_witness:
  "splitSpaceDelimited (JStr (join_space [''openid'', ''offline_access''])) =
     JArr [JStr ''openid'', JStr ''offline_access'']"
  using split_join_space_delimited [of "[''openid'', ''offline_access'']"]
  by (simp add: is_word_def word_char_def)

section \<open>Comparing values\<close>

lemma unmarshal_members_map:
  "unmarshal_members ms = Some ys \<longleftrightarrow>
     map fst ys = map fst ms \<and> map (unmarshal_any \<circ> snd) ms = map (Some \<circ> snd) ys"
proof (induction ms arbitrary: ys)
  case (Cons m ms)
  then show ?case
    by (cases m; cases ys) (auto split: option.splits)
qed auto

lemma unmarshal_members_zip:
  "unmarshal_members ms = Some ys \<Longrightarrow> ys = map (\<lambda>(k, x). (k, the (unmarshal_any x))) ms"
  by (induction ms arbitrary: ys) (auto split: option.splits)

lemma unmarshal_members_defined:
  "unmarshal_members ms \<noteq> None \<longleftrightarrow> (\<forall>(k, x) \<in> set ms. unmarshal_any x \<noteq> None)"
  by (induction ms) (auto split: option.splits)

text \<open>
  Two objects with the same members are equal JSON values whatever order their members are
  written in.
\<close>

theorem jsonEqual_member_order:
  assumes "mset ms = mset ms'" "distinct (map fst ms)" "canonicalJSON (Some (JObj ms)) = Inr k"
  shows "jsonEqual (JObj ms) (JObj ms') = Inr True"
proof -
  from assms(3) obtain ys where ys: "unmarshal_members ms = Some ys"
    by (auto simp: canonicalJSON_def split: option.splits)
  have sets: "set ms' = set ms" using assms(1) by (metis set_mset_mset)
  then obtain ys' where ys': "unmarshal_members ms' = Some ys'"
    using ys unmarshal_members_defined [of ms] unmarshal_members_defined [of ms'] by force
  have m: "mset ys = mset ys'"
    unfolding unmarshal_members_zip [OF ys] unmarshal_members_zip [OF ys'] mset_map assms(1) ..
  have d: "distinct (map fst ys)" using ys assms(2) by (simp add: unmarshal_members_map)
  then have d': "distinct (map fst ys')" using m by (metis mset_eq_imp_distinct_iff mset_map)
  have "sorted_members ys = sorted_members ys'"
    unfolding sorted_members_def
    by (rule sort_key_inj_key_eq) (use m d in \<open>simp_all add: distinct_map\<close>)
  with ys ys' assms(3) show ?thesis
    by (simp add: jsonEqual_def canonicalJSON_def obj_members_distinct d d' split: option.splits)
qed

lemma jsonEqual_member_order_witness:
  "jsonEqual (JObj [(''a'', JBool True), (''b'', JStr ''x'')]) (JObj [(''b'', JStr ''x''), (''a'', JBool True)])
     = Inr True"
proof -
  have "canonicalJSON (Some (JObj [(''a'', JBool True), (''b'', JStr ''x'')]))
      = Inr (GMap [(''a'', GBool True), (''b'', GStr ''x'')])" by code_simp
  from jsonEqual_member_order [OF _ _ this] show ?thesis by simp
qed

end
