(* ===== verification/Store_Contracts.thy ===== *)
theory Store_Contracts
  imports Prelude
begin

text \<open>
  The contracts the stores of \<^verbatim>\<open>storage\<close> keep, stated once over any store. Every
  operation of a store runs under its lock, so whatever goroutines do is some sequence of
  operations: \<open>after\<close> runs one, and what holds for every sequence holds for every interleaving.
\<close>

fun after :: "('op \<Rightarrow> 's \<Rightarrow> 'out \<times> 's) \<Rightarrow> 'op list \<Rightarrow> 's \<Rightarrow> 's" where
  "after step [] s = s"
| "after step (op # ops) s = after step ops (snd (step op s))"

fun outputs :: "('op \<Rightarrow> 's \<Rightarrow> 'out \<times> 's) \<Rightarrow> 'op list \<Rightarrow> 's \<Rightarrow> 'out list" where
  "outputs step [] s = []"
| "outputs step (op # ops) s = fst (step op s) # outputs step ops (snd (step op s))"

lemma after_append: "after step (xs @ ys) s = after step ys (after step xs s)"
  by (induction xs arbitrary: s) simp_all

lemma after_invariant:
  assumes "\<And>op s. P s \<Longrightarrow> P (snd (step op s))" "P s"
  shows "P (after step ops s)"
  using assms(2) by (induction ops arbitrary: s) (simp_all add: assms(1))

section \<open>Single use\<close>

text \<open>
  \<open>uses s op\<close> is what operation \<open>op\<close> spends in state \<open>s\<close>, if it spends anything.
\<close>

fun consumed :: "('op \<Rightarrow> 's \<Rightarrow> 'out \<times> 's) \<Rightarrow> ('s \<Rightarrow> 'op \<Rightarrow> 'k option) \<Rightarrow> 'op list \<Rightarrow> 's \<Rightarrow> 'k list" where
  "consumed step uses [] s = []"
| "consumed step uses (op # ops) s =
     (case uses s op of None \<Rightarrow> [] | Some k \<Rightarrow> [k]) @ consumed step uses ops (snd (step op s))"

locale single_use =
  fixes step :: "'op \<Rightarrow> 's \<Rightarrow> 'out \<times> 's"
    and uses :: "'s \<Rightarrow> 'op \<Rightarrow> 'k option"
    and spent :: "'s \<Rightarrow> 'k \<Rightarrow> bool"
  assumes use_fresh: "uses s op = Some k \<Longrightarrow> \<not> spent s k"
    and use_spends: "uses s op = Some k \<Longrightarrow> spent (snd (step op s)) k"
    and spent_stays: "spent s k \<Longrightarrow> spent (snd (step op s)) k"
begin

lemma spent_after: "spent s k \<Longrightarrow> spent (after step ops s) k"
  by (rule after_invariant [where P = "\<lambda>s. spent s k"]) (rule spent_stays)

lemma consumed_fresh: "k \<in> set (consumed step uses ops s) \<Longrightarrow> \<not> spent s k"
proof (induction ops arbitrary: s)
  case (Cons op ops)
  then consider "uses s op = Some k" | "k \<in> set (consumed step uses ops (snd (step op s)))"
    by (auto split: option.splits)
  then show ?case by cases (use Cons.IH use_fresh spent_stays in blast)+
qed simp

text \<open>However the operations interleave, nothing is spent twice.\<close>

lemma consumed_distinct: "distinct (consumed step uses ops s)"
proof (induction ops arbitrary: s)
  case (Cons op ops)
  show ?case
  proof (cases "uses s op")
    case (Some k)
    have "k \<notin> set (consumed step uses ops (snd (step op s)))"
      using consumed_fresh use_spends [OF Some] by blast
    with Cons Some show ?thesis by simp
  qed (use Cons in simp)
qed simp

lemma used_at_most_once:
  assumes "uses s op = Some k"
  shows "uses (after step ops (snd (step op s))) op' \<noteq> Some k"
  using spent_after [OF use_spends [OF assms]] use_fresh by blast

end

section \<open>Keyed records\<close>

text \<open>
  A store that remembers: what was last written under a key is what is read, until the key is
  dropped.
\<close>

locale keyed_store =
  fixes put :: "'k \<Rightarrow> 'v \<Rightarrow> 's \<Rightarrow> 's"
    and get :: "'k \<Rightarrow> 's \<Rightarrow> 'v option"
  assumes get_put [simp]: "get k (put k v s) = Some v"
    and get_put_other [simp]: "k' \<noteq> k \<Longrightarrow> get k' (put k v s) = get k' s"
begin

definition puts :: "('k \<times> 'v) list \<Rightarrow> 's \<Rightarrow> 's" where
  "puts kvs s = foldl (\<lambda>s (k, v). put k v s) s kvs"

lemma puts_simps [simp]: "puts [] s = s" "puts ((k, v) # kvs) s = puts kvs (put k v s)"
  by (simp_all add: puts_def)

lemma get_puts: "get k (puts kvs s) = (case map_of (rev kvs) k of None \<Rightarrow> get k s | Some v \<Rightarrow> Some v)"
proof (induction kvs arbitrary: s)
  case (Cons kv kvs)
  obtain k' v where kv: "kv = (k', v)" by (cases kv)
  show ?case
    by (cases "k' = k") (auto simp: kv Cons.IH map_add_def split: option.split)
qed simp

end

text \<open>A keyed store whose records can be withdrawn for good.\<close>

locale revocable_store = keyed_store put get
  for put :: "'k \<Rightarrow> 'v \<Rightarrow> 's \<Rightarrow> 's" and get :: "'k \<Rightarrow> 's \<Rightarrow> 'v option" +
  fixes revoke :: "'k \<Rightarrow> 's \<Rightarrow> 's"
    and valid :: "'k \<Rightarrow> 's \<Rightarrow> bool"
  assumes valid_revoke [simp]: "valid k (revoke k' s) \<longleftrightarrow> k \<noteq> k' \<and> valid k s"
    and valid_put [simp]: "valid k (put k' v s) \<longleftrightarrow> valid k s"
    and get_revoke [simp]: "get k (revoke k' s) = get k s"
begin

definition redeem :: "'k \<Rightarrow> 's \<Rightarrow> 'v option" where
  "redeem k s = (if valid k s then get k s else None)"

lemma valid_puts: "valid k (puts kvs s) \<longleftrightarrow> valid k s"
proof (induction kvs arbitrary: s)
  case (Cons kv kvs)
  show ?case by (cases kv) (simp only: puts_simps Cons.IH valid_put)
qed (simp only: puts_simps)

lemma redeem_revoked: "redeem k (puts kvs (revoke k s)) = None"
  by (simp only: redeem_def valid_puts valid_revoke) simp

end

end
