(* ===== verification/Memstore.thy ===== *)
theory Memstore
  imports Store_Contracts Json Timeutil
begin

text \<open>
  The in-memory stores, \<^verbatim>\<open>storage/memstore\<close>, with the records of
  \<^verbatim>\<open>storage\<close> they keep: replay, nonce, session, access token, revocation, pairwise
  subject, client, transaction and grant store. An operation is a function from the store to its
  result and the store after. Values are immutable here, so the copies the code makes of what
  callers could change later are the values themselves. A digest is its bytes.
\<close>

type_synonym digest = "nat list"

datatype store_error =
    ReplayDetected string
  | UnknownNonce
  | UnknownState
  | UnknownAccessToken
  | SubjectCollision
  | SubjectNotFound
  | UnknownClient string
  | RequestURIConsumed
  | NoSuchRequestURI
  | RequestURIExpired
  | HandleConsumed
  | NoSuchHandle
  | CodeAlreadyRedeemed string "digest option" string
  | UnknownCode
  | CodeOfAnotherClient
  | RefreshTokenRevoked
  | UnknownRefreshToken

section \<open>Replay\<close>

record ReplayUse =
  ruNamespace :: string
  ruDigest :: digest
  ruExpiresAt :: time

type_synonym ReplayStore = "string \<Rightarrow> digest \<Rightarrow> bool"

definition NewReplayStore :: ReplayStore where
  "NewReplayStore = (\<lambda>_ _. False)"

definition UseOnce :: "ReplayUse \<Rightarrow> ReplayStore \<Rightarrow> (store_error + unit) \<times> ReplayStore" where
  "UseOnce use s =
     (if s (ruNamespace use) (ruDigest use) then (Inl (ReplayDetected (ruNamespace use)), s)
      else (Inr (), s(ruNamespace use := (s (ruNamespace use))(ruDigest use := True))))"

section \<open>Nonces\<close>

type_synonym NonceStore = "string \<rightharpoonup> time"

definition NonceStore_Issue :: "string \<Rightarrow> time \<Rightarrow> NonceStore \<Rightarrow> NonceStore" where
  "NonceStore_Issue nonce expiresAt s = s(nonce \<mapsto> expiresAt)"

definition NonceStore_Lookup :: "string \<Rightarrow> NonceStore \<Rightarrow> store_error + time" where
  "NonceStore_Lookup nonce s = of_option UnknownNonce (s nonce)"

section \<open>Client sessions\<close>

record ConsumedSession =
  csRecord :: raw
  csExpiresAt :: time

type_synonym SessionStore = "string \<rightharpoonup> ConsumedSession"

definition SessionStore_Create :: "string \<Rightarrow> ConsumedSession \<Rightarrow> SessionStore \<Rightarrow> SessionStore" where
  "SessionStore_Create st session s = s(st \<mapsto> session)"

definition SessionStore_Consume :: "string \<Rightarrow> SessionStore \<Rightarrow> (store_error + ConsumedSession) \<times> SessionStore" where
  "SessionStore_Consume st s = (of_option UnknownState (s st), s(st := None))"

section \<open>Opaque access tokens\<close>

datatype SenderConstrain = SenderConstrainDPoP | SenderConstrainMTLS

record NewAccessToken =
  natTokenHash :: digest
  natClientID :: string
  natSubject :: string
  natScope :: "string list"
  natThumbprint :: string
  natSenderConstrain :: SenderConstrain
  natClaims :: "json assoc"
  natExpiresAt :: time

type_synonym AccessTokenStore = "digest \<rightharpoonup> NewAccessToken"

definition CreateAccessToken :: "NewAccessToken \<Rightarrow> AccessTokenStore \<Rightarrow> AccessTokenStore" where
  "CreateAccessToken tok s = s(natTokenHash tok \<mapsto> tok)"

definition LookupAccessToken :: "digest \<Rightarrow> AccessTokenStore \<Rightarrow> store_error + NewAccessToken" where
  "LookupAccessToken h s = of_option UnknownAccessToken (s h)"

section \<open>Revocation\<close>

type_synonym RevocationStore = "string \<rightharpoonup> time"

definition Revoke :: "string \<Rightarrow> time \<Rightarrow> RevocationStore \<Rightarrow> RevocationStore" where
  "Revoke key expiresAt s = s(key \<mapsto> expiresAt)"

definition IsRevoked :: "string \<Rightarrow> RevocationStore \<Rightarrow> bool" where
  "IsRevoked key s \<longleftrightarrow> s key \<noteq> None"

section \<open>Pairwise subjects\<close>

record PairwiseSubjectKey =
  psIssuer :: string
  psSector :: string
  psSubject :: string

record PairwiseSubjectStore =
  pwBodies :: "PairwiseSubjectKey \<rightharpoonup> string"
  pwSubjects :: "string \<times> string \<times> string \<rightharpoonup> string"

definition NewPairwiseSubjectStore :: PairwiseSubjectStore where
  "NewPairwiseSubjectStore = \<lparr>pwBodies = Map.empty, pwSubjects = Map.empty\<rparr>"

definition GetOrCreate :: "PairwiseSubjectKey \<Rightarrow> string \<Rightarrow> PairwiseSubjectStore
    \<Rightarrow> (store_error + string) \<times> PairwiseSubjectStore" where
  "GetOrCreate key candidate s =
     (case pwBodies s key of
        Some body \<Rightarrow> (Inr body, s)
      | None \<Rightarrow>
          let index = (psIssuer key, psSector key, candidate) in
          if pwSubjects s index \<noteq> None then (Inl SubjectCollision, s)
          else (Inr candidate, s\<lparr>pwBodies := (pwBodies s)(key \<mapsto> candidate),
                                 pwSubjects := (pwSubjects s)(index \<mapsto> psSubject key)\<rparr>))"

definition PairwiseSubject_Lookup :: "string \<Rightarrow> string \<Rightarrow> string \<Rightarrow> PairwiseSubjectStore \<Rightarrow> store_error + string" where
  "PairwiseSubject_Lookup issuer sector body s = of_option SubjectNotFound (pwSubjects s (issuer, sector, body))"

section \<open>Pushed authorization requests and interactions\<close>

record NewPARRecord =
  parReference :: string
  parClientID :: string
  parRequest :: raw
  parExpiresAt :: time

record CompletedInteraction =
  ciClientID :: string
  ciRequest :: raw
  ciExpiresAt :: time

record BeginAuthorizationTransaction =
  btReference :: string
  btHandle :: string
  btHandleExpiresAt :: time
  btNow :: time

record pendingInteraction =
  piReference :: string
  piInteraction :: CompletedInteraction

record TransactionStore =
  txByReference :: "string \<rightharpoonup> NewPARRecord"
  txReferenceCompleted :: "string \<Rightarrow> bool"
  txByHandle :: "string \<rightharpoonup> pendingInteraction"
  txHandleConsumed :: "string \<Rightarrow> bool"

definition NewTransactionStore :: TransactionStore where
  "NewTransactionStore = \<lparr>txByReference = Map.empty, txReferenceCompleted = (\<lambda>_. False),
     txByHandle = Map.empty, txHandleConsumed = (\<lambda>_. False)\<rparr>"

definition CreatePAR :: "NewPARRecord \<Rightarrow> TransactionStore \<Rightarrow> TransactionStore" where
  "CreatePAR r s = s\<lparr>txByReference := (txByReference s)(parReference r \<mapsto> r)\<rparr>"

definition BeginAuthorization :: "BeginAuthorizationTransaction \<Rightarrow> TransactionStore
    \<Rightarrow> (store_error + CompletedInteraction) \<times> TransactionStore" where
  "BeginAuthorization txn s =
     (if txReferenceCompleted s (btReference txn) then (Inl RequestURIConsumed, s)
      else case txByReference s (btReference txn) of
        None \<Rightarrow> (Inl NoSuchRequestURI, s)
      | Some r \<Rightarrow>
          if \<not> btNow txn < parExpiresAt r then (Inl RequestURIExpired, s)
          else (Inr \<lparr>ciClientID = parClientID r, ciRequest = parRequest r, ciExpiresAt = parExpiresAt r\<rparr>,
                s\<lparr>txByHandle := (txByHandle s)(btHandle txn \<mapsto>
                    \<lparr>piReference = btReference txn, piInteraction =
                       \<lparr>ciClientID = parClientID r, ciRequest = parRequest r,
                        ciExpiresAt = btHandleExpiresAt txn\<rparr>\<rparr>)\<rparr>))"

definition CompleteAuthorization :: "string \<Rightarrow> TransactionStore
    \<Rightarrow> (store_error + CompletedInteraction) \<times> TransactionStore" where
  "CompleteAuthorization handle s =
     (if txHandleConsumed s handle then (Inl HandleConsumed, s)
      else case txByHandle s handle of
        None \<Rightarrow> (Inl NoSuchHandle, s)
      | Some pending \<Rightarrow>
          if txReferenceCompleted s (piReference pending) then (Inl RequestURIConsumed, s)
          else (Inr (piInteraction pending),
                s\<lparr>txHandleConsumed := (txHandleConsumed s)(handle := True),
                  txReferenceCompleted := (txReferenceCompleted s)(piReference pending := True)\<rparr>))"

section \<open>Grants\<close>

record NewAuthorizationCode =
  acCodeHash :: digest
  acClientID :: string
  acGrant :: raw
  acExpiresAt :: time

record AuthorizationCodeRedemption =
  crCodeHash :: digest
  crClientID :: string

record RedeemedGrant =
  rgClientID :: string
  rgGrant :: raw
  rgExpiresAt :: time

record NewRefreshToken =
  rtTokenHash :: digest
  rtClientID :: string
  rtGrant :: raw
  rtExpiresAt :: time

record GrantStore =
  gsCodes :: "digest \<rightharpoonup> NewAuthorizationCode"
  gsCodeRedeemed :: "digest \<Rightarrow> bool"
  gsCodeAccessKey :: "digest \<rightharpoonup> string"
  gsCodeRefreshHash :: "digest \<rightharpoonup> digest"
  gsRefresh :: "digest \<rightharpoonup> NewRefreshToken"
  gsRefreshRevoked :: "digest \<Rightarrow> bool"

definition NewGrantStore :: GrantStore where
  "NewGrantStore = \<lparr>gsCodes = Map.empty, gsCodeRedeemed = (\<lambda>_. False), gsCodeAccessKey = Map.empty,
     gsCodeRefreshHash = Map.empty, gsRefresh = Map.empty, gsRefreshRevoked = (\<lambda>_. False)\<rparr>"

definition CreateAuthorizationCode :: "NewAuthorizationCode \<Rightarrow> GrantStore \<Rightarrow> GrantStore" where
  "CreateAuthorizationCode code s = s\<lparr>gsCodes := (gsCodes s)(acCodeHash code \<mapsto> code)\<rparr>"

text \<open>The zero values Go's maps give for absent keys are written out.\<close>

definition RedeemAuthorizationCode :: "AuthorizationCodeRedemption \<Rightarrow> GrantStore
    \<Rightarrow> (store_error + RedeemedGrant) \<times> GrantStore" where
  "RedeemAuthorizationCode r s =
     (let h = crCodeHash r in
      if gsCodeRedeemed s h
      then (Inl (CodeAlreadyRedeemed (case gsCodeAccessKey s h of None \<Rightarrow> [] | Some k \<Rightarrow> k)
                  (gsCodeRefreshHash s h)
                  (case gsCodes s h of None \<Rightarrow> [] | Some c \<Rightarrow> acClientID c)), s)
      else case gsCodes s h of
        None \<Rightarrow> (Inl UnknownCode, s)
      | Some code \<Rightarrow>
          if crClientID r \<noteq> [] \<and> crClientID r \<noteq> acClientID code then (Inl CodeOfAnotherClient, s)
          else (Inr \<lparr>rgClientID = acClientID code, rgGrant = acGrant code, rgExpiresAt = acExpiresAt code\<rparr>,
                s\<lparr>gsCodeRedeemed := (gsCodeRedeemed s)(h := True)\<rparr>))"

definition RecordIssuedAccessToken :: "digest \<Rightarrow> string \<Rightarrow> GrantStore \<Rightarrow> GrantStore" where
  "RecordIssuedAccessToken h key s = s\<lparr>gsCodeAccessKey := (gsCodeAccessKey s)(h \<mapsto> key)\<rparr>"

definition RecordIssuedRefreshToken :: "digest \<Rightarrow> digest \<Rightarrow> GrantStore \<Rightarrow> GrantStore" where
  "RecordIssuedRefreshToken h refresh s = s\<lparr>gsCodeRefreshHash := (gsCodeRefreshHash s)(h \<mapsto> refresh)\<rparr>"

definition CreateRefreshToken :: "NewRefreshToken \<Rightarrow> GrantStore \<Rightarrow> GrantStore" where
  "CreateRefreshToken tok s = s\<lparr>gsRefresh := (gsRefresh s)(rtTokenHash tok \<mapsto> tok)\<rparr>"

definition RedeemRefreshToken :: "digest \<Rightarrow> GrantStore \<Rightarrow> store_error + RedeemedGrant" where
  "RedeemRefreshToken h s =
     (if gsRefreshRevoked s h then Inl RefreshTokenRevoked
      else case gsRefresh s h of
        None \<Rightarrow> Inl UnknownRefreshToken
      | Some tok \<Rightarrow> Inr \<lparr>rgClientID = rtClientID tok, rgGrant = rtGrant tok, rgExpiresAt = rtExpiresAt tok\<rparr>)"

definition RevokeRefreshToken :: "digest \<Rightarrow> GrantStore \<Rightarrow> GrantStore" where
  "RevokeRefreshToken h s = s\<lparr>gsRefreshRevoked := (gsRefreshRevoked s)(h := True)\<rparr>"

end
