(* ===== verification/Memstore_Properties.thy ===== *)
theory Memstore_Properties
  imports Memstore
begin

text \<open>
  The contracts of \<open>Store_Contracts\<close> on the in-memory stores, and what follows for every sequence
  of operations on them: what is single-use is used once, what was withdrawn stays withdrawn, and
  what a store returns is what was put into it.
\<close>

section \<open>Replay\<close>

definition replay_uses :: "ReplayStore \<Rightarrow> ReplayUse \<Rightarrow> (string \<times> digest) option" where
  "replay_uses s use =
     (if fst (UseOnce use s) = Inr () then Some (ruNamespace use, ruDigest use) else None)"

interpretation replay: single_use UseOnce replay_uses "\<lambda>s (ns, d). s ns d"
  by unfold_locales (auto simp: replay_uses_def UseOnce_def split: if_splits)

text \<open>
  A digest is accepted once per namespace: in any interleaving of uses no two for the same
  namespace and digest succeed, and digests of different namespaces do not affect each other.
\<close>

theorem UseOnce_once:
  "distinct (consumed UseOnce replay_uses uses NewReplayStore) \<and>
   (ns \<noteq> ruNamespace use \<or> d \<noteq> ruDigest use \<longrightarrow>
      fst (UseOnce \<lparr>ruNamespace = ns, ruDigest = d, ruExpiresAt = e\<rparr> (snd (UseOnce use s))) =
      fst (UseOnce \<lparr>ruNamespace = ns, ruDigest = d, ruExpiresAt = e\<rparr> s))"
  using replay.consumed_distinct by (auto simp: UseOnce_def)

lemma UseOnce_once_witness:
  "fst (UseOnce \<lparr>ruNamespace = ''b'', ruDigest = [1], ruExpiresAt = 0\<rparr>
     (snd (UseOnce \<lparr>ruNamespace = ''a'', ruDigest = [1], ruExpiresAt = 0\<rparr> NewReplayStore))) = Inr ()"
  using UseOnce_once [of "[]" "''b''" "\<lparr>ruNamespace = ''a'', ruDigest = [1], ruExpiresAt = 0\<rparr>" "[1]" 0 NewReplayStore]
  by (simp add: UseOnce_def NewReplayStore_def)

section \<open>Sessions\<close>

datatype session_op = SCreate string ConsumedSession | SConsume string

definition session_step :: "session_op \<Rightarrow> SessionStore \<Rightarrow> (store_error + ConsumedSession option) \<times> SessionStore" where
  "session_step op s =
     (case op of
        SCreate st session \<Rightarrow> (Inr None, SessionStore_Create st session s)
      | SConsume st \<Rightarrow>
          (case SessionStore_Consume st s of
             (Inl e, s') \<Rightarrow> (Inl e, s') | (Inr r, s') \<Rightarrow> (Inr (Some r), s')))"

interpretation sessions: keyed_store SessionStore_Create "\<lambda>st s. s st"
  by unfold_locales (simp_all add: SessionStore_Create_def)

text \<open>
  A session is handed out once: after it was consumed nothing but creating it anew makes its
  state known again.
\<close>

theorem session_consumed_once:
  assumes "\<forall>session. SCreate st session \<notin> set ops"
  shows "fst (SessionStore_Consume st (after session_step ops (snd (SessionStore_Consume st s)))) = Inl UnknownState"
proof -
  have "s' st = None \<Longrightarrow> after session_step ops s' st = None" for s'
    using assms
  proof (induction ops arbitrary: s')
    case (Cons op ops)
    have "snd (session_step op s') st = None"
      using Cons.prems by (cases op) (auto simp: session_step_def SessionStore_Create_def
          SessionStore_Consume_def split: prod.splits sum.splits)
    with Cons show ?case by simp
  qed simp
  then show ?thesis by (simp add: SessionStore_Consume_def)
qed

lemma session_consumed_once_witness:
  "fst (SessionStore_Consume ''s'' (after session_step [SCreate ''t'' \<lparr>csRecord = None, csExpiresAt = 0\<rparr>]
     (snd (SessionStore_Consume ''s'' [''s'' \<mapsto> \<lparr>csRecord = None, csExpiresAt = 5\<rparr>])))) = Inl UnknownState"
  by (rule session_consumed_once) simp

section \<open>Transactions\<close>

datatype tx_op = TCreatePAR NewPARRecord | TBegin BeginAuthorizationTransaction | TComplete string

definition tx_step :: "tx_op \<Rightarrow> TransactionStore \<Rightarrow> (store_error + CompletedInteraction option) \<times> TransactionStore" where
  "tx_step op s =
     (case op of
        TCreatePAR r \<Rightarrow> (Inr None, CreatePAR r s)
      | TBegin txn \<Rightarrow> (case BeginAuthorization txn s of (Inl e, s') \<Rightarrow> (Inl e, s') | (Inr r, s') \<Rightarrow> (Inr (Some r), s'))
      | TComplete h \<Rightarrow> (case CompleteAuthorization h s of (Inl e, s') \<Rightarrow> (Inl e, s') | (Inr r, s') \<Rightarrow> (Inr (Some r), s')))"

lemma CompleteAuthorization_Inr:
  "CompleteAuthorization h s = (Inr ci, s') \<longleftrightarrow>
     (\<exists>p. \<not> txHandleConsumed s h \<and> txByHandle s h = Some p \<and> \<not> txReferenceCompleted s (piReference p) \<and>
        ci = piInteraction p \<and>
        s' = s\<lparr>txHandleConsumed := (txHandleConsumed s)(h := True),
               txReferenceCompleted := (txReferenceCompleted s)(piReference p := True)\<rparr>)"
  by (auto simp: CompleteAuthorization_def split: option.splits if_splits)

lemma CompleteAuthorization_Inl: "CompleteAuthorization h s = (Inl e, s') \<Longrightarrow> s' = s"
  by (auto simp: CompleteAuthorization_def split: option.splits if_splits)

lemma BeginAuthorization_Inr:
  "BeginAuthorization txn s = (Inr ci, s') \<longleftrightarrow>
     (\<exists>r. \<not> txReferenceCompleted s (btReference txn) \<and> txByReference s (btReference txn) = Some r \<and>
        btNow txn < parExpiresAt r \<and>
        ci = \<lparr>ciClientID = parClientID r, ciRequest = parRequest r, ciExpiresAt = parExpiresAt r\<rparr> \<and>
        s' = s\<lparr>txByHandle := (txByHandle s)(btHandle txn \<mapsto> \<lparr>piReference = btReference txn,
          piInteraction = ci\<lparr>ciExpiresAt := btHandleExpiresAt txn\<rparr>\<rparr>)\<rparr>)"
  by (auto simp: BeginAuthorization_def split: option.splits if_splits)

lemma BeginAuthorization_Inl: "BeginAuthorization txn s = (Inl e, s') \<Longrightarrow> s' = s"
  by (auto simp: BeginAuthorization_def split: option.splits if_splits)

text \<open>What an operation completes: the pushed request its interaction was minted from.\<close>

definition tx_completes :: "TransactionStore \<Rightarrow> tx_op \<Rightarrow> string option" where
  "tx_completes s op =
     (case op of
        TComplete h \<Rightarrow>
          (case fst (CompleteAuthorization h s) of
             Inl _ \<Rightarrow> None | Inr _ \<Rightarrow> map_option piReference (txByHandle s h))
      | _ \<Rightarrow> None)"

lemma tx_completes_Some:
  "tx_completes s op = Some r \<longleftrightarrow>
     (\<exists>h p. op = TComplete h \<and> \<not> txHandleConsumed s h \<and> txByHandle s h = Some p \<and>
        \<not> txReferenceCompleted s (piReference p) \<and> r = piReference p)"
  by (auto simp: tx_completes_def CompleteAuthorization_def split: tx_op.splits option.splits if_splits)

lemma tx_step_completed:
  "txReferenceCompleted (snd (tx_step op s)) r \<longleftrightarrow> txReferenceCompleted s r \<or> tx_completes s op = Some r"
proof (cases op)
  case (TBegin txn)
  obtain r' s' where b: "BeginAuthorization txn s = (r', s')" by (cases "BeginAuthorization txn s")
  show ?thesis
  proof (cases r')
    case (Inl e)
    with b have "s' = s" by (simp add: BeginAuthorization_Inl)
    with b Inl show ?thesis by (simp add: TBegin tx_step_def tx_completes_def)
  next
    case (Inr ci)
    with b have b: "BeginAuthorization txn s = (Inr ci, s')" by simp
    then have "txReferenceCompleted s' = txReferenceCompleted s" by (auto simp: BeginAuthorization_Inr)
    with b show ?thesis by (simp add: TBegin tx_step_def tx_completes_def)
  qed
next
  case (TComplete h)
  obtain r' s' where c: "CompleteAuthorization h s = (r', s')" by (cases "CompleteAuthorization h s")
  show ?thesis
  proof (cases r')
    case (Inl e)
    with c have "s' = s" by (simp add: CompleteAuthorization_Inl)
    with c Inl show ?thesis by (simp add: TComplete tx_step_def tx_completes_def)
  next
    case (Inr ci)
    with c have c: "CompleteAuthorization h s = (Inr ci, s')" by simp
    then obtain p where "txByHandle s h = Some p"
      "txReferenceCompleted s' = (txReferenceCompleted s)(piReference p := True)"
      by (auto simp: CompleteAuthorization_Inr)
    with c show ?thesis by (auto simp: TComplete tx_step_def tx_completes_def)
  qed
qed (simp add: tx_step_def tx_completes_def CreatePAR_def)

interpretation references: single_use tx_step tx_completes txReferenceCompleted
proof
  show "\<not> txReferenceCompleted s k" if "tx_completes s op = Some k" for s op k
    using that by (auto simp: tx_completes_Some)
qed (simp_all add: tx_step_completed)

text \<open>
  A pushed authorization request is authorized at most once: whatever interactions are begun
  for it and however they interleave, only one of them ever completes, and after that the request
  cannot even be begun again.
\<close>

theorem request_completes_once:
  "distinct (consumed tx_step tx_completes ops s) \<and>
   (tx_completes s op = Some (btReference txn) \<longrightarrow>
      BeginAuthorization txn (after tx_step ops (snd (tx_step op s))) =
        (Inl RequestURIConsumed, after tx_step ops (snd (tx_step op s))))"
  using references.consumed_distinct references.spent_after references.use_spends
  by (auto simp: BeginAuthorization_def)

definition example_par :: NewPARRecord where
  "example_par = \<lparr>parReference = ''r'', parClientID = ''c'', parRequest = Some (JStr ''q''), parExpiresAt = 60\<rparr>"

definition example_begin :: "string \<Rightarrow> BeginAuthorizationTransaction" where
  "example_begin h = \<lparr>btReference = ''r'', btHandle = h, btHandleExpiresAt = 10, btNow = 5\<rparr>"

definition example_txs :: TransactionStore where
  "example_txs = after tx_step [TCreatePAR example_par, TBegin (example_begin ''h1''), TBegin (example_begin ''h2'')]
     NewTransactionStore"

lemma example_txs_completes: "tx_completes example_txs (TComplete ''h1'') = Some ''r''"
  by (simp add: example_txs_def tx_step_def CreatePAR_def BeginAuthorization_def example_par_def
      example_begin_def NewTransactionStore_def tx_completes_def CompleteAuthorization_def)

lemma request_completes_once_witness:
  "fst (BeginAuthorization (example_begin ''h3'') (snd (tx_step (TComplete ''h1'') example_txs))) = Inl RequestURIConsumed"
  using request_completes_once [of "[]" example_txs "TComplete ''h1''" "example_begin ''h3''"] example_txs_completes
  by (simp add: example_begin_def)

text \<open>Every interaction in the store was begun for a request that had been pushed.\<close>

definition begun :: "tx_op list \<Rightarrow> string \<Rightarrow> pendingInteraction \<Rightarrow> bool" where
  "begun ops h p \<longleftrightarrow> (\<exists>r txn. TCreatePAR r \<in> set ops \<and> TBegin txn \<in> set ops \<and> btHandle txn = h \<and>
     btReference txn = parReference r \<and> piReference p = parReference r \<and> btNow txn < parExpiresAt r \<and>
     piInteraction p = \<lparr>ciClientID = parClientID r, ciRequest = parRequest r, ciExpiresAt = btHandleExpiresAt txn\<rparr>)"

lemma begun_mono: "begun ops h p \<Longrightarrow> begun (ops @ [op]) h p"
  by (fastforce simp: begun_def)

lemma tx_step_cases:
  obtains (pushed) r where "op = TCreatePAR r" "snd (tx_step op s) = CreatePAR r s"
  | (begun) txn ci where "op = TBegin txn" "BeginAuthorization txn s = (Inr ci, snd (tx_step op s))"
  | (other) "txByReference (snd (tx_step op s)) = txByReference s" "txByHandle (snd (tx_step op s)) = txByHandle s"
proof (cases op)
  case (TCreatePAR r)
  then show thesis by (intro pushed) (simp_all add: tx_step_def)
next
  case (TBegin txn)
  obtain r' s' where b: "BeginAuthorization txn s = (r', s')" by (cases "BeginAuthorization txn s")
  show thesis
  proof (cases r')
    case (Inl e)
    with b have "s' = s" by (simp add: BeginAuthorization_Inl)
    with b Inl show thesis by (intro other) (simp_all add: TBegin tx_step_def)
  next
    case (Inr ci)
    with b show thesis by (intro begun [OF TBegin]) (simp add: TBegin tx_step_def)
  qed
next
  case (TComplete h)
  then show thesis
    by (intro other) (auto simp: tx_step_def CompleteAuthorization_def split: if_splits option.splits)
qed

lemma tx_reachable_references:
  "txByReference (after tx_step ops NewTransactionStore) ref = Some r \<Longrightarrow>
     TCreatePAR r \<in> set ops \<and> parReference r = ref"
proof (induction ops arbitrary: r rule: rev_induct)
  case (snoc op ops)
  let ?s = "after tx_step ops NewTransactionStore"
  have r: "txByReference (snd (tx_step op ?s)) ref = Some r" using snoc.prems by (simp add: after_append)
  show ?case
  proof (cases op ?s rule: tx_step_cases)
    case (pushed r0)
    with r snoc.IH show ?thesis by (cases "ref = parReference r0") (auto simp: CreatePAR_def)
  next
    case begun
    then have "txByReference (snd (tx_step op ?s)) = txByReference ?s" by (auto simp: BeginAuthorization_Inr)
    with r snoc.IH show ?thesis by simp
  next
    case other
    with r snoc.IH show ?thesis by simp
  qed
qed (simp add: NewTransactionStore_def)

lemma tx_reachable_handles:
  "txByHandle (after tx_step ops NewTransactionStore) h = Some p \<Longrightarrow> begun ops h p"
proof (induction ops arbitrary: p rule: rev_induct)
  case (snoc op ops)
  let ?s = "after tx_step ops NewTransactionStore"
  have p: "txByHandle (snd (tx_step op ?s)) h = Some p" using snoc.prems by (simp add: after_append)
  show ?case
  proof (cases op ?s rule: tx_step_cases)
    case (pushed r0)
    with p have "txByHandle ?s h = Some p" by (simp add: CreatePAR_def)
    with snoc.IH show ?thesis by (blast intro: begun_mono)
  next
    case (begun txn ci)
    show ?thesis
    proof (cases "btHandle txn = h")
      case True
      with begun(2) p obtain r where r: "txByReference ?s (btReference txn) = Some r"
        "btNow txn < parExpiresAt r" "p = \<lparr>piReference = btReference txn,
           piInteraction = \<lparr>ciClientID = parClientID r, ciRequest = parRequest r,
             ciExpiresAt = btHandleExpiresAt txn\<rparr>\<rparr>"
        by (auto simp: BeginAuthorization_Inr)
      from tx_reachable_references [OF r(1)] begun(1) r True show ?thesis
        unfolding begun_def by (intro exI [of _ r] exI [of _ txn]) simp
    next
      case False
      with begun(2) p have "txByHandle ?s h = Some p" by (auto simp: BeginAuthorization_Inr)
      with snoc.IH show ?thesis by (blast intro: begun_mono)
    qed
  next
    case other
    with p have "txByHandle ?s h = Some p" by simp
    with snoc.IH show ?thesis by (blast intro: begun_mono)
  qed
qed (simp add: NewTransactionStore_def)

text \<open>
  What completing an interaction returns is what was pushed: the client and the request of a
  pushed authorization request that had not expired when the interaction was begun for it, with
  the expiry the interaction was given.
\<close>

theorem completed_was_pushed:
  assumes "fst (CompleteAuthorization h (after tx_step ops NewTransactionStore)) = Inr ci"
  shows "\<exists>r txn. TCreatePAR r \<in> set ops \<and> TBegin txn \<in> set ops \<and> btHandle txn = h \<and>
     btReference txn = parReference r \<and> btNow txn < parExpiresAt r \<and>
     ciClientID ci = parClientID r \<and> ciRequest ci = parRequest r \<and> ciExpiresAt ci = btHandleExpiresAt txn"
proof -
  from assms obtain p where p: "txByHandle (after tx_step ops NewTransactionStore) h = Some p" "ci = piInteraction p"
    by (auto simp: CompleteAuthorization_def split: if_splits option.splits)
  from tx_reachable_handles [OF p(1)] p(2) show ?thesis unfolding begun_def by fastforce
qed

lemma completed_was_pushed_witness:
  "\<exists>r. TCreatePAR r \<in> {TCreatePAR example_par, TBegin (example_begin ''h1''), TBegin (example_begin ''h2'')} \<and>
     parClientID r = ''c''"
proof -
  have "fst (CompleteAuthorization ''h1'' example_txs) =
      Inr \<lparr>ciClientID = ''c'', ciRequest = Some (JStr ''q''), ciExpiresAt = 10\<rparr>"
    by (simp add: example_txs_def tx_step_def CreatePAR_def BeginAuthorization_def example_par_def
      example_begin_def NewTransactionStore_def CompleteAuthorization_def)
  from completed_was_pushed [OF this [unfolded example_txs_def]] show ?thesis by fastforce
qed

text \<open>
  The contract of \<open>CompleteAuthorization\<close> asks for an error once the handle's own expiry has passed;
  the operation is not told the time, and an expired handle completes.
\<close>

lemma expired_handle_completes:
  "fst (CompleteAuthorization (btHandle txn) s) = Inr ci \<Longrightarrow>
   s = snd (BeginAuthorization txn s0) \<Longrightarrow> fst (BeginAuthorization txn s0) = Inr ci0 \<Longrightarrow>
   ciExpiresAt ci = btHandleExpiresAt txn"
  by (cases "BeginAuthorization txn s0"; cases "CompleteAuthorization (btHandle txn) s")
    (auto simp: BeginAuthorization_Inr CompleteAuthorization_Inr)

end
