(* ===== verification/Memstore_Grants.thy ===== *)
theory Memstore_Grants
  imports Memstore
begin

text \<open>
  The contracts of \<open>Store_Contracts\<close> on the grant store, the pairwise subject store and the
  stores that only remember: authorization codes are redeemed once, refresh tokens work until they
  are revoked, pairwise subjects never change and never collide.
\<close>

section \<open>Stores that only remember\<close>

interpretation nonces: keyed_store NonceStore_Issue "\<lambda>nonce s. s nonce"
  by unfold_locales (simp_all add: NonceStore_Issue_def)

interpretation revocations: keyed_store Revoke "\<lambda>key s. s key"
  by unfold_locales (simp_all add: Revoke_def)

interpretation refresh: revocable_store
  "\<lambda>h (c, g, e). CreateRefreshToken \<lparr>rtTokenHash = h, rtClientID = c, rtGrant = g, rtExpiresAt = e\<rparr>"
  "\<lambda>h s. map_option (\<lambda>tok. (rtClientID tok, rtGrant tok, rtExpiresAt tok)) (gsRefresh s h)"
  RevokeRefreshToken "\<lambda>h s. \<not> gsRefreshRevoked s h"
  by unfold_locales (auto simp: CreateRefreshToken_def RevokeRefreshToken_def split: prod.split)

section \<open>Operations on grants\<close>

datatype grant_op =
    GCode NewAuthorizationCode
  | GRedeem AuthorizationCodeRedemption
  | GIssuedAccess digest string
  | GIssuedRefresh digest digest
  | GRefresh NewRefreshToken
  | GRedeemRefresh digest
  | GRevoke digest

fun grant_step :: "grant_op \<Rightarrow> GrantStore \<Rightarrow> (store_error + RedeemedGrant option) \<times> GrantStore" where
  "grant_step (GCode code) s = (Inr None, CreateAuthorizationCode code s)"
| "grant_step (GRedeem r) s = apfst (map_sum (\<lambda>e. e) Some) (RedeemAuthorizationCode r s)"
| "grant_step (GIssuedAccess h k) s = (Inr None, RecordIssuedAccessToken h k s)"
| "grant_step (GIssuedRefresh h h') s = (Inr None, RecordIssuedRefreshToken h h' s)"
| "grant_step (GRefresh tok) s = (Inr None, CreateRefreshToken tok s)"
| "grant_step (GRedeemRefresh h) s = (map_sum (\<lambda>e. e) Some (RedeemRefreshToken h s), s)"
| "grant_step (GRevoke h) s = (Inr None, RevokeRefreshToken h s)"

lemma RedeemAuthorizationCode_snd:
  "snd (RedeemAuthorizationCode r s) =
     s\<lparr>gsCodeRedeemed := gsCodeRedeemed (snd (RedeemAuthorizationCode r s))\<rparr>"
  by (simp add: RedeemAuthorizationCode_def Let_def split: option.split)

lemma RedeemAuthorizationCode_frame [simp]:
  "gsCodes (snd (RedeemAuthorizationCode r s)) = gsCodes s"
  "gsCodeAccessKey (snd (RedeemAuthorizationCode r s)) = gsCodeAccessKey s"
  "gsCodeRefreshHash (snd (RedeemAuthorizationCode r s)) = gsCodeRefreshHash s"
  "gsRefresh (snd (RedeemAuthorizationCode r s)) = gsRefresh s"
  "gsRefreshRevoked (snd (RedeemAuthorizationCode r s)) = gsRefreshRevoked s"
  by (subst RedeemAuthorizationCode_snd; simp)+

lemma RedeemAuthorizationCode_Inr:
  "fst (RedeemAuthorizationCode r s) = Inr g \<longleftrightarrow>
     (\<exists>code. \<not> gsCodeRedeemed s (crCodeHash r) \<and> gsCodes s (crCodeHash r) = Some code \<and>
        (crClientID r = [] \<or> crClientID r = acClientID code) \<and>
        g = \<lparr>rgClientID = acClientID code, rgGrant = acGrant code, rgExpiresAt = acExpiresAt code\<rparr>)"
  by (auto simp: RedeemAuthorizationCode_def Let_def split: option.splits if_splits)

lemma gsCodeRedeemed_redeem:
  "gsCodeRedeemed (snd (RedeemAuthorizationCode r s)) h \<longleftrightarrow>
     gsCodeRedeemed s h \<or> (h = crCodeHash r \<and> (\<exists>g. fst (RedeemAuthorizationCode r s) = Inr g))"
  by (auto simp: RedeemAuthorizationCode_def Let_def split: option.splits if_splits)

lemma RedeemAuthorizationCode_again:
  assumes "gsCodeRedeemed s (crCodeHash r)"
  shows "\<exists>c. fst (RedeemAuthorizationCode r s) =
     Inl (CodeAlreadyRedeemed (case gsCodeAccessKey s (crCodeHash r) of None \<Rightarrow> [] | Some k \<Rightarrow> k)
       (gsCodeRefreshHash s (crCodeHash r)) c)"
  using assms by (simp add: RedeemAuthorizationCode_def Let_def)

lemmas grant_op_defs =
  CreateAuthorizationCode_def RecordIssuedAccessToken_def RecordIssuedRefreshToken_def
  CreateRefreshToken_def RevokeRefreshToken_def

lemma gsCodeRedeemed_step:
  "gsCodeRedeemed (snd (grant_step op s)) h \<longleftrightarrow> gsCodeRedeemed s h \<or>
     (\<exists>r g. op = GRedeem r \<and> h = crCodeHash r \<and> fst (RedeemAuthorizationCode r s) = Inr g)"
  by (cases op) (auto simp: grant_op_defs gsCodeRedeemed_redeem)

section \<open>Authorization codes\<close>

definition grant_redeems :: "GrantStore \<Rightarrow> grant_op \<Rightarrow> digest option" where
  "grant_redeems s op =
     (case op of
        GRedeem r \<Rightarrow> (case fst (RedeemAuthorizationCode r s) of Inl _ \<Rightarrow> None | Inr _ \<Rightarrow> Some (crCodeHash r))
      | _ \<Rightarrow> None)"

lemma grant_redeems_Some:
  "grant_redeems s op = Some h \<longleftrightarrow>
     (\<exists>r g. op = GRedeem r \<and> h = crCodeHash r \<and> fst (RedeemAuthorizationCode r s) = Inr g)"
  by (auto simp: grant_redeems_def split: grant_op.splits sum.splits)

interpretation codes: single_use grant_step grant_redeems gsCodeRedeemed
proof
  show "\<not> gsCodeRedeemed s h" if "grant_redeems s op = Some h" for s op h
    using that by (auto simp: grant_redeems_Some RedeemAuthorizationCode_Inr)
qed (auto simp: gsCodeRedeemed_step grant_redeems_Some)

text \<open>The last access token key and refresh token recorded for a code.\<close>

fun last_issued_access :: "digest \<Rightarrow> grant_op list \<Rightarrow> string option \<Rightarrow> string option" where
  "last_issued_access h [] k = k"
| "last_issued_access h (GIssuedAccess h' k' # ops) k = last_issued_access h ops (if h' = h then Some k' else k)"
| "last_issued_access h (op # ops) k = last_issued_access h ops k"

fun last_issued_refresh :: "digest \<Rightarrow> grant_op list \<Rightarrow> digest option \<Rightarrow> digest option" where
  "last_issued_refresh h [] k = k"
| "last_issued_refresh h (GIssuedRefresh h' k' # ops) k = last_issued_refresh h ops (if h' = h then Some k' else k)"
| "last_issued_refresh h (op # ops) k = last_issued_refresh h ops k"

lemma gsCodeAccessKey_after:
  "gsCodeAccessKey (after grant_step ops s) h = last_issued_access h ops (gsCodeAccessKey s h)"
  by (induction h ops "gsCodeAccessKey s h" arbitrary: s rule: last_issued_access.induct)
    (simp_all add: grant_op_defs)

lemma gsCodeRefreshHash_after:
  "gsCodeRefreshHash (after grant_step ops s) h = last_issued_refresh h ops (gsCodeRefreshHash s h)"
  by (induction h ops "gsCodeRefreshHash s h" arbitrary: s rule: last_issued_refresh.induct)
    (simp_all add: grant_op_defs)

text \<open>
  C18. An authorization code is redeemed at most once, however redemptions and everything else
  interleave; every later attempt, by whichever client, is told which access token key and which
  refresh token were last recorded for it, which is what revoking them needs.
\<close>

theorem code_redeemed_once:
  "distinct (consumed grant_step grant_redeems ops s) \<and>
   (grant_redeems s op = Some (crCodeHash r) \<longrightarrow>
     (\<exists>c. fst (RedeemAuthorizationCode r (after grant_step ops (snd (grant_step op s)))) =
        Inl (CodeAlreadyRedeemed
          (case last_issued_access (crCodeHash r) ops (gsCodeAccessKey s (crCodeHash r)) of None \<Rightarrow> [] | Some k \<Rightarrow> k)
          (last_issued_refresh (crCodeHash r) ops (gsCodeRefreshHash s (crCodeHash r))) c)))"
proof (intro conjI impI)
  let ?s = "after grant_step ops (snd (grant_step op s))"
  assume u: "grant_redeems s op = Some (crCodeHash r)"
  then obtain r' where op: "op = GRedeem r'" by (auto simp: grant_redeems_Some)
  have "gsCodeRedeemed ?s (crCodeHash r)" by (rule codes.spent_after [OF codes.use_spends [OF u]])
  from RedeemAuthorizationCode_again [OF this] show "\<exists>c. fst (RedeemAuthorizationCode r ?s) = Inl (CodeAlreadyRedeemed
      (case last_issued_access (crCodeHash r) ops (gsCodeAccessKey s (crCodeHash r)) of None \<Rightarrow> [] | Some k \<Rightarrow> k)
      (last_issued_refresh (crCodeHash r) ops (gsCodeRefreshHash s (crCodeHash r))) c)"
    by (simp add: gsCodeAccessKey_after gsCodeRefreshHash_after op)
qed (rule codes.consumed_distinct)

definition example_code :: NewAuthorizationCode where
  "example_code = \<lparr>acCodeHash = [1], acClientID = ''c'', acGrant = Some (JStr ''g''), acExpiresAt = 60\<rparr>"

definition example_redemption :: AuthorizationCodeRedemption where
  "example_redemption = \<lparr>crCodeHash = [1], crClientID = ''c''\<rparr>"

lemma code_redeemed_once_witness:
  "\<exists>c. fst (RedeemAuthorizationCode example_redemption (after grant_step [GIssuedAccess [1] ''k'']
     (snd (grant_step (GRedeem example_redemption) (CreateAuthorizationCode example_code NewGrantStore))))) =
   Inl (CodeAlreadyRedeemed ''k'' None c)"
  using code_redeemed_once [of "[GIssuedAccess [1] ''k'']" "CreateAuthorizationCode example_code NewGrantStore"
      "GRedeem example_redemption" example_redemption]
  by (simp add: grant_redeems_def Let_def RedeemAuthorizationCode_def CreateAuthorizationCode_def NewGrantStore_def
      example_code_def example_redemption_def)

lemma gsCodes_reachable:
  "gsCodes (after grant_step ops NewGrantStore) h = Some code \<Longrightarrow> GCode code \<in> set ops \<and> acCodeHash code = h"
proof (induction ops rule: rev_induct)
  case (snoc op ops)
  then show ?case
    by (cases op) (auto simp: after_append grant_op_defs split: if_splits)
qed (simp add: NewGrantStore_def)

text \<open>
  What redeeming a code returns is what was stored under it, and a request that names a
  client only redeems that client's codes; a redemption that fails, whoever makes it, leaves the
  store as it was.
\<close>

theorem redeemed_was_created:
  assumes "fst (RedeemAuthorizationCode r (after grant_step ops NewGrantStore)) = Inr g"
  shows "(\<exists>code. GCode code \<in> set ops \<and> acCodeHash code = crCodeHash r \<and>
      (crClientID r = [] \<or> crClientID r = acClientID code) \<and>
      g = \<lparr>rgClientID = acClientID code, rgGrant = acGrant code, rgExpiresAt = acExpiresAt code\<rparr>) \<and>
    (\<forall>s e. fst (RedeemAuthorizationCode r s) = Inl e \<longrightarrow> snd (RedeemAuthorizationCode r s) = s)"
proof
  show "\<exists>code. GCode code \<in> set ops \<and> acCodeHash code = crCodeHash r \<and>
      (crClientID r = [] \<or> crClientID r = acClientID code) \<and>
      g = \<lparr>rgClientID = acClientID code, rgGrant = acGrant code, rgExpiresAt = acExpiresAt code\<rparr>"
    using assms gsCodes_reachable unfolding RedeemAuthorizationCode_Inr by blast
qed (auto simp: RedeemAuthorizationCode_def Let_def split: option.splits if_splits)

lemma redeemed_was_created_witness:
  "\<exists>code. GCode code \<in> {GCode example_code} \<and> rgClientID \<lparr>rgClientID = ''c'', rgGrant = Some (JStr ''g''), rgExpiresAt = 60\<rparr> = acClientID code"
proof -
  have "fst (RedeemAuthorizationCode example_redemption (after grant_step [GCode example_code] NewGrantStore)) =
      Inr \<lparr>rgClientID = ''c'', rgGrant = Some (JStr ''g''), rgExpiresAt = 60\<rparr>"
    by (simp add: Let_def RedeemAuthorizationCode_def CreateAuthorizationCode_def NewGrantStore_def
        example_code_def example_redemption_def)
  from redeemed_was_created [OF this] show ?thesis by auto
qed

section \<open>Refresh tokens\<close>

lemma gsRefreshRevoked_after:
  "gsRefreshRevoked (after grant_step ops s) h \<longleftrightarrow> gsRefreshRevoked s h \<or> GRevoke h \<in> set ops"
proof (induction ops arbitrary: s)
  case (Cons op ops)
  then show ?case by (cases op) (auto simp: grant_op_defs)
qed simp

lemma gsRefresh_after:
  "\<forall>tok. GRefresh tok \<in> set ops \<longrightarrow> rtTokenHash tok \<noteq> h \<Longrightarrow> gsRefresh (after grant_step ops s) h = gsRefresh s h"
proof (induction ops arbitrary: s)
  case (Cons op ops)
  then show ?case by (cases op) (auto simp: grant_op_defs)
qed simp

text \<open>
  A refresh token works, returning what it was created with, until it is revoked, and never
  after: not even creating it anew makes a revoked token work again.
\<close>

theorem refresh_until_revoked:
  assumes "\<not> gsRefreshRevoked s (rtTokenHash tok)"
    and "\<forall>tok'. GRefresh tok' \<in> set ops \<longrightarrow> rtTokenHash tok' \<noteq> rtTokenHash tok"
  shows "RedeemRefreshToken (rtTokenHash tok) (after grant_step ops (CreateRefreshToken tok s)) =
     (if GRevoke (rtTokenHash tok) \<in> set ops then Inl RefreshTokenRevoked
      else Inr \<lparr>rgClientID = rtClientID tok, rgGrant = rtGrant tok, rgExpiresAt = rtExpiresAt tok\<rparr>) \<and>
    (GRevoke (rtTokenHash tok) \<in> set ops \<longrightarrow>
     RedeemRefreshToken (rtTokenHash tok) (after grant_step ops' (after grant_step ops (CreateRefreshToken tok s))) =
       Inl RefreshTokenRevoked)"
  using assms
  by (auto simp: RedeemRefreshToken_def gsRefreshRevoked_after gsRefresh_after CreateRefreshToken_def)

lemma refresh_until_revoked_witness:
  "RedeemRefreshToken [2] (after grant_step [GRevoke [3]] (CreateRefreshToken
     \<lparr>rtTokenHash = [2], rtClientID = ''c'', rtGrant = None, rtExpiresAt = 9\<rparr> NewGrantStore)) =
   Inr \<lparr>rgClientID = ''c'', rgGrant = None, rgExpiresAt = 9\<rparr>"
  using refresh_until_revoked [of NewGrantStore "\<lparr>rtTokenHash = [2], rtClientID = ''c'', rtGrant = None, rtExpiresAt = 9\<rparr>"
      "[GRevoke [3]]" "[]"]
  by (simp add: NewGrantStore_def)

section \<open>Pairwise subjects\<close>

fun pairwise_step :: "PairwiseSubjectKey \<times> string \<Rightarrow> PairwiseSubjectStore \<Rightarrow> (store_error + string) \<times> PairwiseSubjectStore" where
  "pairwise_step (key, candidate) s = GetOrCreate key candidate s"

text \<open>The two maps are inverse to each other.\<close>

definition pairwise_inv :: "PairwiseSubjectStore \<Rightarrow> bool" where
  "pairwise_inv s \<longleftrightarrow> (\<forall>key body. pwBodies s key = Some body \<longleftrightarrow>
     pwSubjects s (psIssuer key, psSector key, body) = Some (psSubject key))"

lemma pairwise_inv_step: "pairwise_inv s \<Longrightarrow> pairwise_inv (snd (pairwise_step op s))"
  by (cases op) (auto simp: pairwise_inv_def GetOrCreate_def Let_def split: option.splits,
    metis option.distinct(1))

lemma pairwise_inv_reachable: "pairwise_inv (after pairwise_step ops NewPairwiseSubjectStore)"
  by (rule after_invariant [where P = pairwise_inv])
    (simp_all add: pairwise_inv_step, simp add: pairwise_inv_def NewPairwiseSubjectStore_def)

lemma GetOrCreate_body: "fst (GetOrCreate key c s) = Inr b \<Longrightarrow> pwBodies (snd (GetOrCreate key c s)) key = Some b"
  by (auto simp: GetOrCreate_def Let_def split: option.splits if_splits)

lemma pwBodies_after: "pwBodies s key = Some b \<Longrightarrow> pwBodies (after pairwise_step ops s) key = Some b"
  by (rule after_invariant [where P = "\<lambda>s. pwBodies s key = Some b"])
    (auto simp: GetOrCreate_def Let_def split: option.splits)

text \<open>
  C29. The subject a client's sector sees for a user never changes once it was given, stands for
  that user only, and leads back to the user.
\<close>

theorem pairwise_subject_stable:
  fixes ops ops' key candidate
  defines "s0 \<equiv> after pairwise_step ops NewPairwiseSubjectStore"
  defines "s \<equiv> after pairwise_step ops' (snd (GetOrCreate key candidate s0))"
  assumes "fst (GetOrCreate key candidate s0) = Inr body"
  shows "GetOrCreate key candidate' s = (Inr body, s) \<and>
     PairwiseSubject_Lookup (psIssuer key) (psSector key) body s = Inr (psSubject key) \<and>
     (psIssuer key' = psIssuer key \<and> psSector key' = psSector key \<and> psSubject key' \<noteq> psSubject key \<longrightarrow>
        fst (GetOrCreate key' candidate' s) \<noteq> Inr body)"
proof -
  have b: "pwBodies s key = Some body"
    unfolding s_def by (rule pwBodies_after [OF GetOrCreate_body [OF assms(3)]])
  have "s = after pairwise_step (ops @ (key, candidate) # ops') NewPairwiseSubjectStore"
    by (simp add: s_def s0_def after_append)
  then have inv: "pairwise_inv s" using pairwise_inv_reachable by simp
  with b have sub: "pwSubjects s (psIssuer key, psSector key, body) = Some (psSubject key)"
    by (auto simp: pairwise_inv_def)
  have "fst (GetOrCreate key' candidate' s) \<noteq> Inr body"
    if "psIssuer key' = psIssuer key" "psSector key' = psSector key" "psSubject key' \<noteq> psSubject key"
  proof
    assume "fst (GetOrCreate key' candidate' s) = Inr body"
    then have "pwBodies s key' = Some body"
      using sub that by (auto simp: GetOrCreate_def Let_def split: option.splits if_splits)
    with inv sub that show False by (simp add: pairwise_inv_def)
  qed
  with b sub show ?thesis by (simp add: GetOrCreate_def PairwiseSubject_Lookup_def)
qed

lemma pairwise_subject_stable_witness:
  "fst (GetOrCreate \<lparr>psIssuer = ''i'', psSector = ''s'', psSubject = ''v''\<rparr> ''x''
     (snd (GetOrCreate \<lparr>psIssuer = ''i'', psSector = ''s'', psSubject = ''u''\<rparr> ''x'' NewPairwiseSubjectStore))) \<noteq> Inr ''x''"
  using pairwise_subject_stable [of \<open>\<lparr>psIssuer = ''i'', psSector = ''s'', psSubject = ''u''\<rparr>\<close> "''x''" "[]" "''x''" "''x''" "[]"
      \<open>\<lparr>psIssuer = ''i'', psSector = ''s'', psSubject = ''v''\<rparr>\<close>]
  by (simp add: GetOrCreate_def NewPairwiseSubjectStore_def)

end
