(* ===== verification/Memstore_Ciba.thy ===== *)
theory Memstore_Ciba
  imports Memstore
begin

text \<open>
  The in-memory store of CIBA backchannel authentication requests,
  \<^verbatim>\<open>storage/memstore/backchannel_authentication_store.go\<close>. A record is shared by the two maps of
  the store: it lives in a heap of records, the maps hold its index, and a write through one map
  is seen through the other.
\<close>

datatype BackchannelAuthenticationStatus =
    BackchannelAuthenticationPending
  | BackchannelAuthenticationApproved
  | BackchannelAuthenticationDenied
  | BackchannelAuthenticationAuthenticationFailed

record NewBackchannelAuthentication =
  nbAuthReqIDHash :: digest
  nbAuthReqID :: string
  nbHandleHash :: digest
  nbClientID :: string
  nbRequest :: raw
  nbDeliveryMode :: string
  nbClientNotificationToken :: string
  nbPollInterval :: duration
  nbExpiresAt :: time

record LookedUpBackchannelAuthentication =
  luClientID :: string
  luRequest :: raw

record DecideBackchannelAuthentication =
  deHandleHash :: digest
  deStatus :: BackchannelAuthenticationStatus
  deGrant :: raw
  deReason :: string

record DecidedBackchannelAuthentication =
  ddClientID :: string
  ddDeliveryMode :: string
  ddClientNotificationToken :: string
  ddAuthReqID :: string

record PollBackchannelAuthentication =
  poAuthReqIDHash :: digest
  poNow :: time
  poClientID :: string

record PolledBackchannelAuthentication =
  pdStatus :: BackchannelAuthenticationStatus
  pdClientID :: string
  pdRequest :: raw
  pdGrant :: raw
  pdReason :: string

datatype backchannel_error =
    NoSuchBackchannelHandle
  | AlreadyDecided
  | NoSuchAuthReqID
  | AuthReqIDOfAnotherClient
  | BackchannelAuthenticationAlreadyRedeemed
  | BackchannelAuthenticationExpired
  | BackchannelAuthenticationSlowDown

record backchannelRecord =
  brClientID :: string
  brRequest :: raw
  brDeliveryMode :: string
  brClientNotificationToken :: string
  brAuthReqID :: string
  brPollInterval :: duration
  brExpiresAt :: time
  brStatus :: BackchannelAuthenticationStatus
  brGrant :: raw
  brReason :: string
  brRedeemed :: bool
  brPolledBefore :: bool
  brLastPolledAt :: time

text \<open>\<open>bsHeap\<close> are the records allocated so far, the pointers of the maps index it.\<close>

record BackchannelAuthenticationStore =
  bsHeap :: "backchannelRecord list"
  bsByAuthReqIDHash :: "digest \<rightharpoonup> nat"
  bsByHandleHash :: "digest \<rightharpoonup> nat"

definition NewBackchannelAuthenticationStore :: BackchannelAuthenticationStore where
  "NewBackchannelAuthenticationStore =
     \<lparr>bsHeap = [], bsByAuthReqIDHash = Map.empty, bsByHandleHash = Map.empty\<rparr>"

definition pending_record :: "NewBackchannelAuthentication \<Rightarrow> backchannelRecord" where
  "pending_record r =
     \<lparr>brClientID = nbClientID r, brRequest = nbRequest r, brDeliveryMode = nbDeliveryMode r,
      brClientNotificationToken = nbClientNotificationToken r, brAuthReqID = nbAuthReqID r,
      brPollInterval = nbPollInterval r, brExpiresAt = nbExpiresAt r,
      brStatus = BackchannelAuthenticationPending, brGrant = None, brReason = [],
      brRedeemed = False, brPolledBefore = False, brLastPolledAt = zero_time\<rparr>"

definition CreateBackchannelAuthentication ::
    "NewBackchannelAuthentication \<Rightarrow> BackchannelAuthenticationStore \<Rightarrow> BackchannelAuthenticationStore" where
  "CreateBackchannelAuthentication r s =
     (let p = length (bsHeap s) in
      \<lparr>bsHeap = bsHeap s @ [pending_record r],
       bsByAuthReqIDHash = (bsByAuthReqIDHash s)(nbAuthReqIDHash r \<mapsto> p),
       bsByHandleHash = (bsByHandleHash s)(nbHandleHash r \<mapsto> p)\<rparr>)"

definition deref :: "BackchannelAuthenticationStore \<Rightarrow> nat option \<Rightarrow> backchannelRecord option" where
  "deref s p = (case p of None \<Rightarrow> None | Some i \<Rightarrow> if i < length (bsHeap s) then Some (bsHeap s ! i) else None)"

definition bc_write :: "nat option \<Rightarrow> backchannelRecord \<Rightarrow> BackchannelAuthenticationStore \<Rightarrow> BackchannelAuthenticationStore" where
  "bc_write p r s = (case p of None \<Rightarrow> s | Some i \<Rightarrow> s\<lparr>bsHeap := (bsHeap s)[i := r]\<rparr>)"

definition LookupBackchannelAuthentication ::
    "digest \<Rightarrow> BackchannelAuthenticationStore \<Rightarrow> backchannel_error + LookedUpBackchannelAuthentication" where
  "LookupBackchannelAuthentication h s =
     (case deref s (bsByHandleHash s h) of
        None \<Rightarrow> Inl NoSuchBackchannelHandle
      | Some r \<Rightarrow> Inr \<lparr>luClientID = brClientID r, luRequest = brRequest r\<rparr>)"

definition decide_record :: "DecideBackchannelAuthentication \<Rightarrow> backchannelRecord \<Rightarrow> backchannelRecord" where
  "decide_record d r =
     (let r = r\<lparr>brStatus := deStatus d, brGrant := deGrant d, brReason := deReason d\<rparr> in
      if brDeliveryMode r = ''ping'' then r\<lparr>brPolledBefore := False\<rparr> else r)"

definition DecideBackchannelAuthentication ::
    "DecideBackchannelAuthentication \<Rightarrow> BackchannelAuthenticationStore
     \<Rightarrow> (backchannel_error + DecidedBackchannelAuthentication) \<times> BackchannelAuthenticationStore" where
  "DecideBackchannelAuthentication d s =
     (let p = bsByHandleHash s (deHandleHash d) in
      case deref s p of
        None \<Rightarrow> (Inl NoSuchBackchannelHandle, s)
      | Some r \<Rightarrow>
          if brStatus r \<noteq> BackchannelAuthenticationPending then (Inl AlreadyDecided, s)
          else (Inr \<lparr>ddClientID = brClientID r, ddDeliveryMode = brDeliveryMode r,
                     ddClientNotificationToken = brClientNotificationToken r, ddAuthReqID = brAuthReqID r\<rparr>,
                bc_write p (decide_record d r) s))"

definition poll_record ::
    "PollBackchannelAuthentication \<Rightarrow> backchannelRecord
     \<Rightarrow> (backchannel_error + PolledBackchannelAuthentication) \<times> backchannelRecord" where
  "poll_record poll r =
     (if poClientID poll \<noteq> [] \<and> poClientID poll \<noteq> brClientID r then (Inl AuthReqIDOfAnotherClient, r)
      else if brRedeemed r then (Inl BackchannelAuthenticationAlreadyRedeemed, r)
      else if \<not> poNow poll < brExpiresAt r then (Inl BackchannelAuthenticationExpired, r)
      else if brPolledBefore r \<and> time_sub (poNow poll) (brLastPolledAt r) < brPollInterval r
      then (Inl BackchannelAuthenticationSlowDown, r\<lparr>brLastPolledAt := poNow poll\<rparr>)
      else (Inr \<lparr>pdStatus = brStatus r, pdClientID = brClientID r, pdRequest = brRequest r,
                 pdGrant = brGrant r, pdReason = brReason r\<rparr>,
            r\<lparr>brPolledBefore := True, brLastPolledAt := poNow poll,
              brRedeemed := brStatus r = BackchannelAuthenticationApproved\<rparr>))"

definition PollBackchannelAuthentication ::
    "PollBackchannelAuthentication \<Rightarrow> BackchannelAuthenticationStore
     \<Rightarrow> (backchannel_error + PolledBackchannelAuthentication) \<times> BackchannelAuthenticationStore" where
  "PollBackchannelAuthentication poll s =
     (let p = bsByAuthReqIDHash s (poAuthReqIDHash poll) in
      case deref s p of
        None \<Rightarrow> (Inl NoSuchAuthReqID, s)
      | Some r \<Rightarrow> apsnd (\<lambda>r'. bc_write p r' s) (poll_record poll r))"

end
