(* ===== verification/Memstore_Ciba_Properties.thy ===== *)
theory Memstore_Ciba_Properties
  imports Memstore_Ciba
begin

text \<open>
  What holds of backchannel authentication requests for every sequence of operations on their
  store: one decision and one redemption of the approval each, polls that return what was created
  and decided, the pace of polling.
\<close>

datatype bc_op =
    BCreate NewBackchannelAuthentication
  | BDecide DecideBackchannelAuthentication
  | BPoll PollBackchannelAuthentication

fun bc_step :: "bc_op \<Rightarrow> BackchannelAuthenticationStore
    \<Rightarrow> (backchannel_error + PolledBackchannelAuthentication option) \<times> BackchannelAuthenticationStore" where
  "bc_step (BCreate r) s = (Inr None, CreateBackchannelAuthentication r s)"
| "bc_step (BDecide d) s = apfst (map_sum (\<lambda>e. e) (\<lambda>_. None)) (DecideBackchannelAuthentication d s)"
| "bc_step (BPoll poll) s = apfst (map_sum (\<lambda>e. e) Some) (PollBackchannelAuthentication poll s)"

section \<open>What an operation does to the records\<close>

lemma deref_Some: "deref s p = Some r \<longleftrightarrow> (\<exists>i. p = Some i \<and> i < length (bsHeap s) \<and> bsHeap s ! i = r)"
  by (auto simp: deref_def split: option.splits)

lemma poll_record_cases:
  obtains (refused) e where "poll_record poll r = (Inl e, r)"
  | (slow) "poll_record poll r = (Inl BackchannelAuthenticationSlowDown, r\<lparr>brLastPolledAt := poNow poll\<rparr>)"
  | (polled) "poClientID poll = [] \<or> poClientID poll = brClientID r" "\<not> brRedeemed r" "poNow poll < brExpiresAt r"
      "brPolledBefore r \<longrightarrow> brPollInterval r \<le> time_sub (poNow poll) (brLastPolledAt r)"
      "poll_record poll r =
         (Inr \<lparr>pdStatus = brStatus r, pdClientID = brClientID r, pdRequest = brRequest r,
               pdGrant = brGrant r, pdReason = brReason r\<rparr>,
          r\<lparr>brPolledBefore := True, brLastPolledAt := poNow poll,
            brRedeemed := brStatus r = BackchannelAuthenticationApproved\<rparr>)"
proof -
  consider "poClientID poll \<noteq> [] \<and> poClientID poll \<noteq> brClientID r \<or> brRedeemed r \<or> \<not> poNow poll < brExpiresAt r"
    | "\<not> (poClientID poll \<noteq> [] \<and> poClientID poll \<noteq> brClientID r)" "\<not> brRedeemed r" "poNow poll < brExpiresAt r"
      "brPolledBefore r \<and> time_sub (poNow poll) (brLastPolledAt r) < brPollInterval r"
    | "\<not> (poClientID poll \<noteq> [] \<and> poClientID poll \<noteq> brClientID r)" "\<not> brRedeemed r" "poNow poll < brExpiresAt r"
      "\<not> (brPolledBefore r \<and> time_sub (poNow poll) (brLastPolledAt r) < brPollInterval r)"
    by blast
  then show thesis
  proof cases
    case 1
    then have "\<exists>e. poll_record poll r = (Inl e, r)" by (auto simp: poll_record_def)
    then show thesis using refused by blast
  next
    case 2
    then show thesis using slow by (simp add: poll_record_def)
  next
    case 3
    then show thesis by (intro polled) (auto simp: poll_record_def)
  qed
qed

text \<open>An operation allocates a record, writes a decided or a polled one, or changes nothing.\<close>

lemma bc_step_cases:
  obtains (created) r where "op = BCreate r" "snd (bc_step op s) = CreateBackchannelAuthentication r s"
  | (decided) d i where "op = BDecide d" "bsByHandleHash s (deHandleHash d) = Some i" "i < length (bsHeap s)"
      "brStatus (bsHeap s ! i) = BackchannelAuthenticationPending"
      "snd (bc_step op s) = s\<lparr>bsHeap := (bsHeap s)[i := decide_record d (bsHeap s ! i)]\<rparr>"
  | (polled) poll i where "op = BPoll poll" "bsByAuthReqIDHash s (poAuthReqIDHash poll) = Some i" "i < length (bsHeap s)"
      "fst (bc_step op s) = map_sum (\<lambda>e. e) Some (fst (poll_record poll (bsHeap s ! i)))"
      "snd (bc_step op s) = s\<lparr>bsHeap := (bsHeap s)[i := snd (poll_record poll (bsHeap s ! i))]\<rparr>"
  | (unchanged) e where "fst (bc_step op s) = Inl e" "snd (bc_step op s) = s"
proof (cases op)
  case (BCreate r)
  then show thesis by (intro created) simp_all
next
  case (BDecide d)
  show thesis
  proof (cases "deref s (bsByHandleHash s (deHandleHash d))")
    case None
    then have "fst (bc_step op s) = Inl NoSuchBackchannelHandle" "snd (bc_step op s) = s" by (simp_all add: BDecide DecideBackchannelAuthentication_def)
    then show thesis by (rule unchanged)
  next
    case (Some r)
    then obtain i where i: "bsByHandleHash s (deHandleHash d) = Some i" "i < length (bsHeap s)" "bsHeap s ! i = r"
      by (auto simp: deref_Some)
    show thesis
    proof (cases "brStatus r = BackchannelAuthenticationPending")
      case True
      with i Some show thesis
        by (intro decided [OF BDecide i(1,2)]) (simp_all add: BDecide DecideBackchannelAuthentication_def bc_write_def)
    next
      case False
      with Some have "fst (bc_step op s) = Inl AlreadyDecided" "snd (bc_step op s) = s"
        by (simp_all add: BDecide DecideBackchannelAuthentication_def)
      then show thesis by (rule unchanged)
    qed
  qed
next
  case (BPoll poll)
  show thesis
  proof (cases "deref s (bsByAuthReqIDHash s (poAuthReqIDHash poll))")
    case None
    then have "fst (bc_step op s) = Inl NoSuchAuthReqID" "snd (bc_step op s) = s" by (simp_all add: BPoll PollBackchannelAuthentication_def)
    then show thesis by (rule unchanged)
  next
    case (Some r)
    then obtain i where i: "bsByAuthReqIDHash s (poAuthReqIDHash poll) = Some i" "i < length (bsHeap s)" "bsHeap s ! i = r"
      by (auto simp: deref_Some)
    with Some show thesis
      by (intro polled [OF BPoll i(1,2)])
        (simp_all add: BPoll PollBackchannelAuthentication_def bc_write_def)
  qed
qed

section \<open>Single use\<close>

text \<open>What an operation decides or redeems is the record itself, by its place in the heap.\<close>

definition bc_decides :: "BackchannelAuthenticationStore \<Rightarrow> bc_op \<Rightarrow> nat option" where
  "bc_decides s op =
     (case op of
        BDecide d \<Rightarrow>
          (case fst (DecideBackchannelAuthentication d s) of
             Inl _ \<Rightarrow> None
           | Inr _ \<Rightarrow> if deStatus d = BackchannelAuthenticationPending then None
                      else bsByHandleHash s (deHandleHash d))
      | _ \<Rightarrow> None)"

definition bc_redeems :: "BackchannelAuthenticationStore \<Rightarrow> bc_op \<Rightarrow> nat option" where
  "bc_redeems s op =
     (case op of
        BPoll poll \<Rightarrow>
          (case fst (PollBackchannelAuthentication poll s) of
             Inl _ \<Rightarrow> None
           | Inr res \<Rightarrow> if pdStatus res = BackchannelAuthenticationApproved
                        then bsByAuthReqIDHash s (poAuthReqIDHash poll) else None)
      | _ \<Rightarrow> None)"

definition bc_decided :: "BackchannelAuthenticationStore \<Rightarrow> nat \<Rightarrow> bool" where
  "bc_decided s i \<longleftrightarrow> i < length (bsHeap s) \<and> brStatus (bsHeap s ! i) \<noteq> BackchannelAuthenticationPending"

definition bc_redeemed :: "BackchannelAuthenticationStore \<Rightarrow> nat \<Rightarrow> bool" where
  "bc_redeemed s i \<longleftrightarrow> i < length (bsHeap s) \<and> brRedeemed (bsHeap s ! i)"

lemma bc_decides_Some:
  "bc_decides s op = Some i \<longleftrightarrow>
     (\<exists>d. op = BDecide d \<and> bsByHandleHash s (deHandleHash d) = Some i \<and> i < length (bsHeap s) \<and>
        brStatus (bsHeap s ! i) = BackchannelAuthenticationPending \<and>
        deStatus d \<noteq> BackchannelAuthenticationPending)"
  by (auto simp: bc_decides_def DecideBackchannelAuthentication_def deref_def Let_def
      split: bc_op.splits option.splits if_splits)

lemma bc_redeems_Some:
  "bc_redeems s op = Some i \<longleftrightarrow>
     (\<exists>poll res. op = BPoll poll \<and> bsByAuthReqIDHash s (poAuthReqIDHash poll) = Some i \<and> i < length (bsHeap s) \<and>
        fst (poll_record poll (bsHeap s ! i)) = Inr res \<and> pdStatus res = BackchannelAuthenticationApproved)"
  by (auto simp: bc_redeems_def PollBackchannelAuthentication_def deref_def Let_def
      split: bc_op.splits option.splits sum.splits if_splits)

lemma brStatus_decide [simp]: "brStatus (decide_record d r) = deStatus d"
  "brRedeemed (decide_record d r) = brRedeemed r"
  by (simp_all add: decide_record_def Let_def)

lemma brStatus_poll [simp]: "brStatus (snd (poll_record poll r)) = brStatus r"
  by (cases rule: poll_record_cases [of poll r]) simp_all

lemma brRedeemed_poll: "brRedeemed r \<Longrightarrow> brRedeemed (snd (poll_record poll r))"
  by (cases rule: poll_record_cases [of poll r]) simp_all

interpretation decisions: single_use bc_step bc_decides bc_decided
proof
  fix s op i
  show "\<not> bc_decided s i" if "bc_decides s op = Some i"
    using that by (auto simp: bc_decides_Some bc_decided_def)
  show "bc_decided (snd (bc_step op s)) i" if "bc_decides s op = Some i"
    using that by (auto simp: bc_decides_Some bc_decided_def DecideBackchannelAuthentication_def deref_def bc_write_def)
  show "bc_decided (snd (bc_step op s)) i" if "bc_decided s i"
    using that by (cases op s rule: bc_step_cases)
      (auto simp: bc_decided_def CreateBackchannelAuthentication_def Let_def nth_append nth_list_update)
qed

interpretation approvals: single_use bc_step bc_redeems bc_redeemed
proof
  fix s op i
  show "\<not> bc_redeemed s i" if use: "bc_redeems s op = Some i"
  proof
    assume "bc_redeemed s i"
    with use obtain poll res where "brRedeemed (bsHeap s ! i)" "fst (poll_record poll (bsHeap s ! i)) = Inr res"
      by (auto simp: bc_redeems_Some bc_redeemed_def)
    then show False by (simp add: poll_record_def split: if_splits)
  qed
  show "bc_redeemed (snd (bc_step op s)) i" if "bc_redeems s op = Some i"
  proof -
    from that obtain poll res where p: "op = BPoll poll" "bsByAuthReqIDHash s (poAuthReqIDHash poll) = Some i"
      "i < length (bsHeap s)" "fst (poll_record poll (bsHeap s ! i)) = Inr res"
      "pdStatus res = BackchannelAuthenticationApproved"
      by (auto simp: bc_redeems_Some)
    have "brRedeemed (snd (poll_record poll (bsHeap s ! i)))"
      using p(4,5) by (cases rule: poll_record_cases [of poll "bsHeap s ! i"]) auto
    with p show ?thesis by (simp add: bc_redeemed_def PollBackchannelAuthentication_def deref_def bc_write_def)
  qed
  show "bc_redeemed (snd (bc_step op s)) i" if "bc_redeemed s i"
    using that by (cases op s rule: bc_step_cases)
      (auto simp: bc_redeemed_def CreateBackchannelAuthentication_def Let_def nth_append nth_list_update brRedeemed_poll)
qed

text \<open>
  C30. A backchannel authentication request is decided at most once and its approval is redeemed
  at most once, in every interleaving of decisions and polls; once redeemed, no poll answers with
  a status again.
\<close>

theorem backchannel_single_use:
  "distinct (consumed bc_step bc_decides ops s) \<and> distinct (consumed bc_step bc_redeems ops s) \<and>
   (bc_redeems s op = Some i \<and>
    bsByAuthReqIDHash (after bc_step ops (snd (bc_step op s))) (poAuthReqIDHash poll) = Some i \<longrightarrow>
      (\<forall>res. fst (PollBackchannelAuthentication poll (after bc_step ops (snd (bc_step op s)))) \<noteq> Inr res))"
proof (intro conjI impI allI)
  fix res
  let ?s = "after bc_step ops (snd (bc_step op s))"
  assume a: "bc_redeems s op = Some i \<and> bsByAuthReqIDHash ?s (poAuthReqIDHash poll) = Some i"
  then have "bc_redeemed ?s i" by (blast intro: approvals.spent_after approvals.use_spends)
  then have r: "i < length (bsHeap ?s)" "brRedeemed (bsHeap ?s ! i)" by (auto simp: bc_redeemed_def)
  show "fst (PollBackchannelAuthentication poll ?s) \<noteq> Inr res"
    using a r by (simp add: PollBackchannelAuthentication_def deref_def poll_record_def)
qed (rule decisions.consumed_distinct approvals.consumed_distinct)+

section \<open>What a poll returns\<close>

fun bc_created :: "bc_op list \<Rightarrow> NewBackchannelAuthentication list" where
  "bc_created [] = []"
| "bc_created (BCreate r # ops) = r # bc_created ops"
| "bc_created (op # ops) = bc_created ops"

lemma bc_created_append [simp]: "bc_created (xs @ ys) = bc_created xs @ bc_created ys"
  by (induction xs rule: bc_created.induct) simp_all

lemma set_bc_created: "r \<in> set (bc_created ops) \<longleftrightarrow> BCreate r \<in> set ops"
  by (induction ops rule: bc_created.induct) auto

text \<open>A record of the store is as it was created, and decided as some decision on it said.\<close>

definition record_ok :: "bc_op list \<Rightarrow> NewBackchannelAuthentication \<Rightarrow> backchannelRecord \<Rightarrow> bool" where
  "record_ok ops nb r \<longleftrightarrow>
     brClientID r = nbClientID nb \<and> brRequest r = nbRequest nb \<and> brExpiresAt r = nbExpiresAt nb \<and>
     brPollInterval r = nbPollInterval nb \<and> brDeliveryMode r = nbDeliveryMode nb \<and>
     (brStatus r \<noteq> BackchannelAuthenticationPending \<longrightarrow>
        (\<exists>d. BDecide d \<in> set ops \<and> deHandleHash d = nbHandleHash nb \<and> deStatus d = brStatus r \<and>
           deGrant d = brGrant r \<and> deReason d = brReason r)) \<and>
     (brRedeemed r \<longrightarrow> brStatus r = BackchannelAuthenticationApproved)"

definition bc_inv :: "bc_op list \<Rightarrow> BackchannelAuthenticationStore \<Rightarrow> bool" where
  "bc_inv ops s \<longleftrightarrow>
     list_all2 (record_ok ops) (bc_created ops) (bsHeap s) \<and>
     (\<forall>h i. bsByAuthReqIDHash s h = Some i \<longrightarrow>
        i < length (bsHeap s) \<and> nbAuthReqIDHash (bc_created ops ! i) = h) \<and>
     (\<forall>h i. bsByHandleHash s h = Some i \<longrightarrow>
        i < length (bsHeap s) \<and> nbHandleHash (bc_created ops ! i) = h)"

lemma bc_inv_length: "bc_inv ops s \<Longrightarrow> length (bc_created ops) = length (bsHeap s)"
  unfolding bc_inv_def by (blast dest: list_all2_lengthD)

lemma record_ok_mono: "record_ok ops nb r \<Longrightarrow> record_ok (ops @ ops') nb r"
  unfolding record_ok_def by (elim conjE, intro conjI impI) auto

lemma record_ok_pending: "record_ok ops nb (pending_record nb)"
  by (simp add: record_ok_def pending_record_def)

lemma record_ok_decide:
  assumes "record_ok ops nb r" "BDecide d \<in> set ops'" "deHandleHash d = nbHandleHash nb"
    "brStatus r = BackchannelAuthenticationPending"
  shows "record_ok ops' nb (decide_record d r)"
  using assms by (auto simp: record_ok_def decide_record_def Let_def)

lemma record_ok_poll: "record_ok ops nb r \<Longrightarrow> record_ok ops nb (snd (poll_record poll r))"
  by (cases rule: poll_record_cases [of poll r]) (simp_all add: record_ok_def)

lemma bc_inv_update:
  assumes "bc_inv ops s" "i < length (bsHeap s)" "bc_created (ops @ [op]) = bc_created ops"
    and "\<And>nb. record_ok ops nb (bsHeap s ! i) \<Longrightarrow> nb = bc_created ops ! i \<Longrightarrow> record_ok (ops @ [op]) nb r"
  shows "bc_inv (ops @ [op]) (s\<lparr>bsHeap := (bsHeap s)[i := r]\<rparr>)"
proof -
  have "list_all2 (record_ok (ops @ [op])) (bc_created ops) ((bsHeap s)[i := r])"
    unfolding list_all2_conv_all_nth
  proof (intro conjI allI impI)
    show "length (bc_created ops) = length ((bsHeap s)[i := r])"
      using bc_inv_length [OF assms(1)] by simp
    fix j assume j: "j < length (bc_created ops)"
    then have "record_ok ops (bc_created ops ! j) (bsHeap s ! j)"
      using assms(1) by (simp add: bc_inv_def list_all2_nthD)
    with assms(2,4) j show "record_ok (ops @ [op]) (bc_created ops ! j) ((bsHeap s)[i := r] ! j)"
      by (cases "j = i") (auto simp: record_ok_mono)
  qed
  with assms(1,3) show ?thesis by (simp add: bc_inv_def)
qed

lemma bc_inv_create:
  assumes inv: "bc_inv ops s"
  shows "bc_inv (ops @ [BCreate r]) (CreateBackchannelAuthentication r s)"
proof -
  have "list_all2 (record_ok (ops @ [BCreate r])) (bc_created ops) (bsHeap s)"
    using inv by (auto simp: bc_inv_def intro: list_all2_mono record_ok_mono)
  with inv bc_inv_length [OF inv] show ?thesis
    by (auto simp: bc_inv_def CreateBackchannelAuthentication_def Let_def record_ok_pending
        list_all2_append nth_append less_SucI split: if_splits)
qed

lemma bc_inv_reachable: "bc_inv ops (after bc_step ops NewBackchannelAuthenticationStore)"
proof (induction ops rule: rev_induct)
  case Nil
  show ?case by (simp add: bc_inv_def NewBackchannelAuthenticationStore_def)
next
  case (snoc op ops)
  let ?s = "after bc_step ops NewBackchannelAuthenticationStore"
  have after: "after bc_step (ops @ [op]) NewBackchannelAuthenticationStore = snd (bc_step op ?s)"
    by (simp add: after_append)
  show ?case
  proof (cases op ?s rule: bc_step_cases)
    case (created r)
    with bc_inv_create [OF snoc.IH] show ?thesis unfolding after by simp
  next
    case (decided d i)
    have "nbHandleHash (bc_created ops ! i) = deHandleHash d"
      using snoc.IH decided(2) by (simp add: bc_inv_def)
    with decided show ?thesis
      unfolding after by (auto intro!: bc_inv_update [OF snoc.IH] intro: record_ok_decide)
  next
    case (polled poll i)
    then show ?thesis
      unfolding after by (auto intro!: bc_inv_update [OF snoc.IH] intro: record_ok_mono record_ok_poll)
  next
    case (unchanged e)
    then have "op \<notin> range BCreate" by auto
    then have "bc_created (ops @ [op]) = bc_created ops" by (cases op) auto
    with snoc.IH show ?thesis
      unfolding after unchanged(2) bc_inv_def by (auto intro: list_all2_mono record_ok_mono)
  qed
qed

lemma poll_reachable:
  fixes ops
  defines "s \<equiv> after bc_step ops NewBackchannelAuthenticationStore"
  assumes "fst (PollBackchannelAuthentication poll s) = Inr res"
  obtains i nb r where "bsByAuthReqIDHash s (poAuthReqIDHash poll) = Some i" "i < length (bsHeap s)"
    "r = bsHeap s ! i" "BCreate nb \<in> set ops" "nbAuthReqIDHash nb = poAuthReqIDHash poll"
    "record_ok ops nb r" "fst (poll_record poll r) = Inr res"
proof -
  have inv: "bc_inv ops s" unfolding s_def by (rule bc_inv_reachable)
  from assms(2) obtain i where i: "bsByAuthReqIDHash s (poAuthReqIDHash poll) = Some i" "i < length (bsHeap s)"
    "fst (poll_record poll (bsHeap s ! i)) = Inr res"
    by (auto simp: PollBackchannelAuthentication_def deref_def Let_def split: option.splits if_splits)
  with inv have "nbAuthReqIDHash (bc_created ops ! i) = poAuthReqIDHash poll"
    and len: "length (bc_created ops) = length (bsHeap s)"
    by (auto simp: bc_inv_def dest: list_all2_lengthD)
  moreover have "BCreate (bc_created ops ! i) \<in> set ops"
    using i(2) len by (simp flip: set_bc_created)
  moreover have "record_ok ops (bc_created ops ! i) (bsHeap s ! i)"
    using inv i(2) by (simp add: bc_inv_def list_all2_nthD2)
  ultimately show thesis using that i by blast
qed

text \<open>
  What a poll answers with: the client and the request as created under the presented
  identifier, not expired, and asked by that client when the poll names one; the answer is that no
  decision was recorded yet, or what a decision on that very request said, grant and reason with it.
\<close>

theorem polled_was_decided:
  assumes "fst (PollBackchannelAuthentication poll (after bc_step ops NewBackchannelAuthenticationStore)) = Inr res"
  shows "\<exists>nb. BCreate nb \<in> set ops \<and> nbAuthReqIDHash nb = poAuthReqIDHash poll \<and>
     pdClientID res = nbClientID nb \<and> pdRequest res = nbRequest nb \<and> poNow poll < nbExpiresAt nb \<and>
     (poClientID poll = [] \<or> poClientID poll = nbClientID nb) \<and>
     (pdStatus res = BackchannelAuthenticationPending \<or>
      (\<exists>d. BDecide d \<in> set ops \<and> deHandleHash d = nbHandleHash nb \<and> deStatus d = pdStatus res \<and>
         deGrant d = pdGrant res \<and> deReason d = pdReason res))"
proof (rule poll_reachable [OF assms])
  fix i r and nb :: NewBackchannelAuthentication
  assume nb: "BCreate nb \<in> set ops" "nbAuthReqIDHash nb = poAuthReqIDHash poll" and ok: "record_ok ops nb r"
    and poll: "fst (poll_record poll r) = Inr res"
  have "pdClientID res = brClientID r \<and> pdRequest res = brRequest r \<and> poNow poll < brExpiresAt r \<and>
     (poClientID poll = [] \<or> poClientID poll = brClientID r) \<and> pdStatus res = brStatus r \<and>
     pdGrant res = brGrant r \<and> pdReason res = brReason r"
    using poll by (cases rule: poll_record_cases [of poll r]) auto
  with ok nb show ?thesis
    unfolding record_ok_def by (intro exI [of _ nb]) metis
qed

definition example_ciba :: NewBackchannelAuthentication where
  "example_ciba = \<lparr>nbAuthReqIDHash = [1], nbAuthReqID = ''a'', nbHandleHash = [2], nbClientID = ''c'',
     nbRequest = Some (JStr ''q''), nbDeliveryMode = ''ping'', nbClientNotificationToken = ''t'',
     nbPollInterval = 5, nbExpiresAt = 60\<rparr>"

definition example_decision :: DecideBackchannelAuthentication where
  "example_decision = \<lparr>deHandleHash = [2], deStatus = BackchannelAuthenticationApproved,
     deGrant = Some (JStr ''g''), deReason = []\<rparr>"

definition example_poll :: "time \<Rightarrow> PollBackchannelAuthentication" where
  "example_poll now = \<lparr>poAuthReqIDHash = [1], poNow = now, poClientID = ''c''\<rparr>"

lemmas example_ciba_simps =
  example_ciba_def example_decision_def example_poll_def CreateBackchannelAuthentication_def
  DecideBackchannelAuthentication_def PollBackchannelAuthentication_def NewBackchannelAuthenticationStore_def
  pending_record_def decide_record_def poll_record_def deref_def bc_write_def Let_def

lemma backchannel_single_use_witness:
  "fst (PollBackchannelAuthentication (example_poll 30) (snd (bc_step (BPoll (example_poll 10))
     (after bc_step [BCreate example_ciba, BDecide example_decision] NewBackchannelAuthenticationStore)))) \<noteq>
   Inr \<lparr>pdStatus = BackchannelAuthenticationApproved, pdClientID = ''c'', pdRequest = Some (JStr ''q''),
     pdGrant = Some (JStr ''g''), pdReason = []\<rparr>"
  using backchannel_single_use [of "[]" "after bc_step [BCreate example_ciba, BDecide example_decision]
    NewBackchannelAuthenticationStore" "BPoll (example_poll 10)" 0 "example_poll 30"]
  by (simp add: bc_redeems_def example_ciba_simps)

lemma polled_was_decided_witness:
  "\<exists>d. BDecide d \<in> {BDecide example_decision} \<and> deGrant d = Some (JStr ''g'')"
proof -
  have "fst (PollBackchannelAuthentication (example_poll 10)
      (after bc_step [BCreate example_ciba, BDecide example_decision] NewBackchannelAuthenticationStore)) =
    Inr \<lparr>pdStatus = BackchannelAuthenticationApproved, pdClientID = ''c'', pdRequest = Some (JStr ''q''),
      pdGrant = Some (JStr ''g''), pdReason = []\<rparr>"
    by (simp add: example_ciba_simps)
  from polled_was_decided [OF this] show ?thesis by auto
qed

section \<open>The pace of polling\<close>

lemma poll_deref:
  "deref s (bsByAuthReqIDHash s (poAuthReqIDHash poll)) = Some r \<Longrightarrow>
     fst (PollBackchannelAuthentication poll s) = fst (poll_record poll r) \<and>
     bsByAuthReqIDHash (snd (PollBackchannelAuthentication poll s)) = bsByAuthReqIDHash s \<and>
     deref (snd (PollBackchannelAuthentication poll s)) (bsByAuthReqIDHash s (poAuthReqIDHash poll)) =
       Some (snd (poll_record poll r))"
  by (auto simp: PollBackchannelAuthentication_def deref_def bc_write_def Let_def split: option.splits if_splits)

lemma decide_deref:
  assumes "fst (DecideBackchannelAuthentication d s) = Inr dd"
  obtains i r where "bsByHandleHash s (deHandleHash d) = Some i" "deref s (Some i) = Some r"
    "brStatus r = BackchannelAuthenticationPending" "ddDeliveryMode dd = brDeliveryMode r"
    "bsByAuthReqIDHash (snd (DecideBackchannelAuthentication d s)) = bsByAuthReqIDHash s"
    "deref (snd (DecideBackchannelAuthentication d s)) (Some i) = Some (decide_record d r)"
  using assms
  by (auto simp: DecideBackchannelAuthentication_def Let_def bc_write_def deref_def
      split: option.splits if_splits)

text \<open>
  A client that polls again before its interval has passed gets no answer; the one exception
  is the poll after a ping, which is answered at once with what was decided.
\<close>

theorem poll_pace:
  fixes ops
  defines "s \<equiv> after bc_step ops NewBackchannelAuthenticationStore"
  assumes r: "deref s (bsByAuthReqIDHash s (poAuthReqIDHash poll)) = Some r"
  shows "(\<forall>poll'. poAuthReqIDHash poll' = poAuthReqIDHash poll \<and>
       (fst (PollBackchannelAuthentication poll s) = Inl BackchannelAuthenticationSlowDown \<or>
        (\<exists>res. fst (PollBackchannelAuthentication poll s) = Inr res)) \<and>
       time_sub (poNow poll') (poNow poll) < brPollInterval r \<longrightarrow>
       (\<forall>res. fst (PollBackchannelAuthentication poll' (snd (PollBackchannelAuthentication poll s))) \<noteq> Inr res)) \<and>
     (\<forall>d dd. fst (DecideBackchannelAuthentication d s) = Inr dd \<and> ddDeliveryMode dd = ''ping'' \<and>
       bsByHandleHash s (deHandleHash d) = bsByAuthReqIDHash s (poAuthReqIDHash poll) \<and>
       poNow poll < brExpiresAt r \<and> (poClientID poll = [] \<or> poClientID poll = brClientID r) \<longrightarrow>
       fst (PollBackchannelAuthentication poll (snd (DecideBackchannelAuthentication d s))) =
         Inr \<lparr>pdStatus = deStatus d, pdClientID = brClientID r, pdRequest = brRequest r,
           pdGrant = deGrant d, pdReason = deReason d\<rparr>)"
proof (intro conjI allI impI; elim conjE)
  fix poll' :: PollBackchannelAuthentication and res
  assume h: "poAuthReqIDHash poll' = poAuthReqIDHash poll"
    and a: "fst (PollBackchannelAuthentication poll s) = Inl BackchannelAuthenticationSlowDown \<or>
        (\<exists>res. fst (PollBackchannelAuthentication poll s) = Inr res)"
    and early: "time_sub (poNow poll') (poNow poll) < brPollInterval r"
  let ?s = "snd (PollBackchannelAuthentication poll s)"
  have "fst (PollBackchannelAuthentication poll' ?s) = fst (poll_record poll' (snd (poll_record poll r)))"
    using poll_deref [OF r] h by (intro conjunct1 [OF poll_deref]) simp
  moreover have "fst (poll_record poll r) = Inl BackchannelAuthenticationSlowDown \<or>
      (\<exists>res. fst (poll_record poll r) = Inr res)"
    using a poll_deref [OF r] by simp
  then have "brPolledBefore (snd (poll_record poll r)) \<and> brLastPolledAt (snd (poll_record poll r)) = poNow poll \<and>
      brPollInterval (snd (poll_record poll r)) = brPollInterval r"
    by (auto simp: poll_record_def split: if_splits)
  ultimately show "fst (PollBackchannelAuthentication poll' ?s) \<noteq> Inr res"
    using early by (auto simp: poll_record_def [of poll'])
next
  fix d :: DecideBackchannelAuthentication and dd :: DecidedBackchannelAuthentication
  assume d: "fst (DecideBackchannelAuthentication d s) = Inr dd" and ping: "ddDeliveryMode dd = ''ping''"
    and same: "bsByHandleHash s (deHandleHash d) = bsByAuthReqIDHash s (poAuthReqIDHash poll)"
    and now: "poNow poll < brExpiresAt r" "poClientID poll = [] \<or> poClientID poll = brClientID r"
  let ?s = "snd (DecideBackchannelAuthentication d s)"
  from d obtain i r' where i: "bsByHandleHash s (deHandleHash d) = Some i" "deref s (Some i) = Some r'"
    "brStatus r' = BackchannelAuthenticationPending" "ddDeliveryMode dd = brDeliveryMode r'"
    "bsByAuthReqIDHash ?s = bsByAuthReqIDHash s" "deref ?s (Some i) = Some (decide_record d r')"
    by (rule decide_deref)
  with r same have r': "r' = r" by simp
  have "list_all2 (record_ok ops) (bc_created ops) (bsHeap s)"
    using bc_inv_reachable unfolding s_def bc_inv_def by blast
  with i(2) have "record_ok ops (bc_created ops ! i) r'"
    by (auto simp: deref_Some list_all2_nthD2)
  with i(3) have "\<not> brRedeemed r" by (auto simp: record_ok_def r')
  with ping now i(3,4) have "fst (poll_record poll (decide_record d r)) =
      Inr \<lparr>pdStatus = deStatus d, pdClientID = brClientID r, pdRequest = brRequest r,
        pdGrant = deGrant d, pdReason = deReason d\<rparr>"
    by (auto simp: poll_record_def decide_record_def Let_def r')
  moreover have "fst (PollBackchannelAuthentication poll ?s) = fst (poll_record poll (decide_record d r))"
    using i same r' by (intro conjunct1 [OF poll_deref]) simp
  ultimately show "fst (PollBackchannelAuthentication poll ?s) =
      Inr \<lparr>pdStatus = deStatus d, pdClientID = brClientID r, pdRequest = brRequest r,
        pdGrant = deGrant d, pdReason = deReason d\<rparr>"
    by simp
qed

lemma poll_pace_witness:
  "fst (PollBackchannelAuthentication (example_poll 12) (snd (PollBackchannelAuthentication (example_poll 10)
     (after bc_step [BCreate example_ciba] NewBackchannelAuthenticationStore)))) \<noteq>
   Inr \<lparr>pdStatus = BackchannelAuthenticationPending, pdClientID = ''c'', pdRequest = Some (JStr ''q''),
     pdGrant = None, pdReason = []\<rparr>"
proof -
  have "deref (after bc_step [BCreate example_ciba] NewBackchannelAuthenticationStore)
      (bsByAuthReqIDHash (after bc_step [BCreate example_ciba] NewBackchannelAuthenticationStore)
        (poAuthReqIDHash (example_poll 10))) = Some (pending_record example_ciba)"
    by (simp add: example_ciba_simps)
  from conjunct1 [OF poll_pace [OF this], rule_format, of "example_poll 12"] show ?thesis
    by (simp add: example_ciba_simps time_sub_def int64_bounds)
qed

end
