(* ===== verification/Pkce.thy ===== *)
theory Pkce
  imports Jwk
begin

text \<open>
  Proof keys for authorization codes, \<^verbatim>\<open>internal/pkce\<close>. The random source is an argument:
  the octets \<^verbatim>\<open>io.ReadFull\<close> read from it, \<open>None\<close> when it failed.
\<close>

datatype pkce_error =
    ErrPlainMethodNotPermitted
  | ErrUnsupportedMethod
  | ErrInvalidVerifierSyntax
  | ErrChallengeMismatch
  | NoVerifierEntropy

text \<open>The method that is no method is the zero value of the Go type.\<close>

datatype pkce_method = NoMethod | S256

definition pkce_method_String :: "pkce_method \<Rightarrow> string" where
  "pkce_method_String m = (if m = S256 then ''S256'' else [])"

definition ParseMethod :: "string \<Rightarrow> pkce_error + pkce_method" where
  "ParseMethod s =
     (if s = ''S256'' then Inr S256
      else if s = ''plain'' then Inl ErrPlainMethodNotPermitted
      else Inl ErrUnsupportedMethod)"

definition verifierEntropyBytes :: nat where "verifierEntropyBytes = 32"
definition minVerifierLength :: nat where "minVerifierLength = 43"
definition maxVerifierLength :: nat where "maxVerifierLength = 128"

definition isUnreservedChar :: "char \<Rightarrow> bool" where
  "isUnreservedChar c \<longleftrightarrow>
     (let n = (of_char c :: nat) in
      65 \<le> n \<and> n \<le> 90 \<or> 97 \<le> n \<and> n \<le> 122 \<or> 48 \<le> n \<and> n \<le> 57 \<or>
      n = 45 \<or> n = 46 \<or> n = 95 \<or> n = 126)"

definition validateVerifierSyntax :: "string \<Rightarrow> pkce_error + unit" where
  "validateVerifierSyntax verifier =
     (if length verifier < minVerifierLength \<or> maxVerifierLength < length verifier then Inl ErrInvalidVerifierSyntax
      else check_all (\<lambda>c. require (isUnreservedChar c) ErrInvalidVerifierSyntax) verifier)"

definition GenerateVerifier :: "bytes option \<Rightarrow> pkce_error + string" where
  "GenerateVerifier random =
     (case random of
        None \<Rightarrow> Inl NoVerifierEntropy
      | Some r \<Rightarrow> if length r < verifierEntropyBytes then Inl NoVerifierEntropy
                  else Inr (encode_raw True (take verifierEntropyBytes r)))"

definition Challenge :: "crypto \<Rightarrow> string \<Rightarrow> pkce_method \<Rightarrow> pkce_error + string" where
  "Challenge C verifier method =
     and_then (validateVerifierSyntax verifier) (\<lambda>_.
     case method of
       S256 \<Rightarrow> Inr (encode_raw True (sha256 C (string_bytes verifier)))
     | NoMethod \<Rightarrow> Inl ErrUnsupportedMethod)"

definition pkce_Verify :: "crypto \<Rightarrow> string \<Rightarrow> pkce_method \<Rightarrow> string \<Rightarrow> pkce_error + unit" where
  "pkce_Verify C challenge method verifier =
     and_then (Challenge C verifier method) (\<lambda>computed.
     require (computed = challenge) ErrChallengeMismatch)"

section \<open>Facts\<close>

lemma length_encode_raw: "length (encode_raw url bs) = (4 * length bs + 2) div 3"
  by (induction url bs rule: encode_raw.induct) auto

lemma of_char_digit_char:
  "v < 64 \<Longrightarrow> (of_char (digit_char True v) :: nat) =
     (if v < 26 then v + 65 else if v < 52 then v + 71 else if v < 62 then v - 4 else if v = 62 then 45 else 95)"
  unfolding digit_char_def of_char_of by simp

lemma digit_char_unreserved: "v < 64 \<Longrightarrow> isUnreservedChar (digit_char True v)"
  unfolding isUnreservedChar_def Let_def of_char_digit_char by (simp split: if_split) linarith

lemma encoded_digits:
  fixes x y z :: nat
  assumes "\<And>v. v < 64 \<Longrightarrow> P (digit_char True v)"
  shows "x < 256 \<Longrightarrow> P (digit_char True (x div 4))"
    "P (digit_char True (x mod 4 * 16))"
    "y < 256 \<Longrightarrow> P (digit_char True (x mod 4 * 16 + y div 16))"
    "P (digit_char True (y mod 16 * 4))"
    "z < 256 \<Longrightarrow> P (digit_char True (y mod 16 * 4 + z div 64))"
    "P (digit_char True (z mod 64))"
  by (rule assms, linarith)+

lemma encode_raw_chars:
  assumes "\<And>v. v < 64 \<Longrightarrow> P (digit_char True v)"
  shows "\<forall>b \<in> set bs. b < 256 \<Longrightarrow> \<forall>c \<in> set (encode_raw True bs). P c"
  by (induction "True" bs rule: encode_raw.induct)
    (simp_all only: encode_raw.simps list.set ball_simps encoded_digits [of P, OF assms] simp_thms, blast)

lemmas encode_raw_unreserved = encode_raw_chars [where P = isUnreservedChar, OF digit_char_unreserved]

lemma encode_raw_no_dot: "list_all (\<lambda>b. b < 256) bs \<Longrightarrow> CHR ''.'' \<notin> set (encode_raw True bs)"
proof -
  have "digit_char True v \<noteq> CHR ''.''" if "v < 64" for v
  proof
    assume "digit_char True v = CHR ''.''"
    then have "(of_char (digit_char True v) :: nat) = 46" by simp
    with that show False by (simp add: of_char_digit_char split: if_splits)
  qed
  then show "list_all (\<lambda>b. b < 256) bs \<Longrightarrow> CHR ''.'' \<notin> set (encode_raw True bs)"
    using encode_raw_chars [of "\<lambda>c. c \<noteq> CHR ''.''" bs] by (auto simp: list_all_iff)
qed

lemma encode_raw_inject:
  assumes "list_all (\<lambda>b. b < 256) xs" "list_all (\<lambda>b. b < 256) ys"
  shows "encode_raw True xs = encode_raw True ys \<longleftrightarrow> xs = ys"
  using decode_encode_raw [OF assms(1), of True] decode_encode_raw [OF assms(2), of True]
  by (metis option.inject)

lemma validateVerifierSyntax_Inr:
  "validateVerifierSyntax v = Inr () \<longleftrightarrow> 43 \<le> length v \<and> length v \<le> 128 \<and> list_all isUnreservedChar v"
  by (auto simp: validateVerifierSyntax_def minVerifierLength_def maxVerifierLength_def check_all_Inr
      list_all_iff require_def split: if_splits)

lemma pkce_Verify_Inr:
  "pkce_Verify C challenge method v = Inr () \<longleftrightarrow> method = S256 \<and>
     43 \<le> length v \<and> length v \<le> 128 \<and> list_all isUnreservedChar v \<and>
     challenge = encode_raw True (sha256 C (string_bytes v))"
  by (cases "method") (auto simp: pkce_Verify_def Challenge_def and_then_eq_Inr validateVerifierSyntax_Inr)

text \<open>
  C33. A proof key binds the code to the party that made the challenge. A verifier is accepted
  only under S256, in the syntax of the standard, and when it hashes to the challenge: two
  accepted verifiers of one challenge have the same digest. Every generated verifier is well
  formed and is accepted for the challenge made from it.
\<close>

theorem pkce_binding:
  assumes "\<forall>m. list_all (\<lambda>b. b < 256) (sha256 C m)"
  shows "(pkce_Verify C challenge method v = Inr () \<and> pkce_Verify C challenge method' v' = Inr () \<longrightarrow>
       method = S256 \<and> method' = S256 \<and> sha256 C (string_bytes v) = sha256 C (string_bytes v')) \<and>
     (GenerateVerifier random = Inr v \<and> (\<forall>r. random = Some r \<longrightarrow> list_all (\<lambda>b. b < 256) r) \<longrightarrow>
       length v = 43 \<and> (\<exists>c. Challenge C v S256 = Inr c \<and> pkce_Verify C c S256 v = Inr ())) \<and>
     (ParseMethod s = Inr m \<longrightarrow> m = S256 \<and> s = pkce_method_String m)"
proof (intro conjI impI)
  assume "pkce_Verify C challenge method v = Inr () \<and> pkce_Verify C challenge method' v' = Inr ()"
  then show "method = S256" "method' = S256" "sha256 C (string_bytes v) = sha256 C (string_bytes v')"
    using assms by (auto simp: pkce_Verify_Inr encode_raw_inject)
next
  assume g: "GenerateVerifier random = Inr v \<and> (\<forall>r. random = Some r \<longrightarrow> list_all (\<lambda>b. b < 256) r)"
  then obtain r where r: "random = Some r" "32 \<le> length r" "v = encode_raw True (take 32 r)"
    by (auto simp: GenerateVerifier_def verifierEntropyBytes_def split: option.splits if_splits)
  then show len: "length v = 43" by (simp add: length_encode_raw)
  have "list_all (\<lambda>b. b < 256) (take 32 r)"
    using g r(1) by (auto simp: list_all_iff dest: in_set_takeD)
  then have "list_all isUnreservedChar v" using encode_raw_unreserved by (simp add: r(3) list_all_iff)
  with len have "validateVerifierSyntax v = Inr ()" by (simp add: validateVerifierSyntax_Inr)
  then show "\<exists>c. Challenge C v S256 = Inr c \<and> pkce_Verify C c S256 v = Inr ()"
    by (simp add: Challenge_def pkce_Verify_def require_def)
next
  assume "ParseMethod s = Inr m"
  then show "m = S256" "s = pkce_method_String m"
    by (auto simp: ParseMethod_def pkce_method_String_def split: if_splits)
qed

lemma pkce_binding_witness:
  "length (encode_raw True (replicate 32 7)) = 43"
proof -
  define C where "C = example_crypto (\<lambda>_. None) \<lparr>sha256 := (\<lambda>_. [1, 2, 3])\<rparr>"
  have "GenerateVerifier (Some (replicate 32 7)) = Inr (encode_raw True (replicate 32 7))"
    by (simp add: GenerateVerifier_def verifierEntropyBytes_def)
  moreover have "\<forall>m. list_all (\<lambda>b. b < 256) (sha256 C m)" by (simp add: C_def)
  moreover have "\<forall>r. Some (replicate 32 7) = Some r \<longrightarrow> list_all (\<lambda>b. b < (256::nat)) r"
    by (simp add: list_all_iff)
  ultimately show ?thesis
    using pkce_binding [of C "[]" NoMethod "encode_raw True (replicate 32 7)" NoMethod "[]" "Some (replicate 32 7)" "[]" S256]
    by blast
qed

end
