(* ===== verification/Jose_Sign.thy ===== *)
theory Jose_Sign
  imports Jose Jwk_Properties Pkce
begin

text \<open>
  Signing, the other half of \<^verbatim>\<open>compact.go\<close>, \<^verbatim>\<open>header.go\<close>, \<^verbatim>\<open>ecdsa.go\<close>, \<^verbatim>\<open>rsa.go\<close>,
  \<^verbatim>\<open>eddsa.go\<close> of \<^verbatim>\<open>internal/jose\<close>, and key thumbprints. A \<^verbatim>\<open>crypto.Signer\<close> is its public
  key and its \<^verbatim>\<open>Sign\<close>, a parameter.
\<close>

section \<open>Thumbprints\<close>

text \<open>The members of the canonical form are base64url or constants, so quoting them adds the quotes only.\<close>

definition quoted :: "string \<Rightarrow> string" where
  "quoted s = CHR 0x22 # s @ [CHR 0x22]"

fun canonical_members :: "(string \<times> string) list \<Rightarrow> string" where
  "canonical_members [] = []"
| "canonical_members [(k, v)] = quoted k @ '':'' @ quoted v"
| "canonical_members ((k, v) # m # ms) = quoted k @ '':'' @ quoted v @ '','' @ canonical_members (m # ms)"

definition thumbprint_members :: "public_key \<Rightarrow> (string \<times> string) list option" where
  "thumbprint_members pub =
     (case pub of
        ECDSAKey curve x y \<Rightarrow>
          (case (coordinate_text (coordinateSize curve) x, coordinate_text (coordinateSize curve) y) of
             (Some xs, Some ys) \<Rightarrow> Some [(''crv'', ''P-256''), (''kty'', ''EC''), (''x'', xs), (''y'', ys)]
           | _ \<Rightarrow> None)
      | RSAKey n e \<Rightarrow> Some [(''e'', encode_raw True (Bytes e)), (''kty'', ''RSA''), (''n'', encode_raw True (Bytes n))]
      | Ed25519Key k \<Rightarrow> Some [(''crv'', ''Ed25519''), (''kty'', ''OKP''), (''x'', encode_raw True k)]
      | ECDHKey curve x y \<Rightarrow>
          (if curve \<noteq> p256 then None
           else case (coordinate_text 32 x, coordinate_text 32 y) of
             (Some xs, Some ys) \<Rightarrow> Some [(''crv'', ''P-256''), (''kty'', ''EC''), (''x'', xs), (''y'', ys)]
           | _ \<Rightarrow> None))"

definition thumbprint_text :: "public_key \<Rightarrow> string option" where
  "thumbprint_text pub = map_option (\<lambda>ms. ''{'' @ canonical_members ms @ ''}'') (thumbprint_members pub)"

definition Thumbprint :: "crypto \<Rightarrow> JWK \<Rightarrow> bytes option" where
  "Thumbprint C k = map_option (\<lambda>t. sha256 C (string_bytes t)) (thumbprint_text (jkPub k))"

section \<open>Signers\<close>

datatype sign_opts = OptSHA256 | OptPSS | OptNoHash

record signer =
  sgPublic :: public_key
  sgSign :: "bytes \<Rightarrow> sign_opts \<Rightarrow> bytes option"

datatype sign_error =
    SignerNil
  | PayloadEmpty
  | PayloadLossy
  | HeaderKeyMismatch
  | HeaderNotMarshalled
  | SignerWrongKey
  | SignerFailed
  | SignatureUndecodable
  | SignatureOutOfRange

definition p256_order :: int where
  "p256_order = 0xffffffff00000000ffffffffffffffffbce6faada7179e84f3b9cac2fc632551"

definition signECDSA :: "crypto \<Rightarrow> signer \<Rightarrow> bytes \<Rightarrow> sign_error + bytes" where
  "signECDSA C sg hash =
     (case sgPublic sg of
        ECDSAKey curve x y \<Rightarrow>
          and_then (require (curve = p256) SignerWrongKey) (\<lambda>_.
          and_then (of_option SignerFailed (sgSign sg hash OptSHA256)) (\<lambda>der.
          and_then (of_option SignatureUndecodable (asn1_signature C der)) (\<lambda>((r, s), rest).
          and_then (require (rest = []) SignatureUndecodable) (\<lambda>_.
          and_then (require (0 < r \<and> r < p256_order \<and> 0 < s \<and> s < p256_order) SignatureOutOfRange) (\<lambda>_.
          case (FillBytes 32 (nat r), FillBytes 32 (nat s)) of
            (Some rb, Some sb) \<Rightarrow> Inr (rb @ sb)
          | _ \<Rightarrow> Inl SignatureOutOfRange)))))
      | _ \<Rightarrow> Inl SignerWrongKey)"

definition signRSAPSS :: "signer \<Rightarrow> bytes \<Rightarrow> sign_error + bytes" where
  "signRSAPSS sg hash =
     (case sgPublic sg of
        RSAKey n e \<Rightarrow>
          and_then (require (2048 \<le> bitlen n \<and> bitlen n \<le> maxRSAModulusBits) SignerWrongKey) (\<lambda>_.
          of_option SignerFailed (sgSign sg hash OptPSS))
      | _ \<Rightarrow> Inl SignerWrongKey)"

definition signEdDSA :: "signer \<Rightarrow> bytes \<Rightarrow> sign_error + bytes" where
  "signEdDSA sg message =
     (case sgPublic sg of
        Ed25519Key k \<Rightarrow>
          and_then (require (length k = 32) SignerWrongKey) (\<lambda>_.
          of_option SignerFailed (sgSign sg message OptNoHash))
      | _ \<Rightarrow> Inl SignerWrongKey)"

section \<open>Compact serialization\<close>

definition header_json :: "Header \<Rightarrow> json option" where
  "header_json h =
     (let head = [(''alg'', JStr (alg_String (hdAlgorithm h)))]
          @ (if hdType h = [] then [] else [(''typ'', JStr (hdType h))])
          @ (if hdKeyID h = [] then [] else [(''kid'', JStr (hdKeyID h))]);
        tail = (case hdX5C h of None \<Rightarrow> [] | Some v \<Rightarrow> [(''x5c'', v)]) in
      case hdJWK h of
        None \<Rightarrow> Some (JObj (head @ tail))
      | Some k \<Rightarrow> map_option (\<lambda>j. JObj (head @ [(''jwk'', j)] @ tail)) (MarshalJSON k))"

definition marshalHeader :: "crypto \<Rightarrow> Header \<Rightarrow> bytes option" where
  "marshalHeader C h = map_option (json_marshal C True) (header_json h)"

definition sign_input :: "crypto \<Rightarrow> SignatureAlgorithm \<Rightarrow> signer \<Rightarrow> string \<Rightarrow> sign_error + bytes" where
  "sign_input C alg sg signingInput =
     (case alg of
        ES256 \<Rightarrow> signECDSA C sg (sha256 C (string_bytes signingInput))
      | PS256 \<Rightarrow> signRSAPSS sg (sha256 C (string_bytes signingInput))
      | EdDSA \<Rightarrow> signEdDSA sg (string_bytes signingInput))"

definition Sign :: "crypto \<Rightarrow> signer option \<Rightarrow> Header \<Rightarrow> bytes \<Rightarrow> sign_error + string" where
  "Sign C signer header payload =
     and_then (of_option SignerNil signer) (\<lambda>sg.
     and_then (require (payload \<noteq> []) PayloadEmpty) (\<lambda>_.
     and_then (require (DecodesLosslessly payload) PayloadLossy) (\<lambda>_.
     and_then (require (\<forall>k \<in> set_option (hdJWK header). jkPub k = sgPublic sg) HeaderKeyMismatch) (\<lambda>_.
     and_then (of_option HeaderNotMarshalled (marshalHeader C header)) (\<lambda>headerJSON.
     let signingInput = encode_raw True headerJSON @ ''.'' @ encode_raw True payload in
     and_then (sign_input C (hdAlgorithm header) sg signingInput) (\<lambda>sig.
     Inr (signingInput @ ''.'' @ encode_raw True sig)))))))"

section \<open>What is signed verifies\<close>

text \<open>
  The contract of a \<^verbatim>\<open>crypto.Signer\<close>: what it returns verifies under its public key, and an
  Ed25519 signer's key is a point of the standard.
\<close>

definition genuine_signer :: "crypto \<Rightarrow> signer \<Rightarrow> bool" where
  "genuine_signer C sg \<longleftrightarrow>
     (\<forall>m sig. sgSign sg m OptSHA256 = Some sig \<longrightarrow>
        (\<forall>curve x y r s. sgPublic sg = ECDSAKey curve x y \<longrightarrow> asn1_signature C sig = Some ((r, s), []) \<longrightarrow>
           ecdsa_verify C x y m (nat r) (nat s))) \<and>
     (\<forall>m sig. sgSign sg m OptPSS = Some sig \<longrightarrow> list_all (\<lambda>b. b < 256) sig \<and> sig \<noteq> [] \<and>
        (\<forall>n e. sgPublic sg = RSAKey n e \<longrightarrow> rsa_verify_pss C n e m sig)) \<and>
     (\<forall>m sig. sgSign sg m OptNoHash = Some sig \<longrightarrow> list_all (\<lambda>b. b < 256) sig \<and> length sig = 64 \<and>
        (\<forall>k. sgPublic sg = Ed25519Key k \<longrightarrow> checkEd25519PublicKey k = Inr () \<and> ed25519_verify C k m sig))"

lemma p256_order_fits: "r < p256_order \<Longrightarrow> nat r < 256 ^ 32"
  by (simp add: p256_order_def nat_less_iff)

lemma sign_input_verifies:
  assumes "genuine_signer C sg" "sign_input C alg sg input = Inr sig"
  shows "verify_signature C alg (sgPublic sg) input sig \<and> list_all (\<lambda>b. b < 256) sig \<and> sig \<noteq> []"
proof (cases alg)
  case ES256
  let ?h = "sha256 C (string_bytes input)"
  from assms(2) obtain x y der r s rb sb where pub: "sgPublic sg = ECDSAKey p256 x y"
    and der: "sgSign sg ?h OptSHA256 = Some der" "asn1_signature C der = Some ((r, s), [])"
    and range: "0 < r" "r < p256_order" "0 < s" "s < p256_order"
    and fill: "FillBytes 32 (nat r) = Some rb" "FillBytes 32 (nat s) = Some sb" "sig = rb @ sb"
    by (auto simp: sign_input_def ES256 signECDSA_def and_then_eq_Inr require_def of_option_simps
        split: public_key.splits option.splits prod.splits if_splits)
  obtain rb' where rb: "FillBytes 32 (nat r) = Some rb'" "length rb' = 32" "SetBytes rb' = nat r" "list_all (\<lambda>b. b < 256) rb'"
    by (rule FillBytes_fits [OF p256_order_fits [OF range(2)]])
  obtain sb' where sb: "FillBytes 32 (nat s) = Some sb'" "length sb' = 32" "SetBytes sb' = nat s" "list_all (\<lambda>b. b < 256) sb'"
    by (rule FillBytes_fits [OF p256_order_fits [OF range(4)]])
  have "ecdsa_verify C x y ?h (nat r) (nat s)"
    using assms(1) der pub unfolding genuine_signer_def by blast
  with rb sb fill have "verifyECDSA C (sgPublic sg) ?h sig"
    by (simp add: verifyECDSA_def pub)
  with rb sb fill show ?thesis by (auto simp: verify_signature_def ES256)
next
  case PS256
  let ?h = "sha256 C (string_bytes input)"
  from assms(2) obtain n e where pub: "sgPublic sg = RSAKey n e" and sig: "sgSign sg ?h OptPSS = Some sig"
    and range: "2048 \<le> bitlen n" "bitlen n \<le> maxRSAModulusBits"
    by (auto simp: sign_input_def PS256 signRSAPSS_def and_then_eq_Inr require_def of_option_simps
        split: public_key.splits option.splits if_splits)
  from assms(1) sig pub have "list_all (\<lambda>b. b < 256) sig" "sig \<noteq> []" "rsa_verify_pss C n e ?h sig"
    unfolding genuine_signer_def by blast+
  with range show ?thesis by (simp add: verify_signature_def PS256 verifyRSAPSS_def pub)
next
  case EdDSA
  from assms(2) obtain k where pub: "sgPublic sg = Ed25519Key k"
    and sig: "sgSign sg (string_bytes input) OptNoHash = Some sig"
    by (auto simp: sign_input_def EdDSA signEdDSA_def and_then_eq_Inr require_def of_option_simps
        split: public_key.splits option.splits if_splits)
  from assms(1) sig pub have "list_all (\<lambda>b. b < 256) sig" "length sig = 64"
    "checkEd25519PublicKey k = Inr ()" "ed25519_verify C k (string_bytes input) sig"
    unfolding genuine_signer_def by blast+
  then show ?thesis by (auto simp: verify_signature_def EdDSA verifyEdDSA_def pub is_ok_def)
qed

section \<open>What is signed parses\<close>

text \<open>What \<^verbatim>\<open>encoding/json\<close> writes for a value reads back as that value, in well-formed UTF-8.\<close>

definition faithful_json :: "crypto \<Rightarrow> bool \<Rightarrow> json \<Rightarrow> bool" where
  "faithful_json C esc j \<longleftrightarrow>
     json_decode C (json_marshal C esc j) = Some j \<and> DecodesLosslessly (json_marshal C esc j) \<and>
     list_all (\<lambda>b. b < 256) (json_marshal C esc j) \<and> json_marshal C esc j \<noteq> []"

lemma ParseSignatureAlgorithm_String: "ParseSignatureAlgorithm (alg_String a) = Some a"
  by (cases a) (simp_all add: ParseSignatureAlgorithm_def alg_String_def)

lemma decode_header_json:
  assumes "header_json h = Some j"
  shows "CheckFieldCase (leaves rawHeader_fields) j"
    and "\<exists>jk. decode_struct rawHeader_fields rawHeader_dec rawHeader_zero j =
      Some \<lparr>rhAlg = alg_String (hdAlgorithm h), rhTyp = hdType h, rhKid = hdKeyID h, rhJwk = jk,
        rhX5C = hdX5C h, rhCrit = None\<rparr> \<and>
      (case hdJWK h of None \<Rightarrow> jk = None | Some k \<Rightarrow> \<exists>kj. jk = Some kj \<and> MarshalJSON k = Some kj)"
  using assms
  by (cases "hdJWK h"; cases "hdX5C h"; cases "hdType h"; cases "hdKeyID h";
      force simp: header_json_def CheckFieldCase_def leaves_def rawHeader_fields_def obj_members_def
        rawHeader_dec_def rawHeader_zero_def struct_field_def)+

lemma parse_marshalled_header:
  assumes "header_json h = Some j" "faithful_json C True j"
    and "\<And>k. hdJWK h = Some k \<Longrightarrow> \<exists>jk. MarshalJSON k = Some jk \<and> ParseJWK C jk (hdAlgorithm h) = Inr k"
  shows "parseHeader C (json_marshal C True j) = Inr h"
proof -
  obtain jk where d: "decode_struct rawHeader_fields rawHeader_dec rawHeader_zero j =
      Some \<lparr>rhAlg = alg_String (hdAlgorithm h), rhTyp = hdType h, rhKid = hdKeyID h, rhJwk = jk,
        rhX5C = hdX5C h, rhCrit = None\<rparr>"
    and jk: "case hdJWK h of None \<Rightarrow> jk = None | Some k \<Rightarrow> \<exists>kj. jk = Some kj \<and> MarshalJSON k = Some kj"
    using decode_header_json(2) [OF assms(1)] by blast
  note common = parseHeader_def require_def of_option_simps d decode_header_json(1) [OF assms(1)]
    critical_Check_def ParseSignatureAlgorithm_String
  show ?thesis
  proof (cases "hdJWK h")
    case None
    with jk assms(2) show ?thesis by (simp add: faithful_json_def common)
  next
    case (Some k)
    with jk assms(2) assms(3) [OF Some] show ?thesis by (auto simp: faithful_json_def common)
  qed
qed

lemma split_on_word: "sep \<notin> set w \<Longrightarrow> split_on sep (w @ sep # s) = w # split_on sep s"
  by (induction w) auto

lemma split_on_last: "sep \<notin> set w \<Longrightarrow> split_on sep w = [w]"
  by (induction w) auto

lemma b64_field_encode: "list_all (\<lambda>b. b < 256) bs \<Longrightarrow> b64_field (encode_raw True bs) = Inr bs"
  using decode_encode_raw [of bs True] decode_raw_no_break by (simp add: b64_field_def URL_def decode_def)

lemma signed_compact:
  assumes signer: "genuine_signer C sg"
    and json: "\<And>j. header_json h = Some j \<Longrightarrow> faithful_json C True j"
    and jwk: "\<And>k. hdJWK h = Some k \<Longrightarrow> \<exists>jk. MarshalJSON k = Some jk \<and> ParseJWK C jk (hdAlgorithm h) = Inr k"
    and payload: "list_all (\<lambda>b. b < 256) payload"
    and signed: "Sign C (Some sg) h payload = Inr s" and fits: "int (length s) \<le> maxBytes"
  obtains c where "ParseCompactMax C s maxBytes = Inr c" "cmHeader c = h" "cmPayload c = payload"
    "Compact_Verify C c (sgPublic sg) (hdAlgorithm h) = Inr ()"
proof -
  from signed obtain j sig where j: "header_json h = Some j" and ne: "payload \<noteq> []" "DecodesLosslessly payload"
    and sig: "sign_input C (hdAlgorithm h) sg (encode_raw True (json_marshal C True j) @ ''.'' @ encode_raw True payload) = Inr sig"
    and s: "s = encode_raw True (json_marshal C True j) @ ''.'' @ encode_raw True payload @ ''.'' @ encode_raw True sig"
    by (auto simp: Sign_def marshalHeader_def of_option_simps and_then_eq_Inr require_def Let_def split: if_splits)
  note f = json [OF j, unfolded faithful_json_def]
  from sign_input_verifies [OF signer sig]
  have v: "verify_signature C (hdAlgorithm h) (sgPublic sg)
      (encode_raw True (json_marshal C True j) @ ''.'' @ encode_raw True payload) sig"
    and sb: "list_all (\<lambda>b. b < 256) sig" "sig \<noteq> []" by blast+
  have sp: "split_on (CHR ''.'') s = [encode_raw True (json_marshal C True j), encode_raw True payload, encode_raw True sig]"
    using f payload sb by (simp add: s split_on_word split_on_last encode_raw_no_dot)
  have hd: "parseHeader C (json_marshal C True j) = Inr h"
    by (rule parse_marshalled_header [OF j json [OF j] jwk])
  have "ParseCompactMax C s maxBytes =
      Inr \<lparr>cmHeader = h, cmPayload = payload,
        cmSigningInput = encode_raw True (json_marshal C True j) @ ''.'' @ encode_raw True payload, cmSignature = sig\<rparr>"
    using f fits payload ne sb
    by (simp add: ParseCompactMax_def sp encode_raw_Nil b64_field_encode hd require_def)
  with v that show thesis by (simp add: Compact_Verify_def require_def)
qed

text \<open>
  C32. What is signed verifies, and only as what it is: a compact JWS made by a signer parses to
  the very header and payload it was made of and verifies under the signer's public key and its
  algorithm, and under no other algorithm.
\<close>

theorem Sign_ParseCompact:
  assumes signer: "genuine_signer C sg"
    and json: "\<And>j. header_json h = Some j \<Longrightarrow> faithful_json C True j"
    and jwk: "\<And>k. hdJWK h = Some k \<Longrightarrow> \<exists>jk. MarshalJSON k = Some jk \<and> ParseJWK C jk (hdAlgorithm h) = Inr k"
    and payload: "list_all (\<lambda>b. b < 256) payload"
    and signed: "Sign C (Some sg) h payload = Inr s" and fits: "int (length s) \<le> maxBytes"
  shows "\<exists>c. ParseCompactMax C s maxBytes = Inr c \<and> cmHeader c = h \<and> cmPayload c = payload \<and>
    Compact_Verify C c (sgPublic sg) (hdAlgorithm h) = Inr () \<and>
    (\<forall>pub alg. alg \<noteq> hdAlgorithm h \<longrightarrow> Compact_Verify C c pub alg = Inl ErrAlgorithmMismatch)"
proof (rule signed_compact [OF assms])
  fix c
  assume "ParseCompactMax C s maxBytes = Inr c" "cmHeader c = h" "cmPayload c = payload"
    "Compact_Verify C c (sgPublic sg) (hdAlgorithm h) = Inr ()"
  moreover from this have "\<forall>pub alg. alg \<noteq> hdAlgorithm h \<longrightarrow> Compact_Verify C c pub alg = Inl ErrAlgorithmMismatch"
    by (simp add: Compact_Verify_def)
  ultimately show ?thesis by blast
qed

definition sign_crypto :: crypto where
  "sign_crypto = example_crypto (\<lambda>_. Some (JObj [(''alg'', JStr ''ES256'')]))
     \<lparr>asn1_signature := (\<lambda>_. Some ((1, 1), []))\<rparr>"

definition example_signer :: signer where
  "example_signer = \<lparr>sgPublic = ECDSAKey p256 1 1, sgSign = (\<lambda>_ opts. if opts = OptSHA256 then Some [1] else None)\<rparr>"

definition example_header :: "string \<Rightarrow> Header" where
  "example_header typ = \<lparr>hdAlgorithm = ES256, hdType = typ, hdKeyID = [], hdJWK = None, hdX5C = None\<rparr>"

lemma example_signer_genuine:
  "ecdsa_verify C = (\<lambda>x y hash r s. r = s) \<Longrightarrow> asn1_signature C = (\<lambda>_. Some ((1, 1), [])) \<Longrightarrow>
     genuine_signer C example_signer"
  by (simp add: genuine_signer_def example_signer_def)

lemma Sign_ParseCompact_witness:
  "\<exists>c. ParseCompactMax sign_crypto (''e30.e30.'' @ example_signature) 100 = Inr c \<and>
     cmHeader c = example_header [] \<and> Compact_Verify sign_crypto c (ECDSAKey p256 1 1) ES256 = Inr ()"
proof -
  have "genuine_signer sign_crypto example_signer"
    by (rule example_signer_genuine) (simp_all add: sign_crypto_def example_crypto_def)
  moreover have "Sign sign_crypto (Some example_signer) (example_header []) [123, 125] = Inr (''e30.e30.'' @ example_signature)"
    by code_simp
  moreover have "faithful_json sign_crypto True j" if "header_json (example_header []) = Some j" for j
    using that by (simp add: faithful_json_def header_json_def example_header_def sign_crypto_def
        example_crypto_def alg_String_def DecodesLosslessly_def utf8_len_def)
  ultimately have "\<exists>c. ParseCompactMax sign_crypto (''e30.e30.'' @ example_signature) 100 = Inr c \<and>
      cmHeader c = example_header [] \<and> cmPayload c = [123, 125] \<and>
      Compact_Verify sign_crypto c (sgPublic example_signer) (hdAlgorithm (example_header [])) = Inr () \<and>
      (\<forall>pub alg. alg \<noteq> hdAlgorithm (example_header []) \<longrightarrow>
        Compact_Verify sign_crypto c pub alg = Inl ErrAlgorithmMismatch)"
    by (intro Sign_ParseCompact) (simp_all add: example_header_def example_signature_def)
  then show ?thesis by (auto simp: example_signer_def example_header_def)
qed

end
