(* ===== verification/Token.thy ===== *)
theory Token
  imports Jose_Sign Timeutil
begin

text \<open>
  JWT access tokens and ID tokens, \<^verbatim>\<open>internal/token\<close>: parsing and validation by a resource
  server or a client, issuing by the server, and the claim names
  \<^verbatim>\<open>internal/claimnames\<close> reserves. A claim map is an association list with distinct keys.
\<close>

datatype token_error =
    TokenJose jose_error
  | ErrWrongType
  | ErrNotGenericType
  | ErrMalformedClaims string
  | ErrBadPolicy string
  | ErrIssuerMismatch
  | ErrAudienceMismatch
  | ErrExpired
  | ErrLifetimeExceeded
  | ErrNonceMismatch
  | ErrMissingAuthorizedParty
  | ErrAuthorizedPartyMismatch
  | ErrIssuedAtTooOld
  | ErrIssuedInFuture
  | ErrNotYetValid
  | ErrAuthTimeInvalid
  | ErrAccessTokenHashMismatch
  | ErrAccessTokenHashUnchecked

definition in_token :: "jose_error + 'a \<Rightarrow> token_error + 'a" where
  "in_token = map_sum TokenJose (\<lambda>x. x)"

lemma in_token_Inr [simp]: "in_token r = Inr x \<longleftrightarrow> r = Inr x"
  by (cases r) (simp_all add: in_token_def)

lemma in_token_simps [simp]: "in_token (Inr x) = Inr x" "in_token (Inl e) = Inl (TokenJose e)"
  by (simp_all add: in_token_def)

lemma map_sum_Inr: "map_sum f (\<lambda>x. x) m = Inr x \<longleftrightarrow> m = Inr x"
  by (cases m) simp_all

section \<open>Claims\<close>

text \<open>Each pop yields the value, whether the claim was present, and the claims left.\<close>

definition popString :: "json assoc \<Rightarrow> string \<Rightarrow> bool \<Rightarrow> token_error + (string \<times> bool \<times> json assoc)" where
  "popString m key required =
     (case map_of m key of
        None \<Rightarrow> if required then Inl (ErrMalformedClaims key) else Inr ([], False, m)
      | Some raw \<Rightarrow>
          (case unmarshal_string raw of
             None \<Rightarrow> Inl (ErrMalformedClaims key)
           | Some s \<Rightarrow> if s = [] then Inl (ErrMalformedClaims key) else Inr (s, True, AList.delete key m)))"

definition popInt64 :: "json assoc \<Rightarrow> string \<Rightarrow> bool \<Rightarrow> token_error + (int \<times> bool \<times> json assoc)" where
  "popInt64 m key required =
     (case map_of m key of
        None \<Rightarrow> if required then Inl (ErrMalformedClaims key) else Inr (0, False, m)
      | Some raw \<Rightarrow>
          (case NumericDate_Parse raw of
             None \<Rightarrow> Inl (ErrMalformedClaims key)
           | Some n \<Rightarrow> Inr (n, True, AList.delete key m)))"

definition popStringOrStringSlice :: "json assoc \<Rightarrow> string \<Rightarrow> token_error + (string list \<times> json assoc)" where
  "popStringOrStringSlice m key =
     (case map_of m key of
        None \<Rightarrow> Inl (ErrMalformedClaims key)
      | Some raw \<Rightarrow>
          (case unmarshal_string raw of
             Some s \<Rightarrow> if s = [] then Inl (ErrMalformedClaims key) else Inr ([s], AList.delete key m)
           | None \<Rightarrow>
               (case unmarshal_strings raw of
                  Some (Some (a # arr)) \<Rightarrow>
                    if [] \<in> set (a # arr) then Inl (ErrMalformedClaims key) else Inr (a # arr, AList.delete key m)
                | _ \<Rightarrow> Inl (ErrMalformedClaims key))))"

definition popStringSlice :: "json assoc \<Rightarrow> string \<Rightarrow> token_error + (string list \<times> json assoc)" where
  "popStringSlice m key =
     (case map_of m key of
        None \<Rightarrow> Inr ([], m)
      | Some raw \<Rightarrow>
          (case unmarshal_strings raw of
             Some (Some (a # arr)) \<Rightarrow> Inr (a # arr, AList.delete key m)
           | _ \<Rightarrow> Inl (ErrMalformedClaims key)))"

definition unmarshal_payload :: "crypto \<Rightarrow> bytes \<Rightarrow> token_error + json assoc" where
  "unmarshal_payload C payload =
     of_option (ErrMalformedClaims []) (Option.bind (json_decode C payload) unmarshal_object)"

section \<open>Access tokens\<close>

record Confirmation =
  cnJKT :: string
  cnX5TS256 :: string

record AccessTokenClaims =
  atIssuer :: string
  atSubject :: string
  atAudience :: "string list"
  atClientID :: string
  atScope :: string
  atExpiresAt :: time
  atIssuedAt :: time
  atNotBefore :: time
  atJTI :: string
  atConfirmation :: "Confirmation option"
  atParameters :: "json assoc"

definition rawConfirmation_fields :: "string list" where
  "rawConfirmation_fields = [''jkt'', ''x5t#S256'']"

definition rawConfirmation_dec :: "string \<Rightarrow> json \<Rightarrow> Confirmation \<Rightarrow> Confirmation option" where
  "rawConfirmation_dec name v c =
     (if name = ''jkt'' then dec_string (\<lambda>x. cnJKT_update (\<lambda>_. x)) v c
      else dec_string (\<lambda>x. cnX5TS256_update (\<lambda>_. x)) v c)"

text \<open>A decoder that disallows unknown fields.\<close>

definition known_members :: "string list \<Rightarrow> json \<Rightarrow> bool" where
  "known_members names j =
     (case j of JObj ms \<Rightarrow> list_all (\<lambda>(k, v). struct_field names k \<noteq> None) ms | _ \<Rightarrow> True)"

definition parseConfirmation :: "json \<Rightarrow> token_error + Confirmation" where
  "parseConfirmation j =
     and_then (require (CheckFieldCase (leaves rawConfirmation_fields) j) (ErrMalformedClaims ''cnf'')) (\<lambda>_.
     and_then (require (known_members rawConfirmation_fields j) (ErrMalformedClaims ''cnf'')) (\<lambda>_.
     and_then (of_option (ErrMalformedClaims ''cnf'')
       (decode_struct rawConfirmation_fields rawConfirmation_dec \<lparr>cnJKT = [], cnX5TS256 = []\<rparr> j)) (\<lambda>c.
     and_then (require ((cnJKT c = []) \<noteq> (cnX5TS256 c = [])) (ErrMalformedClaims ''cnf'')) (\<lambda>_. Inr c))))"

definition peekNotBefore :: "json assoc \<Rightarrow> token_error + time" where
  "peekNotBefore raw =
     (case map_of raw ''nbf'' of
        None \<Rightarrow> Inr zero_time
      | Some j \<Rightarrow> (case NumericDate_Parse j of None \<Rightarrow> Inl (ErrMalformedClaims ''nbf'') | Some n \<Rightarrow> Inr (time_unix n)))"

definition popAccessTokenTimes :: "json assoc \<Rightarrow> token_error + ((time \<times> time \<times> time) \<times> json assoc)" where
  "popAccessTokenTimes raw =
     and_then (popInt64 raw ''exp'' True) (\<lambda>(exp, _, raw).
     and_then (popInt64 raw ''iat'' True) (\<lambda>(iat, _, raw).
     and_then (peekNotBefore raw) (\<lambda>nbf.
     Inr ((time_unix exp, time_unix iat, nbf), raw))))"

definition popConfirmation :: "json assoc \<Rightarrow> token_error + (Confirmation option \<times> json assoc)" where
  "popConfirmation raw =
     (case map_of raw ''cnf'' of
        None \<Rightarrow> Inr (None, raw)
      | Some j \<Rightarrow> and_then (parseConfirmation j) (\<lambda>c. Inr (Some c, AList.delete ''cnf'' raw)))"

definition parseAccessTokenClaims :: "crypto \<Rightarrow> bytes \<Rightarrow> token_error + AccessTokenClaims" where
  "parseAccessTokenClaims C payload =
     and_then (unmarshal_payload C payload) (\<lambda>raw.
     and_then (popString raw ''iss'' True) (\<lambda>(iss, _, raw).
     and_then (popString raw ''sub'' True) (\<lambda>(sub, _, raw).
     and_then (popStringOrStringSlice raw ''aud'') (\<lambda>(aud, raw).
     and_then (popString raw ''client_id'' True) (\<lambda>(clientID, _, raw).
     and_then (popAccessTokenTimes raw) (\<lambda>((exp, iat, nbf), raw).
     and_then (popString raw ''jti'' True) (\<lambda>(jti, _, raw).
     and_then (popString raw ''scope'' False) (\<lambda>(scope, _, raw).
     and_then (popConfirmation raw) (\<lambda>(confirmation, raw).
     Inr \<lparr>atIssuer = iss, atSubject = sub, atAudience = aud, atClientID = clientID, atScope = scope,
       atExpiresAt = exp, atIssuedAt = iat, atNotBefore = nbf, atJTI = jti, atConfirmation = confirmation,
       atParameters = raw\<rparr>)))))))))"

record AccessToken =
  accCompact :: Compact
  accClaims :: AccessTokenClaims

definition atJWTType :: string where "atJWTType = ''at+jwt''"

definition ParseAccessTokenMax :: "crypto \<Rightarrow> string \<Rightarrow> int \<Rightarrow> token_error + AccessToken" where
  "ParseAccessTokenMax C tok maxBytes =
     and_then (in_token (ParseCompactMax C tok maxBytes)) (\<lambda>compact.
     and_then (require (TypeIs (hdType (cmHeader compact)) atJWTType) ErrWrongType) (\<lambda>_.
     and_then (parseAccessTokenClaims C (cmPayload compact)) (\<lambda>claims.
     Inr \<lparr>accCompact = compact, accClaims = claims\<rparr>)))"

definition ParseAccessToken :: "crypto \<Rightarrow> string \<Rightarrow> token_error + AccessToken" where
  "ParseAccessToken C tok = ParseAccessTokenMax C tok DefaultMaxCompactBytes"

definition SignedClaims :: "crypto \<Rightarrow> AccessToken \<Rightarrow> public_key \<Rightarrow> SignatureAlgorithm \<Rightarrow> token_error + AccessTokenClaims" where
  "SignedClaims C t pub alg =
     and_then (in_token (Compact_Verify C (accCompact t) pub alg)) (\<lambda>_. Inr (accClaims t))"

record AccessTokenValidatePolicy =
  apExpectedIssuer :: string
  apExpectedAudience :: string
  apAdditionalAudiences :: "string list"
  apAlgorithm :: SignatureAlgorithm
  apNow :: time
  apMaxLifetime :: duration
  apMaxClockSkew :: duration

record ValidatedAccessToken =
  vaSubject :: string
  vaClientID :: string
  vaScope :: string
  vaParameters :: "json assoc"
  vaExpiresAt :: time
  vaJTI :: string
  vaJKT :: string
  vaX5TS256 :: string
  vaIssuer :: string
  vaAudience :: "string list"
  vaIssuedAt :: time

definition containsAny :: "string list \<Rightarrow> string list \<Rightarrow> bool" where
  "containsAny xs wants = list_ex (\<lambda>w. w \<in> set xs) wants"

definition checkAccessTokenTimes :: "AccessTokenClaims \<Rightarrow> AccessTokenValidatePolicy \<Rightarrow> token_error + unit" where
  "checkAccessTokenTimes c p =
     (let latest = apNow p + apMaxClockSkew p in
      if SaturatingAdd [apMaxLifetime p, apMaxClockSkew p] < time_sub (atExpiresAt c) (apNow p) then Inl ErrLifetimeExceeded
      else if latest < atIssuedAt c then Inl ErrIssuedInFuture
      else if latest < atNotBefore c then Inl ErrNotYetValid
      else Inr ())"

definition AccessToken_Validate :: "crypto \<Rightarrow> AccessToken \<Rightarrow> public_key \<Rightarrow> AccessTokenValidatePolicy
    \<Rightarrow> token_error + ValidatedAccessToken" where
  "AccessToken_Validate C t pub p =
     and_then (require (apExpectedIssuer p \<noteq> []) (ErrBadPolicy ''ExpectedIssuer'')) (\<lambda>_.
     and_then (require (apExpectedAudience p \<noteq> []) (ErrBadPolicy ''ExpectedAudience'')) (\<lambda>_.
     and_then (require (apNow p \<noteq> zero_time) (ErrBadPolicy ''Now'')) (\<lambda>_.
     and_then (require (0 < apMaxLifetime p) (ErrBadPolicy ''MaxLifetime'')) (\<lambda>_.
     and_then (in_token (Compact_Verify C (accCompact t) pub (apAlgorithm p))) (\<lambda>_.
     let c = accClaims t in
     and_then (require (atIssuer c = apExpectedIssuer p) ErrIssuerMismatch) (\<lambda>_.
     and_then (require (apExpectedAudience p \<in> set (atAudience c) \<or>
         containsAny (atAudience c) (apAdditionalAudiences p)) ErrAudienceMismatch) (\<lambda>_.
     and_then (checkAccessTokenTimes c p) (\<lambda>_.
     Inr \<lparr>vaSubject = atSubject c, vaClientID = atClientID c, vaScope = atScope c,
       vaParameters = atParameters c, vaExpiresAt = atExpiresAt c, vaJTI = atJTI c,
       vaJKT = (case atConfirmation c of None \<Rightarrow> [] | Some cn \<Rightarrow> cnJKT cn),
       vaX5TS256 = (case atConfirmation c of None \<Rightarrow> [] | Some cn \<Rightarrow> cnX5TS256 cn),
       vaIssuer = atIssuer c, vaAudience = atAudience c, vaIssuedAt = atIssuedAt c\<rparr>))))))))"

section \<open>ID tokens\<close>

record IDTokenClaims =
  itIssuer :: string
  itSubject :: string
  itAudience :: "string list"
  itExpiresAt :: time
  itIssuedAt :: time
  itNonce :: string
  itAuthTime :: time
  itACR :: string
  itAMR :: "string list"
  itAZP :: string
  itATHash :: string
  itParameters :: "json assoc"

definition parseIDTokenClaims :: "crypto \<Rightarrow> bytes \<Rightarrow> token_error + IDTokenClaims" where
  "parseIDTokenClaims C payload =
     and_then (unmarshal_payload C payload) (\<lambda>raw.
     and_then (popString raw ''iss'' True) (\<lambda>(iss, _, raw).
     and_then (popString raw ''sub'' True) (\<lambda>(sub, _, raw).
     and_then (popStringOrStringSlice raw ''aud'') (\<lambda>(aud, raw).
     and_then (popInt64 raw ''exp'' True) (\<lambda>(exp, _, raw).
     and_then (popInt64 raw ''iat'' True) (\<lambda>(iat, _, raw).
     and_then (popString raw ''nonce'' False) (\<lambda>(nonce, _, raw).
     and_then (popInt64 raw ''auth_time'' False) (\<lambda>(authTime, hasAuthTime, raw).
     and_then (require (\<not> (hasAuthTime \<and> authTime < 0)) (ErrMalformedClaims ''auth_time'')) (\<lambda>_.
     and_then (popString raw ''acr'' False) (\<lambda>(acr, _, raw).
     and_then (popStringSlice raw ''amr'') (\<lambda>(amr, raw).
     and_then (popString raw ''azp'' False) (\<lambda>(azp, _, raw).
     and_then (popString raw ''at_hash'' False) (\<lambda>(atHash, _, raw).
     Inr \<lparr>itIssuer = iss, itSubject = sub, itAudience = aud, itExpiresAt = time_unix exp,
       itIssuedAt = time_unix iat, itNonce = nonce,
       itAuthTime = (if hasAuthTime then time_unix authTime else zero_time), itACR = acr, itAMR = amr,
       itAZP = azp, itATHash = atHash, itParameters = raw\<rparr>)))))))))))))"

record IDToken =
  idtCompact :: Compact
  idtClaims :: IDTokenClaims

definition ParseIDTokenMax :: "crypto \<Rightarrow> string \<Rightarrow> int \<Rightarrow> token_error + IDToken" where
  "ParseIDTokenMax C tok maxBytes =
     and_then (in_token (ParseCompactMax C tok maxBytes)) (\<lambda>compact.
     and_then (require (RequireGenericType (hdType (cmHeader compact))) ErrNotGenericType) (\<lambda>_.
     and_then (parseIDTokenClaims C (cmPayload compact)) (\<lambda>claims.
     Inr \<lparr>idtCompact = compact, idtClaims = claims\<rparr>)))"

definition ParseIDToken :: "crypto \<Rightarrow> string \<Rightarrow> token_error + IDToken" where
  "ParseIDToken C tok = ParseIDTokenMax C tok DefaultMaxCompactBytes"

record IDTokenValidatePolicy =
  ipExpectedIssuer :: string
  ipExpectedAudience :: string
  ipTrustedAudiences :: "string list"
  ipAlgorithm :: SignatureAlgorithm
  ipExpectedNonce :: string
  ipAccessToken :: string
  ipNow :: time
  ipMaxLifetime :: duration
  ipMaxClockSkew :: duration

fun check_audiences :: "string \<Rightarrow> string list \<Rightarrow> bool \<Rightarrow> string list \<Rightarrow> token_error + bool" where
  "check_audiences expected trusted saw [] = Inr saw"
| "check_audiences expected trusted saw (aud # auds) =
     (if aud = expected then check_audiences expected trusted True auds
      else if aud \<notin> set trusted then Inl ErrAudienceMismatch
      else check_audiences expected trusted saw auds)"

definition checkIDTokenAudience :: "IDTokenClaims \<Rightarrow> IDTokenValidatePolicy \<Rightarrow> token_error + unit" where
  "checkIDTokenAudience c p =
     and_then (check_audiences (ipExpectedAudience p) (ipTrustedAudiences p) False (itAudience c)) (\<lambda>saw.
     if \<not> saw then Inl ErrAudienceMismatch
     else if 1 < length (itAudience c) \<and> itAZP c = [] then Inl ErrMissingAuthorizedParty
     else if itAZP c \<noteq> [] \<and> itAZP c \<noteq> ipExpectedAudience p then Inl ErrAuthorizedPartyMismatch
     else Inr ())"

definition computeATHash :: "crypto \<Rightarrow> string \<Rightarrow> SignatureAlgorithm \<Rightarrow> string" where
  "computeATHash C accessToken alg =
     (let sum' = (case alg of
          EdDSA \<Rightarrow> sha512 C (string_bytes accessToken)
        | _ \<Rightarrow> sha256 C (string_bytes accessToken)) in
      encode_raw True (take (length sum' div 2) sum'))"

definition checkATHash :: "crypto \<Rightarrow> IDTokenClaims \<Rightarrow> IDTokenValidatePolicy \<Rightarrow> token_error + unit" where
  "checkATHash C c p =
     (if itATHash c = [] then Inr ()
      else if ipAccessToken p = [] then Inl ErrAccessTokenHashUnchecked
      else require (itATHash c = computeATHash C (ipAccessToken p) (ipAlgorithm p)) ErrAccessTokenHashMismatch)"

definition checkAuthTime :: "time \<Rightarrow> IDTokenValidatePolicy \<Rightarrow> token_error + unit" where
  "checkAuthTime authTime p =
     require (\<not> (authTime \<noteq> zero_time \<and> ipNow p + ipMaxClockSkew p < authTime)) ErrAuthTimeInvalid"

text \<open>The validated token is the claims: every field of \<^verbatim>\<open>ValidatedIDToken\<close> is one of them.\<close>

definition IDToken_Validate :: "crypto \<Rightarrow> IDToken \<Rightarrow> public_key \<Rightarrow> IDTokenValidatePolicy
    \<Rightarrow> token_error + IDTokenClaims" where
  "IDToken_Validate C t pub p =
     and_then (require (ipExpectedIssuer p \<noteq> []) (ErrBadPolicy ''ExpectedIssuer'')) (\<lambda>_.
     and_then (require (ipExpectedAudience p \<noteq> []) (ErrBadPolicy ''ExpectedAudience'')) (\<lambda>_.
     and_then (require (ipNow p \<noteq> zero_time) (ErrBadPolicy ''Now'')) (\<lambda>_.
     and_then (require (0 < ipMaxLifetime p) (ErrBadPolicy ''MaxLifetime'')) (\<lambda>_.
     and_then (in_token (Compact_Verify C (idtCompact t) pub (ipAlgorithm p))) (\<lambda>_.
     let c = idtClaims t in
     and_then (require (itIssuer c = ipExpectedIssuer p) ErrIssuerMismatch) (\<lambda>_.
     and_then (checkIDTokenAudience c p) (\<lambda>_.
     and_then (require (ipNow p \<le> itExpiresAt c + ipMaxClockSkew p) ErrExpired) (\<lambda>_.
     and_then (require (time_sub (itExpiresAt c) (ipNow p) \<le> SaturatingAdd [ipMaxLifetime p, ipMaxClockSkew p])
       ErrLifetimeExceeded) (\<lambda>_.
     and_then (require (time_sub (ipNow p) (itIssuedAt c) \<le> ipMaxLifetime p) ErrIssuedAtTooOld) (\<lambda>_.
     and_then (require (itIssuedAt c \<le> ipNow p + ipMaxClockSkew p) ErrIssuedInFuture) (\<lambda>_.
     and_then (checkAuthTime (itAuthTime c) p) (\<lambda>_.
     and_then (require (ipExpectedNonce p = [] \<or> itNonce c = ipExpectedNonce p) ErrNonceMismatch) (\<lambda>_.
     and_then (checkATHash C c p) (\<lambda>_.
     Inr c))))))))))))))"

record IDTokenHintPolicy =
  hpExpectedIssuer :: string
  hpClient :: string
  hpAlgorithm :: SignatureAlgorithm

definition VerifyHint :: "crypto \<Rightarrow> IDToken \<Rightarrow> public_key \<Rightarrow> IDTokenHintPolicy \<Rightarrow> token_error + string" where
  "VerifyHint C t pub p =
     and_then (require (hpExpectedIssuer p \<noteq> []) (ErrBadPolicy ''ExpectedIssuer'')) (\<lambda>_.
     and_then (require (hpClient p \<noteq> []) (ErrBadPolicy ''Client'')) (\<lambda>_.
     and_then (in_token (Compact_Verify C (idtCompact t) pub (hpAlgorithm p))) (\<lambda>_.
     let c = idtClaims t in
     and_then (require (itIssuer c = hpExpectedIssuer p) ErrIssuerMismatch) (\<lambda>_.
     and_then (require (hpClient p \<in> set (itAudience c)) ErrAudienceMismatch) (\<lambda>_.
     and_then (require (itAZP c = [] \<or> itAZP c = hpClient p) ErrAuthorizedPartyMismatch) (\<lambda>_.
     Inr (itSubject c)))))))"

section \<open>Reserved claim names\<close>

datatype claim_kind = KindIDToken | KindAccessToken | KindUserInfo
datatype claim_source = SourceEmbedder | SourceClient

definition setByIssuer :: "claim_kind \<Rightarrow> string list" where
  "setByIssuer kind =
     (case kind of
        KindIDToken \<Rightarrow> [''iss'', ''sub'', ''aud'', ''exp'', ''iat'', ''nonce'', ''auth_time'', ''acr'', ''amr'', ''at_hash'']
      | KindAccessToken \<Rightarrow> [''iss'', ''sub'', ''aud'', ''client_id'', ''scope'', ''exp'', ''iat'', ''jti'', ''cnf'']
      | KindUserInfo \<Rightarrow> [''iss'', ''aud''])"

definition processingClaims :: "string list" where
  "processingClaims = [''_claim_names'', ''_claim_sources'', ''sub_jwk'', ''events'']"

definition idTokenBindingClaims :: "string list" where
  "idTokenBindingClaims = [''azp'', ''nonce'', ''at_hash'', ''c_hash'', ''s_hash'']"

definition tokenMetadataClaims :: "string list" where
  "tokenMetadataClaims = [''jti'', ''nbf'', ''cnf'']"

definition authorizationResponseClaims :: "string list" where
  "authorizationResponseClaims = [''code'', ''state'', ''error'']"

definition authorityClaims :: "string list" where
  "authorityClaims = [''roles'', ''groups'', ''entitlements'', ''act'', ''may_act'', ''authorization_details'']"

definition standardClaims :: "string list" where
  "standardClaims =
     [''name'', ''given_name'', ''family_name'', ''middle_name'', ''nickname'',
      ''preferred_username'', ''profile'', ''picture'', ''website'', ''email'',
      ''email_verified'', ''gender'', ''birthdate'', ''zoneinfo'', ''locale'',
      ''phone_number'', ''phone_number_verified'', ''address'', ''updated_at'']"

definition Reserved :: "claim_kind \<Rightarrow> claim_source \<Rightarrow> string \<Rightarrow> bool" where
  "Reserved kind source name \<longleftrightarrow>
     name \<in> set (setByIssuer kind) \<or> name \<in> set processingClaims \<or>
     (case kind of
        KindIDToken \<Rightarrow> name \<in> set idTokenBindingClaims \<or> name \<in> set tokenMetadataClaims \<or>
          name \<in> set authorizationResponseClaims
      | KindUserInfo \<Rightarrow> name \<in> set idTokenBindingClaims \<or> name \<in> set authorizationResponseClaims
      | KindAccessToken \<Rightarrow> False) \<or>
     source = SourceClient \<and> (name \<in> set authorityClaims \<or> name \<in> set standardClaims)"

definition ReservedInTokens :: "claim_source \<Rightarrow> string \<Rightarrow> bool" where
  "ReservedInTokens source name \<longleftrightarrow> Reserved KindIDToken source name \<or> Reserved KindAccessToken source name"

end
