(* ===== verification/Token_Issue.thy ===== *)
theory Token_Issue
  imports Token
begin

text \<open>
  Issuing tokens, \<^verbatim>\<open>internal/token/issue.go\<close>. The random source of a token identifier is an
  argument, as in \<open>Pkce\<close>. What is issued is proved to parse and validate in \<open>Token_Properties\<close>.
\<close>

datatype issue_error =
    ParamInvalid string
  | ParamReserved string
  | NoJTIEntropy
  | NotSigned sign_error

definition MarshalUnescaped :: "crypto \<Rightarrow> json \<Rightarrow> bytes" where
  "MarshalUnescaped C j = json_marshal C False j"

definition json_int :: "int \<Rightarrow> json" where
  "json_int n = JNum (n < 0) (nat \<bar>n\<bar>) None"

text \<open>\<^verbatim>\<open>Time.Unix\<close>: whole seconds, rounded down.\<close>

definition unix_seconds :: "time \<Rightarrow> int" where
  "unix_seconds t = t div second"

definition jtiSize :: nat where "jtiSize = 16"

definition randomJTI :: "bytes option \<Rightarrow> issue_error + string" where
  "randomJTI random =
     (case random of
        None \<Rightarrow> Inl NoJTIEntropy
      | Some r \<Rightarrow> if length r < jtiSize then Inl NoJTIEntropy else Inr (encode_raw True (take jtiSize r)))"

definition checkReservedParameters :: "claim_kind \<Rightarrow> json assoc \<Rightarrow> issue_error + unit" where
  "checkReservedParameters kind parameters =
     check_all (\<lambda>(name, _). require (\<not> Reserved kind SourceEmbedder name) (ParamReserved name)) parameters"

text \<open>The standard claims over the caller's parameters.\<close>

definition overlay :: "json assoc \<Rightarrow> json assoc \<Rightarrow> json assoc" where
  "overlay parameters standard = foldl (\<lambda>m (k, v). AList.update k v m) parameters standard"

section \<open>Access tokens\<close>

record AccessTokenParams =
  tpSigner :: "signer option"
  tpAlgorithm :: SignatureAlgorithm
  tpKeyID :: string
  tpIssuer :: string
  tpSubject :: string
  tpAudience :: string
  tpAudiences :: "string list"
  tpClientID :: string
  tpScope :: string
  tpConfirmation :: "Confirmation option"
  tpNow :: time
  tpLifetime :: duration
  tpParameters :: "json assoc"

definition validateAccessTokenAudiences :: "AccessTokenParams \<Rightarrow> issue_error + unit" where
  "validateAccessTokenAudiences p =
     and_then (require (tpAudience p \<noteq> [] \<or> tpAudiences p \<noteq> []) (ParamInvalid ''audience'')) (\<lambda>_.
     check_all (\<lambda>a. require (a \<noteq> []) (ParamInvalid ''audiences'')) (tpAudiences p))"

definition validateAccessTokenParams :: "AccessTokenParams \<Rightarrow> issue_error + unit" where
  "validateAccessTokenParams p =
     and_then (require (tpSigner p \<noteq> None) (ParamInvalid ''signer'')) (\<lambda>_.
     and_then (require (tpIssuer p \<noteq> []) (ParamInvalid ''issuer'')) (\<lambda>_.
     and_then (require (tpSubject p \<noteq> []) (ParamInvalid ''subject'')) (\<lambda>_.
     and_then (validateAccessTokenAudiences p) (\<lambda>_.
     and_then (require (tpClientID p \<noteq> []) (ParamInvalid ''client_id'')) (\<lambda>_.
     and_then (require (tpNow p \<noteq> zero_time) (ParamInvalid ''now'')) (\<lambda>_.
     and_then (require (0 < tpLifetime p) (ParamInvalid ''lifetime'')) (\<lambda>_.
     and_then (checkReservedParameters KindAccessToken (tpParameters p)) (\<lambda>_.
     require (\<forall>c \<in> set_option (tpConfirmation p). (cnJKT c = []) \<noteq> (cnX5TS256 c = []))
       (ParamInvalid ''confirmation'')))))))))"

definition accessTokenAudience :: "AccessTokenParams \<Rightarrow> json" where
  "accessTokenAudience p =
     (case tpAudiences p of
        [] \<Rightarrow> JStr (tpAudience p)
      | [a] \<Rightarrow> JStr a
      | as \<Rightarrow> JArr (map JStr as))"

definition rawConfirmation :: "Confirmation \<Rightarrow> json" where
  "rawConfirmation c =
     JObj ((if cnJKT c = [] then [] else [(''jkt'', JStr (cnJKT c))])
         @ (if cnX5TS256 c = [] then [] else [(''x5t#S256'', JStr (cnX5TS256 c))]))"

definition standard_access_claims :: "AccessTokenParams \<Rightarrow> string \<Rightarrow> json assoc" where
  "standard_access_claims p jti =
     [(''iss'', JStr (tpIssuer p)), (''sub'', JStr (tpSubject p)), (''aud'', accessTokenAudience p),
      (''client_id'', JStr (tpClientID p)), (''exp'', json_int (unix_seconds (tpNow p + tpLifetime p))),
      (''iat'', json_int (unix_seconds (tpNow p))), (''jti'', JStr jti)]
     @ (if tpScope p = [] then [] else [(''scope'', JStr (tpScope p))])
     @ (case tpConfirmation p of None \<Rightarrow> [] | Some c \<Rightarrow> [(''cnf'', rawConfirmation c)])"

definition access_token_claims :: "AccessTokenParams \<Rightarrow> string \<Rightarrow> json" where
  "access_token_claims p jti = marshal_object (overlay (tpParameters p) (standard_access_claims p jti))"

definition access_token_header :: "AccessTokenParams \<Rightarrow> Header" where
  "access_token_header p =
     \<lparr>hdAlgorithm = tpAlgorithm p, hdType = atJWTType, hdKeyID = tpKeyID p, hdJWK = None, hdX5C = None\<rparr>"

definition IssueAccessToken :: "crypto \<Rightarrow> AccessTokenParams \<Rightarrow> bytes option \<Rightarrow> issue_error + (string \<times> string)" where
  "IssueAccessToken C p random =
     and_then (validateAccessTokenParams p) (\<lambda>_.
     and_then (randomJTI random) (\<lambda>jti.
     and_then (map_sum NotSigned (\<lambda>x. x)
       (Sign C (tpSigner p) (access_token_header p) (MarshalUnescaped C (access_token_claims p jti)))) (\<lambda>tok.
     Inr (tok, jti))))"

section \<open>ID tokens\<close>

record IDTokenParams =
  idpSigner :: "signer option"
  idpAlgorithm :: SignatureAlgorithm
  idpKeyID :: string
  idpIssuer :: string
  idpSubject :: string
  idpAudience :: string
  idpNonce :: string
  idpAuthTime :: time
  idpACR :: string
  idpAMR :: "string list"
  idpAccessToken :: string
  idpNow :: time
  idpLifetime :: duration
  idpParameters :: "json assoc"

definition validateIDTokenParams :: "IDTokenParams \<Rightarrow> issue_error + unit" where
  "validateIDTokenParams p =
     and_then (require (idpSigner p \<noteq> None) (ParamInvalid ''signer'')) (\<lambda>_.
     and_then (require (idpIssuer p \<noteq> []) (ParamInvalid ''issuer'')) (\<lambda>_.
     and_then (require (idpSubject p \<noteq> []) (ParamInvalid ''subject'')) (\<lambda>_.
     and_then (require (idpAudience p \<noteq> []) (ParamInvalid ''audience'')) (\<lambda>_.
     and_then (require (idpNow p \<noteq> zero_time) (ParamInvalid ''now'')) (\<lambda>_.
     and_then (require (0 < idpLifetime p) (ParamInvalid ''lifetime'')) (\<lambda>_.
     checkReservedParameters KindIDToken (idpParameters p)))))))"

definition standard_id_claims :: "crypto \<Rightarrow> IDTokenParams \<Rightarrow> json assoc" where
  "standard_id_claims C p =
     [(''iss'', JStr (idpIssuer p)), (''sub'', JStr (idpSubject p)), (''aud'', JStr (idpAudience p)),
      (''exp'', json_int (unix_seconds (idpNow p + idpLifetime p))), (''iat'', json_int (unix_seconds (idpNow p)))]
     @ (if idpNonce p = [] then [] else [(''nonce'', JStr (idpNonce p))])
     @ (if idpAuthTime p = zero_time then [] else [(''auth_time'', json_int (unix_seconds (idpAuthTime p)))])
     @ (if idpACR p = [] then [] else [(''acr'', JStr (idpACR p))])
     @ (if idpAMR p = [] then [] else [(''amr'', JArr (map JStr (idpAMR p)))])
     @ (if idpAccessToken p = [] then []
        else [(''at_hash'', JStr (computeATHash C (idpAccessToken p) (idpAlgorithm p)))])"

definition id_token_claims :: "crypto \<Rightarrow> IDTokenParams \<Rightarrow> json" where
  "id_token_claims C p = marshal_object (overlay (idpParameters p) (standard_id_claims C p))"

definition id_token_header :: "IDTokenParams \<Rightarrow> Header" where
  "id_token_header p =
     \<lparr>hdAlgorithm = idpAlgorithm p, hdType = [], hdKeyID = idpKeyID p, hdJWK = None, hdX5C = None\<rparr>"

definition IssueIDToken :: "crypto \<Rightarrow> IDTokenParams \<Rightarrow> issue_error + string" where
  "IssueIDToken C p =
     and_then (validateIDTokenParams p) (\<lambda>_.
     map_sum NotSigned (\<lambda>x. x)
       (Sign C (idpSigner p) (id_token_header p) (MarshalUnescaped C (id_token_claims C p))))"

end
