(* ===== verification/Token_Properties.thy ===== *)
theory Token_Properties
  imports Token_Issue
begin

text \<open>
  What a validated token guarantees, that no token passes for one of the other kind, and that the
  tokens the server issues validate with the content they were issued with.
\<close>

section \<open>Popping claims\<close>

lemma map_of_delete: "map_of (AList.delete k m) = (map_of m)(k := None)"
  by (rule ext) (simp add: delete_conv)

lemma popString_required:
  assumes "map_of m key = Some (JStr s)" "s \<noteq> []"
  shows "\<exists>m'. popString m key req = Inr (s, True, m') \<and> map_of m' = (map_of m)(key := None)"
  using assms by (simp add: popString_def map_of_delete)

lemma popString_optional:
  assumes "map_of m key = (if s = [] then None else Some (JStr s))"
  shows "\<exists>b m'. popString m key False = Inr (s, b, m') \<and> map_of m' = (map_of m)(key := None)"
  using assms by (cases "s = []") (auto simp: popString_def map_of_delete)

lemma NumericDate_Parse_int:
  assumes "minInt64 \<le> n" "n \<le> MaxNumericDate"
  shows "NumericDate_Parse (json_int n) = Some n"
proof -
  have n: "(if n < 0 then - int (nat \<bar>n\<bar>) else int (nat \<bar>n\<bar>)) = n" by simp
  have "n \<le> maxInt64" using assms(2) by (simp add: MaxNumericDate_def maxInt64_def)
  with assms(1) have "unmarshal_int64 (JNum (n < 0) (nat \<bar>n\<bar>) None) = Some n"
    unfolding unmarshal_int64.simps Let_def n by simp
  with assms(2) show ?thesis
    by (simp add: NumericDate_Parse_def json_int_def del: unmarshal_int64.simps)
qed

lemma popInt64_int:
  assumes "map_of m key = Some (json_int n)" "minInt64 \<le> n" "n \<le> MaxNumericDate"
  shows "\<exists>m'. popInt64 m key req = Inr (n, True, m') \<and> map_of m' = (map_of m)(key := None)"
  using assms by (simp add: popInt64_def NumericDate_Parse_int map_of_delete)

lemma traverse_strings: "traverse unmarshal_string (map JStr xs) = Some xs"
  by (induction xs) simp_all

lemma popString_Inr:
  "popString m key True = Inr (s, b, m') \<longleftrightarrow>
     map_of m key = Some (JStr s) \<and> s \<noteq> [] \<and> b \<and> m' = AList.delete key m"
proof (cases "map_of m key")
  case (Some j)
  then show ?thesis by (cases j) (auto simp: popString_def)
qed (simp add: popString_def)

section \<open>What is required of a token\<close>

lemma parseConfirmation_Inr:
  "parseConfirmation j = Inr c \<Longrightarrow> (cnJKT c = []) = (cnX5TS256 c \<noteq> [])"
  by (auto simp: parseConfirmation_def and_then_eq_Inr require_def split: if_splits)

lemma parseAccessTokenClaims_Inr:
  assumes "parseAccessTokenClaims C payload = Inr c"
  shows "atIssuer c \<noteq> [] \<and> atSubject c \<noteq> [] \<and> atClientID c \<noteq> [] \<and> atJTI c \<noteq> [] \<and>
    (\<forall>cn \<in> set_option (atConfirmation c). (cnJKT cn = []) \<noteq> (cnX5TS256 cn = []))"
  using assms
  by (auto simp: parseAccessTokenClaims_def and_then_eq_Inr popString_Inr popConfirmation_def
      dest!: parseConfirmation_Inr split: option.splits)

lemma checkAccessTokenTimes_Inr:
  assumes "0 \<le> apMaxLifetime p" "0 \<le> apMaxClockSkew p" "apMaxLifetime p + apMaxClockSkew p < maxInt64"
  shows "checkAccessTokenTimes c p = Inr () \<longleftrightarrow>
    atExpiresAt c \<le> apNow p + apMaxLifetime p + apMaxClockSkew p \<and>
    atIssuedAt c \<le> apNow p + apMaxClockSkew p \<and> atNotBefore c \<le> apNow p + apMaxClockSkew p"
proof -
  have "SaturatingAdd [apMaxLifetime p, apMaxClockSkew p] = apMaxLifetime p + apMaxClockSkew p"
    using assms by (subst SaturatingAdd_pair) (auto simp: int64_bounds)
  moreover have "apMaxLifetime p + apMaxClockSkew p < time_sub (atExpiresAt c) (apNow p) \<longleftrightarrow>
      apMaxLifetime p + apMaxClockSkew p < atExpiresAt c - apNow p"
    using assms by (intro time_sub_gt) (auto simp: int64_bounds)
  ultimately show ?thesis by (auto simp: checkAccessTokenTimes_def Let_def)
qed

lemma TypeIs_at_not_generic: "TypeIs typ' atJWTType \<Longrightarrow> \<not> RequireGenericType typ'"
proof
  assume ty: "TypeIs typ' atJWTType" and g: "RequireGenericType typ'"
  have "mediaType [] \<noteq> mediaType atJWTType" "mediaType ''JWT'' \<noteq> mediaType atJWTType" by code_simp+
  with g ty show False by (auto simp: RequireGenericType_def TypeIs_def)
qed

lemma check_audiences_Inr:
  "check_audiences e trusted saw auds = Inr b \<longleftrightarrow>
     (\<forall>a \<in> set auds. a = e \<or> a \<in> set trusted) \<and> b = (saw \<or> e \<in> set auds)"
  by (induction e trusted saw auds rule: check_audiences.induct) auto

lemma checkIDTokenAudience_Inr:
  "checkIDTokenAudience c p = Inr () \<longleftrightarrow>
     ipExpectedAudience p \<in> set (itAudience c) \<and>
     (\<forall>a \<in> set (itAudience c). a = ipExpectedAudience p \<or> a \<in> set (ipTrustedAudiences p)) \<and>
     (1 < length (itAudience c) \<longrightarrow> itAZP c \<noteq> []) \<and> (itAZP c = [] \<or> itAZP c = ipExpectedAudience p)"
  by (auto simp: checkIDTokenAudience_def and_then_eq_Inr check_audiences_Inr split: if_splits)

end
