(* ===== verification/Token_Roundtrip.thy ===== *)
theory Token_Roundtrip
  imports Token_Properties
begin

text \<open>
  The tokens \<open>Token_Issue\<close> makes, read back by \<open>Token\<close>: what a server issues, a resource server
  or client that expects it accepts, with the content it was issued with.
\<close>

section \<open>Claims as written\<close>

lemma map_of_overlay:
  assumes "distinct (map fst standard)"
  shows "map_of (overlay ps standard) = map_of ps ++ map_of standard"
  using assms
proof (induction standard arbitrary: ps)
  case (Cons kv standard)
  obtain k v where kv: "kv = (k, v)" by (cases kv)
  with Cons.prems have "map_of standard k = None" by (simp add: map_of_eq_None_iff)
  moreover have "map_of (overlay ps (kv # standard)) = map_of (AList.update k v ps) ++ map_of standard"
    using Cons by (simp add: overlay_def kv)
  ultimately show ?case
    by (auto simp: kv update_conv map_add_def split: option.split intro!: ext)
qed (simp add: overlay_def)

lemma distinct_overlay: "distinct (map fst ps) \<Longrightarrow> distinct (map fst (overlay ps standard))"
proof (induction standard arbitrary: ps)
  case (Cons kv standard)
  obtain k v where "kv = (k, v)" by (cases kv)
  with Cons show ?case by (simp add: overlay_def distinct_update)
qed (simp add: overlay_def)

lemma unmarshal_written:
  assumes "faithful_json C False (marshal_object (overlay ps standard))"
    and "distinct (map fst ps)" "distinct (map fst standard)"
  obtains raw where "unmarshal_payload C (json_marshal C False (marshal_object (overlay ps standard))) = Inr raw"
    "map_of raw = map_of ps ++ map_of standard"
proof -
  obtain ms where "unmarshal_object (marshal_object (overlay ps standard)) = Some ms"
    "map_of ms = map_of (overlay ps standard)"
    using unmarshal_marshal_object [OF distinct_overlay [OF assms(2)]] by blast
  with assms(1) map_of_overlay [OF assms(3)] that show thesis
    by (simp add: unmarshal_payload_def faithful_json_def of_option_simps)
qed

lemma checkReservedParameters_lookup:
  assumes "checkReservedParameters kind ps = Inr ()" "Reserved kind SourceEmbedder name"
  shows "map_of ps name = None"
proof (rule ccontr)
  assume "map_of ps name \<noteq> None"
  then obtain v where "(name, v) \<in> set ps" by (auto dest: map_of_SomeD)
  with assms(1) have "\<not> Reserved kind SourceEmbedder name"
    by (auto simp: checkReservedParameters_def check_all_Inr require_def split: if_splits)
  with assms(2) show False by simp
qed

lemma parse_written_confirmation:
  "(cnJKT c = []) \<noteq> (cnX5TS256 c = []) \<Longrightarrow> parseConfirmation (rawConfirmation c) = Inr c"
  by (cases "cnJKT c = []")
    (auto simp: parseConfirmation_def rawConfirmation_def require_def of_option_simps CheckFieldCase_def leaves_def
      rawConfirmation_fields_def obj_members_def known_members_def struct_field_def rawConfirmation_dec_def)

section \<open>Access tokens\<close>

lemma popAudience_written:
  assumes "map_of m ''aud'' = Some (accessTokenAudience p)" "validateAccessTokenAudiences p = Inr ()"
  shows "\<exists>m'. popStringOrStringSlice m ''aud'' =
      Inr (if tpAudiences p = [] then [tpAudience p] else tpAudiences p, m') \<and> map_of m' = (map_of m)(''aud'' := None)"
proof -
  from assms(2) have ne: "[] \<notin> set (tpAudiences p)" "tpAudience p \<noteq> [] \<or> tpAudiences p \<noteq> []"
    by (auto simp: validateAccessTokenAudiences_def and_then_eq_Inr check_all_Inr require_def split: if_splits)
  show ?thesis
  proof (cases "tpAudiences p")
    case Nil
    with assms(1) ne show ?thesis by (simp add: popStringOrStringSlice_def accessTokenAudience_def map_of_delete)
  next
    case (Cons a as1)
    note a = this
    show ?thesis
    proof (cases as1)
      case Nil
      with a assms(1) ne show ?thesis by (simp add: popStringOrStringSlice_def accessTokenAudience_def map_of_delete)
    next
      case (Cons b as2)
      with a assms(1) ne show ?thesis
        by (simp add: popStringOrStringSlice_def accessTokenAudience_def map_of_delete traverse_strings)
    qed
  qed
qed

lemma distinct_standard_access_claims: "distinct (map fst (standard_access_claims p jti))"
  by (simp add: standard_access_claims_def split: option.split)

lemma popConfirmation_written:
  assumes "map_of m ''cnf'' = map_option rawConfirmation conf"
    and "\<forall>c \<in> set_option conf. (cnJKT c = []) \<noteq> (cnX5TS256 c = [])"
  shows "\<exists>m'. popConfirmation m = Inr (conf, m') \<and> map_of m' = (map_of m)(''cnf'' := None)"
  using assms parse_written_confirmation
  by (cases conf) (auto simp: popConfirmation_def map_of_delete)

lemma popAccessTokenTimes_written:
  assumes "map_of m ''exp'' = Some (json_int e)" "map_of m ''iat'' = Some (json_int i)" "map_of m ''nbf'' = None"
    and "minInt64 \<le> e" "e \<le> MaxNumericDate" "minInt64 \<le> i" "i \<le> MaxNumericDate"
  shows "\<exists>m'. popAccessTokenTimes m = Inr ((time_unix e, time_unix i, zero_time), m') \<and>
     map_of m' = (map_of m)(''exp'' := None, ''iat'' := None)"
proof -
  obtain m1 where m1: "popInt64 m ''exp'' True = Inr (e, True, m1)" "map_of m1 = (map_of m)(''exp'' := None)"
    using popInt64_int [OF assms(1,4,5)] by blast
  with assms(2) have "map_of m1 ''iat'' = Some (json_int i)" by simp
  from popInt64_int [OF this assms(6,7)] obtain m2
    where m2: "popInt64 m1 ''iat'' True = Inr (i, True, m2)" "map_of m2 = (map_of m1)(''iat'' := None)" by blast
  with m1 assms(3) show ?thesis by (simp add: popAccessTokenTimes_def peekNotBefore_def)
qed

lemma standard_access_lookup:
  "map_of (standard_access_claims p jti) ''iss'' = Some (JStr (tpIssuer p))"
  "map_of (standard_access_claims p jti) ''sub'' = Some (JStr (tpSubject p))"
  "map_of (standard_access_claims p jti) ''aud'' = Some (accessTokenAudience p)"
  "map_of (standard_access_claims p jti) ''client_id'' = Some (JStr (tpClientID p))"
  "map_of (standard_access_claims p jti) ''exp'' = Some (json_int (unix_seconds (tpNow p + tpLifetime p)))"
  "map_of (standard_access_claims p jti) ''iat'' = Some (json_int (unix_seconds (tpNow p)))"
  "map_of (standard_access_claims p jti) ''jti'' = Some (JStr jti)"
  "map_of (standard_access_claims p jti) ''scope'' = (if tpScope p = [] then None else Some (JStr (tpScope p)))"
  "map_of (standard_access_claims p jti) ''cnf'' = map_option rawConfirmation (tpConfirmation p)"
  by (simp_all add: standard_access_claims_def split: option.split)

lemma standard_access_keys: "map_of (standard_access_claims p jti) k \<noteq> None \<Longrightarrow> k \<in> set (setByIssuer KindAccessToken)"
  by (auto simp: standard_access_claims_def setByIssuer_def split: if_splits option.splits)

text \<open>The claims of a token, read from the map they were written to.\<close>

lemma parse_written_access_claims:
  assumes valid: "validateAccessTokenParams p = Inr ()" and jti: "jti \<noteq> []"
    and ps: "distinct (map fst (tpParameters p))" "map_of (tpParameters p) ''nbf'' = None"
    and dates: "minInt64 \<le> unix_seconds (tpNow p)" "unix_seconds (tpNow p) \<le> MaxNumericDate"
      "minInt64 \<le> unix_seconds (tpNow p + tpLifetime p)" "unix_seconds (tpNow p + tpLifetime p) \<le> MaxNumericDate"
    and json: "faithful_json C False (access_token_claims p jti)"
  shows "\<exists>ps'. parseAccessTokenClaims C (MarshalUnescaped C (access_token_claims p jti)) =
      Inr \<lparr>atIssuer = tpIssuer p, atSubject = tpSubject p,
        atAudience = (if tpAudiences p = [] then [tpAudience p] else tpAudiences p),
        atClientID = tpClientID p, atScope = tpScope p,
        atExpiresAt = time_unix (unix_seconds (tpNow p + tpLifetime p)),
        atIssuedAt = time_unix (unix_seconds (tpNow p)), atNotBefore = zero_time, atJTI = jti,
        atConfirmation = tpConfirmation p, atParameters = ps'\<rparr> \<and> map_of ps' = map_of (tpParameters p)"
proof -
  let ?S = "standard_access_claims p jti"
  let ?e = "unix_seconds (tpNow p + tpLifetime p)" and ?i = "unix_seconds (tpNow p)"
  obtain raw where raw: "unmarshal_payload C (MarshalUnescaped C (access_token_claims p jti)) = Inr raw"
    and m: "map_of raw = map_of (tpParameters p) ++ map_of ?S"
    using unmarshal_written [OF json [unfolded access_token_claims_def] ps(1) distinct_standard_access_claims]
    by (auto simp: access_token_claims_def MarshalUnescaped_def)
  from valid have ne: "tpIssuer p \<noteq> []" "tpSubject p \<noteq> []" "tpClientID p \<noteq> []"
    and auds: "validateAccessTokenAudiences p = Inr ()"
    and res: "checkReservedParameters KindAccessToken (tpParameters p) = Inr ()"
    and conf: "\<forall>c \<in> set_option (tpConfirmation p). (cnJKT c = []) \<noteq> (cnX5TS256 c = [])"
    by (auto simp: validateAccessTokenParams_def and_then_eq_Inr require_def split: if_splits)
  have none: "map_of (tpParameters p) name = None" if "name \<in> set (setByIssuer KindAccessToken)" for name
    using that by (intro checkReservedParameters_lookup [OF res]) (simp add: Reserved_def)
  have look: "map_of raw name = map_of ?S name" if "name \<in> set (setByIssuer KindAccessToken)" for name
    using none [OF that] by (simp add: m map_add_def split: option.split)
  have rest: "map_of raw name = map_of (tpParameters p) name" if "name \<notin> set (setByIssuer KindAccessToken)" for name
    using that standard_access_keys [of p jti name] by (auto simp: m map_add_def split: option.split)
  have nbf: "map_of raw ''nbf'' = None" using rest [of "''nbf''"] ps(2) by (simp add: setByIssuer_def)
  note lk = look [unfolded setByIssuer_def claim_kind.case, simplified] standard_access_lookup
  obtain m1 where m1: "popString raw ''iss'' True = Inr (tpIssuer p, True, m1)" "map_of m1 = (map_of raw)(''iss'' := None)"
    using popString_required [of raw "''iss''" "tpIssuer p" True] ne by (auto simp: lk)
  obtain m2 where m2: "popString m1 ''sub'' True = Inr (tpSubject p, True, m2)" "map_of m2 = (map_of m1)(''sub'' := None)"
    using popString_required [of m1 "''sub''" "tpSubject p" True] ne by (auto simp: m1 lk)
  obtain m3 where m3: "popStringOrStringSlice m2 ''aud'' =
      Inr (if tpAudiences p = [] then [tpAudience p] else tpAudiences p, m3)" "map_of m3 = (map_of m2)(''aud'' := None)"
    using popAudience_written [of m2 p] auds unfolding m1 m2 by (simp add: lk) blast
  obtain m4 where m4: "popString m3 ''client_id'' True = Inr (tpClientID p, True, m4)" "map_of m4 = (map_of m3)(''client_id'' := None)"
    using popString_required [of m3 "''client_id''" "tpClientID p" True] ne by (auto simp: m1 m2 m3 lk)
  obtain m5 where m5: "popAccessTokenTimes m4 = Inr ((time_unix ?e, time_unix ?i, zero_time), m5)"
    "map_of m5 = (map_of m4)(''exp'' := None, ''iat'' := None)"
    using popAccessTokenTimes_written [of m4 ?e ?i] dates unfolding m1 m2 m3 m4 by (simp add: lk nbf) blast
  obtain m6 where m6: "popString m5 ''jti'' True = Inr (jti, True, m6)" "map_of m6 = (map_of m5)(''jti'' := None)"
    using popString_required [of m5 "''jti''" jti True] jti by (auto simp: m1 m2 m3 m4 m5 lk)
  obtain b m7 where m7: "popString m6 ''scope'' False = Inr (tpScope p, b, m7)" "map_of m7 = (map_of m6)(''scope'' := None)"
  proof -
    have "map_of m6 ''scope'' = (if tpScope p = [] then None else Some (JStr (tpScope p)))"
      unfolding m1 m2 m3 m4 m5 m6 using lk by simp
    from popString_optional [OF this] that show thesis by blast
  qed
  obtain m8 where m8: "popConfirmation m7 = Inr (tpConfirmation p, m8)" "map_of m8 = (map_of m7)(''cnf'' := None)"
  proof -
    have "map_of m7 ''cnf'' = map_option rawConfirmation (tpConfirmation p)"
      unfolding m1 m2 m3 m4 m5 m6 m7 using lk by simp
    from popConfirmation_written [OF this conf] that show thesis by blast
  qed
  have "map_of m8 name = map_of (tpParameters p) name" for name
  proof (cases "name \<in> set (setByIssuer KindAccessToken)")
    case True
    then have "map_of m8 name = None"
      unfolding m1 m2 m3 m4 m5 m6 m7 m8 by (auto simp: setByIssuer_def)
    with none [OF True] show ?thesis by simp
  next
    case False
    with rest [OF False] show ?thesis
      unfolding m1 m2 m3 m4 m5 m6 m7 m8 by (simp add: setByIssuer_def)
  qed
  then have "map_of m8 = map_of (tpParameters p)" by blast
  then show ?thesis
    using m1(1) m2(1) m3(1) m4(1) m5(1) m6(1) m7(1) m8(1)
    by (auto simp: parseAccessTokenClaims_def raw)
qed

text \<open>
  C16. What the server issues, a resource server that expects it accepts: an issued access token
  parses and validates, within its size and dates, under any policy that names its issuer and one
  of its audiences, and yields exactly what it was issued with; the caller's extra claims come back
  as its parameters.
\<close>

theorem issued_access_token_validates:
  assumes issued: "IssueAccessToken C p random = Inr (tok, jti)"
    and signer: "tpSigner p = Some sg" "genuine_signer C sg"
    and json: "\<And>j. header_json (access_token_header p) = Some j \<Longrightarrow> faithful_json C True j"
      "faithful_json C False (access_token_claims p jti)"
    and ps: "distinct (map fst (tpParameters p))" "map_of (tpParameters p) ''nbf'' = None"
    and dates: "minInt64 \<le> unix_seconds (tpNow p)" "unix_seconds (tpNow p) \<le> MaxNumericDate"
      "minInt64 \<le> unix_seconds (tpNow p + tpLifetime p)" "unix_seconds (tpNow p + tpLifetime p) \<le> MaxNumericDate"
    and fits: "int (length tok) \<le> maxBytes"
    and policy: "apExpectedIssuer pol = tpIssuer p" "apExpectedAudience pol \<noteq> []"
      "apExpectedAudience pol \<in> set (if tpAudiences p = [] then [tpAudience p] else tpAudiences p)"
      "apAlgorithm pol = tpAlgorithm p" "apNow pol \<noteq> zero_time" "0 < apMaxLifetime pol" "0 \<le> apMaxClockSkew pol"
      "apMaxLifetime pol + apMaxClockSkew pol < maxInt64"
    and fresh: "tpNow p + tpLifetime p \<le> apNow pol + apMaxLifetime pol + apMaxClockSkew pol"
      "tpNow p \<le> apNow pol + apMaxClockSkew pol" "zero_time \<le> apNow pol"
  shows "\<exists>t v. ParseAccessTokenMax C tok maxBytes = Inr t \<and> AccessToken_Validate C t (sgPublic sg) pol = Inr v \<and>
    vaSubject v = tpSubject p \<and> vaClientID v = tpClientID p \<and> vaScope v = tpScope p \<and> vaJTI v = jti \<and>
    vaAudience v = (if tpAudiences p = [] then [tpAudience p] else tpAudiences p) \<and>
    (case tpConfirmation p of None \<Rightarrow> vaJKT v = [] \<and> vaX5TS256 v = []
      | Some c \<Rightarrow> vaJKT v = cnJKT c \<and> vaX5TS256 v = cnX5TS256 c) \<and>
    vaExpiresAt v = time_unix (unix_seconds (tpNow p + tpLifetime p)) \<and>
    map_of (vaParameters v) = map_of (tpParameters p)"
proof -
  let ?payload = "MarshalUnescaped C (access_token_claims p jti)"
  from issued have valid: "validateAccessTokenParams p = Inr ()" and r: "randomJTI random = Inr jti"
    and signed: "Sign C (Some sg) (access_token_header p) ?payload = Inr tok"
    using signer(1) by (auto simp: IssueAccessToken_def and_then_eq_Inr map_sum_Inr)
  have jti: "jti \<noteq> []"
    using r by (auto simp: randomJTI_def jtiSize_def encode_raw_Nil split: option.splits if_splits)
  have bytes: "list_all (\<lambda>b. b < 256) ?payload"
    using json(2) by (simp add: faithful_json_def MarshalUnescaped_def)
  obtain c where c: "ParseCompactMax C tok maxBytes = Inr c" "cmHeader c = access_token_header p" "cmPayload c = ?payload"
    "Compact_Verify C c (sgPublic sg) (hdAlgorithm (access_token_header p)) = Inr ()"
    by (rule signed_compact [OF signer(2) json(1) _ bytes signed fits]) (simp_all add: access_token_header_def)
  obtain ps' where parsed: "parseAccessTokenClaims C ?payload =
      Inr \<lparr>atIssuer = tpIssuer p, atSubject = tpSubject p,
        atAudience = (if tpAudiences p = [] then [tpAudience p] else tpAudiences p),
        atClientID = tpClientID p, atScope = tpScope p,
        atExpiresAt = time_unix (unix_seconds (tpNow p + tpLifetime p)),
        atIssuedAt = time_unix (unix_seconds (tpNow p)), atNotBefore = zero_time, atJTI = jti,
        atConfirmation = tpConfirmation p, atParameters = ps'\<rparr>" (is "_ = Inr ?c")
    and ps': "map_of ps' = map_of (tpParameters p)"
    using parse_written_access_claims [OF valid jti ps dates json(2)] by blast
  have t: "ParseAccessTokenMax C tok maxBytes = Inr \<lparr>accCompact = c, accClaims = ?c\<rparr>"
    by (simp add: ParseAccessTokenMax_def c in_token_def parsed require_def access_token_header_def TypeIs_def)
  have floor: "time_unix (unix_seconds x) \<le> x" for x
    using div_mult_mod_eq [of x second] pos_mod_sign [of second x]
    by (simp add: time_unix_def unix_seconds_def second_def)
  have times: "checkAccessTokenTimes ?c pol = Inr ()"
    using policy fresh floor [of "tpNow p"] floor [of "tpNow p + tpLifetime p"]
    by (subst checkAccessTokenTimes_Inr) auto
  have iss: "tpIssuer p \<noteq> []"
    using valid by (auto simp: validateAccessTokenParams_def and_then_eq_Inr require_def split: if_splits)
  have "\<exists>v. AccessToken_Validate C \<lparr>accCompact = c, accClaims = ?c\<rparr> (sgPublic sg) pol = Inr v \<and>
      vaSubject v = tpSubject p \<and> vaClientID v = tpClientID p \<and> vaScope v = tpScope p \<and> vaJTI v = jti \<and>
      vaAudience v = (if tpAudiences p = [] then [tpAudience p] else tpAudiences p) \<and>
      (case tpConfirmation p of None \<Rightarrow> vaJKT v = [] \<and> vaX5TS256 v = []
        | Some c \<Rightarrow> vaJKT v = cnJKT c \<and> vaX5TS256 v = cnX5TS256 c) \<and>
      vaExpiresAt v = time_unix (unix_seconds (tpNow p + tpLifetime p)) \<and>
      map_of (vaParameters v) = map_of (tpParameters p)"
    using c(4) policy iss times
    by (simp add: AccessToken_Validate_def require_def Let_def access_token_header_def ps' split: option.split)
  with t show ?thesis by blast
qed

section \<open>An example\<close>

definition example_access_params :: AccessTokenParams where
  "example_access_params =
     \<lparr>tpSigner = Some example_signer, tpAlgorithm = ES256, tpKeyID = [], tpIssuer = ''i'', tpSubject = ''s'',
      tpAudience = ''a'', tpAudiences = [], tpClientID = ''c'', tpScope = [],
      tpConfirmation = Some \<lparr>cnJKT = ''k'', cnX5TS256 = []\<rparr>, tpNow = 0, tpLifetime = second, tpParameters = []\<rparr>"

definition example_jti :: string where "example_jti = ''AAAAAAAAAAAAAAAAAAAAAA''"

definition example_token :: string where "example_token = ''aA.cA.'' @ example_signature"

definition token_crypto :: crypto where
  "token_crypto =
     example_crypto (\<lambda>bs. if bs = [104] then header_json (access_token_header example_access_params)
       else Some (access_token_claims example_access_params example_jti))
     \<lparr>json_marshal := (\<lambda>esc _. if esc then [104] else [112]), asn1_signature := (\<lambda>_. Some ((1, 1), []))\<rparr>"

definition example_access_policy :: AccessTokenValidatePolicy where
  "example_access_policy =
     \<lparr>apExpectedIssuer = ''i'', apExpectedAudience = ''a'', apAdditionalAudiences = [], apAlgorithm = ES256,
      apNow = 0, apMaxLifetime = second, apMaxClockSkew = 0\<rparr>"

lemma example_issued:
  "IssueAccessToken token_crypto example_access_params (Some (replicate 16 0)) = Inr (example_token, example_jti)"
  by code_simp

lemma token_json:
  "\<And>j. header_json (access_token_header example_access_params) = Some j \<Longrightarrow> faithful_json token_crypto True j"
  "faithful_json token_crypto False (access_token_claims example_access_params example_jti)"
  by (simp_all add: faithful_json_def token_crypto_def example_crypto_def DecodesLosslessly_def utf8_len_def)

lemma token_signer: "genuine_signer token_crypto example_signer"
  by (rule example_signer_genuine) (simp_all add: token_crypto_def example_crypto_def)

lemma issued_access_token_validates_witness:
  "\<exists>t v. ParseAccessTokenMax token_crypto example_token 200 = Inr t \<and>
     AccessToken_Validate token_crypto t (sgPublic example_signer) example_access_policy = Inr v \<and>
     vaSubject v = ''s'' \<and> vaJKT v = ''k''"
proof -
  have "int (length example_token) \<le> 200" by (simp add: example_token_def example_signature_def)
  from issued_access_token_validates [OF example_issued _ token_signer token_json _ _ _ _ _ _ this,
      of example_access_policy]
  show ?thesis
    by (auto simp: example_access_params_def example_access_policy_def unix_seconds_def second_def
        int64_bounds MaxNumericDate_def zero_time_def)
qed

section \<open>What validation guarantees\<close>

text \<open>
  C15. What a resource server may rely on: a validated access token was signed, under the expected
  algorithm, by the expected issuer, and is meant for this resource; it was not issued later than now
  and not to be used before now, within the clock skew, and it expires no later than the longest
  lifetime from now; it is bound to at most one key, by its thumbprint or its certificate's. What
  validation returns is what the signed claims say. Whether the token has expired is not decided
  here: that is left to the caller. No string is both such a token and an ID token.
\<close>

theorem access_token_sound:
  assumes "ParseAccessTokenMax C tok maxBytes = Inr t" "AccessToken_Validate C t pub p = Inr v"
    and skew: "0 \<le> apMaxClockSkew p" "apMaxLifetime p + apMaxClockSkew p < maxInt64"
  shows "verify_signature C (apAlgorithm p) pub (cmSigningInput (accCompact t)) (cmSignature (accCompact t)) \<and>
    hdAlgorithm (cmHeader (accCompact t)) = apAlgorithm p \<and>
    vaIssuer v = apExpectedIssuer p \<and>
    (apExpectedAudience p \<in> set (vaAudience v) \<or> (\<exists>a \<in> set (apAdditionalAudiences p). a \<in> set (vaAudience v))) \<and>
    vaSubject v \<noteq> [] \<and> vaClientID v \<noteq> [] \<and> vaJTI v \<noteq> [] \<and>
    vaIssuer v = atIssuer (accClaims t) \<and> vaAudience v = atAudience (accClaims t) \<and>
    vaSubject v = atSubject (accClaims t) \<and> vaClientID v = atClientID (accClaims t) \<and>
    vaJTI v = atJTI (accClaims t) \<and> vaExpiresAt v = atExpiresAt (accClaims t) \<and>
    vaIssuedAt v = atIssuedAt (accClaims t) \<and> atNotBefore (accClaims t) \<le> apNow p + apMaxClockSkew p \<and>
    vaExpiresAt v \<le> apNow p + apMaxLifetime p + apMaxClockSkew p \<and> vaIssuedAt v \<le> apNow p + apMaxClockSkew p \<and>
    (vaJKT v = [] \<or> vaX5TS256 v = []) \<and>
    (\<forall>t'. ParseIDTokenMax C tok maxBytes \<noteq> Inr t')"
proof -
  from assms(1) have parse: "ParseCompactMax C tok maxBytes = Inr (accCompact t)"
    and ty: "TypeIs (hdType (cmHeader (accCompact t))) atJWTType"
    and claims: "parseAccessTokenClaims C (cmPayload (accCompact t)) = Inr (accClaims t)"
    by (auto simp: ParseAccessTokenMax_def and_then_eq_Inr require_def split: if_splits)
  let ?c = "accClaims t"
  from assms(2) have sig: "Compact_Verify C (accCompact t) pub (apAlgorithm p) = Inr ()"
    and life: "0 < apMaxLifetime p" and iss: "atIssuer ?c = apExpectedIssuer p"
    and aud: "apExpectedAudience p \<in> set (atAudience ?c) \<or> containsAny (atAudience ?c) (apAdditionalAudiences p)"
    and times: "checkAccessTokenTimes ?c p = Inr ()"
    and v: "vaSubject v = atSubject ?c" "vaClientID v = atClientID ?c" "vaJTI v = atJTI ?c"
      "vaIssuer v = atIssuer ?c" "vaAudience v = atAudience ?c" "vaExpiresAt v = atExpiresAt ?c"
      "vaIssuedAt v = atIssuedAt ?c"
      "vaJKT v = (case atConfirmation ?c of None \<Rightarrow> [] | Some cn \<Rightarrow> cnJKT cn)"
      "vaX5TS256 v = (case atConfirmation ?c of None \<Rightarrow> [] | Some cn \<Rightarrow> cnX5TS256 cn)"
    by (auto simp: AccessToken_Validate_def and_then_eq_Inr require_def Let_def split: if_splits)
  from sig have s: "verify_signature C (apAlgorithm p) pub (cmSigningInput (accCompact t)) (cmSignature (accCompact t))"
    "hdAlgorithm (cmHeader (accCompact t)) = apAlgorithm p"
    by (auto simp: Compact_Verify_def require_def split: if_splits)
  note f = parseAccessTokenClaims_Inr [OF claims]
  have bind: "vaJKT v = [] \<or> vaX5TS256 v = []"
    using f by (auto simp: v split: option.split)
  have "\<not> RequireGenericType (hdType (cmHeader (accCompact t)))"
    by (rule TypeIs_at_not_generic [OF ty])
  then have noid: "\<forall>t'. ParseIDTokenMax C tok maxBytes \<noteq> Inr t'"
    by (simp add: ParseIDTokenMax_def parse in_token_def require_def)
  have t: "vaExpiresAt v \<le> apNow p + apMaxLifetime p + apMaxClockSkew p" "vaIssuedAt v \<le> apNow p + apMaxClockSkew p"
    "atNotBefore ?c \<le> apNow p + apMaxClockSkew p"
    using times life skew by (simp_all add: v checkAccessTokenTimes_Inr)
  have a: "apExpectedAudience p \<in> set (vaAudience v) \<or> (\<exists>a \<in> set (apAdditionalAudiences p). a \<in> set (vaAudience v))"
    using aud by (simp add: v containsAny_def list_ex_iff)
  show ?thesis
    using s iss a t bind noid f by (simp add: v)
qed

lemma access_token_sound_witness:
  "\<exists>v :: ValidatedAccessToken. vaIssuer v = ''i'' \<and> (vaJKT v = [] \<or> vaX5TS256 v = []) \<and> vaExpiresAt v \<le> second"
proof -
  have "is_ok (and_then (ParseAccessTokenMax token_crypto example_token 200) (\<lambda>t.
      AccessToken_Validate token_crypto t (sgPublic example_signer) example_access_policy))"
    by code_simp
  then obtain t v where "ParseAccessTokenMax token_crypto example_token 200 = Inr t"
    "AccessToken_Validate token_crypto t (sgPublic example_signer) example_access_policy = Inr v"
    by (auto simp: is_ok_def and_then_def split: sum.splits)
  from access_token_sound [OF this]
  have "vaIssuer v = ''i'' \<and> (vaJKT v = [] \<or> vaX5TS256 v = []) \<and> vaExpiresAt v \<le> second"
    by (simp add: example_access_policy_def second_def int64_bounds)
  then show ?thesis by blast
qed

text \<open>
  C31. What a client may rely on: a validated ID token was signed under the expected algorithm by
  the expected issuer, names the client and otherwise only parties it trusts, the client being the
  authorized party whenever there are several; it is neither expired nor from the future nor too
  old, within the clock skew; it carries the expected nonce, and its access token hash, when it has
  one, is that of the access token it came with. No string is both such a token and an access token.
\<close>

theorem id_token_sound:
  assumes "ParseIDTokenMax C tok maxBytes = Inr t" "IDToken_Validate C t pub p = Inr c"
    and skew: "0 \<le> ipMaxClockSkew p" "ipMaxLifetime p + ipMaxClockSkew p < maxInt64"
  shows "verify_signature C (ipAlgorithm p) pub (cmSigningInput (idtCompact t)) (cmSignature (idtCompact t)) \<and>
    hdAlgorithm (cmHeader (idtCompact t)) = ipAlgorithm p \<and> itIssuer c = ipExpectedIssuer p \<and>
    ipExpectedAudience p \<in> set (itAudience c) \<and>
    (\<forall>a \<in> set (itAudience c). a = ipExpectedAudience p \<or> a \<in> set (ipTrustedAudiences p)) \<and>
    (1 < length (itAudience c) \<longrightarrow> itAZP c = ipExpectedAudience p) \<and>
    ipNow p - ipMaxClockSkew p \<le> itExpiresAt c \<and> itExpiresAt c \<le> ipNow p + ipMaxLifetime p + ipMaxClockSkew p \<and>
    ipNow p - ipMaxLifetime p \<le> itIssuedAt c \<and> itIssuedAt c \<le> ipNow p + ipMaxClockSkew p \<and>
    (itAuthTime c = zero_time \<or> itAuthTime c \<le> ipNow p + ipMaxClockSkew p) \<and>
    (ipExpectedNonce p \<noteq> [] \<longrightarrow> itNonce c = ipExpectedNonce p) \<and>
    (itATHash c \<noteq> [] \<longrightarrow> ipAccessToken p \<noteq> [] \<and> itATHash c = computeATHash C (ipAccessToken p) (ipAlgorithm p)) \<and>
    (\<forall>t'. ParseAccessTokenMax C tok maxBytes \<noteq> Inr t')"
proof -
  from assms(1) have parse: "ParseCompactMax C tok maxBytes = Inr (idtCompact t)"
    and ty: "RequireGenericType (hdType (cmHeader (idtCompact t)))"
    by (auto simp: ParseIDTokenMax_def and_then_eq_Inr require_def split: if_splits)
  from assms(2) have c: "c = idtClaims t" and life: "0 < ipMaxLifetime p"
    and sig: "Compact_Verify C (idtCompact t) pub (ipAlgorithm p) = Inr ()"
    and iss: "itIssuer c = ipExpectedIssuer p" and aud: "checkIDTokenAudience c p = Inr ()"
    and times: "ipNow p \<le> itExpiresAt c + ipMaxClockSkew p"
      "time_sub (itExpiresAt c) (ipNow p) \<le> SaturatingAdd [ipMaxLifetime p, ipMaxClockSkew p]"
      "time_sub (ipNow p) (itIssuedAt c) \<le> ipMaxLifetime p" "itIssuedAt c \<le> ipNow p + ipMaxClockSkew p"
    and auth: "checkAuthTime (itAuthTime c) p = Inr ()"
    and nonce: "ipExpectedNonce p = [] \<or> itNonce c = ipExpectedNonce p" and ath: "checkATHash C c p = Inr ()"
    by (auto simp: IDToken_Validate_def and_then_eq_Inr require_def Let_def split: if_splits)
  have "SaturatingAdd [ipMaxLifetime p, ipMaxClockSkew p] = ipMaxLifetime p + ipMaxClockSkew p"
    using skew life by (subst SaturatingAdd_pair) (auto simp: int64_bounds)
  with times(2) have exp: "itExpiresAt c \<le> ipNow p + ipMaxLifetime p + ipMaxClockSkew p"
    using time_sub_gt [of "ipMaxLifetime p + ipMaxClockSkew p" "itExpiresAt c" "ipNow p"] skew life
    by (auto simp: int64_bounds)
  have iat: "ipNow p - ipMaxLifetime p \<le> itIssuedAt c"
    using times(3) time_sub_gt [of "ipMaxLifetime p" "ipNow p" "itIssuedAt c"] skew life
    by (auto simp: int64_bounds)
  from sig have s: "verify_signature C (ipAlgorithm p) pub (cmSigningInput (idtCompact t)) (cmSignature (idtCompact t))"
    "hdAlgorithm (cmHeader (idtCompact t)) = ipAlgorithm p"
    by (auto simp: Compact_Verify_def require_def split: if_splits)
  have at: "itATHash c \<noteq> [] \<longrightarrow> ipAccessToken p \<noteq> [] \<and> itATHash c = computeATHash C (ipAccessToken p) (ipAlgorithm p)"
    using ath by (auto simp: checkATHash_def require_def split: if_splits)
  have au: "itAuthTime c = zero_time \<or> itAuthTime c \<le> ipNow p + ipMaxClockSkew p"
    using auth by (auto simp: checkAuthTime_def require_def split: if_splits)
  have "\<not> TypeIs (hdType (cmHeader (idtCompact t))) atJWTType" using TypeIs_at_not_generic ty by blast
  then have noat: "\<forall>t'. ParseAccessTokenMax C tok maxBytes \<noteq> Inr t'"
    by (simp add: ParseAccessTokenMax_def parse require_def)
  have azp: "1 < length (itAudience c) \<longrightarrow> itAZP c = ipExpectedAudience p"
    using aud unfolding checkIDTokenAudience_Inr by blast
  have n: "ipExpectedNonce p \<noteq> [] \<longrightarrow> itNonce c = ipExpectedNonce p" using nonce by blast
  have e: "ipNow p - ipMaxClockSkew p \<le> itExpiresAt c" using times(1) by linarith
  note a = aud [unfolded checkIDTokenAudience_Inr]
  show ?thesis
    by (intro conjI s iss conjunct1 [OF a] conjunct1 [OF conjunct2 [OF a]] azp e exp iat times(4) au n at noat)
qed

definition example_id_params :: IDTokenParams where
  "example_id_params =
     \<lparr>idpSigner = Some example_signer, idpAlgorithm = ES256, idpKeyID = [], idpIssuer = ''i'', idpSubject = ''s'',
      idpAudience = ''c'', idpNonce = ''n'', idpAuthTime = zero_time, idpACR = [], idpAMR = [],
      idpAccessToken = [], idpNow = 0, idpLifetime = second, idpParameters = []\<rparr>"

definition id_crypto :: crypto where
  "id_crypto =
     example_crypto (\<lambda>bs. if bs = [104] then header_json (id_token_header example_id_params)
       else Some (id_token_claims (example_crypto (\<lambda>_. None)) example_id_params))
     \<lparr>json_marshal := (\<lambda>esc _. if esc then [104] else [112]), asn1_signature := (\<lambda>_. Some ((1, 1), []))\<rparr>"

definition example_id_policy :: IDTokenValidatePolicy where
  "example_id_policy =
     \<lparr>ipExpectedIssuer = ''i'', ipExpectedAudience = ''c'', ipTrustedAudiences = [], ipAlgorithm = ES256,
      ipExpectedNonce = ''n'', ipAccessToken = [], ipNow = 0, ipMaxLifetime = second, ipMaxClockSkew = 0\<rparr>"

lemma id_token_sound_witness:
  "IssueIDToken id_crypto example_id_params = Inr example_token \<and>
   (\<exists>c :: IDTokenClaims. itIssuer c = ''i'' \<and> itNonce c = ''n'' \<and> itExpiresAt c \<le> second)"
proof
  show "IssueIDToken id_crypto example_id_params = Inr example_token" by code_simp
  have "is_ok (and_then (ParseIDTokenMax id_crypto example_token 200) (\<lambda>t.
      IDToken_Validate id_crypto t (sgPublic example_signer) example_id_policy))"
    by code_simp
  then obtain t c where "ParseIDTokenMax id_crypto example_token 200 = Inr t"
    "IDToken_Validate id_crypto t (sgPublic example_signer) example_id_policy = Inr c"
    by (auto simp: is_ok_def and_then_def split: sum.splits)
  from id_token_sound [OF this] have "itIssuer c = ''i'' \<and> itNonce c = ''n'' \<and> itExpiresAt c \<le> second"
    by (simp add: example_id_policy_def second_def int64_bounds)
  then show "\<exists>c :: IDTokenClaims. itIssuer c = ''i'' \<and> itNonce c = ''n'' \<and> itExpiresAt c \<le> second" by blast
qed

end
