(* ===== verification/Canonical_Uri.thy ===== *)
theory Canonical_Uri
  imports Url Jose
begin

text \<open>
  Canonical URIs, \<^verbatim>\<open>internal/canonical/uri.go\<close>: the form in which a DPoP proof names its
  target. The methods of \<^verbatim>\<open>net/url\<close> and \<^verbatim>\<open>net\<close> it uses are written out on the
  record of \<open>Url\<close>; the URL has no fragment.
\<close>

section \<open>Escaping\<close>

definition char_code :: "char \<Rightarrow> nat" where "char_code c = of_char c"

definition isHex :: "char \<Rightarrow> bool" where
  "isHex c \<longleftrightarrow> hex_value (char_code c) \<noteq> None"

definition unhex :: "char \<Rightarrow> nat" where
  "unhex c = (case hex_value (char_code c) of None \<Rightarrow> 0 | Some v \<Rightarrow> v)"

definition upperHex :: "char \<Rightarrow> char" where
  "upperHex c = (if between 97 102 (char_code c) then char_of (char_code c - 32) else c)"

definition isUnreserved :: "char \<Rightarrow> bool" where
  "isUnreserved c \<longleftrightarrow>
     (let n = char_code c in
      between 97 122 n \<or> between 65 90 n \<or> between 48 57 n \<or> n = 45 \<or> n = 46 \<or> n = 95 \<or> n = 126)"

definition hex_digit :: "nat \<Rightarrow> char" where
  "hex_digit v = char_of (if v < 10 then v + 48 else v + (55 :: nat))"

text \<open>\<^verbatim>\<open>url.shouldEscape\<close> in the modes for paths and hosts.\<close>

definition should_escape_path :: "char \<Rightarrow> bool" where
  "should_escape_path c \<longleftrightarrow> \<not> (isUnreserved c \<or> c \<in> set ''$&+,/:;=@'')"

definition should_escape_host :: "char \<Rightarrow> bool" where
  "should_escape_host c \<longleftrightarrow> \<not> (isUnreserved c \<or> char_code c \<in> {33, 36, 38, 39, 40, 41, 42, 43, 44, 59, 61, 58, 91, 93, 60, 62, 34})"

definition escape_with :: "(char \<Rightarrow> bool) \<Rightarrow> string \<Rightarrow> string" where
  "escape_with should s =
     concat (map (\<lambda>c. if should c then [CHR ''%'', hex_digit (char_code c div 16), hex_digit (char_code c mod 16)] else [c]) s)"

fun PathUnescape :: "string \<Rightarrow> string option" where
  "PathUnescape [] = Some []"
| "PathUnescape (c # s) =
     (if c \<noteq> CHR ''%'' then map_option ((#) c) (PathUnescape s)
      else case s of
        a # b # r \<Rightarrow>
          if isHex a \<and> isHex b then map_option ((#) (char_of (unhex a * 16 + unhex b))) (PathUnescape r) else None
      | _ \<Rightarrow> None)"

definition valid_encoded_path :: "string \<Rightarrow> bool" where
  "valid_encoded_path s \<longleftrightarrow>
     list_all (\<lambda>c. char_code c \<in> {33, 36, 38, 39, 40, 41, 42, 43, 44, 59, 61, 58, 64, 91, 93, 37} \<or> \<not> should_escape_path c) s"

definition EscapedPath :: "url \<Rightarrow> string" where
  "EscapedPath u =
     (if uRawPath u \<noteq> [] \<and> valid_encoded_path (uRawPath u) \<and> PathUnescape (uRawPath u) = Some (uPath u)
      then uRawPath u
      else if uPath u = ''*'' then ''*''
      else escape_with should_escape_path (uPath u))"

section \<open>Paths\<close>

text \<open>The cases of the loop in \<^verbatim>\<open>removeDotSegments\<close>, its output reversed.\<close>

definition first_segment :: "string \<Rightarrow> nat" where
  "first_segment s = Suc (length (takeWhile (\<lambda>c. c \<noteq> CHR ''/'') (tl s)))"

function remove_dots :: "string \<Rightarrow> string list \<Rightarrow> string list" where
  "remove_dots s out =
     (if s = [] then rev out
      else if has_prefix s ''../'' then remove_dots (drop 3 s) out
      else if has_prefix s ''./'' then remove_dots (drop 2 s) out
      else if has_prefix s ''/./'' then remove_dots (drop 2 s) out
      else if s = ''/.'' then remove_dots ''/'' out
      else if has_prefix s ''/../'' then remove_dots (drop 3 s) (tl out)
      else if s = ''/..'' then remove_dots ''/'' (tl out)
      else if s = ''.'' \<or> s = ''..'' then remove_dots [] out
      else remove_dots (drop (first_segment s) s) (take (first_segment s) s # out))"
  by pat_completeness auto
termination
  by (relation "measure (\<lambda>(s, _). length s)") (auto simp: first_segment_def)

declare remove_dots.simps [simp del]

definition removeDotSegments :: "string \<Rightarrow> string" where
  "removeDotSegments s = concat (remove_dots s [])"

fun decode_unreserved :: "string \<Rightarrow> string" where
  "decode_unreserved (c # a # b # s) =
     (if c \<noteq> CHR ''%'' \<or> \<not> isHex a \<or> \<not> isHex b then c # decode_unreserved (a # b # s)
      else
        let decoded = char_of (unhex a * 16 + unhex b) in
        (if isUnreserved decoded then [decoded] else [CHR ''%'', upperHex a, upperHex b]) @ decode_unreserved s)"
| "decode_unreserved s = s"

definition normalizePath :: "string \<Rightarrow> string" where
  "normalizePath escaped = removeDotSegments (decode_unreserved escaped)"

fun upperPercentEncodings :: "string \<Rightarrow> string" where
  "upperPercentEncodings (c # a # b # s) =
     (if c = CHR ''%'' \<and> isHex a \<and> isHex b then c # upperHex a # upperHex b # upperPercentEncodings s
      else c # upperPercentEncodings (a # b # s))"
| "upperPercentEncodings s = s"

section \<open>Hosts\<close>

text \<open>\<^verbatim>\<open>net.SplitHostPort\<close>, \<open>None\<close> for its errors.\<close>

definition SplitHostPort :: "string \<Rightarrow> (string \<times> string) option" where
  "SplitHostPort hp =
     (case last_colon hp of
        None \<Rightarrow> None
      | Some i \<Rightarrow>
          if has_prefix hp ''['' then
            (let e = length (takeWhile (\<lambda>c. c \<noteq> CHR '']'') hp) in
             if length hp \<le> e \<or> e + 1 \<noteq> i then None
             else if CHR ''['' \<in> set (tl hp) \<or> CHR '']'' \<in> set (drop (e + 1) hp) then None
             else Some (drop 1 (take e hp), drop (i + 1) hp))
          else if CHR '':'' \<in> set (take i hp) \<or> CHR ''['' \<in> set hp \<or> CHR '']'' \<in> set hp then None
          else Some (take i hp, drop (i + 1) hp))"

definition JoinHostPort :: "string \<Rightarrow> string \<Rightarrow> string" where
  "JoinHostPort host port =
     (if CHR '':'' \<in> set host then ''['' @ host @ '']:'' @ port else host @ '':'' @ port)"

definition isDefaultPort :: "string \<Rightarrow> string \<Rightarrow> bool" where
  "isDefaultPort scheme port \<longleftrightarrow>
     (if scheme = ''https'' then port = ''443'' else if scheme = ''http'' then port = ''80'' else False)"

definition canonicalHost :: "string \<Rightarrow> string \<Rightarrow> string" where
  "canonicalHost host scheme =
     (let (h, port, splitStrippedBrackets) =
        (case SplitHostPort host of None \<Rightarrow> (host, [], False) | Some (h, port) \<Rightarrow> (h, port, True));
        h = LowerASCII h in
      if port = [] \<or> isDefaultPort scheme port then
        (if splitStrippedBrackets \<and> CHR '':'' \<in> set h then ''['' @ h @ '']'' else h)
      else JoinHostPort h port)"

section \<open>URIs\<close>

text \<open>\<^verbatim>\<open>URL.String\<close>, for a URL with neither user nor query.\<close>

definition url_String :: "url \<Rightarrow> string" where
  "url_String u =
     (let start = (if uScheme u = [] then [] else uScheme u @ '':'') in
      (if uOpaque u \<noteq> [] then start @ uOpaque u
       else
         let authority =
           (if uScheme u = [] \<and> uHost u = [] then []
            else if uOmitHost u \<and> uHost u = [] then []
            else (if uHost u \<noteq> [] \<or> uPath u \<noteq> [] then ''//'' else []) @ escape_with should_escape_host (uHost u));
           path = EscapedPath u;
           front = start @ authority @ (if path \<noteq> [] \<and> hd path \<noteq> CHR ''/'' \<and> uHost u \<noteq> [] then ''/'' else []) in
         front @ (if front = [] \<and> CHR '':'' \<in> set (takeWhile (\<lambda>c. c \<noteq> CHR ''/'') path) then ''./'' else []) @ path)
      @ (if uForceQuery u then ''?'' else []))"

definition canonical_path :: "url \<Rightarrow> string" where
  "canonical_path u =
     (let scheme = LowerASCII (uScheme u);
          path = normalizePath (EscapedPath u);
          path = (if path = [] \<and> canonicalHost (uHost u) scheme \<noteq> [] \<and> scheme \<in> {''https'', ''http''} then ''/'' else path) in
      if path = ''%2A'' then ''*'' else path)"

text \<open>\<^verbatim>\<open>PathUnescape\<close> gives the empty string with its error.\<close>

definition URI :: "url \<Rightarrow> string" where
  "URI u =
     (let scheme = LowerASCII (uScheme u);
          host = canonicalHost (uHost u) scheme;
          path = canonical_path u;
          unescaped = (case PathUnescape path of None \<Rightarrow> [] | Some p \<Rightarrow> p);
          dots = (if host = [] \<and> has_prefix unescaped ''//'' then ''/.'' else []) in
      url_String (u\<lparr>uScheme := scheme, uHost := host, uHasUser := False, uRawQuery := [],
        uPath := dots @ unescaped, uRawPath := (if path = [] then [] else dots @ path)\<rparr>))"

definition HasNormalPath :: "url \<Rightarrow> bool" where
  "HasNormalPath u \<longleftrightarrow> uOpaque u = [] \<and>
     (let escaped = EscapedPath u in normalizePath escaped = upperPercentEncodings escaped)"

end
