(* ===== verification/Effects.thy ===== *)
theory Effects
  imports Prelude
begin

text \<open>
  Handlers that call dependencies. A call of a dependency is a step of a state that holds
  whatever the dependency reads and writes, the steps of other goroutines included: its answer is
  an error or a value, beside the next state. \<open>bindS\<close> is Go's \<^verbatim>\<open>if err != nil { return err }\<close>:
  an error ends the handler and keeps what was written before it.
\<close>

type_synonym ('s, 'e, 'a) effect = "'s \<Rightarrow> ('e + 'a) \<times> 's"

definition bindS :: "('s, 'e, 'a) effect \<Rightarrow> ('a \<Rightarrow> ('s, 'e, 'b) effect) \<Rightarrow> ('s, 'e, 'b) effect" where
  "bindS m f s = (case m s of (Inl e, s') \<Rightarrow> (Inl e, s') | (Inr x, s') \<Rightarrow> f x s')"

definition liftS :: "'e + 'a \<Rightarrow> ('s, 'e, 'a) effect" where
  "liftS r s = (r, s)"

text \<open>The error of a dependency, replaced by the handler's own.\<close>

definition catchS :: "('e \<Rightarrow> 'f) \<Rightarrow> ('s, 'e, 'a) effect \<Rightarrow> ('s, 'f, 'a) effect" where
  "catchS h m s = (case m s of (Inl e, s') \<Rightarrow> (Inl (h e), s') | (Inr x, s') \<Rightarrow> (Inr x, s'))"

fun check_allS :: "('a \<Rightarrow> ('s, 'e, unit) effect) \<Rightarrow> 'a list \<Rightarrow> ('s, 'e, unit) effect" where
  "check_allS f [] = liftS (Inr ())"
| "check_allS f (x # xs) = bindS (f x) (\<lambda>_. check_allS f xs)"

lemma bindS_cong [fundef_cong]:
  "m s = m' s \<Longrightarrow> (\<And>x s'. m' s = (Inr x, s') \<Longrightarrow> f x s' = g x s') \<Longrightarrow> bindS m f s = bindS m' g s"
  by (auto simp: bindS_def split: prod.splits sum.splits)

lemma bindS_Inr: "bindS m f s = (Inr y, s') \<longleftrightarrow> (\<exists>x s1. m s = (Inr x, s1) \<and> f x s1 = (Inr y, s'))"
  by (auto simp: bindS_def split: prod.splits sum.splits)

lemma bindS_Inl:
  "bindS m f s = (Inl e, s') \<longleftrightarrow> m s = (Inl e, s') \<or> (\<exists>x s1. m s = (Inr x, s1) \<and> f x s1 = (Inl e, s'))"
  by (auto simp: bindS_def split: prod.splits sum.splits)

lemma bindS_liftS [simp]: "bindS (liftS r) f = (\<lambda>s. case r of Inl e \<Rightarrow> (Inl e, s) | Inr x \<Rightarrow> f x s)"
  by (rule ext) (simp add: bindS_def liftS_def split: sum.splits)

lemma liftS_eq [simp]: "liftS r s = (x, s') \<longleftrightarrow> r = x \<and> s' = s"
  by (auto simp: liftS_def)

lemma catchS_Inr [simp]: "catchS h m s = (Inr x, s') \<longleftrightarrow> m s = (Inr x, s')"
  by (auto simp: catchS_def split: prod.splits sum.splits)

lemma catchS_Inl: "catchS h m s = (Inl f, s') \<longleftrightarrow> (\<exists>e. m s = (Inl e, s') \<and> f = h e)"
  by (auto simp: catchS_def split: prod.splits sum.splits)

section \<open>Effects that write nothing\<close>

definition reads_only :: "('s, 'e, 'a) effect \<Rightarrow> bool" where
  "reads_only m \<longleftrightarrow> (\<forall>s. snd (m s) = s)"

named_theorems reads_simps \<open>effects that leave the state alone\<close>

lemma reads_onlyD: "reads_only m \<Longrightarrow> m s = (x, s') \<Longrightarrow> s' = s"
  unfolding reads_only_def by (metis snd_conv)

lemma reads_only_liftS [reads_simps]: "reads_only (liftS r)"
  by (simp add: reads_only_def liftS_def)

lemma reads_only_bindS [reads_simps]:
  "reads_only m \<Longrightarrow> (\<And>x. reads_only (f x)) \<Longrightarrow> reads_only (bindS m f)"
  by (auto simp: reads_only_def bindS_def split: prod.splits sum.splits) (metis snd_conv)+

lemma reads_only_catchS [reads_simps]: "reads_only m \<Longrightarrow> reads_only (catchS h m)"
  by (auto simp: reads_only_def catchS_def split: prod.splits sum.splits) (metis snd_conv)+

lemma reads_only_check_allS [reads_simps]: "(\<And>x. reads_only (f x)) \<Longrightarrow> reads_only (check_allS f xs)"
  by (induction xs) (simp_all add: reads_simps)

lemma check_allS_Inr:
  assumes "\<And>x. x \<in> set xs \<Longrightarrow> reads_only (f x)" "check_allS f xs s = (Inr (), s')" "x \<in> set xs"
  shows "f x s = (Inr (), s)"
  using assms by (induction xs) (fastforce simp: bindS_Inr dest: reads_onlyD)+

text \<open>An effect of a part of the state.\<close>

definition on_snd :: "('s, 'e, 'a) effect \<Rightarrow> ('r \<times> 's, 'e, 'a) effect" where
  "on_snd m rs = (case m (snd rs) of (x, s') \<Rightarrow> (x, (fst rs, s')))"

lemma on_snd_eq: "on_snd m (r, s) = (x, rs') \<longleftrightarrow> (\<exists>s'. m s = (x, s') \<and> rs' = (r, s'))"
  by (auto simp: on_snd_def split: prod.splits)

lemma reads_only_on_snd [reads_simps]: "reads_only m \<Longrightarrow> reads_only (on_snd m)"
  by (auto simp: reads_only_def on_snd_def split: prod.splits) (metis snd_conv)

end
