(* ===== verification/Dpop.thy ===== *)
theory Dpop
  imports Canonical_Uri Token_Issue Memstore Effects
begin

text \<open>
  DPoP proofs, \<^verbatim>\<open>internal/dpop\<close>, the digests their identifiers are recorded under,
  \<^verbatim>\<open>internal/replaykey\<close>, and the nonces a verifier hands out, \<^verbatim>\<open>internal/dpopnonce\<close>.
  \<^verbatim>\<open>url.Parse\<close> is the argument \<open>parse\<close>; a \<^verbatim>\<open>*url.URL\<close> that may be nil is an option.
  Whatever records used proofs is a function on its own state.
\<close>

datatype dpop_error =
    RequestInvalid string
  | ProofMalformed jose_error
  | ErrWrongProofType
  | ErrMissingJWK
  | ErrProofClaims
  | ErrMethodMismatch
  | ErrURIMismatch
  | ErrProofIssuedInFuture
  | ErrProofNotYetValid
  | ErrProofExpired
  | ErrTokenHashMismatch
  | ErrProofNonceMismatch
  | NoThumbprint
  | ReplayRefused
  | ErrURLNotNormal
  | ErrURLHostNotASCII
  | ProofKeyInvalid
  | NoProofEntropy
  | ProofNotSigned sign_error

definition in_proof :: "jose_error + 'a \<Rightarrow> dpop_error + 'a" where
  "in_proof m = (case m of Inl e \<Rightarrow> Inl (ProofMalformed e) | Inr x \<Rightarrow> Inr x)"

lemma in_proof_Inr [simp]: "in_proof m = Inr x \<longleftrightarrow> m = Inr x"
  by (cases m) (simp_all add: in_proof_def)

section \<open>Claims\<close>

definition proofType :: string where "proofType = ''dpop+jwt''"

record proof_claims =
  pcJTI :: string
  pcHTM :: string
  pcHTU :: string
  pcIAT :: int
  pcNBF :: int
  pcEXP :: int
  pcATH :: string
  pcNonce :: string

definition proof_claims_zero :: proof_claims where
  "proof_claims_zero =
     \<lparr>pcJTI = [], pcHTM = [], pcHTU = [], pcIAT = 0, pcNBF = 0, pcEXP = 0, pcATH = [], pcNonce = []\<rparr>"

definition proof_fields :: "string list" where
  "proof_fields = [''jti'', ''htm'', ''htu'', ''iat'', ''nbf'', ''exp'', ''ath'', ''nonce'']"

text \<open>\<^verbatim>\<open>numericdate.Value\<close> decodes itself: a null is the zero date.\<close>

definition dec_date :: "(int \<Rightarrow> 's \<Rightarrow> 's) \<Rightarrow> json \<Rightarrow> 's \<Rightarrow> 's option" where
  "dec_date set_field v s = map_option (\<lambda>n. set_field n s) (NumericDate_Parse v)"

definition proof_dec :: "string \<Rightarrow> json \<Rightarrow> proof_claims \<Rightarrow> proof_claims option" where
  "proof_dec name v c =
     (if name = ''jti'' then dec_string (\<lambda>x. pcJTI_update (\<lambda>_. x)) v c
      else if name = ''htm'' then dec_string (\<lambda>x. pcHTM_update (\<lambda>_. x)) v c
      else if name = ''htu'' then dec_string (\<lambda>x. pcHTU_update (\<lambda>_. x)) v c
      else if name = ''iat'' then dec_date (\<lambda>x. pcIAT_update (\<lambda>_. x)) v c
      else if name = ''nbf'' then dec_date (\<lambda>x. pcNBF_update (\<lambda>_. x)) v c
      else if name = ''exp'' then dec_date (\<lambda>x. pcEXP_update (\<lambda>_. x)) v c
      else if name = ''ath'' then dec_string (\<lambda>x. pcATH_update (\<lambda>_. x)) v c
      else dec_string (\<lambda>x. pcNonce_update (\<lambda>_. x)) v c)"

definition parseProofClaims :: "crypto \<Rightarrow> bytes \<Rightarrow> dpop_error + proof_claims" where
  "parseProofClaims C payload =
     and_then (of_option ErrProofClaims (json_decode C payload)) (\<lambda>j.
     and_then (require (CheckFieldCase (leaves proof_fields) j) ErrProofClaims) (\<lambda>_.
     and_then (of_option ErrProofClaims (decode_struct proof_fields proof_dec proof_claims_zero j)) (\<lambda>c.
     and_then (require (pcJTI c \<noteq> [] \<and> pcHTM c \<noteq> [] \<and> pcHTU c \<noteq> []) ErrProofClaims) (\<lambda>_.
     Inr c))))"

definition accessTokenHash :: "crypto \<Rightarrow> string \<Rightarrow> string" where
  "accessTokenHash C tok = encode_raw True (sha256 C (string_bytes tok))"

section \<open>Verification\<close>

record ProofVerifyRequest =
  pvProof :: string
  pvMethod :: string
  pvURL :: "url option"
  pvAlternateURLs :: "url option list"
  pvAccessToken :: string
  pvRequiredNonce :: string
  pvNow :: time
  pvMaxProofAge :: duration
  pvMaxClockSkew :: duration

record VerifiedProof =
  vpThumbprint :: bytes
  vpIssuedAt :: time
  vpNonce :: string
  vpJTI :: string

definition isAbsoluteHTTP :: "url option \<Rightarrow> bool" where
  "isAbsoluteHTTP u =
     (case u of
        None \<Rightarrow> False
      | Some u \<Rightarrow>
          uOpaque u = [] \<and> uHost u \<noteq> [] \<and>
          (let scheme = LowerASCII (uScheme u) in scheme = ''https'' \<or> scheme = ''http''))"

definition namesTarget :: "string \<Rightarrow> ProofVerifyRequest \<Rightarrow> bool" where
  "namesTarget htu req =
     list_ex (\<lambda>u. case u of None \<Rightarrow> False | Some u \<Rightarrow> IsASCII (uHost u) \<and> URI u = htu)
       (pvURL req # pvAlternateURLs req)"

definition checkProofTimes :: "proof_claims \<Rightarrow> ProofVerifyRequest \<Rightarrow> time \<Rightarrow> dpop_error + unit" where
  "checkProofTimes c req iat =
     (let latest = pvNow req + pvMaxClockSkew req in
      if latest < iat then Inl ErrProofIssuedInFuture
      else if pcNBF c \<noteq> 0 \<and> latest < time_unix (pcNBF c) then Inl ErrProofNotYetValid
      else if pvMaxProofAge req < time_sub (pvNow req) iat then Inl ErrProofExpired
      else if pcEXP c \<noteq> 0 \<and> time_unix (pcEXP c) + pvMaxClockSkew req < pvNow req then Inl ErrProofExpired
      else Inr ())"

definition verifyProofClaims :: "crypto \<Rightarrow> (string \<Rightarrow> url option) \<Rightarrow> proof_claims \<Rightarrow> ProofVerifyRequest
    \<Rightarrow> time \<Rightarrow> dpop_error + unit" where
  "verifyProofClaims C parse c req iat =
     and_then (require (pcHTM c = pvMethod req) ErrMethodMismatch) (\<lambda>_.
     and_then (of_option ErrURIMismatch (parse (pcHTU c))) (\<lambda>htu.
     and_then (require (isAbsoluteHTTP (Some htu) \<and> IsASCII (uHost htu)) ErrURIMismatch) (\<lambda>_.
     and_then (require (namesTarget (URI htu) req) ErrURIMismatch) (\<lambda>_.
     and_then (checkProofTimes c req iat) (\<lambda>_.
     and_then (if pvAccessToken req \<noteq> [] then require (pcATH c = accessTokenHash C (pvAccessToken req)) ErrTokenHashMismatch
               else require (pcATH c = []) ErrTokenHashMismatch) (\<lambda>_.
     if pvRequiredNonce req \<noteq> [] then require (pcNonce c = pvRequiredNonce req) ErrProofNonceMismatch
     else Inr ()))))))"

text \<open>\<^verbatim>\<open>Verify\<close> up to the replay check.\<close>

definition verify_proof :: "crypto \<Rightarrow> (string \<Rightarrow> url option) \<Rightarrow> ProofVerifyRequest \<Rightarrow> dpop_error + VerifiedProof" where
  "verify_proof C parse req =
     and_then (require (pvMethod req \<noteq> []) (RequestInvalid ''method'')) (\<lambda>_.
     and_then (require (pvURL req \<noteq> None) (RequestInvalid ''url'')) (\<lambda>_.
     and_then (check_all (\<lambda>u. require (isAbsoluteHTTP u) (RequestInvalid ''url'')) (pvURL req # pvAlternateURLs req)) (\<lambda>_.
     and_then (require (pvNow req \<noteq> zero_time) (RequestInvalid ''now'')) (\<lambda>_.
     and_then (require (0 < pvMaxProofAge req) (RequestInvalid ''max_proof_age'')) (\<lambda>_.
     and_then (in_proof (ParseCompact C (pvProof req))) (\<lambda>compact.
     let header = cmHeader compact in
     and_then (require (TypeIs (hdType header) proofType) ErrWrongProofType) (\<lambda>_.
     and_then (of_option ErrMissingJWK (hdJWK header)) (\<lambda>jwk.
     and_then (in_proof (Compact_Verify C compact (jkPub jwk) (hdAlgorithm header))) (\<lambda>_.
     and_then (parseProofClaims C (cmPayload compact)) (\<lambda>c.
     let iat = time_unix (pcIAT c) in
     and_then (verifyProofClaims C parse c req iat) (\<lambda>_.
     and_then (of_option NoThumbprint (Thumbprint C jwk)) (\<lambda>thumbprint.
     Inr \<lparr>vpThumbprint = thumbprint, vpIssuedAt = iat, vpNonce = pcNonce c, vpJTI = pcJTI c\<rparr>))))))))))))"

type_synonym ('e, 's) replay_checker = "bytes \<Rightarrow> string \<Rightarrow> time \<Rightarrow> 's \<Rightarrow> ('e + unit) \<times> 's"

definition proof_record_until :: "ProofVerifyRequest \<Rightarrow> VerifiedProof \<Rightarrow> time" where
  "proof_record_until req v =
     vpIssuedAt v + SaturatingAdd [pvMaxProofAge req, pvMaxClockSkew req, pvMaxClockSkew req]"

definition dpop_Verify :: "crypto \<Rightarrow> (string \<Rightarrow> url option) \<Rightarrow> ProofVerifyRequest
    \<Rightarrow> ('e, 's) replay_checker option \<Rightarrow> 's \<Rightarrow> (dpop_error + VerifiedProof) \<times> 's" where
  "dpop_Verify C parse req replay s =
     (case verify_proof C parse req of
        Inl e \<Rightarrow> (Inl e, s)
      | Inr v \<Rightarrow>
          (case replay of
             None \<Rightarrow> (Inr v, s)
           | Some useOnce \<Rightarrow>
               (case useOnce (vpThumbprint v) (vpJTI v) (proof_record_until req v) s of
                  (Inl _, s') \<Rightarrow> (Inl ReplayRefused, s')
                | (Inr _, s') \<Rightarrow> (Inr v, s'))))"

definition ResolveHeaderValues :: "string list \<Rightarrow> string \<times> bool" where
  "ResolveHeaderValues values =
     (case values of [] \<Rightarrow> ([], True) | [v] \<Rightarrow> (v, True) | _ \<Rightarrow> ([], False))"

section \<open>Creation\<close>

record ProofRequest =
  prSigner :: "signer option"
  prAlgorithm :: SignatureAlgorithm
  prMethod :: string
  prURL :: "url option"
  prAccessToken :: string
  prNonce :: string
  prNow :: time

definition proofJTISize :: nat where "proofJTISize = 16"

definition proofJTI :: "bytes option \<Rightarrow> dpop_error + string" where
  "proofJTI random =
     (case random of
        None \<Rightarrow> Inl NoProofEntropy
      | Some r \<Rightarrow> if length r < proofJTISize then Inl NoProofEntropy
                  else Inr (encode_raw True (take proofJTISize r)))"

text \<open>The members of the claims struct in the order of its fields, the optional ones when not zero.\<close>

definition proof_claims_json :: "proof_claims \<Rightarrow> json" where
  "proof_claims_json c =
     JObj ([(''jti'', JStr (pcJTI c)), (''htm'', JStr (pcHTM c)), (''htu'', JStr (pcHTU c)), (''iat'', json_int (pcIAT c))]
       @ (if pcNBF c = 0 then [] else [(''nbf'', json_int (pcNBF c))])
       @ (if pcEXP c = 0 then [] else [(''exp'', json_int (pcEXP c))])
       @ (if pcATH c = [] then [] else [(''ath'', JStr (pcATH c))])
       @ (if pcNonce c = [] then [] else [(''nonce'', JStr (pcNonce c))]))"

definition proof_claims_of :: "crypto \<Rightarrow> ProofRequest \<Rightarrow> url \<Rightarrow> string \<Rightarrow> proof_claims" where
  "proof_claims_of C req u jti =
     \<lparr>pcJTI = jti, pcHTM = prMethod req, pcHTU = URI u, pcIAT = unix_seconds (prNow req), pcNBF = 0, pcEXP = 0,
      pcATH = (if prAccessToken req = [] then [] else accessTokenHash C (prAccessToken req)),
      pcNonce = prNonce req\<rparr>"

definition proof_header :: "ProofRequest \<Rightarrow> JWK \<Rightarrow> Header" where
  "proof_header req jwk =
     \<lparr>hdAlgorithm = prAlgorithm req, hdType = proofType, hdKeyID = [], hdJWK = Some jwk, hdX5C = None\<rparr>"

definition CreateProof :: "crypto \<Rightarrow> ProofRequest \<Rightarrow> bytes option \<Rightarrow> dpop_error + string" where
  "CreateProof C req random =
     and_then (of_option (RequestInvalid ''signer'') (prSigner req)) (\<lambda>sg.
     and_then (require (prMethod req \<noteq> []) (RequestInvalid ''method'')) (\<lambda>_.
     and_then (of_option (RequestInvalid ''url'') (prURL req)) (\<lambda>u.
     and_then (require (HasNormalPath u) ErrURLNotNormal) (\<lambda>_.
     and_then (require (IsASCII (uHost u)) ErrURLHostNotASCII) (\<lambda>_.
     and_then (require (prNow req \<noteq> zero_time) (RequestInvalid ''now'')) (\<lambda>_.
     and_then (map_sum (\<lambda>_. ProofKeyInvalid) (\<lambda>x. x) (NewJWK (sgPublic sg) (prAlgorithm req))) (\<lambda>jwk.
     and_then (proofJTI random) (\<lambda>jti.
     map_sum ProofNotSigned (\<lambda>x. x)
       (Sign C (Some sg) (proof_header req jwk)
         (json_marshal C True (proof_claims_json (proof_claims_of C req u jti))))))))))))"

section \<open>Replay digests\<close>

definition big_endian64 :: "nat \<Rightarrow> bytes" where
  "big_endian64 n = map (\<lambda>i. n div 256 ^ i mod 256) (rev [0..<8])"

definition digest_input :: "string \<Rightarrow> string \<Rightarrow> bytes" where
  "digest_input scope jti = big_endian64 (length scope) @ string_bytes scope @ string_bytes jti"

definition Digest :: "crypto \<Rightarrow> string \<Rightarrow> string \<Rightarrow> bytes" where
  "Digest C scope jti = sha256 C (digest_input scope jti)"

text \<open>Who records what: \<^verbatim>\<open>server/replay.go\<close> and \<^verbatim>\<open>resource/replay.go\<close>.\<close>

definition clientSignedJWTReplayNamespace :: string where
  "clientSignedJWTReplayNamespace = ''server:client-signed-jwt''"

definition serverDPoPReplayNamespace :: string where "serverDPoPReplayNamespace = ''server:dpop''"

definition clientAttestationPoPReplayNamespace :: string where
  "clientAttestationPoPReplayNamespace = ''server:client-attestation-pop''"

definition resourceDPoPReplayNamespace :: string where "resourceDPoPReplayNamespace = ''resource:dpop''"

definition thumbprint_String :: "bytes \<Rightarrow> string" where "thumbprint_String t = encode_raw True t"

definition client_jwt_replay :: "crypto \<Rightarrow> string \<Rightarrow> string \<Rightarrow> time \<Rightarrow> ReplayStore \<Rightarrow> (store_error + unit) \<times> ReplayStore" where
  "client_jwt_replay C client jti expiresAt =
     UseOnce \<lparr>ruNamespace = clientSignedJWTReplayNamespace, ruDigest = Digest C client jti, ruExpiresAt = expiresAt\<rparr>"

definition server_dpop_replay :: "crypto \<Rightarrow> (store_error, ReplayStore) replay_checker" where
  "server_dpop_replay C key jti expiresAt =
     UseOnce \<lparr>ruNamespace = serverDPoPReplayNamespace, ruDigest = Digest C (thumbprint_String key) jti,
       ruExpiresAt = expiresAt\<rparr>"

definition attestation_pop_replay :: "crypto \<Rightarrow> string \<Rightarrow> (store_error, ReplayStore) replay_checker" where
  "attestation_pop_replay C client instanceKey jti expiresAt =
     UseOnce \<lparr>ruNamespace = clientAttestationPoPReplayNamespace,
       ruDigest = Digest C client (thumbprint_String instanceKey @ jti), ruExpiresAt = expiresAt\<rparr>"

definition resource_dpop_replay :: "crypto \<Rightarrow> (store_error, ReplayStore) replay_checker" where
  "resource_dpop_replay C key jti expiresAt =
     UseOnce \<lparr>ruNamespace = resourceDPoPReplayNamespace, ruDigest = Digest C (thumbprint_String key) jti,
       ruExpiresAt = expiresAt\<rparr>"

section \<open>Nonces\<close>

record Rotator =
  roCurrent :: string
  roExpiresAt :: time

definition nonceSize :: nat where "nonceSize = 32"

definition generate_nonce :: "bytes option \<Rightarrow> string option" where
  "generate_nonce random =
     (case random of
        None \<Rightarrow> None
      | Some r \<Rightarrow> if length r < nonceSize then None else Some (encode_raw True (take nonceSize r)))"

text \<open>
  \<^verbatim>\<open>-lifetime/2\<close> is the division of Go, towards zero. The store's \<^verbatim>\<open>Issue\<close> and
  \<^verbatim>\<open>Lookup\<close> are arguments.
\<close>

definition half_before :: "duration \<Rightarrow> duration" where
  "half_before lifetime = (if 0 \<le> - lifetime then (- lifetime) div 2 else - (lifetime div 2))"

definition Rotator_Current :: "(string \<Rightarrow> time \<Rightarrow> 's \<Rightarrow> ('e + unit) \<times> 's) \<Rightarrow> bytes option \<Rightarrow> duration \<Rightarrow> time
    \<Rightarrow> Rotator \<times> 's \<Rightarrow> string option \<times> (Rotator \<times> 's)" where
  "Rotator_Current issue random lifetime now rs =
     (let (r, store) = rs in
      if roCurrent r \<noteq> [] \<and> now < roExpiresAt r + half_before lifetime then (Some (roCurrent r), rs)
      else case generate_nonce random of
        None \<Rightarrow> (None, rs)
      | Some nonce \<Rightarrow>
          (case issue nonce (now + lifetime) store of
             (Inl _, store') \<Rightarrow> (None, (r, store'))
           | (Inr _, store') \<Rightarrow> (Some nonce, (\<lparr>roCurrent = nonce, roExpiresAt = now + lifetime\<rparr>, store'))))"

definition Nonce_Valid :: "(string \<Rightarrow> ('s, 'e, time) effect) \<Rightarrow> string \<Rightarrow> time \<Rightarrow> ('s, 'e, bool) effect" where
  "Nonce_Valid lookup presented now =
     (if presented = [] then liftS (Inr False)
      else bindS (lookup presented) (\<lambda>expiresAt. liftS (Inr (\<not> expiresAt < now))))"

definition memstore_issue :: "string \<Rightarrow> time \<Rightarrow> (NonceStore, store_error, unit) effect" where
  "memstore_issue nonce expiresAt s = (Inr (), NonceStore_Issue nonce expiresAt s)"

definition memstore_lookup :: "string \<Rightarrow> (NonceStore, store_error, time) effect" where
  "memstore_lookup nonce s = (NonceStore_Lookup nonce s, s)"

end
