(* ===== verification/Dpop_Nonce.thy ===== *)
theory Dpop_Nonce
  imports Dpop Token_Properties
begin

text \<open>
  How long a DPoP nonce is good for, whatever the instances of a verifier hand out.
\<close>

section \<open>Nonces\<close>

text \<open>
  Instances of one verifier, each with its own rotator, over one store: instance \<open>i\<close> hands out a
  nonce at \<open>now\<close>.
\<close>

type_synonym nonce_op = "nat \<times> bytes option \<times> time"

definition nonce_step :: "duration \<Rightarrow> nonce_op \<Rightarrow> (nat \<Rightarrow> Rotator) \<times> NonceStore
    \<Rightarrow> string option \<times> ((nat \<Rightarrow> Rotator) \<times> NonceStore)" where
  "nonce_step lifetime op st =
     (let (i, random, now) = op; (rs, store) = st in
      case Rotator_Current memstore_issue random lifetime now (rs i, store) of
        (out, (r, store')) \<Rightarrow> (out, (rs(i := r), store')))"

definition new_rotators :: "(nat \<Rightarrow> Rotator) \<times> NonceStore" where
  "new_rotators = (\<lambda>_. \<lparr>roCurrent = [], roExpiresAt = zero_time\<rparr>, \<lambda>_. None)"

definition kept_until :: "string \<Rightarrow> time \<Rightarrow> NonceStore \<Rightarrow> bool" where
  "kept_until n t store \<longleftrightarrow> (\<exists>e. store n = Some e \<and> t \<le> e)"

definition rotators_ok :: "duration \<Rightarrow> time \<Rightarrow> (nat \<Rightarrow> Rotator) \<times> NonceStore \<Rightarrow> bool" where
  "rotators_ok lifetime now st \<longleftrightarrow>
     (\<forall>i. roCurrent (fst st i) \<noteq> [] \<longrightarrow>
        kept_until (roCurrent (fst st i)) (roExpiresAt (fst st i)) (snd st) \<and> roExpiresAt (fst st i) \<le> now + lifetime)"

lemma generate_nonce_ne: "generate_nonce random = Some n \<Longrightarrow> n \<noteq> []"
  by (auto simp: generate_nonce_def nonceSize_def encode_raw_Nil split: option.splits if_splits)

lemma Rotator_Current_cases:
  obtains (kept) "roCurrent r \<noteq> []" "now < roExpiresAt r + half_before lifetime"
      "Rotator_Current memstore_issue random lifetime now (r, store) = (Some (roCurrent r), (r, store))"
  | (none) "Rotator_Current memstore_issue random lifetime now (r, store) = (None, (r, store))"
  | (new) n where "n \<noteq> []" "Rotator_Current memstore_issue random lifetime now (r, store) =
      (Some n, (\<lparr>roCurrent = n, roExpiresAt = now + lifetime\<rparr>, store(n \<mapsto> now + lifetime)))"
proof (cases "roCurrent r \<noteq> [] \<and> now < roExpiresAt r + half_before lifetime")
  case False
  show thesis
  proof (cases "generate_nonce random")
    case (Some n)
    with False generate_nonce_ne [OF Some] show thesis
      by (intro new [of n]) (auto simp: Rotator_Current_def memstore_issue_def NonceStore_Issue_def)
  qed (use False in \<open>auto intro!: none simp: Rotator_Current_def\<close>)
qed (auto intro!: kept simp: Rotator_Current_def)

lemma nonce_step_cases:
  obtains (same) "snd (nonce_step lifetime (i, random, now) (rs, store)) = (rs, store)"
  | (new) n where "n \<noteq> []" "fst (nonce_step lifetime (i, random, now) (rs, store)) = Some n"
      "snd (nonce_step lifetime (i, random, now) (rs, store)) =
        (rs(i := \<lparr>roCurrent = n, roExpiresAt = now + lifetime\<rparr>), store(n \<mapsto> now + lifetime))"
  by (rule Rotator_Current_cases [of "rs i" now lifetime random store])
    (auto simp: nonce_step_def intro: same new)

lemma kept_until_step:
  assumes "kept_until n t store" "t \<le> now + lifetime"
  shows "kept_until n t (snd (snd (nonce_step lifetime (i, random, now) (rs, store))))"
  by (rule nonce_step_cases [of lifetime i random now rs store]) (use assms in \<open>auto simp: kept_until_def\<close>)

lemma rotators_ok_mono: "rotators_ok lifetime T st \<Longrightarrow> T \<le> T' \<Longrightarrow> rotators_ok lifetime T' st"
  unfolding rotators_ok_def by (meson add_right_mono order_trans)

lemma rotators_ok_step:
  assumes "rotators_ok lifetime T (rs, store)" "T \<le> now"
  shows "rotators_ok lifetime now (snd (nonce_step lifetime (i, random, now) (rs, store)))"
proof (rule nonce_step_cases [of lifetime i random now rs store])
  fix n
  assume n: "snd (nonce_step lifetime (i, random, now) (rs, store)) =
      (rs(i := \<lparr>roCurrent = n, roExpiresAt = now + lifetime\<rparr>), store(n \<mapsto> now + lifetime))"
  show ?thesis
    unfolding n rotators_ok_def fst_conv snd_conv
  proof (intro allI impI)
    fix k
    assume k: "roCurrent ((rs(i := \<lparr>roCurrent = n, roExpiresAt = now + lifetime\<rparr>)) k) \<noteq> []"
    show "kept_until (roCurrent ((rs(i := \<lparr>roCurrent = n, roExpiresAt = now + lifetime\<rparr>)) k))
        (roExpiresAt ((rs(i := \<lparr>roCurrent = n, roExpiresAt = now + lifetime\<rparr>)) k)) (store(n \<mapsto> now + lifetime)) \<and>
      roExpiresAt ((rs(i := \<lparr>roCurrent = n, roExpiresAt = now + lifetime\<rparr>)) k) \<le> now + lifetime"
      using assms k by (cases "k = i") (auto simp: rotators_ok_def kept_until_def)
  qed
qed (use rotators_ok_mono [OF assms] in simp)

lemma rotators_ok_after:
  assumes "rotators_ok lifetime T st" "sorted (T # map (\<lambda>(i, random, now). now) ops)"
  shows "rotators_ok lifetime (last (T # map (\<lambda>(i, random, now). now) ops)) (after (nonce_step lifetime) ops st)"
  using assms
proof (induction ops arbitrary: T st)
  case (Cons op ops)
  obtain i random now rs store where o: "op = (i, random, now)" "st = (rs, store)" by (cases op; cases st) auto
  from rotators_ok_step [of lifetime T rs store now i random] Cons.prems
  have "rotators_ok lifetime now (snd (nonce_step lifetime op st))" by (simp add: o)
  from Cons.IH [OF this] Cons.prems(2) show ?case by (simp add: o)
qed simp

lemma kept_until_after:
  assumes "kept_until n t store" "\<forall>(i, random, now) \<in> set ops. t \<le> now + lifetime"
  shows "kept_until n t (snd (after (nonce_step lifetime) ops (rs, store)))"
  using assms
proof (induction ops arbitrary: rs store)
  case (Cons op ops)
  obtain i random now where o: "op = (i, random, now)" by (cases op) auto
  obtain rs' store' where s: "snd (nonce_step lifetime op (rs, store)) = (rs', store')" by fastforce
  with kept_until_step [OF Cons.prems(1), of now lifetime i random rs] Cons.prems(2)
  have "kept_until n t store'" by (simp add: o)
  with Cons s show ?case by simp
qed simp

lemma rotators_ok_before:
  assumes "sorted (map (\<lambda>(i, random, now). now) before_ops @ [now])"
    and st: "after (nonce_step lifetime) before_ops new_rotators = (rs, store)"
  shows "rotators_ok lifetime now (rs, store)"
proof -
  let ?time = "\<lambda>(i :: nat, random :: bytes option, now :: time). now"
  show ?thesis
  proof (cases before_ops)
    case Nil
    with st show ?thesis by (auto simp: new_rotators_def rotators_ok_def)
  next
    case (Cons op ops)
    have "rotators_ok lifetime (?time op) new_rotators" by (simp add: new_rotators_def rotators_ok_def)
    then have "rotators_ok lifetime (?time op) (snd (nonce_step lifetime op new_rotators))"
      using rotators_ok_step [of lifetime "?time op" "fst new_rotators" "snd new_rotators" "?time op" "fst op" "fst (snd op)"]
      by (auto split: prod.splits)
    from rotators_ok_after [OF this, of ops] assms(1) st Cons
    have "rotators_ok lifetime (last (map ?time before_ops)) (rs, store)"
      by (auto simp: sorted_append split: prod.splits)
    moreover have "last (map ?time before_ops) \<le> now"
    proof -
      have "last (map ?time before_ops) \<in> set (map ?time before_ops)" using Cons by (intro last_in_set) simp
      with assms(1) show ?thesis by (auto simp: sorted_append)
    qed
    ultimately show ?thesis by (rule rotators_ok_mono)
  qed
qed

text \<open>
  C36. A nonce handed out is good for at least half its lifetime, at every instance of the verifier:
  whatever the others hand out afterwards, presenting it within that time is accepted.
\<close>

theorem handed_nonce_valid:
  assumes "0 \<le> lifetime" "sorted (map (\<lambda>(i, random, now). now) (before_ops @ [(i, random, now)] @ later_ops))"
    and "fst (nonce_step lifetime (i, random, now) (after (nonce_step lifetime) before_ops new_rotators)) = Some n"
    and "t \<le> now + lifetime div 2"
  shows "fst (Nonce_Valid memstore_lookup n t
    (snd (after (nonce_step lifetime) (before_ops @ [(i, random, now)] @ later_ops) new_rotators))) = Inr True"
proof -
  obtain rs store where st: "after (nonce_step lifetime) before_ops new_rotators = (rs, store)" by fastforce
  have ok: "rotators_ok lifetime now (rs, store)"
    using assms(2) st by (intro rotators_ok_before [of before_ops]) (auto simp: sorted_append)
  have half: "half_before lifetime = - (lifetime div 2) \<or> half_before lifetime \<le> - (lifetime div 2)" using assms(1)
    by (auto simp: half_before_def)
  obtain rs' store' where st': "snd (nonce_step lifetime (i, random, now) (rs, store)) = (rs', store')" by fastforce
  have "n \<noteq> [] \<and> kept_until n (now + lifetime div 2) store'"
  proof (rule Rotator_Current_cases [of "rs i" now lifetime random store])
    assume a: "roCurrent (rs i) \<noteq> []" "now < roExpiresAt (rs i) + half_before lifetime"
      "Rotator_Current memstore_issue random lifetime now (rs i, store) = (Some (roCurrent (rs i)), (rs i, store))"
    then have "n = roCurrent (rs i)" "store' = store" using assms(3) st' by (simp_all add: st nonce_step_def)
    moreover have "now + lifetime div 2 \<le> roExpiresAt (rs i)" using a(2) half by auto
    ultimately show ?thesis using ok a(1) by (auto simp: rotators_ok_def kept_until_def)
  next
    assume "Rotator_Current memstore_issue random lifetime now (rs i, store) = (None, (rs i, store))"
    then show ?thesis using assms(3) by (simp add: st nonce_step_def)
  next
    fix m
    assume m: "m \<noteq> []" "Rotator_Current memstore_issue random lifetime now (rs i, store) =
      (Some m, (\<lparr>roCurrent = m, roExpiresAt = now + lifetime\<rparr>, store(m \<mapsto> now + lifetime)))"
    then have "n = m" "store' = store(m \<mapsto> now + lifetime)" using assms(3) st' by (simp_all add: st nonce_step_def)
    with m(1) assms(1) show ?thesis by (simp add: kept_until_def)
  qed
  then have n: "n \<noteq> []" and k: "kept_until n (now + lifetime div 2) store'" by blast+
  have "\<forall>(j, r, l) \<in> set later_ops. now + lifetime div 2 \<le> l + lifetime"
    using assms(1,2) by (force simp: sorted_append)
  from kept_until_after [OF k this, of rs']
  have "kept_until n (now + lifetime div 2) (snd (after (nonce_step lifetime) (before_ops @ [(i, random, now)] @ later_ops) new_rotators))"
    using st' by (simp add: after_append st)
  with n assms(4) show ?thesis by (auto simp: Nonce_Valid_def memstore_lookup_def NonceStore_Lookup_def kept_until_def bindS_def liftS_def)
qed

lemma handed_nonce_valid_witness:
  "\<exists>n. fst (Nonce_Valid memstore_lookup n 5
     (snd (after (nonce_step 10) ([] @ [(0, Some (replicate 32 0), 0)] @ [(1, Some (replicate 32 1), 5)]) new_rotators))) = Inr True"
proof -
  obtain n where n: "generate_nonce (Some (replicate 32 0)) = Some n" by (simp add: generate_nonce_def nonceSize_def)
  have "fst (nonce_step 10 (0, Some (replicate 32 0), 0) (after (nonce_step 10) [] new_rotators)) = Some n"
    using n by (simp add: nonce_step_def new_rotators_def Rotator_Current_def memstore_issue_def)
  from handed_nonce_valid [OF _ _ this, of "[(1, Some (replicate 32 1), 5)]" 5] show ?thesis by auto
qed

end
