(* ===== verification/Grant_Revocation.thy ===== *)
theory Grant_Revocation
  imports Pkce Memstore
begin

text \<open>
  How a revoked grant is recorded and found: \<^verbatim>\<open>internal/grantrevocation/grantrevocation.go\<close>,
  with the certificate thumbprint of \<^verbatim>\<open>internal/mtls\<close> and the check of pairwise subjects of
  \<^verbatim>\<open>pairwise\<close> a verifier applies. Access tokens, grants and the grants of authorization codes
  share one revocation store; the lemmas show that their keys never meet.
\<close>

definition grantClaim :: string where "grantClaim = ''grant_id''"

definition grant_Key :: "string \<Rightarrow> string \<Rightarrow> string" where
  "grant_Key issuer grantID = ''grant:'' @ grantID @ ''@'' @ issuer"

definition grant_Keys :: "string \<Rightarrow> string \<Rightarrow> string list" where
  "grant_Keys issuer grantID = [grant_Key issuer grantID, ''grant:'' @ grantID]"

definition CodeClaim :: string where "CodeClaim = ''code_grant_id''"

definition CodeKey :: "string \<Rightarrow> string \<Rightarrow> string" where
  "CodeKey issuer codeGrantID = ''code-grant:'' @ codeGrantID @ ''@'' @ issuer"

definition CodeKeys :: "string \<Rightarrow> string \<Rightarrow> string list" where
  "CodeKeys issuer codeGrantID = [CodeKey issuer codeGrantID, ''code-grant:'' @ codeGrantID]"

definition CodeGrantID :: "crypto \<Rightarrow> bytes \<Rightarrow> string" where
  "CodeGrantID C codeHash = encode_raw True (sha256 C (string_bytes ''fapigo code grant v1'' @ [0] @ codeHash))"

definition BackchannelGrantID :: "crypto \<Rightarrow> bytes \<Rightarrow> string" where
  "BackchannelGrantID C authReqIDHash =
     encode_raw True (sha256 C (string_bytes ''fapigo backchannel grant v1'' @ [0] @ authReqIDHash))"

definition mtls_Thumbprint :: "crypto \<Rightarrow> bytes \<Rightarrow> string" where
  "mtls_Thumbprint C cert = encode_raw True (sha256 C cert)"

definition hex_digit :: "nat \<Rightarrow> char" where
  "hex_digit n = char_of (if n < 10 then 48 + n else 87 + n)"

definition hex_encode :: "bytes \<Rightarrow> string" where
  "hex_encode bs = concat (map (\<lambda>b. [hex_digit (b div 16), hex_digit (b mod 16)]) bs)"

section \<open>Pairwise subjects\<close>

definition MaxBodyLength :: nat where "MaxBodyLength = 255 - 16"

definition non_graphic :: "char \<Rightarrow> bool" where
  "non_graphic c \<longleftrightarrow> (of_char c :: nat) < 33 \<or> 126 < (of_char c :: nat)"

definition firstNonGraphic :: "string \<Rightarrow> int" where
  "firstNonGraphic s = (let i = length (takeWhile (\<lambda>c. \<not> non_graphic c) s) in if i < length s then int i else - 1)"

definition CheckBody :: "string \<Rightarrow> bool" where
  "CheckBody body \<longleftrightarrow> body \<noteq> [] \<and> length body \<le> MaxBodyLength \<and> firstNonGraphic body < 0"

section \<open>Keys apart\<close>

lemma append_mark_eq:
  assumes "x \<notin> set as" "x \<notin> set bs"
  shows "as @ x # cs = bs @ x # ds \<longleftrightarrow> as = bs \<and> cs = ds"
  using assms
proof (induction as arbitrary: bs)
  case Nil
  then show ?case by (cases bs) auto
next
  case (Cons a as)
  then show ?case by (cases bs) auto
qed

lemma grant_Key_inject:
  assumes "CHR ''@'' \<notin> set g" "CHR ''@'' \<notin> set g'"
  shows "grant_Key i g = grant_Key i' g' \<longleftrightarrow> i = i' \<and> g = g'"
  using append_mark_eq [OF assms] by (auto simp: grant_Key_def)

lemma CodeKey_inject:
  assumes "CHR ''@'' \<notin> set g" "CHR ''@'' \<notin> set g'"
  shows "CodeKey i g = CodeKey i' g' \<longleftrightarrow> i = i' \<and> g = g'"
  using append_mark_eq [OF assms] by (auto simp: CodeKey_def)

lemma hex_digit_not_colon: "n < 16 \<Longrightarrow> hex_digit n \<noteq> CHR '':''"
proof
  assume n: "n < 16" and "hex_digit n = CHR '':''"
  then have "(of_char (hex_digit n) :: nat) = of_char CHR '':''" by simp
  then show False using n by (simp add: hex_digit_def split: if_splits)
qed

lemma hex_encode_no_colon: "\<forall>b \<in> set bs. b < 256 \<Longrightarrow> CHR '':'' \<notin> set (hex_encode bs)"
proof
  assume "\<forall>b \<in> set bs. b < 256" "CHR '':'' \<in> set (hex_encode bs)"
  then obtain b where b: "b < 256" "CHR '':'' = hex_digit (b div 16) \<or> CHR '':'' = hex_digit (b mod 16)"
    by (auto simp: hex_encode_def)
  then have "b div 16 < 16" "b mod 16 < 16" by auto
  with hex_digit_not_colon b(2) show False by metis
qed

lemma digit_char_no_colon: "v < 64 \<Longrightarrow> digit_char True v \<noteq> CHR '':''"
  using digit_char_unreserved [of v] by (auto simp: isUnreservedChar_def)

lemma encode_raw_no_colon: "\<forall>b \<in> set bs. b < 256 \<Longrightarrow> CHR '':'' \<notin> set (encode_raw True bs)"
  using encode_raw_chars [of "\<lambda>c. c \<noteq> CHR '':''", of bs] by (blast dest: digit_char_no_colon)

lemma colon_in_keys:
  "k \<in> set (grant_Keys i g) \<Longrightarrow> CHR '':'' \<in> set k" "k \<in> set (CodeKeys i g) \<Longrightarrow> CHR '':'' \<in> set k"
  by (auto simp: grant_Keys_def CodeKeys_def grant_Key_def CodeKey_def)

text \<open>
  Keys of the revocation store never meet: revoking a grant of one issuer refuses tokens of no
  other grant and no other issuer's, an authorization code's grant is never taken for a grant the
  application named, and no grant's key is an access token's, be it a generated identifier or the
  hash of an opaque token.
\<close>

theorem revocation_keys_apart:
  assumes "CHR ''@'' \<notin> set g" "CHR ''@'' \<notin> set g'" "\<forall>b \<in> set tok. b < 256"
  shows "(grant_Key i' g' \<in> set (grant_Keys i g) \<longleftrightarrow> i' = i \<and> g' = g)
    \<and> (CodeKey i' g' \<in> set (CodeKeys i g) \<longleftrightarrow> i' = i \<and> g' = g)
    \<and> set (grant_Keys i g) \<inter> set (CodeKeys i' g') = {}
    \<and> hex_encode tok \<notin> set (grant_Keys i g) \<union> set (CodeKeys i g)
    \<and> encode_raw True tok \<notin> set (grant_Keys i g) \<union> set (CodeKeys i g)"
proof (intro conjI)
  have "grant_Key i' g' \<noteq> ''grant:'' @ g" using assms(1) by (auto simp: grant_Key_def)
  then show "grant_Key i' g' \<in> set (grant_Keys i g) \<longleftrightarrow> i' = i \<and> g' = g"
    using grant_Key_inject [OF assms(2,1)] by (simp add: grant_Keys_def)
  have "CodeKey i' g' \<noteq> ''code-grant:'' @ g" using assms(1) by (auto simp: CodeKey_def)
  then show "CodeKey i' g' \<in> set (CodeKeys i g) \<longleftrightarrow> i' = i \<and> g' = g"
    using CodeKey_inject [OF assms(2,1)] by (simp add: CodeKeys_def)
  show "set (grant_Keys i g) \<inter> set (CodeKeys i' g') = {}"
    by (auto simp: grant_Keys_def CodeKeys_def grant_Key_def CodeKey_def)
  show "hex_encode tok \<notin> set (grant_Keys i g) \<union> set (CodeKeys i g)"
    using hex_encode_no_colon [OF assms(3)] colon_in_keys by blast
  show "encode_raw True tok \<notin> set (grant_Keys i g) \<union> set (CodeKeys i g)"
    using encode_raw_no_colon [OF assms(3)] colon_in_keys by blast
qed

lemma revocation_keys_apart_witness:
  "grant_Key ''https://b.example'' ''g1'' \<notin> set (grant_Keys ''https://a.example'' ''g1'')
    \<and> hex_encode [1, 254] \<notin> set (grant_Keys ''https://a.example'' ''g1'') \<union> set (CodeKeys ''https://a.example'' ''g1'')"
  using revocation_keys_apart [of "''g1''" "''g1''" "[1, 254]" "''https://b.example''" "''https://a.example''"] by simp

text \<open>
  Grants of authorization codes and of backchannel requests are told apart by what is hashed.
\<close>

lemma CodeGrantID_not_backchannel:
  assumes "sha256 C (string_bytes ''fapigo code grant v1'' @ [0] @ h) \<noteq> sha256 C (string_bytes ''fapigo backchannel grant v1'' @ [0] @ h')"
    and "\<And>bs. list_all (\<lambda>b. b < 256) (sha256 C bs)"
  shows "CodeGrantID C h \<noteq> BackchannelGrantID C h'"
  using assms by (simp add: CodeGrantID_def BackchannelGrantID_def encode_raw_inject)

end
