(* ===== verification/Http_Error.thy ===== *)
theory Http_Error
  imports Json
begin

text \<open>
  Error responses: \<^verbatim>\<open>internal/httperror/httperror.go\<close> and \<^verbatim>\<open>resource/errors.go\<close>. An error has a
  code, a status and a description a client may read; its cause, for logs, is left out.
\<close>

section \<open>Shared\<close>

definition error_char :: "char \<Rightarrow> bool" where
  "error_char c \<longleftrightarrow> \<not> ((of_char c :: nat) < 32 \<or> (of_char c :: nat) = 34 \<or> (of_char c :: nat) = 92 \<or> 126 < (of_char c :: nat))"

definition IsErrorText :: "string \<Rightarrow> bool" where
  "IsErrorText s \<longleftrightarrow> s \<noteq> [] \<and> list_all error_char s"

definition Description :: "string \<Rightarrow> string" where
  "Description s =
     (if s = [] \<or> IsErrorText s then s
      else let s = map (\<lambda>c. if c = CHR 34 then CHR 39 else c) s in
        if \<not> IsErrorText s then [] else s)"

definition IsErrorStatus :: "int \<Rightarrow> bool" where
  "IsErrorStatus status \<longleftrightarrow> 400 \<le> status \<and> status \<le> 599"

definition Normalize :: "string \<Rightarrow> int \<Rightarrow> string \<Rightarrow> bool \<Rightarrow> string \<times> int \<times> string" where
  "Normalize code status description allowEmptyCode =
     (let description = (if description \<noteq> [] \<and> \<not> IsErrorText description then [] else description);
          codeOK = IsErrorText code \<or> (code = [] \<and> allowEmptyCode \<and> status = 401) in
      if \<not> codeOK \<or> \<not> IsErrorStatus status then (''server_error'', 500, description)
      else (code, status, description))"

definition http_Status :: "int \<Rightarrow> int" where
  "http_Status status = (if \<not> IsErrorStatus status then 500 else status)"

text \<open>A response: its headers in the order they are set, and a body, if any.\<close>

record http_response =
  hrStatus :: int
  hrHeaders :: "string assoc"
  hrBody :: "json option"

definition httperror_WriteJSON :: "string \<Rightarrow> string \<Rightarrow> string \<Rightarrow> string \<Rightarrow> int \<Rightarrow> string assoc \<Rightarrow> http_response" where
  "httperror_WriteJSON nonce challengeScheme code description httpStatus headers =
     \<lparr>hrStatus = http_Status httpStatus,
      hrHeaders = headers
        @ (if nonce \<noteq> [] then [(''DPoP-Nonce'', nonce)] else [])
        @ (if challengeScheme \<noteq> []
           then [(''WWW-Authenticate'', challengeScheme @ '' error='' @ [CHR 34] @ code @ [CHR 34])] else [])
        @ [(''Content-Type'', ''application/json'')],
      hrBody = Some (JObj ((''error'', JStr code)
        # (if Description description = [] then [] else [(''error_description'', JStr (Description description))])))\<rparr>"

section \<open>Errors of the resource server\<close>

definition ErrorInvalidRequest :: string where "ErrorInvalidRequest = ''invalid_request''"
definition ErrorInvalidToken :: string where "ErrorInvalidToken = ''invalid_token''"
definition ErrorServerError :: string where "ErrorServerError = ''server_error''"
definition ErrorUseDPoPNonce :: string where "ErrorUseDPoPNonce = ''use_dpop_nonce''"
definition ErrorInvalidDPoPProof :: string where "ErrorInvalidDPoPProof = ''invalid_dpop_proof''"
definition ErrorInsufficientScope :: string where "ErrorInsufficientScope = ''insufficient_scope''"

lemmas error_codes = ErrorInvalidRequest_def ErrorInvalidToken_def ErrorServerError_def ErrorUseDPoPNonce_def
  ErrorInvalidDPoPProof_def ErrorInsufficientScope_def

record ResourceError =
  erCode :: string
  erStatus :: int
  erDescription :: string
  erNonce :: string
  erDPoPChallenge :: bool

definition newError :: "string \<Rightarrow> int \<Rightarrow> string \<Rightarrow> ResourceError" where
  "newError code httpStatus description =
     \<lparr>erCode = code, erStatus = httpStatus, erDescription = description, erNonce = [], erDPoPChallenge = False\<rparr>"

definition noCredentials :: ResourceError where "noCredentials = newError [] 401 []"

definition dpopAlgorithms :: string where "dpopAlgorithms = ''ES256 PS256 EdDSA''"

definition NewError :: "string \<Rightarrow> int \<Rightarrow> string \<Rightarrow> ResourceError" where
  "NewError code httpStatus description =
     (let (c, status, desc) = Normalize code httpStatus description True in newError c status desc)"

definition quoted :: "string \<Rightarrow> string" where "quoted s = [CHR 34] @ s @ [CHR 34]"

definition Error_WriteJSON :: "ResourceError \<Rightarrow> http_response" where
  "Error_WriteJSON e =
     (if erCode e = [] then
        \<lparr>hrStatus = http_Status (erStatus e),
         hrHeaders = [(''WWW-Authenticate'', ''Bearer, DPoP algs='' @ quoted dpopAlgorithms)], hrBody = None\<rparr>
      else
        httperror_WriteJSON (erNonce e) [] (erCode e) (erDescription e) (erStatus e)
          [(''WWW-Authenticate'',
            if erDPoPChallenge e \<or> erCode e = ErrorUseDPoPNonce \<or> erCode e = ErrorInvalidDPoPProof
            then ''DPoP error='' @ quoted (erCode e) @ '', algs='' @ quoted dpopAlgorithms
            else ''Bearer error='' @ quoted (erCode e))])"

section \<open>Responses are well formed\<close>

lemma IsErrorText_Description: "Description s = [] \<or> IsErrorText (Description s)"
  by (simp add: Description_def Let_def)

lemma IsErrorStatus_http_Status: "IsErrorStatus (http_Status n)"
  by (simp add: http_Status_def IsErrorStatus_def)

text \<open>
  Whatever a caller asks for, an error is answered with an error status and one challenge whose
  text cannot leave its quotes: the code and the description are of RFC 6749's characters, and only
  a 401 comes without a code.
\<close>

theorem NewError_well_formed:
  "IsErrorStatus (erStatus (NewError code status description))
    \<and> (erCode (NewError code status description) = [] \<and> erStatus (NewError code status description) = 401
       \<or> IsErrorText (erCode (NewError code status description)))
    \<and> (erDescription (NewError code status description) = [] \<or> IsErrorText (erDescription (NewError code status description)))
    \<and> (IsErrorText code \<and> IsErrorStatus status \<longrightarrow>
        erCode (NewError code status description) = code \<and> erStatus (NewError code status description) = status)"
  by (auto simp: NewError_def Normalize_def newError_def IsErrorStatus_def IsErrorText_def error_char_def Let_def)

lemma NewError_well_formed_witness:
  "erCode (NewError ''insufficient_scope'' 403 []) = ''insufficient_scope''"
proof -
  have "IsErrorText ''insufficient_scope'' \<and> IsErrorStatus 403"
    by (simp add: IsErrorText_def error_char_def IsErrorStatus_def)
  with NewError_well_formed [of "''insufficient_scope''" 403 "[]"] show ?thesis by blast
qed

end
