(* ===== verification/Resource_Verify.thy ===== *)
theory Resource_Verify
  imports Dpop Grant_Revocation Http_Error Policy Token
begin

text \<open>
  The resource server: \<^verbatim>\<open>resource/verify.go\<close>, \<^verbatim>\<open>target.go\<close>, \<^verbatim>\<open>nonce.go\<close>, \<^verbatim>\<open>revocation.go\<close>
  and \<^verbatim>\<open>replay.go\<close>. A verifier decides a request by its credential, the access token, the
  token's binding to the credential, revocation and, last, what it has to write: the nonce and the
  replay record of a proof. Its dependencies are effects of a state the model leaves open; beside it
  is the nonce the verifier currently hands out.
\<close>

section \<open>Dependencies\<close>

text \<open>A dependency that could not answer is told from one that answers no.\<close>

datatype dependency_error = StoreUnavailable | OtherFailure

text \<open>A resolver fails with an error of its own making or with any other.\<close>

datatype resolver_failure = OwnError ResourceError | ForeignError dependency_error

datatype pairwise_failure = ErrSubjectNotFound | PairwiseLookupFailed

record ResolveAccessTokenRequest =
  rqRaw :: string
  rqNow :: time
  rqMaxClockSkew :: duration

record ResolvedAccessToken =
  raSubject :: string
  raClientID :: string
  raScopes :: "string list"
  raClaims :: "json assoc"
  raExpiresAt :: time
  raThumbprint :: string
  raSenderConstrain :: SenderConstrain
  raKey :: string
  raIssuer :: string
  raAudience :: "string list"
  raIssuedAt :: time

record 's RevocationChecker =
  rkIsRevoked :: "string \<Rightarrow> ('s, dependency_error, bool) effect"
  rkIsAnyRevoked :: "(string list \<Rightarrow> ('s, dependency_error, bool) effect) option"
  rkMaxTokenLifetime :: "duration option"

record 's nonce_store =
  nsIssue :: "string \<Rightarrow> time \<Rightarrow> ('s, dependency_error, unit) effect"
  nsLookup :: "string \<Rightarrow> ('s, dependency_error, time) effect"

record 's resource_deps =
  rdAccessTokens :: "ResolveAccessTokenRequest \<Rightarrow> ('s, resolver_failure, ResolvedAccessToken) effect"
  rdReplay :: "ReplayUse \<Rightarrow> ('s, dependency_error, unit) effect"
  rdRevocation :: "'s RevocationChecker"
  rdNonces :: "'s nonce_store option"
  rdPairwiseSubjects :: "(string \<Rightarrow> string \<Rightarrow> string \<Rightarrow> ('s, pairwise_failure, string) effect) option"
  rdPairwiseSubjectResolver :: "(string \<Rightarrow> string \<Rightarrow> string \<Rightarrow> ('s, pairwise_failure, string) effect) option"

record resource_limits =
  rlMaxDPoPProofAge :: duration
  rlMaxClockSkew :: duration
  rlDPoPNonceLifetime :: duration

datatype PairwiseResolution = ResolvePairwiseSubjects | PairwiseClientSubjectsOnly

record resource_config =
  rcLimits :: resource_limits
  rcResourceURLs :: "url option list"
  rcProduction :: bool
  rcPairwisePrefix :: "string option"
  rcPairwiseResolution :: PairwiseResolution

record resourceURL =
  ruOrigin :: url
  ruPrefix :: string

record 's Verifier =
  vfCrypto :: crypto
  vfParse :: "string \<Rightarrow> url option"
  vfConfig :: resource_config
  vfDeps :: "'s resource_deps"
  vfResourceURLs :: "resourceURL list"

definition vf_skew :: "'s Verifier \<Rightarrow> duration" where
  "vf_skew v = rlMaxClockSkew (rcLimits (vfConfig v))"

record VerifyRequest =
  vqMethod :: string
  vqURL :: "url option"
  vqAuthorization :: string
  vqDPoPProofs :: "string list"
  vqPeerCertificate :: "bytes option"
  vqRequestPath :: string
  vqRepeatedAuthorization :: bool

datatype SubjectKind = SubjectEndUser | SubjectClient

record AuthorizationContext =
  auInternalSubject :: string
  auSubjectKind :: SubjectKind
  auClientSubject :: string
  auClientID :: string
  auScopes :: "string list"
  auClaims :: "json assoc"
  auExpiresAt :: time
  auKey :: string
  auIssuer :: string
  auAudience :: "string list"
  auIssuedAt :: time
  auNextDPoPNonce :: string
  auUsedDPoP :: bool

definition accessTokenInvalid :: ResourceError where
  "accessTokenInvalid = newError ErrorInvalidToken 401 ''access token is invalid''"

section \<open>Targets\<close>

text \<open>
  \<^verbatim>\<open>prepareResourceURLs\<close>: a configured URL has a normal path and no query. The parser of the
  model leaves the fragment out, so the text is asked for it instead.
\<close>

definition empty_url :: url where
  "empty_url = \<lparr>uScheme = [], uHasUser = False, uHost = [], uPath = [], uRawQuery = [], uForceQuery = False,
     uOpaque = [], uRawPath = [], uOmitHost = False\<rparr>"

definition prepareResourceURL :: "bool \<Rightarrow> url option \<Rightarrow> string + resourceURL" where
  "prepareResourceURL production ru =
     (case ru of
        None \<Rightarrow> Inl ''unset''
      | Some u \<Rightarrow>
          if uScheme u = ''http'' \<and> production then Inl ''http''
          else if uRawQuery u \<noteq> [] \<or> uForceQuery u then Inl ''query''
          else if \<not> HasNormalPath u then Inl ''path''
          else Inr \<lparr>ruOrigin = empty_url\<lparr>uScheme := uScheme u, uHost := uHost u\<rparr>,
                    ruPrefix = trim_suffix (URI u) ''/''\<rparr>)"

definition prepareResourceURLs :: "resource_config \<Rightarrow> string + resourceURL list" where
  "prepareResourceURLs cfg =
     (if rcResourceURLs cfg = [] then Inl ''required''
      else mapR (prepareResourceURL (rcProduction cfg)) (rcResourceURLs cfg))"

definition covers :: "resourceURL \<Rightarrow> url \<Rightarrow> bool" where
  "covers r target = (let c = URI target in c = ruPrefix r \<or> has_prefix c (ruPrefix r @ ''/''))"

definition outsideResourceURLs :: ResourceError where
  "outsideResourceURLs = newError ErrorInvalidRequest 400 ''request target is not one of this resource server's URLs''"

definition explicitTarget :: "'s Verifier \<Rightarrow> url \<Rightarrow> ResourceError + url list" where
  "explicitTarget v target =
     (if uScheme target = [] \<or> uHost target = [] \<or> (uScheme target \<noteq> ''https'' \<and> uScheme target \<noteq> ''http'')
      then Inl (newError ErrorServerError 500 ''failed to verify request'')
      else if list_ex (\<lambda>r. covers r target) (vfResourceURLs v) then Inr [target]
      else Inl outsideResourceURLs)"

definition fragment_of :: "string \<Rightarrow> string" where
  "fragment_of s = tl (dropWhile (\<lambda>c. c \<noteq> CHR ''#'') s)"

definition target_at :: "'s Verifier \<Rightarrow> string \<Rightarrow> resourceURL \<Rightarrow> url option" where
  "target_at v escapedPath r =
     (let text = url_String (ruOrigin r) @ escapedPath in
      case vfParse v text of
        None \<Rightarrow> None
      | Some t \<Rightarrow>
          if uHost t = uHost (ruOrigin r) \<and> uRawQuery t = [] \<and> fragment_of text = [] \<and> covers r t
          then Some t else None)"

definition pathTargets :: "'s Verifier \<Rightarrow> string \<Rightarrow> ResourceError + url list" where
  "pathTargets v escapedPath =
     (if \<not> has_prefix escapedPath ''/'' then Inl outsideResourceURLs
      else let targets = List.map_filter (target_at v escapedPath) (vfResourceURLs v) in
        if targets = [] then Inl outsideResourceURLs else Inr targets)"

definition requestTargets :: "'s Verifier \<Rightarrow> VerifyRequest \<Rightarrow> ResourceError + url list" where
  "requestTargets v req =
     (case vqURL req of Some u \<Rightarrow> explicitTarget v u | None \<Rightarrow> pathTargets v (vqRequestPath req))"

section \<open>The Authorization header\<close>

text \<open>\<^verbatim>\<open>strings.TrimSpace\<close> leaves nothing exactly of what \<^verbatim>\<open>strings.Fields\<close> finds nothing in.\<close>

definition strings_Cut_space :: "string \<Rightarrow> string \<times> string" where
  "strings_Cut_space s = (takeWhile (\<lambda>c. c \<noteq> CHR '' '') s, tl (dropWhile (\<lambda>c. c \<noteq> CHR '' '') s))"

definition parseAuthorization :: "VerifyRequest \<Rightarrow> bool \<times> (ResourceError + string \<times> string)" where
  "parseAuthorization req =
     (if vqMethod req = [] then (False, Inl (newError ErrorInvalidRequest 400 ''method is required''))
      else if vqURL req = None \<and> vqRequestPath req = []
      then (False, Inl (newError ErrorInvalidRequest 400 ''url is required''))
      else let (dpopProof, dpopOK) = ResolveHeaderValues (vqDPoPProofs req) in
        if \<not> dpopOK then (True, Inl (newError ErrorInvalidDPoPProof 401 ''multiple DPoP proofs are not permitted''))
        else if vqRepeatedAuthorization req
        then (False, Inl (newError ErrorInvalidRequest 400 ''multiple Authorization headers are not permitted''))
        else if strings_Fields (vqAuthorization req) = [] then (False, Inl noCredentials)
        else let (scheme, rest) = strings_Cut_space (vqAuthorization req);
                 raw = dropWhile (\<lambda>c. c = CHR '' '') rest;
                 usedDPoP = EqualFoldASCII scheme ''DPoP'' in
          if \<not> usedDPoP \<and> \<not> EqualFoldASCII scheme ''Bearer'' then (False, Inl noCredentials)
          else if raw = []
          then (usedDPoP, Inl (newError ErrorInvalidRequest 400 ''authorization header has no access token''))
          else (usedDPoP, Inr (dpopProof, raw)))"

section \<open>The credential\<close>

text \<open>
  What a request presents: a verified proof, or the thumbprint of its connection's certificate,
  empty without one.
\<close>

datatype credential = by_proof VerifiedProof | by_certificate string

fun credential_kind :: "credential \<Rightarrow> SenderConstrain" where
  "credential_kind (by_proof _) = SenderConstrainDPoP"
| "credential_kind (by_certificate _) = SenderConstrainMTLS"

fun presented_thumbprint :: "credential \<Rightarrow> string" where
  "presented_thumbprint (by_proof p) = thumbprint_String (vpThumbprint p)"
| "presented_thumbprint (by_certificate t) = t"

definition proof_request :: "'s Verifier \<Rightarrow> VerifyRequest \<Rightarrow> url list \<Rightarrow> string \<Rightarrow> string \<Rightarrow> time \<Rightarrow> ProofVerifyRequest" where
  "proof_request v req targets dpopProof raw now =
     \<lparr>pvProof = dpopProof, pvMethod = vqMethod req,
      pvURL = (case targets of [] \<Rightarrow> None | t # _ \<Rightarrow> Some t), pvAlternateURLs = map Some (tl targets),
      pvAccessToken = raw, pvRequiredNonce = [], pvNow = now,
      pvMaxProofAge = rlMaxDPoPProofAge (rcLimits (vfConfig v)), pvMaxClockSkew = vf_skew v\<rparr>"

definition resolveCredential :: "'s Verifier \<Rightarrow> VerifyRequest \<Rightarrow> url list \<Rightarrow> string \<Rightarrow> string \<Rightarrow> bool \<Rightarrow> time
    \<Rightarrow> ResourceError + credential" where
  "resolveCredential v req targets dpopProof raw usedDPoP now =
     (if usedDPoP then
        if dpopProof = [] then Inl (newError ErrorInvalidRequest 400 ''DPoP header is required'')
        else case verify_proof (vfCrypto v) (vfParse v) (proof_request v req targets dpopProof raw now) of
            Inl _ \<Rightarrow> Inl (newError ErrorInvalidDPoPProof 401 ''DPoP proof verification failed'')
          | Inr p \<Rightarrow> Inr (by_proof p)
      else case vqPeerCertificate req of
          None \<Rightarrow> Inr (by_certificate [])
        | Some cert \<Rightarrow> Inr (by_certificate (mtls_Thumbprint (vfCrypto v) cert)))"

section \<open>The access token\<close>

fun lookupError :: "dependency_error \<Rightarrow> ResourceError" where
  "lookupError StoreUnavailable = newError ErrorServerError 500 ''failed to look up the access token''"
| "lookupError OtherFailure = accessTokenInvalid"

fun resolver_error :: "resolver_failure \<Rightarrow> ResourceError" where
  "resolver_error (OwnError e) = e"
| "resolver_error (ForeignError d) = lookupError d"

definition resolveAccessToken :: "'s Verifier \<Rightarrow> string \<Rightarrow> time \<Rightarrow> ('s, ResourceError, ResolvedAccessToken) effect" where
  "resolveAccessToken v raw now =
     catchS resolver_error
       (rdAccessTokens (vfDeps v) \<lparr>rqRaw = raw, rqNow = now, rqMaxClockSkew = vf_skew v\<rparr>)"

definition checkUnrevocableLifetime :: "'s Verifier \<Rightarrow> ResolvedAccessToken \<Rightarrow> time \<Rightarrow> ResourceError + unit" where
  "checkUnrevocableLifetime v resolved now =
     (case rkMaxTokenLifetime (rdRevocation (vfDeps v)) of
        None \<Rightarrow> Inr ()
      | Some lifetime \<Rightarrow>
          require (time_sub (raExpiresAt resolved) now \<le> SaturatingAdd [lifetime, vf_skew v]) accessTokenInvalid)"

definition checkBinding :: "'s Verifier \<Rightarrow> ResolvedAccessToken \<Rightarrow> credential \<Rightarrow> time \<Rightarrow> ResourceError + unit" where
  "checkBinding v resolved cred now =
     and_then (require (raSenderConstrain resolved = credential_kind cred) accessTokenInvalid) (\<lambda>_.
     let presented = presented_thumbprint cred in
     and_then (require (presented \<noteq> [] \<and> raThumbprint resolved = presented) accessTokenInvalid) (\<lambda>_.
     and_then (require (\<not> raExpiresAt resolved + vf_skew v < now)
         (newError ErrorInvalidToken 401 ''access token has expired'')) (\<lambda>_.
     checkUnrevocableLifetime v resolved now)))"

section \<open>Revocation\<close>

definition nonempty_string :: "json \<Rightarrow> string option" where
  "nonempty_string raw =
     (case unmarshal_string raw of None \<Rightarrow> None | Some s \<Rightarrow> if s = [] then None else Some s)"

definition grantRevocationClaims :: "(string \<times> (string \<Rightarrow> string \<Rightarrow> string list)) list" where
  "grantRevocationClaims = [(grantClaim, grant_Keys), (CodeClaim, CodeKeys)]"

fun grant_keys_of :: "(string \<times> (string \<Rightarrow> string \<Rightarrow> string list)) list \<Rightarrow> string \<Rightarrow> json assoc \<Rightarrow> string list option" where
  "grant_keys_of [] issuer claims = Some []"
| "grant_keys_of ((claim, keys) # cs) issuer claims =
     (case map_of claims claim of
        None \<Rightarrow> grant_keys_of cs issuer claims
      | Some raw \<Rightarrow>
          (case nonempty_string raw of
             None \<Rightarrow> None
           | Some gid \<Rightarrow> if issuer = [] then None
               else map_option ((@) (keys issuer gid)) (grant_keys_of cs issuer claims)))"

definition grantRevocationKeys :: "string \<Rightarrow> json assoc \<Rightarrow> string list option" where
  "grantRevocationKeys = grant_keys_of grantRevocationClaims"

definition is_revoked :: "'s Verifier \<Rightarrow> string \<Rightarrow> ('s, dependency_error, bool) effect" where
  "is_revoked v = rkIsRevoked (rdRevocation (vfDeps v))"

definition checkKeysNotRevoked :: "'s Verifier \<Rightarrow> string list \<Rightarrow> ('s, ResourceError, unit) effect" where
  "checkKeysNotRevoked v =
     check_allS (\<lambda>key.
       bindS (catchS (\<lambda>_. newError ErrorServerError 500 ''failed to check grant revocation'') (is_revoked v key)) (\<lambda>revoked.
       liftS (require (\<not> revoked) (newError ErrorInvalidToken 401 ''access token's grant has been revoked''))))"

fun checkGrantClaim :: "'s Verifier \<Rightarrow> string \<Rightarrow> json assoc \<Rightarrow> string \<times> (string \<Rightarrow> string \<Rightarrow> string list)
    \<Rightarrow> ('s, ResourceError, unit) effect" where
  "checkGrantClaim v issuer claims (claim, keys) =
     (case map_of claims claim of
        None \<Rightarrow> liftS (Inr ())
      | Some raw \<Rightarrow>
          (case nonempty_string raw of
             None \<Rightarrow> liftS (Inl (newError ErrorInvalidToken 401 (''access token's '' @ claim @ '' is malformed'')))
           | Some gid \<Rightarrow>
               if issuer = [] then liftS (Inl (newError ErrorServerError 500 ''failed to check grant revocation''))
               else checkKeysNotRevoked v (keys issuer gid)))"

definition checkGrantNotRevoked :: "'s Verifier \<Rightarrow> string \<Rightarrow> json assoc \<Rightarrow> ('s, ResourceError, unit) effect" where
  "checkGrantNotRevoked v issuer claims = check_allS (checkGrantClaim v issuer claims) grantRevocationClaims"

definition tokenRevoked :: ResourceError where
  "tokenRevoked = newError ErrorInvalidToken 401 ''access token has been revoked''"

definition checkEachNotRevoked :: "'s Verifier \<Rightarrow> ResolvedAccessToken \<Rightarrow> ('s, ResourceError, unit) effect" where
  "checkEachNotRevoked v resolved =
     bindS (catchS (\<lambda>_. newError ErrorServerError 500 ''failed to check token revocation'')
         (is_revoked v (raKey resolved))) (\<lambda>revoked.
     if revoked then liftS (Inl tokenRevoked)
     else checkGrantNotRevoked v (raIssuer resolved) (raClaims resolved))"

text \<open>\<open>None\<close> is the batch check not answering, for whatever reason.\<close>

definition checkAnyRevoked :: "'s Verifier \<Rightarrow> ResolvedAccessToken \<Rightarrow> 's \<Rightarrow> bool option \<times> 's" where
  "checkAnyRevoked v resolved s =
     (case rkIsAnyRevoked (rdRevocation (vfDeps v)) of
        None \<Rightarrow> (None, s)
      | Some isAnyRevoked \<Rightarrow>
          (case grantRevocationKeys (raIssuer resolved) (raClaims resolved) of
             None \<Rightarrow> (None, s)
           | Some keys \<Rightarrow>
               (case isAnyRevoked (raKey resolved # keys) s of
                  (Inl _, s') \<Rightarrow> (None, s')
                | (Inr revoked, s') \<Rightarrow> (Some revoked, s'))))"

definition checkNotRevoked :: "'s Verifier \<Rightarrow> ResolvedAccessToken \<Rightarrow> ('s, ResourceError, unit) effect" where
  "checkNotRevoked v resolved s =
     (if raKey resolved = []
      then (Inl (newError ErrorServerError 500 ''access token resolver returned no revocation key''), s)
      else case checkAnyRevoked v resolved s of
        (Some False, s') \<Rightarrow> (Inr (), s')
      | (None, s') \<Rightarrow> checkEachNotRevoked v resolved s'
      | (Some True, s') \<Rightarrow> bindS (checkEachNotRevoked v resolved) (\<lambda>_. liftS (Inl tokenRevoked)) s')"

section \<open>Subjects\<close>

definition GrantTypeClaim :: string where "GrantTypeClaim = ''grant_type''"
definition ClientCredentialsGrantType :: string where "ClientCredentialsGrantType = ''client_credentials''"
definition PairwiseSectorClaim :: string where "PairwiseSectorClaim = ''pairwise_sector''"
definition ClientSubjectClaim :: string where "ClientSubjectClaim = ''client_sub''"

definition subjectKindOf :: "json assoc \<Rightarrow> ResourceError + SubjectKind" where
  "subjectKindOf claims =
     (case map_of claims GrantTypeClaim of
        None \<Rightarrow> Inr SubjectEndUser
      | Some raw \<Rightarrow>
          if unmarshal_string raw = Some ClientCredentialsGrantType then Inr SubjectClient
          else Inl (newError ErrorInvalidToken 401 ''access token's grant_type is malformed''))"

definition unknownPairwise :: ResourceError where
  "unknownPairwise = newError ErrorInvalidToken 401 ''access token's pairwise subject isn't one this server issued''"

definition pairwiseResult :: "('s, pairwise_failure, string) effect \<Rightarrow> ('s, ResourceError, string) effect" where
  "pairwiseResult m =
     bindS (catchS (\<lambda>e. case e of ErrSubjectNotFound \<Rightarrow> unknownPairwise
         | PairwiseLookupFailed \<Rightarrow> newError ErrorServerError 500 ''failed to look up the access token's pairwise subject'') m) (\<lambda>internal.
     liftS (if internal = [] then Inl (newError ErrorServerError 500 ''the pairwise subject lookup returned no subject'')
            else Inr internal))"

definition lookUpPairwiseSubject :: "'s Verifier \<Rightarrow> (string \<Rightarrow> string \<Rightarrow> string \<Rightarrow> ('s, pairwise_failure, string) effect)
    \<Rightarrow> ResolvedAccessToken \<Rightarrow> string \<Rightarrow> ('s, ResourceError, string) effect" where
  "lookUpPairwiseSubject v lookupInternal resolved sector =
     (let prefix = (case rcPairwisePrefix (vfConfig v) of None \<Rightarrow> [] | Some p \<Rightarrow> p);
          body = drop (length prefix) (raSubject resolved) in
      if \<not> has_prefix (raSubject resolved) prefix \<or> \<not> CheckBody body then liftS (Inl unknownPairwise)
      else pairwiseResult (lookupInternal (raIssuer resolved) sector body))"

definition mapPairwiseSubject :: "'s Verifier \<Rightarrow> ResolvedAccessToken \<Rightarrow> string \<Rightarrow> ('s, ResourceError, string) effect" where
  "mapPairwiseSubject v resolved sector =
     (if raIssuer resolved = []
      then liftS (Inl (newError ErrorServerError 500 ''access token's subject is pairwise, but its resolver reported no issuer to look it up under''))
      else case rdPairwiseSubjects (vfDeps v) of
        Some lookupInternal \<Rightarrow> lookUpPairwiseSubject v lookupInternal resolved sector
      | None \<Rightarrow>
          (case rdPairwiseSubjectResolver (vfDeps v) of
             Some resolveSubject \<Rightarrow> pairwiseResult (resolveSubject (raIssuer resolved) sector (raSubject resolved))
           | None \<Rightarrow> liftS (Inl (newError ErrorServerError 500 ''access token's subject is pairwise, but this verifier can't map it back''))))"

definition resolveSubjects :: "'s Verifier \<Rightarrow> ResolvedAccessToken \<Rightarrow> ('s, ResourceError, string \<times> string) effect" where
  "resolveSubjects v resolved =
     (let clientOnly = (rcPairwiseResolution (vfConfig v) = PairwiseClientSubjectsOnly) in
      case map_of (raClaims resolved) ClientSubjectClaim of
        Some raw \<Rightarrow>
          (case nonempty_string raw of
             None \<Rightarrow> liftS (Inl (newError ErrorInvalidToken 401 ''access token's client subject is malformed''))
           | Some sub \<Rightarrow> liftS (Inr (if clientOnly then [] else raSubject resolved, sub)))
      | None \<Rightarrow>
          (case map_of (raClaims resolved) PairwiseSectorClaim of
             None \<Rightarrow> liftS (Inr (raSubject resolved, raSubject resolved))
           | Some raw \<Rightarrow>
               (case nonempty_string raw of
                  None \<Rightarrow> liftS (Inl (newError ErrorInvalidToken 401 ''access token's pairwise sector is malformed''))
                | Some sector \<Rightarrow>
                    if clientOnly then liftS (Inr ([], raSubject resolved))
                    else bindS (mapPairwiseSubject v resolved sector) (\<lambda>internal.
                           liftS (Inr (internal, raSubject resolved))))))"

end
