(* ===== verification/Resource_Server.thy ===== *)
theory Resource_Server
  imports Resource_Verify
begin

text \<open>
  The rest of the resource server: what a proof consumes, \<^verbatim>\<open>Verify\<close> itself, and the two
  resolvers of \<^verbatim>\<open>resource/accesstoken.go\<close>. The state of an effect here is the verifier's rotator
  of nonces beside the state of its dependencies.
\<close>

section \<open>Nonces and replay\<close>

definition issueDPoPNonce :: "'s Verifier \<Rightarrow> 's nonce_store \<Rightarrow> bytes option \<Rightarrow> time \<Rightarrow> (Rotator \<times> 's, unit, string) effect" where
  "issueDPoPNonce v nonces random now rs =
     (case Rotator_Current (nsIssue nonces) random (rlDPoPNonceLifetime (rcLimits (vfConfig v))) now rs of
        (None, rs') \<Rightarrow> (Inl (), rs')
      | (Some nonce, rs') \<Rightarrow> (Inr nonce, rs'))"

definition nonceNotIssued :: ResourceError where
  "nonceNotIssued = newError ErrorServerError 500 ''failed to issue dpop nonce''"

definition nonceChallenge :: "string \<Rightarrow> ResourceError" where
  "nonceChallenge current = newError ErrorUseDPoPNonce 401 ''DPoP proof must carry a current nonce'' \<lparr>erNonce := current\<rparr>"

definition checkDPoPNonce :: "'s Verifier \<Rightarrow> 's nonce_store \<Rightarrow> bytes option \<Rightarrow> string \<Rightarrow> time
    \<Rightarrow> (Rotator \<times> 's, ResourceError, unit) effect" where
  "checkDPoPNonce v nonces random presented now rs =
     (case on_snd (Nonce_Valid (nsLookup nonces) presented now) rs of
        (Inl StoreUnavailable, rs') \<Rightarrow> (Inl (newError ErrorServerError 500 ''failed to check dpop nonce''), rs')
      | (Inr True, rs') \<Rightarrow> (Inr (), rs')
      | (_, rs') \<Rightarrow>
          bindS (catchS (\<lambda>_. nonceNotIssued) (issueDPoPNonce v nonces random now)) (\<lambda>current.
          liftS (Inl (nonceChallenge current))) rs')"

definition proof_spent_until :: "'s Verifier \<Rightarrow> VerifiedProof \<Rightarrow> time" where
  "proof_spent_until v proof =
     vpIssuedAt proof + SaturatingAdd [rlMaxDPoPProofAge (rcLimits (vfConfig v)), vf_skew v, vf_skew v]"

definition proof_use :: "'s Verifier \<Rightarrow> VerifiedProof \<Rightarrow> ReplayUse" where
  "proof_use v proof =
     \<lparr>ruNamespace = resourceDPoPReplayNamespace,
      ruDigest = Digest (vfCrypto v) (thumbprint_String (vpThumbprint proof)) (vpJTI proof),
      ruExpiresAt = proof_spent_until v proof\<rparr>"

fun replay_error :: "dependency_error \<Rightarrow> ResourceError" where
  "replay_error StoreUnavailable = newError ErrorServerError 500 ''failed to check DPoP proof replay''"
| "replay_error OtherFailure = newError ErrorInvalidDPoPProof 401 ''DPoP proof verification failed''"

definition consumeDPoPProof :: "'s Verifier \<Rightarrow> bytes option \<Rightarrow> VerifiedProof \<Rightarrow> time
    \<Rightarrow> (Rotator \<times> 's, ResourceError, unit) effect" where
  "consumeDPoPProof v random proof now =
     bindS (case rdNonces (vfDeps v) of
              None \<Rightarrow> liftS (Inr ())
            | Some nonces \<Rightarrow> checkDPoPNonce v nonces random (vpNonce proof) now) (\<lambda>_.
     on_snd (catchS replay_error (rdReplay (vfDeps v) (proof_use v proof))))"

section \<open>Verify\<close>

text \<open>The nonce for the client's next request; \<^verbatim>\<open>None\<close> where nonces are declined.\<close>

definition next_nonce :: "'s Verifier \<Rightarrow> bytes option \<Rightarrow> credential \<Rightarrow> time \<Rightarrow> (Rotator \<times> 's, ResourceError, string) effect" where
  "next_nonce v random cred now =
     (case (rdNonces (vfDeps v), cred) of
        (Some nonces, by_proof _) \<Rightarrow> catchS (\<lambda>_. nonceNotIssued) (issueDPoPNonce v nonces random now)
      | _ \<Rightarrow> liftS (Inr []))"

text \<open>What is decided before anything of the proof is written.\<close>

definition decide :: "'s Verifier \<Rightarrow> VerifyRequest \<Rightarrow> bool \<Rightarrow> string \<Rightarrow> string \<Rightarrow> time
    \<Rightarrow> ('s, ResourceError, credential \<times> ResolvedAccessToken \<times> SubjectKind \<times> string \<times> string) effect" where
  "decide v req usedDPoP dpopProof raw now =
     bindS (liftS (requestTargets v req)) (\<lambda>targets.
     bindS (liftS (resolveCredential v req targets dpopProof raw usedDPoP now)) (\<lambda>cred.
     bindS (resolveAccessToken v raw now) (\<lambda>resolved.
     bindS (liftS (checkBinding v resolved cred now)) (\<lambda>_.
     bindS (checkNotRevoked v resolved) (\<lambda>_.
     bindS (liftS (subjectKindOf (raClaims resolved))) (\<lambda>kind.
     bindS (resolveSubjects v resolved) (\<lambda>(subject, clientSubject).
     liftS (Inr (cred, resolved, kind, subject, clientSubject)))))))))"

definition context_of :: "ResolvedAccessToken \<Rightarrow> SubjectKind \<Rightarrow> string \<Rightarrow> string \<Rightarrow> string \<Rightarrow> bool \<Rightarrow> AuthorizationContext" where
  "context_of resolved kind subject clientSubject nextNonce usedDPoP =
     \<lparr>auInternalSubject = subject, auSubjectKind = kind, auClientSubject = clientSubject,
      auClientID = raClientID resolved, auScopes = raScopes resolved, auClaims = raClaims resolved,
      auExpiresAt = raExpiresAt resolved, auKey = raKey resolved, auIssuer = raIssuer resolved,
      auAudience = raAudience resolved, auIssuedAt = raIssuedAt resolved,
      auNextDPoPNonce = nextNonce, auUsedDPoP = usedDPoP\<rparr>"

definition verify :: "'s Verifier \<Rightarrow> bytes option \<Rightarrow> VerifyRequest \<Rightarrow> bool \<Rightarrow> string \<Rightarrow> string \<Rightarrow> time
    \<Rightarrow> (Rotator \<times> 's, ResourceError, AuthorizationContext) effect" where
  "verify v random req usedDPoP dpopProof raw now =
     bindS (on_snd (decide v req usedDPoP dpopProof raw now)) (\<lambda>(cred, resolved, kind, subject, clientSubject).
     bindS (case cred of by_proof proof \<Rightarrow> consumeDPoPProof v random proof now | by_certificate _ \<Rightarrow> liftS (Inr ())) (\<lambda>_.
     bindS (next_nonce v random cred now) (\<lambda>nextNonce.
     liftS (Inr (context_of resolved kind subject clientSubject nextNonce usedDPoP)))))"

definition resource_Verify :: "'s Verifier \<Rightarrow> bytes option \<Rightarrow> VerifyRequest \<Rightarrow> time
    \<Rightarrow> (Rotator \<times> 's, ResourceError, AuthorizationContext) effect" where
  "resource_Verify v random req now =
     (let (usedDPoP, parsed) = parseAuthorization req in
      catchS (\<lambda>e. if usedDPoP then e\<lparr>erDPoPChallenge := True\<rparr> else e)
        (bindS (liftS parsed) (\<lambda>(dpopProof, raw). verify v random req usedDPoP dpopProof raw now)))"

definition IssueDPoPNonce :: "'s Verifier \<Rightarrow> bytes option \<Rightarrow> time \<Rightarrow> (Rotator \<times> 's, unit, string) effect" where
  "IssueDPoPNonce v random now =
     (case rdNonces (vfDeps v) of None \<Rightarrow> liftS (Inr []) | Some nonces \<Rightarrow> issueDPoPNonce v nonces random now)"

section \<open>What a context says\<close>

definition stringClaim :: "json assoc \<Rightarrow> string \<Rightarrow> string" where
  "stringClaim claims name =
     (case map_of claims name of None \<Rightarrow> [] | Some raw \<Rightarrow> (case unmarshal_string raw of None \<Rightarrow> [] | Some s \<Rightarrow> s))"

definition GrantID_of :: "AuthorizationContext \<Rightarrow> string" where
  "GrantID_of a = stringClaim (auClaims a) grantClaim"

definition CodeGrantID_of :: "AuthorizationContext \<Rightarrow> string" where
  "CodeGrantID_of a = stringClaim (auClaims a) CodeClaim"

definition EndUser :: "AuthorizationContext \<Rightarrow> string option" where
  "EndUser a = (if auSubjectKind a \<noteq> SubjectEndUser \<or> auInternalSubject a = [] then None else Some (auInternalSubject a))"

definition NewInsufficientScopeError :: "AuthorizationContext \<Rightarrow> string \<Rightarrow> ResourceError" where
  "NewInsufficientScopeError authz description =
     NewError ErrorInsufficientScope 403 description \<lparr>erDPoPChallenge := auUsedDPoP authz, erNonce := auNextDPoPNonce authz\<rparr>"

section \<open>Resolvers\<close>

record issuer_key_request =
  ikIssuer :: string
  ikAlgorithm :: SignatureAlgorithm
  ikKeyID :: string

record 's JWTAccessTokens =
  jaIssuerKeys :: "issuer_key_request \<Rightarrow> ('s, dependency_error, public_key list) effect"
  jaIssuer :: string
  jaAudience :: string
  jaAdditionalAudiences :: "string list"
  jaAlgorithm :: SignatureAlgorithm
  jaMaxTokenLifetime :: duration
  jaMaxKeyCandidates :: int
  jaMaxTokenBytes :: int

definition DefaultMaxAccessTokenBytes :: int where "DefaultMaxAccessTokenBytes = 16 * 2 ^ 10"

definition jwt_policy :: "'s JWTAccessTokens \<Rightarrow> ResolveAccessTokenRequest \<Rightarrow> AccessTokenValidatePolicy" where
  "jwt_policy j req =
     \<lparr>apExpectedIssuer = jaIssuer j, apExpectedAudience = jaAudience j,
      apAdditionalAudiences = jaAdditionalAudiences j, apAlgorithm = jaAlgorithm j, apNow = rqNow req,
      apMaxLifetime = jaMaxTokenLifetime j, apMaxClockSkew = rqMaxClockSkew req\<rparr>"

fun first_valid :: "('k \<Rightarrow> 'e + 'a) \<Rightarrow> 'k list \<Rightarrow> 'a option" where
  "first_valid f [] = None"
| "first_valid f (k # ks) = (case f k of Inr x \<Rightarrow> Some x | Inl _ \<Rightarrow> first_valid f ks)"

definition resolved_jwt :: "ValidatedAccessToken \<Rightarrow> ResolvedAccessToken" where
  "resolved_jwt validated =
     \<lparr>raSubject = vaSubject validated, raClientID = vaClientID validated,
      raScopes = (if vaScope validated \<noteq> [] then strings_Fields (vaScope validated) else []),
      raClaims = vaParameters validated, raExpiresAt = vaExpiresAt validated,
      raThumbprint = (if vaX5TS256 validated \<noteq> [] then vaX5TS256 validated else vaJKT validated),
      raSenderConstrain = (if vaX5TS256 validated \<noteq> [] then SenderConstrainMTLS else SenderConstrainDPoP),
      raKey = vaJTI validated, raIssuer = vaIssuer validated, raAudience = vaAudience validated,
      raIssuedAt = vaIssuedAt validated\<rparr>"

definition jwt_ResolveAccessToken :: "crypto \<Rightarrow> 's JWTAccessTokens \<Rightarrow> ResolveAccessTokenRequest
    \<Rightarrow> ('s, resolver_failure, ResolvedAccessToken) effect" where
  "jwt_ResolveAccessToken C j req =
     (let maxBytes = (if jaMaxTokenBytes j = 0 then DefaultMaxAccessTokenBytes else jaMaxTokenBytes j) in
      case ParseAccessTokenMax C (rqRaw req) maxBytes of
        Inl _ \<Rightarrow> liftS (Inl (OwnError (newError ErrorInvalidToken 401 ''access token is malformed'')))
      | Inr parsed \<Rightarrow>
          bindS (catchS (\<lambda>_. OwnError (newError ErrorServerError 500 ''failed to resolve issuer keys''))
            (jaIssuerKeys j \<lparr>ikIssuer = jaIssuer j, ikAlgorithm = jaAlgorithm j,
               ikKeyID = hdKeyID (cmHeader (accCompact parsed))\<rparr>)) (\<lambda>keys.
          if keys = [] then liftS (Inl (OwnError (newError ErrorInvalidToken 401 ''no matching issuer key'')))
          else case first_valid (\<lambda>k. AccessToken_Validate C parsed k (jwt_policy j req)) (take (nat (jaMaxKeyCandidates j)) keys) of
              None \<Rightarrow> liftS (Inl (OwnError accessTokenInvalid))
            | Some validated \<Rightarrow> liftS (Inr (resolved_jwt validated))))"

definition AudienceRecordClaim :: string where "AudienceRecordClaim = ''aud''"
definition IssuerRecordClaim :: string where "IssuerRecordClaim = ''iss''"

definition recordedIssuerAndAudience :: "json assoc \<Rightarrow> (json assoc \<times> string \<times> string list) option" where
  "recordedIssuerAndAudience claims =
     (let rawIss = map_of claims IssuerRecordClaim; rawAud = map_of claims AudienceRecordClaim in
      if rawIss = None \<and> rawAud = None then Some (claims, [], [])
      else case (case rawIss of None \<Rightarrow> Some [] | Some raw \<Rightarrow> nonempty_string raw) of
        None \<Rightarrow> None
      | Some issuer \<Rightarrow>
          (case (case rawAud of None \<Rightarrow> Some []
                 | Some raw \<Rightarrow> (case unmarshal_strings raw of Some (Some (a # as)) \<Rightarrow> Some (a # as) | _ \<Rightarrow> None)) of
             None \<Rightarrow> None
           | Some audience \<Rightarrow>
               Some (filter (\<lambda>(k, _). k \<noteq> IssuerRecordClaim \<and> k \<noteq> AudienceRecordClaim) claims, issuer, audience)))"

record 's OpaqueAccessTokens =
  oaLookup :: "bytes \<Rightarrow> ('s, dependency_error, NewAccessToken) effect"
  oaIssuer :: string
  oaAudience :: string
  oaAdditionalAudiences :: "string list"

definition acceptsAudience :: "'s OpaqueAccessTokens \<Rightarrow> string list \<Rightarrow> bool" where
  "acceptsAudience oa audience \<longleftrightarrow>
     oaAudience oa = [] \<or> oaAudience oa \<in> set audience \<or> list_ex (\<lambda>a. a \<in> set audience) (oaAdditionalAudiences oa)"

definition resolved_opaque :: "bytes \<Rightarrow> NewAccessToken \<Rightarrow> json assoc \<Rightarrow> string \<Rightarrow> string list \<Rightarrow> ResolvedAccessToken" where
  "resolved_opaque hash looked claims issuer audience =
     \<lparr>raSubject = natSubject looked, raClientID = natClientID looked, raScopes = natScope looked,
      raClaims = claims, raExpiresAt = natExpiresAt looked, raThumbprint = natThumbprint looked,
      raSenderConstrain = natSenderConstrain looked, raKey = hex_encode hash,
      raIssuer = issuer, raAudience = audience, raIssuedAt = zero_time\<rparr>"

definition opaque_ResolveAccessToken :: "crypto \<Rightarrow> 's OpaqueAccessTokens \<Rightarrow> ResolveAccessTokenRequest
    \<Rightarrow> ('s, resolver_failure, ResolvedAccessToken) effect" where
  "opaque_ResolveAccessToken C oa req =
     (let hash = sha256 C (string_bytes (rqRaw req)) in
      bindS (catchS (\<lambda>e. OwnError (lookupError e)) (oaLookup oa hash)) (\<lambda>looked.
      liftS (case recordedIssuerAndAudience (natClaims looked) of
          None \<Rightarrow> Inl (OwnError (newError ErrorServerError 500 ''access token record is malformed''))
        | Some (claims, issuer, audience) \<Rightarrow>
            if issuer \<noteq> oaIssuer oa then Inl (OwnError accessTokenInvalid)
            else if \<not> acceptsAudience oa audience then Inl (OwnError accessTokenInvalid)
            else Inr (resolved_opaque hash looked claims issuer audience))))"

text \<open>What a resolver's constructor asks of its fields; a nil key source or store is not a value here.\<close>

definition JWTAccessTokens_validate :: "'s JWTAccessTokens \<Rightarrow> string + unit" where
  "JWTAccessTokens_validate j =
     (if jaIssuer j = [] then Inl ''issuer is required''
      else if jaAudience j = [] then Inl ''audience is required''
      else if [] \<in> set (jaAdditionalAudiences j) then Inl ''additional audiences must not be empty''
      else if jaMaxTokenLifetime j \<le> 0 then Inl ''max token lifetime must be positive''
      else if jaMaxKeyCandidates j \<le> 0 then Inl ''max key candidates must be positive''
      else if jaMaxTokenBytes j < 0 then Inl ''max token bytes must not be negative''
      else Inr ())"

definition OpaqueAccessTokens_validate :: "'s OpaqueAccessTokens \<Rightarrow> string + unit" where
  "OpaqueAccessTokens_validate oa =
     (if oaIssuer oa = [] then Inl ''issuer is required''
      else if oaAudience oa = [] \<and> oaAdditionalAudiences oa \<noteq> [] then Inl ''additional audiences require an audience''
      else if [] \<in> set (oaAdditionalAudiences oa) then Inl ''additional audiences must not be empty''
      else Inr ())"

end
