(* ===== verification/Resource_Properties.thy ===== *)
theory Resource_Properties
  imports Resource_Server
begin

text \<open>
  Revocation at the resource server, over any checker that keeps the contract of \<^verbatim>\<open>storage\<close>, and
  what an accepted request went through.
\<close>

section \<open>The revocation checker's contract\<close>

text \<open>
  \<^verbatim>\<open>storage.RevocationBatchChecker\<close>: asking writes nothing, and the batch answers as asking key by
  key would; an error of either is no answer.
\<close>

locale revocation_contract =
  fixes v :: "'s Verifier" and revoked :: "'s \<Rightarrow> string \<Rightarrow> bool"
  assumes reads_revocation: "reads_only (rkIsRevoked (rdRevocation (vfDeps v)) k)"
    and answers_revocation: "rkIsRevoked (rdRevocation (vfDeps v)) k s = (Inr b, s') \<Longrightarrow> b = revoked s k"
    and reads_batch: "rkIsAnyRevoked (rdRevocation (vfDeps v)) = Some batch \<Longrightarrow> reads_only (batch ks)"
    and answers_batch: "rkIsAnyRevoked (rdRevocation (vfDeps v)) = Some batch \<Longrightarrow> batch ks s = (Inr b, s')
      \<Longrightarrow> b = (\<exists>k \<in> set ks. revoked s k)"
begin

lemma reads_is_revoked [reads_simps]: "reads_only (is_revoked v k)"
  unfolding is_revoked_def by (rule reads_revocation)

lemma reads_checkKeys [reads_simps]: "reads_only (checkKeysNotRevoked v ks)"
  unfolding checkKeysNotRevoked_def by (intro reads_simps)

lemma checkKeys_Inr:
  assumes "checkKeysNotRevoked v ks s = (Inr (), s')"
  shows "\<forall>k \<in> set ks. \<not> revoked s k"
proof
  fix k assume k: "k \<in> set ks"
  have "bindS (catchS (\<lambda>_. newError ErrorServerError 500 ''failed to check grant revocation'') (is_revoked v k)) (\<lambda>revoked.
      liftS (require (\<not> revoked) (newError ErrorInvalidToken 401 ''access token's grant has been revoked''))) s = (Inr (), s)"
    by (rule check_allS_Inr [OF _ assms [unfolded checkKeysNotRevoked_def] k]) (intro reads_simps)
  then show "\<not> revoked s k"
    unfolding bindS_Inr catchS_Inr liftS_eq require_eq_Inr
    using answers_revocation [of k s] by (auto simp: is_revoked_def)
qed

lemma reads_checkGrantClaim [reads_simps]: "reads_only (checkGrantClaim v issuer claims c)"
  by (cases c) (auto split: option.splits intro!: reads_simps)

lemma reads_checkGrant [reads_simps]: "reads_only (checkGrantNotRevoked v issuer claims)"
  unfolding checkGrantNotRevoked_def by (intro reads_simps)

lemma checkGrant_claims:
  assumes "check_allS (checkGrantClaim v issuer claims) cs s = (Inr (), s')"
  shows "\<exists>ks. grant_keys_of cs issuer claims = Some ks \<and> (\<forall>k \<in> set ks. \<not> revoked s k)"
  using assms
proof (induction cs arbitrary: s)
  case (Cons c cs)
  obtain claim keys where c: "c = (claim, keys)" by fastforce
  from Cons.prems obtain s1 where k: "checkGrantClaim v issuer claims c s = (Inr (), s1)"
    and rest: "check_allS (checkGrantClaim v issuer claims) cs s1 = (Inr (), s')"
    by (auto simp: bindS_Inr)
  have "s1 = s" using reads_onlyD [OF reads_checkGrantClaim k] .
  with Cons.IH rest obtain ks where ks: "grant_keys_of cs issuer claims = Some ks" "\<forall>k \<in> set ks. \<not> revoked s k" by blast
  from k c consider "map_of claims claim = None"
    | raw gid where "map_of claims claim = Some raw" "nonempty_string raw = Some gid" "issuer \<noteq> []"
        "checkKeysNotRevoked v (keys issuer gid) s = (Inr (), s1)"
    by (auto split: option.splits if_splits)
  then show ?case
  proof cases
    case 1
    with ks c show ?thesis by simp
  next
    case (2 raw gid)
    with ks c checkKeys_Inr [OF 2(4)] show ?thesis by auto
  qed
qed simp

lemma checkGrant_Inr:
  assumes "checkGrantNotRevoked v issuer claims s = (Inr (), s')"
  shows "\<exists>ks. grantRevocationKeys issuer claims = Some ks \<and> (\<forall>k \<in> set ks. \<not> revoked s k)"
  using checkGrant_claims assms unfolding grantRevocationKeys_def checkGrantNotRevoked_def by blast

lemma reads_checkEach [reads_simps]: "reads_only (checkEachNotRevoked v resolved)"
  unfolding checkEachNotRevoked_def by (auto split: if_splits intro!: reads_simps)

lemma checkEach_Inr:
  assumes "checkEachNotRevoked v resolved s = (Inr (), s')"
  shows "\<exists>ks. grantRevocationKeys (raIssuer resolved) (raClaims resolved) = Some ks
    \<and> (\<forall>k \<in> set (raKey resolved # ks). \<not> revoked s k)"
proof -
  from assms obtain b s1 where b: "is_revoked v (raKey resolved) s = (Inr b, s1)" "\<not> b"
    and g: "checkGrantNotRevoked v (raIssuer resolved) (raClaims resolved) s1 = (Inr (), s')"
    by (auto simp: checkEachNotRevoked_def bindS_Inr split: if_splits)
  have "s1 = s" by (rule reads_onlyD [OF reads_is_revoked b(1)])
  moreover have "\<not> revoked s (raKey resolved)"
    using answers_revocation b by (fastforce simp: is_revoked_def)
  ultimately show ?thesis using checkGrant_Inr g by auto
qed

lemma checkAny_state: "snd (checkAnyRevoked v resolved s) = s"
  using reads_batch
  by (auto simp: checkAnyRevoked_def reads_only_def split: option.splits prod.splits sum.splits) (metis snd_conv)+

lemma checkAny_Some:
  assumes "checkAnyRevoked v resolved s = (Some b, s')"
  shows "\<exists>ks. grantRevocationKeys (raIssuer resolved) (raClaims resolved) = Some ks
    \<and> b = (\<exists>k \<in> set (raKey resolved # ks). revoked s k)"
proof -
  from assms obtain batch ks where "rkIsAnyRevoked (rdRevocation (vfDeps v)) = Some batch"
    "grantRevocationKeys (raIssuer resolved) (raClaims resolved) = Some ks" "batch (raKey resolved # ks) s = (Inr b, s')"
    by (auto simp: checkAnyRevoked_def split: option.splits prod.splits sum.splits)
  with answers_batch show ?thesis by blast
qed

lemma checkNotRevoked_state: "snd (checkNotRevoked v resolved s) = s"
proof -
  have "reads_only (bindS (checkEachNotRevoked v resolved) (\<lambda>_. liftS (Inl tokenRevoked)))" by (intro reads_simps)
  then show ?thesis using checkAny_state [of resolved s] reads_checkEach [of resolved]
    by (auto simp: checkNotRevoked_def reads_only_def split: prod.splits option.splits bool.splits)
qed

lemma checkNotRevoked_Inr:
  assumes "checkNotRevoked v resolved s = (Inr (), s')"
  shows "s' = s \<and> raKey resolved \<noteq> [] \<and>
    (\<exists>ks. grantRevocationKeys (raIssuer resolved) (raClaims resolved) = Some ks
      \<and> (\<forall>k \<in> set (raKey resolved # ks). \<not> revoked s k))"
proof (intro conjI)
  show "s' = s" using checkNotRevoked_state [of resolved s] assms by simp
  show "raKey resolved \<noteq> []" using assms by (auto simp: checkNotRevoked_def)
  obtain a s1 where a: "checkAnyRevoked v resolved s = (a, s1)" by fastforce
  then have s1: "s1 = s" using checkAny_state [of resolved s] by simp
  consider "a = Some False" | "a = None" | "a = Some True" by (cases a) auto
  then show "\<exists>ks. grantRevocationKeys (raIssuer resolved) (raClaims resolved) = Some ks
      \<and> (\<forall>k \<in> set (raKey resolved # ks). \<not> revoked s k)"
  proof cases
    case 1
    with checkAny_Some [of resolved s False] a show ?thesis by blast
  next
    case 2
    with a s1 assms have "checkEachNotRevoked v resolved s = (Inr (), s')"
      by (simp add: checkNotRevoked_def split: if_splits)
    then show ?thesis by (rule checkEach_Inr)
  next
    case 3
    with a s1 assms show ?thesis by (auto simp: checkNotRevoked_def bindS_Inr split: if_splits)
  qed
qed

text \<open>A checker that always answers: the converse, and the batch check changes nothing.\<close>

lemma checkKeys_total:
  assumes "\<And>k. \<exists>b. rkIsRevoked (rdRevocation (vfDeps v)) k s = (Inr b, s)" "\<forall>k \<in> set ks. \<not> revoked s k"
  shows "checkKeysNotRevoked v ks s = (Inr (), s)"
  using assms(2)
proof (induction ks)
  case (Cons k ks)
  obtain b where b: "rkIsRevoked (rdRevocation (vfDeps v)) k s = (Inr b, s)" using assms(1) by blast
  with Cons.prems answers_revocation [OF b] have "is_revoked v k s = (Inr False, s)" by (simp add: is_revoked_def)
  with Cons show ?case by (simp add: checkKeysNotRevoked_def bindS_def catchS_def liftS_def require_def)
qed (simp add: checkKeysNotRevoked_def)

lemma checkGrant_total:
  assumes "\<And>k. \<exists>b. rkIsRevoked (rdRevocation (vfDeps v)) k s = (Inr b, s)"
    and "grant_keys_of cs issuer claims = Some ks" "\<forall>k \<in> set ks. \<not> revoked s k"
  shows "check_allS (checkGrantClaim v issuer claims) cs s = (Inr (), s)"
  using assms(2,3)
proof (induction cs arbitrary: ks)
  case (Cons c cs)
  obtain claim keys where c: "c = (claim, keys)" by fastforce
  show ?case
  proof (cases "map_of claims claim")
    case None
    with Cons c show ?thesis by (simp add: bindS_def liftS_def)
  next
    case (Some raw)
    with Cons.prems c obtain gid ks' where g: "nonempty_string raw = Some gid" "issuer \<noteq> []"
      "grant_keys_of cs issuer claims = Some ks'" "ks = keys issuer gid @ ks'"
      by (auto split: option.splits if_splits)
    then have "checkKeysNotRevoked v (keys issuer gid) s = (Inr (), s)" "check_allS (checkGrantClaim v issuer claims) cs s = (Inr (), s)"
      using Cons checkKeys_total [OF assms(1)] by simp_all
    with c Some g show ?thesis by (simp add: bindS_def)
  qed
qed simp

lemma batch_agrees:
  assumes "\<And>k. \<exists>b. rkIsRevoked (rdRevocation (vfDeps v)) k s = (Inr b, s)" "raKey resolved \<noteq> []"
  shows "checkNotRevoked v resolved s = checkEachNotRevoked v resolved s"
proof -
  obtain a s1 where a: "checkAnyRevoked v resolved s = (a, s1)" by fastforce
  then have s1: "s1 = s" using checkAny_state [of resolved s] by simp
  consider "a = Some False" | "a = None" | "a = Some True" by (cases a) auto
  then show ?thesis
  proof cases
    case 1
    with checkAny_Some a obtain ks where ks: "grantRevocationKeys (raIssuer resolved) (raClaims resolved) = Some ks"
      "\<forall>k \<in> set (raKey resolved # ks). \<not> revoked s k" by blast
    obtain b where b: "rkIsRevoked (rdRevocation (vfDeps v)) (raKey resolved) s = (Inr b, s)" using assms(1) by blast
    with ks(2) answers_revocation [OF b] have "is_revoked v (raKey resolved) s = (Inr False, s)" by (simp add: is_revoked_def)
    moreover have "checkGrantNotRevoked v (raIssuer resolved) (raClaims resolved) s = (Inr (), s)"
      unfolding checkGrantNotRevoked_def using ks unfolding grantRevocationKeys_def
      by (intro checkGrant_total [OF assms(1)]) auto
    ultimately show ?thesis using a s1 1 assms(2)
      by (simp add: checkNotRevoked_def checkEachNotRevoked_def bindS_def catchS_def)
  next
    case 2
    with a s1 assms(2) show ?thesis by (simp add: checkNotRevoked_def)
  next
    case 3
    with checkAny_Some a obtain ks where ks: "grantRevocationKeys (raIssuer resolved) (raClaims resolved) = Some ks"
      "\<exists>k \<in> set (raKey resolved # ks). revoked s k" by blast
    obtain r s2 where r: "checkEachNotRevoked v resolved s = (r, s2)" by fastforce
    with checkEach_Inr [of resolved s s2] ks obtain e where "r = Inl e" by (cases r) auto
    with r a s1 3 assms(2) show ?thesis by (simp add: checkNotRevoked_def bindS_def)
  qed
qed

end

text \<open>
  Asking a batch checker about all of a token's keys at once comes to the same answer, and the
  same error, as asking about them one by one, whatever the token names.
\<close>

theorem batch_check_agrees:
  assumes "revocation_contract v revoked" "\<And>k. \<exists>b. rkIsRevoked (rdRevocation (vfDeps v)) k s = (Inr b, s)"
    and "raKey resolved \<noteq> []"
  shows "checkNotRevoked v resolved s = checkEachNotRevoked v resolved s"
  by (rule revocation_contract.batch_agrees [OF assms])

section \<open>What an accepted request went through\<close>

text \<open>
  The rest of what a verifier's dependencies promise: a resolver and the lookups of pairwise
  subjects and nonces write nothing of the stores a request is judged by.
\<close>

locale resource_contract = revocation_contract v revoked
  for v :: "'s Verifier" and revoked :: "'s \<Rightarrow> string \<Rightarrow> bool" +
  assumes reads_tokens: "reads_only (rdAccessTokens (vfDeps v) rq)"
    and reads_pairwise: "rdPairwiseSubjects (vfDeps v) = Some f \<Longrightarrow> reads_only (f i se b)"
    and reads_resolver: "rdPairwiseSubjectResolver (vfDeps v) = Some g \<Longrightarrow> reads_only (g i se b)"
begin

lemma reads_resolveAccessToken [reads_simps]: "reads_only (resolveAccessToken v raw now)"
  unfolding resolveAccessToken_def by (intro reads_simps reads_tokens)

lemma reads_checkNotRevoked [reads_simps]: "reads_only (checkNotRevoked v resolved)"
  unfolding reads_only_def using checkNotRevoked_state by blast

lemma reads_pairwiseResult [reads_simps]: "reads_only m \<Longrightarrow> reads_only (pairwiseResult m)"
  unfolding pairwiseResult_def by (intro reads_simps)

lemma reads_mapPairwise [reads_simps]: "reads_only (mapPairwiseSubject v resolved sector)"
  unfolding mapPairwiseSubject_def lookUpPairwiseSubject_def Let_def
  by (auto split: option.splits intro!: reads_simps intro: reads_pairwise reads_resolver)

lemma reads_resolveSubjects [reads_simps]: "reads_only (resolveSubjects v resolved)"
  unfolding resolveSubjects_def Let_def by (auto split: option.splits intro!: reads_simps)

lemma reads_decide [reads_simps]: "reads_only (decide v req usedDPoP dpopProof raw now)"
  unfolding decide_def by (intro reads_simps) (auto intro!: reads_simps split: prod.splits)

lemma decide_Inr:
  assumes "decide v req usedDPoP dpopProof raw now s = (Inr (cred, resolved, kind, subject, clientSubject), s')"
  obtains targets where "s' = s" "requestTargets v req = Inr targets"
    "resolveCredential v req targets dpopProof raw usedDPoP now = Inr cred"
    "rdAccessTokens (vfDeps v) \<lparr>rqRaw = raw, rqNow = now, rqMaxClockSkew = vf_skew v\<rparr> s = (Inr resolved, s)"
    "checkBinding v resolved cred now = Inr ()" "checkNotRevoked v resolved s = (Inr (), s)"
    "subjectKindOf (raClaims resolved) = Inr kind" "resolveSubjects v resolved s = (Inr (subject, clientSubject), s)"
proof -
  from assms obtain targets s1 s2 s3 where t: "requestTargets v req = Inr targets"
    "resolveCredential v req targets dpopProof raw usedDPoP now = Inr cred"
    and a: "resolveAccessToken v raw now s = (Inr resolved, s1)" and b: "checkBinding v resolved cred now = Inr ()"
    and r: "checkNotRevoked v resolved s1 = (Inr (), s2)" and k: "subjectKindOf (raClaims resolved) = Inr kind"
    and u: "resolveSubjects v resolved s2 = (Inr (subject, clientSubject), s3)" "s' = s3"
    unfolding decide_def bindS_Inr liftS_eq by (auto split: prod.splits)
  have e: "s1 = s" "s2 = s1" "s3 = s2"
    by (rule reads_onlyD [OF reads_resolveAccessToken a], rule reads_onlyD [OF reads_checkNotRevoked r],
        rule reads_onlyD [OF reads_resolveSubjects u(1)])
  then have "rdAccessTokens (vfDeps v) \<lparr>rqRaw = raw, rqNow = now, rqMaxClockSkew = vf_skew v\<rparr> s = (Inr resolved, s)"
    using a by (simp add: resolveAccessToken_def)
  with t b r k u e show thesis by (intro that) simp_all
qed

end

end
