(* ===== verification/Uri_Properties.thy ===== *)
theory Uri_Properties
  imports Canonical_Uri
begin

text \<open>
  The path normalization of \<open>Canonical_Uri\<close> against a reference on path segments, and what it
  leaves: a normal path has no dot segments.
\<close>

section \<open>Segments\<close>

text \<open>
  The reference: the segments of an absolute path, resolved from the left with the ones kept so
  far (the last first); a dot segment at the end leaves the empty segment of a trailing slash.
\<close>

fun resolve_segments :: "string list \<Rightarrow> string list \<Rightarrow> string list" where
  "resolve_segments kept [] = rev kept"
| "resolve_segments kept [s] =
     (if s = ''.'' then rev ([] # kept) else if s = ''..'' then rev ([] # tl kept) else rev (s # kept))"
| "resolve_segments kept (s # t # ss) =
     (if s = ''.'' then resolve_segments kept (t # ss)
      else if s = ''..'' then resolve_segments (tl kept) (t # ss)
      else resolve_segments (s # kept) (t # ss))"

definition absolute :: "string list \<Rightarrow> string" where
  "absolute ss = concat (map ((#) (CHR ''/'')) ss)"

lemma absolute_simps [simp]: "absolute [] = []" "absolute (s # ss) = CHR ''/'' # s @ absolute ss"
  by (simp_all add: absolute_def)

lemma absolute_append [simp]: "absolute (xs @ ys) = absolute xs @ absolute ys"
  by (simp add: absolute_def)

lemma absolute_split: "absolute (split_on (CHR ''/'') s) = CHR ''/'' # s"
proof (induction s)
  case (Cons c s)
  obtain w ws where "split_on (CHR ''/'') s = w # ws" by (cases "split_on (CHR ''/'') s") auto
  with Cons show ?case by simp
qed simp

lemma split_on_no_sep: "w \<in> set (split_on sep s) \<Longrightarrow> sep \<notin> set w"
  by (induction s arbitrary: w) (auto split: list.splits if_splits)

lemma takeWhile_segment: "CHR ''/'' \<notin> set w \<Longrightarrow> takeWhile (\<lambda>c. c \<noteq> CHR ''/'') (w @ absolute ss) = w"
  by (cases ss) (auto simp: takeWhile_append)

lemma first_segment_absolute: "CHR ''/'' \<notin> set w \<Longrightarrow> first_segment (CHR ''/'' # w @ absolute ss) = Suc (length w)"
  by (simp add: first_segment_def takeWhile_segment)

lemma has_prefix_Cons: "has_prefix (c # s) (d # p) \<longleftrightarrow> c = d \<and> has_prefix s p"
  by (simp add: has_prefix_def)

lemma slash_in_absolute: "ss \<noteq> [] \<Longrightarrow> CHR ''/'' \<in> set (absolute ss)"
  by (cases ss) simp_all

lemma append_absolute_eq:
  assumes "CHR ''/'' \<notin> set v"
  shows "w @ absolute ss = v \<longleftrightarrow> w = v \<and> ss = []"
proof (cases "ss = []")
  case False
  then have "CHR ''/'' \<in> set (w @ absolute ss)" by (simp add: slash_in_absolute)
  with assms False show ?thesis by metis
qed simp

lemma segment_prefix:
  assumes "CHR ''/'' \<notin> set w" "CHR ''/'' \<notin> set v"
  shows "has_prefix (w @ absolute ss) (v @ ''/'') \<longleftrightarrow> w = v \<and> ss \<noteq> []"
proof
  assume p: "has_prefix (w @ absolute ss) (v @ ''/'')"
  then obtain r where r: "w @ absolute ss = v @ CHR ''/'' # r"
    using p by (auto simp: has_prefix_iff)
  have "ss \<noteq> []"
  proof
    assume "ss = []"
    with r have "CHR ''/'' \<in> set w" by simp
    with assms(1) show False by simp
  qed
  moreover have "w = takeWhile (\<lambda>c. c \<noteq> CHR ''/'') (w @ absolute ss)"
    by (simp add: takeWhile_segment assms(1))
  moreover have "takeWhile (\<lambda>c. c \<noteq> CHR ''/'') (v @ CHR ''/'' # r) = v"
    using assms(2) by (auto simp: takeWhile_append)
  ultimately show "w = v \<and> ss \<noteq> []" using r by simp
next
  assume "w = v \<and> ss \<noteq> []"
  then show "has_prefix (w @ absolute ss) (v @ ''/'')"
    by (cases ss) (auto simp: has_prefix_iff)
qed

lemma remove_dots_root: "remove_dots ''/'' out = rev (''/'' # out)"
  by (subst remove_dots.simps) (simp add: has_prefix_def first_segment_def remove_dots.simps [of "[]"])

lemma remove_dots_step:
  assumes w: "CHR ''/'' \<notin> set w"
  shows "remove_dots (CHR ''/'' # w @ absolute ss) out =
    (if w = ''.'' then (if ss = [] then rev (''/'' # out) else remove_dots (absolute ss) out)
     else if w = ''..'' then (if ss = [] then rev (''/'' # tl out) else remove_dots (absolute ss) (tl out))
     else remove_dots (absolute ss) ((CHR ''/'' # w) # out))"
proof -
  let ?s = "CHR ''/'' # w @ absolute ss"
  have p: "has_prefix ?s ''../'' = False" "has_prefix ?s ''./'' = False" "(?s = []) = False" "(?s = ''.'') = False"
    "(?s = ''..'') = False" by (simp_all add: has_prefix_def)
  have d: "?s = ''/.'' \<longleftrightarrow> w = ''.'' \<and> ss = []" "?s = ''/..'' \<longleftrightarrow> w = ''..'' \<and> ss = []"
    using append_absolute_eq [of "''.''" w ss] append_absolute_eq [of "''..''" w ss] by simp_all
  have q: "has_prefix ?s ''/./'' \<longleftrightarrow> w = ''.'' \<and> ss \<noteq> []" "has_prefix ?s ''/../'' \<longleftrightarrow> w = ''..'' \<and> ss \<noteq> []"
    using segment_prefix [OF w, of "''.''" ss] segment_prefix [OF w, of "''..''" ss] by (simp_all add: has_prefix_Cons)
  have f: "first_segment ?s = Suc (length w)" by (rule first_segment_absolute [OF w])
  have "remove_dots ?s out =
    (if w = ''.'' \<and> ss \<noteq> [] then remove_dots (drop 2 ?s) out
      else if w = ''.'' \<and> ss = [] then remove_dots ''/'' out
      else if w = ''..'' \<and> ss \<noteq> [] then remove_dots (drop 3 ?s) (tl out)
      else if w = ''..'' \<and> ss = [] then remove_dots ''/'' (tl out)
      else remove_dots (drop (Suc (length w)) ?s) (take (Suc (length w)) ?s # out))"
    by (subst remove_dots.simps) (simp only: p d q f if_False simp_thms)
  then show ?thesis by (cases "ss = []") (auto simp: remove_dots_root)
qed

lemma remove_dots_resolve:
  "\<forall>w \<in> set ss. CHR ''/'' \<notin> set w \<Longrightarrow> ss \<noteq> [] \<Longrightarrow>
     concat (remove_dots (absolute ss) (map ((#) (CHR ''/'')) kept)) = absolute (resolve_segments kept ss)"
proof (induction kept ss rule: resolve_segments.induct)
  case (2 kept s)
  have "remove_dots (absolute []) out = rev out" for out by (simp add: remove_dots.simps)
  with 2 show ?case
    using remove_dots_step [of s "[]"] by (simp add: absolute_def rev_map flip: map_tl)
next
  case (3 kept s t ss)
  then show ?case
    using remove_dots_step [of s "t # ss"] by (simp flip: map_tl)
qed simp

text \<open>A segment the normal form may hold.\<close>

definition plain_segment :: "string \<Rightarrow> bool" where
  "plain_segment w \<longleftrightarrow> w \<noteq> ''.'' \<and> w \<noteq> ''..''"

lemma plain_segment_Nil [simp]: "plain_segment []"
  by (simp add: plain_segment_def)

lemma list_all_tl: "list_all P xs \<Longrightarrow> list_all P (tl xs)"
  by (cases xs) simp_all

lemma resolve_segments_plain:
  "list_all plain_segment kept \<Longrightarrow> list_all plain_segment (resolve_segments kept ss)"
proof (induction kept ss rule: resolve_segments.induct)
  case (2 kept s)
  then show ?case by (simp add: list_all_tl plain_segment_def [of s])
next
  case (3 kept s t ss)
  show ?case
  proof (cases "s = ''.'' \<or> s = ''..''")
    case True
    then show ?thesis using 3(1,2) list_all_tl [OF 3(4)] 3(4) by (elim disjE) simp_all
  next
    case False
    then have "list_all plain_segment (s # kept)" using 3(4) by (simp add: plain_segment_def [of s])
    with 3(3) False show ?thesis by simp
  qed
qed simp

text \<open>
  C34. Removing dot segments from an absolute path is resolving its segments: each dot segment
  disappears, each double dot takes the segment kept before it along, and what is left is joined
  as it was. No dot segment is left, whatever the path.
\<close>

theorem removeDotSegments_reference:
  "removeDotSegments (CHR ''/'' # s) = absolute (resolve_segments [] (split_on (CHR ''/'') s)) \<and>
   list_all plain_segment (resolve_segments [] (split_on (CHR ''/'') s))"
proof
  have "concat (remove_dots (absolute (split_on (CHR ''/'') s)) (map ((#) (CHR ''/'')) [])) =
      absolute (resolve_segments [] (split_on (CHR ''/'') s))"
    using split_on_no_sep by (intro remove_dots_resolve) auto
  then show "removeDotSegments (CHR ''/'' # s) = absolute (resolve_segments [] (split_on (CHR ''/'') s))"
    by (simp only: removeDotSegments_def absolute_split list.map)
  show "list_all plain_segment (resolve_segments [] (split_on (CHR ''/'') s))"
    by (rule resolve_segments_plain) simp
qed

section \<open>A query that stays\<close>

text \<open>
  The documentation has the query stripped. An empty query, a lone question mark at the end of
  the parsed URL, is not: \<^verbatim>\<open>ForceQuery\<close> is kept and \<^verbatim>\<open>String\<close> writes it.
\<close>

lemma url_String_empty_query:
  "uForceQuery u \<Longrightarrow> url_String u = url_String (u\<lparr>uForceQuery := False\<rparr>) @ ''?''"
  by (simp add: url_String_def Let_def EscapedPath_def)

lemma URI_keeps_empty_query:
  "URI (u\<lparr>uForceQuery := True\<rparr>) = URI (u\<lparr>uForceQuery := False\<rparr>) @ ''?''"
proof -
  have c: "canonical_path (u\<lparr>uForceQuery := b\<rparr>) = canonical_path u" for b
    by (simp add: canonical_path_def EscapedPath_def)
  have "url_String (u\<lparr>uForceQuery := True, uScheme := s, uHost := h, uHasUser := False, uRawQuery := [],
        uPath := p, uRawPath := r\<rparr>) =
      url_String (u\<lparr>uForceQuery := False, uScheme := s, uHost := h, uHasUser := False, uRawQuery := [],
        uPath := p, uRawPath := r\<rparr>) @ ''?''" for s h p r
    by (subst url_String_empty_query) (cases u, simp)+
  moreover have "uScheme (u\<lparr>uForceQuery := b\<rparr>) = uScheme u" "uHost (u\<lparr>uForceQuery := b\<rparr>) = uHost u" for b
    by simp_all
  ultimately show ?thesis unfolding URI_def Let_def c by (simp only:)
qed

end
