(* ===== verification/Uri_Canonical.thy ===== *)
theory Uri_Canonical
  imports Uri_Properties
begin

text \<open>
  The canonical form is stable: canonicalizing the host or the path of a canonical URI again
  changes nothing.
\<close>

section \<open>Paths\<close>

lemma hex_code: "isHex c \<longleftrightarrow> between 48 57 (char_code c) \<or> between 97 102 (char_code c) \<or> between 65 70 (char_code c)"
  by (simp add: isHex_def hex_value_def)

lemma code_upperHex:
  "char_code (upperHex c) = (if between 97 102 (char_code c) then char_code c - 32 else char_code c)"
  by (auto simp: upperHex_def char_code_def between_def)

lemma isHex_upperHex [simp]: "isHex (upperHex c) \<longleftrightarrow> isHex c"
  by (auto simp: hex_code code_upperHex between_def)

lemma unhex_upperHex [simp]: "unhex (upperHex c) = unhex c"
  by (auto simp: unhex_def hex_value_def code_upperHex between_def)

lemma upperHex_upperHex [simp]: "upperHex (upperHex c) = upperHex c"
  unfolding upperHex_def [of "upperHex c"] code_upperHex by (auto simp: between_def)

lemma upper_Cons: "\<exists>t. upperPercentEncodings (a # b # s) = a # b # t \<or> upperPercentEncodings (a # b # s) = a # upperHex b # t"
proof (cases s)
  case (Cons d s')
  then show ?thesis
  proof (cases "a = CHR ''%'' \<and> isHex b \<and> isHex d")
    case False
    then have "upperPercentEncodings (a # b # s) = a # upperPercentEncodings (b # d # s')" using Cons by auto
    moreover have "\<exists>t. upperPercentEncodings (b # d # s') = b # t" by (cases s') auto
    ultimately show ?thesis by auto
  next
    case True
    then show ?thesis
      by (intro exI [of _ "upperHex d # upperPercentEncodings s'"] disjI2) (simp add: Cons)
  qed
qed auto

lemma decode_upper: "decode_unreserved (upperPercentEncodings s) = decode_unreserved s"
proof (induction s rule: upperPercentEncodings.induct)
  case (1 c a b s)
  show ?case
  proof (cases "c = CHR ''%'' \<and> isHex a \<and> isHex b")
    case True
    then show ?thesis using 1(1) by (simp add: Let_def)
  next
    case False
    have e: "upperPercentEncodings (c # a # b # s) = c # upperPercentEncodings (a # b # s)" using False by auto
    obtain b' t where t: "upperPercentEncodings (a # b # s) = a # b' # t" "isHex b' \<longleftrightarrow> isHex b"
      using upper_Cons [of a b s] by auto
    have "decode_unreserved (c # a # b' # t) = c # decode_unreserved (a # b' # t)" using False t(2) by auto
    moreover have "decode_unreserved (c # a # b # s) = c # decode_unreserved (a # b # s)" using False by auto
    ultimately show ?thesis using 1(2) [OF False] by (simp only: e t(1))
  qed
qed simp_all

lemma normalizePath_upper: "normalizePath (upperPercentEncodings s) = normalizePath s"
  by (simp add: normalizePath_def decode_upper)

section \<open>Hosts\<close>

lemma last_colon_None: "last_colon s = None \<longleftrightarrow> CHR '':'' \<notin> set s"
proof -
  let ?P = "\<lambda>c. c \<noteq> CHR '':''"
  have l: "length (takeWhile ?P (rev s)) + length (dropWhile ?P (rev s)) = length s"
    by (simp only: length_append [symmetric] takeWhile_dropWhile_id length_rev)
  have "length (takeWhile ?P (rev s)) = length s \<longleftrightarrow> dropWhile ?P (rev s) = []"
    using l by (metis add.right_neutral add_left_cancel length_0_conv)
  also have "\<dots> \<longleftrightarrow> CHR '':'' \<notin> set s" by (auto simp: dropWhile_eq_Nil_conv)
  finally show ?thesis by (simp add: last_colon_def Let_def)
qed

lemma last_colon_append: "CHR '':'' \<notin> set y \<Longrightarrow> last_colon (x @ CHR '':'' # y) = Some (length x)"
  by (auto simp: last_colon_def takeWhile_append)

lemma last_colon_Some:
  assumes "last_colon s = Some i"
  obtains y where "s = take i s @ CHR '':'' # y" "y = drop (Suc i) s" "CHR '':'' \<notin> set y" "i = length (take i s)"
proof -
  have "CHR '':'' \<in> set s" using assms last_colon_None [of s] by auto
  then obtain x y where s: "s = x @ CHR '':'' # y" "CHR '':'' \<notin> set y" by (meson split_list_last)
  with last_colon_append have "i = length x" using assms by auto
  with s that show thesis by simp
qed

lemma set_LowerASCII_iff:
  assumes "lowerASCIIByte c = c" "\<And>d. lowerASCIIByte d = c \<Longrightarrow> d = c"
  shows "c \<in> set (LowerASCII s) \<longleftrightarrow> c \<in> set s"
  unfolding LowerASCII_map by (auto simp: image_iff) (metis assms)+

lemma lower_mark:
  assumes "c \<in> {CHR '':'', CHR ''['', CHR '']''}"
  shows "lowerASCIIByte d = c \<longleftrightarrow> d = c"
  using assms by (cases d) (auto simp: lowerASCIIByte_bits is_upper_bits)

lemma set_LowerASCII_mark [simp]:
  "CHR '':'' \<in> set (LowerASCII s) \<longleftrightarrow> CHR '':'' \<in> set s"
  "CHR ''['' \<in> set (LowerASCII s) \<longleftrightarrow> CHR ''['' \<in> set s"
  "CHR '']'' \<in> set (LowerASCII s) \<longleftrightarrow> CHR '']'' \<in> set s"
  by (rule set_LowerASCII_iff; simp add: lower_mark lowerASCIIByte_bits is_upper_bits)+

text \<open>A host without a colon has no port; one without brackets or an inner colon splits at it.\<close>

lemma SplitHostPort_no_colon: "CHR '':'' \<notin> set h \<Longrightarrow> SplitHostPort h = None"
  using last_colon_None [of h] by (simp add: SplitHostPort_def)

lemma SplitHostPort_plain:
  assumes "CHR '':'' \<notin> set h" "CHR ''['' \<notin> set h" "CHR '']'' \<notin> set h"
    "CHR '':'' \<notin> set p" "CHR ''['' \<notin> set p" "CHR '']'' \<notin> set p"
  shows "SplitHostPort (h @ CHR '':'' # p) = Some (h, p)"
proof -
  have "\<not> has_prefix (h @ CHR '':'' # p) ''[''"
    using assms(2) by (cases h) (auto simp: has_prefix_def)
  then show ?thesis using assms by (simp add: SplitHostPort_def last_colon_append)
qed

lemma SplitHostPort_bracketed:
  assumes "CHR ''['' \<notin> set h" "CHR '']'' \<notin> set h"
    "CHR '':'' \<notin> set p" "CHR ''['' \<notin> set p" "CHR '']'' \<notin> set p"
  shows "SplitHostPort (''['' @ h @ '']:'' @ p) = Some (h, p)"
proof -
  have t: "takeWhile (\<lambda>c. c \<noteq> CHR '']'') (''['' @ h @ '']:'' @ p) = CHR ''['' # h"
    using assms(2) by (auto simp: takeWhile_append)
  have l: "last_colon (''['' @ h @ '']:'' @ p) = Some (length h + 2)"
    using last_colon_append [OF assms(3), of "''['' @ h @ '']''"] by simp
  show ?thesis using assms by (simp add: SplitHostPort_def has_prefix_def l [simplified] t [simplified])
qed

lemma SplitHostPort_only_bracketed:
  assumes "CHR ''['' \<notin> set h" "CHR '']'' \<notin> set h"
  shows "SplitHostPort (''['' @ h @ '']'') = None"
proof (cases "last_colon (''['' @ h @ '']'')")
  case (Some i)
  have t: "takeWhile (\<lambda>c. c \<noteq> CHR '']'') (''['' @ h @ '']'') = CHR ''['' # h"
    using assms(2) by (auto simp: takeWhile_append)
  obtain y where y: "''['' @ h @ '']'' = take i (''['' @ h @ '']'') @ CHR '':'' # y" "CHR '':'' \<notin> set y"
    "i = length (take i (''['' @ h @ '']''))"
    using Some by (rule last_colon_Some) blast
  have "length (''['' @ h @ '']'') = i + Suc (length y)"
    using arg_cong [OF y(1), of length] y(3) by simp
  then have "i \<le> length h + 1" by simp
  with Some [simplified] t [simplified] show ?thesis by (simp add: SplitHostPort_def has_prefix_def)
qed (simp add: SplitHostPort_def)

text \<open>What a split host looks like.\<close>

lemma SplitHostPort_Some:
  assumes "SplitHostPort hp = Some (h, p)"
  shows "CHR ''['' \<notin> set h \<and> CHR '']'' \<notin> set h \<and> CHR '':'' \<notin> set p \<and> CHR ''['' \<notin> set p \<and> CHR '']'' \<notin> set p"
proof -
  from assms obtain i where i: "last_colon hp = Some i" by (cases "last_colon hp") (simp_all add: SplitHostPort_def)
  then obtain y where y: "hp = take i hp @ CHR '':'' # y" "y = drop (Suc i) hp" "CHR '':'' \<notin> set y"
    by (rule last_colon_Some) blast
  show ?thesis
  proof (cases "has_prefix hp ''[''")
    case False
    with assms i have "h = take i hp" "p = drop (Suc i) hp" "CHR ''['' \<notin> set hp" "CHR '']'' \<notin> set hp"
      by (auto simp: SplitHostPort_def split: if_splits)
    with y(2,3) show ?thesis by (auto dest: in_set_takeD in_set_dropD)
  next
    case True
    let ?e = "length (takeWhile (\<lambda>c. c \<noteq> CHR '']'') hp)"
    from assms i True have e: "h = drop 1 (take ?e hp)" "p = drop (Suc i) hp" "?e + 1 = i"
      "CHR ''['' \<notin> set (tl hp)" "CHR '']'' \<notin> set (drop (?e + 1) hp)"
      by (auto simp: SplitHostPort_def Let_def split: if_splits)
    have tk: "take ?e hp = takeWhile (\<lambda>c. c \<noteq> CHR '']'') hp" by (metis takeWhile_eq_take)
    have "CHR '']'' \<notin> set h" unfolding e(1) tk by (auto dest!: in_set_dropD set_takeWhileD)
    moreover have "CHR ''['' \<notin> set h"
    proof -
      have "h = take (?e - 1) (tl hp)" unfolding e(1) by (simp add: drop_take drop_Suc)
      with e(4) show ?thesis by (auto dest: in_set_takeD)
    qed
    moreover have "CHR ''['' \<notin> set p"
    proof -
      have "p = drop i (tl hp)" by (simp add: e(2) drop_Suc)
      with e(4) show ?thesis by (auto dest: in_set_dropD)
    qed
    moreover have "CHR '']'' \<notin> set p"
    proof -
      have "p = drop 1 (drop (?e + 1) hp)" using e(3) by (simp add: e(2))
      with e(5) show ?thesis by (metis in_set_dropD)
    qed
    ultimately show ?thesis using y(2,3) e(2) by simp
  qed
qed

text \<open>Lowering a host leaves the marks the split looks at where they are.\<close>

lemma length_LowerASCII [simp]: "length (LowerASCII s) = length s"
  by (simp add: LowerASCII_map)

lemma mark_lower:
  assumes "m \<in> {CHR '':'', CHR ''['', CHR '']''}"
  shows "takeWhile (\<lambda>c. c \<noteq> m) (LowerASCII s) = LowerASCII (takeWhile (\<lambda>c. c \<noteq> m) s)"
  unfolding LowerASCII_map by (induction s) (simp_all add: lower_mark [OF assms])

lemma last_colon_lower: "last_colon (LowerASCII s) = last_colon s"
proof -
  have "rev (LowerASCII s) = LowerASCII (rev s)" by (simp add: LowerASCII_map rev_map)
  then show ?thesis by (simp add: last_colon_def mark_lower)
qed

lemma SplitHostPort_lower: "SplitHostPort (LowerASCII h) = None \<longleftrightarrow> SplitHostPort h = None"
proof -
  have p: "has_prefix (LowerASCII h) ''['' \<longleftrightarrow> has_prefix h ''[''"
    by (cases h) (simp_all add: has_prefix_def LowerASCII_map lower_mark)
  have l: "length (takeWhile (\<lambda>c. c \<noteq> CHR '']'') (LowerASCII h)) = length (takeWhile (\<lambda>c. c \<noteq> CHR '']'') h)"
    by (simp add: mark_lower)
  have parts: "take i (LowerASCII h) = LowerASCII (take i h)" "drop i (LowerASCII h) = LowerASCII (drop i h)"
    "tl (LowerASCII h) = LowerASCII (tl h)" "length (LowerASCII h) = length h" for i
    by (simp_all add: LowerASCII_map take_map drop_map map_tl)
  show ?thesis
    by (simp add: SplitHostPort_def last_colon_lower p l parts Let_def split: option.split)
qed

lemma canonicalHost_stable: "canonicalHost (canonicalHost h s) s = canonicalHost h s"
proof (cases "SplitHostPort h")
  case None
  have low: "SplitHostPort (LowerASCII h) = None"
  proof (cases "SplitHostPort (LowerASCII h)")
    case (Some hp)
    obtain a p where "SplitHostPort (LowerASCII h) = Some (a, p)" using Some by (cases hp) simp
    then show ?thesis using None SplitHostPort_lower by (metis option.distinct(1))
  qed
  then show ?thesis by (simp add: canonicalHost_def None)
next
  case (Some hp)
  obtain a p where hp: "SplitHostPort h = Some (a, p)" using Some by (cases hp) simp
  note f = SplitHostPort_Some [OF hp]
  let ?a = "LowerASCII a"
  have ind: "CHR '':'' \<in> set ?a \<longleftrightarrow> CHR '':'' \<in> set a" by simp
  show ?thesis
  proof (cases "p = [] \<or> isDefaultPort s p")
    case True
    show ?thesis
    proof (cases "CHR '':'' \<in> set a")
      case True': True
      have c: "canonicalHost h s = ''['' @ ?a @ '']''" using True True' by (auto simp: canonicalHost_def hp)
      have "SplitHostPort (''['' @ ?a @ '']'') = None" by (rule SplitHostPort_only_bracketed) (use f in simp_all)
      moreover have "LowerASCII (''['' @ ?a @ '']'') = ''['' @ ?a @ '']''"
        by (simp add: LowerASCII_map lowerASCIIByte_bits is_upper_bits)
      ultimately show ?thesis unfolding c by (simp add: canonicalHost_def)
    next
      case False
      have c: "canonicalHost h s = ?a" using True False by (auto simp: canonicalHost_def hp)
      show ?thesis unfolding c using False by (simp add: canonicalHost_def SplitHostPort_no_colon)
    qed
  next
    case False
    have c: "canonicalHost h s = JoinHostPort ?a p" using False by (simp add: canonicalHost_def hp)
    have "SplitHostPort (JoinHostPort ?a p) = Some (?a, p)"
    proof (cases "CHR '':'' \<in> set a")
      case True
      then show ?thesis using f SplitHostPort_bracketed [of ?a p] by (simp add: JoinHostPort_def)
    next
      case False
      then show ?thesis using f SplitHostPort_plain [of ?a p] by (simp add: JoinHostPort_def)
    qed
    then show ?thesis unfolding c using False by (simp add: canonicalHost_def)
  qed
qed

section \<open>URIs\<close>

text \<open>
  What \<^verbatim>\<open>url.Parse\<close> documents of \<^verbatim>\<open>URL.String\<close>, on a canonical URI: parsed again it has the
  scheme, the host and the path that were written.
\<close>

definition reads_back :: "(string \<Rightarrow> url option) \<Rightarrow> url \<Rightarrow> bool" where
  "reads_back parse u \<longleftrightarrow>
     (case parse (URI u) of
        None \<Rightarrow> False
      | Some u' \<Rightarrow>
          uScheme u' = LowerASCII (uScheme u) \<and> uHost u' = canonicalHost (uHost u) (LowerASCII (uScheme u)) \<and>
          EscapedPath u' = canonical_path u \<and> uForceQuery u' = uForceQuery u \<and> uOpaque u' = [])"

lemma normalizePath_root: "normalizePath ''/'' = ''/''"
  by (simp add: normalizePath_def removeDotSegments_def remove_dots_root)

lemma normalizePath_star: "normalizePath ''*'' = ''*''"
  by (simp add: normalizePath_def removeDotSegments_def remove_dots.simps [of "''*''"] has_prefix_def
      first_segment_def remove_dots.simps [of "[]"])

lemma canonical_path_stable:
  assumes "HasNormalPath u" "LowerASCII (uScheme u) \<in> {''https'', ''http''}"
    and "canonicalHost (uHost u) (LowerASCII (uScheme u)) \<noteq> []"
    and "uScheme u' = LowerASCII (uScheme u)" "uHost u' = canonicalHost (uHost u) (LowerASCII (uScheme u))"
    and "EscapedPath u' = canonical_path u"
  shows "canonical_path u' = canonical_path u"
proof -
  let ?e = "EscapedPath u"
  let ?p = "upperPercentEncodings ?e"
  have n: "normalizePath ?e = ?p" using assms(1) by (simp add: HasNormalPath_def Let_def)
  have c: "canonical_path u = (if ?p = [] then ''/'' else if ?p = ''%2A'' then ''*'' else ?p)"
    using assms(2,3) by (auto simp: canonical_path_def Let_def n)
  have c': "canonical_path u' = (let path = normalizePath (canonical_path u) in
      if path = [] then ''/'' else if path = ''%2A'' then ''*'' else path)"
    using assms(2-6) by (auto simp: canonical_path_def Let_def canonicalHost_stable)
  have np: "normalizePath ?p = ?p" using n by (simp add: normalizePath_upper)
  consider "?p = []" | "?p = ''%2A''" | "?p \<noteq> []" "?p \<noteq> ''%2A''" by blast
  then show ?thesis
    by cases (simp_all add: c' c normalizePath_root normalizePath_star np Let_def)
qed

lemma URI_stable:
  assumes u: "HasNormalPath u" "LowerASCII (uScheme u) \<in> {''https'', ''http''}"
    and host: "canonicalHost (uHost u) (LowerASCII (uScheme u)) \<noteq> []"
    and "uScheme u' = LowerASCII (uScheme u)" "uHost u' = canonicalHost (uHost u) (LowerASCII (uScheme u))"
    and "EscapedPath u' = canonical_path u" "uForceQuery u' = uForceQuery u" "uOpaque u' = []"
  shows "URI u' = URI u"
proof -
  have p: "canonical_path u' = canonical_path u"
    by (rule canonical_path_stable) (use assms in simp_all)
  have o: "uOpaque u = []" using u(1) by (simp add: HasNormalPath_def)
  have e: "EscapedPath (v\<lparr>uScheme := s, uHost := h, uHasUser := False, uRawQuery := [], uPath := q, uRawPath := r\<rparr>) =
      EscapedPath (w\<lparr>uScheme := s, uHost := h, uHasUser := False, uRawQuery := [], uPath := q, uRawPath := r\<rparr>)"
    for v w :: url and s h q r by (simp add: EscapedPath_def)
  show ?thesis
    unfolding URI_def Let_def p assms(4,5) LowerASCII_idem canonicalHost_stable
    unfolding url_String_def Let_def e [where v = u' and w = u]
    using host assms(7,8) o by simp
qed

lemma reads_back_URI:
  assumes "reads_back parse u" "HasNormalPath u" "LowerASCII (uScheme u) \<in> {''https'', ''http''}"
    and "canonicalHost (uHost u) (LowerASCII (uScheme u)) \<noteq> []"
  obtains u' where "parse (URI u) = Some u'" "URI u' = URI u" "uOpaque u' = []"
    "uHost u' = canonicalHost (uHost u) (LowerASCII (uScheme u))" "uScheme u' = LowerASCII (uScheme u)"
proof -
  obtain u' where u': "parse (URI u) = Some u'" "uScheme u' = LowerASCII (uScheme u)"
    "uHost u' = canonicalHost (uHost u) (LowerASCII (uScheme u))" "EscapedPath u' = canonical_path u"
    "uForceQuery u' = uForceQuery u" "uOpaque u' = []"
    using assms(1) by (auto simp: reads_back_def split: option.splits)
  have "URI u' = URI u" by (rule URI_stable) (use assms u' in simp_all)
  with u' that show thesis by blast
qed

lemma SplitHostPort_subset:
  assumes "SplitHostPort hp = Some (h, p)"
  shows "set h \<subseteq> set hp \<and> set p \<subseteq> set hp"
proof -
  obtain i where "last_colon hp = Some i" using assms by (cases "last_colon hp") (simp_all add: SplitHostPort_def)
  with assms have "(\<exists>e. h = drop 1 (take e hp)) \<or> h = take i hp" "p = drop (i + 1) hp"
    by (auto simp: SplitHostPort_def Let_def split: if_splits)
  then show ?thesis by (auto dest: in_set_takeD in_set_dropD)
qed

lemma IsASCII_LowerASCII: "IsASCII s \<Longrightarrow> IsASCII (LowerASCII s)"
  by (auto simp: IsASCII_def list_all_iff LowerASCII_map of_char_lowerASCIIByte is_upper_def)

lemma IsASCII_canonicalHost:
  assumes "IsASCII host"
  shows "IsASCII (canonicalHost host s)"
proof -
  have sub: "IsASCII h" if "set h \<subseteq> set host" for h
    using assms that by (auto simp: IsASCII_def list_all_iff)
  have app: "IsASCII (xs @ ys) \<longleftrightarrow> IsASCII xs \<and> IsASCII ys" for xs ys by (simp add: IsASCII_def)
  show ?thesis
  proof (cases "SplitHostPort host")
    case None
    with assms show ?thesis by (simp add: canonicalHost_def IsASCII_LowerASCII)
  next
    case (Some hp)
    obtain h p where hp: "SplitHostPort host = Some (h, p)" using Some by (cases hp) simp
    then have "IsASCII (LowerASCII h)" "IsASCII p" using SplitHostPort_subset [OF hp] sub IsASCII_LowerASCII by blast+
    then show ?thesis by (simp add: canonicalHost_def hp Let_def JoinHostPort_def app) (simp add: IsASCII_def)
  qed
qed

end
