(* ===== verification/Dpop_Properties.thy ===== *)
theory Dpop_Properties
  imports Dpop Uri_Canonical Memstore_Properties Token_Properties
begin

text \<open>
  What an accepted proof shows, that it is accepted once, that replay digests keep their scopes
  apart, and how long a nonce is good for.
\<close>

section \<open>Digests\<close>

lemma length_big_endian64 [simp]: "length (big_endian64 n) = 8"
  by (simp add: big_endian64_def)

lemma SetBytes_append: "SetBytes (xs @ ys) = SetBytes xs * 256 ^ length ys + SetBytes ys"
proof (induction ys rule: rev_induct)
  case (snoc y ys)
  then show ?case by (simp add: SetBytes_snoc [of "xs @ ys" y, simplified] SetBytes_snoc algebra_simps)
qed (simp add: SetBytes_Nil)

lemma SetBytes_digits: "SetBytes (map (\<lambda>i. n div 256 ^ i mod 256) (rev [0..<k])) = n mod 256 ^ k"
proof (induction k)
  case (Suc k)
  have "n mod 256 ^ Suc k = 256 ^ k * (n div 256 ^ k mod 256) + n mod 256 ^ k"
    using mod_mult2_eq [of n "256 ^ k" 256] by (simp add: mult.commute)
  moreover have "SetBytes (map (\<lambda>i. n div 256 ^ i mod 256) (rev [0..<Suc k])) =
      SetBytes [n div 256 ^ k mod 256] * 256 ^ k + n mod 256 ^ k"
    using SetBytes_append [of "[n div 256 ^ k mod 256]" "map (\<lambda>i. n div 256 ^ i mod 256) (rev [0..<k])"] Suc by simp
  ultimately show ?case by (simp add: SetBytes_def)
qed (simp add: SetBytes_Nil)

lemma big_endian64_inject:
  assumes "m < 2 ^ 64" "n < 2 ^ 64"
  shows "big_endian64 m = big_endian64 n \<longleftrightarrow> m = n"
proof
  assume "big_endian64 m = big_endian64 n"
  then have "SetBytes (big_endian64 m) = SetBytes (big_endian64 n)" by simp
  then have "m mod 256 ^ 8 = n mod 256 ^ 8" unfolding big_endian64_def SetBytes_digits .
  with assms show "m = n" by simp
qed simp

lemma string_bytes_inject: "string_bytes s = string_bytes t \<longleftrightarrow> s = t"
  unfolding string_bytes_def by (metis inj_map_eq_map inj_of_char)

lemma length_string_bytes [simp]: "length (string_bytes s) = length s"
  by (simp add: string_bytes_def)

lemma digest_input_inject:
  assumes "length scope < 2 ^ 64" "length scope' < 2 ^ 64"
  shows "digest_input scope jti = digest_input scope' jti' \<longleftrightarrow> scope = scope' \<and> jti = jti'"
proof
  assume eq: "digest_input scope jti = digest_input scope' jti'"
  then have "big_endian64 (length scope) = big_endian64 (length scope')"
    and rest: "string_bytes scope @ string_bytes jti = string_bytes scope' @ string_bytes jti'"
    by (simp_all add: digest_input_def)
  then have "length scope = length scope'" using assms by (simp add: big_endian64_inject)
  with rest show "scope = scope' \<and> jti = jti'" by (simp add: string_bytes_inject)
qed simp

text \<open>
  A recorded identifier is scoped. Two digests that agree come from the same scope and the same
  identifier, unless they show two messages with one SHA-256; so no client, and no holder of a
  proof key, can use up an identifier another will send. The verifiers' namespaces keep their
  records apart in any case.
\<close>

theorem Digest_scoped:
  assumes "length scope < 2 ^ 64" "length scope' < 2 ^ 64" "Digest C scope jti = Digest C scope' jti'"
  shows "(scope = scope' \<and> jti = jti') \<or> (\<exists>m m'. m \<noteq> m' \<and> sha256 C m = sha256 C m')"
  using assms digest_input_inject [of scope scope' jti jti'] unfolding Digest_def by blast

lemma Digest_scoped_witness:
  "Digest (toy_crypto\<lparr>sha256 := id\<rparr>) ''ab'' ''c'' \<noteq> Digest (toy_crypto\<lparr>sha256 := id\<rparr>) ''a'' ''bc''"
proof
  assume eq: "Digest (toy_crypto\<lparr>sha256 := id\<rparr>) ''ab'' ''c'' = Digest (toy_crypto\<lparr>sha256 := id\<rparr>) ''a'' ''bc''"
  have "(''ab'' = ''a'' \<and> ''c'' = ''bc'') \<or> (\<exists>m m'. m \<noteq> m' \<and> sha256 (toy_crypto\<lparr>sha256 := id\<rparr>) m = sha256 (toy_crypto\<lparr>sha256 := id\<rparr>) m')"
    by (rule Digest_scoped [OF _ _ eq]) simp_all
  then show False by simp
qed

section \<open>What an accepted proof shows\<close>

lemma verifyProofClaims_Inr:
  assumes "verifyProofClaims C parse c req iat = Inr ()"
  shows "pcHTM c = pvMethod req"
    and "\<exists>u target. parse (pcHTU c) = Some u \<and> isAbsoluteHTTP (Some u) \<and>
      Some target \<in> set (pvURL req # pvAlternateURLs req) \<and> IsASCII (uHost target) \<and> URI target = URI u"
    and "checkProofTimes c req iat = Inr ()"
    and "pcATH c = (if pvAccessToken req = [] then [] else accessTokenHash C (pvAccessToken req))"
    and "pvRequiredNonce req \<noteq> [] \<longrightarrow> pcNonce c = pvRequiredNonce req"
proof -
  from assms obtain u where u: "parse (pcHTU c) = Some u" "isAbsoluteHTTP (Some u)" "namesTarget (URI u) req"
    and m: "pcHTM c = pvMethod req" and t: "checkProofTimes c req iat = Inr ()"
    and a: "(if pvAccessToken req \<noteq> [] then require (pcATH c = accessTokenHash C (pvAccessToken req)) ErrTokenHashMismatch
       else require (pcATH c = []) ErrTokenHashMismatch) = Inr ()"
    and n: "(if pvRequiredNonce req \<noteq> [] then require (pcNonce c = pvRequiredNonce req) ErrProofNonceMismatch
       else Inr ()) = Inr ()"
    by (auto simp: verifyProofClaims_def and_then_eq_Inr)
  from u(3) obtain target where "Some target \<in> set (pvURL req # pvAlternateURLs req)" "IsASCII (uHost target)"
    "URI target = URI u"
    unfolding namesTarget_def list_ex_iff by (auto split: option.splits)
  with u show "\<exists>u target. parse (pcHTU c) = Some u \<and> isAbsoluteHTTP (Some u) \<and>
      Some target \<in> set (pvURL req # pvAlternateURLs req) \<and> IsASCII (uHost target) \<and> URI target = URI u" by blast
  from a show "pcATH c = (if pvAccessToken req = [] then [] else accessTokenHash C (pvAccessToken req))"
    by (simp split: if_splits)
  from n show "pvRequiredNonce req \<noteq> [] \<longrightarrow> pcNonce c = pvRequiredNonce req" by (simp split: if_splits)
qed (use assms in \<open>auto simp: verifyProofClaims_def and_then_eq_Inr\<close>)

lemma checkProofTimes_Inr:
  assumes "0 \<le> pvMaxProofAge req" "pvMaxProofAge req < maxInt64"
  shows "checkProofTimes c req iat = Inr () \<longleftrightarrow>
    iat \<le> pvNow req + pvMaxClockSkew req \<and> pvNow req - pvMaxProofAge req \<le> iat \<and>
    (pcNBF c = 0 \<or> time_unix (pcNBF c) \<le> pvNow req + pvMaxClockSkew req) \<and>
    (pcEXP c = 0 \<or> pvNow req \<le> time_unix (pcEXP c) + pvMaxClockSkew req)"
proof -
  have "pvMaxProofAge req < time_sub (pvNow req) iat \<longleftrightarrow> pvMaxProofAge req < pvNow req - iat"
    using assms by (intro time_sub_gt) (simp_all add: int64_bounds)
  then show ?thesis by (auto simp: checkProofTimes_def Let_def)
qed

lemma verify_proof_Inr:
  assumes "verify_proof C parse req = Inr v"
  obtains compact jwk c where "ParseCompact C (pvProof req) = Inr compact"
    "TypeIs (hdType (cmHeader compact)) proofType" "hdJWK (cmHeader compact) = Some jwk"
    "Compact_Verify C compact (jkPub jwk) (hdAlgorithm (cmHeader compact)) = Inr ()"
    "parseProofClaims C (cmPayload compact) = Inr c"
    "verifyProofClaims C parse c req (time_unix (pcIAT c)) = Inr ()"
    "Thumbprint C jwk = Some (vpThumbprint v)" "vpIssuedAt v = time_unix (pcIAT c)"
    "vpNonce v = pcNonce c" "vpJTI v = pcJTI c" "0 < pvMaxProofAge req" "pvMethod req \<noteq> []"
    "\<forall>u \<in> set (pvURL req # pvAlternateURLs req). isAbsoluteHTTP u"
  using assms
  by (auto simp: verify_proof_def and_then_eq_Inr check_all_Inr Let_def ex_unit
      simp del: check_all.simps)

lemma dpop_Verify_proof: "dpop_Verify C parse req replay s = (Inr v, s') \<Longrightarrow> verify_proof C parse req = Inr v"
  by (auto simp: dpop_Verify_def split: sum.splits option.splits prod.splits)

section \<open>Created proofs\<close>

lemma decode_written_proof:
  assumes "pcNBF c = 0" "pcEXP c = 0" "minInt64 \<le> pcIAT c" "pcIAT c \<le> MaxNumericDate"
  shows "decode_struct proof_fields proof_dec proof_claims_zero (proof_claims_json c) = Some c"
    and "CheckFieldCase (leaves proof_fields) (proof_claims_json c)"
  using assms
  by (cases c; cases "pcATH c"; cases "pcNonce c";
      auto simp: proof_claims_json_def proof_fields_def proof_dec_def proof_claims_zero_def struct_field_def
        dec_date_def NumericDate_Parse_int CheckFieldCase_def leaves_def obj_members_def)+

lemma parse_written_proof:
  assumes "faithful_json C True (proof_claims_json c)" "pcNBF c = 0" "pcEXP c = 0"
    and "minInt64 \<le> pcIAT c" "pcIAT c \<le> MaxNumericDate" "pcJTI c \<noteq> []" "pcHTM c \<noteq> []" "pcHTU c \<noteq> []"
  shows "parseProofClaims C (json_marshal C True (proof_claims_json c)) = Inr c"
  using assms decode_written_proof [OF assms(2-5)] by (simp add: parseProofClaims_def faithful_json_def require_def)

lemma Thumbprint_of_MarshalJSON: "MarshalJSON k = Some j \<Longrightarrow> \<exists>t. Thumbprint C k = Some t"
  by (auto simp: MarshalJSON_def key_members_def Thumbprint_def thumbprint_text_def thumbprint_members_def
      split: public_key.splits option.splits prod.splits if_splits)

lemma ParseJWK_NewJWK:
  assumes "ParseJWK C j alg = Inr k" "NewJWK (jkPub k) alg = Inr k'"
  shows "k' = k"
  using assms unfolding ParseJWK_def parseJWK_Inr NewJWK_def by (auto simp: and_then_eq_Inr)

lemma CreateProof_Inr:
  assumes "CreateProof C req random = Inr proof"
  obtains sg u jwk jti where "prSigner req = Some sg" "prURL req = Some u" "HasNormalPath u" "IsASCII (uHost u)"
    "prMethod req \<noteq> []" "NewJWK (sgPublic sg) (prAlgorithm req) = Inr jwk" "proofJTI random = Inr jti" "length jti = 22"
    "Sign C (Some sg) (proof_header req jwk) (json_marshal C True (proof_claims_json (proof_claims_of C req u jti))) = Inr proof"
proof -
  have r: "length jti = 22" if "proofJTI random = Inr jti" for jti
    using that by (auto simp: proofJTI_def proofJTISize_def length_encode_raw split: option.splits if_splits)
  have m: "map_sum f (\<lambda>x. x) r = Inr x \<longleftrightarrow> r = Inr x" for f :: "'x \<Rightarrow> 'y" and r and x :: 'z
    by (cases r) simp_all
  from assms that r show thesis by (auto simp: CreateProof_def and_then_eq_Inr m)
qed

text \<open>
  The verifier asked about the very request a proof was created for: the method, a target of the
  same canonical URI, the same token, a time within the window, and no nonce or the proof's own.
\<close>

definition asks_about :: "ProofVerifyRequest \<Rightarrow> ProofRequest \<Rightarrow> url \<Rightarrow> string \<Rightarrow> bool" where
  "asks_about v req u proof \<longleftrightarrow>
     pvProof v = proof \<and> pvMethod v = prMethod req \<and>
     (\<exists>t. pvURL v = Some t \<and> IsASCII (uHost t) \<and> URI t = URI u) \<and>
     list_all isAbsoluteHTTP (pvURL v # pvAlternateURLs v) \<and> pvAccessToken v = prAccessToken req \<and>
     pvRequiredNonce v \<in> {[], prNonce req} \<and> pvNow v \<noteq> zero_time \<and> 0 < pvMaxProofAge v \<and> pvMaxProofAge v < maxInt64 \<and>
     time_unix (unix_seconds (prNow req)) \<le> pvNow v + pvMaxClockSkew v \<and>
     pvNow v - pvMaxProofAge v \<le> time_unix (unix_seconds (prNow req))"

text \<open>What is written and read on the way: the texts are faithful JSON, the URL reads back, the key can be published.\<close>

definition proof_transport :: "crypto \<Rightarrow> (string \<Rightarrow> url option) \<Rightarrow> ProofRequest \<Rightarrow> bytes option \<Rightarrow> signer \<Rightarrow> url \<Rightarrow> bool" where
  "proof_transport C parse req random sg u \<longleftrightarrow>
     genuine_signer C sg \<and> reads_back parse u \<and>
     (\<forall>jwk j. NewJWK (sgPublic sg) (prAlgorithm req) = Inr jwk \<longrightarrow> header_json (proof_header req jwk) = Some j \<longrightarrow>
        faithful_json C True j) \<and>
     (\<forall>jti. proofJTI random = Inr jti \<longrightarrow> faithful_json C True (proof_claims_json (proof_claims_of C req u jti))) \<and>
     (\<forall>x y. is_on_curve C p256 x y \<longrightarrow> x < 2 ^ 256 \<and> y < 2 ^ 256) \<and>
     (\<exists>j k. ParseJWK C j (prAlgorithm req) = Inr k \<and> jkPub k = sgPublic sg)"

lemma created_verifyProofClaims:
  assumes "asks_about v req u proof" "reads_back parse u" "HasNormalPath u" "IsASCII (uHost u)"
    and "LowerASCII (uScheme u) \<in> {''https'', ''http''}" "canonicalHost (uHost u) (LowerASCII (uScheme u)) \<noteq> []"
    and "prMethod req \<noteq> []"
  shows "verifyProofClaims C parse (proof_claims_of C req u jti) v (time_unix (unix_seconds (prNow req))) = Inr ()"
proof -
  obtain u' where u': "parse (URI u) = Some u'" "URI u' = URI u" "uOpaque u' = []"
    "uHost u' = canonicalHost (uHost u) (LowerASCII (uScheme u))" "uScheme u' = LowerASCII (uScheme u)"
    by (rule reads_back_URI [OF assms(2,3,5,6)]) blast
  let ?c = "proof_claims_of C req u jti"
  have "checkProofTimes ?c v (time_unix (unix_seconds (prNow req))) = Inr ()"
    using assms(1) by (subst checkProofTimes_Inr) (auto simp: asks_about_def proof_claims_of_def)
  moreover have "isAbsoluteHTTP (Some u') \<and> IsASCII (uHost u')"
    using u' assms(4-6) by (auto simp: isAbsoluteHTTP_def Let_def IsASCII_canonicalHost)
  moreover have "namesTarget (URI u') v" using assms(1) u'(2) by (auto simp: namesTarget_def asks_about_def)
  ultimately show ?thesis
    using assms(1) u'(1)
    by (auto simp: verifyProofClaims_def proof_claims_of_def asks_about_def require_def)
qed

lemma created_proof:
  assumes created: "CreateProof C req random = Inr proof"
    and sg: "prSigner req = Some sg" and u: "prURL req = Some u" and t: "proof_transport C parse req random sg u"
    and scheme: "LowerASCII (uScheme u) \<in> {''https'', ''http''}"
    and host: "canonicalHost (uHost u) (LowerASCII (uScheme u)) \<noteq> []"
    and v: "asks_about v req u proof"
    and range: "minInt64 \<le> unix_seconds (prNow req)" "unix_seconds (prNow req) \<le> MaxNumericDate"
    and fits: "int (length proof) \<le> DefaultMaxCompactBytes"
  obtains vp jwk where "verify_proof C parse v = Inr vp" "NewJWK (sgPublic sg) (prAlgorithm req) = Inr jwk"
    "Thumbprint C jwk = Some (vpThumbprint vp)"
    "vpIssuedAt vp = time_unix (unix_seconds (prNow req))" "vpNonce vp = prNonce req" "length (vpJTI vp) = 22"
proof -
  obtain jwk jti where n: "HasNormalPath u" "IsASCII (uHost u)" "prMethod req \<noteq> []"
    and jwk: "NewJWK (sgPublic sg) (prAlgorithm req) = Inr jwk" and jti: "proofJTI random = Inr jti" "length jti = 22"
    and signed: "Sign C (Some sg) (proof_header req jwk) (json_marshal C True (proof_claims_json (proof_claims_of C req u jti))) = Inr proof"
    by (rule CreateProof_Inr [OF created]) (use sg u in auto)
  let ?c = "proof_claims_of C req u jti" and ?h = "proof_header req jwk"
  from t obtain j k where k: "ParseJWK C j (prAlgorithm req) = Inr k" "jkPub k = sgPublic sg"
    and genuine: "genuine_signer C sg" and readback: "reads_back parse u"
    and hj: "\<And>j. header_json ?h = Some j \<Longrightarrow> faithful_json C True j" and cj: "faithful_json C True (proof_claims_json ?c)"
    and p256: "\<And>x y. is_on_curve C p256 x y \<Longrightarrow> x < 2 ^ 256 \<and> y < 2 ^ 256"
    using jwk jti(1) unfolding proof_transport_def by blast
  have "jwk = k" using ParseJWK_NewJWK [OF k(1)] jwk k(2) by simp
  then obtain j' where j': "MarshalJSON jwk = Some j'" "ParseJWK C j' (prAlgorithm req) = Inr jwk"
    using ParseJWK_written [OF p256 k(1)] by blast
  obtain th where th: "Thumbprint C jwk = Some th" using Thumbprint_of_MarshalJSON [OF j'(1)] by blast
  have pub: "jkPub jwk = sgPublic sg" using \<open>jwk = k\<close> k(2) by simp
  have payload: "list_all (\<lambda>b. b < 256) (json_marshal C True (proof_claims_json ?c))" using cj by (simp add: faithful_json_def)
  obtain c where c: "ParseCompactMax C proof DefaultMaxCompactBytes = Inr c" "cmHeader c = ?h"
    "cmPayload c = json_marshal C True (proof_claims_json ?c)" "Compact_Verify C c (sgPublic sg) (hdAlgorithm ?h) = Inr ()"
    by (rule signed_compact [OF genuine hj _ payload signed fits]) (use j' in \<open>auto simp: proof_header_def\<close>)
  have uri: "URI u \<noteq> []"
  proof -
    have "uOpaque u = []" using n(1) by (simp add: HasNormalPath_def)
    with scheme show ?thesis unfolding URI_def Let_def url_String_def by auto
  qed
  have claims: "parseProofClaims C (cmPayload c) = Inr ?c"
    unfolding c(3) by (rule parse_written_proof [OF cj])
      (use range n(3) jti uri in \<open>auto simp: proof_claims_of_def\<close>)
  have ok: "verifyProofClaims C parse ?c v (time_unix (pcIAT ?c)) = Inr ()"
    using created_verifyProofClaims [OF v readback n(1,2) scheme host n(3)] by (simp add: proof_claims_of_def)
  have compact: "ParseCompact C (pvProof v) = Inr c" using c(1) v by (simp add: ParseCompact_def asks_about_def)
  have sig: "Compact_Verify C c (jkPub jwk) (prAlgorithm req) = Inr ()" using c(4) by (simp add: pub proof_header_def)
  have header: "TypeIs (hdType ?h) proofType" "hdJWK ?h = Some jwk" "hdAlgorithm ?h = prAlgorithm req"
    by (simp_all add: proof_header_def TypeIs_def)
  have targets: "check_all (\<lambda>u. require (isAbsoluteHTTP u) (RequestInvalid ''url'')) (pvURL v # pvAlternateURLs v) = Inr ()"
    using v unfolding check_all_Inr asks_about_def by (auto simp: list_all_iff require_def)
  have ask: "pvMethod v \<noteq> []" "pvURL v \<noteq> None" "pvNow v \<noteq> zero_time" "0 < pvMaxProofAge v"
    using v n(3) by (auto simp: asks_about_def)
  have ip: "in_proof (Inr x) = Inr x" for x :: 'x by (simp add: in_proof_def)
  have rt: "require True e = Inr ()" for e :: 'x by (simp add: require_def)
  have "verify_proof C parse v =
      Inr \<lparr>vpThumbprint = th, vpIssuedAt = time_unix (pcIAT ?c), vpNonce = pcNonce ?c, vpJTI = pcJTI ?c\<rparr>"
    by (simp only: verify_proof_def rt ask not_False_eq_True and_then_Inr targets compact ip c(2) Let_def header
        of_option_simps sig claims ok th)
  with that jwk th jti show thesis by (simp add: proof_claims_of_def)
qed

text \<open>An example: a proof for a GET of \<^verbatim>\<open>https://a/\<close>.\<close>

definition example_url :: url where
  "example_url = \<lparr>uScheme = ''https'', uHasUser = False, uHost = ''a'', uPath = ''/'', uRawQuery = [],
     uForceQuery = False, uOpaque = [], uRawPath = [], uOmitHost = False\<rparr>"

definition example_proof_request :: ProofRequest where
  "example_proof_request = \<lparr>prSigner = Some example_signer, prAlgorithm = ES256, prMethod = ''GET'',
     prURL = Some example_url, prAccessToken = ''t'', prNonce = [], prNow = 0\<rparr>"

definition example_jwk :: JWK where
  "example_jwk = (case NewJWK (ECDSAKey p256 1 1) ES256 of Inr k \<Rightarrow> k)"

definition example_proof_claims :: proof_claims where
  "example_proof_claims = proof_claims_of (example_crypto (\<lambda>_. None)) example_proof_request example_url
     ''AAAAAAAAAAAAAAAAAAAAAA''"

definition proof_crypto :: crypto where
  "proof_crypto =
     example_crypto (\<lambda>bs. if bs = [104] then header_json (proof_header example_proof_request example_jwk)
       else Some (proof_claims_json example_proof_claims))
     \<lparr>json_marshal := (\<lambda>_ j. case j of JObj ((k, _) # _) \<Rightarrow> if k = ''alg'' then [104] else [112] | _ \<Rightarrow> []),
       asn1_signature := (\<lambda>_. Some ((1, 1), []))\<rparr>"

definition example_verify_request :: "string \<Rightarrow> ProofVerifyRequest" where
  "example_verify_request proof = \<lparr>pvProof = proof, pvMethod = ''GET'', pvURL = Some example_url, pvAlternateURLs = [],
     pvAccessToken = ''t'', pvRequiredNonce = [], pvNow = 0, pvMaxProofAge = second, pvMaxClockSkew = 0\<rparr>"

definition example_proof :: string where "example_proof = ''aA.cA.'' @ example_signature"

lemma example_steps:
  "URI example_url = ''https://a/''" "HasNormalPath example_url"
  "NewJWK (sgPublic example_signer) ES256 = Inr example_jwk"
  "proofJTI (Some (replicate 16 0)) = Inr ''AAAAAAAAAAAAAAAAAAAAAA''"
  "Sign proof_crypto (Some example_signer) (proof_header example_proof_request example_jwk) [112] = Inr example_proof"
  "is_ok (parseHeader proof_crypto [104])"
  by code_simp+

lemma json_marshal_proof_crypto: "json_marshal proof_crypto b (proof_claims_json c) = [112]"
  by (simp add: proof_crypto_def proof_claims_json_def)

lemma example_proof_created:
  "CreateProof proof_crypto example_proof_request (Some (replicate 16 0)) = Inr example_proof"
proof -
  have "prSigner example_proof_request = Some example_signer" "prURL example_proof_request = Some example_url"
    "prAlgorithm example_proof_request = ES256" "prMethod example_proof_request \<noteq> []"
    "prNow example_proof_request \<noteq> zero_time"
    by (simp_all add: example_proof_request_def zero_time_def second_def)
  moreover have "IsASCII (uHost example_url)" by (simp add: example_url_def IsASCII_def)
  ultimately show ?thesis
    by (simp add: CreateProof_def require_def example_steps json_marshal_proof_crypto)
qed

lemma example_url_canonical:
  "EscapedPath example_url = canonical_path example_url" "LowerASCII (uScheme example_url) = uScheme example_url"
  "canonicalHost (uHost example_url) (uScheme example_url) = uHost example_url"
  "isAbsoluteHTTP (Some example_url)" "IsASCII (uHost example_url)"
  by code_simp+

lemma example_transport:
  "proof_transport proof_crypto (\<lambda>_. Some example_url) example_proof_request (Some (replicate 16 0)) example_signer example_url"
proof -
  have "genuine_signer proof_crypto example_signer"
    by (rule example_signer_genuine) (simp_all add: proof_crypto_def example_crypto_def)
  moreover have "reads_back (\<lambda>_. Some example_url) example_url"
  proof -
    show ?thesis by (simp add: reads_back_def example_url_canonical) (simp add: example_url_def)
  qed
  moreover have "faithful_json proof_crypto True j"
    if "NewJWK (sgPublic example_signer) (prAlgorithm example_proof_request) = Inr jwk"
      "header_json (proof_header example_proof_request jwk) = Some j" for jwk j
  proof -
    have jwk: "jwk = example_jwk" using that(1) example_steps(3) by (simp add: example_proof_request_def)
    then have "json_marshal proof_crypto True j = [104]"
      using that(2) by (auto simp: header_json_def Let_def proof_crypto_def split: option.splits)
    with that(2) jwk show ?thesis
      by (simp add: faithful_json_def) (simp add: proof_crypto_def example_crypto_def DecodesLosslessly_def utf8_len_def)
  qed
  moreover have "faithful_json proof_crypto True (proof_claims_json (proof_claims_of proof_crypto example_proof_request example_url jti))"
    if "proofJTI (Some (replicate 16 0)) = Inr jti" for jti
  proof -
    have "jti = ''AAAAAAAAAAAAAAAAAAAAAA''" using that example_steps(4) by simp
    then have "proof_claims_of proof_crypto example_proof_request example_url jti = example_proof_claims"
      by (simp add: proof_claims_of_def example_proof_claims_def accessTokenHash_def proof_crypto_def example_crypto_def)
    then show ?thesis
      by (simp add: faithful_json_def json_marshal_proof_crypto)
        (simp add: proof_crypto_def example_crypto_def DecodesLosslessly_def utf8_len_def)
  qed
  moreover have "\<forall>x y. is_on_curve proof_crypto p256 x y \<longrightarrow> x < 2 ^ 256 \<and> y < 2 ^ 256"
    by (simp add: proof_crypto_def example_crypto_def)
  moreover have "\<exists>j k. ParseJWK proof_crypto j (prAlgorithm example_proof_request) = Inr k \<and> jkPub k = sgPublic example_signer"
  proof -
    have "and_then (ParseJWK proof_crypto example_key ES256) (\<lambda>k. Inr (jkPub k)) = Inr (ECDSAKey p256 1 1)" by code_simp
    then show ?thesis by (auto simp: and_then_eq_Inr example_proof_request_def example_signer_def)
  qed
  ultimately show ?thesis unfolding proof_transport_def by blast
qed

text \<open>What a verified proof shows of the request it came with.\<close>

definition proof_binds :: "crypto \<Rightarrow> (string \<Rightarrow> url option) \<Rightarrow> ProofVerifyRequest \<Rightarrow> VerifiedProof \<Rightarrow> bool" where
  "proof_binds C parse req v \<longleftrightarrow> (\<exists>compact jwk c u target. ParseCompact C (pvProof req) = Inr compact \<and>
    TypeIs (hdType (cmHeader compact)) proofType \<and> hdJWK (cmHeader compact) = Some jwk \<and>
    verify_signature C (hdAlgorithm (cmHeader compact)) (jkPub jwk) (cmSigningInput compact) (cmSignature compact) \<and>
    Thumbprint C jwk = Some (vpThumbprint v) \<and>
    parseProofClaims C (cmPayload compact) = Inr c \<and> pcHTM c = pvMethod req \<and>
    parse (pcHTU c) = Some u \<and> Some target \<in> set (pvURL req # pvAlternateURLs req) \<and> IsASCII (uHost target) \<and>
    uHost target \<noteq> [] \<and> URI target = URI u \<and> vpIssuedAt v = time_unix (pcIAT c) \<and>
    pvNow req - pvMaxProofAge req \<le> vpIssuedAt v \<and> vpIssuedAt v \<le> pvNow req + pvMaxClockSkew req \<and>
    pcATH c = (if pvAccessToken req = [] then [] else accessTokenHash C (pvAccessToken req)) \<and>
    (pvRequiredNonce req \<noteq> [] \<longrightarrow> vpNonce v = pvRequiredNonce req))"

lemma verify_proof_binds:
  assumes "verify_proof C parse req = Inr v" "pvMaxProofAge req < maxInt64"
  shows "proof_binds C parse req v"
proof -
  obtain compact jwk c where p: "ParseCompact C (pvProof req) = Inr compact"
    "TypeIs (hdType (cmHeader compact)) proofType" "hdJWK (cmHeader compact) = Some jwk"
    and sig: "Compact_Verify C compact (jkPub jwk) (hdAlgorithm (cmHeader compact)) = Inr ()"
    and c: "parseProofClaims C (cmPayload compact) = Inr c"
    and claims: "verifyProofClaims C parse c req (time_unix (pcIAT c)) = Inr ()"
    and v: "Thumbprint C jwk = Some (vpThumbprint v)" "vpIssuedAt v = time_unix (pcIAT c)" "vpNonce v = pcNonce c"
    and age: "0 < pvMaxProofAge req" and abs: "\<forall>u \<in> set (pvURL req # pvAlternateURLs req). isAbsoluteHTTP u"
    by (rule verify_proof_Inr [OF assms(1)]) blast
  note f = verifyProofClaims_Inr [OF claims]
  from f(2) obtain u target where u: "parse (pcHTU c) = Some u" "IsASCII (uHost target)" "URI target = URI u"
    and target: "Some target \<in> set (pvURL req # pvAlternateURLs req)" by blast
  from abs target have "isAbsoluteHTTP (Some target)" by blast
  then have h: "uHost target \<noteq> []" by (simp add: isAbsoluteHTTP_def)
  from f(3) age assms(2) have t: "vpIssuedAt v \<le> pvNow req + pvMaxClockSkew req" "pvNow req - pvMaxProofAge req \<le> vpIssuedAt v"
    by (simp_all add: checkProofTimes_Inr v(2))
  from sig have s: "verify_signature C (hdAlgorithm (cmHeader compact)) (jkPub jwk) (cmSigningInput compact) (cmSignature compact)"
    by (simp add: Compact_Verify_def)
  from f(5) have n: "pvRequiredNonce req \<noteq> [] \<longrightarrow> vpNonce v = pvRequiredNonce req" by (simp only: v(3))
  show ?thesis unfolding proof_binds_def
    by (intro exI conjI) (rule p s v c f(1) u target h t f(4) n)+
qed

text \<open>
  C13. What an accepted DPoP proof shows: it was signed by the key it carries, whose thumbprint is
  the one handed on, for this method and, up to canonical form, one of these URLs with an ASCII
  host, within the age and skew allowed, for the access token presented with it (and for none, when
  none was), and with the nonce required.
\<close>

theorem proof_sound:
  assumes "dpop_Verify C parse req replay s = (Inr v, s')" "pvMaxProofAge req < maxInt64"
  shows "\<exists>compact jwk c u target. ParseCompact C (pvProof req) = Inr compact \<and>
    TypeIs (hdType (cmHeader compact)) proofType \<and> hdJWK (cmHeader compact) = Some jwk \<and>
    verify_signature C (hdAlgorithm (cmHeader compact)) (jkPub jwk) (cmSigningInput compact) (cmSignature compact) \<and>
    Thumbprint C jwk = Some (vpThumbprint v) \<and>
    parseProofClaims C (cmPayload compact) = Inr c \<and> pcHTM c = pvMethod req \<and>
    parse (pcHTU c) = Some u \<and> Some target \<in> set (pvURL req # pvAlternateURLs req) \<and> IsASCII (uHost target) \<and>
    uHost target \<noteq> [] \<and> URI target = URI u \<and> vpIssuedAt v = time_unix (pcIAT c) \<and>
    pvNow req - pvMaxProofAge req \<le> vpIssuedAt v \<and> vpIssuedAt v \<le> pvNow req + pvMaxClockSkew req \<and>
    pcATH c = (if pvAccessToken req = [] then [] else accessTokenHash C (pvAccessToken req)) \<and>
    (pvRequiredNonce req \<noteq> [] \<longrightarrow> vpNonce v = pvRequiredNonce req)"
  using verify_proof_binds [OF dpop_Verify_proof [OF assms(1)] assms(2)] unfolding proof_binds_def .

lemma example_asks:
  "asks_about (example_verify_request example_proof) example_proof_request example_url example_proof"
  by (simp add: asks_about_def example_verify_request_def example_proof_request_def example_url_canonical
      zero_time_def second_def unix_seconds_def time_unix_def int64_bounds)

lemma example_premises:
  "LowerASCII (uScheme example_url) \<in> {''https'', ''http''}"
  "canonicalHost (uHost example_url) (LowerASCII (uScheme example_url)) \<noteq> []"
  "minInt64 \<le> unix_seconds (prNow example_proof_request)" "unix_seconds (prNow example_proof_request) \<le> MaxNumericDate"
  "int (length example_proof) \<le> DefaultMaxCompactBytes"
  "prSigner example_proof_request = Some example_signer" "prURL example_proof_request = Some example_url"
  unfolding example_url_canonical
  by (simp_all add: example_proof_request_def unix_seconds_def int64_bounds MaxNumericDate_def DefaultMaxCompactBytes_def
      example_proof_def example_signature_def) (simp_all add: example_url_def)

lemma example_verified:
  obtains vp where
    "verify_proof proof_crypto (\<lambda>_. Some example_url) (example_verify_request example_proof) = Inr vp" "vpIssuedAt vp = 0"
  by (rule created_proof [OF example_proof_created example_premises(6,7) example_transport example_premises(1,2) example_asks
        example_premises(3-5)])
    (simp add: example_proof_request_def unix_seconds_def time_unix_def)

lemma proof_sound_witness:
  "\<exists>v. - second \<le> vpIssuedAt v \<and> vpIssuedAt v \<le> 0 \<and>
     fst (dpop_Verify proof_crypto (\<lambda>_. Some example_url) (example_verify_request example_proof)
       (None :: (unit, unit) replay_checker option) ()) = Inr v"
proof -
  obtain v where v: "verify_proof proof_crypto (\<lambda>_. Some example_url) (example_verify_request example_proof) = Inr v"
    by (rule example_verified)
  then have d: "dpop_Verify proof_crypto (\<lambda>_. Some example_url) (example_verify_request example_proof)
      (None :: (unit, unit) replay_checker option) () = (Inr v, ())"
    by (simp add: dpop_Verify_def)
  have "vpIssuedAt v \<le> 0" "- second \<le> vpIssuedAt v"
    using proof_sound [OF d] by (auto simp: example_verify_request_def int64_bounds second_def)
  with d show ?thesis by auto
qed

text \<open>
  C35. A created proof is accepted where it was meant to be: the verifier of the request it was
  created for, asked within the proof's window, accepts it, and hands on the thumbprint of the
  signer's key, the time and the nonce it was created with.
\<close>

theorem created_proof_verifies:
  assumes "CreateProof C req random = Inr proof" "prSigner req = Some sg" "prURL req = Some u"
    and "proof_transport C parse req random sg u"
    and "LowerASCII (uScheme u) \<in> {''https'', ''http''}" "canonicalHost (uHost u) (LowerASCII (uScheme u)) \<noteq> []"
    and "asks_about v req u proof"
    and "minInt64 \<le> unix_seconds (prNow req)" "unix_seconds (prNow req) \<le> MaxNumericDate"
    and "int (length proof) \<le> DefaultMaxCompactBytes"
  shows "\<exists>vp jwk. dpop_Verify C parse v (None :: ('e, 's) replay_checker option) s = (Inr vp, s) \<and>
    NewJWK (sgPublic sg) (prAlgorithm req) = Inr jwk \<and> Thumbprint C jwk = Some (vpThumbprint vp) \<and>
    vpIssuedAt vp = time_unix (unix_seconds (prNow req)) \<and> vpNonce vp = prNonce req"
  by (rule created_proof [OF assms]) (auto simp: dpop_Verify_def)

lemma created_proof_verifies_witness:
  "\<exists>vp. dpop_Verify proof_crypto (\<lambda>_. Some example_url) (example_verify_request example_proof)
     (None :: (unit, unit) replay_checker option) () = (Inr vp, ()) \<and> vpNonce vp = []"
  using created_proof_verifies [OF example_proof_created example_premises(6,7) example_transport example_premises(1,2)
      example_asks example_premises(3-5), of "()"]
  by (auto simp: example_proof_request_def)

section \<open>Replay\<close>

text \<open>
  A server's proof verifications over the replay store it shares with everything else that records
  uses in it.
\<close>

datatype proof_op = VerifyProof ProofVerifyRequest | RecordUse ReplayUse

definition proof_step :: "crypto \<Rightarrow> (string \<Rightarrow> url option) \<Rightarrow> proof_op \<Rightarrow> ReplayStore
    \<Rightarrow> (dpop_error + VerifiedProof) option \<times> ReplayStore" where
  "proof_step C parse op s =
     (case op of
        VerifyProof req \<Rightarrow> (case dpop_Verify C parse req (Some (server_dpop_replay C)) s of (r, s') \<Rightarrow> (Some r, s'))
      | RecordUse use \<Rightarrow> (None, snd (UseOnce use s)))"

definition proof_uses :: "crypto \<Rightarrow> (string \<Rightarrow> url option) \<Rightarrow> ReplayStore \<Rightarrow> proof_op \<Rightarrow> (bytes \<times> string) option" where
  "proof_uses C parse s op =
     (case fst (proof_step C parse op s) of Some (Inr v) \<Rightarrow> Some (vpThumbprint v, vpJTI v) | _ \<Rightarrow> None)"

definition proof_spent :: "crypto \<Rightarrow> ReplayStore \<Rightarrow> bytes \<times> string \<Rightarrow> bool" where
  "proof_spent C s k = s serverDPoPReplayNamespace (Digest C (thumbprint_String (fst k)) (snd k))"

lemma UseOnce_spends: "snd (UseOnce use s) ns d \<longleftrightarrow> s ns d \<or> (ruNamespace use = ns \<and> ruDigest use = d)"
  by (auto simp: UseOnce_def)

lemma dpop_Verify_replay:
  "dpop_Verify C parse req (Some (server_dpop_replay C)) s = (r, s') \<Longrightarrow>
     (case r of Inl _ \<Rightarrow> s' = s
      | Inr v \<Rightarrow> \<not> proof_spent C s (vpThumbprint v, vpJTI v) \<and> proof_spent C s' (vpThumbprint v, vpJTI v) \<and>
          (\<forall>k. proof_spent C s k \<longrightarrow> proof_spent C s' k))"
  by (auto simp: dpop_Verify_def server_dpop_replay_def UseOnce_def proof_spent_def split: sum.splits if_splits)

interpretation server_proofs: single_use "proof_step C parse" "proof_uses C parse" "proof_spent C" for C parse
proof
  fix s :: ReplayStore and op k
  show "\<not> proof_spent C s k" if u: "proof_uses C parse s op = Some k"
  proof (cases op)
    case (VerifyProof req)
    obtain r s' where d: "dpop_Verify C parse req (Some (server_dpop_replay C)) s = (r, s')" by fastforce
    with u dpop_Verify_replay [OF d] show ?thesis
      by (auto simp: proof_uses_def proof_step_def VerifyProof split: sum.splits)
  qed (use u in \<open>simp add: proof_uses_def proof_step_def\<close>)
  show "proof_spent C (snd (proof_step C parse op s)) k" if u: "proof_uses C parse s op = Some k"
  proof (cases op)
    case (VerifyProof req)
    obtain r s' where d: "dpop_Verify C parse req (Some (server_dpop_replay C)) s = (r, s')" by fastforce
    with u dpop_Verify_replay [OF d] show ?thesis
      by (auto simp: proof_uses_def proof_step_def VerifyProof split: sum.splits)
  qed (use u in \<open>simp add: proof_uses_def proof_step_def\<close>)
  show "proof_spent C (snd (proof_step C parse op s)) k" if s: "proof_spent C s k"
  proof (cases op)
    case (VerifyProof req)
    obtain r s' where d: "dpop_Verify C parse req (Some (server_dpop_replay C)) s = (r, s')" by fastforce
    with s dpop_Verify_replay [OF d] show ?thesis
      by (cases k) (auto simp: proof_step_def VerifyProof split: sum.splits)
  next
    case (RecordUse use)
    with s show ?thesis by (simp add: proof_step_def proof_spent_def UseOnce_spends)
  qed
qed

text \<open>
  C14. A DPoP proof is accepted once. Whatever a server verifies and whatever else is recorded in
  the replay store it shares, in any order, no two accepted proofs have the same key and identifier;
  and a proof refused for any reason records nothing.
\<close>

theorem proof_accepted_once:
  "distinct (consumed (proof_step C parse) (proof_uses C parse) ops s) \<and>
   (fst (dpop_Verify C parse req (Some (server_dpop_replay C)) s) = Inl e \<longrightarrow>
      snd (dpop_Verify C parse req (Some (server_dpop_replay C)) s) = s)"
proof
  show "distinct (consumed (proof_step C parse) (proof_uses C parse) ops s)" by (rule server_proofs.consumed_distinct)
  obtain r s' where d: "dpop_Verify C parse req (Some (server_dpop_replay C)) s = (r, s')" by fastforce
  then show "fst (dpop_Verify C parse req (Some (server_dpop_replay C)) s) = Inl e \<longrightarrow>
      snd (dpop_Verify C parse req (Some (server_dpop_replay C)) s) = s"
    using dpop_Verify_replay [OF d] by auto
qed

lemma proof_accepted_once_witness:
  "snd (dpop_Verify proof_crypto (\<lambda>_. None) (example_verify_request ''x'') (Some (server_dpop_replay proof_crypto)) NewReplayStore)
     = NewReplayStore"
proof -
  have "\<not> is_ok (ParseCompact proof_crypto ''x'')" by code_simp
  then obtain e where e: "ParseCompact proof_crypto ''x'' = Inl e"
    by (cases "ParseCompact proof_crypto ''x''") auto
  have "\<exists>e'. verify_proof proof_crypto (\<lambda>_. None) (example_verify_request ''x'') = Inl e'"
    by (simp add: verify_proof_def example_verify_request_def require_def in_proof_def e)
  then obtain e' where "fst (dpop_Verify proof_crypto (\<lambda>_. None) (example_verify_request ''x'')
      (Some (server_dpop_replay proof_crypto)) NewReplayStore) = Inl e'"
    by (auto simp: dpop_Verify_def)
  with proof_accepted_once [of proof_crypto "\<lambda>_. None" "[]" NewReplayStore "example_verify_request ''x''" e']
  show ?thesis by blast
qed

end
