(* ===== verification/Resource_Accept.thy ===== *)
theory Resource_Accept
  imports Resource_Properties Dpop_Properties
begin

text \<open>
  What an accepted request guarantees and what a refused one may write, over any dependencies that
  keep their contracts; and the in-memory stores as such dependencies.
\<close>

section \<open>Accepted requests\<close>

lemma resource_Verify_Inr:
  assumes "resource_Verify v random req now (r, s) = (Inr a, rs')"
  obtains usedDPoP dpopProof raw cred resolved kind subject clientSubject nn s0 rs1
  where "parseAuthorization req = (usedDPoP, Inr (dpopProof, raw))"
    "decide v req usedDPoP dpopProof raw now s = (Inr (cred, resolved, kind, subject, clientSubject), s0)"
    "(case cred of by_proof proof \<Rightarrow> consumeDPoPProof v random proof now | by_certificate _ \<Rightarrow> liftS (Inr ())) (r, s0) = (Inr (), rs1)"
    "next_nonce v random cred now rs1 = (Inr nn, rs')"
    "a = context_of resolved kind subject clientSubject nn usedDPoP"
proof -
  obtain usedDPoP parsed where p: "parseAuthorization req = (usedDPoP, parsed)" by fastforce
  with assms obtain dpopProof raw where pr: "parsed = Inr (dpopProof, raw)"
    and v: "verify v random req usedDPoP dpopProof raw now (r, s) = (Inr a, rs')"
    by (cases parsed) (auto simp: resource_Verify_def)
  from v obtain d rs0 where "on_snd (decide v req usedDPoP dpopProof raw now) (r, s) = (Inr d, rs0)"
    and rest: "(\<lambda>(cred, resolved, kind, subject, clientSubject).
     bindS (case cred of by_proof proof \<Rightarrow> consumeDPoPProof v random proof now | by_certificate _ \<Rightarrow> liftS (Inr ())) (\<lambda>_.
     bindS (next_nonce v random cred now) (\<lambda>nextNonce.
     liftS (Inr (context_of resolved kind subject clientSubject nextNonce usedDPoP))))) d rs0 = (Inr a, rs')"
    unfolding verify_def bindS_Inr [of "on_snd _"] by blast
  then obtain s0 where d: "decide v req usedDPoP dpopProof raw now s = (Inr d, s0)" "rs0 = (r, s0)"
    by (auto simp: on_snd_eq)
  obtain cred resolved kind subject clientSubject where dd: "d = (cred, resolved, kind, subject, clientSubject)"
    by (cases d) auto
  from rest obtain rs1 nn where
    "(case cred of by_proof proof \<Rightarrow> consumeDPoPProof v random proof now | by_certificate _ \<Rightarrow> liftS (Inr ())) rs0 = (Inr (), rs1)"
    "next_nonce v random cred now rs1 = (Inr nn, rs')" "a = context_of resolved kind subject clientSubject nn usedDPoP"
    unfolding dd prod.case bindS_Inr liftS_eq by auto
  with p pr d dd that show thesis by simp
qed

lemma resolveCredential_kind:
  "resolveCredential v req targets dpopProof raw usedDPoP now = Inr cred \<Longrightarrow>
     usedDPoP = (credential_kind cred = SenderConstrainDPoP)"
  by (auto simp: resolveCredential_def split: if_splits sum.splits option.splits)

lemma requestTargets_covered:
  assumes "requestTargets v req = Inr targets" "t \<in> set targets"
  shows "\<exists>ru \<in> set (vfResourceURLs v). covers ru t"
proof (cases "vqURL req")
  case (Some u)
  with assms show ?thesis
    by (auto simp: requestTargets_def explicitTarget_def list_ex_iff split: if_splits)
next
  case None
  with assms obtain ru where "ru \<in> set (vfResourceURLs v)" "target_at v (vqRequestPath req) ru = Some t"
    by (auto simp: requestTargets_def pathTargets_def Let_def List.map_filter_def split: if_splits)
  then show ?thesis by (auto simp: target_at_def Let_def split: option.splits if_splits)
qed

text \<open>What binds a token to the request that presents it.\<close>

definition bound_by_proof :: "'s Verifier \<Rightarrow> VerifyRequest \<Rightarrow> url list \<Rightarrow> string \<Rightarrow> string \<Rightarrow> time \<Rightarrow> ResolvedAccessToken \<Rightarrow> bool" where
  "bound_by_proof v req targets dpopProof raw now resolved \<longleftrightarrow>
     raSenderConstrain resolved = SenderConstrainDPoP \<and>
     (\<exists>p. proof_binds (vfCrypto v) (vfParse v) (proof_request v req targets dpopProof raw now) p \<and>
        raThumbprint resolved = thumbprint_String (vpThumbprint p))"

definition bound_by_certificate :: "'s Verifier \<Rightarrow> VerifyRequest \<Rightarrow> ResolvedAccessToken \<Rightarrow> bool" where
  "bound_by_certificate v req resolved \<longleftrightarrow>
     raSenderConstrain resolved = SenderConstrainMTLS \<and>
     (\<exists>cert. vqPeerCertificate req = Some cert \<and> raThumbprint resolved = mtls_Thumbprint (vfCrypto v) cert)"

lemma bound_by_credential:
  assumes "resolveCredential v req targets dpopProof raw usedDPoP now = Inr cred" "checkBinding v resolved cred now = Inr ()"
    and "rlMaxDPoPProofAge (rcLimits (vfConfig v)) < maxInt64"
  shows "if usedDPoP then bound_by_proof v req targets dpopProof raw now resolved else bound_by_certificate v req resolved"
proof -
  from assms(2) have b: "raSenderConstrain resolved = credential_kind cred" "presented_thumbprint cred \<noteq> []"
    "raThumbprint resolved = presented_thumbprint cred"
    by (auto simp: checkBinding_def and_then_eq_Inr Let_def)
  show ?thesis
  proof (cases cred)
    case (by_proof p)
    with assms(1) have u: "usedDPoP" "verify_proof (vfCrypto v) (vfParse v) (proof_request v req targets dpopProof raw now) = Inr p"
      by (auto simp: resolveCredential_def split: if_splits sum.splits option.splits)
    have "proof_binds (vfCrypto v) (vfParse v) (proof_request v req targets dpopProof raw now) p"
      by (rule verify_proof_binds [OF u(2)]) (simp add: proof_request_def assms(3))
    with b u by_proof show ?thesis by (auto simp: bound_by_proof_def)
  next
    case (by_certificate t)
    with assms(1) b show ?thesis
      by (auto simp: resolveCredential_def bound_by_certificate_def split: if_splits sum.splits option.splits)
  qed
qed

text \<open>
  C4. Every request the resource server accepts was for one of its own URLs, with a token its
  resolver knows, that has not expired, that is bound to the credential presented with it (the key
  of a proof made for this method, address and token, or the connection's certificate) and that is
  not revoked, neither itself nor any grant it names; and what the handler is told is the token's.
\<close>

theorem accepted_request_sound:
  assumes "resource_contract v revoked" "resource_Verify v random req now (r, s) = (Inr a, rs')"
    and "rlMaxDPoPProofAge (rcLimits (vfConfig v)) < maxInt64"
  shows "\<exists>dpopProof raw targets resolved ks.
    parseAuthorization req = (auUsedDPoP a, Inr (dpopProof, raw)) \<and> requestTargets v req = Inr targets \<and>
    (\<forall>t \<in> set targets. \<exists>ru \<in> set (vfResourceURLs v). covers ru t) \<and>
    rdAccessTokens (vfDeps v) \<lparr>rqRaw = raw, rqNow = now, rqMaxClockSkew = vf_skew v\<rparr> s = (Inr resolved, s) \<and>
    now \<le> raExpiresAt resolved + vf_skew v \<and>
    (if auUsedDPoP a then bound_by_proof v req targets dpopProof raw now resolved
     else bound_by_certificate v req resolved) \<and>
    grantRevocationKeys (raIssuer resolved) (raClaims resolved) = Some ks \<and>
    (\<forall>k \<in> set (raKey resolved # ks). \<not> revoked s k) \<and>
    a = context_of resolved (auSubjectKind a) (auInternalSubject a) (auClientSubject a) (auNextDPoPNonce a) (auUsedDPoP a)"
proof -
  obtain usedDPoP dpopProof raw cred resolved kind subject clientSubject nn s0
    where p: "parseAuthorization req = (usedDPoP, Inr (dpopProof, raw))"
    and d: "decide v req usedDPoP dpopProof raw now s = (Inr (cred, resolved, kind, subject, clientSubject), s0)"
    and a: "a = context_of resolved kind subject clientSubject nn usedDPoP"
    by (rule resource_Verify_Inr [OF assms(2)]) blast
  obtain targets where t: "requestTargets v req = Inr targets"
    and c: "resolveCredential v req targets dpopProof raw usedDPoP now = Inr cred"
    and res: "rdAccessTokens (vfDeps v) \<lparr>rqRaw = raw, rqNow = now, rqMaxClockSkew = vf_skew v\<rparr> s = (Inr resolved, s)"
    and b: "checkBinding v resolved cred now = Inr ()" and n: "checkNotRevoked v resolved s = (Inr (), s)"
    by (rule resource_contract.decide_Inr [OF assms(1) d]) blast
  from revocation_contract.checkNotRevoked_Inr [OF resource_contract.axioms(1) [OF assms(1)] n] obtain ks
    where ks: "grantRevocationKeys (raIssuer resolved) (raClaims resolved) = Some ks"
      "\<forall>k \<in> set (raKey resolved # ks). \<not> revoked s k" by blast
  have exp: "now \<le> raExpiresAt resolved + vf_skew v"
    using b by (auto simp: checkBinding_def and_then_eq_Inr Let_def)
  have u: "usedDPoP = auUsedDPoP a" and ctx: "a = context_of resolved (auSubjectKind a) (auInternalSubject a)
      (auClientSubject a) (auNextDPoPNonce a) (auUsedDPoP a)"
    by (simp_all add: a context_of_def)
  have cov: "\<forall>t \<in> set targets. \<exists>ru \<in> set (vfResourceURLs v). covers ru t"
    using requestTargets_covered [OF t] by blast
  show ?thesis
    by (intro exI conjI) (rule p [unfolded u] t cov res exp bound_by_credential [OF c b assms(3), unfolded u] ks ctx)+
qed

section \<open>What a request may write\<close>

lemma verify_state:
  assumes "resource_contract v revoked" "snd (resource_Verify v random req now (r, s)) \<noteq> (r, s)"
  obtains usedDPoP dpopProof raw p resolved kind subject clientSubject
  where "parseAuthorization req = (usedDPoP, Inr (dpopProof, raw))"
    "decide v req usedDPoP dpopProof raw now s = (Inr (by_proof p, resolved, kind, subject, clientSubject), s)"
proof -
  obtain usedDPoP parsed where p: "parseAuthorization req = (usedDPoP, parsed)" by fastforce
  with assms(2) obtain dpopProof raw where pr: "parsed = Inr (dpopProof, raw)"
    and v: "snd (verify v random req usedDPoP dpopProof raw now (r, s)) \<noteq> (r, s)"
    by (cases parsed) (auto simp: resource_Verify_def catchS_def liftS_def split: prod.splits sum.splits)
  obtain d s0 where d: "decide v req usedDPoP dpopProof raw now s = (d, s0)" by fastforce
  have s0: "s0 = s" by (rule reads_onlyD [OF resource_contract.reads_decide [OF assms(1)] d])
  from v d s0 obtain cred resolved kind subject clientSubject
    where dd: "d = Inr (cred, resolved, kind, subject, clientSubject)"
    by (cases d) (auto simp: verify_def bindS_def on_snd_def)
  have "cred = by_certificate t \<Longrightarrow> False" for t
    using v d s0 dd by (auto simp: verify_def bindS_def on_snd_def liftS_def next_nonce_def split: option.splits)
  then obtain pf where "cred = by_proof pf" by (cases cred) auto
  with p pr d dd s0 that show thesis by simp
qed

text \<open>
  C37. A request writes something, a nonce or a replay record, only once everything else about it has
  been checked: it carries a proof that verifies and a token that is known, bound to the key of that
  proof, current and not revoked. Nobody without such a token fills the stores.
\<close>

theorem only_valid_tokens_write:
  assumes "resource_contract v revoked" "snd (resource_Verify v random req now (r, s)) \<noteq> (r, s)"
  shows "\<exists>dpopProof raw targets p resolved ks.
    parseAuthorization req = (True, Inr (dpopProof, raw)) \<and> requestTargets v req = Inr targets \<and>
    verify_proof (vfCrypto v) (vfParse v) (proof_request v req targets dpopProof raw now) = Inr p \<and>
    rdAccessTokens (vfDeps v) \<lparr>rqRaw = raw, rqNow = now, rqMaxClockSkew = vf_skew v\<rparr> s = (Inr resolved, s) \<and>
    raSenderConstrain resolved = SenderConstrainDPoP \<and> raThumbprint resolved = thumbprint_String (vpThumbprint p) \<and>
    now \<le> raExpiresAt resolved + vf_skew v \<and>
    grantRevocationKeys (raIssuer resolved) (raClaims resolved) = Some ks \<and>
    (\<forall>k \<in> set (raKey resolved # ks). \<not> revoked s k)"
proof -
  obtain usedDPoP dpopProof raw p resolved kind subject clientSubject
    where pa: "parseAuthorization req = (usedDPoP, Inr (dpopProof, raw))"
    and d: "decide v req usedDPoP dpopProof raw now s = (Inr (by_proof p, resolved, kind, subject, clientSubject), s)"
    by (rule verify_state [OF assms])
  obtain targets where t: "requestTargets v req = Inr targets"
    and c: "resolveCredential v req targets dpopProof raw usedDPoP now = Inr (by_proof p)"
    and res: "rdAccessTokens (vfDeps v) \<lparr>rqRaw = raw, rqNow = now, rqMaxClockSkew = vf_skew v\<rparr> s = (Inr resolved, s)"
    and b: "checkBinding v resolved (by_proof p) now = Inr ()" and n: "checkNotRevoked v resolved s = (Inr (), s)"
    by (rule resource_contract.decide_Inr [OF assms(1) d]) blast
  from revocation_contract.checkNotRevoked_Inr [OF resource_contract.axioms(1) [OF assms(1)] n] obtain ks
    where ks: "grantRevocationKeys (raIssuer resolved) (raClaims resolved) = Some ks"
      "\<forall>k \<in> set (raKey resolved # ks). \<not> revoked s k" by blast
  from c have u: "usedDPoP = True"
    and vp: "verify_proof (vfCrypto v) (vfParse v) (proof_request v req targets dpopProof raw now) = Inr p"
    by (auto simp: resolveCredential_def split: if_splits sum.splits option.splits)
  from b have "raSenderConstrain resolved = SenderConstrainDPoP" "raThumbprint resolved = thumbprint_String (vpThumbprint p)"
    "now \<le> raExpiresAt resolved + vf_skew v"
    by (auto simp: checkBinding_def and_then_eq_Inr Let_def)
  then show ?thesis by (intro exI conjI) (rule pa [unfolded u] t vp res ks | assumption)+
qed

end
