(* ===== verification/Resource_Memstore.thy ===== *)
theory Resource_Memstore
  imports Resource_Accept Memstore_Properties
begin

text \<open>
  A resource server over the in-memory stores: its dependencies keep their contracts, and what
  follows along every run of requests, revocations and whatever else is written to those stores.
\<close>

section \<open>The stores as dependencies\<close>

record resource_world =
  rwTokens :: AccessTokenStore
  rwRevoked :: RevocationStore
  rwReplay :: ReplayStore
  rwNonces :: NonceStore
  rwPairwise :: PairwiseSubjectStore

text \<open>The keys of an issuer are what a source of keys answers; its cache is no store of the verifier's.\<close>

datatype memstore_tokens =
    OpaqueFormat string string "string list"
  | JWTFormat "issuer_key_request \<Rightarrow> dependency_error + public_key list" string string "string list"
      SignatureAlgorithm duration int int

fun memstore_resolver :: "crypto \<Rightarrow> memstore_tokens \<Rightarrow> ResolveAccessTokenRequest
    \<Rightarrow> (resource_world, resolver_failure, ResolvedAccessToken) effect" where
  "memstore_resolver C (OpaqueFormat issuer audience additional) =
     opaque_ResolveAccessToken C
       \<lparr>oaLookup = (\<lambda>h w. (map_sum (\<lambda>_. OtherFailure) id (LookupAccessToken h (rwTokens w)), w)),
        oaIssuer = issuer, oaAudience = audience, oaAdditionalAudiences = additional\<rparr>"
| "memstore_resolver C (JWTFormat keys issuer audience additional alg lifetime candidates bytes) =
     jwt_ResolveAccessToken C
       \<lparr>jaIssuerKeys = (\<lambda>rq w. (keys rq, w)), jaIssuer = issuer, jaAudience = audience,
        jaAdditionalAudiences = additional, jaAlgorithm = alg, jaMaxTokenLifetime = lifetime,
        jaMaxKeyCandidates = candidates, jaMaxTokenBytes = bytes\<rparr>"

definition memstore_replay :: "ReplayUse \<Rightarrow> (resource_world, dependency_error, unit) effect" where
  "memstore_replay use w =
     (case UseOnce use (rwReplay w) of
        (Inl _, st) \<Rightarrow> (Inl OtherFailure, w\<lparr>rwReplay := st\<rparr>)
      | (Inr u, st) \<Rightarrow> (Inr u, w\<lparr>rwReplay := st\<rparr>))"

definition memstore_revocation :: "duration option \<Rightarrow> resource_world RevocationChecker" where
  "memstore_revocation lifetime =
     \<lparr>rkIsRevoked = (\<lambda>key w. (Inr (IsRevoked key (rwRevoked w)), w)), rkIsAnyRevoked = None,
      rkMaxTokenLifetime = lifetime\<rparr>"

definition memstore_nonces :: "resource_world nonce_store" where
  "memstore_nonces =
     \<lparr>nsIssue = (\<lambda>n t w. (Inr (), w\<lparr>rwNonces := NonceStore_Issue n t (rwNonces w)\<rparr>)),
      nsLookup = (\<lambda>n w. (map_sum (\<lambda>_. OtherFailure) id (NonceStore_Lookup n (rwNonces w)), w))\<rparr>"

text \<open>\<^verbatim>\<open>LookupInternalSubject\<close> of \<^verbatim>\<open>pairwise.MappingDeriver\<close>.\<close>

definition mapping_LookupInternalSubject :: "string \<Rightarrow> string \<Rightarrow> string \<Rightarrow> (resource_world, pairwise_failure, string) effect" where
  "mapping_LookupInternalSubject issuer sector body w =
     (map_sum (\<lambda>_. ErrSubjectNotFound) id (PairwiseSubject_Lookup issuer sector body (rwPairwise w)), w)"

definition memstore_verifier :: "crypto \<Rightarrow> (string \<Rightarrow> url option) \<Rightarrow> resource_config \<Rightarrow> resourceURL list
    \<Rightarrow> memstore_tokens \<Rightarrow> bool \<Rightarrow> resource_world Verifier" where
  "memstore_verifier C parse cfg urls tokens nonces =
     \<lparr>vfCrypto = C, vfParse = parse, vfConfig = cfg,
      vfDeps = \<lparr>rdAccessTokens = memstore_resolver C tokens, rdReplay = memstore_replay,
        rdRevocation = memstore_revocation None,
        rdNonces = (if nonces then Some memstore_nonces else None),
        rdPairwiseSubjects = Some mapping_LookupInternalSubject, rdPairwiseSubjectResolver = None\<rparr>,
      vfResourceURLs = urls\<rparr>"

lemma memstore_verifier_simps [simp]:
  "vfCrypto (memstore_verifier C parse cfg urls tokens nonces) = C"
  "vfParse (memstore_verifier C parse cfg urls tokens nonces) = parse"
  "vfConfig (memstore_verifier C parse cfg urls tokens nonces) = cfg"
  "vfResourceURLs (memstore_verifier C parse cfg urls tokens nonces) = urls"
  "rdAccessTokens (vfDeps (memstore_verifier C parse cfg urls tokens nonces)) = memstore_resolver C tokens"
  "rdReplay (vfDeps (memstore_verifier C parse cfg urls tokens nonces)) = memstore_replay"
  "rdRevocation (vfDeps (memstore_verifier C parse cfg urls tokens nonces)) = memstore_revocation None"
  "rdNonces (vfDeps (memstore_verifier C parse cfg urls tokens nonces)) = (if nonces then Some memstore_nonces else None)"
  "rdPairwiseSubjects (vfDeps (memstore_verifier C parse cfg urls tokens nonces)) = Some mapping_LookupInternalSubject"
  "rdPairwiseSubjectResolver (vfDeps (memstore_verifier C parse cfg urls tokens nonces)) = None"
  by (simp_all add: memstore_verifier_def)

lemma reads_answer [reads_simps]: "reads_only (\<lambda>w. (f w, w))"
  by (simp add: reads_only_def)

lemma reads_memstore_resolver [reads_simps]: "reads_only (memstore_resolver C tokens rq)"
proof (cases tokens)
  case (OpaqueFormat issuer audience additional)
  then show ?thesis by (simp add: opaque_ResolveAccessToken_def Let_def) (intro reads_simps)
next
  case (JWTFormat keys issuer audience additional alg lifetime candidates bytes)
  then show ?thesis
    by (auto simp: jwt_ResolveAccessToken_def Let_def split: sum.splits option.splits intro!: reads_simps)
qed

lemma reads_mapping [reads_simps]: "reads_only (mapping_LookupInternalSubject issuer sector body)"
  by (simp add: reads_only_def mapping_LookupInternalSubject_def)

interpretation memstore_checked: resource_contract "memstore_verifier C parse cfg urls tokens nonces"
    "\<lambda>w key. IsRevoked key (rwRevoked w)" for C parse cfg urls tokens nonces
  by unfold_locales
    (auto simp: memstore_revocation_def intro!: reads_simps)

section \<open>Runs\<close>

text \<open>
  \<open>grows w w'\<close>: what a request leaves as it is. Nothing it does forgets a use, a revocation or a
  token.
\<close>

definition grows :: "resource_world \<Rightarrow> resource_world \<Rightarrow> bool" where
  "grows w w' \<longleftrightarrow> rwRevoked w' = rwRevoked w \<and> rwTokens w' = rwTokens w \<and>
     (\<forall>ns d. rwReplay w ns d \<longrightarrow> rwReplay w' ns d)"

lemma grows_refl [simp]: "grows w w"
  by (simp add: grows_def)

lemma grows_trans: "grows w w' \<Longrightarrow> grows w' w'' \<Longrightarrow> grows w w''"
  by (simp add: grows_def)

definition proof_is_spent :: "crypto \<Rightarrow> resource_world \<Rightarrow> bytes \<times> string \<Rightarrow> bool" where
  "proof_is_spent C w k \<longleftrightarrow> rwReplay w resourceDPoPReplayNamespace (Digest C (thumbprint_String (fst k)) (snd k))"

lemma spent_grows: "grows w w' \<Longrightarrow> proof_is_spent C w k \<Longrightarrow> proof_is_spent C w' k"
  by (simp add: grows_def proof_is_spent_def)

lemma issue_grows:
  "issueDPoPNonce v memstore_nonces random now (r, w) = (x, (r', w')) \<Longrightarrow> grows w w' \<and> rwReplay w' = rwReplay w"
  by (auto simp: issueDPoPNonce_def Rotator_Current_def memstore_nonces_def grows_def
      split: option.splits prod.splits if_splits sum.splits)

lemma nonce_check_grows:
  assumes "checkDPoPNonce v memstore_nonces random presented now (r, w) = (x, (r', w'))"
  shows "grows w w' \<and> rwReplay w' = rwReplay w"
proof -
  obtain y w1 where y: "Nonce_Valid (nsLookup memstore_nonces) presented now w = (y, w1)" by fastforce
  have "reads_only (Nonce_Valid (nsLookup memstore_nonces) presented now)"
    unfolding Nonce_Valid_def memstore_nonces_def by (auto intro!: reads_simps)
  then have w1: "w1 = w" using y by (rule reads_onlyD)
  obtain z r2 w2 where z: "issueDPoPNonce v memstore_nonces random now (r, w) = (z, (r2, w2))" by (metis surj_pair)
  have "w' = w \<or> w' = w2" using assms y w1 z
    by (auto simp: checkDPoPNonce_def on_snd_def bindS_def catchS_def liftS_def
        split: sum.splits bool.splits dependency_error.splits)
  with issue_grows [OF z] show ?thesis by auto
qed

lemma memstore_replay_cases:
  "memstore_replay (proof_use v p) w = (x, w') \<Longrightarrow> vfCrypto v = C \<Longrightarrow>
     grows w w' \<and> (x = Inr () \<longrightarrow> \<not> proof_is_spent C w (vpThumbprint p, vpJTI p) \<and> proof_is_spent C w' (vpThumbprint p, vpJTI p))"
  by (auto simp: memstore_replay_def UseOnce_def proof_use_def grows_def proof_is_spent_def split: if_splits)

abbreviation "mv \<equiv> memstore_verifier"

lemma consume_grows:
  assumes "consumeDPoPProof (mv C parse cfg urls tokens nonces) random p now (r, w) = (x, (r', w'))"
  shows "grows w w' \<and> (x = Inr () \<longrightarrow>
    \<not> proof_is_spent C w (vpThumbprint p, vpJTI p) \<and> proof_is_spent C w' (vpThumbprint p, vpJTI p))"
proof -
  let ?v = "mv C parse cfg urls tokens nonces"
  obtain y r1 w1 where y: "(if nonces then checkDPoPNonce ?v memstore_nonces random (vpNonce p) now else liftS (Inr ())) (r, w)
      = (y, (r1, w1))" by (metis surj_pair)
  have n: "grows w w1 \<and> rwReplay w1 = rwReplay w"
    using y nonce_check_grows by (cases nonces) auto
  obtain z w2 where z: "memstore_replay (proof_use ?v p) w1 = (z, w2)" by fastforce
  have c: "consumeDPoPProof ?v random p now = bindS (if nonces then checkDPoPNonce ?v memstore_nonces random (vpNonce p) now else liftS (Inr ()))
      (\<lambda>_. on_snd (catchS replay_error (memstore_replay (proof_use ?v p))))"
    by (simp add: consumeDPoPProof_def)
  have "(x = y \<and> w' = w1 \<and> x \<noteq> Inr ()) \<or> (w' = w2 \<and> (x = Inr () \<longrightarrow> z = Inr ()))"
  proof (cases y)
    case (Inl e)
    with assms y show ?thesis by (auto simp: c bindS_def)
  next
    case (Inr u)
    with assms y z show ?thesis by (cases z) (auto simp: c bindS_def on_snd_def catchS_def)
  qed
  with n memstore_replay_cases [OF z, of C] show ?thesis
    by (auto intro: grows_trans simp: proof_is_spent_def)
qed

lemma next_nonce_grows:
  "next_nonce (mv C parse cfg urls tokens nonces) random cred now (r, w) = (x, (r', w')) \<Longrightarrow> grows w w'"
  using issue_grows
  by (auto simp: next_nonce_def catchS_def liftS_def split: credential.splits sum.splits prod.splits if_splits)

lemma Verify_grows:
  assumes "resource_Verify (mv C parse cfg urls tokens nonces) random req now (r, w) = (x, (r', w'))"
  shows "grows w w'"
proof (cases "(r', w') = (r, w)")
  case False
  let ?v = "mv C parse cfg urls tokens nonces"
  from assms False have "snd (resource_Verify ?v random req now (r, w)) \<noteq> (r, w)" by simp
  from verify_state [OF memstore_checked.resource_contract_axioms this]
  obtain usedDPoP dpopProof raw p resolved kind subject clientSubject
    where pa: "parseAuthorization req = (usedDPoP, Inr (dpopProof, raw))"
    and d: "decide ?v req usedDPoP dpopProof raw now w = (Inr (by_proof p, resolved, kind, subject, clientSubject), w)" .
  obtain y r1 w1 where y: "consumeDPoPProof ?v random p now (r, w) = (y, (r1, w1))" by (metis surj_pair)
  obtain z r2 w2 where z: "next_nonce ?v random (by_proof p) now (r1, w1) = (z, (r2, w2))" by (metis surj_pair)
  have "w' = w1 \<or> w' = w2" using assms pa d y z
    by (auto simp: resource_Verify_def verify_def bindS_def on_snd_def catchS_def liftS_def split: sum.splits)
  with consume_grows [OF y] next_nonce_grows [OF z] show ?thesis by (auto intro: grows_trans)
qed simp

text \<open>
  A verifier shares its stores with the server that issues and revokes, and with other verifiers: what
  they write are operations of their own.
\<close>

datatype resource_op =
    VerifyAt "bytes option" VerifyRequest time
  | RevokeKey string time
  | StoreToken NewAccessToken
  | RecordReplay ReplayUse
  | StoreNonce string time

primrec resource_step :: "resource_world Verifier \<Rightarrow> resource_op \<Rightarrow> Rotator \<times> resource_world
    \<Rightarrow> (ResourceError + AuthorizationContext) option \<times> (Rotator \<times> resource_world)" where
  "resource_step v (VerifyAt random req now) rw = (case resource_Verify v random req now rw of (x, rw') \<Rightarrow> (Some x, rw'))"
| "resource_step v (RevokeKey key t) rw = (None, apsnd (\<lambda>w. w\<lparr>rwRevoked := Revoke key t (rwRevoked w)\<rparr>) rw)"
| "resource_step v (StoreToken tok) rw = (None, apsnd (\<lambda>w. w\<lparr>rwTokens := CreateAccessToken tok (rwTokens w)\<rparr>) rw)"
| "resource_step v (RecordReplay use) rw = (None, apsnd (\<lambda>w. w\<lparr>rwReplay := snd (UseOnce use (rwReplay w))\<rparr>) rw)"
| "resource_step v (StoreNonce n t) rw = (None, apsnd (\<lambda>w. w\<lparr>rwNonces := NonceStore_Issue n t (rwNonces w)\<rparr>) rw)"

text \<open>The proof an accepted request presented, by the key that signed it and its identifier.\<close>

definition presented_proof :: "'s Verifier \<Rightarrow> VerifyRequest \<Rightarrow> time \<Rightarrow> VerifiedProof option" where
  "presented_proof v req now =
     (case parseAuthorization req of
        (True, Inr (dpopProof, raw)) \<Rightarrow>
          (case requestTargets v req of
             Inr targets \<Rightarrow>
               (case resolveCredential v req targets dpopProof raw True now of Inr (by_proof p) \<Rightarrow> Some p | _ \<Rightarrow> None)
           | Inl _ \<Rightarrow> None)
      | _ \<Rightarrow> None)"

fun accepted_proof :: "resource_world Verifier \<Rightarrow> Rotator \<times> resource_world \<Rightarrow> resource_op \<Rightarrow> (bytes \<times> string) option" where
  "accepted_proof v rw (VerifyAt random req now) =
     (if is_ok (fst (resource_Verify v random req now rw))
      then map_option (\<lambda>p. (vpThumbprint p, vpJTI p)) (presented_proof v req now) else None)"
| "accepted_proof v rw _ = None"

lemma accepted_proof_consumed:
  assumes "resource_Verify (mv C parse cfg urls tokens nonces) random req now (r, w) = (Inr a, (r', w'))"
    and "presented_proof (mv C parse cfg urls tokens nonces) req now = Some p"
  shows "\<not> proof_is_spent C w (vpThumbprint p, vpJTI p) \<and> proof_is_spent C w' (vpThumbprint p, vpJTI p)"
proof -
  let ?v = "mv C parse cfg urls tokens nonces"
  obtain usedDPoP dpopProof raw cred resolved kind subject clientSubject nn w0 rw1
    where pa: "parseAuthorization req = (usedDPoP, Inr (dpopProof, raw))"
    and d: "decide ?v req usedDPoP dpopProof raw now w = (Inr (cred, resolved, kind, subject, clientSubject), w0)"
    and co: "(case cred of by_proof p \<Rightarrow> consumeDPoPProof ?v random p now | by_certificate _ \<Rightarrow> liftS (Inr ())) (r, w0) = (Inr (), rw1)"
    and nn: "next_nonce ?v random cred now rw1 = (Inr nn, (r', w'))"
    by (rule resource_Verify_Inr [OF assms(1)])
  obtain targets where "w0 = w" "requestTargets ?v req = Inr targets"
    "resolveCredential ?v req targets dpopProof raw usedDPoP now = Inr cred"
    by (rule memstore_checked.decide_Inr [OF d])
  with pa assms(2) have cred: "cred = by_proof p" and w0: "w0 = w"
    by (auto simp: presented_proof_def split: bool.splits credential.splits)
  obtain r1 w1 where rw1: "rw1 = (r1, w1)" by fastforce
  from co cred w0 rw1 have "consumeDPoPProof ?v random p now (r, w) = (Inr (), (r1, w1))" by simp
  from consume_grows [OF this] spent_grows [OF next_nonce_grows [OF nn [unfolded rw1]]] show ?thesis by blast
qed

interpretation resource_proofs: single_use "resource_step (mv C parse cfg urls tokens nonces)"
    "accepted_proof (mv C parse cfg urls tokens nonces)" "\<lambda>rw. proof_is_spent C (snd rw)"
  for C parse cfg urls tokens nonces
proof
  let ?v = "mv C parse cfg urls tokens nonces"
  fix rw :: "Rotator \<times> resource_world" and op k
  obtain r w where rw: "rw = (r, w)" by fastforce
  show "\<not> proof_is_spent C (snd rw) k" "proof_is_spent C (snd (snd (resource_step ?v op rw))) k"
    if u: "accepted_proof ?v rw op = Some k"
  proof -
    from u obtain random req now p where op: "op = VerifyAt random req now" and ok: "is_ok (fst (resource_Verify ?v random req now rw))"
      and p: "presented_proof ?v req now = Some p" "k = (vpThumbprint p, vpJTI p)"
      by (cases op) (auto split: if_splits)
    obtain a r' w' where v: "resource_Verify ?v random req now (r, w) = (Inr a, (r', w'))"
      using ok rw by (metis is_ok_iff prod.collapse)
    from accepted_proof_consumed [OF v p(1)] p(2) rw op v
    show "\<not> proof_is_spent C (snd rw) k" "proof_is_spent C (snd (snd (resource_step ?v op rw))) k" by simp_all
  qed
  show "proof_is_spent C (snd (snd (resource_step ?v op rw))) k" if s: "proof_is_spent C (snd rw) k"
  proof (cases op)
    case (VerifyAt random req now)
    obtain x r' w' where v: "resource_Verify ?v random req now (r, w) = (x, (r', w'))" by (metis surj_pair)
    from spent_grows [OF Verify_grows [OF v]] s rw VerifyAt v show ?thesis by simp
  next
    case (RecordReplay use)
    with s show ?thesis by (simp add: proof_is_spent_def UseOnce_spends)
  qed (use s in \<open>simp_all add: proof_is_spent_def\<close>)
qed

text \<open>
  C11. A DPoP proof gets one request past a resource server. Whatever it verifies, and whatever else
  is issued, revoked or recorded in the stores it shares, in any order, no two accepted requests
  carried proofs of the same key with the same identifier.
\<close>

theorem one_request_per_proof:
  "distinct (consumed (resource_step (memstore_verifier C parse cfg urls tokens nonces))
     (accepted_proof (memstore_verifier C parse cfg urls tokens nonces)) ops rw)"
  by (rule resource_proofs.consumed_distinct)

section \<open>Revocation along a run\<close>

lemma revoked_stays:
  assumes "IsRevoked key (rwRevoked (snd rw))"
  shows "IsRevoked key (rwRevoked (snd (after (resource_step (mv C parse cfg urls tokens nonces)) ops rw)))"
proof (rule after_invariant [where P = "\<lambda>rw. IsRevoked key (rwRevoked (snd rw))"])
  fix op and rw :: "Rotator \<times> resource_world"
  assume rev: "IsRevoked key (rwRevoked (snd rw))"
  obtain r w where rw: "rw = (r, w)" by fastforce
  show "IsRevoked key (rwRevoked (snd (snd (resource_step (mv C parse cfg urls tokens nonces) op rw))))"
  proof (cases op)
    case (VerifyAt random req now)
    obtain x r' w' where v: "resource_Verify (mv C parse cfg urls tokens nonces) random req now (r, w) = (x, (r', w'))"
      by (metis surj_pair)
    with Verify_grows [OF v] rev rw VerifyAt show ?thesis by (simp add: grows_def)
  qed (use rev in \<open>auto simp: Revoke_def IsRevoked_def\<close>)
qed (rule assms)

lemma accepted_not_revoked:
  assumes "fst (resource_Verify (mv C parse cfg urls tokens nonces) random req now rw) = Inr a"
  shows "\<not> IsRevoked (auKey a) (rwRevoked (snd rw)) \<and>
    (\<exists>ks. grantRevocationKeys (auIssuer a) (auClaims a) = Some ks \<and> (\<forall>k \<in> set ks. \<not> IsRevoked k (rwRevoked (snd rw))))"
proof -
  let ?v = "mv C parse cfg urls tokens nonces"
  obtain r w where rw: "rw = (r, w)" by fastforce
  obtain rw' where "resource_Verify ?v random req now (r, w) = (Inr a, rw')" using assms rw by (metis prod.collapse)
  from resource_Verify_Inr [OF this] obtain usedDPoP dpopProof raw cred resolved kind subject clientSubject nn w0
    where d: "decide ?v req usedDPoP dpopProof raw now w = (Inr (cred, resolved, kind, subject, clientSubject), w0)"
    and a: "a = context_of resolved kind subject clientSubject nn usedDPoP" by metis
  from memstore_checked.decide_Inr [OF d] have "checkNotRevoked ?v resolved w = (Inr (), w)" by metis
  from memstore_checked.checkNotRevoked_Inr [OF this] show ?thesis by (auto simp: a context_of_def rw)
qed

lemma grantRevocationKeys_claims:
  assumes "grantRevocationKeys issuer claims = Some ks"
  shows "stringClaim claims grantClaim \<noteq> [] \<Longrightarrow> grant_Key issuer (stringClaim claims grantClaim) \<in> set ks"
    and "stringClaim claims CodeClaim \<noteq> [] \<Longrightarrow> CodeKey issuer (stringClaim claims CodeClaim) \<in> set ks"
  using assms
  by (auto simp: grantRevocationKeys_def grantRevocationClaims_def stringClaim_def nonempty_string_def
      grant_Keys_def CodeKeys_def split: option.splits if_splits)

text \<open>
  C12. Revocation is final. Once a grant is revoked at the server, the grant of a reused code or a
  single token, no later request presenting a token of that grant, or that token, is accepted,
  whatever happens in between.
\<close>

theorem revoked_never_accepted:
  assumes "fst (resource_Verify (memstore_verifier C parse cfg urls tokens nonces) random req now
      (after (resource_step (memstore_verifier C parse cfg urls tokens nonces)) (before_ops @ RevokeKey key t # later_ops) rw)) = Inr a"
  shows "auKey a \<noteq> key \<and> (GrantID_of a \<noteq> [] \<longrightarrow> grant_Key (auIssuer a) (GrantID_of a) \<noteq> key)
    \<and> (CodeGrantID_of a \<noteq> [] \<longrightarrow> CodeKey (auIssuer a) (CodeGrantID_of a) \<noteq> key)"
proof -
  let ?v = "memstore_verifier C parse cfg urls tokens nonces"
  have "IsRevoked key (rwRevoked (snd (after (resource_step ?v) (before_ops @ RevokeKey key t # later_ops) rw)))"
    unfolding after_append after.simps by (rule revoked_stays) (simp add: Revoke_def IsRevoked_def)
  with accepted_not_revoked [OF assms] grantRevocationKeys_claims show ?thesis
    by (auto simp: GrantID_of_def CodeGrantID_of_def)
qed

section \<open>What a refusal tells\<close>

text \<open>
  C38. Presenting someone else's token says nothing about it: an opaque token bound to another key or
  certificate is answered exactly as one that does not exist, and neither writes anything.
\<close>

theorem stolen_token_unrecognised:
  assumes "parseAuthorization req = (usedDPoP, Inr (dpopProof, raw))"
    and "requestTargets (memstore_verifier C parse cfg urls (OpaqueFormat issuer audience additional) nonces) req = Inr targets"
    and "resolveCredential (memstore_verifier C parse cfg urls (OpaqueFormat issuer audience additional) nonces) req targets
      dpopProof raw usedDPoP now = Inr cred"
    and "\<forall>tok. rwTokens w (sha256 C (string_bytes raw)) = Some tok \<longrightarrow> recordedIssuerAndAudience (natClaims tok) \<noteq> None \<and>
      (natSenderConstrain tok \<noteq> credential_kind cred \<or> natThumbprint tok \<noteq> presented_thumbprint cred)"
  shows "resource_Verify (memstore_verifier C parse cfg urls (OpaqueFormat issuer audience additional) nonces) random req now (r, w)
    = (Inl (accessTokenInvalid\<lparr>erDPoPChallenge := usedDPoP\<rparr>), (r, w))"
proof -
  let ?v = "memstore_verifier C parse cfg urls (OpaqueFormat issuer audience additional) nonces"
  have "decide ?v req usedDPoP dpopProof raw now w = (Inl accessTokenInvalid, w)"
  proof (cases "rwTokens w (sha256 C (string_bytes raw))")
    case None
    then show ?thesis
      by (simp add: decide_def assms(2,3) resolveAccessToken_def opaque_ResolveAccessToken_def Let_def LookupAccessToken_def
          bindS_def catchS_def liftS_def)
  next
    case (Some tok)
    with assms(4) obtain claims iss aud where rec: "recordedIssuerAndAudience (natClaims tok) = Some (claims, iss, aud)"
      and b: "natSenderConstrain tok \<noteq> credential_kind cred \<or> natThumbprint tok \<noteq> presented_thumbprint cred" by auto
    then have "checkBinding ?v (resolved_opaque (sha256 C (string_bytes raw)) tok claims iss aud) cred now = Inl accessTokenInvalid"
      by (auto simp: checkBinding_def resolved_opaque_def require_def Let_def)
    with Some rec show ?thesis
      by (auto simp: decide_def assms(2,3) resolveAccessToken_def opaque_ResolveAccessToken_def Let_def LookupAccessToken_def
          bindS_def catchS_def liftS_def)
  qed
  then show ?thesis
    by (simp add: resource_Verify_def assms(1) verify_def bindS_def on_snd_def catchS_def liftS_def accessTokenInvalid_def newError_def)
qed

end
