(* ===== verification/Resource_Example.thy ===== *)
theory Resource_Example
  imports Resource_Memstore
begin

text \<open>
  A request a resource server accepts: an opaque token of a named grant, bound to the key of a DPoP
  proof, with another key revoked. It satisfies the hypotheses of the properties of
  \<open>Resource_Accept\<close> and \<open>Resource_Memstore\<close>.
\<close>

definition example_config :: resource_config where
  "example_config = \<lparr>rcLimits = \<lparr>rlMaxDPoPProofAge = second, rlMaxClockSkew = 0, rlDPoPNonceLifetime = 0\<rparr>,
     rcResourceURLs = [], rcProduction = True, rcPairwisePrefix = None, rcPairwiseResolution = ResolvePairwiseSubjects\<rparr>"

definition example_verifier :: "resource_world Verifier" where
  "example_verifier = memstore_verifier proof_crypto (\<lambda>_. Some example_url) example_config
     [\<lparr>ruOrigin = empty_url, ruPrefix = ''https://a''\<rparr>] (OpaqueFormat ''i'' [] []) False"

definition example_request :: VerifyRequest where
  "example_request = \<lparr>vqMethod = ''GET'', vqURL = Some example_url, vqAuthorization = ''DPoP t'',
     vqDPoPProofs = [example_proof], vqPeerCertificate = None, vqRequestPath = [], vqRepeatedAuthorization = False\<rparr>"

definition example_world :: "bytes \<Rightarrow> resource_world" where
  "example_world thumbprint = \<lparr>rwTokens = [[116] \<mapsto> \<lparr>natTokenHash = [116], natClientID = ''c'', natSubject = ''s'',
       natScope = [], natThumbprint = thumbprint_String thumbprint, natSenderConstrain = SenderConstrainDPoP,
       natClaims = [(''iss'', JStr ''i''), (''grant_id'', JStr ''g'')], natExpiresAt = 5\<rparr>],
     rwRevoked = [''x'' \<mapsto> 0], rwReplay = NewReplayStore, rwNonces = Map.empty, rwPairwise = NewPairwiseSubjectStore\<rparr>"

lemma example_request_parsed: "parseAuthorization example_request = (True, Inr (example_proof, ''t''))"
  by code_simp

definition example_resolved :: "bytes \<Rightarrow> ResolvedAccessToken" where
  "example_resolved t = \<lparr>raSubject = ''s'', raClientID = ''c'', raScopes = [], raClaims = [(''grant_id'', JStr ''g'')],
     raExpiresAt = 5, raThumbprint = thumbprint_String t, raSenderConstrain = SenderConstrainDPoP, raKey = ''74'',
     raIssuer = ''i'', raAudience = [], raIssuedAt = zero_time\<rparr>"

lemma example_token_hash: "hex_encode [116] = ''74''" by code_simp
lemma example_token_resolved: "rqRaw rq = ''t'' \<Longrightarrow>
   memstore_resolver proof_crypto (OpaqueFormat ''i'' [] []) rq (example_world t) = (Inr (example_resolved t), example_world t)"
  by (simp add: opaque_ResolveAccessToken_def Let_def proof_crypto_def example_crypto_def string_bytes_def
    bindS_def catchS_def liftS_def LookupAccessToken_def example_world_def recordedIssuerAndAudience_def
    nonempty_string_def IssuerRecordClaim_def AudienceRecordClaim_def acceptsAudience_def example_token_hash resolved_opaque_def
    example_resolved_def)

lemma thumbprint_ne:
  assumes "verify_proof proof_crypto parse req = Inr vp" shows "thumbprint_String (vpThumbprint vp) \<noteq> []"
proof -
  from assms obtain jwk where "Thumbprint proof_crypto jwk = Some (vpThumbprint vp)" by (rule verify_proof_Inr)
  then obtain t where "thumbprint_text (jkPub jwk) = Some t" "vpThumbprint vp = take 32 (string_bytes t)"
    by (auto simp: Thumbprint_def proof_crypto_def example_crypto_def)
  moreover have "thumbprint_text k = Some t \<Longrightarrow> t \<noteq> []" for k t
    by (auto simp: thumbprint_text_def split: public_key.splits option.splits if_splits)
  ultimately have "vpThumbprint vp \<noteq> []" by (auto simp: string_bytes_def)
  then have "length (encode_raw True (vpThumbprint vp)) \<noteq> 0" by (cases "vpThumbprint vp") (simp_all add: length_encode_raw)
  then show ?thesis by (auto simp: thumbprint_String_def)
qed


definition example_context :: AuthorizationContext where
  "example_context = context_of (example_resolved []) SubjectEndUser ''s'' ''s'' [] True"

lemma example_targets: "requestTargets example_verifier example_request = Inr [example_url]"
    by (simp add: requestTargets_def explicitTarget_def example_request_def example_verifier_def covers_def example_steps(1)
       has_prefix_def)
      (simp add: example_url_def)

lemma example_credential:
  assumes vp: "verify_proof proof_crypto (\<lambda>_. Some example_url) (example_verify_request example_proof) = Inr vp"
  shows "resolveCredential example_verifier example_request [example_url] example_proof ''t'' True 0 = Inr (by_proof vp)"
proof -
  have pr: "proof_request example_verifier example_request [example_url] example_proof ''t'' 0 = example_verify_request example_proof"
    by (simp add: proof_request_def example_verify_request_def example_verifier_def example_request_def example_config_def vf_skew_def)
  show ?thesis
    using vp by (simp add: resolveCredential_def pr) (simp add: example_verifier_def example_proof_def)
qed

lemma example_accepted:
  obtains t w' where "resource_Verify example_verifier None example_request 0 (r, example_world t) = (Inr example_context, (r, w'))"
   "w' \<noteq> example_world t"
proof -
  obtain vp where vp: "verify_proof proof_crypto (\<lambda>_. Some example_url) (example_verify_request example_proof) = Inr vp" 
    and i: "vpIssuedAt vp = 0"
    by (rule example_verified)
  let ?w = "example_world (vpThumbprint vp)" and ?res = "example_resolved (vpThumbprint vp)"
  note c = example_credential [OF vp]
  have a: "resolveAccessToken example_verifier ''t'' 0 ?w = (Inr ?res, ?w)"
    by (simp add: resolveAccessToken_def catchS_def) (simp add: example_verifier_def example_token_resolved del: memstore_resolver.simps)
  have b: "checkBinding example_verifier ?res (by_proof vp) 0 = Inr ()"
    using thumbprint_ne [OF vp]
    by (simp add: checkBinding_def example_resolved_def require_def checkUnrevocableLifetime_def)
      (simp add: example_verifier_def memstore_revocation_def vf_skew_def example_config_def)
  have rv: "is_revoked example_verifier k ?w = (Inr False, ?w)" if "k \<noteq> ''x''" for k
    using that by (simp add: is_revoked_def example_verifier_def memstore_revocation_def IsRevoked_def example_world_def)
  have ar: "rkIsAnyRevoked (rdRevocation (vfDeps example_verifier)) = None"
    by (simp add: example_verifier_def memstore_revocation_def)
  have claims: "raClaims ?res = [(''grant_id'', JStr ''g'')]" "raIssuer ?res = ''i''" "raKey ?res = ''74''"
    by (simp_all add: example_resolved_def)
  have n: "checkNotRevoked example_verifier ?res ?w = (Inr (), ?w)"
    by (simp add: checkNotRevoked_def checkAnyRevoked_def checkEachNotRevoked_def claims rv ar
        checkGrantNotRevoked_def grantRevocationClaims_def grantClaim_def CodeClaim_def nonempty_string_def
        checkKeysNotRevoked_def grant_Keys_def grant_Key_def catchS_def bindS_def liftS_def require_def)
  have u: "resolveSubjects example_verifier ?res ?w = (Inr (''s'', ''s''), ?w)" 
    by (simp add: resolveSubjects_def example_resolved_def ClientSubjectClaim_def PairwiseSectorClaim_def liftS_def)
  have k: "subjectKindOf (raClaims ?res) = Inr SubjectEndUser" 
    by (simp add: subjectKindOf_def example_resolved_def GrantTypeClaim_def)
  have d: "decide example_verifier example_request True example_proof ''t'' 0 ?w = 
    (Inr (by_proof vp, ?res, SubjectEndUser, ''s'', ''s''), ?w)"
    by (simp add: decide_def example_targets c a b n u k bindS_def liftS_def)
  obtain w' where re: "memstore_replay (proof_use example_verifier vp) ?w = (Inr (), w')" and ne: "w' \<noteq> ?w"
  proof -
   let ?w' = "?w\<lparr>rwReplay := snd (UseOnce (proof_use example_verifier vp) (rwReplay ?w))\<rparr>"
   have "memstore_replay (proof_use example_verifier vp) ?w = (Inr (), ?w')"
     by (simp add: memstore_replay_def UseOnce_def) (simp add: example_world_def NewReplayStore_def)
   moreover have "rwReplay ?w' (ruNamespace (proof_use example_verifier vp)) (ruDigest (proof_use example_verifier vp))"
      by (simp add: UseOnce_spends)
   then have "?w' \<noteq> ?w" by (auto simp: example_world_def NewReplayStore_def)
   ultimately show thesis by (rule that)
  qed
  have nn: "rdNonces (vfDeps example_verifier) = None" and rd: "rdReplay (vfDeps example_verifier) = memstore_replay"
    by (simp_all add: example_verifier_def)
  have co: "consumeDPoPProof example_verifier None vp 0 (r, ?w) = (Inr (), (r, w'))"
    by (simp add: consumeDPoPProof_def nn rd on_snd_def catchS_def re)
  have "resource_Verify example_verifier None example_request 0 (r, ?w) = (Inr (context_of ?res SubjectEndUser ''s'' ''s'' [] True), (r, w'))"
    by (simp add: resource_Verify_def example_request_parsed verify_def d on_snd_def bindS_def catchS_def co next_nonce_def liftS_def nn)
  moreover have "context_of ?res SubjectEndUser ''s'' ''s'' [] True = example_context"
    by (simp add: context_of_def example_context_def example_resolved_def)
  ultimately show thesis using ne that by simp
qed

lemma example_contract:
  "resource_contract example_verifier (\<lambda>w key. IsRevoked key (rwRevoked w))"
  unfolding example_verifier_def by (rule memstore_checked.resource_contract_axioms)

definition no_nonce :: Rotator where "no_nonce = \<lparr>roCurrent = [], roExpiresAt = 0\<rparr>"

lemma accepted_request_sound_witness:
  "\<exists>t targets. requestTargets example_verifier example_request = Inr targets \<and>
     (\<forall>u \<in> set targets. \<exists>ru \<in> set (vfResourceURLs example_verifier). covers ru u) \<and>
     \<not> IsRevoked ''74'' (rwRevoked (example_world t))"
proof -
  obtain t w' where v: "resource_Verify example_verifier None example_request 0 (no_nonce, example_world t) = (Inr example_context, (no_nonce, w'))"
    by (rule example_accepted)
  have "rlMaxDPoPProofAge (rcLimits (vfConfig example_verifier)) < maxInt64"
    by (simp add: example_verifier_def example_config_def second_def int64_bounds)
  from accepted_request_sound [OF example_contract v this]
  obtain targets resolved ks where "requestTargets example_verifier example_request = Inr targets"
    "\<forall>t \<in> set targets. \<exists>ru \<in> set (vfResourceURLs example_verifier). covers ru t"
    "\<forall>k \<in> set (raKey resolved # ks). \<not> IsRevoked k (rwRevoked (example_world t))"
    "example_context = context_of resolved (auSubjectKind example_context) (auInternalSubject example_context)
       (auClientSubject example_context) (auNextDPoPNonce example_context) (auUsedDPoP example_context)" by blast
  moreover then have "raKey resolved = ''74''" by (simp add: context_of_def example_context_def example_resolved_def)
  ultimately show ?thesis by (intro exI [of _ t]) auto
qed

lemma only_valid_tokens_write_witness:
  "\<exists>p w. verify_proof proof_crypto (\<lambda>_. Some example_url)
       (proof_request example_verifier example_request [example_url] example_proof ''t'' 0) = Inr p \<and>
     snd (resource_Verify example_verifier None example_request 0 (no_nonce, w)) \<noteq> (no_nonce, w)"
proof -
  obtain t w' where v: "resource_Verify example_verifier None example_request 0 (no_nonce, example_world t) = (Inr example_context, (no_nonce, w'))"
    and ne: "w' \<noteq> example_world t"
    by (rule example_accepted)
  then have w: "snd (resource_Verify example_verifier None example_request 0 (no_nonce, example_world t)) \<noteq> (no_nonce, example_world t)" by simp
  from only_valid_tokens_write [OF example_contract w] obtain dpopProof raw targets p where
    "parseAuthorization example_request = (True, Inr (dpopProof, raw))" "requestTargets example_verifier example_request = Inr targets"
    "verify_proof (vfCrypto example_verifier) (vfParse example_verifier)
       (proof_request example_verifier example_request targets dpopProof raw 0) = Inr p" by blast
  with w show ?thesis by (auto simp: example_request_parsed example_targets) (auto simp: example_verifier_def)
qed

lemma revoked_never_accepted_witness:
  "\<exists>w. is_ok (fst (resource_Verify example_verifier None example_request 0
      (after (resource_step example_verifier) ([] @ RevokeKey ''x'' 0 # []) w)))
     \<and> auKey example_context \<noteq> ''x''"
proof -
  obtain t w' where v: "resource_Verify example_verifier None example_request 0 (no_nonce, example_world t) = (Inr example_context, (no_nonce, w'))"
    by (rule example_accepted)
  let ?w = "(no_nonce, example_world t\<lparr>rwRevoked := Map.empty\<rparr>)"
  have "after (resource_step example_verifier) ([] @ RevokeKey ''x'' 0 # []) ?w = (no_nonce, example_world t)"
    by (simp add: Revoke_def example_world_def)
  with v have "fst (resource_Verify example_verifier None example_request 0
      (after (resource_step example_verifier) ([] @ RevokeKey ''x'' 0 # []) ?w)) = Inr example_context" by simp
  moreover from revoked_never_accepted [OF this [unfolded example_verifier_def]] have "auKey example_context \<noteq> ''x''" by blast
  ultimately show ?thesis by (metis is_ok_simps(1))
qed

lemma stolen_token_unrecognised_witness:
  "resource_Verify example_verifier None example_request 0 (no_nonce, example_world [])
    = (Inl (accessTokenInvalid\<lparr>erDPoPChallenge := True\<rparr>), (no_nonce, example_world []))"
proof -
  obtain vp where vp: "verify_proof proof_crypto (\<lambda>_. Some example_url) (example_verify_request example_proof) = Inr vp"
    by (rule example_verified)
  have "\<forall>tok. rwTokens (example_world []) (sha256 proof_crypto (string_bytes ''t'')) = Some tok \<longrightarrow>
      recordedIssuerAndAudience (natClaims tok) \<noteq> None \<and>
      (natSenderConstrain tok \<noteq> credential_kind (by_proof vp) \<or> natThumbprint tok \<noteq> presented_thumbprint (by_proof vp))"
    using thumbprint_ne [OF vp]
    by (auto simp: example_world_def recordedIssuerAndAudience_def IssuerRecordClaim_def AudienceRecordClaim_def
        nonempty_string_def Let_def thumbprint_String_def [of "[]"] split: if_splits)
  from stolen_token_unrecognised [OF example_request_parsed example_targets [unfolded example_verifier_def]
      example_credential [OF vp, unfolded example_verifier_def] this]
  show ?thesis unfolding example_verifier_def .
qed

definition batch_verifier :: "resource_world Verifier" where
  "batch_verifier = example_verifier\<lparr>vfDeps := (vfDeps example_verifier)\<lparr>rdRevocation :=
     \<lparr>rkIsRevoked = (\<lambda>key w. (Inr (IsRevoked key (rwRevoked w)), w)),
      rkIsAnyRevoked = Some (\<lambda>ks w. (Inr (list_ex (\<lambda>key. IsRevoked key (rwRevoked w)) ks), w)),
      rkMaxTokenLifetime = None\<rparr>\<rparr>\<rparr>"

interpretation batch: revocation_contract batch_verifier "\<lambda>w key. IsRevoked key (rwRevoked w)"
  by unfold_locales (auto simp: batch_verifier_def list_ex_iff intro!: reads_simps)

lemma batch_check_agrees_witness:
  "checkNotRevoked batch_verifier (example_resolved [1]) (example_world [1])
     = checkEachNotRevoked batch_verifier (example_resolved [1]) (example_world [1])"
  by (rule batch_check_agrees [OF batch.revocation_contract_axioms])
    (simp_all add: batch_verifier_def example_resolved_def)

end
