(* ===== verification/Client_Assertion.thy ===== *)
theory Client_Assertion
  imports Dpop
begin

text \<open>
  What a client signs for the authorization server, and the server for the client: client
  assertions (\<^verbatim>\<open>internal/clientassertion\<close>), request objects (\<^verbatim>\<open>internal/requestobject\<close>) and
  signed authorization responses (\<^verbatim>\<open>internal/jarm\<close>). Each is parsed before its key is known,
  then verified under a policy. A replay checker is an effect of its store.
\<close>

section \<open>Client assertions\<close>

datatype assertion_error =
    AssertionJose jose_error
  | AssertionOtherType
  | AssertionMalformed
  | ErrRequestClaim string
  | AssertionPolicy string
  | ErrIssuerSubjectMismatch
  | AssertionAudienceMismatch
  | AssertionExpired
  | AssertionLifetimeExceeded
  | AssertionIssuedInFuture
  | AssertionNotYetValid
  | AssertionReplayed
  | AssertionRequestInvalid string
  | NoAssertionEntropy
  | AssertionNotSigned sign_error

definition in_assertion :: "jose_error + 'a \<Rightarrow> assertion_error + 'a" where
  "in_assertion m = (case m of Inl e \<Rightarrow> Inl (AssertionJose e) | Inr x \<Rightarrow> Inr x)"

lemma in_assertion_Inr [simp]: "in_assertion m = Inr x \<longleftrightarrow> m = Inr x"
  by (simp add: in_assertion_def split: sum.splits)

definition clientAuthenticationJWTType :: string where
  "clientAuthenticationJWTType = ''client-authentication+jwt''"

definition requestClaims :: "string list" where
  "requestClaims =
     [''response_type'', ''redirect_uri'', ''scope'', ''state'', ''nonce'',
      ''code_challenge'', ''request'', ''request_uri'', ''claims'', ''authorization_details'',
      ''login_hint'', ''login_hint_token'', ''id_token_hint'', ''binding_message'', ''client_notification_token'']"

record assertion_claims =
  acsIssuer :: string
  acsSubject :: string
  acsAudience :: string
  acsJTI :: string
  acsExpiresAt :: int
  acsIssuedAt :: int
  acsNotBefore :: int

definition assertion_fields :: "string list" where
  "assertion_fields = [''iss'', ''sub'', ''aud'', ''jti'', ''exp'', ''iat'', ''nbf'']"

definition assertion_dec :: "string \<Rightarrow> json \<Rightarrow> assertion_claims \<Rightarrow> assertion_claims option" where
  "assertion_dec name v c =
     (if name = ''iss'' then dec_string (\<lambda>x. acsIssuer_update (\<lambda>_. x)) v c
      else if name = ''sub'' then dec_string (\<lambda>x. acsSubject_update (\<lambda>_. x)) v c
      else if name = ''aud'' then dec_string (\<lambda>x. acsAudience_update (\<lambda>_. x)) v c
      else if name = ''jti'' then dec_string (\<lambda>x. acsJTI_update (\<lambda>_. x)) v c
      else if name = ''exp'' then dec_date (\<lambda>x. acsExpiresAt_update (\<lambda>_. x)) v c
      else if name = ''iat'' then dec_date (\<lambda>x. acsIssuedAt_update (\<lambda>_. x)) v c
      else dec_date (\<lambda>x. acsNotBefore_update (\<lambda>_. x)) v c)"

definition assertion_claims_zero :: assertion_claims where
  "assertion_claims_zero = \<lparr>acsIssuer = [], acsSubject = [], acsAudience = [], acsJTI = [], acsExpiresAt = 0,
     acsIssuedAt = 0, acsNotBefore = 0\<rparr>"

definition refuseRequestClaims :: "json \<Rightarrow> assertion_error + unit" where
  "refuseRequestClaims j =
     (let members = (case unmarshal_object j of None \<Rightarrow> [] | Some ms \<Rightarrow> ms) in
      check_all (\<lambda>name. require (map_of members name = None) (ErrRequestClaim name)) requestClaims)"

definition parseAssertionClaims :: "crypto \<Rightarrow> bytes \<Rightarrow> assertion_error + assertion_claims" where
  "parseAssertionClaims C payload =
     and_then (of_option AssertionMalformed (json_decode C payload)) (\<lambda>j.
     and_then (require (CheckFieldCase (leaves assertion_fields) j) AssertionMalformed) (\<lambda>_.
     and_then (of_option AssertionMalformed (decode_struct assertion_fields assertion_dec assertion_claims_zero j)) (\<lambda>c.
     and_then (refuseRequestClaims j) (\<lambda>_.
     and_then (require (acsIssuer c \<noteq> [] \<and> acsSubject c \<noteq> [] \<and> acsAudience c \<noteq> [] \<and> acsJTI c \<noteq> [] \<and> acsExpiresAt c \<noteq> 0)
       AssertionMalformed) (\<lambda>_. Inr c)))))"

record Assertion =
  asnCompact :: Compact
  asnClaims :: assertion_claims

definition ParseAssertion :: "crypto \<Rightarrow> string \<Rightarrow> assertion_error + Assertion" where
  "ParseAssertion C assertion =
     and_then (in_assertion (ParseCompact C assertion)) (\<lambda>compact.
     and_then (require (RefuseOtherExplicitType (hdType (cmHeader compact)) [clientAuthenticationJWTType]) AssertionOtherType) (\<lambda>_.
     and_then (parseAssertionClaims C (cmPayload compact)) (\<lambda>c.
     Inr \<lparr>asnCompact = compact, asnClaims = c\<rparr>)))"

record AssertionVerifyPolicy =
  avExpectedClientID :: string
  avExpectedAudiences :: "string list"
  avAlgorithm :: SignatureAlgorithm
  avNow :: time
  avMaxLifetime :: duration
  avMaxClockSkew :: duration

record VerifiedAssertion =
  vdClientID :: string
  vdExpiresAt :: time
  vdInstanceKey :: string

definition checkAssertionTimes :: "assertion_claims \<Rightarrow> AssertionVerifyPolicy \<Rightarrow> time \<Rightarrow> assertion_error + unit" where
  "checkAssertionTimes c policy exp =
     (let latest = avNow policy + avMaxClockSkew policy in
      if SaturatingAdd [avMaxLifetime policy, avMaxClockSkew policy] < time_sub exp (avNow policy)
      then Inl AssertionLifetimeExceeded
      else if acsIssuedAt c \<noteq> 0 \<and> latest < time_unix (acsIssuedAt c) then Inl AssertionIssuedInFuture
      else if acsNotBefore c \<noteq> 0 \<and> latest < time_unix (acsNotBefore c) then Inl AssertionNotYetValid
      else Inr ())"

definition verify_assertion :: "crypto \<Rightarrow> Assertion \<Rightarrow> public_key \<Rightarrow> AssertionVerifyPolicy \<Rightarrow> assertion_error + VerifiedAssertion" where
  "verify_assertion C a pub policy =
     and_then (require (avExpectedClientID policy \<noteq> []) (AssertionPolicy ''ExpectedClientID'')) (\<lambda>_.
     and_then (require (avExpectedAudiences policy \<noteq> []) (AssertionPolicy ''ExpectedAudiences'')) (\<lambda>_.
     and_then (require (avNow policy \<noteq> zero_time) (AssertionPolicy ''Now'')) (\<lambda>_.
     and_then (require (0 < avMaxLifetime policy) (AssertionPolicy ''MaxLifetime'')) (\<lambda>_.
     and_then (in_assertion (Compact_Verify C (asnCompact a) pub (avAlgorithm policy))) (\<lambda>_.
     let c = asnClaims a; exp = time_unix (acsExpiresAt c) in
     and_then (require (acsIssuer c = avExpectedClientID policy \<and> acsSubject c = avExpectedClientID policy)
       ErrIssuerSubjectMismatch) (\<lambda>_.
     and_then (require (acsAudience c \<in> set (avExpectedAudiences policy)) AssertionAudienceMismatch) (\<lambda>_.
     and_then (require (\<not> exp + avMaxClockSkew policy < avNow policy) AssertionExpired) (\<lambda>_.
     and_then (checkAssertionTimes c policy exp) (\<lambda>_.
     Inr \<lparr>vdClientID = acsSubject c, vdExpiresAt = exp, vdInstanceKey = []\<rparr>)))))))))"

text \<open>A replay checker is told the identifier and how long to remember it.\<close>

type_synonym ('s, 'e) jti_checker = "string \<Rightarrow> time \<Rightarrow> ('s, 'e, unit) effect"

definition Assertion_Verify :: "crypto \<Rightarrow> Assertion \<Rightarrow> public_key \<Rightarrow> AssertionVerifyPolicy \<Rightarrow> ('s, 'e) jti_checker option
    \<Rightarrow> ('s, assertion_error, VerifiedAssertion) effect" where
  "Assertion_Verify C a pub policy replay =
     bindS (liftS (verify_assertion C a pub policy)) (\<lambda>v.
     bindS (case replay of None \<Rightarrow> liftS (Inr ())
            | Some useOnce \<Rightarrow> catchS (\<lambda>_. AssertionReplayed)
                (useOnce (acsJTI (asnClaims a)) (vdExpiresAt v + SaturatingAdd [avMaxClockSkew policy, avMaxClockSkew policy]))) (\<lambda>_.
     liftS (Inr v)))"

record AssertionRequest =
  arSigner :: "signer option"
  arAlgorithm :: SignatureAlgorithm
  arKeyID :: string
  arClientID :: string
  arAudience :: string
  arNow :: time
  arLifetime :: duration

definition assertionJTI :: "bytes option \<Rightarrow> assertion_error + string" where
  "assertionJTI random =
     (case random of
        None \<Rightarrow> Inl NoAssertionEntropy
      | Some r \<Rightarrow> if length r < 16 then Inl NoAssertionEntropy else Inr (encode_raw True (take 16 r)))"

definition assertion_claims_json :: "assertion_claims \<Rightarrow> json" where
  "assertion_claims_json c =
     JObj ([(''iss'', JStr (acsIssuer c)), (''sub'', JStr (acsSubject c)), (''aud'', JStr (acsAudience c)),
        (''jti'', JStr (acsJTI c)), (''exp'', json_int (acsExpiresAt c))]
       @ (if acsIssuedAt c = 0 then [] else [(''iat'', json_int (acsIssuedAt c))])
       @ (if acsNotBefore c = 0 then [] else [(''nbf'', json_int (acsNotBefore c))]))"

definition assertion_claims_of :: "AssertionRequest \<Rightarrow> string \<Rightarrow> assertion_claims" where
  "assertion_claims_of req jti =
     \<lparr>acsIssuer = arClientID req, acsSubject = arClientID req, acsAudience = arAudience req, acsJTI = jti,
      acsExpiresAt = unix_seconds (arNow req + arLifetime req), acsIssuedAt = unix_seconds (arNow req), acsNotBefore = 0\<rparr>"

definition assertion_header :: "AssertionRequest \<Rightarrow> Header" where
  "assertion_header req =
     \<lparr>hdAlgorithm = arAlgorithm req, hdType = [], hdKeyID = arKeyID req, hdJWK = None, hdX5C = None\<rparr>"

definition CreateAssertion :: "crypto \<Rightarrow> AssertionRequest \<Rightarrow> bytes option \<Rightarrow> assertion_error + string" where
  "CreateAssertion C req random =
     and_then (of_option (AssertionRequestInvalid ''signer'') (arSigner req)) (\<lambda>sg.
     and_then (require (arClientID req \<noteq> []) (AssertionRequestInvalid ''client ID'')) (\<lambda>_.
     and_then (require (arAudience req \<noteq> []) (AssertionRequestInvalid ''audience'')) (\<lambda>_.
     and_then (require (arNow req \<noteq> zero_time) (AssertionRequestInvalid ''now'')) (\<lambda>_.
     and_then (require (0 < arLifetime req) (AssertionRequestInvalid ''lifetime'')) (\<lambda>_.
     and_then (assertionJTI random) (\<lambda>jti.
     map_sum AssertionNotSigned (\<lambda>x. x)
       (Sign C (Some sg) (assertion_header req) (json_marshal C True (assertion_claims_json (assertion_claims_of req jti))))))))))"

end
