(* ===== verification/Request_Object.thy ===== *)
theory Request_Object
  imports Client_Assertion
begin

text \<open>
  Request objects, \<^verbatim>\<open>internal/requestobject\<close>, and signed authorization responses,
  \<^verbatim>\<open>internal/jarm\<close>. Both keep the parameters they carry as a map from which the claims of the JWT
  itself have been taken.
\<close>

section \<open>Request objects\<close>

datatype request_error =
    RequestJose jose_error
  | RequestWrongType
  | RequestMalformed string
  | ErrClientIDIssuerMismatch
  | RequestPolicy string
  | RequestIssuerMismatch
  | RequestAudienceMismatch
  | ErrUnexpectedSubject
  | ErrMissingIssuedAt
  | RequestIssuedInFuture
  | RequestExpired
  | RequestLifetimeExceeded
  | ErrMissingNotBefore
  | RequestNotYetValid
  | ErrNotBeforeTooOld
  | ErrMissingJTI
  | RequestReplayed
  | RequestParamsInvalid string
  | NoRequestEntropy
  | RequestNotSigned sign_error

definition in_request :: "jose_error + 'a \<Rightarrow> request_error + 'a" where
  "in_request m = (case m of Inl e \<Rightarrow> Inl (RequestJose e) | Inr x \<Rightarrow> Inr x)"

lemma in_request_Inr [simp]: "in_request m = Inr x \<longleftrightarrow> m = Inr x"
  by (simp add: in_request_def split: sum.splits)

text \<open>The package's own \<^verbatim>\<open>popString\<close>, \<^verbatim>\<open>popInt64\<close> and \<^verbatim>\<open>popStringOrArray\<close> are those of tokens, with its errors.\<close>

definition in_pop :: "token_error + 'a \<Rightarrow> request_error + 'a" where
  "in_pop m = (case m of Inl (ErrMalformedClaims key) \<Rightarrow> Inl (RequestMalformed key) | Inl _ \<Rightarrow> Inl (RequestMalformed [])
     | Inr x \<Rightarrow> Inr x)"

lemma in_pop_Inr [simp]: "in_pop m = Inr x \<longleftrightarrow> m = Inr x"
  by (simp add: in_pop_def split: sum.splits token_error.splits)

definition requestObjectType :: string where "requestObjectType = ''oauth-authz-req+jwt''"

definition isRequestObjectType :: "string \<Rightarrow> bool" where
  "isRequestObjectType typ \<longleftrightarrow> TypeIs typ requestObjectType \<or> TypeIs typ ''JWT''"

record RequestClaims =
  rcIssuer :: string
  rcAudience :: "string list"
  rcExpiresAt :: time
  rcIssuedAt :: time
  rcNotBefore :: time
  rcJTI :: string
  rcHasSubject :: bool
  rcParameters :: "json assoc"

definition popIssuedAt :: "json assoc \<Rightarrow> request_error + (int \<times> bool \<times> json assoc)" where
  "popIssuedAt m =
     (if map_of m ''iat'' = Some JNull then Inr (0, False, AList.delete ''iat'' m)
      else and_then (in_pop (popInt64 m ''iat'' False)) (\<lambda>(iat, present, m).
        and_then (require (\<not> (present \<and> iat \<le> 0)) (RequestMalformed ''iat'')) (\<lambda>_. Inr (iat, present, m))))"

definition checkClientID :: "json assoc \<Rightarrow> string \<Rightarrow> request_error + unit" where
  "checkClientID m iss =
     (case map_of m ''client_id'' of
        None \<Rightarrow> Inr ()
      | Some raw \<Rightarrow>
          (case unmarshal_string raw of
             None \<Rightarrow> Inl (RequestMalformed ''client_id'')
           | Some clientID \<Rightarrow> require (clientID = iss) ErrClientIDIssuerMismatch))"

definition parseRequestClaims :: "crypto \<Rightarrow> bytes \<Rightarrow> request_error + RequestClaims" where
  "parseRequestClaims C payload =
     and_then (of_option (RequestMalformed []) (Option.bind (json_decode C payload) unmarshal_object)) (\<lambda>raw.
     and_then (in_pop (popString raw ''iss'' True)) (\<lambda>(iss, _, raw).
     and_then (in_pop (popStringOrStringSlice raw ''aud'')) (\<lambda>(aud, raw).
     and_then (in_pop (popInt64 raw ''exp'' True)) (\<lambda>(exp, _, raw).
     and_then (in_pop (popInt64 raw ''nbf'' False)) (\<lambda>(nbf, hasNbf, raw).
     and_then (popIssuedAt raw) (\<lambda>(iat, hasIat, raw).
     and_then (in_pop (popString raw ''jti'' False)) (\<lambda>(jti, _, raw).
     and_then (in_pop (popString raw ''sub'' False)) (\<lambda>(_, hasSub, raw).
     and_then (checkClientID raw iss) (\<lambda>_.
     Inr \<lparr>rcIssuer = iss, rcAudience = aud, rcExpiresAt = time_unix exp,
       rcIssuedAt = (if hasIat then time_unix iat else zero_time),
       rcNotBefore = (if hasNbf then time_unix nbf else zero_time),
       rcJTI = jti, rcHasSubject = hasSub, rcParameters = raw\<rparr>)))))))))"

record RequestObject =
  roCompact :: Compact
  roClaims :: RequestClaims

definition ParseRequestObject :: "crypto \<Rightarrow> string \<Rightarrow> request_error + RequestObject" where
  "ParseRequestObject C tok =
     and_then (in_request (ParseCompact C tok)) (\<lambda>compact.
     let typ = hdType (cmHeader compact) in
     and_then (require (typ = [] \<or> isRequestObjectType typ) RequestWrongType) (\<lambda>_.
     and_then (parseRequestClaims C (cmPayload compact)) (\<lambda>claims.
     Inr \<lparr>roCompact = compact, roClaims = claims\<rparr>)))"

record RequestVerifyPolicy =
  rpExpectedClientID :: string
  rpExpectedAudience :: string
  rpAlgorithm :: SignatureAlgorithm
  rpNow :: time
  rpMaxLifetime :: duration
  rpMaxClockSkew :: duration
  rpRequireNotBefore :: bool
  rpRequireIssuedAt :: bool
  rpRequireJTI :: bool
  rpAutomaticFederationRegistration :: bool

record VerifiedObject =
  voClientID :: string
  voParameters :: "json assoc"
  voExpiresAt :: time

definition checkAudienceAndSubject :: "RequestClaims \<Rightarrow> RequestVerifyPolicy \<Rightarrow> request_error + unit" where
  "checkAudienceAndSubject c policy =
     (if rcHasSubject c then Inl ErrUnexpectedSubject
      else if rpAutomaticFederationRegistration policy
      then require (rcAudience c = [rpExpectedAudience policy]) RequestAudienceMismatch
      else require (rpExpectedAudience policy \<in> set (rcAudience c)) RequestAudienceMismatch)"

definition checkIssuedAt :: "RequestClaims \<Rightarrow> RequestVerifyPolicy \<Rightarrow> request_error + unit" where
  "checkIssuedAt c policy =
     (if rcIssuedAt c = zero_time then require (\<not> rpRequireIssuedAt policy) ErrMissingIssuedAt
      else require (\<not> rpNow policy + rpMaxClockSkew policy < rcIssuedAt c) RequestIssuedInFuture)"

definition checkLifetime :: "RequestClaims \<Rightarrow> RequestVerifyPolicy \<Rightarrow> request_error + unit" where
  "checkLifetime c policy =
     (if rcExpiresAt c + rpMaxClockSkew policy < rpNow policy then Inl RequestExpired
      else if SaturatingAdd [rpMaxLifetime policy, rpMaxClockSkew policy] < time_sub (rcExpiresAt c) (rpNow policy)
      then Inl RequestLifetimeExceeded
      else if rcNotBefore c = zero_time then require (\<not> rpRequireNotBefore policy) ErrMissingNotBefore
      else if rpNow policy < rcNotBefore c - rpMaxClockSkew policy then Inl RequestNotYetValid
      else if rpMaxLifetime policy < time_sub (rpNow policy) (rcNotBefore c) then Inl ErrNotBeforeTooOld
      else if rpMaxLifetime policy < time_sub (rcExpiresAt c) (rcNotBefore c) then Inl RequestLifetimeExceeded
      else Inr ())"

definition verify_request :: "crypto \<Rightarrow> RequestObject \<Rightarrow> public_key \<Rightarrow> RequestVerifyPolicy \<Rightarrow> request_error + VerifiedObject" where
  "verify_request C ob pub policy =
     and_then (require (rpExpectedClientID policy \<noteq> []) (RequestPolicy ''ExpectedClientID'')) (\<lambda>_.
     and_then (require (rpExpectedAudience policy \<noteq> []) (RequestPolicy ''ExpectedAudience'')) (\<lambda>_.
     and_then (require (rpNow policy \<noteq> zero_time) (RequestPolicy ''Now'')) (\<lambda>_.
     and_then (require (0 < rpMaxLifetime policy) (RequestPolicy ''MaxLifetime'')) (\<lambda>_.
     and_then (in_request (Compact_Verify C (roCompact ob) pub (rpAlgorithm policy))) (\<lambda>_.
     let c = roClaims ob in
     and_then (require (rcIssuer c = rpExpectedClientID policy) RequestIssuerMismatch) (\<lambda>_.
     and_then (checkAudienceAndSubject c policy) (\<lambda>_.
     and_then (checkIssuedAt c policy) (\<lambda>_.
     and_then (checkLifetime c policy) (\<lambda>_.
     and_then (require (\<not> (rcJTI c = [] \<and> (rpRequireJTI policy \<or> rpAutomaticFederationRegistration policy))) ErrMissingJTI) (\<lambda>_.
     Inr \<lparr>voClientID = rcIssuer c, voParameters = rcParameters c, voExpiresAt = rcExpiresAt c\<rparr>))))))))))"

definition RequestObject_Verify :: "crypto \<Rightarrow> RequestObject \<Rightarrow> public_key \<Rightarrow> RequestVerifyPolicy \<Rightarrow> ('s, 'e) jti_checker option
    \<Rightarrow> ('s, request_error, VerifiedObject) effect" where
  "RequestObject_Verify C ob pub policy replay =
     bindS (liftS (verify_request C ob pub policy)) (\<lambda>v.
     bindS (case replay of
              Some useOnce \<Rightarrow>
                if rcJTI (roClaims ob) \<noteq> [] then catchS (\<lambda>_. RequestReplayed)
                  (useOnce (rcJTI (roClaims ob)) (rcExpiresAt (roClaims ob) + SaturatingAdd [rpMaxClockSkew policy, rpMaxClockSkew policy]))
                else liftS (Inr ())
            | None \<Rightarrow> liftS (Inr ())) (\<lambda>_.
     liftS (Inr v)))"

record RequestCreateParams =
  cpSigner :: "signer option"
  cpAlgorithm :: SignatureAlgorithm
  cpKeyID :: string
  cpClientID :: string
  cpAudience :: string
  cpNow :: time
  cpLifetime :: duration
  cpParameters :: "json assoc"

definition standard_request_claims :: "RequestCreateParams \<Rightarrow> string \<Rightarrow> json assoc" where
  "standard_request_claims p jti =
     [(''iss'', JStr (cpClientID p)), (''aud'', JStr (cpAudience p)),
      (''exp'', json_int (unix_seconds (cpNow p + cpLifetime p))), (''nbf'', json_int (unix_seconds (cpNow p))),
      (''iat'', json_int (unix_seconds (cpNow p))), (''jti'', JStr jti)]"

definition request_header :: "RequestCreateParams \<Rightarrow> Header" where
  "request_header p =
     \<lparr>hdAlgorithm = cpAlgorithm p, hdType = requestObjectType, hdKeyID = cpKeyID p, hdJWK = None, hdX5C = None\<rparr>"

definition requestJTI :: "bytes option \<Rightarrow> request_error + string" where
  "requestJTI random =
     (case random of
        None \<Rightarrow> Inl NoRequestEntropy
      | Some r \<Rightarrow> if length r < 16 then Inl NoRequestEntropy else Inr (encode_raw True (take 16 r)))"

definition CreateRequestObject :: "crypto \<Rightarrow> RequestCreateParams \<Rightarrow> bytes option \<Rightarrow> request_error + string" where
  "CreateRequestObject C p random =
     and_then (of_option (RequestParamsInvalid ''signer'') (cpSigner p)) (\<lambda>sg.
     and_then (require (cpClientID p \<noteq> []) (RequestParamsInvalid ''client ID'')) (\<lambda>_.
     and_then (require (cpAudience p \<noteq> []) (RequestParamsInvalid ''audience'')) (\<lambda>_.
     and_then (require (cpNow p \<noteq> zero_time) (RequestParamsInvalid ''now'')) (\<lambda>_.
     and_then (require (0 < cpLifetime p) (RequestParamsInvalid ''lifetime'')) (\<lambda>_.
     and_then (check_all (\<lambda>reserved. require (map_of (cpParameters p) reserved = None) (RequestParamsInvalid reserved))
         [''iss'', ''aud'', ''exp'', ''nbf'', ''iat'', ''jti'']) (\<lambda>_.
     and_then (case map_of (cpParameters p) ''client_id'' of None \<Rightarrow> Inr ()
         | Some raw \<Rightarrow> require (unmarshal_string raw = Some (cpClientID p)) (RequestParamsInvalid ''client_id'')) (\<lambda>_.
     and_then (requestJTI random) (\<lambda>jti.
     map_sum RequestNotSigned (\<lambda>x. x)
       (Sign C (Some sg) (request_header p)
         (MarshalUnescaped C (marshal_object (overlay (cpParameters p) (standard_request_claims p jti)))))))))))))"

section \<open>Signed authorization responses\<close>

datatype jarm_error =
    JarmJose jose_error
  | JarmNotGenericType
  | JarmMalformed string
  | JarmPolicy string
  | JarmIssuerMismatch
  | JarmAudienceMismatch
  | JarmExpired
  | JarmLifetimeExceeded
  | JarmNotYetValid
  | ErrNotAuthorizationResponse
  | ErrIDTokenClaims string
  | JarmParamsInvalid string
  | JarmNotSigned sign_error

definition in_jarm :: "jose_error + 'a \<Rightarrow> jarm_error + 'a" where
  "in_jarm m = (case m of Inl e \<Rightarrow> Inl (JarmJose e) | Inr x \<Rightarrow> Inr x)"

lemma in_jarm_Inr [simp]: "in_jarm m = Inr x \<longleftrightarrow> m = Inr x"
  by (simp add: in_jarm_def split: sum.splits)

definition jarm_pop :: "token_error + 'a \<Rightarrow> jarm_error + 'a" where
  "jarm_pop m = (case m of Inl (ErrMalformedClaims key) \<Rightarrow> Inl (JarmMalformed key) | Inl _ \<Rightarrow> Inl (JarmMalformed [])
     | Inr x \<Rightarrow> Inr x)"

lemma jarm_pop_Inr [simp]: "jarm_pop m = Inr x \<longleftrightarrow> m = Inr x"
  by (simp add: jarm_pop_def split: sum.splits token_error.splits)

record JarmClaims =
  jcIssuer :: string
  jcAudience :: string
  jcExpiresAt :: time
  jcIssuedAt :: time
  jcNotBefore :: time
  jcParameters :: "json assoc"

definition parseJarmClaims :: "crypto \<Rightarrow> bytes \<Rightarrow> jarm_error + JarmClaims" where
  "parseJarmClaims C payload =
     and_then (of_option (JarmMalformed []) (Option.bind (json_decode C payload) unmarshal_object)) (\<lambda>raw.
     and_then (jarm_pop (popString raw ''iss'' True)) (\<lambda>(iss, _, raw).
     and_then (jarm_pop (popString raw ''aud'' True)) (\<lambda>(aud, _, raw).
     and_then (jarm_pop (popInt64 raw ''exp'' True)) (\<lambda>(exp, _, raw).
     and_then (jarm_pop (popInt64 raw ''nbf'' False)) (\<lambda>(nbf, hasNbf, raw).
     and_then (jarm_pop (popInt64 raw ''iat'' False)) (\<lambda>(iat, hasIat, raw).
     Inr \<lparr>jcIssuer = iss, jcAudience = aud, jcExpiresAt = time_unix exp,
       jcIssuedAt = (if hasIat then time_unix iat else zero_time),
       jcNotBefore = (if hasNbf then time_unix nbf else zero_time), jcParameters = raw\<rparr>))))))"

record JarmResponse =
  jrCompact :: Compact
  jrClaims :: JarmClaims

definition ParseJarm :: "crypto \<Rightarrow> string \<Rightarrow> jarm_error + JarmResponse" where
  "ParseJarm C tok =
     and_then (in_jarm (ParseCompact C tok)) (\<lambda>compact.
     and_then (require (RequireGenericType (hdType (cmHeader compact))) JarmNotGenericType) (\<lambda>_.
     and_then (parseJarmClaims C (cmPayload compact)) (\<lambda>claims.
     Inr \<lparr>jrCompact = compact, jrClaims = claims\<rparr>)))"

definition idTokenClaims :: "string list" where
  "idTokenClaims = [''sub'', ''nonce'', ''auth_time'', ''acr'', ''amr'', ''azp'', ''at_hash'', ''c_hash'', ''s_hash'']"

definition checkAuthorizationResponseShape :: "json assoc \<Rightarrow> jarm_error + unit" where
  "checkAuthorizationResponseShape params =
     and_then (require (map_of params ''code'' \<noteq> None \<or> map_of params ''error'' \<noteq> None) ErrNotAuthorizationResponse) (\<lambda>_.
     check_all (\<lambda>name. require (map_of params name = None) (ErrIDTokenClaims name)) idTokenClaims)"

record JarmVerifyPolicy =
  jpExpectedIssuer :: string
  jpExpectedAudience :: string
  jpAlgorithm :: SignatureAlgorithm
  jpNow :: time
  jpMaxLifetime :: duration
  jpMaxClockSkew :: duration

record VerifiedResponse =
  vrIssuer :: string
  vrParameters :: "json assoc"
  vrExpiresAt :: time

definition Jarm_Verify :: "crypto \<Rightarrow> JarmResponse \<Rightarrow> public_key \<Rightarrow> JarmVerifyPolicy \<Rightarrow> jarm_error + VerifiedResponse" where
  "Jarm_Verify C r pub policy =
     and_then (require (jpExpectedIssuer policy \<noteq> []) (JarmPolicy ''ExpectedIssuer'')) (\<lambda>_.
     and_then (require (jpExpectedAudience policy \<noteq> []) (JarmPolicy ''ExpectedAudience'')) (\<lambda>_.
     and_then (require (jpNow policy \<noteq> zero_time) (JarmPolicy ''Now'')) (\<lambda>_.
     and_then (require (0 < jpMaxLifetime policy) (JarmPolicy ''MaxLifetime'')) (\<lambda>_.
     and_then (in_jarm (Compact_Verify C (jrCompact r) pub (jpAlgorithm policy))) (\<lambda>_.
     let c = jrClaims r in
     and_then (require (jcIssuer c = jpExpectedIssuer policy) JarmIssuerMismatch) (\<lambda>_.
     and_then (require (jcAudience c = jpExpectedAudience policy) JarmAudienceMismatch) (\<lambda>_.
     and_then (require (\<not> jcExpiresAt c + jpMaxClockSkew policy < jpNow policy) JarmExpired) (\<lambda>_.
     and_then (require (\<not> SaturatingAdd [jpMaxLifetime policy, jpMaxClockSkew policy] < time_sub (jcExpiresAt c) (jpNow policy))
       JarmLifetimeExceeded) (\<lambda>_.
     and_then (require (\<not> (jcNotBefore c \<noteq> zero_time \<and> jpNow policy < jcNotBefore c - jpMaxClockSkew policy))
       JarmNotYetValid) (\<lambda>_.
     and_then (checkAuthorizationResponseShape (jcParameters c)) (\<lambda>_.
     Inr \<lparr>vrIssuer = jcIssuer c, vrParameters = jcParameters c, vrExpiresAt = jcExpiresAt c\<rparr>)))))))))))"

record JarmCreateParams =
  jmSigner :: "signer option"
  jmAlgorithm :: SignatureAlgorithm
  jmKeyID :: string
  jmIssuer :: string
  jmAudience :: string
  jmNow :: time
  jmLifetime :: duration
  jmParameters :: "json assoc"

definition standard_jarm_claims :: "JarmCreateParams \<Rightarrow> json assoc" where
  "standard_jarm_claims p =
     [(''iss'', JStr (jmIssuer p)), (''aud'', JStr (jmAudience p)),
      (''exp'', json_int (unix_seconds (jmNow p + jmLifetime p))), (''iat'', json_int (unix_seconds (jmNow p)))]"

definition jarm_header :: "JarmCreateParams \<Rightarrow> Header" where
  "jarm_header p = \<lparr>hdAlgorithm = jmAlgorithm p, hdType = [], hdKeyID = jmKeyID p, hdJWK = None, hdX5C = None\<rparr>"

definition CreateJarm :: "crypto \<Rightarrow> JarmCreateParams \<Rightarrow> jarm_error + string" where
  "CreateJarm C p =
     and_then (of_option (JarmParamsInvalid ''signer'') (jmSigner p)) (\<lambda>sg.
     and_then (require (jmIssuer p \<noteq> []) (JarmParamsInvalid ''issuer'')) (\<lambda>_.
     and_then (require (jmAudience p \<noteq> []) (JarmParamsInvalid ''audience'')) (\<lambda>_.
     and_then (require (jmNow p \<noteq> zero_time) (JarmParamsInvalid ''now'')) (\<lambda>_.
     and_then (require (0 < jmLifetime p) (JarmParamsInvalid ''lifetime'')) (\<lambda>_.
     and_then (check_all (\<lambda>reserved. require (map_of (jmParameters p) reserved = None) (JarmParamsInvalid reserved))
         [''iss'', ''aud'', ''exp'', ''nbf'', ''iat'']) (\<lambda>_.
     map_sum JarmNotSigned (\<lambda>x. x)
       (Sign C (Some sg) (jarm_header p)
         (json_marshal C True (marshal_object (overlay (jmParameters p) (standard_jarm_claims p)))))))))))"

end
