(* ===== verification/Client_Attestation.thy ===== *)
theory Client_Attestation
  imports Client_Assertion
begin

text \<open>
  \<^verbatim>\<open>internal/clientattestation\<close>: an Attester vouches for the key of a client's instance, and
  the instance proves that it holds the key. The key of the proof is known only from the attestation.
\<close>

datatype attestation_error =
    AttestationJose jose_error
  | AttestationMalformed
  | ErrTypMismatch
  | AttestationIssuerMismatch
  | ErrAttestationSubject
  | PoPAudienceMismatch
  | ErrChallenge
  | AttestationExpired
  | AttestationNotYetValid
  | AttestationLifetime
  | AttestationPolicy string
  | ConfirmationKey key_error
  | NoInstanceThumbprint
  | PoPReplayed
  | MalformedCertificateChain
  | PoPRequestInvalid string
  | NoPoPEntropy
  | PoPNotSigned sign_error

definition in_attestation :: "jose_error + 'a \<Rightarrow> attestation_error + 'a" where
  "in_attestation m = (case m of Inl e \<Rightarrow> Inl (AttestationJose e) | Inr x \<Rightarrow> Inr x)"

lemma in_attestation_Inr [simp]: "in_attestation m = Inr x \<longleftrightarrow> m = Inr x"
  by (simp add: in_attestation_def split: sum.splits)

section \<open>Claims\<close>

record attestation_claims =
  tcIssuer :: string
  tcSubject :: string
  tcExpiresAt :: int
  tcIssuedAt :: int
  tcNotBefore :: int
  tcConfirmationJWK :: raw

definition attestation_fields :: "string list" where
  "attestation_fields = [''iss'', ''sub'', ''exp'', ''iat'', ''nbf'', ''cnf'']"

definition attestation_type :: go_type where
  "attestation_type = TStruct (map (\<lambda>n. (n, if n = ''cnf'' then leaves [''jwk''] else TLeaf)) attestation_fields)"

definition confirmation_dec :: "string \<Rightarrow> json \<Rightarrow> raw \<Rightarrow> raw option" where
  "confirmation_dec name v r = Some (Some v)"

definition attestation_dec :: "string \<Rightarrow> json \<Rightarrow> attestation_claims \<Rightarrow> attestation_claims option" where
  "attestation_dec name v c =
     (if name = ''iss'' then dec_string (\<lambda>x. tcIssuer_update (\<lambda>_. x)) v c
      else if name = ''sub'' then dec_string (\<lambda>x. tcSubject_update (\<lambda>_. x)) v c
      else if name = ''exp'' then dec_date (\<lambda>x. tcExpiresAt_update (\<lambda>_. x)) v c
      else if name = ''iat'' then dec_date (\<lambda>x. tcIssuedAt_update (\<lambda>_. x)) v c
      else if name = ''nbf'' then dec_date (\<lambda>x. tcNotBefore_update (\<lambda>_. x)) v c
      else map_option (\<lambda>jwk. c\<lparr>tcConfirmationJWK := jwk\<rparr>)
        (decode_struct [''jwk''] confirmation_dec (tcConfirmationJWK c) v))"

definition attestation_claims_zero :: attestation_claims where
  "attestation_claims_zero = \<lparr>tcIssuer = [], tcSubject = [], tcExpiresAt = 0, tcIssuedAt = 0, tcNotBefore = 0,
     tcConfirmationJWK = None\<rparr>"

definition parseAttestationClaims :: "crypto \<Rightarrow> bytes \<Rightarrow> attestation_error + attestation_claims" where
  "parseAttestationClaims C payload =
     and_then (of_option AttestationMalformed (json_decode C payload)) (\<lambda>j.
     and_then (require (CheckFieldCase attestation_type j) AttestationMalformed) (\<lambda>_.
     and_then (of_option AttestationMalformed (decode_struct attestation_fields attestation_dec attestation_claims_zero j)) (\<lambda>c.
     and_then (require (tcSubject c \<noteq> [] \<and> tcExpiresAt c \<noteq> 0 \<and> tcConfirmationJWK c \<noteq> None) AttestationMalformed) (\<lambda>_.
     Inr c))))"

record pop_claims =
  poIssuer :: string
  poAudience :: string
  poJTI :: string
  poIssuedAt :: int
  poExpiresAt :: int
  poChallenge :: string
  poNotBefore :: int

definition pop_fields :: "string list" where
  "pop_fields = [''iss'', ''aud'', ''jti'', ''iat'', ''exp'', ''challenge'', ''nbf'']"

text \<open>\<^verbatim>\<open>popAudience\<close> decodes itself: one string, or an array of one. A null is the empty string.\<close>

definition popAudience :: "json \<Rightarrow> string option" where
  "popAudience j =
     (case j of
        JArr _ \<Rightarrow> (case unmarshal_strings j of Some (Some [one]) \<Rightarrow> Some one | _ \<Rightarrow> None)
      | _ \<Rightarrow> unmarshal_string j)"

definition pop_dec :: "string \<Rightarrow> json \<Rightarrow> pop_claims \<Rightarrow> pop_claims option" where
  "pop_dec name v c =
     (if name = ''iss'' then dec_string (\<lambda>x. poIssuer_update (\<lambda>_. x)) v c
      else if name = ''aud'' then map_option (\<lambda>x. c\<lparr>poAudience := x\<rparr>) (popAudience v)
      else if name = ''jti'' then dec_string (\<lambda>x. poJTI_update (\<lambda>_. x)) v c
      else if name = ''iat'' then dec_date (\<lambda>x. poIssuedAt_update (\<lambda>_. x)) v c
      else if name = ''exp'' then dec_date (\<lambda>x. poExpiresAt_update (\<lambda>_. x)) v c
      else if name = ''challenge'' then dec_string (\<lambda>x. poChallenge_update (\<lambda>_. x)) v c
      else dec_date (\<lambda>x. poNotBefore_update (\<lambda>_. x)) v c)"

definition pop_claims_zero :: pop_claims where
  "pop_claims_zero = \<lparr>poIssuer = [], poAudience = [], poJTI = [], poIssuedAt = 0, poExpiresAt = 0, poChallenge = [],
     poNotBefore = 0\<rparr>"

definition parsePoPClaims :: "crypto \<Rightarrow> bytes \<Rightarrow> attestation_error + pop_claims" where
  "parsePoPClaims C payload =
     and_then (of_option AttestationMalformed (json_decode C payload)) (\<lambda>j.
     and_then (require (CheckFieldCase (leaves pop_fields) j) AttestationMalformed) (\<lambda>_.
     and_then (of_option AttestationMalformed (decode_struct pop_fields pop_dec pop_claims_zero j)) (\<lambda>c.
     and_then (require (poAudience c \<noteq> [] \<and> poJTI c \<noteq> [] \<and> poIssuedAt c \<noteq> 0) AttestationMalformed) (\<lambda>_.
     Inr c))))"

section \<open>Attestations\<close>

definition attestationType :: string where "attestationType = ''oauth-client-attestation+jwt''"

record Attestation =
  tnCompact :: Compact
  tnClaims :: attestation_claims

definition ParseAttestation :: "crypto \<Rightarrow> string \<Rightarrow> attestation_error + Attestation" where
  "ParseAttestation C attestation =
     and_then (in_attestation (ParseCompact C attestation)) (\<lambda>compact.
     and_then (parseAttestationClaims C (cmPayload compact)) (\<lambda>c.
     Inr \<lparr>tnCompact = compact, tnClaims = c\<rparr>))"

definition MaxCertificateChainLength :: nat where "MaxCertificateChainLength = 10"

text \<open>The certificates of the header, and whether it carried any.\<close>

definition CertificateChain :: "Attestation \<Rightarrow> attestation_error + (bytes list \<times> bool)" where
  "CertificateChain a =
     (case hdX5C (cmHeader (tnCompact a)) of
        None \<Rightarrow> Inr ([], False)
      | Some raw \<Rightarrow>
          (case unmarshal_strings raw of
             Some (Some entries) \<Rightarrow>
               and_then (require (entries \<noteq> []) MalformedCertificateChain) (\<lambda>_.
               and_then (require (length entries \<le> MaxCertificateChainLength) MalformedCertificateChain) (\<lambda>_.
               and_then (mapR (\<lambda>e. case Std e of
                   Inr der \<Rightarrow> if der = [] then Inl MalformedCertificateChain else Inr der
                 | Inl _ \<Rightarrow> Inl MalformedCertificateChain) entries) (\<lambda>ders.
               Inr (ders, True))))
           | _ \<Rightarrow> Inl MalformedCertificateChain))"

record AttestationVerifyPolicy =
  tapExpectedIssuer :: string
  tapExpectedSubject :: string
  tapAlgorithm :: SignatureAlgorithm
  tapNow :: time
  tapMaxLifetime :: duration
  tapMaxClockSkew :: duration

record VerifiedAttestation =
  vtClientID :: string
  vtExpiresAt :: time
  vtIssuedAt :: time
  vtClaims :: "json assoc"
  vtConfirmationJWK :: raw

definition VerifySignature :: "crypto \<Rightarrow> Attestation \<Rightarrow> public_key \<Rightarrow> SignatureAlgorithm \<Rightarrow> attestation_error + unit" where
  "VerifySignature C a pub alg = in_attestation (Compact_Verify C (tnCompact a) pub alg)"

definition checkAttestationTimes :: "attestation_claims \<Rightarrow> AttestationVerifyPolicy \<Rightarrow> attestation_error + unit" where
  "checkAttestationTimes c policy =
     (let exp = time_unix (tcExpiresAt c); latest = tapNow policy + tapMaxClockSkew policy in
      if exp + tapMaxClockSkew policy < tapNow policy then Inl AttestationExpired
      else if SaturatingAdd [tapMaxLifetime policy, tapMaxClockSkew policy] < time_sub exp (tapNow policy)
      then Inl AttestationLifetime
      else if tcNotBefore c \<noteq> 0 \<and> latest < time_unix (tcNotBefore c) then Inl AttestationNotYetValid
      else if tcIssuedAt c \<noteq> 0 \<and> latest < time_unix (tcIssuedAt c) then Inl AttestationNotYetValid
      else Inr ())"

definition Attestation_Verify :: "crypto \<Rightarrow> Attestation \<Rightarrow> public_key \<Rightarrow> AttestationVerifyPolicy
    \<Rightarrow> attestation_error + VerifiedAttestation" where
  "Attestation_Verify C a pub policy =
     and_then (require (tapExpectedIssuer policy \<noteq> []) (AttestationPolicy ''ExpectedIssuer'')) (\<lambda>_.
     and_then (require (tapExpectedSubject policy \<noteq> []) (AttestationPolicy ''ExpectedSubject'')) (\<lambda>_.
     and_then (require (tapNow policy \<noteq> zero_time) (AttestationPolicy ''Now'')) (\<lambda>_.
     and_then (require (0 < tapMaxLifetime policy) (AttestationPolicy ''MaxLifetime'')) (\<lambda>_.
     and_then (require (TypeIs (hdType (cmHeader (tnCompact a))) attestationType) ErrTypMismatch) (\<lambda>_.
     and_then (in_attestation (Compact_Verify C (tnCompact a) pub (tapAlgorithm policy))) (\<lambda>_.
     let c = tnClaims a in
     and_then (require (tcIssuer c = [] \<or> tcIssuer c = tapExpectedIssuer policy) AttestationIssuerMismatch) (\<lambda>_.
     and_then (require (tcSubject c = tapExpectedSubject policy) ErrAttestationSubject) (\<lambda>_.
     and_then (checkAttestationTimes c policy) (\<lambda>_.
     and_then (of_option AttestationMalformed (Option.bind (json_decode C (cmPayload (tnCompact a))) unmarshal_object)) (\<lambda>all.
     Inr \<lparr>vtClientID = tcSubject c, vtExpiresAt = time_unix (tcExpiresAt c),
       vtIssuedAt = (if tcIssuedAt c \<noteq> 0 then time_unix (tcIssuedAt c) else zero_time),
       vtClaims = all, vtConfirmationJWK = tcConfirmationJWK c\<rparr>))))))))))"

section \<open>Proofs of possession\<close>

definition popType :: string where "popType = ''oauth-client-attestation-pop+jwt''"

record PoP =
  pnCompact :: Compact
  pnClaims :: pop_claims

definition ParsePoP :: "crypto \<Rightarrow> string \<Rightarrow> attestation_error + PoP" where
  "ParsePoP C pop =
     and_then (in_attestation (ParseCompact C pop)) (\<lambda>compact.
     and_then (parsePoPClaims C (cmPayload compact)) (\<lambda>c.
     Inr \<lparr>pnCompact = compact, pnClaims = c\<rparr>))"

record PoPVerifyPolicy =
  ppClientID :: string
  ppExpectedAudience :: string
  ppExpectedChallenge :: string
  ppNow :: time
  ppMaxAge :: duration
  ppMaxClockSkew :: duration

record VerifiedPoP =
  vqClientID :: string
  vqIssuedAt :: time
  vqInstanceKey :: bytes

definition checkPoPTimes :: "pop_claims \<Rightarrow> time \<Rightarrow> PoPVerifyPolicy \<Rightarrow> attestation_error + unit" where
  "checkPoPTimes c iat policy =
     (let latest = ppNow policy + ppMaxClockSkew policy in
      if latest < iat then Inl AttestationNotYetValid
      else if ppMaxAge policy < time_sub (ppNow policy) iat then Inl AttestationExpired
      else if poExpiresAt c \<noteq> 0 \<and> time_unix (poExpiresAt c) + ppMaxClockSkew policy < ppNow policy then Inl AttestationExpired
      else if poNotBefore c \<noteq> 0 \<and> latest < time_unix (poNotBefore c) then Inl AttestationNotYetValid
      else Inr ())"

text \<open>\<^verbatim>\<open>Verify\<close> up to the replay check; an absent confirmation key parses as no bytes would.\<close>

definition verify_pop :: "crypto \<Rightarrow> PoP \<Rightarrow> raw \<Rightarrow> PoPVerifyPolicy \<Rightarrow> attestation_error + VerifiedPoP" where
  "verify_pop C p confirmationJWK policy =
     and_then (require (ppClientID policy \<noteq> []) (AttestationPolicy ''ClientID'')) (\<lambda>_.
     and_then (require (ppExpectedAudience policy \<noteq> []) (AttestationPolicy ''ExpectedAudience'')) (\<lambda>_.
     and_then (require (ppNow policy \<noteq> zero_time) (AttestationPolicy ''Now'')) (\<lambda>_.
     and_then (require (0 < ppMaxAge policy) (AttestationPolicy ''MaxAge'')) (\<lambda>_.
     let header = cmHeader (pnCompact p) in
     and_then (require (TypeIs (hdType header) popType) ErrTypMismatch) (\<lambda>_.
     and_then (of_option (ConfirmationKey MalformedJWK) confirmationJWK) (\<lambda>jwk_json.
     and_then (map_sum ConfirmationKey (\<lambda>x. x) (ParseJWK C jwk_json (hdAlgorithm header))) (\<lambda>jwk.
     and_then (in_attestation (Compact_Verify C (pnCompact p) (jkPub jwk) (hdAlgorithm header))) (\<lambda>_.
     let c = pnClaims p; iat = time_unix (poIssuedAt c) in
     and_then (require (poIssuer c = [] \<or> poIssuer c = ppClientID policy) AttestationIssuerMismatch) (\<lambda>_.
     and_then (require (poAudience c = ppExpectedAudience policy) PoPAudienceMismatch) (\<lambda>_.
     and_then (require (ppExpectedChallenge policy = [] \<or> poChallenge c = ppExpectedChallenge policy) ErrChallenge) (\<lambda>_.
     and_then (checkPoPTimes c iat policy) (\<lambda>_.
     and_then (of_option NoInstanceThumbprint (Thumbprint C jwk)) (\<lambda>instanceKey.
     Inr \<lparr>vqClientID = ppClientID policy, vqIssuedAt = iat, vqInstanceKey = instanceKey\<rparr>)))))))))))))"

definition PoP_Verify :: "crypto \<Rightarrow> PoP \<Rightarrow> raw \<Rightarrow> PoPVerifyPolicy
    \<Rightarrow> (bytes \<Rightarrow> string \<Rightarrow> time \<Rightarrow> ('s, 'e, unit) effect) option \<Rightarrow> ('s, attestation_error, VerifiedPoP) effect" where
  "PoP_Verify C p confirmationJWK policy replay =
     bindS (liftS (verify_pop C p confirmationJWK policy)) (\<lambda>v.
     bindS (case replay of None \<Rightarrow> liftS (Inr ())
            | Some useOnce \<Rightarrow> catchS (\<lambda>_. PoPReplayed)
                (useOnce (vqInstanceKey v) (poJTI (pnClaims p))
                  (vqIssuedAt v + SaturatingAdd [ppMaxAge policy, ppMaxClockSkew policy, ppMaxClockSkew policy]))) (\<lambda>_.
     liftS (Inr v)))"

section \<open>Creation\<close>

record PoPCreateRequest =
  qrSigner :: "signer option"
  qrAlgorithm :: SignatureAlgorithm
  qrClientID :: string
  qrAudience :: string
  qrNow :: time
  qrChallenge :: string

definition pop_claims_json :: "pop_claims \<Rightarrow> json" where
  "pop_claims_json c =
     JObj ((if poIssuer c = [] then [] else [(''iss'', JStr (poIssuer c))])
       @ [(''aud'', JStr (poAudience c)), (''jti'', JStr (poJTI c)), (''iat'', json_int (poIssuedAt c))]
       @ (if poExpiresAt c = 0 then [] else [(''exp'', json_int (poExpiresAt c))])
       @ (if poChallenge c = [] then [] else [(''challenge'', JStr (poChallenge c))])
       @ (if poNotBefore c = 0 then [] else [(''nbf'', json_int (poNotBefore c))]))"

definition popJTI :: "bytes option \<Rightarrow> attestation_error + string" where
  "popJTI random =
     (case random of
        None \<Rightarrow> Inl NoPoPEntropy
      | Some r \<Rightarrow> if length r < 16 then Inl NoPoPEntropy else Inr (encode_raw True (take 16 r)))"

definition pop_claims_of :: "PoPCreateRequest \<Rightarrow> string \<Rightarrow> pop_claims" where
  "pop_claims_of req jti =
     \<lparr>poIssuer = qrClientID req, poAudience = qrAudience req, poJTI = jti, poIssuedAt = unix_seconds (qrNow req),
      poExpiresAt = 0, poChallenge = qrChallenge req, poNotBefore = 0\<rparr>"

definition pop_header :: "PoPCreateRequest \<Rightarrow> Header" where
  "pop_header req = \<lparr>hdAlgorithm = qrAlgorithm req, hdType = popType, hdKeyID = [], hdJWK = None, hdX5C = None\<rparr>"

definition CreatePoP :: "crypto \<Rightarrow> PoPCreateRequest \<Rightarrow> bytes option \<Rightarrow> attestation_error + string" where
  "CreatePoP C req random =
     and_then (of_option (PoPRequestInvalid ''signer'') (qrSigner req)) (\<lambda>sg.
     and_then (require (qrClientID req \<noteq> []) (PoPRequestInvalid ''client ID'')) (\<lambda>_.
     and_then (require (qrAudience req \<noteq> []) (PoPRequestInvalid ''audience'')) (\<lambda>_.
     and_then (require (qrNow req \<noteq> zero_time) (PoPRequestInvalid ''now'')) (\<lambda>_.
     and_then (popJTI random) (\<lambda>jti.
     map_sum PoPNotSigned (\<lambda>x. x)
       (Sign C (Some sg) (pop_header req) (json_marshal C True (pop_claims_json (pop_claims_of req jti)))))))))"

end
