(* ===== verification/Message_Kinds.thy ===== *)
theory Message_Kinds
  imports Request_Object Client_Attestation Jwk_Properties Token_Properties Entity_Statement_Properties
begin

text \<open>
  The signed messages of the protocol, taken together: what each verifier requires of the header's
  type and of the claims \<^verbatim>\<open>iss\<close> and \<^verbatim>\<open>sub\<close>, and that no string passes for two kinds of message.
\<close>

section \<open>The kinds\<close>

datatype message_kind =
    ProofMessage | AccessTokenMessage | RequestMessage | AssertionMessage | IDTokenMessage
  | ResponseMessage | StatementMessage | AttestationMessage | PoPMessage

text \<open>
  A string is accepted as a message of a kind from a party, by some key and policy whose expected
  issuer is that party (where the message has one).
\<close>

fun accepted :: "fed_env \<Rightarrow> message_kind \<Rightarrow> string \<Rightarrow> string \<Rightarrow> bool" where
  "accepted E ProofMessage party tok \<longleftrightarrow>
     (\<exists>parse req v. pvProof req = tok \<and> verify_proof (crypto_of E) parse req = Inr v)"
| "accepted E AccessTokenMessage party tok \<longleftrightarrow>
     (\<exists>n t pub p v. ParseAccessTokenMax (crypto_of E) tok n = Inr t \<and> AccessToken_Validate (crypto_of E) t pub p = Inr v \<and>
        apExpectedIssuer p = party)"
| "accepted E RequestMessage party tok \<longleftrightarrow>
     (\<exists>ob pub p v. ParseRequestObject (crypto_of E) tok = Inr ob \<and> verify_request (crypto_of E) ob pub p = Inr v \<and>
        rpExpectedClientID p = party)"
| "accepted E AssertionMessage party tok \<longleftrightarrow>
     (\<exists>a pub p v. ParseAssertion (crypto_of E) tok = Inr a \<and> verify_assertion (crypto_of E) a pub p = Inr v \<and>
        avExpectedClientID p = party)"
| "accepted E IDTokenMessage party tok \<longleftrightarrow>
     (\<exists>n t pub p v. ParseIDTokenMax (crypto_of E) tok n = Inr t \<and> IDToken_Validate (crypto_of E) t pub p = Inr v \<and>
        ipExpectedIssuer p = party)"
| "accepted E ResponseMessage party tok \<longleftrightarrow>
     (\<exists>r pub p v. ParseJarm (crypto_of E) tok = Inr r \<and> Jarm_Verify (crypto_of E) r pub p = Inr v \<and>
        jpExpectedIssuer p = party)"
| "accepted E StatementMessage party tok \<longleftrightarrow>
     (\<exists>s pub p v. Parse E tok = Inr s \<and> Verify E s pub p = Inr v \<and> vpExpectedIssuer p = party)"
| "accepted E AttestationMessage party tok \<longleftrightarrow>
     (\<exists>a pub p v. ParseAttestation (crypto_of E) tok = Inr a \<and> Attestation_Verify (crypto_of E) a pub p = Inr v \<and>
        tapExpectedIssuer p = party)"
| "accepted E PoPMessage party tok \<longleftrightarrow>
     (\<exists>m jwk p v. ParsePoP (crypto_of E) tok = Inr m \<and> verify_pop (crypto_of E) m jwk p = Inr v \<and> ppClientID p = party)"

section \<open>Types\<close>

definition type_ok :: "message_kind \<Rightarrow> string \<Rightarrow> bool" where
  "type_ok k ty =
     (case k of
        ProofMessage \<Rightarrow> TypeIs ty ''dpop+jwt''
      | AccessTokenMessage \<Rightarrow> TypeIs ty ''at+jwt''
      | RequestMessage \<Rightarrow> ty = [] \<or> TypeIs ty ''oauth-authz-req+jwt'' \<or> TypeIs ty ''JWT''
      | AssertionMessage \<Rightarrow> RefuseOtherExplicitType ty [''client-authentication+jwt'']
      | IDTokenMessage \<Rightarrow> ty = [] \<or> TypeIs ty ''JWT''
      | ResponseMessage \<Rightarrow> ty = [] \<or> TypeIs ty ''JWT''
      | StatementMessage \<Rightarrow> TypeIs ty ''entity-statement+jwt''
      | AttestationMessage \<Rightarrow> TypeIs ty ''oauth-client-attestation+jwt''
      | PoPMessage \<Rightarrow> TypeIs ty ''oauth-client-attestation-pop+jwt'')"

text \<open>The kinds whose type is generic, told apart by their claims.\<close>

definition generic_kind :: "message_kind \<Rightarrow> bool" where
  "generic_kind k \<longleftrightarrow> k \<in> {RequestMessage, AssertionMessage, IDTokenMessage, ResponseMessage}"

definition type_names :: "string list" where
  "type_names = [''dpop+jwt'', ''at+jwt'', ''oauth-authz-req+jwt'', ''JWT'', [], ''client-authentication+jwt'',
     ''entity-statement+jwt'', ''oauth-client-attestation+jwt'', ''oauth-client-attestation-pop+jwt'']"

lemma type_names_distinct: "distinct (map mediaType type_names)"
  by code_simp

lemma types_apart:
  "a \<in> set type_names \<Longrightarrow> b \<in> set type_names \<Longrightarrow> TypeIs ty a \<Longrightarrow> TypeIs ty b \<Longrightarrow> a = b"
  using inj_onD [of mediaType "set type_names" a b] type_names_distinct by (auto simp only: TypeIs_def distinct_map)

lemma explicit_type_refused:
  assumes "RefuseOtherExplicitType ty [own]" "TypeIs ty a" "a \<in> set explicitTypes"
    "a \<in> set type_names" "own \<in> set type_names"
  shows "a = own"
proof -
  have "ty \<noteq> []"
  proof
    assume "ty = []"
    with assms(2) have "TypeIs ty []" by (simp add: TypeIs_def)
    with assms(2,4) have "a = []" by (intro types_apart [of a "[]"]) (simp_all add: type_names_def)
    with assms(3) show False by (simp add: explicitTypes_def)
  qed
  with assms(1-3) have "TypeIs ty own" by (auto simp: RefuseOtherExplicitType_def list_ex_iff)
  with types_apart assms(2,4,5) show ?thesis by blast
qed

definition type_list :: "message_kind \<Rightarrow> string list" where
  "type_list k =
     (case k of
        ProofMessage \<Rightarrow> [''dpop+jwt'']
      | AccessTokenMessage \<Rightarrow> [''at+jwt'']
      | RequestMessage \<Rightarrow> [[], ''oauth-authz-req+jwt'', ''JWT'']
      | AssertionMessage \<Rightarrow> [''client-authentication+jwt'']
      | IDTokenMessage \<Rightarrow> [[], ''JWT'']
      | ResponseMessage \<Rightarrow> [[], ''JWT'']
      | StatementMessage \<Rightarrow> [''entity-statement+jwt'']
      | AttestationMessage \<Rightarrow> [''oauth-client-attestation+jwt'']
      | PoPMessage \<Rightarrow> [''oauth-client-attestation-pop+jwt''])"

lemma type_list_names: "set (type_list k) \<subseteq> set type_names"
  by (cases k) (simp_all add: type_list_def type_names_def)

lemma type_list_apart:
  "a \<in> set (type_list k) \<Longrightarrow> a \<in> set (type_list k') \<Longrightarrow> k \<noteq> k' \<Longrightarrow> generic_kind k \<and> generic_kind k'"
  by (cases k; cases k') (auto simp: type_list_def generic_kind_def)

lemma type_ok_listed:
  "type_ok k ty \<Longrightarrow> k \<noteq> AssertionMessage \<Longrightarrow> \<exists>a \<in> set (type_list k). TypeIs ty a"
  by (cases k) (auto simp: type_ok_def type_list_def TypeIs_def)

lemma explicit_types_listed:
  "\<not> generic_kind k \<Longrightarrow> set (type_list k) \<subseteq> set explicitTypes \<and> ''client-authentication+jwt'' \<notin> set (type_list k)"
  by (cases k) (simp_all add: type_list_def generic_kind_def explicitTypes_def)

lemma assertion_type_generic:
  assumes "type_ok AssertionMessage ty" "type_ok k ty" "k \<noteq> AssertionMessage"
  shows "generic_kind k"
proof (rule ccontr)
  assume g: "\<not> generic_kind k"
  from type_ok_listed [OF assms(2,3)] obtain a where a: "a \<in> set (type_list k)" "TypeIs ty a" by blast
  have "RefuseOtherExplicitType ty [''client-authentication+jwt'']" using assms(1) by (simp add: type_ok_def)
  moreover have "a \<in> set explicitTypes" "a \<in> set type_names" "a \<noteq> ''client-authentication+jwt''"
    using explicit_types_listed [OF g] type_list_names [of k] a(1) by auto
  ultimately show False
    using explicit_type_refused [of ty "''client-authentication+jwt''" a] a(2) by (simp add: type_names_def)
qed

text \<open>A type that two kinds of message may have is a generic one.\<close>

lemma shared_type_generic:
  assumes "type_ok k ty" "type_ok k' ty" "k \<noteq> k'"
  shows "generic_kind k \<and> generic_kind k'"
proof -
  have generic: "generic_kind AssertionMessage" by (simp add: generic_kind_def)
  show ?thesis
  proof (cases "k = AssertionMessage \<or> k' = AssertionMessage")
    case True
    then show ?thesis
      using assms generic assertion_type_generic [of ty k] assertion_type_generic [of ty k'] by metis
  next
    case False
    with assms type_ok_listed obtain a b where
      "a \<in> set (type_list k)" "TypeIs ty a" "b \<in> set (type_list k')" "TypeIs ty b" by metis
    with types_apart type_list_names have "a = b" by blast
    with type_list_apart \<open>a \<in> _\<close> \<open>b \<in> _\<close> assms(3) show ?thesis by blast
  qed
qed

section \<open>Claims\<close>

text \<open>What the payload of a generic message says of its issuer and its subject.\<close>

definition claims_ok :: "message_kind \<Rightarrow> string \<Rightarrow> json assoc \<Rightarrow> bool" where
  "claims_ok k party ms \<longleftrightarrow>
     (map_of ms ''sub'' \<noteq> None \<longleftrightarrow> k \<in> {AssertionMessage, IDTokenMessage}) \<and>
     (k \<noteq> AssertionMessage \<longrightarrow> map_of ms ''iss'' = Some (JStr party)) \<and>
     (\<forall>s. map_of ms ''iss'' = Some (JStr s) \<longrightarrow> s = party)"

lemma string_member_last:
  "map_of (obj_members ms) name = Some (JStr s) \<Longrightarrow> string_member name ms d = s"
proof -
  have "map_of (foldl (\<lambda>acc (k, v). AList.update k v acc) acc ms) name = Some (JStr s) \<Longrightarrow>
      (map_of acc name = Some (JStr s) \<longrightarrow> d = s) \<Longrightarrow> string_member name ms d = s" for acc
    by (induction ms arbitrary: acc d) (auto simp: map_of_update_apply split: if_splits)
  then show "map_of (obj_members ms) name = Some (JStr s) \<Longrightarrow> string_member name ms d = s"
    by (simp add: obj_members_def)
qed

lemma string_member_absent: "string_member name ms d \<noteq> d \<Longrightarrow> name \<in> fst ` set ms"
  by (induction ms arbitrary: d) (auto split: if_splits json.splits)

text \<open>A pop leaves the other claims as they are.\<close>

lemma pop_frame:
  "popString m key req = Inr (s, b, m') \<Longrightarrow> k \<noteq> key \<Longrightarrow> map_of m' k = map_of m k"
  "popInt64 m key req = Inr (n, b, m') \<Longrightarrow> k \<noteq> key \<Longrightarrow> map_of m' k = map_of m k"
  "popStringOrStringSlice m key = Inr (xs, m') \<Longrightarrow> k \<noteq> key \<Longrightarrow> map_of m' k = map_of m k"
  by (auto simp: popString_def popInt64_def popStringOrStringSlice_def map_of_delete
      split: option.splits if_splits list.splits)

lemma popIssuedAt_frame:
  "popIssuedAt m = Inr (n, b, m') \<Longrightarrow> k \<noteq> ''iat'' \<Longrightarrow> map_of m' k = map_of m k"
  by (auto simp: popIssuedAt_def and_then_eq_Inr map_of_delete split: if_splits dest: pop_frame)

lemma popString_present: "popString m key False = Inr (s, b, m') \<Longrightarrow> b = (map_of m key \<noteq> None)"
  by (auto simp: popString_def split: option.splits if_splits)

lemma request_claims_ok:
  assumes "parseRequestClaims C payload = Inr c" "\<not> rcHasSubject c"
  shows "\<exists>ms. Option.bind (json_decode C payload) unmarshal_object = Some ms \<and> claims_ok RequestMessage (rcIssuer c) ms"
proof -
  from assms(1) obtain raw m1 m2 m3 m4 m5 m6 m7 iss aud exp nbf iat jti su b1 b2 b3 b4 b5 b6 where
    raw: "Option.bind (json_decode C payload) unmarshal_object = Some raw" and
    pops: "popString raw ''iss'' True = Inr (iss, b1, m1)" "popStringOrStringSlice m1 ''aud'' = Inr (aud, m2)"
      "popInt64 m2 ''exp'' True = Inr (exp, b2, m3)" "popInt64 m3 ''nbf'' False = Inr (nbf, b3, m4)"
      "popIssuedAt m4 = Inr (iat, b4, m5)" "popString m5 ''jti'' False = Inr (jti, b5, m6)"
      "popString m6 ''sub'' False = Inr (su, b6, m7)" and
    c: "rcIssuer c = iss" "rcHasSubject c = b6"
    by (auto simp: parseRequestClaims_def and_then_eq_Inr)
  have "map_of m6 ''sub'' = map_of raw ''sub''"
    using pops(1-6) by (simp add: pop_frame popIssuedAt_frame)
  with popString_present [OF pops(7)] pops(1) raw c assms(2) show ?thesis
    by (auto simp: claims_ok_def popString_Inr)
qed

lemma id_claims_ok:
  assumes "parseIDTokenClaims C payload = Inr c"
  shows "\<exists>ms. Option.bind (json_decode C payload) unmarshal_object = Some ms \<and> claims_ok IDTokenMessage (itIssuer c) ms"
proof -
  from assms obtain raw m1 m2 iss su b1 b2 where
    raw: "Option.bind (json_decode C payload) unmarshal_object = Some raw" and
    pops: "popString raw ''iss'' True = Inr (iss, b1, m1)" "popString m1 ''sub'' True = Inr (su, b2, m2)" and
    c: "itIssuer c = iss"
    by (auto simp: parseIDTokenClaims_def unmarshal_payload_def and_then_eq_Inr)
  have "map_of m1 ''sub'' = map_of raw ''sub''" using pops(1) by (simp add: pop_frame)
  with pops raw c show ?thesis by (auto simp: claims_ok_def popString_Inr)
qed

lemma response_claims_ok:
  assumes "parseJarmClaims C payload = Inr c" "checkAuthorizationResponseShape (jcParameters c) = Inr ()"
  shows "\<exists>ms. Option.bind (json_decode C payload) unmarshal_object = Some ms \<and> claims_ok ResponseMessage (jcIssuer c) ms"
proof -
  from assms(1) obtain raw m1 m2 m3 m4 m5 iss aud exp nbf iat b1 b2 b3 b4 b5 where
    raw: "Option.bind (json_decode C payload) unmarshal_object = Some raw" and
    pops: "popString raw ''iss'' True = Inr (iss, b1, m1)" "popString m1 ''aud'' True = Inr (aud, b2, m2)"
      "popInt64 m2 ''exp'' True = Inr (exp, b3, m3)" "popInt64 m3 ''nbf'' False = Inr (nbf, b4, m4)"
      "popInt64 m4 ''iat'' False = Inr (iat, b5, m5)" and
    c: "jcIssuer c = iss" "jcParameters c = m5"
    by (auto simp: parseJarmClaims_def and_then_eq_Inr)
  have "map_of m5 ''sub'' = map_of raw ''sub''" using pops by (simp add: pop_frame)
  moreover have "map_of m5 ''sub'' = None"
    using assms(2) by (auto simp: checkAuthorizationResponseShape_def and_then_eq_Inr check_all_Inr idTokenClaims_def c)
  ultimately show ?thesis using pops(1) raw c by (auto simp: claims_ok_def popString_Inr)
qed

lemma assertion_dec_strings:
  assumes "assertion_dec k v s = Some s'"
  shows "acsIssuer s' = (if k = ''iss'' then (case v of JStr x \<Rightarrow> x | _ \<Rightarrow> acsIssuer s) else acsIssuer s)"
    and "acsSubject s' = (if k = ''sub'' then (case v of JStr x \<Rightarrow> x | _ \<Rightarrow> acsSubject s) else acsSubject s)"
  using assms by (cases v; auto simp: assertion_dec_def dec_date_def split: if_splits)+

lemma assertion_claims_ok:
  assumes "parseAssertionClaims C payload = Inr c"
  shows "\<exists>ms. Option.bind (json_decode C payload) unmarshal_object = Some ms \<and> claims_ok AssertionMessage (acsIssuer c) ms"
proof -
  from assms obtain j where j: "json_decode C payload = Some j" "CheckFieldCase (leaves assertion_fields) j"
      "decode_struct assertion_fields assertion_dec assertion_claims_zero j = Some c" "acsSubject c \<noteq> []" "acsIssuer c \<noteq> []"
    by (auto simp: parseAssertionClaims_def and_then_eq_Inr)
  then obtain ms where ms: "j = JObj ms"
    by (cases j) (auto simp: assertion_claims_zero_def)
  have fields: "\<forall>(k, v) \<in> set ms. struct_field assertion_fields k = (if k \<in> set assertion_fields then Some k else None)"
    using j(2) struct_field_leaf by (auto simp: ms)
  have d: "decode_members assertion_fields assertion_dec ms assertion_claims_zero = Some c" using j(3) by (simp add: ms)
  have iss: "acsIssuer c = string_member ''iss'' ms (acsIssuer assertion_claims_zero)"
    by (rule decode_members_string [OF fields assertion_dec_strings(1) _ d]) (simp_all add: assertion_fields_def)
  have su: "acsSubject c = string_member ''sub'' ms (acsSubject assertion_claims_zero)"
    by (rule decode_members_string [OF fields assertion_dec_strings(2) _ d]) (simp_all add: assertion_fields_def)
  from su j(4) have "''sub'' \<in> fst ` set (obj_members ms)"
    using string_member_absent [of "''sub''" ms "[]"] by (simp add: assertion_claims_zero_def keys_obj_members)
  then have "map_of (obj_members ms) ''sub'' \<noteq> None" by (simp add: map_of_eq_None_iff)
  moreover have "\<forall>s. map_of (obj_members ms) ''iss'' = Some (JStr s) \<longrightarrow> s = acsIssuer c"
    using string_member_last iss by metis
  ultimately show ?thesis using j(1) by (auto simp: claims_ok_def ms)
qed

section \<open>What acceptance requires\<close>

definition content_ok :: "fed_env \<Rightarrow> message_kind \<Rightarrow> string \<Rightarrow> Compact \<Rightarrow> bool" where
  "content_ok E k party c \<longleftrightarrow>
     type_ok k (hdType (cmHeader c)) \<and>
     (generic_kind k \<longrightarrow> (\<exists>ms. Option.bind (json_decode (crypto_of E) (cmPayload c)) unmarshal_object = Some ms \<and>
        claims_ok k party ms))"

lemma content_ok_explicit: "type_ok k (hdType (cmHeader c)) \<Longrightarrow> \<not> generic_kind k \<Longrightarrow> content_ok E k party c"
  by (simp add: content_ok_def)

lemma accepted_explicit:
  assumes "accepted E k party tok" "\<not> generic_kind k"
  shows "\<exists>n c. ParseCompactMax (crypto_of E) tok n = Inr c \<and> type_ok k (hdType (cmHeader c))"
proof (cases k)
  case ProofMessage
  with assms(1) obtain parse req v where "pvProof req = tok" "verify_proof (crypto_of E) parse req = Inr v" by auto
  then have "\<exists>c. ParseCompact (crypto_of E) tok = Inr c \<and> TypeIs (hdType (cmHeader c)) proofType"
    by (auto simp: verify_proof_def and_then_eq_Inr Let_def)
  then show ?thesis by (auto simp: ProofMessage ParseCompact_def type_ok_def proofType_def)
next
  case AccessTokenMessage
  with assms(1) obtain n t where "ParseAccessTokenMax (crypto_of E) tok n = Inr t" by auto
  then show ?thesis
    by (auto simp: AccessTokenMessage ParseAccessTokenMax_def and_then_eq_Inr type_ok_def atJWTType_def)
next
  case StatementMessage
  with assms(1) obtain s where "Parse E tok = Inr s" by auto
  then show ?thesis by (rule Parse_Inr) (auto simp: StatementMessage ParseCompact_def type_ok_def jwtType_def)
next
  case AttestationMessage
  with assms(1) obtain a pub p v where "ParseAttestation (crypto_of E) tok = Inr a" "Attestation_Verify (crypto_of E) a pub p = Inr v"
    by auto
  then have "ParseCompactMax (crypto_of E) tok DefaultMaxCompactBytes = Inr (tnCompact a)"
    "TypeIs (hdType (cmHeader (tnCompact a))) attestationType"
    by (auto simp: ParseAttestation_def Attestation_Verify_def and_then_eq_Inr Let_def ParseCompact_def)
  then show ?thesis by (auto simp: AttestationMessage type_ok_def attestationType_def)
next
  case PoPMessage
  with assms(1) obtain m jwk p v where "ParsePoP (crypto_of E) tok = Inr m" "verify_pop (crypto_of E) m jwk p = Inr v" by auto
  then have "ParseCompactMax (crypto_of E) tok DefaultMaxCompactBytes = Inr (pnCompact m)"
    "TypeIs (hdType (cmHeader (pnCompact m))) popType"
    by (auto simp: ParsePoP_def verify_pop_def and_then_eq_Inr Let_def ParseCompact_def)
  then show ?thesis by (auto simp: PoPMessage type_ok_def popType_def)
qed (use assms(2) in \<open>simp_all add: generic_kind_def\<close>)

lemma accepted_assertion:
  assumes "accepted E AssertionMessage party tok"
  shows "\<exists>n c. ParseCompactMax (crypto_of E) tok n = Inr c \<and> content_ok E AssertionMessage party c"
proof -
  from assms obtain a pub p v where "ParseAssertion (crypto_of E) tok = Inr a"
    "verify_assertion (crypto_of E) a pub p = Inr v" "avExpectedClientID p = party" by auto
  then have "ParseCompactMax (crypto_of E) tok DefaultMaxCompactBytes = Inr (asnCompact a)"
    and "type_ok AssertionMessage (hdType (cmHeader (asnCompact a)))"
    and "parseAssertionClaims (crypto_of E) (cmPayload (asnCompact a)) = Inr (asnClaims a)"
    and "acsIssuer (asnClaims a) = party"
    by (auto simp: ParseAssertion_def verify_assertion_def and_then_eq_Inr Let_def ParseCompact_def type_ok_def
        clientAuthenticationJWTType_def)
  with assertion_claims_ok show ?thesis unfolding content_ok_def by metis
qed

lemma accepted_request:
  assumes "accepted E RequestMessage party tok"
  shows "\<exists>n c. ParseCompactMax (crypto_of E) tok n = Inr c \<and> content_ok E RequestMessage party c"
proof -
  from assms obtain ob pub p v where "ParseRequestObject (crypto_of E) tok = Inr ob"
    "verify_request (crypto_of E) ob pub p = Inr v" "rpExpectedClientID p = party" by auto
  then have "ParseCompactMax (crypto_of E) tok DefaultMaxCompactBytes = Inr (roCompact ob)"
    and "type_ok RequestMessage (hdType (cmHeader (roCompact ob)))"
    and "parseRequestClaims (crypto_of E) (cmPayload (roCompact ob)) = Inr (roClaims ob)"
    and "rcIssuer (roClaims ob) = party" "\<not> rcHasSubject (roClaims ob)"
    by (auto simp: ParseRequestObject_def verify_request_def and_then_eq_Inr Let_def ParseCompact_def type_ok_def
        isRequestObjectType_def requestObjectType_def checkAudienceAndSubject_def split: if_splits)
  with request_claims_ok show ?thesis unfolding content_ok_def by metis
qed

lemma accepted_id_token:
  assumes "accepted E IDTokenMessage party tok"
  shows "\<exists>n c. ParseCompactMax (crypto_of E) tok n = Inr c \<and> content_ok E IDTokenMessage party c"
proof -
  from assms obtain n t pub p v where "ParseIDTokenMax (crypto_of E) tok n = Inr t"
    "IDToken_Validate (crypto_of E) t pub p = Inr v" "ipExpectedIssuer p = party" by auto
  then have "ParseCompactMax (crypto_of E) tok n = Inr (idtCompact t)"
    and "type_ok IDTokenMessage (hdType (cmHeader (idtCompact t)))"
    and "parseIDTokenClaims (crypto_of E) (cmPayload (idtCompact t)) = Inr (idtClaims t)"
    and "itIssuer (idtClaims t) = party"
    by (auto simp: ParseIDTokenMax_def IDToken_Validate_def and_then_eq_Inr Let_def type_ok_def RequireGenericType_def)
  with id_claims_ok show ?thesis unfolding content_ok_def by metis
qed

lemma accepted_response:
  assumes "accepted E ResponseMessage party tok"
  shows "\<exists>n c. ParseCompactMax (crypto_of E) tok n = Inr c \<and> content_ok E ResponseMessage party c"
proof -
  from assms obtain r pub p v where "ParseJarm (crypto_of E) tok = Inr r"
    "Jarm_Verify (crypto_of E) r pub p = Inr v" "jpExpectedIssuer p = party" by auto
  then have "ParseCompactMax (crypto_of E) tok DefaultMaxCompactBytes = Inr (jrCompact r)"
    and "type_ok ResponseMessage (hdType (cmHeader (jrCompact r)))"
    and "parseJarmClaims (crypto_of E) (cmPayload (jrCompact r)) = Inr (jrClaims r)"
    and "jcIssuer (jrClaims r) = party" "checkAuthorizationResponseShape (jcParameters (jrClaims r)) = Inr ()"
    by (auto simp: ParseJarm_def Jarm_Verify_def and_then_eq_Inr Let_def ParseCompact_def type_ok_def RequireGenericType_def)
  with response_claims_ok show ?thesis unfolding content_ok_def by metis
qed

lemma accepted_content:
  assumes "accepted E k party tok"
  shows "\<exists>n c. ParseCompactMax (crypto_of E) tok n = Inr c \<and> content_ok E k party c"
proof (cases "generic_kind k")
  case True
  with assms show ?thesis
    by (auto simp: generic_kind_def simp del: accepted.simps
        intro: accepted_assertion accepted_request accepted_id_token accepted_response)
next
  case False
  with accepted_explicit [OF assms] content_ok_explicit show ?thesis by blast
qed

lemma ParseCompactMax_unique:
  "ParseCompactMax C s n = Inr c \<Longrightarrow> ParseCompactMax C s n' = Inr c' \<Longrightarrow> c' = c"
  by (auto simp: ParseCompactMax_def split: if_splits)

section \<open>No message passes for another\<close>

text \<open>
  C5. No signed string is accepted as two kinds of message, whatever the keys and the policies:
  not a DPoP proof, an access token, a request object, a client assertion, an ID token, a signed
  authorization response, an entity statement, a client attestation or the proof of its key for
  another of them. The two exceptions are of messages one party would have to send itself: an
  assertion and an ID token, or a request object and an authorization response, and only when the
  client expected of the one is also the issuer expected of the other.
\<close>

theorem message_kinds_apart:
  assumes "accepted E k party tok" "accepted E k' party' tok" "k \<noteq> k'"
  shows "({k, k'} = {AssertionMessage, IDTokenMessage} \<or> {k, k'} = {RequestMessage, ResponseMessage}) \<and> party = party'"
proof -
  from accepted_content [OF assms(1)] accepted_content [OF assms(2)] ParseCompactMax_unique
  obtain c where c: "content_ok E k party c" "content_ok E k' party' c" by metis
  then have g: "generic_kind k" "generic_kind k'"
    using shared_type_generic [of k "hdType (cmHeader c)" k'] assms(3) by (simp_all add: content_ok_def)
  with c obtain ms where ms: "claims_ok k party ms" "claims_ok k' party' ms" by (auto simp: content_ok_def)
  then have "(k \<in> {AssertionMessage, IDTokenMessage}) = (k' \<in> {AssertionMessage, IDTokenMessage})"
    unfolding claims_ok_def by blast
  with g assms(3) have pair: "{k, k'} = {AssertionMessage, IDTokenMessage} \<or> {k, k'} = {RequestMessage, ResponseMessage}"
    by (auto simp: generic_kind_def)
  moreover from pair ms have "party = party'" by (auto simp: claims_ok_def doubleton_eq_iff)
  ultimately show ?thesis by blast
qed

definition kinds_env :: fed_env where
  "kinds_env = \<lparr>crypto_of = example_crypto (\<lambda>bs. if bs = [0] then Some (JObj [(''alg'', JStr ''ES256'')])
         else Some (JObj [(''iss'', JStr ''a''), (''sub'', JStr ''a''), (''aud'', JStr ''a''), (''jti'', JStr ''j''),
           (''exp'', json_int 1), (''iat'', json_int 1)]))\<lparr>asn1_signature := (\<lambda>_. Some ((1, 1), []))\<rparr>,
     url_parse = (\<lambda>_. None), parse_ip = (\<lambda>_. False)\<rparr>"

definition kinds_token :: string where "kinds_token = ''AA.AQ.'' @ example_signature"

lemma message_kinds_apart_witness:
  "accepted kinds_env AssertionMessage ''a'' kinds_token \<and>
   (\<forall>party. accepted kinds_env IDTokenMessage party kinds_token \<longleftrightarrow> party = ''a'')"
proof -
  let ?C = "crypto_of kinds_env" and ?pub = "sgPublic example_signer"
  let ?ap = "\<lparr>avExpectedClientID = ''a'', avExpectedAudiences = [''a''], avAlgorithm = ES256, avNow = second,
    avMaxLifetime = second, avMaxClockSkew = 0\<rparr>"
  let ?ip = "\<lparr>ipExpectedIssuer = ''a'', ipExpectedAudience = ''a'', ipTrustedAudiences = [], ipAlgorithm = ES256,
    ipExpectedNonce = [], ipAccessToken = [], ipNow = second, ipMaxLifetime = second, ipMaxClockSkew = 0\<rparr>"
  have "is_ok (and_then (ParseAssertion ?C kinds_token) (\<lambda>a. verify_assertion ?C a ?pub ?ap))" by code_simp
  then obtain m v where "ParseAssertion ?C kinds_token = Inr m" "verify_assertion ?C m ?pub ?ap = Inr v"
    by (auto simp: is_ok_iff and_then_eq_Inr)
  then have a: "accepted kinds_env AssertionMessage ''a'' kinds_token"
    by (simp only: accepted.simps) (intro exI [of _ m] exI [of _ ?pub] exI [of _ ?ap] exI [of _ v], simp)
  have "is_ok (and_then (ParseIDTokenMax ?C kinds_token 200) (\<lambda>t. IDToken_Validate ?C t ?pub ?ip))" by code_simp
  then obtain t v where "ParseIDTokenMax ?C kinds_token 200 = Inr t" "IDToken_Validate ?C t ?pub ?ip = Inr v"
    by (auto simp: is_ok_iff and_then_eq_Inr)
  then have i: "accepted kinds_env IDTokenMessage ''a'' kinds_token"
    by (simp only: accepted.simps) (intro exI [of _ 200] exI [of _ t] exI [of _ ?pub] exI [of _ ?ip] exI [of _ v], simp)
  from message_kinds_apart [OF a] have "party = ''a''" if "accepted kinds_env IDTokenMessage party kinds_token" for party
    using that by blast
  with a i show ?thesis by blast
qed

end
