(* ===== verification/Claim_Values.thy ===== *)
theory Claim_Values
  imports Json
begin

text \<open>
  The values a claims request accepts, \<^verbatim>\<open>internal/claimvalues/claimvalues.go\<close>: which
  ones it names, and when a claim's value is one of them. Numbers are compared by value, however
  they are written.
\<close>

type_synonym Acceptable = "json list assoc"

section \<open>Equality\<close>

text \<open>
  \<^verbatim>\<open>canonicalNumber\<close>: the significant digits without zeros on either side, and the
  power of ten they stand for.
\<close>

fun strip_zeros :: "nat \<Rightarrow> int \<Rightarrow> nat \<times> int" where
  "strip_zeros m e = (if m \<noteq> 0 \<and> m mod 10 = 0 then strip_zeros (m div 10) (e + 1) else (m, e))"

declare strip_zeros.simps [simp del]

definition canonicalNumber :: "bool \<Rightarrow> nat \<Rightarrow> int option \<Rightarrow> bool \<times> nat \<times> int" where
  "canonicalNumber neg m e =
     (if m = 0 then (False, 0, 0)
      else let (digits, ex) = strip_zeros m (case e of None \<Rightarrow> 0 | Some e \<Rightarrow> e) in (neg, digits, ex))"

lemma set_obj_members: "set (obj_members ms) \<subseteq> set ms"
proof -
  have up: "set (AList.update k v acc) \<subseteq> insert (k, v) (set acc)" for k :: string and v :: 'a and acc
    by (induction acc) auto
  have "set (foldl (\<lambda>acc (k, v). AList.update k v acc) acc ms) \<subseteq> set acc \<union> set ms" for acc :: "'a assoc"
  proof (induction ms arbitrary: acc)
    case (Cons m ms)
    show ?case using Cons.IH [of "AList.update (fst m) (snd m) acc"] up [of "fst m" "snd m" acc] by (cases m) auto
  qed simp
  then show ?thesis by (fastforce simp: obj_members_def)
qed

lemma size_obj_member: "(k, v) \<in> set (obj_members ms) \<Longrightarrow> size v < Suc (size_list (size_prod (\<lambda>_. 0) size) ms)"
proof -
  assume "(k, v) \<in> set (obj_members ms)"
  then have "(k, v) \<in> set ms" using set_obj_members [of ms] by auto
  then have "size_prod (\<lambda>_. 0) size (k, v) \<le> size_list (size_prod (\<lambda>_. 0) size) ms"
    by (intro size_list_estimation' [of _ _ _ "size_prod (\<lambda>_. 0) size"]) auto
  then show ?thesis by simp
qed

text \<open>
  Two values of one kind; \<^verbatim>\<open>maps.EqualFunc\<close> compares what the members of an object come
  to, a later duplicate having replaced an earlier one.
\<close>

function equalValues :: "json \<Rightarrow> json \<Rightarrow> bool" where
  "equalValues (JNum n m e) b = (case b of JNum n' m' e' \<Rightarrow> canonicalNumber n m e = canonicalNumber n' m' e' | _ \<Rightarrow> False)"
| "equalValues (JArr xs) b = (case b of JArr ys \<Rightarrow> list_all2 equalValues xs ys | _ \<Rightarrow> False)"
| "equalValues (JObj ms) b =
     (case b of
        JObj ns \<Rightarrow>
          length (obj_members ms) = length (obj_members ns) \<and>
          list_all (\<lambda>(k, v). case map_of (obj_members ns) k of None \<Rightarrow> False | Some w \<Rightarrow> equalValues v w) (obj_members ms)
      | _ \<Rightarrow> False)"
| "equalValues JNull b = (b = JNull)"
| "equalValues (JBool x) b = (b = JBool x)"
| "equalValues (JStr x) b = (b = JStr x)"
  by pat_completeness auto

termination
  by (relation "measure (\<lambda>(a, _). size a)")
    (auto dest: size_obj_member, (auto simp: less_Suc_eq_le dest: size_list_estimation' [where f = size])?)

definition claim_Equal :: "json \<Rightarrow> json \<Rightarrow> bool" where
  "claim_Equal a b = equalValues a b"

section \<open>What a request accepts\<close>

text \<open>\<open>None\<close> is a request that constrains nothing.\<close>

definition FromRequest :: "json \<Rightarrow> json list option" where
  "FromRequest request =
     (case request of
        JObj ms \<Rightarrow>
          (let members = obj_members ms in
           case (map_of members ''value'', map_of members ''values'') of
             (None, None) \<Rightarrow> None
           | (Some v, None) \<Rightarrow> Some [v]
           | (v, Some raw) \<Rightarrow>
               (case unmarshal_array raw of
                  None \<Rightarrow> Some []
                | Some values \<Rightarrow> Some (filter (\<lambda>x. case v of None \<Rightarrow> True | Some w \<Rightarrow> claim_Equal x w) values)))
      | _ \<Rightarrow> None)"

definition Allows :: "Acceptable \<Rightarrow> string \<Rightarrow> json \<Rightarrow> bool" where
  "Allows a name v = (case map_of a name of None \<Rightarrow> True | Some acceptable \<Rightarrow> list_ex (\<lambda>x. claim_Equal x v) acceptable)"

end
