(* ===== verification/Claim_Values_Properties.thy ===== *)
theory Claim_Values_Properties
  imports Complex_Main Claim_Values
begin

text \<open>
  The comparison of \<open>Claim_Values\<close> is that of the values the literals denote.
\<close>

section \<open>Numbers by value\<close>

text \<open>Two numbers are one when they have one sign and one value, or both are zero.\<close>

definition number_value :: "bool \<Rightarrow> nat \<Rightarrow> int option \<Rightarrow> real" where
  "number_value neg m e =
     (if neg then - 1 else 1) * real m * 10 powi (case e of None \<Rightarrow> 0 | Some e \<Rightarrow> e)"

lemma strip_zeros_value: "strip_zeros m e = (d, x) \<Longrightarrow> real m * 10 powi e = real d * 10 powi x"
proof (induction m e rule: strip_zeros.induct)
  case (1 m e)
  show ?case
  proof (cases "m \<noteq> 0 \<and> m mod 10 = 0")
    case True
    with 1 have "real (m div 10) * 10 powi (e + 1) = real d * 10 powi x" by (simp add: strip_zeros.simps [of m e])
    moreover have "real m = real (m div 10) * 10" using True
      by (metis Nat.add_0_right div_mult_mod_eq of_nat_mult of_nat_numeral)
    ultimately show ?thesis by (simp add: power_int_add)
  qed (use 1 in \<open>auto simp: strip_zeros.simps [of m e]\<close>)
qed

lemma strip_zeros_stripped: "strip_zeros m e = (d, x) \<Longrightarrow> m \<noteq> 0 \<Longrightarrow> d \<noteq> 0 \<and> d mod 10 \<noteq> 0"
proof (induction m e rule: strip_zeros.induct)
  case (1 m e)
  show ?case
  proof (cases "m \<noteq> 0 \<and> m mod 10 = 0")
    case True
    then have "m div 10 \<noteq> 0" by auto
    with 1 True show ?thesis by (simp add: strip_zeros.simps [of m e])
  qed (use 1 in \<open>auto simp: strip_zeros.simps [of m e]\<close>)
qed

lemma stripped_unique_le:
  assumes "real d * 10 powi x = real d' * 10 powi x'" "d' mod 10 \<noteq> 0" "x \<ge> x'"
  shows "x = x' \<and> d = d'"
proof -
  have "real d' = real d * 10 powi (x - x')"
    using assms(1) by (simp add: power_int_diff field_simps)
  also have "\<dots> = real (d * 10 ^ nat (x - x'))"
    using assms(3) by (simp add: power_int_def)
  finally have d': "d' = d * 10 ^ nat (x - x')" by (simp only: of_nat_eq_iff)
  have "nat (x - x') = 0"
  proof (rule ccontr)
    assume "nat (x - x') \<noteq> 0"
    then obtain n where "nat (x - x') = Suc n" by (cases "nat (x - x')") auto
    with d' have "d' mod 10 = 0" by simp
    with assms(2) show False by simp
  qed
  with d' assms(3) show ?thesis by simp
qed

lemma stripped_unique:
  assumes "real d * 10 powi x = real d' * 10 powi x'" "d mod 10 \<noteq> 0" "d' mod 10 \<noteq> 0"
  shows "x = x' \<and> d = d'"
proof (cases "x \<ge> x'")
  case True
  with stripped_unique_le [OF assms(1,3)] show ?thesis by simp
next
  case False
  with stripped_unique_le [OF assms(1) [symmetric] assms(2)] show ?thesis by auto
qed

lemma canonical_zero: "canonicalNumber n m e = (False, 0, 0) \<longleftrightarrow> m = 0"
proof (cases "m = 0")
  case False
  obtain d x where "strip_zeros m (case e of None \<Rightarrow> 0 | Some e \<Rightarrow> e) = (d, x)" by fastforce
  with strip_zeros_stripped [OF this False] False show ?thesis by (simp add: canonicalNumber_def)
qed (simp add: canonicalNumber_def)

text \<open>
  C40. A claims request accepts a number by its value, however it is written: the comparison holds
  of \<^verbatim>\<open>1\<close>, \<^verbatim>\<open>1.0\<close> and \<^verbatim>\<open>10e-1\<close>, and of two
  literals exactly when they denote the same real number; minus zero is zero.
\<close>

theorem numbers_equal_by_value:
  "claim_Equal (JNum n m e) (JNum n' m' e') \<longleftrightarrow> number_value n m e = number_value n' m' e'"
proof -
  define f where "f e = (case e of None \<Rightarrow> 0 | Some e \<Rightarrow> e)" for e :: "int option"
  obtain d x where s: "strip_zeros m (f e) = (d, x)" by fastforce
  obtain d' x' where s': "strip_zeros m' (f e') = (d', x')" by fastforce
  have v: "number_value n m e = (if n then - 1 else 1) * (real d * 10 powi x)"
    "number_value n' m' e' = (if n' then - 1 else 1) * (real d' * 10 powi x')"
    using strip_zeros_value [OF s] strip_zeros_value [OF s'] by (simp_all add: number_value_def f_def)
  have z: "number_value n m e = 0 \<longleftrightarrow> m = 0" for n m e
    unfolding number_value_def by (cases n) simp_all
  show ?thesis
  proof (cases "m = 0 \<or> m' = 0")
    case True
    then have "canonicalNumber n m e = canonicalNumber n' m' e' \<longleftrightarrow> m = 0 \<and> m' = 0"
      using canonical_zero [of n m e] canonical_zero [of n' m' e'] by metis
    also have "\<dots> \<longleftrightarrow> number_value n m e = number_value n' m' e'"
      using True z [of n m e] z [of n' m' e'] by metis
    finally show ?thesis by (simp add: claim_Equal_def)
  next
    case False
    then have st: "d \<noteq> 0 \<and> d mod 10 \<noteq> 0" "d' \<noteq> 0 \<and> d' mod 10 \<noteq> 0"
      using strip_zeros_stripped [OF s] strip_zeros_stripped [OF s'] by auto
    have "claim_Equal (JNum n m e) (JNum n' m' e') \<longleftrightarrow> n = n' \<and> d = d' \<and> x = x'"
      using False s s' by (simp add: claim_Equal_def canonicalNumber_def f_def [symmetric])
    also have "\<dots> \<longleftrightarrow> n = n' \<and> real d * 10 powi x = real d' * 10 powi x'"
      using stripped_unique [of d x d' x'] st by auto
    also have "\<dots> \<longleftrightarrow> number_value n m e = number_value n' m' e'"
    proof (cases "n = n'")
      case False
      have p: "0 < real d * 10 powi x" "0 < real d' * 10 powi x'" using st by simp_all
      have "(if n then - 1 else 1) * a \<noteq> (if n' then - 1 else 1) * b" if "0 < a" "0 < b" for a b :: real
        using False that by (cases n; cases n') simp_all
      from this [OF p] False show ?thesis unfolding v by simp
    qed (unfold v, simp)
    finally show ?thesis .
  qed
qed

end
