(* ===== verification/Rar.thy ===== *)
theory Rar
  imports Strict_Json
begin

text \<open>
  Rich authorization requests, \<^verbatim>\<open>extension/rar.go\<close>: the registry of
  \<^verbatim>\<open>authorization_details\<close> types, the parsing of a list of objects against it, and
  the checks that what is granted, or asked of a grant, matches an object of its base one to one.
  A raw message is a tree, so its size is an argument where the code measures it; the hooks and the
  Go type of a definition are the application's.
\<close>

datatype rar_error =
    RARTooLarge
  | RARNotLossless
  | RARTooDeep
  | RARNotArray
  | RARNotObject
  | RARDuplicateMember string
  | RARMissingType
  | RARUnregisteredType string
  | RARObjectTooLarge string
  | RARTooManyObjects string
  | RARMalformed string
  | RARRefused string
  | RARGrantExceedsRequest string
  | RARBadDefinition string

section \<open>Definitions\<close>

text \<open>
  A \<^verbatim>\<open>RARDefinition[T]\<close>: what its values are is the application's, with how the JSON
  decoder reads and writes them. \<open>rdStrict\<close> is the decoding that refuses unknown members and
  members spelled in another case, \<open>rdDeclaresType\<close> whether \<^verbatim>\<open>T\<close> has a
  \<^verbatim>\<open>type\<close> member of its own.
\<close>

record 'v RARDefinition =
  rdType :: string
  rdMaxObjects :: int
  rdMaxBytesPerObject :: int
  rdDeclaresType :: bool
  rdStrict :: "json \<Rightarrow> 'v option"
  rdDecode :: "json \<Rightarrow> 'v option"
  rdEncode :: "'v \<Rightarrow> json option"
  rdValidate :: "('v \<Rightarrow> bool) option"
  rdValidateRequest :: "('v \<Rightarrow> bool) option"
  rdValidateGrant :: "('v \<Rightarrow> 'v \<Rightarrow> bool) option"
  rdValidateNarrowing :: "('v \<Rightarrow> 'v \<Rightarrow> bool) option"

definition withoutTypeMember :: "json \<Rightarrow> json option" where
  "withoutTypeMember raw =
     map_option (\<lambda>ms. marshal_object (filter (\<lambda>(k, _). k \<noteq> ''type'') ms)) (unmarshal_object raw)"

definition hook_ok :: "('v \<Rightarrow> bool) option \<Rightarrow> 'v \<Rightarrow> bool" where
  "hook_ok hook v = (case hook of None \<Rightarrow> True | Some f \<Rightarrow> f v)"

definition rar_decodeCheck :: "'v RARDefinition \<Rightarrow> json \<Rightarrow> bool \<Rightarrow> rar_error + unit" where
  "rar_decodeCheck d raw request =
     and_then (of_option (RARMalformed (rdType d)) (if rdDeclaresType d then Some raw else withoutTypeMember raw)) (\<lambda>raw.
     and_then (of_option (RARMalformed (rdType d)) (rdStrict d raw)) (\<lambda>v.
     and_then (require (hook_ok (rdValidate d) v) (RARRefused (rdType d))) (\<lambda>_.
     require (request \<longrightarrow> hook_ok (rdValidateRequest d) v) (RARRefused (rdType d)))))"

definition rar_compare :: "'v RARDefinition \<Rightarrow> json \<Rightarrow> json \<Rightarrow> ('v \<Rightarrow> 'v \<Rightarrow> bool) option \<Rightarrow> rar_error + unit" where
  "rar_compare d baseRaw candidateRaw hook =
     and_then (of_option (RARMalformed (rdType d)) (rdDecode d baseRaw)) (\<lambda>base.
     and_then (of_option (RARMalformed (rdType d)) (rdDecode d candidateRaw)) (\<lambda>candidate.
     case hook of
       Some f \<Rightarrow> require (f base candidate) (RARRefused (rdType d))
     | None \<Rightarrow>
         and_then (of_option (RARMalformed (rdType d)) (rdEncode d base)) (\<lambda>canonicalBase.
         and_then (of_option (RARMalformed (rdType d)) (rdEncode d candidate)) (\<lambda>canonicalCandidate.
         require (canonicalBase = canonicalCandidate) (RARGrantExceedsRequest (rdType d))))))"

definition rar_validateGrant :: "'v RARDefinition \<Rightarrow> json \<Rightarrow> json \<Rightarrow> rar_error + unit" where
  "rar_validateGrant d requestedRaw grantedRaw = rar_compare d requestedRaw grantedRaw (rdValidateGrant d)"

definition rar_validateNarrowing :: "'v RARDefinition \<Rightarrow> json \<Rightarrow> json \<Rightarrow> rar_error + unit" where
  "rar_validateNarrowing d grantedRaw narrowedRaw =
     rar_compare d grantedRaw narrowedRaw
       (case rdValidateNarrowing d of None \<Rightarrow> rdValidateGrant d | Some hook \<Rightarrow> Some hook)"

text \<open>The interface \<^verbatim>\<open>registeredRAR\<close>, which definitions of every \<^verbatim>\<open>T\<close> fill.\<close>

record registeredRAR =
  raType :: string
  raMaxObjects :: int
  raMaxBytesPerObject :: int
  raDecodeCheck :: "json \<Rightarrow> bool \<Rightarrow> rar_error + unit"
  raValidateGrant :: "json \<Rightarrow> json \<Rightarrow> rar_error + unit"
  raValidateNarrowing :: "json \<Rightarrow> json \<Rightarrow> rar_error + unit"

definition register_RAR :: "'v RARDefinition \<Rightarrow> registeredRAR" where
  "register_RAR d =
     \<lparr>raType = rdType d, raMaxObjects = rdMaxObjects d, raMaxBytesPerObject = rdMaxBytesPerObject d,
      raDecodeCheck = rar_decodeCheck d, raValidateGrant = rar_validateGrant d,
      raValidateNarrowing = rar_validateNarrowing d\<rparr>"

section \<open>The registry\<close>

text \<open>
  \<open>rrSize\<close> is the length of a raw message's text and \<open>rrFold\<close> the case folding of member
  names, which \<open>FoldKey\<close> is for names with an ASCII one among them.
\<close>

record RARRegistry =
  rrByType :: "registeredRAR assoc"
  rrMaxTotalBytes :: int
  rrMaxDepth :: int
  rrSize :: "json \<Rightarrow> int"
  rrFold :: "string \<Rightarrow> string"

fun register_all :: "registeredRAR list \<Rightarrow> registeredRAR assoc \<Rightarrow> rar_error + registeredRAR assoc" where
  "register_all [] byType = Inr byType"
| "register_all (d # ds) byType =
     (if raType d = [] then Inl (RARBadDefinition ''type'')
      else if raMaxObjects d \<le> 0 then Inl (RARBadDefinition ''max objects'')
      else if raMaxBytesPerObject d \<le> 0 then Inl (RARBadDefinition ''max bytes per object'')
      else if map_of byType (raType d) \<noteq> None then Inl (RARBadDefinition ''duplicate'')
      else register_all ds (byType @ [(raType d, d)]))"

definition NewRARRegistry :: "(json \<Rightarrow> int) \<Rightarrow> (string \<Rightarrow> string) \<Rightarrow> int \<Rightarrow> int \<Rightarrow> registeredRAR list
    \<Rightarrow> rar_error + RARRegistry" where
  "NewRARRegistry size_of fold_name maxTotalBytes maxDepth defs =
     and_then (require (0 < maxTotalBytes) (RARBadDefinition ''max total bytes'')) (\<lambda>_.
     and_then (require (0 < maxDepth) (RARBadDefinition ''max depth'')) (\<lambda>_.
     and_then (register_all defs []) (\<lambda>byType.
     Inr \<lparr>rrByType = byType, rrMaxTotalBytes = maxTotalBytes, rrMaxDepth = maxDepth, rrSize = size_of,
       rrFold = fold_name\<rparr>)))"

definition rar_Types :: "RARRegistry \<Rightarrow> string list" where
  "rar_Types r = sort (map fst (rrByType r))"

section \<open>Parsing\<close>

text \<open>\<^verbatim>\<open>checkJSONDepth\<close>: every object or array within \<open>n\<close> levels.\<close>

fun depth_ok :: "nat \<Rightarrow> json \<Rightarrow> bool" where
  "depth_ok n (JArr xs) = (case n of 0 \<Rightarrow> False | Suc m \<Rightarrow> list_all (depth_ok m) xs)"
| "depth_ok n (JObj ms) = (case n of 0 \<Rightarrow> False | Suc m \<Rightarrow> list_all (\<lambda>(_, v). depth_ok m v) ms)"
| "depth_ok n _ = True"

text \<open>
  \<^verbatim>\<open>checkObjectMembers\<close> and \<^verbatim>\<open>checkValueMembers\<close>: no two members of an object
  that fold to one name, at any depth, and none at the top that only folds to \<^verbatim>\<open>type\<close>.
\<close>

fun checkValueMembers :: "(string \<Rightarrow> string) \<Rightarrow> json \<Rightarrow> bool" where
  "checkValueMembers fold_name (JObj ms) \<longleftrightarrow>
     distinct (map (fold_name \<circ> fst) ms) \<and> list_all (\<lambda>(_, v). checkValueMembers fold_name v) ms"
| "checkValueMembers fold_name (JArr xs) \<longleftrightarrow> list_all (checkValueMembers fold_name) xs"
| "checkValueMembers fold_name _ \<longleftrightarrow> True"

definition rar_checkMembers :: "(string \<Rightarrow> string) \<Rightarrow> json \<Rightarrow> rar_error + unit" where
  "rar_checkMembers fold_name raw =
     (case raw of
        JObj ms \<Rightarrow>
          require (checkValueMembers fold_name raw
              \<and> list_all (\<lambda>(k, _). fold_name k = fold_name ''type'' \<longrightarrow> k = ''type'') ms)
            (RARDuplicateMember ''member'')
      | _ \<Rightarrow> Inl RARNotObject)"

definition head_dec :: "string \<Rightarrow> json \<Rightarrow> string \<Rightarrow> string option" where
  "head_dec name v t = dec_string (\<lambda>x _. x) v t"

text \<open>The \<^verbatim>\<open>type\<close> of an object, empty when it has none to tell.\<close>

definition rar_head_type :: "json \<Rightarrow> string option" where
  "rar_head_type raw = decode_struct [''type''] head_dec [] raw"

type_synonym RARValues = "(string \<times> json) list"

text \<open>
  The objects in the order they came, each under its type. \<open>seen\<close> are the objects
  before, which the counts are taken of.
\<close>

definition parse_object :: "RARRegistry \<Rightarrow> bool \<Rightarrow> RARValues \<Rightarrow> json \<Rightarrow> rar_error + RARValues" where
  "parse_object r request seen raw =
     and_then (rar_checkMembers (rrFold r) raw) (\<lambda>_.
     and_then (of_option RARMissingType (rar_head_type raw)) (\<lambda>typ.
     and_then (require (typ \<noteq> []) RARMissingType) (\<lambda>_.
     and_then (of_option (RARUnregisteredType typ) (map_of (rrByType r) typ)) (\<lambda>def.
     and_then (require (rrSize r raw \<le> raMaxBytesPerObject def) (RARObjectTooLarge typ)) (\<lambda>_.
     and_then (require (int (length (filter (\<lambda>(t, _). t = typ) seen)) + 1 \<le> raMaxObjects def) (RARTooManyObjects typ)) (\<lambda>_.
     and_then (raDecodeCheck def raw request) (\<lambda>_.
     Inr (seen @ [(typ, raw)]))))))))"

text \<open>
  \<open>bytes\<close> is the length of the text, \<open>lossless\<close> whether it decodes losslessly, and
  \<open>None\<close> a text that is not one JSON value.
\<close>

definition rar_parse :: "RARRegistry \<Rightarrow> int \<Rightarrow> bool \<Rightarrow> json option \<Rightarrow> bool \<Rightarrow> rar_error + RARValues" where
  "rar_parse r bytes lossless raw request =
     and_then (require (bytes \<le> rrMaxTotalBytes r) RARTooLarge) (\<lambda>_.
     and_then (require (request \<longrightarrow> lossless) RARNotLossless) (\<lambda>_.
     and_then (of_option RARNotArray raw) (\<lambda>j.
     and_then (require (depth_ok (nat (rrMaxDepth r)) j) RARTooDeep) (\<lambda>_.
     and_then (of_option RARNotArray (unmarshal_array j)) (\<lambda>objects.
     foldR (parse_object r request) [] objects)))))"

definition objects_of :: "RARValues \<Rightarrow> string \<Rightarrow> json list" where
  "objects_of values typ = map snd (filter (\<lambda>(t, _). t = typ) values)"

section \<open>Matching\<close>

text \<open>The first base object not used yet that the check accepts for the candidate.\<close>

fun matchObject :: "(json \<Rightarrow> json \<Rightarrow> rar_error + unit) \<Rightarrow> json \<Rightarrow> json list \<Rightarrow> bool list \<Rightarrow> bool list option" where
  "matchObject test candidate (b # bs) (u # us) =
     (if \<not> u \<and> is_ok (test b candidate) then Some (True # us)
      else map_option ((#) u) (matchObject test candidate bs us))"
| "matchObject test candidate _ _ = None"

fun match_candidates :: "(json \<Rightarrow> json \<Rightarrow> rar_error + unit) \<Rightarrow> json list \<Rightarrow> json list \<Rightarrow> bool list \<Rightarrow> bool" where
  "match_candidates test bases [] used = True"
| "match_candidates test bases (c # cs) used =
     (case matchObject test c bases used of None \<Rightarrow> False | Some used' \<Rightarrow> match_candidates test bases cs used')"

definition match_type :: "RARRegistry \<Rightarrow> RARValues \<Rightarrow> RARValues \<Rightarrow> bool \<Rightarrow> string \<Rightarrow> rar_error + unit" where
  "match_type r base candidates narrow typ =
     and_then (of_option (RARUnregisteredType typ) (map_of (rrByType r) typ)) (\<lambda>def.
     let bases = objects_of base typ in
     require (match_candidates (if narrow then raValidateNarrowing def else raValidateGrant def)
         bases (objects_of candidates typ) (map (\<lambda>_. False) bases)) (RARGrantExceedsRequest typ))"

text \<open>The types are taken in the order of the candidates; Go's map has no order of its own.\<close>

definition matchAll :: "RARRegistry \<Rightarrow> RARValues \<Rightarrow> RARValues \<Rightarrow> bool \<Rightarrow> rar_error + unit" where
  "matchAll r base candidates narrow =
     check_all (match_type r base candidates narrow) (remdups (map fst candidates))"

definition rar_ValidateGrant :: "RARRegistry \<Rightarrow> RARValues \<Rightarrow> RARValues \<Rightarrow> rar_error + unit" where
  "rar_ValidateGrant r requested granted = matchAll r requested granted False"

definition rar_ValidateNarrowing :: "RARRegistry \<Rightarrow> RARValues \<Rightarrow> RARValues \<Rightarrow> rar_error + unit" where
  "rar_ValidateNarrowing r granted narrowed = matchAll r granted narrowed True"

section \<open>Granted details, as a resource server reads them\<close>

definition granted_object :: "(string \<Rightarrow> string) \<Rightarrow> RARValues \<Rightarrow> json \<Rightarrow> rar_error + RARValues" where
  "granted_object fold_name seen raw =
     and_then (rar_checkMembers fold_name raw) (\<lambda>_.
     and_then (of_option RARMissingType (rar_head_type raw)) (\<lambda>typ.
     and_then (require (typ \<noteq> []) RARMissingType) (\<lambda>_.
     Inr (seen @ [(typ, raw)]))))"

definition ParseGrantedRAR :: "(string \<Rightarrow> string) \<Rightarrow> raw \<Rightarrow> rar_error + RARValues" where
  "ParseGrantedRAR fold_name claim =
     (case claim of
        None \<Rightarrow> Inr []
      | Some JNull \<Rightarrow> Inr []
      | Some j \<Rightarrow> and_then (of_option RARNotArray (unmarshal_array j)) (foldR (granted_object fold_name) []))"

section \<open>One to one\<close>

lemma matchObject_Some:
  assumes "matchObject test c bs us = Some us'" "length us = length bs"
  shows "length us' = length bs \<and> (\<exists>i < length bs. \<not> us ! i \<and> is_ok (test (bs ! i) c) \<and> us' = us[i := True])"
  using assms
proof (induction test c bs us arbitrary: us' rule: matchObject.induct)
  case (1 test candidate b bs u us)
  show ?case
  proof (cases "\<not> u \<and> is_ok (test b candidate)")
    case True
    with 1 show ?thesis by (auto intro!: exI [of _ 0])
  next
    case False
    with 1(2) obtain us'' where us'': "matchObject test candidate bs us = Some us''" "us' = u # us''"
      by (auto split: if_splits)
    with 1(1) [OF False this(1)] 1(3) obtain i where
      "length us'' = length bs" "i < length bs" "\<not> us ! i" "is_ok (test (bs ! i) candidate)" "us'' = us[i := True]"
      by auto
    with us'' show ?thesis by (auto intro!: exI [of _ "Suc i"])
  qed
qed auto

text \<open>Every candidate has a base object of its own.\<close>

lemma match_candidates_injective:
  assumes "match_candidates test bs cs used" "length used = length bs"
  shows "\<exists>f. inj_on f {..<length cs} \<and>
    (\<forall>k < length cs. f k < length bs \<and> \<not> used ! (f k) \<and> is_ok (test (bs ! f k) (cs ! k)))"
  using assms
proof (induction cs arbitrary: used)
  case (Cons c cs)
  from Cons.prems(1) obtain used' where u: "matchObject test c bs used = Some used'" "match_candidates test bs cs used'"
    by (auto split: option.splits)
  from matchObject_Some [OF u(1) Cons.prems(2)] obtain i where
    i: "length used' = length bs" "i < length bs" "\<not> used ! i" "is_ok (test (bs ! i) c)" "used' = used[i := True]"
    by auto
  from Cons.IH [OF u(2) i(1)] obtain f where f: "inj_on f {..<length cs}"
    "\<And>k. k < length cs \<Longrightarrow> f k < length bs \<and> \<not> used' ! (f k) \<and> is_ok (test (bs ! f k) (cs ! k))" by blast
  have ne: "f k \<noteq> i \<and> \<not> used ! f k" if "k < length cs" for k
    using f(2) [OF that] i Cons.prems(2) by (auto simp: nth_list_update split: if_splits)
  define g where "g k = (case k of 0 \<Rightarrow> i | Suc n \<Rightarrow> f n)" for k
  have "inj_on g {..<length (c # cs)}"
    using f(1) ne by (auto simp: inj_on_def g_def split: nat.splits)
  moreover have "\<forall>k < length (c # cs). g k < length bs \<and> \<not> used ! (g k) \<and> is_ok (test (bs ! g k) ((c # cs) ! k))"
    using f(2) ne i by (auto simp: g_def split: nat.splits)
  ultimately show ?case by blast
qed simp

lemma objects_of_member: "(typ, raw) \<in> set values \<Longrightarrow> raw \<in> set (objects_of values typ)"
  by (force simp: objects_of_def)

text \<open>
  C19. Narrowing authorization details is one to one: when the registry accepts what a token
  request asks of a grant, the objects of each type asked for are assigned to different
  objects the grant holds of that type, and the type's own check accepted each of them against the
  object it was assigned to. No granted object is spent twice, and no object of a type the
  registry does not know gets through.
\<close>

theorem narrowing_one_to_one:
  assumes "rar_ValidateNarrowing r granted narrowed = Inr ()" "typ \<in> fst ` set narrowed"
  shows "\<exists>def f. map_of (rrByType r) typ = Some def \<and>
    inj_on f {..<length (objects_of narrowed typ)} \<and>
    (\<forall>k < length (objects_of narrowed typ). f k < length (objects_of granted typ) \<and>
       is_ok (raValidateNarrowing def (objects_of granted typ ! f k) (objects_of narrowed typ ! k)))"
proof -
  from assms have "match_type r granted narrowed True typ = Inr ()"
    by (auto simp: rar_ValidateNarrowing_def matchAll_def check_all_Inr)
  then obtain def where def: "map_of (rrByType r) typ = Some def"
      "match_candidates (raValidateNarrowing def) (objects_of granted typ) (objects_of narrowed typ)
         (map (\<lambda>_. False) (objects_of granted typ))"
    by (auto simp: match_type_def Let_def and_then_eq_Inr require_eq_Inr)
  from match_candidates_injective [OF def(2)] def(1) show ?thesis by auto
qed

section \<open>An example\<close>

text \<open>Payments: a grant's amount bounds what may be asked of it.\<close>

definition amount_of :: "json \<Rightarrow> nat option" where
  "amount_of j =
     (case unmarshal_object j of
        None \<Rightarrow> None
      | Some ms \<Rightarrow> (case map_of ms ''amount'' of Some (JNum False n None) \<Rightarrow> Some n | _ \<Rightarrow> None))"

definition payment_definition :: "nat RARDefinition" where
  "payment_definition =
     \<lparr>rdType = ''payment'', rdMaxObjects = 2, rdMaxBytesPerObject = 100, rdDeclaresType = False,
      rdStrict = amount_of, rdDecode = amount_of, rdEncode = (\<lambda>n. Some (JNum False n None)),
      rdValidate = None, rdValidateRequest = None, rdValidateGrant = None,
      rdValidateNarrowing = Some (\<lambda>granted narrowed. narrowed \<le> granted)\<rparr>"

definition payment :: "nat \<Rightarrow> json" where
  "payment n = JObj [(''type'', JStr ''payment''), (''amount'', JNum False n None)]"

definition payments_registry :: RARRegistry where
  "payments_registry =
     \<lparr>rrByType = [(''payment'', register_RAR payment_definition)], rrMaxTotalBytes = 1000, rrMaxDepth = 4,
      rrSize = (\<lambda>_. 40), rrFold = FoldKey\<rparr>"

definition granted_payments :: RARValues where
  "granted_payments = [(''payment'', payment 10), (''payment'', payment 20)]"

definition asked_payments :: RARValues where
  "asked_payments = [(''payment'', payment 15), (''payment'', payment 4)]"

lemma asked_payments_accepted: "rar_ValidateNarrowing payments_registry granted_payments asked_payments = Inr ()"
  by code_simp

lemma narrowing_one_to_one_witness:
  "\<exists>def f. map_of (rrByType payments_registry) ''payment'' = Some def \<and>
    inj_on f {..<length (objects_of asked_payments ''payment'')} \<and>
    (\<forall>k < length (objects_of asked_payments ''payment''). f k < length (objects_of granted_payments ''payment'') \<and>
       is_ok (raValidateNarrowing def (objects_of granted_payments ''payment'' ! f k) (objects_of asked_payments ''payment'' ! k)))"
  by (rule narrowing_one_to_one [OF asked_payments_accepted]) (simp add: asked_payments_def)

end
