(* ===== verification/Registered_Client.thy ===== *)
theory Registered_Client
  imports Memstore Jwk Url
begin

text \<open>
  What a server knows of a client: \<^verbatim>\<open>RegisteredClient\<close> of
  \<^verbatim>\<open>storage/client_repository.go\<close> and what it answers. A value of Go's enumerations
  that is their zero is an option here where the code tells it from the others.
\<close>

datatype ApplicationType = ApplicationTypeWeb | ApplicationTypeNative

datatype ClientAuthMethod =
    ClientAuthMethodPrivateKeyJWT
  | ClientAuthMethodSelfSignedTLSClientAuth
  | ClientAuthMethodTLSClientAuth
  | ClientAuthMethodTLSClientAuthSANDNS
  | ClientAuthMethodTLSClientAuthSANURI
  | ClientAuthMethodTLSClientAuthSANIP
  | ClientAuthMethodTLSClientAuthSANEmail
  | ClientAuthMethodAttestation

datatype ContentEncryptionAlgorithm = A256GCM | A256CBCHS512

datatype SubjectType = SubjectTypePublic | SubjectTypePairwise

text \<open>What a consent screen may show of a client; \<open>None\<close> is the zero URL.\<close>

record ClientDisplay =
  cdName :: string
  cdLogoURI :: "url option"
  cdPolicyURI :: "url option"
  cdTermsOfServiceURI :: "url option"

text \<open>Sets of strings are lists without repetition, in no order that matters.\<close>

record RegisteredClient =
  rclID :: string
  rclRedirectURIs :: "string list"
  rclApplicationType :: ApplicationType
  rclClientAssertionAlgorithms :: "SignatureAlgorithm list"
  rclRequestObjectAlgorithm :: "SignatureAlgorithm option"
  rclSenderConstrain :: SenderConstrain
  rclClientAuthMethods :: "ClientAuthMethod list"
  rclCertificateThumbprint :: string
  rclAdditionalThumbprints :: "string list"
  rclCertificateKeyThumbprints :: "string list"
  rclSubjectDN :: string
  rclSANDNS :: string
  rclSANURI :: string
  rclSANIP :: string
  rclSANEmail :: string
  rclAttesterIssuer :: string
  rclAttestationAlgorithm :: "SignatureAlgorithm option"
  rclAllowedScopes :: "string list"
  rclAuthorizationDetailsTypes :: "string list"
  rclAllowedResources :: "string list"
  rclIDTokenEncryption :: "(KeyManagementAlgorithm \<times> ContentEncryptionAlgorithm) option"
  rclBackchannelAlgorithm :: "SignatureAlgorithm option"
  rclClientCredentials :: bool
  rclAutomaticFederation :: bool
  rclSubjectType :: "SubjectType option"
  rclSector :: string
  rclDisplay :: ClientDisplay

definition AllowsAuthorizationCodeGrant :: "RegisteredClient \<Rightarrow> bool" where
  "AllowsAuthorizationCodeGrant c \<longleftrightarrow> 0 < length (rclRedirectURIs c)"

definition AllowsClientAssertionAlgorithm :: "RegisteredClient \<Rightarrow> SignatureAlgorithm \<Rightarrow> bool" where
  "AllowsClientAssertionAlgorithm c alg \<longleftrightarrow> alg \<in> set (rclClientAssertionAlgorithms c)"

definition AllowsClientAuthMethod :: "RegisteredClient \<Rightarrow> ClientAuthMethod \<Rightarrow> bool" where
  "AllowsClientAuthMethod c m \<longleftrightarrow> m \<in> set (rclClientAuthMethods c)"

definition ExpectedCertificateThumbprints :: "RegisteredClient \<Rightarrow> string list" where
  "ExpectedCertificateThumbprints c =
     (if rclCertificateThumbprint c = [] then [] else rclCertificateThumbprint c # rclAdditionalThumbprints c)"

definition AllowsScope :: "RegisteredClient \<Rightarrow> string \<Rightarrow> bool" where
  "AllowsScope c scope \<longleftrightarrow> scope \<in> set (rclAllowedScopes c)"

definition AllowsResource :: "RegisteredClient \<Rightarrow> string \<Rightarrow> bool" where
  "AllowsResource c resource \<longleftrightarrow> rclAllowedResources c = [] \<or> resource \<in> set (rclAllowedResources c)"

definition AllowedResources :: "RegisteredClient \<Rightarrow> string list" where
  "AllowedResources c = sort (rclAllowedResources c)"

definition AllowsAuthorizationDetailsType :: "RegisteredClient \<Rightarrow> string \<Rightarrow> bool" where
  "AllowsAuthorizationDetailsType c typ \<longleftrightarrow> typ \<in> set (rclAuthorizationDetailsTypes c)"

definition AuthorizationDetailsTypes :: "RegisteredClient \<Rightarrow> string list" where
  "AuthorizationDetailsTypes c = sort (rclAuthorizationDetailsTypes c)"

text \<open>The length of all the scopes, joined by spaces.\<close>

definition joinedLength :: "string list \<Rightarrow> int" where
  "joinedLength names = max (foldl (\<lambda>n v. n + int (length v) + 1) 0 names - 1) 0"

definition AllowedScopesLength :: "RegisteredClient \<Rightarrow> int" where
  "AllowedScopesLength c = joinedLength (rclAllowedScopes c)"

section \<open>Redirect URIs\<close>

text \<open>
  \<^verbatim>\<open>url.Parse\<close> and the test for a loopback address literal are arguments.
  \<open>url_Port\<close> is the method \<^verbatim>\<open>Port\<close> of a parsed URL.
\<close>

definition url_Port :: "url \<Rightarrow> string" where
  "url_Port u =
     (case last_colon (uHost u) of
        None \<Rightarrow> []
      | Some i \<Rightarrow> if validOptionalPort (drop i (uHost u)) then drop (i + 1) (uHost u) else [])"

definition decimal :: "string \<Rightarrow> nat" where
  "decimal s = foldl (\<lambda>n c. 10 * n + (of_char c - 48)) 0 s"

definition contains_hash :: "string \<Rightarrow> bool" where
  "contains_hash s \<longleftrightarrow> CHR ''#'' \<in> set s"

definition withoutLoopbackPort :: "(string \<Rightarrow> url option) \<Rightarrow> (string \<Rightarrow> bool) \<Rightarrow> string \<Rightarrow> string option" where
  "withoutLoopbackPort parse loopback uri =
     (let rest = drop 7 uri in
      if \<not> has_prefix uri ''http://'' then None
      else case parse uri of
        None \<Rightarrow> None
      | Some u \<Rightarrow>
          if uHasUser u \<or> contains_hash uri \<or> \<not> has_prefix rest (uHost u) then None
          else if \<not> loopback (Hostname u) then None
          else let port = url_Port u in
            if port = [] then Some (''http://'' @ uHost u @ drop (length (uHost u)) rest)
            else if decimal port < 1 \<or> 65535 < decimal port then None
            else Some (''http://'' @ trim_suffix (uHost u) ('':'' @ port) @ drop (length (uHost u)) rest))"

definition loopbackMatchesAnyPort :: "(string \<Rightarrow> url option) \<Rightarrow> (string \<Rightarrow> bool) \<Rightarrow> string \<Rightarrow> string \<Rightarrow> bool" where
  "loopbackMatchesAnyPort parse loopback registered candidate =
     (case withoutLoopbackPort parse loopback registered of
        None \<Rightarrow> False
      | Some r \<Rightarrow> withoutLoopbackPort parse loopback candidate = Some r)"

definition HasRedirectURI :: "(string \<Rightarrow> url option) \<Rightarrow> (string \<Rightarrow> bool) \<Rightarrow> RegisteredClient \<Rightarrow> string \<Rightarrow> bool" where
  "HasRedirectURI parse loopback c candidate =
     list_ex (\<lambda>u. u = candidate \<or>
       (rclApplicationType c = ApplicationTypeNative \<and> loopbackMatchesAnyPort parse loopback u candidate))
       (rclRedirectURIs c)"

text \<open>A web client's redirect URI is one of its own, to the byte.\<close>

lemma HasRedirectURI_web:
  "rclApplicationType c = ApplicationTypeWeb \<Longrightarrow> HasRedirectURI parse loopback c uri \<longleftrightarrow> uri \<in> set (rclRedirectURIs c)"
  by (auto simp: HasRedirectURI_def list_ex_iff)

end
