(* ===== verification/Server_Types.thy ===== *)
theory Server_Types
  imports Client_Attestation Rar Registered_Client Resource_Verify Claim_Values
begin

text \<open>
  The authorization server's data: its errors (\<^verbatim>\<open>server/errors.go\<close>), the parameters of a
  form request (\<^verbatim>\<open>server/par.go\<close>, \<^verbatim>\<open>formrequest.go\<close>,
  \<^verbatim>\<open>resource_indicators.go\<close>), its configuration and its dependencies
  (\<^verbatim>\<open>server/config.go\<close>, \<^verbatim>\<open>dependencies.go\<close>). As for the resource server a
  dependency is an effect of a state the model leaves open, the clock and the random source
  included; beside it stands the nonce the server currently hands out.
\<close>

section \<open>Errors\<close>

definition ErrorInvalidClient :: string where "ErrorInvalidClient = ''invalid_client''"
definition ErrorInvalidRequestObject :: string where "ErrorInvalidRequestObject = ''invalid_request_object''"
definition ErrorInvalidGrant :: string where "ErrorInvalidGrant = ''invalid_grant''"
definition ErrorInvalidScope :: string where "ErrorInvalidScope = ''invalid_scope''"
definition ErrorUnsupportedGrantType :: string where "ErrorUnsupportedGrantType = ''unsupported_grant_type''"
definition ErrorUnauthorizedClient :: string where "ErrorUnauthorizedClient = ''unauthorized_client''"
definition ErrorUnsupportedResponseType :: string where "ErrorUnsupportedResponseType = ''unsupported_response_type''"
definition ErrorInvalidAuthorizationDetails :: string where
  "ErrorInvalidAuthorizationDetails = ''invalid_authorization_details''"
definition ErrorInvalidTarget :: string where "ErrorInvalidTarget = ''invalid_target''"
definition ErrorUseFreshAttestation :: string where "ErrorUseFreshAttestation = ''use_fresh_attestation''"
definition ErrorExpiredToken :: string where "ErrorExpiredToken = ''expired_token''"

record ServerError =
  svCode :: string
  svStatus :: int
  svDescription :: string
  svNonce :: string
  svChallenge :: string

definition srv_error :: "string \<Rightarrow> int \<Rightarrow> string \<Rightarrow> ServerError" where
  "srv_error code httpStatus description =
     \<lparr>svCode = code, svStatus = httpStatus, svDescription = Description description, svNonce = [], svChallenge = []\<rparr>"

text \<open>An error made of another's text, or of the text it keeps for clients.\<close>

definition requestError :: "string \<Rightarrow> string \<Rightarrow> ServerError" where
  "requestError code description = srv_error code 400 description"

definition server_NewError :: "string \<Rightarrow> int \<Rightarrow> string \<Rightarrow> ServerError" where
  "server_NewError code httpStatus description =
     (let (c, status, desc) = Normalize code httpStatus description False in
      \<lparr>svCode = c, svStatus = status, svDescription = desc, svNonce = [], svChallenge = []\<rparr>)"

definition noStore :: "string assoc" where
  "noStore = [(''Cache-Control'', ''no-store''), (''Pragma'', ''no-cache'')]"

definition server_WriteJSON :: "ServerError \<Rightarrow> http_response" where
  "server_WriteJSON e =
     httperror_WriteJSON (svNonce e) [] (svCode e) (svDescription e) (svStatus e)
       (noStore @ (if svChallenge e \<noteq> [] then [(''WWW-Authenticate'', svChallenge e)] else []))"

definition invalid_client :: "string \<Rightarrow> ServerError" where
  "invalid_client = srv_error ErrorInvalidClient 401"

definition invalid_request :: "string \<Rightarrow> ServerError" where
  "invalid_request = srv_error ErrorInvalidRequest 400"

definition invalid_grant :: "string \<Rightarrow> ServerError" where
  "invalid_grant = srv_error ErrorInvalidGrant 400"

definition server_error :: "string \<Rightarrow> ServerError" where
  "server_error = srv_error ErrorServerError 500"

definition invalid_target :: "string \<Rightarrow> ServerError" where
  "invalid_target = srv_error ErrorInvalidTarget 400"

section \<open>Form requests\<close>

type_synonym FormParameter = "string \<times> string"

definition maxFormRequestBytes :: int where "maxFormRequestBytes = 2 ^ 20"
definition maxFormParameters :: int where "maxFormParameters = 100"
definition maxFormParameterBytes :: int where "maxFormParameterBytes = maxFormRequestBytes"

definition form_Get :: "FormParameter list \<Rightarrow> string \<Rightarrow> string" where
  "form_Get params name = (case map_of params name of None \<Rightarrow> [] | Some v \<Rightarrow> v)"

text \<open>A parameter without a value is as if it were not sent, but its name is taken.\<close>

fun form_entries :: "string list \<Rightarrow> FormParameter list \<Rightarrow> unit + string assoc" where
  "form_entries seen [] = Inr []"
| "form_entries seen ((name, v) # ps) =
     (if name \<in> set seen then Inl ()
      else and_then (form_entries (name # seen) ps) (\<lambda>rest. Inr (if v = [] then rest else (name, v) # rest)))"

definition formParametersToMap :: "FormParameter list \<Rightarrow> unit + string assoc" where
  "formParametersToMap params =
     (if maxFormParameters < int (length params) then Inl ()
      else if maxFormParameterBytes < int (sum_list (map (\<lambda>(name, v). length name + length v) params)) then Inl ()
      else form_entries [] params)"

text \<open>\<^verbatim>\<open>params[name]\<close>, and whether there is such a parameter.\<close>

definition param :: "string assoc \<Rightarrow> string \<Rightarrow> string" where
  "param params name = (case map_of params name of None \<Rightarrow> [] | Some v \<Rightarrow> v)"

definition resourceParameter :: string where "resourceParameter = ''resource''"

definition splitResourceParameters :: "FormParameter list \<Rightarrow> FormParameter list \<times> string list" where
  "splitResourceParameters params =
     (if maxFormParameters < int (length params) then (params, [])
      else (filter (\<lambda>(name, _). name \<noteq> resourceParameter) params,
            map snd (filter (\<lambda>(name, v). name = resourceParameter \<and> v \<noteq> []) params)))"

section \<open>Configuration\<close>

datatype Profile = ProfileFAPISecurity | ProfileFAPISecurityWithMessageSigning

datatype SubjectTypeEnforcement = SubjectTypesPerClient | SubjectTypesPairwiseOnly

record SubjectConfig =
  sjDefault :: "SubjectType option"
  sjEnforcement :: "SubjectTypeEnforcement option"
  sjPrefix :: "string option"

record server_limits =
  slPushedRequestLifetime :: duration
  slMaxClientAssertionLifetime :: duration
  slMaxRequestObjectLifetime :: duration
  slAuthorizationCodeLifetime :: duration
  slAccessTokenLifetime :: duration
  slIDTokenLifetime :: duration
  slMaxIDTokenClaimsBytes :: int
  slMaxAccessTokenClaimsBytes :: int
  slRefreshTokenLifetime :: duration
  slMaxDPoPProofAge :: duration
  slMaxClockSkew :: duration
  slDPoPNonceLifetime :: duration
  slBackchannelRequestLifetime :: duration
  slMaxClientAttestationLifetime :: duration
  slMaxClientAttestationPoPAge :: duration

definition maxAccessTokenFixedBytes :: int where "maxAccessTokenFixedBytes = 8 * 2 ^ 10"
definition defaultMaxAccessTokenBytes :: int where "defaultMaxAccessTokenBytes = 16 * 2 ^ 10"

definition MaxAccessTokenBytes :: "server_limits \<Rightarrow> int" where
  "MaxAccessTokenBytes l =
     (let encoded = (slMaxAccessTokenClaimsBytes l * 4 + 2) div 3 in
      max defaultMaxAccessTokenBytes (maxAccessTokenFixedBytes + encoded))"

text \<open>Endpoints are parsed URLs; \<open>None\<close> is the zero value.\<close>

record server_config =
  scIssuer :: string
  scTokenEndpoint :: "url option"
  scPAREndpoint :: "url option"
  scMTLSTokenEndpoint :: "url option"
  scMTLSPAREndpoint :: "url option"
  scProfile :: Profile
  scClientAssertionAlgs :: "SignatureAlgorithm list"
  scRequestObjectAlgs :: "SignatureAlgorithm list"
  scIDTokenAlg :: SignatureAlgorithm
  scIDTokenEncryptionKeyManagement :: "KeyManagementAlgorithm list"
  scIDTokenEncryptionContent :: "ContentEncryptionAlgorithm list"
  scClientAttestationAlgs :: "SignatureAlgorithm list"
  scClientAttestationPoPAlgs :: "SignatureAlgorithm list"
  scLimits :: server_limits
  scSubjects :: SubjectConfig
  scRAR :: "RARRegistry option"
  scClientCredentialsGrant :: bool
  scAdditionalGrantTypes :: "string list"
  scResources :: "string list"
  scAttestationAuth :: bool
  scOAuthOnly :: bool

text \<open>\<^verbatim>\<open>PublicSubjects\<close>, and what applies when OAuth-only servers leave subjects out.\<close>

definition PublicSubjects :: SubjectConfig where
  "PublicSubjects = \<lparr>sjDefault = Some SubjectTypePublic, sjEnforcement = Some SubjectTypesPerClient, sjPrefix = None\<rparr>"

definition subjects_IsZero :: "SubjectConfig \<Rightarrow> bool" where
  "subjects_IsZero c \<longleftrightarrow> c = \<lparr>sjDefault = None, sjEnforcement = None, sjPrefix = None\<rparr>"

definition effectiveSubjects :: "server_config \<Rightarrow> SubjectConfig" where
  "effectiveSubjects cfg = (if scOAuthOnly cfg \<and> subjects_IsZero (scSubjects cfg) then PublicSubjects else scSubjects cfg)"

definition prefix_String :: "string option \<Rightarrow> string" where
  "prefix_String p = (case p of None \<Rightarrow> [] | Some s \<Rightarrow> s)"

section \<open>Dependencies\<close>

text \<open>
  A certificate as \<^verbatim>\<open>crypto/x509\<close> parsed it: its bytes, its subject as the two readers of
  it print it (with the attributes the second one may drop) and its alternative names.
\<close>

record certificate =
  xcRaw :: bytes
  xcRawSubjectString :: "string option"
  xcSubjectString :: string
  xcSubjectNames :: "(nat list \<times> bool) list"
  xcDNSNames :: "string list"
  xcURIs :: "string list"
  xcIPAddresses :: "bytes list"
  xcEmailAddresses :: "string list"
  xcKeyThumbprint :: "string option"

datatype verification_purpose = ClientAssertionVerification | RequestObjectVerification

record verification_key =
  vkKeyID :: string
  vkAlgorithm :: SignatureAlgorithm
  vkPublicKey :: public_key

text \<open>What an Attester's key comes with: how the revocation of its certificates is checked, if at all.\<close>

record attester_signer =
  asKey :: public_key
  asChain :: "certificate list"
  asChains :: "certificate list list"
  asChecked :: bool

datatype revocation_failure = ErrCertificateRevoked | RevocationUndecided

record verified_client_attestation =
  vcClient :: RegisteredClient
  vcClaims :: "json assoc"
  vcIssuedAt :: time
  vcExpiresAt :: time
  vcInstanceKey :: string
  vcSignerKey :: public_key
  vcSignerCertificates :: "certificate list"

datatype status_failure = ErrClientAttestationRevoked | StatusCheckFailed

datatype resource_failure = ErrResourceNotAllowed | ResourcePolicyFailed

text \<open>Reuse of a code is told from its other failures, with what was issued for it.\<close>

datatype redeem_failure = AlreadyRedeemed string "bytes option" string | NotRedeemed

record 's grant_store =
  gtRedeemCode :: "AuthorizationCodeRedemption \<Rightarrow> ('s, redeem_failure, RedeemedGrant) effect"
  gtRecordAccess :: "bytes \<Rightarrow> string \<Rightarrow> time \<Rightarrow> ('s, dependency_error, unit) effect"
  gtRecordRefresh :: "bytes \<Rightarrow> bytes \<Rightarrow> time \<Rightarrow> ('s, dependency_error, unit) effect"
  gtRecordTokens :: "(bytes \<Rightarrow> string \<Rightarrow> time \<Rightarrow> bytes \<Rightarrow> time \<Rightarrow> ('s, dependency_error, unit) effect) option"
  gtCreateRefresh :: "NewRefreshToken \<Rightarrow> ('s, dependency_error, unit) effect"
  gtRedeemRefresh :: "bytes \<Rightarrow> ('s, dependency_error, RedeemedGrant) effect"
  gtRevokeRefresh :: "bytes \<Rightarrow> ('s, dependency_error, unit) effect"

text \<open>
  Where revocations are written; \<open>rvReader\<close> is there when the same store can be asked, which
  \<^verbatim>\<open>NoRevocation\<close> never is.
\<close>

record 's revocation_reader =
  rvIsRevoked :: "string \<Rightarrow> ('s, dependency_error, bool) effect"
  rvIsAnyRevoked :: "(string list \<Rightarrow> ('s, dependency_error, bool) effect) option"

record 's revocation_sink =
  rvRevoke :: "string \<Rightarrow> time \<Rightarrow> ('s, dependency_error, unit) effect"
  rvReader :: "'s revocation_reader option"

record access_token_params =
  atpClientID :: string
  atpSubject :: string
  atpInternalSubject :: string
  atpScope :: "string list"
  atpThumbprint :: string
  atpSenderConstrain :: SenderConstrain
  atpClaims :: "json assoc"
  atpIssuer :: string
  atpAudience :: string
  atpAudiences :: "string list"
  atpNow :: time
  atpLifetime :: duration

datatype signing_purpose = AccessTokenSigning | IDTokenSigning | JARMSigning

datatype AuditEventType =
    AuditEventPushAuthorizationRequest
  | AuditEventBeginAuthorization
  | AuditEventCompleteAuthorization
  | AuditEventExchangeAuthorizationCode
  | AuditEventRefreshAccessToken
  | AuditEventBeginBackchannelAuthentication
  | AuditEventCompleteBackchannelAuthentication
  | AuditEventExchangeBackchannelAuthentication
  | AuditEventRequestClientCredentialsToken
  | AuditEventAuthenticateAttestedClient
  | AuditEventVerifyTokenRequestBinding
  | AuditEventIssueRefreshToken
  | AuditEventRevokeToken
  | AuditEventIssueAccessToken
  | AuditEventVerifyTokenRequestDPoP

datatype audit_outcome = AuditOutcomeSuccess | AuditOutcomeFailure

record audit_event =
  aeType :: AuditEventType
  aeTime :: time
  aeClientID :: string
  aeOutcome :: audit_outcome
  aeDescription :: string

record encryption_key =
  ekKeyID :: string
  ekAlgorithm :: KeyManagementAlgorithm
  ekPublicKey :: public_key

record 's server_deps =
  sdNow :: "'s \<Rightarrow> time \<times> 's"
  sdRandom :: "nat \<Rightarrow> 's \<Rightarrow> bytes option \<times> 's"
  sdAudit :: "(audit_event \<Rightarrow> 's \<Rightarrow> 's) option"
  sdResolveClient :: "string \<Rightarrow> ('s, dependency_error, RegisteredClient) effect"
  sdReplay :: "ReplayUse \<Rightarrow> ('s, dependency_error, unit) effect"
  sdClientKeys :: "string \<Rightarrow> verification_purpose \<Rightarrow> SignatureAlgorithm \<Rightarrow> string
    \<Rightarrow> ('s, dependency_error, verification_key list) effect"
  sdAttesterKey :: "RegisteredClient \<Rightarrow> Attestation \<Rightarrow> ('s, dependency_error, attester_signer) effect"
  sdCheckRevocation :: "certificate list \<Rightarrow> time \<Rightarrow> ('s, revocation_failure, unit) effect"
  sdAttestationStatus :: "(verified_client_attestation \<Rightarrow> ('s, status_failure, unit) effect) option"
  sdCertificateTrust :: "certificate \<Rightarrow> time \<Rightarrow> ('s, ServerError, unit) effect"
  sdNonces :: "'s nonce_store option"
  sdGrants :: "'s grant_store"
  sdRevocation :: "'s revocation_sink"
  sdAccessTokens :: "access_token_params \<Rightarrow> ('s, dependency_error, string \<times> string) effect"
  sdSigner :: "signing_purpose \<Rightarrow> SignatureAlgorithm \<Rightarrow> ('s, dependency_error, signer \<times> string) effect"
  sdEncryptionKeys :: "string \<Rightarrow> KeyManagementAlgorithm \<Rightarrow> ('s, dependency_error, encryption_key list) effect"
  sdEncrypt :: "KeyManagementAlgorithm \<Rightarrow> ContentEncryptionAlgorithm \<Rightarrow> encryption_key \<Rightarrow> string \<Rightarrow> ('s, unit, string) effect"
  sdIdentityClaims :: "(string \<Rightarrow> string list \<Rightarrow> ('s, dependency_error, json assoc) effect) option"
  sdResourcePolicy :: "(RegisteredClient \<Rightarrow> string list \<Rightarrow> ('s, resource_failure, unit) effect) option"
  sdClientCredentialsRAR :: "(string \<Rightarrow> json list \<Rightarrow> ('s, dependency_error, json list) effect) option"

text \<open>
  What the model takes of the standard library and cannot see in a tree: \<open>seRawSize\<close> is the
  length of a raw message's text, \<open>seFormatTime\<close> and \<open>seParseTime\<close> the RFC 3339 form of
  \<^verbatim>\<open>time.Time\<close>. The encryption of \<^verbatim>\<open>internal/jwe\<close>, which draws from the
  random source, is \<open>sdEncrypt\<close> of the dependencies.
\<close>

record server_env =
  seCrypto :: crypto
  seParse :: "string \<Rightarrow> url option"
  seLoopback :: "string \<Rightarrow> bool"
  seParseIP :: "string \<Rightarrow> bytes option"
  seRawSize :: "json \<Rightarrow> int"
  seFormatTime :: "time \<Rightarrow> string option"
  seParseTime :: "string \<Rightarrow> time option"

record 's server =
  svEnv :: server_env
  svConfig :: server_config
  svDeps :: "'s server_deps"

definition sv_crypto :: "'s server \<Rightarrow> crypto" where "sv_crypto s = seCrypto (svEnv s)"
definition sv_limits :: "'s server \<Rightarrow> server_limits" where "sv_limits s = scLimits (svConfig s)"
definition sv_issuer :: "'s server \<Rightarrow> string" where "sv_issuer s = scIssuer (svConfig s)"

text \<open>Reading the clock, and drawing bytes.\<close>

definition clock :: "'s server \<Rightarrow> ('s, 'e, time) effect" where
  "clock s w = (let (t, w') = sdNow (svDeps s) w in (Inr t, w'))"

definition generateRandomToken :: "'s server \<Rightarrow> nat \<Rightarrow> ('s, unit, string) effect" where
  "generateRandomToken s width w =
     (case sdRandom (svDeps s) width w of
        (None, w') \<Rightarrow> (Inl (), w')
      | (Some bs, w') \<Rightarrow> if length bs < width then (Inl (), w') else (Inr (encode_raw True (take width bs)), w'))"

definition authorizationCodeSize :: nat where "authorizationCodeSize = 32"
definition refreshTokenSize :: nat where "refreshTokenSize = 32"
definition opaqueAccessTokenSize :: nat where "opaqueAccessTokenSize = 32"

definition audit :: "'s server \<Rightarrow> AuditEventType \<Rightarrow> string \<Rightarrow> audit_outcome \<Rightarrow> string \<Rightarrow> 's \<Rightarrow> 's" where
  "audit s eventType clientID outcome description w =
     (case sdAudit (svDeps s) of
        None \<Rightarrow> w
      | Some record_event \<Rightarrow>
          let (now, w') = sdNow (svDeps s) w in
          record_event \<lparr>aeType = eventType, aeTime = now, aeClientID = clientID, aeOutcome = outcome,
            aeDescription = description\<rparr> w')"

definition resourceIndicatorsEnabled :: "'s server \<Rightarrow> bool" where
  "resourceIndicatorsEnabled s \<longleftrightarrow> scResources (svConfig s) \<noteq> [] \<or> sdResourcePolicy (svDeps s) \<noteq> None"

definition takeResourceParameters :: "'s server \<Rightarrow> FormParameter list \<Rightarrow> FormParameter list \<times> string list" where
  "takeResourceParameters s params =
     (let (rest, resources) = splitResourceParameters params in
      if \<not> resourceIndicatorsEnabled s then (rest, []) else (rest, resources))"

lemma form_entries_distinct:
  "form_entries seen ps = Inr m \<Longrightarrow> distinct (map fst m) \<and> fst ` set m \<inter> set seen = {} \<and> set m \<subseteq> set ps
     \<and> [] \<notin> snd ` set m"
proof (induction seen ps arbitrary: m rule: form_entries.induct)
  case (2 seen name v ps)
  then obtain rest where r: "name \<notin> set seen" "form_entries (name # seen) ps = Inr rest"
      "m = (if v = [] then rest else (name, v) # rest)"
    by (auto simp: and_then_eq_Inr split: if_splits)
  from 2(1) [OF r(1,2)] have "distinct (map fst rest)" "fst ` set rest \<inter> set (name # seen) = {}"
      "set rest \<subseteq> set ps" "[] \<notin> snd ` set rest"
    by simp_all
  with r(1,3) show ?case by (cases "v = []") auto
qed simp

end
