(* ===== verification/Server_Auth.thy ===== *)
theory Server_Auth
  imports Server_Types
begin

text \<open>
  Who is asking: client authentication at the server's endpoints, \<^verbatim>\<open>server/par.go\<close>,
  \<^verbatim>\<open>key_candidates.go\<close>, \<^verbatim>\<open>replay.go\<close>, \<^verbatim>\<open>client_auth_attestation.go\<close>,
  \<^verbatim>\<open>client_attestation_status.go\<close> and \<^verbatim>\<open>client_auth_mtls.go\<close>. A client
  authenticates by a signed assertion, by an attestation of its instance's key, or by its
  certificate; which of them a request tries is decided by what the request carries.
\<close>

section \<open>Candidate keys\<close>

definition maxKeyCandidates :: nat where "maxKeyCandidates = 8"

definition verificationKeyCandidates :: "verification_key list \<Rightarrow> SignatureAlgorithm \<Rightarrow> string \<Rightarrow> public_key list" where
  "verificationKeyCandidates keys alg kid =
     take maxKeyCandidates (map vkPublicKey (filter (\<lambda>k. (kid = [] \<or> vkKeyID k = kid) \<and> vkAlgorithm k = alg) keys))"

text \<open>An empty list of candidates is the failure to find a key.\<close>

definition resolveClientKeys :: "'s server \<Rightarrow> string \<Rightarrow> verification_purpose \<Rightarrow> SignatureAlgorithm \<Rightarrow> string
    \<Rightarrow> ('s, unit, public_key list) effect" where
  "resolveClientKeys s client purpose alg kid =
     bindS (catchS (\<lambda>_. ()) (sdClientKeys (svDeps s) client purpose alg kid)) (\<lambda>keys.
     let candidates = verificationKeyCandidates keys alg kid in
     liftS (if candidates = [] then Inl () else Inr candidates))"

text \<open>The next key is tried only after a signature that does not verify under the last one.\<close>

fun verifyWithCandidates :: "('e \<Rightarrow> bool) \<Rightarrow> (public_key \<Rightarrow> ('s, 'e, 'a) effect) \<Rightarrow> 'e \<Rightarrow> public_key list \<Rightarrow> ('s, 'e, 'a) effect" where
  "verifyWithCandidates invalidSignature test failure [] w = (Inl failure, w)"
| "verifyWithCandidates invalidSignature test failure (k # ks) w =
     (case test k w of
        (Inr x, w') \<Rightarrow> (Inr x, w')
      | (Inl e, w') \<Rightarrow> if invalidSignature e then verifyWithCandidates invalidSignature test e ks w' else (Inl e, w'))"

section \<open>Replay\<close>

definition clientSignedJWTReplayChecker :: "'s server \<Rightarrow> string \<Rightarrow> ('s, dependency_error) jti_checker" where
  "clientSignedJWTReplayChecker s client jti expiresAt =
     sdReplay (svDeps s) \<lparr>ruNamespace = clientSignedJWTReplayNamespace, ruDigest = Digest (sv_crypto s) client jti,
       ruExpiresAt = expiresAt\<rparr>"

definition dpopReplayChecker :: "'s server \<Rightarrow> bytes \<Rightarrow> string \<Rightarrow> time \<Rightarrow> ('s, dependency_error, unit) effect" where
  "dpopReplayChecker s key jti expiresAt =
     sdReplay (svDeps s) \<lparr>ruNamespace = serverDPoPReplayNamespace,
       ruDigest = Digest (sv_crypto s) (thumbprint_String key) jti, ruExpiresAt = expiresAt\<rparr>"

definition clientAttestationPoPReplayChecker :: "'s server \<Rightarrow> string \<Rightarrow> bytes \<Rightarrow> string \<Rightarrow> time
    \<Rightarrow> ('s, dependency_error, unit) effect" where
  "clientAttestationPoPReplayChecker s client instanceKey jti expiresAt =
     sdReplay (svDeps s) \<lparr>ruNamespace = clientAttestationPoPReplayNamespace,
       ruDigest = Digest (sv_crypto s) client (thumbprint_String instanceKey @ jti), ruExpiresAt = expiresAt\<rparr>"

section \<open>Looking the client up\<close>

fun unresolvedClientError :: "dependency_error \<Rightarrow> ServerError" where
  "unresolvedClientError StoreUnavailable = server_error ''failed to look up the client''"
| "unresolvedClientError OtherFailure = invalid_client ''unknown client''"

definition resolve_client :: "'s server \<Rightarrow> string \<Rightarrow> ('s, ServerError, RegisteredClient) effect" where
  "resolve_client s client = catchS unresolvedClientError (sdResolveClient (svDeps s) client)"

section \<open>By assertion\<close>

definition AssertionType :: string where
  "AssertionType = ''urn:ietf:params:oauth:client-assertion-type:jwt-bearer''"

definition acceptableClientAssertionAudiences :: "'s server \<Rightarrow> RegisteredClient \<Rightarrow> url option list \<Rightarrow> url option list
    \<Rightarrow> string list" where
  "acceptableClientAssertionAudiences s client endpoints mtlsEndpoints =
     (let present = List.map_filter (map_option url_String) in
      if rclBackchannelAlgorithm client = None then [sv_issuer s]
      else if rclSenderConstrain client \<noteq> SenderConstrainMTLS then sv_issuer s # present endpoints
      else sv_issuer s # present endpoints @ present mtlsEndpoints)"

definition assertion_policy :: "'s server \<Rightarrow> RegisteredClient \<Rightarrow> SignatureAlgorithm \<Rightarrow> url option list \<Rightarrow> url option list
    \<Rightarrow> time \<Rightarrow> AssertionVerifyPolicy" where
  "assertion_policy s client alg endpoints mtlsEndpoints now =
     \<lparr>avExpectedClientID = rclID client,
      avExpectedAudiences = acceptableClientAssertionAudiences s client endpoints mtlsEndpoints,
      avAlgorithm = alg, avNow = now, avMaxLifetime = slMaxClientAssertionLifetime (sv_limits s),
      avMaxClockSkew = slMaxClockSkew (sv_limits s)\<rparr>"

definition authenticateClientViaAssertion :: "'s server \<Rightarrow> string assoc \<Rightarrow> url option list \<Rightarrow> url option list
    \<Rightarrow> ('s, ServerError, RegisteredClient \<times> VerifiedAssertion) effect" where
  "authenticateClientViaAssertion s params endpoints mtlsEndpoints =
     bindS (liftS (require (param params ''client_assertion_type'' = AssertionType)
       (invalid_client ''unsupported client_assertion_type''))) (\<lambda>_.
     bindS (liftS (map_sum (\<lambda>_. invalid_client ''malformed client assertion'') (\<lambda>x. x)
       (ParseAssertion (sv_crypto s) (param params ''client_assertion'')))) (\<lambda>assertion.
     let subject = acsSubject (asnClaims assertion); alg = hdAlgorithm (cmHeader (asnCompact assertion)) in
     bindS (liftS (require (param params ''client_id'' = [] \<or> param params ''client_id'' = subject)
       (invalid_client ''client_id does not match the client assertion's subject''))) (\<lambda>_.
     bindS (resolve_client s subject) (\<lambda>client.
     bindS (liftS (require (AllowsClientAuthMethod client ClientAuthMethodPrivateKeyJWT)
       (invalid_client ''client is not registered for private_key_jwt client authentication''))) (\<lambda>_.
     bindS (liftS (require (AllowsClientAssertionAlgorithm client alg \<and> alg \<in> set (scClientAssertionAlgs (svConfig s)))
       (invalid_client ''client assertion algorithm is not permitted''))) (\<lambda>_.
     bindS (catchS (\<lambda>_. invalid_client ''no matching client key'')
       (resolveClientKeys s (rclID client) ClientAssertionVerification alg (hdKeyID (cmHeader (asnCompact assertion))))) (\<lambda>candidates.
     bindS (clock s) (\<lambda>now.
     bindS (catchS (\<lambda>_. invalid_client ''client assertion verification failed'')
       (verifyWithCandidates (\<lambda>e. e = AssertionJose ErrSignature)
          (\<lambda>pub. Assertion_Verify (sv_crypto s) assertion pub (assertion_policy s client alg endpoints mtlsEndpoints now)
             (Some (clientSignedJWTReplayChecker s (rclID client))))
          (AssertionJose ErrSignature) candidates)) (\<lambda>verified.
     liftS (Inr (client, verified)))))))))))"

section \<open>By attestation\<close>

definition resolveAttestationHeaders :: "string list \<Rightarrow> string list \<Rightarrow> ServerError + (string \<times> string)" where
  "resolveAttestationHeaders attestations pops =
     (if attestations = [] \<and> pops = [] then Inr ([], [])
      else case attestations of
        [attestation] \<Rightarrow>
          (case pops of
             [pop] \<Rightarrow> Inr (attestation, pop)
           | _ \<Rightarrow> Inl (invalid_client ''exactly one OAuth-Client-Attestation-PoP header is required''))
      | _ \<Rightarrow> Inl (invalid_client ''exactly one OAuth-Client-Attestation header is required''))"

text \<open>The attesters' keys an application registered: \<^verbatim>\<open>RegisteredAttesterKeys\<close>.\<close>

definition registered_attester_key :: "crypto
    \<Rightarrow> (string \<Rightarrow> SignatureAlgorithm \<Rightarrow> string \<Rightarrow> ('s, dependency_error, verification_key list) effect)
    \<Rightarrow> RegisteredClient \<Rightarrow> Attestation \<Rightarrow> ('s, dependency_error, attester_signer) effect" where
  "registered_attester_key C keys client attestation =
     (let kid = hdKeyID (cmHeader (tnCompact attestation)) in
      case rclAttestationAlgorithm client of
        None \<Rightarrow> liftS (Inl OtherFailure)
      | Some alg \<Rightarrow>
          bindS (keys (rclAttesterIssuer client) alg kid) (\<lambda>found.
          let candidates = verificationKeyCandidates found alg kid in
          bindS (liftS (require (candidates \<noteq> []) OtherFailure)) (\<lambda>_.
          catchS (\<lambda>_. OtherFailure)
            (verifyWithCandidates (\<lambda>e. e = AttestationJose ErrSignature)
               (\<lambda>pub. liftS (and_then (VerifySignature C attestation pub alg) (\<lambda>_.
                  Inr \<lparr>asKey = pub, asChain = [], asChains = [], asChecked = False\<rparr>)))
               (AttestationJose ErrSignature) candidates))))"

definition attestation_policy :: "'s server \<Rightarrow> RegisteredClient \<Rightarrow> SignatureAlgorithm \<Rightarrow> time \<Rightarrow> AttestationVerifyPolicy" where
  "attestation_policy s client alg now =
     \<lparr>tapExpectedIssuer = rclAttesterIssuer client, tapExpectedSubject = rclID client, tapAlgorithm = alg, tapNow = now,
      tapMaxLifetime = slMaxClientAttestationLifetime (sv_limits s), tapMaxClockSkew = slMaxClockSkew (sv_limits s)\<rparr>"

definition attestation_failure :: "attestation_error \<Rightarrow> ServerError" where
  "attestation_failure e =
     (if e = AttestationExpired then srv_error ErrorUseFreshAttestation 400 ''client attestation has expired''
      else invalid_client ''client attestation verification failed'')"

definition verifyClientAttestation :: "'s server \<Rightarrow> RegisteredClient \<Rightarrow> Attestation
    \<Rightarrow> ('s, ServerError, VerifiedAttestation \<times> attester_signer) effect" where
  "verifyClientAttestation s client attestation =
     bindS (liftS (of_option (invalid_client ''client attestation algorithm is not permitted'') (rclAttestationAlgorithm client))) (\<lambda>alg.
     bindS (liftS (require (alg \<in> set (scClientAttestationAlgs (svConfig s)))
       (invalid_client ''client attestation algorithm is not permitted''))) (\<lambda>_.
     bindS (catchS (\<lambda>_. invalid_client ''no matching attester key'') (sdAttesterKey (svDeps s) client attestation)) (\<lambda>signer.
     bindS (clock s) (\<lambda>now.
     bindS (liftS (map_sum attestation_failure (\<lambda>x. x)
       (Attestation_Verify (sv_crypto s) attestation (asKey signer) (attestation_policy s client alg now)))) (\<lambda>verified.
     liftS (Inr (verified, signer)))))))"

text \<open>The first chain no certificate of which is revoked; \<open>revoked\<close> and \<open>undecided\<close> are what was found before.\<close>

fun checkChainsRevocation :: "(certificate list \<Rightarrow> time \<Rightarrow> ('s, revocation_failure, unit) effect) \<Rightarrow> time \<Rightarrow> bool \<Rightarrow> bool
    \<Rightarrow> certificate list list \<Rightarrow> ('s, revocation_failure, certificate list) effect" where
  "checkChainsRevocation revocation now revoked undecided [] w =
     (Inl (if undecided \<or> \<not> revoked then RevocationUndecided else ErrCertificateRevoked), w)"
| "checkChainsRevocation revocation now revoked undecided (chain # rest) w =
     (case revocation chain now w of
        (Inr _, w') \<Rightarrow> (Inr chain, w')
      | (Inl ErrCertificateRevoked, w') \<Rightarrow> checkChainsRevocation revocation now True undecided rest w'
      | (Inl RevocationUndecided, w') \<Rightarrow> checkChainsRevocation revocation now revoked True rest w')"

fun revocationError :: "string \<Rightarrow> revocation_failure \<Rightarrow> ServerError" where
  "revocationError subject ErrCertificateRevoked = invalid_client (subject @ '' is revoked'')"
| "revocationError subject RevocationUndecided =
     server_error (''failed to check the '' @ subject @ [CHR 0x27] @ ''s revocation status'')"

fun status_error :: "status_failure \<Rightarrow> ServerError" where
  "status_error ErrClientAttestationRevoked = invalid_client ''client attestation has been revoked''"
| "status_error StatusCheckFailed = server_error ''failed to check the client attestation's status''"

definition checkAttestationStillValid :: "'s server \<Rightarrow> RegisteredClient \<Rightarrow> VerifiedAttestation \<Rightarrow> attester_signer \<Rightarrow> string
    \<Rightarrow> ('s, ServerError, unit) effect" where
  "checkAttestationStillValid s client verified signer instanceKey =
     bindS (if asChecked signer
            then bindS (clock s) (\<lambda>now. catchS (revocationError ''attester certificate'')
              (checkChainsRevocation (sdCheckRevocation (svDeps s)) now False False (asChains signer)))
            else liftS (Inr (asChain signer))) (\<lambda>chain.
     case sdAttestationStatus (svDeps s) of
       None \<Rightarrow> liftS (Inr ())
     | Some checker \<Rightarrow>
         catchS status_error (checker
           \<lparr>vcClient = client, vcClaims = vtClaims verified, vcIssuedAt = vtIssuedAt verified,
            vcExpiresAt = vtExpiresAt verified, vcInstanceKey = instanceKey, vcSignerKey = asKey signer,
            vcSignerCertificates = chain\<rparr>))"

definition pop_policy :: "'s server \<Rightarrow> RegisteredClient \<Rightarrow> time \<Rightarrow> PoPVerifyPolicy" where
  "pop_policy s client now =
     \<lparr>ppClientID = rclID client, ppExpectedAudience = sv_issuer s, ppExpectedChallenge = [], ppNow = now,
      ppMaxAge = slMaxClientAttestationPoPAge (sv_limits s), ppMaxClockSkew = slMaxClockSkew (sv_limits s)\<rparr>"

definition authenticateClientViaAttestation :: "'s server \<Rightarrow> string \<Rightarrow> string \<Rightarrow> string
    \<Rightarrow> ('s, ServerError, RegisteredClient \<times> VerifiedAssertion) effect" where
  "authenticateClientViaAttestation s formClientID attestation pop =
     bindS (liftS (require (scAttestationAuth (svConfig s))
       (invalid_client ''attestation-based client authentication is not enabled''))) (\<lambda>_.
     bindS (liftS (map_sum (\<lambda>_. invalid_client ''malformed client attestation'') (\<lambda>x. x)
       (ParseAttestation (sv_crypto s) attestation))) (\<lambda>parsedAttestation.
     bindS (liftS (map_sum (\<lambda>_. invalid_client ''malformed client attestation pop'') (\<lambda>x. x)
       (ParsePoP (sv_crypto s) pop))) (\<lambda>parsedPoP.
     let subject = tcSubject (tnClaims parsedAttestation) in
     bindS (liftS (require (formClientID = [] \<or> formClientID = subject)
       (invalid_client ''client_id does not match the client attestation's subject''))) (\<lambda>_.
     bindS (resolve_client s subject) (\<lambda>client.
     bindS (liftS (require (AllowsClientAuthMethod client ClientAuthMethodAttestation)
       (invalid_client ''client is not registered for attestation-based client authentication''))) (\<lambda>_.
     bindS (verifyClientAttestation s client parsedAttestation) (\<lambda>(verifiedAttestation, signer).
     bindS (liftS (require (hdAlgorithm (cmHeader (pnCompact parsedPoP)) \<in> set (scClientAttestationPoPAlgs (svConfig s)))
       (invalid_client ''client attestation pop algorithm is not permitted''))) (\<lambda>_.
     bindS (clock s) (\<lambda>now.
     bindS (catchS (\<lambda>_. invalid_client ''client attestation pop verification failed'')
       (PoP_Verify (sv_crypto s) parsedPoP (vtConfirmationJWK verifiedAttestation) (pop_policy s client now)
          (Some (clientAttestationPoPReplayChecker s (rclID client))))) (\<lambda>verifiedPoP.
     let instanceKey = thumbprint_String (vqInstanceKey verifiedPoP) in
     bindS (checkAttestationStillValid s client verifiedAttestation signer instanceKey) (\<lambda>_.
     liftS (Inr (client, \<lparr>vdClientID = vqClientID verifiedPoP, vdExpiresAt = vtExpiresAt verifiedAttestation,
       vdInstanceKey = instanceKey\<rparr>)))))))))))))"

section \<open>By certificate\<close>

definition certificate_thumbprint :: "'s server \<Rightarrow> certificate \<Rightarrow> string" where
  "certificate_thumbprint s cert = mtls_Thumbprint (sv_crypto s) (xcRaw cert)"

definition matchesRegisteredThumbprint :: "'s server \<Rightarrow> certificate \<Rightarrow> string list \<Rightarrow> bool" where
  "matchesRegisteredThumbprint s cert expected = list_ex (\<lambda>e. e \<noteq> [] \<and> e = certificate_thumbprint s cert) expected"

definition carriesRegisteredKey :: "certificate \<Rightarrow> string list \<Rightarrow> bool" where
  "carriesRegisteredKey cert thumbprints \<longleftrightarrow>
     thumbprints = [] \<or> (case xcKeyThumbprint cert of None \<Rightarrow> False | Some t \<Rightarrow> t \<in> set thumbprints)"

definition oidCommonName :: "nat list" where "oidCommonName = [2, 5, 4, 3]"
definition oidSerialNumber :: "nat list" where "oidSerialNumber = [2, 5, 4, 5]"

text \<open>An attribute's value is a string or is not.\<close>

definition subjectStringDropsAttributes :: "(nat list \<times> bool) list \<Rightarrow> bool" where
  "subjectStringDropsAttributes names \<longleftrightarrow>
     list_ex (\<lambda>(_, is_string). \<not> is_string) names \<or>
     1 < length (filter (\<lambda>(oid, _). oid = oidCommonName) names) \<or>
     1 < length (filter (\<lambda>(oid, _). oid = oidSerialNumber) names)"

definition matchesRegisteredSubjectDN :: "certificate \<Rightarrow> string \<Rightarrow> bool" where
  "matchesRegisteredSubjectDN cert expected \<longleftrightarrow>
     expected \<noteq> [] \<and>
     (xcRawSubjectString cert = Some expected \<or>
      xcSubjectString cert = expected \<and> \<not> subjectStringDropsAttributes (xcSubjectNames cert))"

definition matchesRegisteredSANDNS :: "certificate \<Rightarrow> string \<Rightarrow> bool" where
  "matchesRegisteredSANDNS cert expected \<longleftrightarrow> expected \<in> set (xcDNSNames cert)"

definition matchesRegisteredSANURI :: "certificate \<Rightarrow> string \<Rightarrow> bool" where
  "matchesRegisteredSANURI cert expected \<longleftrightarrow> expected \<in> set (xcURIs cert)"

text \<open>\<^verbatim>\<open>IP.Equal\<close>: an IPv4 address and its IPv6 form are one.\<close>

definition v4_in_v6 :: "bytes \<Rightarrow> bytes" where
  "v4_in_v6 ip = (if length ip = 4 then replicate 10 0 @ [255, 255] @ ip else ip)"

definition ip_Equal :: "bytes \<Rightarrow> bytes \<Rightarrow> bool" where
  "ip_Equal a b \<longleftrightarrow>
     (if length a = length b then a = b
      else if length a = 4 \<and> length b = 16 \<or> length a = 16 \<and> length b = 4 then v4_in_v6 a = v4_in_v6 b
      else False)"

definition matchesRegisteredSANIP :: "'s server \<Rightarrow> certificate \<Rightarrow> string \<Rightarrow> bool" where
  "matchesRegisteredSANIP s cert expected =
     (let expectedIP = (case seParseIP (svEnv s) expected of None \<Rightarrow> [] | Some ip \<Rightarrow> ip) in
      list_ex (\<lambda>ip. ip_Equal ip expectedIP) (xcIPAddresses cert))"

definition matchesRegisteredSANEmail :: "certificate \<Rightarrow> string \<Rightarrow> bool" where
  "matchesRegisteredSANEmail cert expected \<longleftrightarrow> expected \<in> set (xcEmailAddresses cert)"

definition isCertificateAuthMethod :: "ClientAuthMethod \<Rightarrow> bool" where
  "isCertificateAuthMethod m \<longleftrightarrow> m \<noteq> ClientAuthMethodPrivateKeyJWT \<and> m \<noteq> ClientAuthMethodAttestation"

definition isPKICertificateAuthMethod :: "ClientAuthMethod \<Rightarrow> bool" where
  "isPKICertificateAuthMethod m \<longleftrightarrow> isCertificateAuthMethod m \<and> m \<noteq> ClientAuthMethodSelfSignedTLSClientAuth"

definition checkChainsToRoot :: "'s server \<Rightarrow> certificate \<Rightarrow> ('s, ServerError, unit) effect" where
  "checkChainsToRoot s cert = bindS (clock s) (\<lambda>now. sdCertificateTrust (svDeps s) cert now)"

definition verifyChainedFieldMatch :: "'s server \<Rightarrow> RegisteredClient \<Rightarrow> certificate \<Rightarrow> bool \<Rightarrow> ('s, ServerError, unit) effect" where
  "verifyChainedFieldMatch s client cert fieldMatched =
     bindS (checkChainsToRoot s cert) (\<lambda>_.
     bindS (liftS (require fieldMatched
       (invalid_client ''client certificate subject does not match the registered subject''))) (\<lambda>_.
     liftS (require (carriesRegisteredKey cert (rclCertificateKeyThumbprints client))
       (invalid_client ''client certificate's public key is not one of the client's registered keys''))))"

text \<open>\<open>None\<close> is a method that is not certificate based.\<close>

fun verifyClientCertificateFor :: "'s server \<Rightarrow> ClientAuthMethod \<Rightarrow> RegisteredClient \<Rightarrow> certificate
    \<Rightarrow> ('s, ServerError, unit) effect option" where
  "verifyClientCertificateFor s ClientAuthMethodSelfSignedTLSClientAuth client cert =
     Some (liftS (require (matchesRegisteredThumbprint s cert (ExpectedCertificateThumbprints client))
       (invalid_client ''client certificate does not match the registered thumbprint'')))"
| "verifyClientCertificateFor s ClientAuthMethodTLSClientAuth client cert =
     Some (verifyChainedFieldMatch s client cert (matchesRegisteredSubjectDN cert (rclSubjectDN client)))"
| "verifyClientCertificateFor s ClientAuthMethodTLSClientAuthSANDNS client cert =
     Some (verifyChainedFieldMatch s client cert (matchesRegisteredSANDNS cert (rclSANDNS client)))"
| "verifyClientCertificateFor s ClientAuthMethodTLSClientAuthSANURI client cert =
     Some (verifyChainedFieldMatch s client cert (matchesRegisteredSANURI cert (rclSANURI client)))"
| "verifyClientCertificateFor s ClientAuthMethodTLSClientAuthSANIP client cert =
     Some (verifyChainedFieldMatch s client cert (matchesRegisteredSANIP s cert (rclSANIP client)))"
| "verifyClientCertificateFor s ClientAuthMethodTLSClientAuthSANEmail client cert =
     Some (verifyChainedFieldMatch s client cert (matchesRegisteredSANEmail cert (rclSANEmail client)))"
| "verifyClientCertificateFor s _ client cert = None"

text \<open>The last failure is what the request fails with; \<open>e\<close> is the last one so far.\<close>

fun try_certificate_methods :: "'s server \<Rightarrow> RegisteredClient \<Rightarrow> certificate \<Rightarrow> ServerError \<Rightarrow> ClientAuthMethod list
    \<Rightarrow> ('s, ServerError, unit) effect" where
  "try_certificate_methods s client cert e [] w = (Inl e, w)"
| "try_certificate_methods s client cert e (m # ms) w =
     (case verifyClientCertificateFor s m client cert of
        None \<Rightarrow> try_certificate_methods s client cert e ms w
      | Some eff \<Rightarrow>
          (case eff w of
             (Inr u, w') \<Rightarrow> (Inr u, w')
           | (Inl e', w') \<Rightarrow> try_certificate_methods s client cert e' ms w'))"

definition verifyClientCertificate :: "'s server \<Rightarrow> RegisteredClient \<Rightarrow> certificate \<Rightarrow> ('s, ServerError, unit) effect" where
  "verifyClientCertificate s client cert =
     try_certificate_methods s client cert
       (invalid_client ''client is not registered for certificate-based client authentication'') (rclClientAuthMethods client)"

definition authenticateClientViaCertificate :: "'s server \<Rightarrow> string \<Rightarrow> certificate option
    \<Rightarrow> ('s, ServerError, RegisteredClient \<times> VerifiedAssertion) effect" where
  "authenticateClientViaCertificate s clientID peerCert =
     bindS (resolve_client s clientID) (\<lambda>client.
     bindS (liftS (require (list_ex isCertificateAuthMethod (rclClientAuthMethods client))
       (invalid_client ''client authentication is required''))) (\<lambda>_.
     bindS (liftS (of_option (invalid_client ''a client certificate is required for client authentication'') peerCert)) (\<lambda>cert.
     bindS (verifyClientCertificate s client cert) (\<lambda>_.
     liftS (Inr (client, \<lparr>vdClientID = clientID, vdExpiresAt = zero_time, vdInstanceKey = []\<rparr>))))))"

section \<open>Which of them\<close>

definition authenticateClient :: "'s server \<Rightarrow> string assoc \<Rightarrow> certificate option \<Rightarrow> string \<Rightarrow> string
    \<Rightarrow> url option list \<Rightarrow> url option list \<Rightarrow> ('s, ServerError, RegisteredClient \<times> VerifiedAssertion) effect" where
  "authenticateClient s params peerCert attestation attestationPoP endpoints mtlsEndpoints =
     (let carriesAttestation = (attestation \<noteq> [] \<or> attestationPoP \<noteq> []);
          carriesAssertion = (param params ''client_assertion'' \<noteq> [] \<or> param params ''client_assertion_type'' \<noteq> []) in
      if carriesAttestation \<and> carriesAssertion
      then liftS (Inl (invalid_request ''a client attestation cannot be combined with another client authentication method''))
      else if carriesAttestation
      then authenticateClientViaAttestation s (param params ''client_id'') attestation attestationPoP
      else if param params ''client_assertion'' \<noteq> []
      then authenticateClientViaAssertion s params endpoints mtlsEndpoints
      else if param params ''client_id'' \<noteq> []
      then authenticateClientViaCertificate s (param params ''client_id'') peerCert
      else liftS (Inl (invalid_client ''client authentication is required'')))"

record requestCredentials =
  rqcPeerCertificate :: "certificate option"
  rqcDPoPProofs :: "string list"
  rqcAttestations :: "string list"
  rqcAttestationPoPs :: "string list"

definition resolveDPoPProof :: "string list \<Rightarrow> ServerError + string" where
  "resolveDPoPProof proofs =
     (case ResolveHeaderValues proofs of
        (dpopProof, True) \<Rightarrow> Inr dpopProof
      | (_, False) \<Rightarrow> Inl (srv_error ErrorInvalidDPoPProof 400 ''multiple DPoP proofs are not permitted''))"

definition authenticateRequest :: "'s server \<Rightarrow> string assoc \<Rightarrow> requestCredentials \<Rightarrow> url option list \<Rightarrow> url option list
    \<Rightarrow> ('s, ServerError, RegisteredClient \<times> string \<times> VerifiedAssertion) effect" where
  "authenticateRequest s params creds endpoints mtlsEndpoints =
     bindS (liftS (resolveDPoPProof (rqcDPoPProofs creds))) (\<lambda>dpopProof.
     bindS (liftS (resolveAttestationHeaders (rqcAttestations creds) (rqcAttestationPoPs creds))) (\<lambda>(attestation, attestationPoP).
     bindS (authenticateClient s params (rqcPeerCertificate creds) attestation attestationPoP endpoints mtlsEndpoints) (\<lambda>(client, verified).
     liftS (Inr (client, dpopProof, verified)))))"

end
