(* ===== verification/Server_Records.thy ===== *)
theory Server_Records
  imports Server_Types Token_Issue
begin

text \<open>
  What the server stores: \<^verbatim>\<open>server/records.go\<close>. A grant record is written as JSON beside an
  authorization code, a refresh token or a backchannel request, and read back when it is redeemed.
  The claims of an access token are made of it here, too.
\<close>

section \<open>JSON records\<close>

text \<open>A struct's members by name, each with how it is stored.\<close>

type_synonym 'r decoders = "(string \<times> (json \<Rightarrow> 'r \<Rightarrow> 'r option)) list"

definition table_dec :: "'r decoders \<Rightarrow> string \<Rightarrow> json \<Rightarrow> 'r \<Rightarrow> 'r option" where
  "table_dec table name v r = (case map_of table name of None \<Rightarrow> None | Some f \<Rightarrow> f v r)"

definition decode_table :: "'r decoders \<Rightarrow> 'r \<Rightarrow> json \<Rightarrow> 'r option" where
  "decode_table table r j = decode_struct (map fst table) (table_dec table) r j"

definition dec_list :: "(string list \<Rightarrow> 'r \<Rightarrow> 'r) \<Rightarrow> json \<Rightarrow> 'r \<Rightarrow> 'r option" where
  "dec_list set_field v r =
     (case unmarshal_strings v of None \<Rightarrow> None
      | Some None \<Rightarrow> Some (set_field [] r)
      | Some (Some xs) \<Rightarrow> Some (set_field xs r))"

text \<open>A map keeps its members; a null empties it. The values are what \<open>f\<close> makes of them.\<close>

definition dec_map :: "(json \<Rightarrow> 'v option) \<Rightarrow> ('v assoc \<Rightarrow> 'v assoc) \<Rightarrow> ('v assoc \<Rightarrow> 'r \<Rightarrow> 'r) \<Rightarrow> ('r \<Rightarrow> 'v assoc)
    \<Rightarrow> json \<Rightarrow> 'r \<Rightarrow> 'r option" where
  "dec_map f after_null set_field get_field v r =
     (case v of
        JNull \<Rightarrow> Some (set_field (after_null (get_field r)) r)
      | JObj ms \<Rightarrow>
          (case traverse (\<lambda>(k, x). map_option (Pair k) (f x)) ms of
             None \<Rightarrow> None
           | Some kvs \<Rightarrow> Some (set_field (foldl (\<lambda>m (k, x). AList.update k x m) (get_field r) kvs) r))
      | _ \<Rightarrow> None)"

definition dec_raw_map :: "(json assoc \<Rightarrow> 'r \<Rightarrow> 'r) \<Rightarrow> ('r \<Rightarrow> json assoc) \<Rightarrow> json \<Rightarrow> 'r \<Rightarrow> 'r option" where
  "dec_raw_map = dec_map Some (\<lambda>_. [])"

definition dec_acceptable :: "(Acceptable \<Rightarrow> 'r \<Rightarrow> 'r) \<Rightarrow> ('r \<Rightarrow> Acceptable) \<Rightarrow> json \<Rightarrow> 'r \<Rightarrow> 'r option" where
  "dec_acceptable = dec_map unmarshal_array (\<lambda>_. [])"

text \<open>\<^verbatim>\<open>omitempty\<close>.\<close>

definition opt_string :: "string \<Rightarrow> string \<Rightarrow> (string \<times> json) list" where
  "opt_string name v = (if v = [] then [] else [(name, JStr v)])"

definition opt_list :: "string \<Rightarrow> string list \<Rightarrow> (string \<times> json) list" where
  "opt_list name vs = (if vs = [] then [] else [(name, JArr (map JStr vs))])"

definition opt_raw :: "string \<Rightarrow> raw \<Rightarrow> (string \<times> json) list" where
  "opt_raw name v = (case v of None \<Rightarrow> [] | Some j \<Rightarrow> [(name, j)])"

definition opt_map :: "string \<Rightarrow> json assoc \<Rightarrow> (string \<times> json) list" where
  "opt_map name ms = (if ms = [] then [] else [(name, marshal_object ms)])"

definition opt_acceptable :: "string \<Rightarrow> Acceptable \<Rightarrow> (string \<times> json) list" where
  "opt_acceptable name a = (if a = [] then [] else [(name, marshal_object (map (\<lambda>(k, vs). (k, JArr vs)) a))])"

section \<open>Grant records\<close>

definition recordVersion :: int where "recordVersion = 1"

definition grantKindAuthorizationCode :: string where "grantKindAuthorizationCode = ''authorization_code''"
definition grantKindRefreshToken :: string where "grantKindRefreshToken = ''refresh_token''"
definition grantKindBackchannel :: string where "grantKindBackchannel = ''backchannel_authentication''"

record grantRecord =
  gnVersion :: int
  gnKind :: string
  gnIssuer :: string
  gnRedirectURI :: string
  gnCodeChallenge :: string
  gnNonce :: string
  gnDPoPJKT :: string
  gnThumbprint :: string
  gnClientInstanceKey :: string
  gnSubject :: string
  gnClientSubject :: string
  gnPairwiseSector :: string
  gnPairwisePrefix :: string
  gnScope :: "string list"
  gnAuthTime :: time
  gnACR :: string
  gnAMR :: "string list"
  gnAuthorizationDetails :: raw
  gnResources :: "string list"
  gnTokenClaims :: "json assoc"
  gnRequestedIDTokenClaims :: "string list"
  gnRequestedUserinfoClaims :: "string list"
  gnRequestedIDTokenClaimValues :: Acceptable
  gnRequestedUserinfoClaimValues :: Acceptable
  gnIDTokenClaims :: "json assoc"
  gnGrantID :: string
  gnCodeGrantID :: string
  gnGrantType :: string
  gnIssuedAt :: "time option"

definition grantRecord_zero :: grantRecord where
  "grantRecord_zero =
     \<lparr>gnVersion = 0, gnKind = [], gnIssuer = [], gnRedirectURI = [], gnCodeChallenge = [], gnNonce = [], gnDPoPJKT = [],
      gnThumbprint = [], gnClientInstanceKey = [], gnSubject = [], gnClientSubject = [], gnPairwiseSector = [],
      gnPairwisePrefix = [], gnScope = [], gnAuthTime = zero_time, gnACR = [], gnAMR = [], gnAuthorizationDetails = None,
      gnResources = [], gnTokenClaims = [], gnRequestedIDTokenClaims = [], gnRequestedUserinfoClaims = [],
      gnRequestedIDTokenClaimValues = [], gnRequestedUserinfoClaimValues = [], gnIDTokenClaims = [], gnGrantID = [],
      gnCodeGrantID = [], gnGrantType = [], gnIssuedAt = None\<rparr>"

definition dec_int :: "(int \<Rightarrow> 'r \<Rightarrow> 'r) \<Rightarrow> json \<Rightarrow> 'r \<Rightarrow> 'r option" where
  "dec_int set_field v r =
     (if v = JNull then Some r else map_option (\<lambda>n. set_field n r) (unmarshal_int64 v))"

text \<open>A time is a string of RFC 3339; a null leaves it, or a pointer to it, as it is or nil.\<close>

definition dec_time :: "server_env \<Rightarrow> (time \<Rightarrow> 'r \<Rightarrow> 'r) \<Rightarrow> json \<Rightarrow> 'r \<Rightarrow> 'r option" where
  "dec_time env set_field v r =
     (case v of JNull \<Rightarrow> Some r
      | JStr t \<Rightarrow> map_option (\<lambda>t. set_field t r) (seParseTime env t)
      | _ \<Rightarrow> None)"

definition dec_time_ptr :: "server_env \<Rightarrow> (time option \<Rightarrow> 'r \<Rightarrow> 'r) \<Rightarrow> json \<Rightarrow> 'r \<Rightarrow> 'r option" where
  "dec_time_ptr env set_field v r =
     (case v of JNull \<Rightarrow> Some (set_field None r)
      | JStr t \<Rightarrow> map_option (\<lambda>t. set_field (Some t) r) (seParseTime env t)
      | _ \<Rightarrow> None)"

definition grant_decoders :: "server_env \<Rightarrow> grantRecord decoders" where
  "grant_decoders env =
     [(''v'', dec_int (\<lambda>x. gnVersion_update (\<lambda>_. x))),
      (''kind'', dec_string (\<lambda>x. gnKind_update (\<lambda>_. x))),
      (''iss'', dec_string (\<lambda>x. gnIssuer_update (\<lambda>_. x))),
      (''redirect_uri'', dec_string (\<lambda>x. gnRedirectURI_update (\<lambda>_. x))),
      (''code_challenge'', dec_string (\<lambda>x. gnCodeChallenge_update (\<lambda>_. x))),
      (''nonce'', dec_string (\<lambda>x. gnNonce_update (\<lambda>_. x))),
      (''dpop_jkt'', dec_string (\<lambda>x. gnDPoPJKT_update (\<lambda>_. x))),
      (''thumbprint'', dec_string (\<lambda>x. gnThumbprint_update (\<lambda>_. x))),
      (''client_instance_jkt'', dec_string (\<lambda>x. gnClientInstanceKey_update (\<lambda>_. x))),
      (''sub'', dec_string (\<lambda>x. gnSubject_update (\<lambda>_. x))),
      (''client_sub'', dec_string (\<lambda>x. gnClientSubject_update (\<lambda>_. x))),
      (''pairwise_sector'', dec_string (\<lambda>x. gnPairwiseSector_update (\<lambda>_. x))),
      (''pairwise_prefix'', dec_string (\<lambda>x. gnPairwisePrefix_update (\<lambda>_. x))),
      (''scope'', dec_list (\<lambda>x. gnScope_update (\<lambda>_. x))),
      (''auth_time'', dec_time env (\<lambda>x. gnAuthTime_update (\<lambda>_. x))),
      (''acr'', dec_string (\<lambda>x. gnACR_update (\<lambda>_. x))),
      (''amr'', dec_list (\<lambda>x. gnAMR_update (\<lambda>_. x))),
      (''authorization_details'', \<lambda>v r. Some (r\<lparr>gnAuthorizationDetails := Some v\<rparr>)),
      (''resources'', dec_list (\<lambda>x. gnResources_update (\<lambda>_. x))),
      (''token_claims'', dec_raw_map (\<lambda>x. gnTokenClaims_update (\<lambda>_. x)) gnTokenClaims),
      (''requested_id_token_claims'', dec_list (\<lambda>x. gnRequestedIDTokenClaims_update (\<lambda>_. x))),
      (''requested_userinfo_claims'', dec_list (\<lambda>x. gnRequestedUserinfoClaims_update (\<lambda>_. x))),
      (''requested_id_token_claim_values'',
        dec_acceptable (\<lambda>x. gnRequestedIDTokenClaimValues_update (\<lambda>_. x)) gnRequestedIDTokenClaimValues),
      (''requested_userinfo_claim_values'',
        dec_acceptable (\<lambda>x. gnRequestedUserinfoClaimValues_update (\<lambda>_. x)) gnRequestedUserinfoClaimValues),
      (''id_token_claims'', dec_raw_map (\<lambda>x. gnIDTokenClaims_update (\<lambda>_. x)) gnIDTokenClaims),
      (''grant_id'', dec_string (\<lambda>x. gnGrantID_update (\<lambda>_. x))),
      (''code_grant_id'', dec_string (\<lambda>x. gnCodeGrantID_update (\<lambda>_. x))),
      (''grant_type'', dec_string (\<lambda>x. gnGrantType_update (\<lambda>_. x))),
      (''issued_at'', dec_time_ptr env (\<lambda>x. gnIssuedAt_update (\<lambda>_. x)))]"

text \<open>\<open>None\<close> is a time its form cannot write.\<close>

definition grant_json :: "server_env \<Rightarrow> grantRecord \<Rightarrow> json option" where
  "grant_json env g =
     (case (seFormatTime env (gnAuthTime g),
            case gnIssuedAt g of None \<Rightarrow> Some [] | Some t \<Rightarrow> map_option (\<lambda>s. [(''issued_at'', JStr s)]) (seFormatTime env t)) of
        (Some authTime, Some issuedAt) \<Rightarrow> Some (JObj (concat
          [[(''v'', json_int (gnVersion g))], opt_string ''kind'' (gnKind g), opt_string ''iss'' (gnIssuer g),
           opt_string ''redirect_uri'' (gnRedirectURI g), opt_string ''code_challenge'' (gnCodeChallenge g),
           opt_string ''nonce'' (gnNonce g), opt_string ''dpop_jkt'' (gnDPoPJKT g),
           opt_string ''thumbprint'' (gnThumbprint g), opt_string ''client_instance_jkt'' (gnClientInstanceKey g),
           [(''sub'', JStr (gnSubject g))], opt_string ''client_sub'' (gnClientSubject g),
           opt_string ''pairwise_sector'' (gnPairwiseSector g), opt_string ''pairwise_prefix'' (gnPairwisePrefix g),
           opt_list ''scope'' (gnScope g), [(''auth_time'', JStr authTime)], opt_string ''acr'' (gnACR g),
           opt_list ''amr'' (gnAMR g), opt_raw ''authorization_details'' (gnAuthorizationDetails g),
           opt_list ''resources'' (gnResources g), opt_map ''token_claims'' (gnTokenClaims g),
           opt_list ''requested_id_token_claims'' (gnRequestedIDTokenClaims g),
           opt_list ''requested_userinfo_claims'' (gnRequestedUserinfoClaims g),
           opt_acceptable ''requested_id_token_claim_values'' (gnRequestedIDTokenClaimValues g),
           opt_acceptable ''requested_userinfo_claim_values'' (gnRequestedUserinfoClaimValues g),
           opt_map ''id_token_claims'' (gnIDTokenClaims g), opt_string ''grant_id'' (gnGrantID g),
           opt_string ''code_grant_id'' (gnCodeGrantID g), opt_string ''grant_type'' (gnGrantType g), issuedAt]))
      | _ \<Rightarrow> None)"

definition requireUTF8 :: "string list \<Rightarrow> unit + unit" where
  "requireUTF8 vs = check_all (\<lambda>v. require (utf8_valid (string_bytes v)) ()) vs"

text \<open>
  The text the store keeps reads as \<^verbatim>\<open>json_decode\<close> reads it; a raw message is what it reads as.
\<close>

definition encodeGrantRecord :: "server_env \<Rightarrow> grantRecord \<Rightarrow> unit + raw" where
  "encodeGrantRecord env g0 =
     (let g = g0\<lparr>gnVersion := recordVersion\<rparr> in
      and_then (requireUTF8 ([gnRedirectURI g, gnCodeChallenge g, gnNonce g, gnDPoPJKT g, gnThumbprint g, gnSubject g,
          gnClientSubject g, gnPairwiseSector g, gnACR g] @ gnScope g @ gnAMR g @ gnRequestedIDTokenClaims g
          @ gnRequestedUserinfoClaims g)) (\<lambda>_.
      and_then (requireUTF8 (map fst (gnTokenClaims g) @ map fst (gnIDTokenClaims g))) (\<lambda>_.
      and_then (of_option () (grant_json env g)) (\<lambda>j.
      Inr (json_decode (seCrypto env) (MarshalUnescaped (seCrypto env) j))))))"

datatype record_error = RecordEmpty | RecordMalformed | RecordVersion int | errForeignRecord

definition decodeGrantRecord :: "server_env \<Rightarrow> raw \<Rightarrow> record_error + grantRecord" where
  "decodeGrantRecord env raw =
     and_then (of_option RecordEmpty raw) (\<lambda>j.
     and_then (of_option RecordMalformed (decode_table (grant_decoders env) grantRecord_zero j)) (\<lambda>g.
     and_then (require (gnVersion g = recordVersion) (RecordVersion (gnVersion g))) (\<lambda>_.
     Inr g)))"

definition ownsRecord :: "'s server \<Rightarrow> string \<Rightarrow> bool" where
  "ownsRecord s issuer \<longleftrightarrow> issuer \<noteq> [] \<and> issuer = sv_issuer s"

definition server_encodeGrantRecord :: "'s server \<Rightarrow> grantRecord \<Rightarrow> unit + raw" where
  "server_encodeGrantRecord s g = encodeGrantRecord (svEnv s) (g\<lparr>gnIssuer := sv_issuer s\<rparr>)"

definition decodeOwnGrantRecord :: "'s server \<Rightarrow> raw \<Rightarrow> record_error + grantRecord" where
  "decodeOwnGrantRecord s raw =
     and_then (decodeGrantRecord (svEnv s) raw) (\<lambda>g.
     and_then (require (ownsRecord s (gnIssuer g)) errForeignRecord) (\<lambda>_. Inr g))"

definition recordFailure :: "record_error \<Rightarrow> ServerError \<Rightarrow> string \<Rightarrow> ServerError" where
  "recordFailure e unknown what =
     (if e = errForeignRecord then unknown else server_error (''failed to decode '' @ what))"

section \<open>What a grant is for\<close>

record refreshBinding =
  rbThumbprint :: string
  rbInstanceKey :: string

definition forRefreshToken :: "grantRecord \<Rightarrow> refreshBinding \<Rightarrow> time \<Rightarrow> grantRecord" where
  "forRefreshToken g binding issuedAt =
     g\<lparr>gnKind := grantKindRefreshToken, gnRedirectURI := [], gnCodeChallenge := [], gnNonce := [],
       gnThumbprint := rbThumbprint binding, gnClientInstanceKey := rbInstanceKey binding, gnIssuedAt := Some issuedAt\<rparr>"

definition isKind :: "grantRecord \<Rightarrow> string \<Rightarrow> bool" where
  "isKind g kind \<longleftrightarrow>
     (if gnKind g \<noteq> [] then gnKind g = kind
      else kind \<noteq> grantKindAuthorizationCode \<and> gnRedirectURI g = [] \<and> gnCodeChallenge g = [] \<and> gnNonce g = [])"

definition grant_clientSubject :: "grantRecord \<Rightarrow> string" where
  "grant_clientSubject g = (if gnClientSubject g \<noteq> [] then gnClientSubject g else gnSubject g)"

text \<open>The sub, and the internal subject where it is another one.\<close>

definition accessTokenSubjects :: "grantRecord \<Rightarrow> string \<times> string" where
  "accessTokenSubjects g = (if gnClientSubject g = [] then (gnSubject g, []) else (gnClientSubject g, gnSubject g))"

definition issuedWithin :: "time option \<Rightarrow> duration \<Rightarrow> time \<Rightarrow> bool" where
  "issuedWithin issuedAt lifetime now = (case issuedAt of None \<Rightarrow> True | Some t \<Rightarrow> now < t + lifetime)"

section \<open>The claims of an access token\<close>

definition RequestedUserinfoClaimsKey :: string where "RequestedUserinfoClaimsKey = ''requested_userinfo_claims''"
definition RequestedUserinfoClaimValuesKey :: string where
  "RequestedUserinfoClaimValuesKey = ''requested_userinfo_claim_values''"

definition withRequestedUserinfoClaims :: "string list \<Rightarrow> Acceptable \<Rightarrow> json assoc \<Rightarrow> json assoc" where
  "withRequestedUserinfoClaims names values base =
     (if names = [] then base
      else let merged = AList.update RequestedUserinfoClaimsKey (JArr (map JStr names)) base in
        if values = [] then merged
        else AList.update RequestedUserinfoClaimValuesKey
          (marshal_object (map (\<lambda>(k, vs). (k, JArr vs)) values)) merged)"

definition authorizationDetailsParameter :: string where "authorizationDetailsParameter = ''authorization_details''"

definition withAuthorizationDetails :: "raw \<Rightarrow> json assoc \<Rightarrow> json assoc" where
  "withAuthorizationDetails details base =
     (case details of None \<Rightarrow> base | Some d \<Rightarrow> AList.update authorizationDetailsParameter d base)"

text \<open>A claim already there keeps its value.\<close>

definition withManagedClaim :: "json assoc \<Rightarrow> string \<Rightarrow> string \<Rightarrow> json assoc" where
  "withManagedClaim claims name v =
     (if v = [] \<or> map_of claims name \<noteq> None then claims else (name, JStr v) # claims)"

definition accessTokenClaims :: "grantRecord \<Rightarrow> json assoc" where
  "accessTokenClaims g =
     (let claims = withRequestedUserinfoClaims (gnRequestedUserinfoClaims g) (gnRequestedUserinfoClaimValues g) (gnTokenClaims g);
          claims = withAuthorizationDetails (gnAuthorizationDetails g) claims;
          claims = withManagedClaim claims grantClaim (gnGrantID g);
          claims = withManagedClaim claims CodeClaim (gnCodeGrantID g) in
      if gnClientSubject g \<noteq> [] then withManagedClaim claims PairwiseSectorClaim (gnPairwiseSector g) else claims)"

definition claimsSize :: "server_env \<Rightarrow> json assoc \<Rightarrow> int" where
  "claimsSize env claims = sum_list (map (\<lambda>(name, v). int (length name) + seRawSize env v) claims)"

end
