(* ===== verification/Server_Grant.thy ===== *)
theory Server_Grant
  imports Server_Auth Server_Records
begin

text \<open>
  What every token request goes through: the key it is bound to (\<^verbatim>\<open>server/token.go\<close>,
  \<^verbatim>\<open>nonce.go\<close>), the revocation of grants (\<^verbatim>\<open>grant_revocation.go\<close>), the
  resources, scopes and authorization details a token may carry (\<^verbatim>\<open>resource_indicators.go\<close>,
  \<^verbatim>\<open>rar.go\<close>, \<^verbatim>\<open>refresh.go\<close>) and the tokens issued
  (\<^verbatim>\<open>accesstoken.go\<close>, \<^verbatim>\<open>token.go\<close>).
\<close>

section \<open>Revocation of grants\<close>

definition maxGrantIDLength :: nat where "maxGrantIDLength = 128"

definition isGrantIDChar :: "char \<Rightarrow> bool" where
  "isGrantIDChar c \<longleftrightarrow>
     (let n = (of_char c :: nat) in
      65 \<le> n \<and> n \<le> 90 \<or> 97 \<le> n \<and> n \<le> 122 \<or> 48 \<le> n \<and> n \<le> 57 \<or> n = 46 \<or> n = 95 \<or> n = 126 \<or> n = 45)"

definition grantRevocationReader :: "'s server \<Rightarrow> 's revocation_reader option" where
  "grantRevocationReader s = rvReader (sdRevocation (svDeps s))"

definition validateGrantID :: "'s server \<Rightarrow> string \<Rightarrow> bool" where
  "validateGrantID s gid \<longleftrightarrow>
     gid = [] \<or> length gid \<le> maxGrantIDLength \<and> list_all isGrantIDChar gid \<and> grantRevocationReader s \<noteq> None"

fun each_revoked :: "(string \<Rightarrow> ('s, dependency_error, bool) effect) \<Rightarrow> string list \<Rightarrow> ('s, dependency_error, bool) effect" where
  "each_revoked revoked [] = liftS (Inr False)"
| "each_revoked revoked (k # ks) = bindS (revoked k) (\<lambda>r. if r then liftS (Inr True) else each_revoked revoked ks)"

definition anyRevoked :: "'s revocation_reader \<Rightarrow> string list \<Rightarrow> ('s, dependency_error, bool) effect" where
  "anyRevoked reader keys =
     (case rvIsAnyRevoked reader of Some batch \<Rightarrow> batch keys | None \<Rightarrow> each_revoked (rvIsRevoked reader) keys)"

definition grant_revocation_keys :: "'s server \<Rightarrow> grantRecord \<Rightarrow> string list" where
  "grant_revocation_keys s g =
     (if gnGrantID g \<noteq> [] then grant_Keys (sv_issuer s) (gnGrantID g) else [])
     @ (if gnCodeGrantID g \<noteq> [] then CodeKeys (sv_issuer s) (gnCodeGrantID g) else [])"

definition server_checkGrantNotRevoked :: "'s server \<Rightarrow> grantRecord \<Rightarrow> ('s, ServerError, unit) effect" where
  "server_checkGrantNotRevoked s g =
     (if grant_revocation_keys s g = [] then liftS (Inr ())
      else case grantRevocationReader s of
        None \<Rightarrow> liftS (Inl (server_error ''the grant's revocation can't be checked''))
      | Some reader \<Rightarrow>
          bindS (catchS (\<lambda>_. server_error ''failed to check the grant's revocation'')
            (anyRevoked reader (grant_revocation_keys s g))) (\<lambda>revoked.
          liftS (require (\<not> revoked) (invalid_grant ''the grant has been revoked''))))"

definition grantRevocationHorizon :: "'s server \<Rightarrow> duration" where
  "grantRevocationHorizon s =
     (let l = sv_limits s in
      SaturatingAdd [max (slRefreshTokenLifetime l) (max (slAuthorizationCodeLifetime l) (slBackchannelRequestLifetime l)),
        slAccessTokenLifetime l, slMaxClockSkew l])"

definition RevokeGrant :: "'s server \<Rightarrow> string \<Rightarrow> ('s, unit, unit) effect" where
  "RevokeGrant s grantID =
     bindS (liftS (require (grantID \<noteq> []) ())) (\<lambda>_.
     bindS (liftS (require (grantRevocationReader s \<noteq> None) ())) (\<lambda>_.
     bindS (clock s) (\<lambda>now.
     catchS (\<lambda>_. ()) (rvRevoke (sdRevocation (svDeps s)) (grant_Key (sv_issuer s) grantID) (now + grantRevocationHorizon s)))))"

section \<open>Nonces\<close>

text \<open>Bytes are drawn only for a new nonce.\<close>

definition server_issueDPoPNonce :: "'s server \<Rightarrow> 's nonce_store \<Rightarrow> time \<Rightarrow> (Rotator \<times> 's, unit, string) effect" where
  "server_issueDPoPNonce s nonces now rw =
     (let (r, w) = rw; lifetime = slDPoPNonceLifetime (sv_limits s);
          (random, w1) = (if roCurrent r \<noteq> [] \<and> now < roExpiresAt r + half_before lifetime then (None, w)
            else sdRandom (svDeps s) nonceSize w) in
      case Rotator_Current (nsIssue nonces) random lifetime now (r, w1) of
        (None, rw') \<Rightarrow> (Inl (), rw')
      | (Some nonce, rw') \<Rightarrow> (Inr nonce, rw'))"

definition server_nonceNotIssued :: ServerError where
  "server_nonceNotIssued = server_error ''failed to issue dpop nonce''"

text \<open>A store that cannot answer is as one that does not know the nonce.\<close>

definition server_checkDPoPNonce :: "'s server \<Rightarrow> 's nonce_store \<Rightarrow> string \<Rightarrow> time \<Rightarrow> (Rotator \<times> 's, ServerError, unit) effect" where
  "server_checkDPoPNonce s nonces presented now rw =
     (case on_snd (Nonce_Valid (nsLookup nonces) presented now) rw of
        (Inr True, rw') \<Rightarrow> (Inr (), rw')
      | (_, rw') \<Rightarrow>
          bindS (catchS (\<lambda>_. server_nonceNotIssued) (server_issueDPoPNonce s nonces now)) (\<lambda>current.
          liftS (Inl ((srv_error ErrorUseDPoPNonce 400 ''DPoP proof must carry a current nonce'')\<lparr>svNonce := current\<rparr>))) rw')"

definition nextTokenEndpointDPoPNonce :: "'s server \<Rightarrow> time \<Rightarrow> (Rotator \<times> 's, ServerError, string) effect" where
  "nextTokenEndpointDPoPNonce s now =
     (case sdNonces (svDeps s) of
        None \<Rightarrow> liftS (Inr [])
      | Some nonces \<Rightarrow> catchS (\<lambda>_. server_nonceNotIssued) (server_issueDPoPNonce s nonces now))"

definition nextDPoPNonce :: "'s server \<Rightarrow> RegisteredClient \<Rightarrow> time \<Rightarrow> (Rotator \<times> 's, ServerError, string) effect" where
  "nextDPoPNonce s client now =
     (if rclSenderConstrain client \<noteq> SenderConstrainDPoP then liftS (Inr []) else nextTokenEndpointDPoPNonce s now)"

section \<open>The key of a request\<close>

definition url_value :: "url option \<Rightarrow> url" where
  "url_value u = (case u of None \<Rightarrow> empty_url | Some u \<Rightarrow> u)"

definition server_proof_request :: "'s server \<Rightarrow> string \<Rightarrow> time \<Rightarrow> url \<Rightarrow> ProofVerifyRequest" where
  "server_proof_request s proof_text now target =
     \<lparr>pvProof = proof_text, pvMethod = ''POST'', pvURL = Some target, pvAlternateURLs = [], pvAccessToken = [],
      pvRequiredNonce = [], pvNow = now, pvMaxProofAge = slMaxDPoPProofAge (sv_limits s),
      pvMaxClockSkew = slMaxClockSkew (sv_limits s)\<rparr>"

definition verifyDPoPAtEitherEndpoint :: "'s server \<Rightarrow> string \<Rightarrow> time \<Rightarrow> url option \<Rightarrow> url option
    \<Rightarrow> ('s, dpop_error, VerifiedProof) effect" where
  "verifyDPoPAtEitherEndpoint s proof_text now primary mtlsAlias w =
     (let test = (\<lambda>u. dpop_Verify (sv_crypto s) (seParse (svEnv s)) (server_proof_request s proof_text now (url_value u))
            (Some (dpopReplayChecker s))) in
      case test primary w of
        (Inl e, w') \<Rightarrow> if e = ErrURIMismatch \<and> mtlsAlias \<noteq> None then test mtlsAlias w' else (Inl e, w')
      | (Inr v, w') \<Rightarrow> (Inr v, w'))"

definition verifyTokenRequestDPoP :: "'s server \<Rightarrow> string \<Rightarrow> (Rotator \<times> 's, ServerError, VerifiedProof) effect" where
  "verifyTokenRequestDPoP s proof_text =
     bindS (liftS (require (proof_text \<noteq> []) (invalid_request ''DPoP proof is required''))) (\<lambda>_.
     bindS (on_snd (clock s)) (\<lambda>now.
     bindS (on_snd (catchS (\<lambda>_. srv_error ErrorInvalidDPoPProof 400 ''DPoP proof verification failed'')
       (verifyDPoPAtEitherEndpoint s proof_text now (scTokenEndpoint (svConfig s)) (scMTLSTokenEndpoint (svConfig s))))) (\<lambda>verified.
     bindS (case sdNonces (svDeps s) of
              None \<Rightarrow> liftS (Inr ())
            | Some nonces \<Rightarrow> bindS (on_snd (clock s)) (\<lambda>now. server_checkDPoPNonce s nonces (vpNonce verified) now)) (\<lambda>_.
     liftS (Inr verified)))))"

definition verifyTokenRequestBinding :: "'s server \<Rightarrow> RegisteredClient \<Rightarrow> string \<Rightarrow> certificate option
    \<Rightarrow> (Rotator \<times> 's, ServerError, string) effect" where
  "verifyTokenRequestBinding s client dpopProof peerCert =
     (if rclSenderConstrain client = SenderConstrainMTLS
      then liftS (case peerCert of
          None \<Rightarrow> Inl (invalid_request ''a client certificate is required'')
        | Some cert \<Rightarrow> Inr (certificate_thumbprint s cert))
      else bindS (verifyTokenRequestDPoP s dpopProof) (\<lambda>verified.
        liftS (Inr (thumbprint_String (vpThumbprint verified)))))"

definition tokenTypeFor :: "SenderConstrain \<Rightarrow> string" where
  "tokenTypeFor sc = (if sc = SenderConstrainMTLS then ''Bearer'' else ''DPoP'')"

section \<open>Scopes\<close>

definition containsScope :: "string list \<Rightarrow> string \<Rightarrow> bool" where
  "containsScope scopes target \<longleftrightarrow> target \<in> set scopes"

definition clientAllowsScope :: "'s server \<Rightarrow> RegisteredClient \<Rightarrow> string \<Rightarrow> bool" where
  "clientAllowsScope s client scope \<longleftrightarrow>
     \<not> (scOAuthOnly (svConfig s) \<and> scope = ''openid'') \<and> AllowsScope client scope"

definition maxAuthorizationTextParameterBytes :: int where "maxAuthorizationTextParameterBytes = 4 * 2 ^ 10"

definition scopeBound :: "RegisteredClient \<Rightarrow> int" where
  "scopeBound client = max maxAuthorizationTextParameterBytes (AllowedScopesLength client)"

definition checkScopeLength :: "nat \<Rightarrow> RegisteredClient \<Rightarrow> unit + unit" where
  "checkScopeLength n client = require (int n \<le> scopeBound client) ()"

definition validateGrantedScopeSubset :: "string list \<Rightarrow> string \<Rightarrow> unit + unit" where
  "validateGrantedScopeSubset granted requestedSpaceDelimited =
     (let requested = strings_Fields requestedSpaceDelimited in
      if granted = [] \<and> requested \<noteq> [] then Inl ()
      else check_all (\<lambda>g. require (g \<in> set requested) ()) granted)"

definition refreshScope :: "string assoc \<Rightarrow> grantRecord \<Rightarrow> RegisteredClient \<Rightarrow> ServerError + string list" where
  "refreshScope params g client =
     (let requestedScope = param params ''scope'' in
      if requestedScope = [] then Inr (gnScope g)
      else and_then (map_sum (\<lambda>_. requestError ErrorInvalidRequest ''scope is too long'') (\<lambda>x. x)
          (checkScopeLength (length requestedScope) client)) (\<lambda>_.
        let narrowed = strings_Fields requestedScope in
        and_then (map_sum (\<lambda>_. srv_error ErrorInvalidScope 400 ''requested scope exceeds the original grant'') (\<lambda>x. x)
          (validateGrantedScopeSubset narrowed (join_space (gnScope g)))) (\<lambda>_.
        Inr narrowed)))"

section \<open>Resources\<close>

definition MaxResourceLength :: nat where "MaxResourceLength = 2048"
definition MaxResourcesPerRequest :: nat where "MaxResourcesPerRequest = 16"

text \<open>\<^verbatim>\<open>resourceindicator.Check\<close>; a fragment is a hash sign in the text.\<close>

definition resource_Check :: "(string \<Rightarrow> url option) \<Rightarrow> string \<Rightarrow> bool" where
  "resource_Check parse r \<longleftrightarrow>
     r \<noteq> [] \<and> length r \<le> MaxResourceLength \<and> utf8_valid (string_bytes r) \<and>
     list_all (\<lambda>c. \<not> ((of_char c :: nat) \<le> 32 \<or> (of_char c :: nat) = 127)) r \<and>
     (case parse r of None \<Rightarrow> False | Some u \<Rightarrow> uScheme u \<noteq> [] \<and> \<not> contains_hash r)"

definition too_many_resources :: ServerError where
  "too_many_resources = invalid_target ''at most 16 resource indicators may be requested''"

fun narrow_each :: "string list \<Rightarrow> string list \<Rightarrow> string list \<Rightarrow> ServerError + string list" where
  "narrow_each granted narrowed [] = Inr narrowed"
| "narrow_each granted narrowed (r # rs) =
     (if r \<notin> set granted then Inl (invalid_target ''resource was not granted'')
      else narrow_each granted (if r \<in> set narrowed then narrowed else narrowed @ [r]) rs)"

definition narrowResources :: "string list \<Rightarrow> string list \<Rightarrow> ServerError + string list" where
  "narrowResources granted requested =
     (if requested = [] then Inr granted
      else if MaxResourcesPerRequest < length requested then Inl too_many_resources
      else narrow_each granted [] requested)"

definition grantedResources :: "string list \<Rightarrow> string list \<Rightarrow> ServerError + string list" where
  "grantedResources requested granted =
     map_sum (\<lambda>_. invalid_request ''granted resources exceed what was requested'') (\<lambda>x. x) (narrowResources requested granted)"

definition defaultResources :: "'s server \<Rightarrow> RegisteredClient \<Rightarrow> ServerError + string list" where
  "defaultResources s client =
     (let allowed = AllowedResources client in
      if \<not> resourceIndicatorsEnabled s then
        if allowed \<noteq> []
        then Inl (server_error ''client is confined by AllowedResources, but this server accepts no resource indicators'')
        else Inr []
      else if 1 < length allowed
      then Inl (invalid_target ''a resource is required: this client may request more than one, so must name which'')
      else Inr allowed)"

text \<open>The resources asked for, once each, and those of them the configuration does not list.\<close>

fun collect_resources :: "'s server \<Rightarrow> RegisteredClient \<Rightarrow> string list \<Rightarrow> string list \<Rightarrow> string list
    \<Rightarrow> ServerError + (string list \<times> string list)" where
  "collect_resources s client resources unlisted [] = Inr (resources, unlisted)"
| "collect_resources s client resources unlisted (r # rs) =
     (if \<not> resource_Check (seParse (svEnv s)) r
      then Inl (invalid_target ''resource must be an absolute URI without a fragment'')
      else if r \<in> set resources then collect_resources s client resources unlisted rs
      else if \<not> AllowsResource client r then Inl (invalid_target ''resource is not one this client may request'')
      else collect_resources s client (resources @ [r])
        (if r \<in> set (scResources (svConfig s)) then unlisted else unlisted @ [r]) rs)"

fun resource_policy_error :: "resource_failure \<Rightarrow> ServerError" where
  "resource_policy_error ErrResourceNotAllowed = invalid_target ''resource is not one this server serves''"
| "resource_policy_error ResourcePolicyFailed = server_error ''failed to decide the requested resources''"

definition checkRequestedResources :: "'s server \<Rightarrow> RegisteredClient \<Rightarrow> string list \<Rightarrow> ('s, ServerError, string list) effect" where
  "checkRequestedResources s client requested =
     bindS (liftS (if requested = [] then defaultResources s client else Inr requested)) (\<lambda>requested.
     if requested = [] then liftS (Inr [])
     else if MaxResourcesPerRequest < length requested then liftS (Inl too_many_resources)
     else bindS (liftS (collect_resources s client [] [] requested)) (\<lambda>(resources, unlisted).
       if unlisted = [] then liftS (Inr resources)
       else case sdResourcePolicy (svDeps s) of
         None \<Rightarrow> liftS (Inl (invalid_target ''resource is not one this server serves''))
       | Some policy \<Rightarrow> bindS (catchS resource_policy_error (policy client unlisted)) (\<lambda>_. liftS (Inr resources))))"

text \<open>The audience, and the audiences where resources were granted.\<close>

definition server_accessTokenAudience :: "'s server \<Rightarrow> string list \<Rightarrow> string \<times> string list" where
  "server_accessTokenAudience s resources = (case resources of [] \<Rightarrow> (sv_issuer s, []) | r # _ \<Rightarrow> (r, resources))"

definition narrowedAudience :: "'s server \<Rightarrow> RegisteredClient \<Rightarrow> string list \<Rightarrow> string list
    \<Rightarrow> ('s, ServerError, string \<times> string list) effect" where
  "narrowedAudience s client granted requested =
     bindS (liftS (narrowResources granted requested)) (\<lambda>resources.
     bindS (checkRequestedResources s client resources) (\<lambda>resources.
     liftS (Inr (server_accessTokenAudience s resources))))"

section \<open>Authorization details\<close>

definition invalid_details :: "string \<Rightarrow> ServerError" where
  "invalid_details = srv_error ErrorInvalidAuthorizationDetails 400"

text \<open>The objects of a token request's parameter; \<open>None\<close> where it has none.\<close>

definition tokenRequestAuthorizationDetails :: "'s server \<Rightarrow> string assoc \<Rightarrow> ServerError + json list option" where
  "tokenRequestAuthorizationDetails s params =
     (case map_of params authorizationDetailsParameter of
        None \<Rightarrow> Inr None
      | Some text \<Rightarrow>
          and_then (of_option (invalid_details ''authorization_details is not supported by this server'')
            (scRAR (svConfig s))) (\<lambda>r.
          and_then (require (DecodesLosslessly (string_bytes text))
            (invalid_details ''authorization_details must be valid UTF-8, without unpaired surrogate escapes'')) (\<lambda>_.
          let parsed = json_decode (sv_crypto s) (string_bytes text) in
          and_then (map_sum (\<lambda>_. invalid_details ''authorization_details is invalid'') (\<lambda>x. x)
            (rar_parse r (int (length text)) True parsed False)) (\<lambda>_.
          Inr (Some (case Option.bind parsed unmarshal_array of None \<Rightarrow> [] | Some objects \<Rightarrow> objects))))))"

definition checkAuthorizationDetailsSubset :: "'s server \<Rightarrow> raw \<Rightarrow> json list
    \<Rightarrow> (RARRegistry \<Rightarrow> RARValues \<Rightarrow> RARValues \<Rightarrow> rar_error + unit) \<Rightarrow> unit + raw" where
  "checkAuthorizationDetailsSubset s baseRaw objects test =
     (if objects = [] then Inr None
      else and_then (of_option () baseRaw) (\<lambda>base.
        and_then (of_option () (scRAR (svConfig s))) (\<lambda>r.
        let subsetRaw = JArr objects in
        and_then (map_sum (\<lambda>_. ()) (\<lambda>x. x) (rar_parse r (rrSize r base) True (Some base) False)) (\<lambda>baseValues.
        and_then (map_sum (\<lambda>_. ()) (\<lambda>x. x) (rar_parse r (rrSize r subsetRaw) True (Some subsetRaw) False)) (\<lambda>subsetValues.
        and_then (map_sum (\<lambda>_. ()) (\<lambda>x. x) (test r baseValues subsetValues)) (\<lambda>_.
        Inr (Some subsetRaw)))))))"

definition validateGrantedAuthorizationDetails :: "'s server \<Rightarrow> raw \<Rightarrow> json list \<Rightarrow> unit + raw" where
  "validateGrantedAuthorizationDetails s requestedRaw granted =
     checkAuthorizationDetailsSubset s requestedRaw granted rar_ValidateGrant"

definition validateNarrowedAuthorizationDetails :: "'s server \<Rightarrow> raw \<Rightarrow> json list \<Rightarrow> unit + raw" where
  "validateNarrowedAuthorizationDetails s grantedRaw narrowed =
     checkAuthorizationDetailsSubset s grantedRaw narrowed rar_ValidateNarrowing"

definition accessTokenGrant :: "'s server \<Rightarrow> grantRecord \<Rightarrow> json list option \<Rightarrow> ServerError + grantRecord" where
  "accessTokenGrant s g requested =
     (case requested of
        None \<Rightarrow> Inr g
      | Some objects \<Rightarrow>
          if objects \<noteq> [] \<and> gnAuthorizationDetails g = None
          then Inl (invalid_details ''authorization_details was not granted'')
          else and_then (map_sum (\<lambda>_. invalid_details ''authorization_details exceeds what was granted'') (\<lambda>x. x)
              (validateNarrowedAuthorizationDetails s (gnAuthorizationDetails g) objects)) (\<lambda>narrowed.
            Inr (g\<lparr>gnAuthorizationDetails := narrowed\<rparr>)))"

definition checkAuthorizationDetailsTypes :: "RegisteredClient \<Rightarrow> json list \<Rightarrow> unit + unit" where
  "checkAuthorizationDetailsTypes client details =
     check_all (\<lambda>d. and_then (of_option () (rar_head_type d)) (\<lambda>typ.
       require (AllowsAuthorizationDetailsType client typ) ())) details"

section \<open>What a grant still allows\<close>

definition checkGrantSubjectStillIssued :: "'s server \<Rightarrow> grantRecord \<Rightarrow> ServerError + unit" where
  "checkGrantSubjectStillIssued s g =
     (let subjects = effectiveSubjects (svConfig s) in
      if gnClientSubject g = [] then
        require (sjEnforcement subjects \<noteq> Some SubjectTypesPairwiseOnly)
          (invalid_grant ''the grant was issued with a public sub, and this server now issues only pairwise subs'')
      else require (sjPrefix subjects = None \<or> gnPairwisePrefix g = prefix_String (sjPrefix subjects))
          (invalid_grant ''the grant's pairwise sub was issued under another subjects.prefix, so its tokens would no longer resolve''))"

definition checkGrantStillAllowed :: "'s server \<Rightarrow> RegisteredClient \<Rightarrow> grantRecord \<Rightarrow> string list \<Rightarrow> ServerError + unit" where
  "checkGrantStillAllowed s client g scope =
     and_then (checkGrantSubjectStillIssued s g) (\<lambda>_.
     and_then (check_all (\<lambda>sc. require (clientAllowsScope s client sc)
       (srv_error ErrorInvalidScope 400 ''the grant includes a scope this client may no longer use'')) scope) (\<lambda>_.
     case gnAuthorizationDetails g of
       None \<Rightarrow> Inr ()
     | Some details \<Rightarrow>
         and_then (of_option (invalid_grant ''the grant has authorization_details, which this server no longer supports'')
           (scRAR (svConfig s))) (\<lambda>r.
         and_then (map_sum (\<lambda>_. invalid_grant ''the grant's authorization_details are no longer valid on this server'') (\<lambda>x. x)
           (rar_parse r (rrSize r details) True (Some details) False)) (\<lambda>_.
         and_then (of_option (server_error ''failed to decode the grant's authorization_details'') (unmarshal_array details)) (\<lambda>objects.
         map_sum (\<lambda>_. invalid_grant ''the grant's authorization_details include a type this client may no longer request'') (\<lambda>x. x)
           (checkAuthorizationDetailsTypes client objects))))))"

definition narrowedAccessGrant :: "'s server \<Rightarrow> RegisteredClient \<Rightarrow> grantRecord \<Rightarrow> json list option \<Rightarrow> string list
    \<Rightarrow> ('s, ServerError, grantRecord \<times> string \<times> string list) effect" where
  "narrowedAccessGrant s client g details requested =
     bindS (liftS (accessTokenGrant s g details)) (\<lambda>accessGrant.
     bindS (narrowedAudience s client (gnResources g) requested) (\<lambda>(audience, audiences).
     liftS (Inr (accessGrant, audience, audiences))))"

definition allowedGrantAudience :: "'s server \<Rightarrow> RegisteredClient \<Rightarrow> grantRecord \<Rightarrow> string list \<Rightarrow> json list option \<Rightarrow> string list
    \<Rightarrow> ('s, ServerError, grantRecord \<times> string \<times> string list) effect" where
  "allowedGrantAudience s client g scope details requested =
     bindS (liftS (checkGrantStillAllowed s client g scope)) (\<lambda>_. narrowedAccessGrant s client g details requested)"

end
