(* ===== verification/Server_Token.thy ===== *)
theory Server_Token
  imports Server_Grant Resource_Server
begin

text \<open>
  The token endpoint: \<^verbatim>\<open>server/token.go\<close>, \<^verbatim>\<open>refresh.go\<close>,
  \<^verbatim>\<open>client_credentials.go\<close>, and what it issues, \<^verbatim>\<open>accesstoken.go\<close>,
  \<^verbatim>\<open>idtoken_encryption.go\<close>. A handler is the effect of its body, whose failures say
  how they are audited and whether the next nonce goes with them, inside \<open>token_handler\<close>, which
  does what \<^verbatim>\<open>tokenFail\<close>, the deferred \<^verbatim>\<open>attachNextDPoPNonceOnFailure\<close>
  and the audit of success do.
\<close>

section \<open>Results\<close>

record TokenResult =
  trAccessToken :: string
  trTokenType :: string
  trExpiresIn :: duration
  trScope :: string
  trAuthorizationDetails :: raw
  trIDToken :: "string option"
  trRefreshToken :: "string option"
  trNextDPoPNonce :: string

text \<open>\<^verbatim>\<open>ExpiresIn / time.Second\<close>, cut towards zero.\<close>

definition whole_seconds :: "duration \<Rightarrow> int" where
  "whole_seconds d = (if d < 0 then - ((- d) div second) else d div second)"

definition TokenResult_WriteJSON :: "TokenResult \<Rightarrow> http_response" where
  "TokenResult_WriteJSON t =
     \<lparr>hrStatus = 200,
      hrHeaders = (if trNextDPoPNonce t \<noteq> [] then [(''DPoP-Nonce'', trNextDPoPNonce t)] else []) @ noStore
        @ [(''Content-Type'', ''application/json'')],
      hrBody = Some (JObj (concat
        [[(''access_token'', JStr (trAccessToken t)), (''token_type'', JStr (trTokenType t)),
          (''expires_in'', json_int (whole_seconds (trExpiresIn t)))],
         opt_string ''scope'' (trScope t),
         opt_string ''id_token'' (case trIDToken t of None \<Rightarrow> [] | Some x \<Rightarrow> x),
         opt_string ''refresh_token'' (case trRefreshToken t of None \<Rightarrow> [] | Some x \<Rightarrow> x),
         opt_raw ''authorization_details'' (trAuthorizationDetails t)]))\<rparr>"

section \<open>Access tokens\<close>

definition confirmationFor :: "SenderConstrain \<Rightarrow> string \<Rightarrow> Confirmation" where
  "confirmationFor senderConstrain thumbprint =
     (if senderConstrain = SenderConstrainMTLS then \<lparr>cnJKT = [], cnX5TS256 = thumbprint\<rparr>
      else \<lparr>cnJKT = thumbprint, cnX5TS256 = []\<rparr>)"

definition jwt_params :: "SignatureAlgorithm \<Rightarrow> signer \<Rightarrow> string \<Rightarrow> access_token_params \<Rightarrow> AccessTokenParams" where
  "jwt_params alg signer kid p =
     \<lparr>tpSigner = Some signer, tpAlgorithm = alg, tpKeyID = kid, tpIssuer = atpIssuer p, tpSubject = atpSubject p,
      tpAudience = atpAudience p, tpAudiences = atpAudiences p, tpClientID = atpClientID p,
      tpScope = join_space (atpScope p), tpConfirmation = Some (confirmationFor (atpSenderConstrain p) (atpThumbprint p)),
      tpNow = atpNow p, tpLifetime = atpLifetime p, tpParameters = atpClaims p\<rparr>"

text \<open>
  \<^verbatim>\<open>JWTAccessTokens\<close> and \<^verbatim>\<open>OpaqueAccessTokens\<close>, each with the key manager or the
  store it has of its own. Bytes are drawn once the parameters are valid.
\<close>

definition jwt_IssueAccessToken :: "'s server \<Rightarrow> ('s, dependency_error, signer \<times> string) effect \<Rightarrow> SignatureAlgorithm
    \<Rightarrow> access_token_params \<Rightarrow> ('s, dependency_error, string \<times> string) effect" where
  "jwt_IssueAccessToken s signing_key alg p =
     bindS signing_key (\<lambda>(signer, kid).
     let params = jwt_params alg signer kid p in
     bindS (liftS (map_sum (\<lambda>_. OtherFailure) (\<lambda>x. x) (validateAccessTokenParams params))) (\<lambda>_.
     bindS (\<lambda>w. case sdRandom (svDeps s) jtiSize w of (random, w') \<Rightarrow> (Inr random, w')) (\<lambda>random.
     liftS (map_sum (\<lambda>_. OtherFailure) (\<lambda>x. x) (IssueAccessToken (sv_crypto s) params random)))))"

definition opaque_claims :: "access_token_params \<Rightarrow> json assoc" where
  "opaque_claims p =
     (let claims = atpClaims p;
          claims = (if atpInternalSubject p \<noteq> [] then AList.update ClientSubjectClaim (JStr (atpSubject p)) claims else claims);
          claims = AList.update IssuerRecordClaim (JStr (atpIssuer p)) claims;
          audiences = (if atpAudiences p = [] \<and> atpAudience p \<noteq> [] then [atpAudience p] else atpAudiences p) in
      if audiences \<noteq> [] then AList.update AudienceRecordClaim (JArr (map JStr audiences)) claims else claims)"

definition opaque_record :: "crypto \<Rightarrow> access_token_params \<Rightarrow> string \<Rightarrow> NewAccessToken" where
  "opaque_record C p tok =
     \<lparr>natTokenHash = sha256 C (string_bytes tok), natClientID = atpClientID p,
      natSubject = (if atpInternalSubject p \<noteq> [] then atpInternalSubject p else atpSubject p),
      natScope = atpScope p, natThumbprint = atpThumbprint p, natSenderConstrain = atpSenderConstrain p,
      natClaims = opaque_claims p, natExpiresAt = atpNow p + atpLifetime p\<rparr>"

definition opaque_IssueAccessToken :: "'s server \<Rightarrow> (NewAccessToken \<Rightarrow> ('s, dependency_error, unit) effect)
    \<Rightarrow> access_token_params \<Rightarrow> ('s, dependency_error, string \<times> string) effect" where
  "opaque_IssueAccessToken s create p =
     bindS (liftS (require (atpIssuer p \<noteq> []) OtherFailure)) (\<lambda>_.
     bindS (catchS (\<lambda>_. OtherFailure) (generateRandomToken s opaqueAccessTokenSize)) (\<lambda>tok.
     bindS (create (opaque_record (sv_crypto s) p tok)) (\<lambda>_.
     liftS (Inr (tok, hex_encode (sha256 (sv_crypto s) (string_bytes tok)))))))"

definition server_issueAccessToken :: "'s server \<Rightarrow> access_token_params \<Rightarrow> ('s, ServerError, string \<times> string) effect" where
  "server_issueAccessToken s p =
     bindS (liftS (require (claimsSize (svEnv s) (atpClaims p) \<le> slMaxAccessTokenClaimsBytes (sv_limits s))
       (server_error ''access token claims exceed limits.max_access_token_claims_bytes''))) (\<lambda>_.
     bindS (catchS (\<lambda>_. server_error ''failed to issue access token'') (sdAccessTokens (svDeps s) p)) (\<lambda>(tok, key).
     liftS (and_then (require (int (length tok) \<le> MaxAccessTokenBytes (sv_limits s))
       (server_error ''the issued access token is larger than limits.max_access_token_claims_bytes allows'')) (\<lambda>_.
     Inr (tok, key)))))"

section \<open>ID tokens\<close>

definition isServerManagedIDTokenClaim :: "string \<Rightarrow> bool" where
  "isServerManagedIDTokenClaim name = Reserved KindIDToken SourceEmbedder name"

definition identity_claim :: "string list \<Rightarrow> Acceptable \<Rightarrow> string \<times> json \<Rightarrow> bool" where
  "identity_claim names values = (\<lambda>(k, v). k \<in> set names \<and> \<not> isServerManagedIDTokenClaim k \<and> Allows values k v)"

definition withIdentityClaims :: "'s server \<Rightarrow> string \<Rightarrow> string list \<Rightarrow> Acceptable \<Rightarrow> json assoc
    \<Rightarrow> ('s, dependency_error, json assoc) effect" where
  "withIdentityClaims s subject names values base =
     (case sdIdentityClaims (svDeps s) of
        None \<Rightarrow> liftS (Inr base)
      | Some resolve \<Rightarrow>
          if names = [] then liftS (Inr base)
          else bindS (resolve subject names) (\<lambda>identity.
            liftS (Inr (overlay base (filter (identity_claim names values) identity)))))"

definition resolveClientEncryptionKey :: "'s server \<Rightarrow> string \<Rightarrow> KeyManagementAlgorithm \<Rightarrow> ('s, unit, encryption_key) effect" where
  "resolveClientEncryptionKey s client alg =
     bindS (catchS (\<lambda>_. ()) (sdEncryptionKeys (svDeps s) client alg)) (\<lambda>found.
     liftS (of_option () (find (\<lambda>k. ekAlgorithm k = alg) found)))"

definition encryptIDToken :: "'s server \<Rightarrow> string \<Rightarrow> KeyManagementAlgorithm \<Rightarrow> ContentEncryptionAlgorithm \<Rightarrow> string
    \<Rightarrow> ('s, unit, string) effect" where
  "encryptIDToken s client keyManagement contentEncryption signedJWT =
     bindS (liftS (require (keyManagement \<in> set (scIDTokenEncryptionKeyManagement (svConfig s))) ())) (\<lambda>_.
     bindS (liftS (require (contentEncryption \<in> set (scIDTokenEncryptionContent (svConfig s))) ())) (\<lambda>_.
     bindS (resolveClientEncryptionKey s client keyManagement) (\<lambda>key.
     sdEncrypt (svDeps s) keyManagement contentEncryption key signedJWT)))"

definition id_params :: "'s server \<Rightarrow> RegisteredClient \<Rightarrow> grantRecord \<Rightarrow> signer \<Rightarrow> string \<Rightarrow> json assoc \<Rightarrow> string \<Rightarrow> string
    \<Rightarrow> time \<Rightarrow> IDTokenParams" where
  "id_params s client g signer kid claims nonce accessToken now =
     \<lparr>idpSigner = Some signer, idpAlgorithm = scIDTokenAlg (svConfig s), idpKeyID = kid, idpIssuer = sv_issuer s,
      idpSubject = grant_clientSubject g, idpAudience = rclID client, idpNonce = nonce, idpAuthTime = gnAuthTime g,
      idpACR = gnACR g, idpAMR = gnAMR g, idpAccessToken = accessToken, idpNow = now,
      idpLifetime = slIDTokenLifetime (sv_limits s), idpParameters = claims\<rparr>"

definition issueIDToken :: "'s server \<Rightarrow> RegisteredClient \<Rightarrow> grantRecord \<Rightarrow> json assoc \<Rightarrow> string \<Rightarrow> string
    \<Rightarrow> ('s, unit, string) effect" where
  "issueIDToken s client g claims nonce accessToken =
     bindS (catchS (\<lambda>_. ()) (sdSigner (svDeps s) IDTokenSigning (scIDTokenAlg (svConfig s)))) (\<lambda>(signer, kid).
     bindS (clock s) (\<lambda>now.
     bindS (liftS (map_sum (\<lambda>_. ()) (\<lambda>x. x)
       (IssueIDToken (sv_crypto s) (id_params s client g signer kid claims nonce accessToken now)))) (\<lambda>signedJWT.
     case rclIDTokenEncryption client of
       None \<Rightarrow> liftS (Inr signedJWT)
     | Some (keyManagement, contentEncryption) \<Rightarrow> encryptIDToken s (rclID client) keyManagement contentEncryption signedJWT)))"

definition issueIDTokenForGrant :: "'s server \<Rightarrow> RegisteredClient \<Rightarrow> grantRecord \<Rightarrow> string \<Rightarrow> string
    \<Rightarrow> ('s, ServerError, string) effect" where
  "issueIDTokenForGrant s client g nonce accessToken =
     bindS (catchS (\<lambda>_. server_error ''failed to resolve identity claims'')
       (withIdentityClaims s (gnSubject g) (gnRequestedIDTokenClaims g) (gnRequestedIDTokenClaimValues g) (gnTokenClaims g))) (\<lambda>claims.
     let claims = overlay claims (gnIDTokenClaims g) in
     bindS (liftS (require (claimsSize (svEnv s) claims \<le> slMaxIDTokenClaimsBytes (sv_limits s))
       (server_error ''ID token claims are over limits.max_id_token_claims_bytes''))) (\<lambda>_.
     catchS (\<lambda>_. server_error ''failed to issue ID token'') (issueIDToken s client g claims nonce accessToken)))"

section \<open>Refresh tokens\<close>

definition issueRefreshToken :: "'s server \<Rightarrow> string \<Rightarrow> grantRecord \<Rightarrow> refreshBinding \<Rightarrow> ('s, unit, string) effect" where
  "issueRefreshToken s client g binding =
     bindS (generateRandomToken s refreshTokenSize) (\<lambda>tok.
     bindS (clock s) (\<lambda>now.
     bindS (liftS (server_encodeGrantRecord s (forRefreshToken g binding now))) (\<lambda>encoded.
     bindS (catchS (\<lambda>_. ()) (gtCreateRefresh (sdGrants (svDeps s))
       \<lparr>rtTokenHash = sha256 (sv_crypto s) (string_bytes tok), rtClientID = client, rtGrant = encoded,
        rtExpiresAt = now + slRefreshTokenLifetime (sv_limits s)\<rparr>)) (\<lambda>_.
     liftS (Inr tok)))))"

section \<open>Handlers\<close>

record token_failure =
  tfClient :: string
  tfError :: ServerError
  tfAudit :: string
  tfAttach :: "RegisteredClient option"

definition failing :: "string \<Rightarrow> RegisteredClient option \<Rightarrow> ('w, ServerError, 'a) effect \<Rightarrow> ('w, token_failure, 'a) effect" where
  "failing client attach m =
     catchS (\<lambda>e. \<lparr>tfClient = client, tfError = e, tfAudit = svCode e, tfAttach = attach\<rparr>) m"

abbreviation before_binding :: "RegisteredClient \<Rightarrow> ('w, ServerError, 'a) effect \<Rightarrow> ('w, token_failure, 'a) effect" where
  "before_binding client \<equiv> failing (rclID client) None"

abbreviation after_binding :: "RegisteredClient \<Rightarrow> ('w, ServerError, 'a) effect \<Rightarrow> ('w, token_failure, 'a) effect" where
  "after_binding client \<equiv> failing (rclID client) (Some client)"

definition attachNextDPoPNonce :: "'s server \<Rightarrow> RegisteredClient \<Rightarrow> ServerError \<Rightarrow> Rotator \<times> 's \<Rightarrow> ServerError \<times> (Rotator \<times> 's)" where
  "attachNextDPoPNonce s client e rw =
     (if svNonce e \<noteq> [] then (e, rw)
      else case bindS (on_snd (clock s)) (nextDPoPNonce s client) rw of
        (Inl _, rw') \<Rightarrow> (e, rw')
      | (Inr nonce, rw') \<Rightarrow> (e\<lparr>svNonce := nonce\<rparr>, rw'))"

definition token_handler :: "'s server \<Rightarrow> AuditEventType
    \<Rightarrow> (Rotator \<times> 's, token_failure, RegisteredClient \<times> TokenResult) effect \<Rightarrow> (Rotator \<times> 's, ServerError, TokenResult) effect" where
  "token_handler s event body rw =
     (case body rw of
        (Inr (client, result), (r, w)) \<Rightarrow> (Inr result, (r, audit s event (rclID client) AuditOutcomeSuccess [] w))
      | (Inl f, (r, w)) \<Rightarrow>
          let rw' = (r, audit s event (tfClient f) AuditOutcomeFailure (tfAudit f) w) in
          case tfAttach f of
            None \<Rightarrow> (Inl (tfError f), rw')
          | Some client \<Rightarrow> apfst Inl (attachNextDPoPNonce s client (tfError f) rw'))"

text \<open>What every token request starts with: its parameters, its grant type, its client.\<close>

record token_request =
  tqParams :: "string assoc"
  tqResources :: "string list"
  tqClient :: RegisteredClient
  tqProof :: string
  tqInstanceKey :: string

definition begin_token_request :: "'s server \<Rightarrow> string \<Rightarrow> FormParameter list \<Rightarrow> requestCredentials \<Rightarrow> url option list \<Rightarrow> url option list
    \<Rightarrow> (Rotator \<times> 's, ServerError, token_request) effect" where
  "begin_token_request s grantType parameters creds endpoints mtlsEndpoints =
     (let (formParams, requestedResources) = takeResourceParameters s parameters in
      bindS (liftS (map_sum (\<lambda>_. invalid_request ''the request's parameters are duplicated, too many, or too large'') (\<lambda>x. x)
        (formParametersToMap formParams))) (\<lambda>params.
      bindS (liftS (require (param params ''grant_type'' = grantType)
        (srv_error ErrorUnsupportedGrantType 400 (''grant_type must be '' @ grantType)))) (\<lambda>_.
      bindS (on_snd (authenticateRequest s params creds endpoints mtlsEndpoints)) (\<lambda>(client, dpopProof, authn).
      liftS (Inr \<lparr>tqParams = params, tqResources = requestedResources, tqClient = client, tqProof = dpopProof,
        tqInstanceKey = vdInstanceKey authn\<rparr>)))))"

section \<open>The authorization code grant\<close>

definition codeHashPrefix :: bytes where "codeHashPrefix = string_bytes ''fapigo authorization code'' @ [0]"
definition attestedCodeHashPrefix :: bytes where
  "attestedCodeHashPrefix = string_bytes ''fapigo attested authorization code'' @ [0]"

definition authorizationCodeHash :: "crypto \<Rightarrow> string \<Rightarrow> string \<Rightarrow> bytes" where
  "authorizationCodeHash C code instanceKey =
     sha256 C (if instanceKey = [] then codeHashPrefix @ string_bytes code
       else attestedCodeHashPrefix @ string_bytes instanceKey @ [0] @ string_bytes code)"

definition codeUnknownDescription :: string where
  "codeUnknownDescription = ''code is invalid, expired, or already used''"

record code_request =
  cqCode :: string
  cqRedirectURI :: string
  cqCodeVerifier :: string
  cqDetails :: "json list option"

definition codeExchangeParameters :: "'s server \<Rightarrow> string assoc \<Rightarrow> ServerError + code_request" where
  "codeExchangeParameters s params =
     and_then (require (param params ''code'' \<noteq> []) (invalid_request ''code is required'')) (\<lambda>_.
     and_then (require (param params ''redirect_uri'' \<noteq> []) (invalid_request ''redirect_uri is required'')) (\<lambda>_.
     and_then (require (param params ''code_verifier'' \<noteq> []) (invalid_grant ''code_verifier is required'')) (\<lambda>_.
     and_then (tokenRequestAuthorizationDetails s params) (\<lambda>details.
     Inr \<lparr>cqCode = param params ''code'', cqRedirectURI = param params ''redirect_uri'',
          cqCodeVerifier = param params ''code_verifier'', cqDetails = details\<rparr>))))"

definition validateRedeemedAuthorizationCode :: "crypto \<Rightarrow> RedeemedGrant \<Rightarrow> grantRecord \<Rightarrow> string \<Rightarrow> code_request \<Rightarrow> string \<Rightarrow> time
    \<Rightarrow> ServerError + unit" where
  "validateRedeemedAuthorizationCode C redeemed g client presented thumbprint now =
     and_then (require (now < rgExpiresAt redeemed) (invalid_grant ''code has expired'')) (\<lambda>_.
     and_then (require (rgClientID redeemed = client) (invalid_grant ''code was not issued to this client'')) (\<lambda>_.
     and_then (require (gnRedirectURI g = cqRedirectURI presented)
       (invalid_grant ''redirect_uri does not match the authorization request'')) (\<lambda>_.
     and_then (require (gnDPoPJKT g = [] \<or> gnDPoPJKT g = thumbprint)
       (invalid_grant ''DPoP proof key does not match the dpop_jkt bound to this authorization code'')) (\<lambda>_.
     map_sum (\<lambda>_. invalid_grant ''code_verifier does not match code_challenge'') (\<lambda>x. x)
       (pkce_Verify C (gnCodeChallenge g) S256 (cqCodeVerifier presented))))))"

definition checkCodeInstance :: "grantRecord \<Rightarrow> string \<Rightarrow> ServerError + unit" where
  "checkCodeInstance g instanceKey =
     require (gnClientInstanceKey g = instanceKey) (invalid_grant ''code was issued to another client instance'')"

definition redeemedCodeGrant :: "'s server \<Rightarrow> RegisteredClient \<Rightarrow> RedeemedGrant \<Rightarrow> bytes \<Rightarrow> code_request \<Rightarrow> string \<Rightarrow> string \<Rightarrow> time
    \<Rightarrow> ('s, ServerError, grantRecord) effect" where
  "redeemedCodeGrant s client redeemed codeHash presented thumbprint instanceKey now =
     bindS (liftS (map_sum (\<lambda>e. recordFailure e (invalid_grant codeUnknownDescription) ''authorization code grant'') (\<lambda>x. x)
       (decodeOwnGrantRecord s (rgGrant redeemed)))) (\<lambda>g.
     bindS (liftS (require (isKind g grantKindAuthorizationCode) (invalid_grant codeUnknownDescription))) (\<lambda>_.
     let g = (if grantRevocationReader s \<noteq> None then g\<lparr>gnCodeGrantID := CodeGrantID (sv_crypto s) codeHash\<rparr> else g) in
     bindS (liftS (require (issuedWithin (gnIssuedAt g) (slAuthorizationCodeLifetime (sv_limits s)) now)
       (invalid_grant ''code has expired''))) (\<lambda>_.
     bindS (liftS (validateRedeemedAuthorizationCode (sv_crypto s) redeemed g (rclID client) presented thumbprint now)) (\<lambda>_.
     bindS (liftS (checkCodeInstance g instanceKey)) (\<lambda>_.
     bindS (server_checkGrantNotRevoked s g) (\<lambda>_.
     bindS (liftS (require (AllowsAuthorizationCodeGrant client) (srv_error ErrorUnauthorizedClient 400
       ''the client is no longer registered for the authorization code grant''))) (\<lambda>_.
     bindS (liftS (require (HasRedirectURI (seParse (svEnv s)) (seLoopback (svEnv s)) client (cqRedirectURI presented))
       (invalid_grant ''redirect_uri is no longer registered for this client''))) (\<lambda>_.
     liftS (Inr g)))))))))"

text \<open>The writes of a revocation after a code was used again; none of them can fail the request any further.\<close>

definition revokeTokensForReusedCode :: "'s server \<Rightarrow> redeem_failure \<Rightarrow> string \<Rightarrow> bytes \<Rightarrow> 's \<Rightarrow> bool \<times> 's" where
  "revokeTokensForReusedCode s failure presentedBy codeHash w =
     (case failure of
        NotRedeemed \<Rightarrow> (False, w)
      | AlreadyRedeemed accessKey refreshHash client \<Rightarrow>
          if client \<noteq> [] \<and> client \<noteq> presentedBy then (True, w)
          else let l = sv_limits s; revoke = rvRevoke (sdRevocation (svDeps s));
            revoke_until = (\<lambda>key lifetime w. let (now, w') = sdNow (svDeps s) w in snd (revoke key (now + lifetime) w'));
            w1 = (if accessKey \<noteq> [] then revoke_until accessKey
                (SaturatingAdd [slAccessTokenLifetime l, slMaxClockSkew l, slMaxClockSkew l]) w else w);
            w2 = (case refreshHash of None \<Rightarrow> w1 | Some h \<Rightarrow> snd (gtRevokeRefresh (sdGrants (svDeps s)) h w1));
            w3 = (if grantRevocationReader s \<noteq> None
                then revoke_until (CodeKey (sv_issuer s) (CodeGrantID (sv_crypto s) codeHash)) (grantRevocationHorizon s) w2
                else w2)
          in (False, w3))"

definition redeem_code :: "'s server \<Rightarrow> RegisteredClient \<Rightarrow> bytes \<Rightarrow> ('s, token_failure, RedeemedGrant) effect" where
  "redeem_code s client codeHash w =
     (case gtRedeemCode (sdGrants (svDeps s)) \<lparr>crCodeHash = codeHash, crClientID = rclID client\<rparr> w of
        (Inr redeemed, w') \<Rightarrow> (Inr redeemed, w')
      | (Inl failure, w') \<Rightarrow>
          let invalid = invalid_grant codeUnknownDescription;
              (crossClient, w'') = revokeTokensForReusedCode s failure (rclID client) codeHash w' in
          (Inl \<lparr>tfClient = rclID client, tfError = invalid,
             tfAudit = (if crossClient then ''code reused by another client'' else svCode invalid),
             tfAttach = Some client\<rparr>, w''))"

text \<open>A write whose failure is ignored.\<close>

definition attempt :: "('s, 'e, unit) effect \<Rightarrow> ('s, 'f, unit) effect" where
  "attempt m w = (Inr (), snd (m w))"

definition optional_id_token :: "'s server \<Rightarrow> RegisteredClient \<Rightarrow> grantRecord \<Rightarrow> string list \<Rightarrow> string \<Rightarrow> string
    \<Rightarrow> ('s, ServerError, string option) effect" where
  "optional_id_token s client g scope nonce accessToken =
     (if containsScope scope ''openid''
      then bindS (issueIDTokenForGrant s client g nonce accessToken) (\<lambda>t. liftS (Inr (Some t)))
      else liftS (Inr None))"

definition issueOptionalRefreshToken :: "'s server \<Rightarrow> RegisteredClient \<Rightarrow> grantRecord \<Rightarrow> refreshBinding \<Rightarrow> bytes \<Rightarrow> time
    \<Rightarrow> ('s, ServerError, string option) effect" where
  "issueOptionalRefreshToken s client g binding codeHash now =
     (if \<not> containsScope (gnScope g) ''offline_access'' then liftS (Inr None)
      else bindS (catchS (\<lambda>_. server_error ''failed to issue refresh token'') (issueRefreshToken s (rclID client) g binding)) (\<lambda>tok.
        bindS (attempt (gtRecordRefresh (sdGrants (svDeps s)) codeHash (sha256 (sv_crypto s) (string_bytes tok))
          (now + slRefreshTokenLifetime (sv_limits s)))) (\<lambda>_.
        liftS (Inr (Some tok)))))"

text \<open>The access token, the ID token and the refresh token, in the order the store can keep them.\<close>

definition issueCodeExchangeTokens :: "'s server \<Rightarrow> RegisteredClient \<Rightarrow> grantRecord \<Rightarrow> access_token_params \<Rightarrow> refreshBinding \<Rightarrow> bytes
    \<Rightarrow> ('s, ServerError, string \<times> string option \<times> string option) effect" where
  "issueCodeExchangeTokens s client g params binding codeHash =
     (let store = sdGrants (svDeps s); l = sv_limits s;
          one_by_one =
            bindS (server_issueAccessToken s params) (\<lambda>(tok, key).
            bindS (attempt (gtRecordAccess store codeHash key (atpNow params + slAccessTokenLifetime l))) (\<lambda>_.
            bindS (optional_id_token s client g (gnScope g) (gnNonce g) tok) (\<lambda>idToken.
            bindS (issueOptionalRefreshToken s client g binding codeHash (atpNow params)) (\<lambda>refreshToken.
            liftS (Inr (tok, idToken, refreshToken)))))) in
      case gtRecordTokens store of
        None \<Rightarrow> one_by_one
      | Some record_tokens \<Rightarrow>
          if gnCodeGrantID g = [] \<or> \<not> containsScope (gnScope g) ''offline_access'' then one_by_one
          else
            bindS (catchS (\<lambda>_. server_error ''failed to issue refresh token'') (issueRefreshToken s (rclID client) g binding)) (\<lambda>refreshToken.
            bindS (server_issueAccessToken s params) (\<lambda>(tok, key).
            bindS (attempt (record_tokens codeHash key (atpNow params + slAccessTokenLifetime l)
              (sha256 (sv_crypto s) (string_bytes refreshToken)) (atpNow params + slRefreshTokenLifetime l))) (\<lambda>_.
            bindS (optional_id_token s client g (gnScope g) (gnNonce g) tok) (\<lambda>idToken.
            liftS (Inr (tok, idToken, Some refreshToken)))))))"

text \<open>The parameters of the access token of a grant: for what, of whom, for which key.\<close>

definition grant_token_params :: "'s server \<Rightarrow> RegisteredClient \<Rightarrow> grantRecord \<Rightarrow> grantRecord \<Rightarrow> string list \<Rightarrow> string \<Rightarrow> string
    \<Rightarrow> string list \<Rightarrow> time \<Rightarrow> access_token_params" where
  "grant_token_params s client g accessGrant scope thumbprint audience audiences now =
     \<lparr>atpClientID = rclID client, atpSubject = fst (accessTokenSubjects g), atpInternalSubject = snd (accessTokenSubjects g),
      atpScope = scope, atpThumbprint = thumbprint, atpSenderConstrain = rclSenderConstrain client,
      atpClaims = accessTokenClaims accessGrant, atpIssuer = sv_issuer s, atpAudience = audience, atpAudiences = audiences,
      atpNow = now, atpLifetime = slAccessTokenLifetime (sv_limits s)\<rparr>"

definition token_result :: "'s server \<Rightarrow> RegisteredClient \<Rightarrow> string list \<Rightarrow> raw \<Rightarrow> string \<Rightarrow> string option \<Rightarrow> string option \<Rightarrow> string
    \<Rightarrow> TokenResult" where
  "token_result s client scope details tok idToken refreshToken nonce =
     \<lparr>trAccessToken = tok, trTokenType = tokenTypeFor (rclSenderConstrain client),
      trExpiresIn = slAccessTokenLifetime (sv_limits s), trScope = join_space scope, trAuthorizationDetails = details,
      trIDToken = idToken, trRefreshToken = refreshToken, trNextDPoPNonce = nonce\<rparr>"

text \<open>Up to the binding the request changes nothing of the code; from there on the code is spent.\<close>

definition code_exchange_begin :: "'s server \<Rightarrow> FormParameter list \<Rightarrow> requestCredentials
    \<Rightarrow> (Rotator \<times> 's, token_failure, token_request \<times> code_request \<times> string) effect" where
  "code_exchange_begin s parameters creds =
     bindS (failing [] None (begin_token_request s ''authorization_code'' parameters creds [] [])) (\<lambda>q.
     bindS (before_binding (tqClient q) (liftS (codeExchangeParameters s (tqParams q)))) (\<lambda>presented.
     bindS (before_binding (tqClient q)
       (verifyTokenRequestBinding s (tqClient q) (tqProof q) (rqcPeerCertificate creds))) (\<lambda>thumbprint.
     liftS (Inr (q, presented, thumbprint)))))"

definition presented_code_hash :: "'s server \<Rightarrow> token_request \<Rightarrow> code_request \<Rightarrow> bytes" where
  "presented_code_hash s q presented = authorizationCodeHash (sv_crypto s) (cqCode presented) (tqInstanceKey q)"

definition code_exchange_tokens :: "'s server \<Rightarrow> token_request \<Rightarrow> code_request \<Rightarrow> string \<Rightarrow> RedeemedGrant
    \<Rightarrow> (Rotator \<times> 's, token_failure, RegisteredClient \<times> TokenResult) effect" where
  "code_exchange_tokens s q presented thumbprint redeemed =
     (let client = tqClient q; codeHash = presented_code_hash s q presented in
      bindS (on_snd (clock s)) (\<lambda>now.
      bindS (after_binding client (on_snd
        (redeemedCodeGrant s client redeemed codeHash presented thumbprint (tqInstanceKey q) now))) (\<lambda>g.
      bindS (after_binding client (on_snd
        (allowedGrantAudience s client g (gnScope g) (cqDetails presented) (tqResources q)))) (\<lambda>(accessGrant, audience, audiences).
      bindS (after_binding client (on_snd
        (issueCodeExchangeTokens s client g
           (grant_token_params s client g accessGrant (gnScope g) thumbprint audience audiences now)
           \<lparr>rbThumbprint = thumbprint, rbInstanceKey = tqInstanceKey q\<rparr> codeHash))) (\<lambda>(tok, idToken, refreshToken).
      bindS (after_binding client (nextDPoPNonce s client now)) (\<lambda>nonce.
      liftS (Inr (client, token_result s client (gnScope g) (gnAuthorizationDetails accessGrant) tok idToken refreshToken nonce))))))))"

definition code_exchange_finish :: "'s server \<Rightarrow> token_request \<Rightarrow> code_request \<Rightarrow> string
    \<Rightarrow> (Rotator \<times> 's, token_failure, RegisteredClient \<times> TokenResult) effect" where
  "code_exchange_finish s q presented thumbprint =
     bindS (on_snd (redeem_code s (tqClient q) (presented_code_hash s q presented)))
       (code_exchange_tokens s q presented thumbprint)"

definition code_exchange :: "'s server \<Rightarrow> FormParameter list \<Rightarrow> requestCredentials
    \<Rightarrow> (Rotator \<times> 's, token_failure, RegisteredClient \<times> TokenResult) effect" where
  "code_exchange s parameters creds =
     bindS (code_exchange_begin s parameters creds) (\<lambda>(q, presented, thumbprint).
     code_exchange_finish s q presented thumbprint)"

definition ExchangeAuthorizationCode :: "'s server \<Rightarrow> FormParameter list \<Rightarrow> requestCredentials
    \<Rightarrow> (Rotator \<times> 's, ServerError, TokenResult) effect" where
  "ExchangeAuthorizationCode s parameters creds =
     token_handler s AuditEventExchangeAuthorizationCode (code_exchange s parameters creds)"

section \<open>The refresh token grant\<close>

definition refreshParameters :: "'s server \<Rightarrow> string assoc \<Rightarrow> ServerError + (string \<times> json list option)" where
  "refreshParameters s params =
     and_then (require (param params ''refresh_token'' \<noteq> []) (invalid_request ''refresh_token is required'')) (\<lambda>_.
     and_then (tokenRequestAuthorizationDetails s params) (\<lambda>details.
     Inr (param params ''refresh_token'', details)))"

definition refreshTokenUnknownDescription :: string where
  "refreshTokenUnknownDescription = ''refresh_token is invalid, expired, or already used''"

definition CIBAGrantType :: string where "CIBAGrantType = ''urn:openid:params:grant-type:ciba''"

definition checkRefreshInstance :: "grantRecord \<Rightarrow> string \<Rightarrow> ServerError + unit" where
  "checkRefreshInstance g instanceKey =
     (if gnClientInstanceKey g \<noteq> [] \<and> gnClientInstanceKey g \<noteq> instanceKey
      then Inl (invalid_grant ''refresh_token was issued to another client instance'')
      else if gnClientInstanceKey g = [] \<and> instanceKey \<noteq> []
      then Inl (invalid_grant ''refresh_token was not issued to a client instance'')
      else Inr ())"

definition redeemRefreshGrant :: "'s server \<Rightarrow> string \<Rightarrow> string \<Rightarrow> string \<Rightarrow> ('s, ServerError, grantRecord \<times> time) effect" where
  "redeemRefreshGrant s client instanceKey rawToken =
     bindS (catchS (\<lambda>_. invalid_grant refreshTokenUnknownDescription)
       (gtRedeemRefresh (sdGrants (svDeps s)) (sha256 (sv_crypto s) (string_bytes rawToken)))) (\<lambda>redeemed.
     bindS (liftS (require (rgClientID redeemed = client) (invalid_grant refreshTokenUnknownDescription))) (\<lambda>_.
     bindS (clock s) (\<lambda>now.
     bindS (liftS (require (now < rgExpiresAt redeemed) (invalid_grant ''refresh_token has expired''))) (\<lambda>_.
     bindS (liftS (map_sum (\<lambda>e. recordFailure e (invalid_grant refreshTokenUnknownDescription) ''refresh token grant'') (\<lambda>x. x)
       (decodeOwnGrantRecord s (rgGrant redeemed)))) (\<lambda>g.
     bindS (liftS (require (isKind g grantKindRefreshToken) (invalid_grant refreshTokenUnknownDescription))) (\<lambda>_.
     bindS (liftS (require (issuedWithin (gnIssuedAt g) (slRefreshTokenLifetime (sv_limits s)) now)
       (invalid_grant ''refresh_token has expired''))) (\<lambda>_.
     bindS (liftS (checkRefreshInstance g instanceKey)) (\<lambda>_.
     bindS (server_checkGrantNotRevoked s g) (\<lambda>_.
     liftS (Inr (g, now)))))))))))"

definition checkGrantTypeStillAllowed :: "'s server \<Rightarrow> RegisteredClient \<Rightarrow> grantRecord \<Rightarrow> ServerError + unit" where
  "checkGrantTypeStillAllowed s client g =
     (if gnGrantType g = ''authorization_code'' then
        require (AllowsAuthorizationCodeGrant client) (srv_error ErrorUnauthorizedClient 400
          ''the client is no longer registered for the authorization code grant'')
      else if gnGrantType g = CIBAGrantType then
        require (rclBackchannelAlgorithm client \<noteq> None) (srv_error ErrorUnauthorizedClient 400
          ''the client is no longer registered for CIBA'')
      else if gnGrantType g = [] then
        require (gnCodeGrantID g \<noteq> []) (invalid_grant ''refresh_token was issued for a grant of unknown type: authorize again'')
      else require (gnGrantType g \<in> set (scAdditionalGrantTypes (svConfig s)))
        (srv_error ErrorUnauthorizedClient 400 ''the grant type is no longer served''))"

definition redeemRefreshGrantFor :: "'s server \<Rightarrow> RegisteredClient \<Rightarrow> string \<Rightarrow> string \<Rightarrow> ('s, ServerError, grantRecord \<times> time) effect" where
  "redeemRefreshGrantFor s client instanceKey rawToken =
     bindS (redeemRefreshGrant s (rclID client) instanceKey rawToken) (\<lambda>(g, now).
     bindS (liftS (checkGrantTypeStillAllowed s client g)) (\<lambda>_.
     liftS (Inr (g, now))))"

definition refresh_exchange :: "'s server \<Rightarrow> FormParameter list \<Rightarrow> requestCredentials
    \<Rightarrow> (Rotator \<times> 's, token_failure, RegisteredClient \<times> TokenResult) effect" where
  "refresh_exchange s parameters creds =
     bindS (failing [] None (begin_token_request s ''refresh_token'' parameters creds
       [scTokenEndpoint (svConfig s)] [scMTLSTokenEndpoint (svConfig s)])) (\<lambda>q.
     let client = tqClient q in
     bindS (before_binding client (liftS (refreshParameters s (tqParams q)))) (\<lambda>(rawToken, details).
     bindS (before_binding client (verifyTokenRequestBinding s client (tqProof q) (rqcPeerCertificate creds))) (\<lambda>thumbprint.
     bindS (after_binding client (on_snd (redeemRefreshGrantFor s client (tqInstanceKey q) rawToken))) (\<lambda>(g, now).
     bindS (after_binding client (liftS (refreshScope (tqParams q) g client))) (\<lambda>scope.
     bindS (after_binding client (on_snd
       (allowedGrantAudience s client g scope details (tqResources q)))) (\<lambda>(accessGrant, audience, audiences).
     bindS (after_binding client (on_snd (server_issueAccessToken s
       (grant_token_params s client g accessGrant scope thumbprint audience audiences now)))) (\<lambda>(tok, _).
     bindS (after_binding client (on_snd (optional_id_token s client g scope [] tok))) (\<lambda>idToken.
     bindS (after_binding client (nextDPoPNonce s client now)) (\<lambda>nonce.
     liftS (Inr (client, token_result s client scope (gnAuthorizationDetails accessGrant) tok idToken (Some rawToken) nonce)))))))))))"

definition RefreshAccessToken :: "'s server \<Rightarrow> FormParameter list \<Rightarrow> requestCredentials
    \<Rightarrow> (Rotator \<times> 's, ServerError, TokenResult) effect" where
  "RefreshAccessToken s parameters creds =
     token_handler s AuditEventRefreshAccessToken (refresh_exchange s parameters creds)"

section \<open>The client credentials grant\<close>

fun clientCredentials_scopes :: "'s server \<Rightarrow> RegisteredClient \<Rightarrow> string list \<Rightarrow> ServerError + unit" where
  "clientCredentials_scopes s client [] = Inr ()"
| "clientCredentials_scopes s client (tok # toks) =
     (if tok = ''openid'' \<or> tok = ''offline_access''
      then Inl (srv_error ErrorInvalidScope 400
        (''the client_credentials grant has no end user: '' @ tok @ '' cannot be requested''))
      else if \<not> clientAllowsScope s client tok
      then Inl (srv_error ErrorInvalidScope 400 ''scope is not valid for this client'')
      else clientCredentials_scopes s client toks)"

definition clientCredentialsScope :: "'s server \<Rightarrow> RegisteredClient \<Rightarrow> string \<Rightarrow> ServerError + string list" where
  "clientCredentialsScope s client scope =
     and_then (map_sum (\<lambda>_. requestError ErrorInvalidRequest ''scope is too long'') (\<lambda>x. x)
       (checkScopeLength (length scope) client)) (\<lambda>_.
     and_then (require (strings_Fields scope \<noteq> []) (srv_error ErrorInvalidScope 400 ''scope is required'')) (\<lambda>_.
     and_then (clientCredentials_scopes s client (strings_Fields scope)) (\<lambda>_.
     Inr (strings_Fields scope))))"

text \<open>The text of a plain parameter, as \<^verbatim>\<open>plainParamsToJSON\<close> leaves it raw.\<close>

definition parseRequestedAuthorizationDetails :: "'s server \<Rightarrow> string assoc \<Rightarrow> unit + raw" where
  "parseRequestedAuthorizationDetails s params =
     (case map_of params authorizationDetailsParameter of
        None \<Rightarrow> Inr None
      | Some text \<Rightarrow>
          and_then (of_option () (scRAR (svConfig s))) (\<lambda>r.
          let parsed = json_decode (sv_crypto s) (string_bytes text) in
          and_then (map_sum (\<lambda>_. ()) (\<lambda>x. x)
            (rar_parse r (int (length text)) (DecodesLosslessly (string_bytes text)) parsed True)) (\<lambda>_.
          Inr parsed)))"

definition applyRARPolicy :: "'s server \<Rightarrow> RegisteredClient \<Rightarrow> (string \<Rightarrow> json list \<Rightarrow> ('s, dependency_error, json list) effect) option
    \<Rightarrow> raw \<Rightarrow> ('s, unit, raw) effect" where
  "applyRARPolicy s client policy requested =
     (case requested of
        None \<Rightarrow> liftS (Inr None)
      | Some details \<Rightarrow>
          bindS (liftS (of_option () policy)) (\<lambda>authorize.
          bindS (liftS (of_option () (unmarshal_array details))) (\<lambda>requestedObjects.
          bindS (liftS (checkAuthorizationDetailsTypes client requestedObjects)) (\<lambda>_.
          bindS (catchS (\<lambda>_. ()) (authorize (rclID client) requestedObjects)) (\<lambda>granted.
          bindS (liftS (require (granted \<noteq> []) ())) (\<lambda>_.
          liftS (validateGrantedAuthorizationDetails s requested granted)))))))"

definition clientCredentialsGrant :: "'s server \<Rightarrow> RegisteredClient \<Rightarrow> string assoc \<Rightarrow> string list
    \<Rightarrow> ('s, ServerError, raw \<times> string \<times> string list) effect" where
  "clientCredentialsGrant s client params requestedResources =
     bindS (liftS (map_sum (\<lambda>_. invalid_details ''authorization_details is invalid'') (\<lambda>x. x)
       (parseRequestedAuthorizationDetails s params))) (\<lambda>requested.
     bindS (catchS (\<lambda>_. invalid_details ''authorization_details is not permitted for this client'')
       (applyRARPolicy s client (sdClientCredentialsRAR (svDeps s)) requested)) (\<lambda>details.
     bindS (checkRequestedResources s client requestedResources) (\<lambda>resources.
     liftS (Inr (details, server_accessTokenAudience s resources)))))"

definition client_token_params :: "'s server \<Rightarrow> RegisteredClient \<Rightarrow> string list \<Rightarrow> raw \<Rightarrow> string \<Rightarrow> string \<Rightarrow> string list \<Rightarrow> time
    \<Rightarrow> access_token_params" where
  "client_token_params s client scope details thumbprint audience audiences now =
     \<lparr>atpClientID = rclID client, atpSubject = rclID client, atpInternalSubject = [], atpScope = scope,
      atpThumbprint = thumbprint, atpSenderConstrain = rclSenderConstrain client,
      atpClaims = withAuthorizationDetails details [(GrantTypeClaim, JStr ClientCredentialsGrantType)],
      atpIssuer = sv_issuer s, atpAudience = audience, atpAudiences = audiences,
      atpNow = now, atpLifetime = slAccessTokenLifetime (sv_limits s)\<rparr>"

definition client_credentials :: "'s server \<Rightarrow> FormParameter list \<Rightarrow> requestCredentials
    \<Rightarrow> (Rotator \<times> 's, token_failure, RegisteredClient \<times> TokenResult) effect" where
  "client_credentials s parameters creds =
     bindS (failing [] None (liftS (require (scClientCredentialsGrant (svConfig s)) (srv_error ErrorUnsupportedGrantType 400
       ''the client_credentials grant is not enabled on this server'')))) (\<lambda>_.
     bindS (failing [] None (begin_token_request s ''client_credentials'' parameters creds [] [])) (\<lambda>q.
     let client = tqClient q in
     bindS (before_binding client (liftS (require (rclClientCredentials client) (srv_error ErrorUnauthorizedClient 400
       ''this client is not registered for the client_credentials grant'')))) (\<lambda>_.
     bindS (before_binding client (liftS (clientCredentialsScope s client (param (tqParams q) ''scope'')))) (\<lambda>scope.
     bindS (before_binding client (on_snd
       (clientCredentialsGrant s client (tqParams q) (tqResources q)))) (\<lambda>(details, audience, audiences).
     bindS (before_binding client (verifyTokenRequestBinding s client (tqProof q) (rqcPeerCertificate creds))) (\<lambda>thumbprint.
     bindS (on_snd (clock s)) (\<lambda>now.
     bindS (after_binding client (on_snd (server_issueAccessToken s
       (client_token_params s client scope details thumbprint audience audiences now)))) (\<lambda>(tok, _).
     bindS (after_binding client (nextDPoPNonce s client now)) (\<lambda>nonce.
     liftS (Inr (client, token_result s client scope details tok None None nonce)))))))))))"

definition RequestClientCredentialsToken :: "'s server \<Rightarrow> FormParameter list \<Rightarrow> requestCredentials
    \<Rightarrow> (Rotator \<times> 's, ServerError, TokenResult) effect" where
  "RequestClientCredentialsToken s parameters creds =
     token_handler s AuditEventRequestClientCredentialsToken (client_credentials s parameters creds)"

end
