(* ===== verification/Server_Sound.thy ===== *)
theory Server_Sound
  imports Server_Token Dpop_Properties
begin

text \<open>
  What has to hold before the authorization server answers with a token: the client has
  authenticated, the key the token is bound to was shown, the code or refresh token was issued to
  this client for this server, and the token says no more than what was granted.
\<close>

lemmas effect_Inr = bindS_Inr catchS_Inr liftS_eq and_then_eq_Inr require_eq_Inr of_option_eq_Inr

lemma map_sum_eq_Inr [simp]: "map_sum f (\<lambda>x. x) m = Inr y \<longleftrightarrow> m = Inr y"
  by (cases m) auto

lemma map_sum_eq_unit [simp]: "map_sum f (\<lambda>x. ()) m = Inr () \<longleftrightarrow> m = Inr ()"
  by (cases m) auto

section \<open>Client authentication\<close>

lemma verifyWithCandidates_Inr:
  "verifyWithCandidates invalid test e ks w = (Inr x, w') \<Longrightarrow> \<exists>k \<in> set ks. \<exists>w1. test k w1 = (Inr x, w')"
  by (induction invalid test e ks w rule: verifyWithCandidates.induct) (auto split: prod.splits sum.splits if_splits)

lemma candidate_key:
  "k \<in> set (verificationKeyCandidates found alg kid) \<Longrightarrow>
     \<exists>vk \<in> set found. vkPublicKey vk = k \<and> vkAlgorithm vk = alg \<and> (kid = [] \<or> vkKeyID vk = kid)"
  by (auto simp: verificationKeyCandidates_def dest!: in_set_takeD)

lemma resolveClientKeys_Inr:
  assumes "resolveClientKeys s client purpose alg kid w = (Inr candidates, w')"
  shows "\<exists>found. sdClientKeys (svDeps s) client purpose alg kid w = (Inr found, w') \<and>
    candidates = verificationKeyCandidates found alg kid"
  using assms by (auto simp: resolveClientKeys_def bindS_Inr Let_def simp del: bindS_liftS split: if_splits)

lemma Assertion_Verify_Inr:
  assumes "Assertion_Verify C a pub policy (Some useOnce) w = (Inr v, w')"
  shows "verify_assertion C a pub policy = Inr v \<and>
    useOnce (acsJTI (asnClaims a)) (vdExpiresAt v + SaturatingAdd [avMaxClockSkew policy, avMaxClockSkew policy]) w = (Inr (), w')"
  using assms by (auto simp: Assertion_Verify_def bindS_Inr simp del: bindS_liftS)

text \<open>
  What a client showed, by each of the three methods: the signed assertion, the key of the client
  it verifies under, and its identifier recorded; the attestation, the proof of the attested key
  and its identifier recorded; the certificate and what of it the client registered.
\<close>

definition assertion_shown :: "'s server \<Rightarrow> string assoc \<Rightarrow> url option list \<Rightarrow> url option list \<Rightarrow> RegisteredClient
    \<Rightarrow> VerifiedAssertion \<Rightarrow> bool" where
  "assertion_shown s params endpoints mtlsEndpoints client verified \<longleftrightarrow>
     (\<exists>a found vk now w1 w2 w3 w4. let subject = acsSubject (asnClaims a); alg = hdAlgorithm (cmHeader (asnCompact a));
          policy = assertion_policy s client alg endpoints mtlsEndpoints now in
        ParseAssertion (sv_crypto s) (param params ''client_assertion'') = Inr a \<and>
        (param params ''client_id'' = [] \<or> param params ''client_id'' = subject) \<and>
        AllowsClientAuthMethod client ClientAuthMethodPrivateKeyJWT \<and>
        AllowsClientAssertionAlgorithm client alg \<and> alg \<in> set (scClientAssertionAlgs (svConfig s)) \<and>
        sdClientKeys (svDeps s) (rclID client) ClientAssertionVerification alg (hdKeyID (cmHeader (asnCompact a))) w1 = (Inr found, w2) \<and>
        vk \<in> set found \<and> vkAlgorithm vk = alg \<and>
        verify_assertion (sv_crypto s) a (vkPublicKey vk) policy = Inr verified \<and>
        clientSignedJWTReplayChecker s (rclID client) (acsJTI (asnClaims a))
          (vdExpiresAt verified + SaturatingAdd [avMaxClockSkew policy, avMaxClockSkew policy]) w3 = (Inr (), w4))"

definition attestation_shown :: "'s server \<Rightarrow> string \<Rightarrow> string \<Rightarrow> string \<Rightarrow> RegisteredClient \<Rightarrow> VerifiedAssertion \<Rightarrow> bool" where
  "attestation_shown s formClientID attestation pop client verified \<longleftrightarrow>
     (\<exists>a p signer alg va vp now now' w1 w2 w3 w4.
        ParseAttestation (sv_crypto s) attestation = Inr a \<and> ParsePoP (sv_crypto s) pop = Inr p \<and>
        (formClientID = [] \<or> formClientID = tcSubject (tnClaims a)) \<and>
        scAttestationAuth (svConfig s) \<and> AllowsClientAuthMethod client ClientAuthMethodAttestation \<and>
        rclAttestationAlgorithm client = Some alg \<and> alg \<in> set (scClientAttestationAlgs (svConfig s)) \<and>
        sdAttesterKey (svDeps s) client a w1 = (Inr signer, w2) \<and>
        Attestation_Verify (sv_crypto s) a (asKey signer) (attestation_policy s client alg now) = Inr va \<and>
        hdAlgorithm (cmHeader (pnCompact p)) \<in> set (scClientAttestationPoPAlgs (svConfig s)) \<and>
        verify_pop (sv_crypto s) p (vtConfirmationJWK va) (pop_policy s client now') = Inr vp \<and>
        clientAttestationPoPReplayChecker s (rclID client) (vqInstanceKey vp) (poJTI (pnClaims p))
          (vqIssuedAt vp + SaturatingAdd [ppMaxAge (pop_policy s client now'), ppMaxClockSkew (pop_policy s client now'),
             ppMaxClockSkew (pop_policy s client now')]) w3 = (Inr (), w4) \<and>
        verified = \<lparr>vdClientID = vqClientID vp, vdExpiresAt = vtExpiresAt va, vdInstanceKey = thumbprint_String (vqInstanceKey vp)\<rparr>)"

definition chained_match :: "'s server \<Rightarrow> RegisteredClient \<Rightarrow> certificate \<Rightarrow> bool \<Rightarrow> bool" where
  "chained_match s client cert fieldMatched \<longleftrightarrow>
     fieldMatched \<and> carriesRegisteredKey cert (rclCertificateKeyThumbprints client) \<and>
     (\<exists>now w w'. sdCertificateTrust (svDeps s) cert now w = (Inr (), w'))"

fun certificate_matches :: "'s server \<Rightarrow> RegisteredClient \<Rightarrow> certificate \<Rightarrow> ClientAuthMethod \<Rightarrow> bool" where
  "certificate_matches s client cert ClientAuthMethodSelfSignedTLSClientAuth =
     (certificate_thumbprint s cert \<in> set (ExpectedCertificateThumbprints client) \<and> certificate_thumbprint s cert \<noteq> [])"
| "certificate_matches s client cert ClientAuthMethodTLSClientAuth =
     chained_match s client cert (matchesRegisteredSubjectDN cert (rclSubjectDN client))"
| "certificate_matches s client cert ClientAuthMethodTLSClientAuthSANDNS =
     chained_match s client cert (rclSANDNS client \<in> set (xcDNSNames cert))"
| "certificate_matches s client cert ClientAuthMethodTLSClientAuthSANURI =
     chained_match s client cert (rclSANURI client \<in> set (xcURIs cert))"
| "certificate_matches s client cert ClientAuthMethodTLSClientAuthSANIP =
     chained_match s client cert (matchesRegisteredSANIP s cert (rclSANIP client))"
| "certificate_matches s client cert ClientAuthMethodTLSClientAuthSANEmail =
     chained_match s client cert (rclSANEmail client \<in> set (xcEmailAddresses cert))"
| "certificate_matches s client cert _ = False"

definition certificate_shown :: "'s server \<Rightarrow> string \<Rightarrow> certificate option \<Rightarrow> RegisteredClient \<Rightarrow> VerifiedAssertion \<Rightarrow> bool" where
  "certificate_shown s clientID peerCert client verified \<longleftrightarrow>
     clientID \<noteq> [] \<and> vdInstanceKey verified = [] \<and>
     (\<exists>cert m w w'. peerCert = Some cert \<and> sdResolveClient (svDeps s) clientID w = (Inr client, w') \<and>
        m \<in> set (rclClientAuthMethods client) \<and> certificate_matches s client cert m)"

lemma assertion_authenticates:
  assumes "authenticateClientViaAssertion s params endpoints mtlsEndpoints w = (Inr (client, verified), w')"
  shows "assertion_shown s params endpoints mtlsEndpoints client verified"
proof -
  from assms obtain a w1 w2 candidates w3 now w4 where
    parsed: "ParseAssertion (sv_crypto s) (param params ''client_assertion'') = Inr a" and
    named: "param params ''client_id'' = [] \<or> param params ''client_id'' = acsSubject (asnClaims a)" and
    allowed: "AllowsClientAuthMethod client ClientAuthMethodPrivateKeyJWT"
      "AllowsClientAssertionAlgorithm client (hdAlgorithm (cmHeader (asnCompact a)))"
      "hdAlgorithm (cmHeader (asnCompact a)) \<in> set (scClientAssertionAlgs (svConfig s))" and
    keys: "resolveClientKeys s (rclID client) ClientAssertionVerification (hdAlgorithm (cmHeader (asnCompact a)))
        (hdKeyID (cmHeader (asnCompact a))) w1 = (Inr candidates, w2)" and
    verifies: "verifyWithCandidates (\<lambda>e. e = AssertionJose ErrSignature)
          (\<lambda>pub. Assertion_Verify (sv_crypto s) a pub
             (assertion_policy s client (hdAlgorithm (cmHeader (asnCompact a))) endpoints mtlsEndpoints now)
             (Some (clientSignedJWTReplayChecker s (rclID client))))
          (AssertionJose ErrSignature) candidates w3 = (Inr verified, w4)"
    by (auto simp: authenticateClientViaAssertion_def Let_def bindS_Inr simp del: bindS_liftS)
  from verifyWithCandidates_Inr [OF verifies] obtain k w5 where k: "k \<in> set candidates"
      "verify_assertion (sv_crypto s) a k
        (assertion_policy s client (hdAlgorithm (cmHeader (asnCompact a))) endpoints mtlsEndpoints now) = Inr verified"
      "clientSignedJWTReplayChecker s (rclID client) (acsJTI (asnClaims a))
        (vdExpiresAt verified + SaturatingAdd [avMaxClockSkew (assertion_policy s client (hdAlgorithm (cmHeader (asnCompact a))) endpoints mtlsEndpoints now),
           avMaxClockSkew (assertion_policy s client (hdAlgorithm (cmHeader (asnCompact a))) endpoints mtlsEndpoints now)]) w5 = (Inr (), w4)"
    by (blast dest: Assertion_Verify_Inr)
  from resolveClientKeys_Inr [OF keys] k(1) obtain found vk where
    found: "sdClientKeys (svDeps s) (rclID client) ClientAssertionVerification (hdAlgorithm (cmHeader (asnCompact a)))
        (hdKeyID (cmHeader (asnCompact a))) w1 = (Inr found, w2)" "vk \<in> set found" "vkPublicKey vk = k"
      "vkAlgorithm vk = hdAlgorithm (cmHeader (asnCompact a))"
    using candidate_key by blast
  show ?thesis
    unfolding assertion_shown_def Let_def
    using parsed named allowed found k(2,3) by blast
qed

lemma verifyClientAttestation_Inr:
  assumes "verifyClientAttestation s client a w = (Inr (va, signer), w')"
  shows "\<exists>alg now w1. rclAttestationAlgorithm client = Some alg \<and> alg \<in> set (scClientAttestationAlgs (svConfig s)) \<and>
    sdAttesterKey (svDeps s) client a w = (Inr signer, w1) \<and>
    Attestation_Verify (sv_crypto s) a (asKey signer) (attestation_policy s client alg now) = Inr va"
  using assms by (auto simp: verifyClientAttestation_def bindS_Inr simp del: bindS_liftS)

lemma PoP_Verify_Inr:
  assumes "PoP_Verify C p jwk policy (Some useOnce) w = (Inr v, w')"
  shows "verify_pop C p jwk policy = Inr v \<and>
    useOnce (vqInstanceKey v) (poJTI (pnClaims p))
      (vqIssuedAt v + SaturatingAdd [ppMaxAge policy, ppMaxClockSkew policy, ppMaxClockSkew policy]) w = (Inr (), w')"
  using assms by (auto simp: PoP_Verify_def bindS_Inr simp del: bindS_liftS)

lemma attestation_authenticates:
  assumes "authenticateClientViaAttestation s formClientID attestation pop w = (Inr (client, verified), w')"
  shows "attestation_shown s formClientID attestation pop client verified"
proof -
  from assms obtain a p va signer w1 w2 w3 now w4 vp where
    parsed: "ParseAttestation (sv_crypto s) attestation = Inr a" "ParsePoP (sv_crypto s) pop = Inr p" and
    named: "formClientID = [] \<or> formClientID = tcSubject (tnClaims a)" and
    allowed: "scAttestationAuth (svConfig s)" "AllowsClientAuthMethod client ClientAuthMethodAttestation" and
    att: "verifyClientAttestation s client a w1 = (Inr (va, signer), w2)" and
    alg: "hdAlgorithm (cmHeader (pnCompact p)) \<in> set (scClientAttestationPoPAlgs (svConfig s))" and
    pop: "PoP_Verify (sv_crypto s) p (vtConfirmationJWK va) (pop_policy s client now)
          (Some (clientAttestationPoPReplayChecker s (rclID client))) w3 = (Inr vp, w4)" and
    v: "verified = \<lparr>vdClientID = vqClientID vp, vdExpiresAt = vtExpiresAt va, vdInstanceKey = thumbprint_String (vqInstanceKey vp)\<rparr>"
    by (auto simp: authenticateClientViaAttestation_def Let_def bindS_Inr simp del: bindS_liftS)
  show ?thesis
    unfolding attestation_shown_def
    using verifyClientAttestation_Inr [OF att] PoP_Verify_Inr [OF pop] parsed named allowed alg v by blast
qed

lemma verifyChainedFieldMatch_Inr:
  "verifyChainedFieldMatch s client cert matched w = (Inr u, w') \<Longrightarrow> chained_match s client cert matched"
  by (auto simp: verifyChainedFieldMatch_def chained_match_def checkChainsToRoot_def bindS_Inr simp del: bindS_liftS)

lemma verifyClientCertificateFor_Inr:
  assumes "verifyClientCertificateFor s m client cert = Some eff" "eff w = (Inr u, w')"
  shows "certificate_matches s client cert m"
  using assms
  by (cases m) (auto simp: matchesRegisteredThumbprint_def list_ex_iff matchesRegisteredSANDNS_def
      matchesRegisteredSANURI_def matchesRegisteredSANEmail_def dest!: verifyChainedFieldMatch_Inr)

lemma try_certificate_methods_Inr:
  "try_certificate_methods s client cert e ms w = (Inr u, w') \<Longrightarrow> \<exists>m \<in> set ms. certificate_matches s client cert m"
  by (induction s client cert e ms w rule: try_certificate_methods.induct)
    (auto split: option.splits prod.splits sum.splits dest: verifyClientCertificateFor_Inr)

lemma certificate_authenticates:
  assumes "authenticateClientViaCertificate s clientID peerCert w = (Inr (client, verified), w')" "clientID \<noteq> []"
  shows "certificate_shown s clientID peerCert client verified"
  using assms
  by (auto simp: authenticateClientViaCertificate_def certificate_shown_def resolve_client_def
      verifyClientCertificate_def bindS_Inr simp del: bindS_liftS dest!: try_certificate_methods_Inr)

text \<open>Which credentials the request carries decides which of the three it was.\<close>

definition client_shown :: "'s server \<Rightarrow> string assoc \<Rightarrow> requestCredentials \<Rightarrow> url option list \<Rightarrow> url option list
    \<Rightarrow> RegisteredClient \<Rightarrow> VerifiedAssertion \<Rightarrow> bool" where
  "client_shown s params creds endpoints mtlsEndpoints client verified \<longleftrightarrow>
     (case (rqcAttestations creds, rqcAttestationPoPs creds) of
        ([], []) \<Rightarrow>
          if param params ''client_assertion'' \<noteq> [] then assertion_shown s params endpoints mtlsEndpoints client verified
          else certificate_shown s (param params ''client_id'') (rqcPeerCertificate creds) client verified
      | ([attestation], [pop]) \<Rightarrow>
          if attestation \<noteq> [] \<or> pop \<noteq> [] then
            param params ''client_assertion'' = [] \<and> param params ''client_assertion_type'' = [] \<and>
            attestation_shown s (param params ''client_id'') attestation pop client verified
          else if param params ''client_assertion'' \<noteq> [] then assertion_shown s params endpoints mtlsEndpoints client verified
          else certificate_shown s (param params ''client_id'') (rqcPeerCertificate creds) client verified
      | _ \<Rightarrow> False)"

lemma authenticateClient_cases:
  assumes "authenticateClient s params peerCert attestation pop endpoints mtlsEndpoints w = (Inr (client, verified), w')"
  shows "if attestation \<noteq> [] \<or> pop \<noteq> [] then
      param params ''client_assertion'' = [] \<and> param params ''client_assertion_type'' = [] \<and>
      attestation_shown s (param params ''client_id'') attestation pop client verified
    else if param params ''client_assertion'' \<noteq> [] then assertion_shown s params endpoints mtlsEndpoints client verified
    else certificate_shown s (param params ''client_id'') peerCert client verified"
  using assms
  by (auto simp: authenticateClient_def Let_def split: if_splits
      dest: assertion_authenticates attestation_authenticates certificate_authenticates)

lemma resolveAttestationHeaders_Inr:
  assumes "resolveAttestationHeaders attestations pops = Inr (attestation, pop)"
  shows "attestations = [] \<and> pops = [] \<and> attestation = [] \<and> pop = [] \<or> attestations = [attestation] \<and> pops = [pop]"
  using assms by (auto simp: resolveAttestationHeaders_def split: if_splits list.splits)

lemma authenticateRequest_shown:
  assumes "authenticateRequest s params creds endpoints mtlsEndpoints w = (Inr (client, dpopProof, verified), w')"
  shows "client_shown s params creds endpoints mtlsEndpoints client verified \<and>
    ResolveHeaderValues (rqcDPoPProofs creds) = (dpopProof, True)"
proof -
  from assms obtain attestation pop w1 w2 where
    headers: "resolveAttestationHeaders (rqcAttestations creds) (rqcAttestationPoPs creds) = Inr (attestation, pop)" and
    proofs: "resolveDPoPProof (rqcDPoPProofs creds) = Inr dpopProof" and
    client: "authenticateClient s params (rqcPeerCertificate creds) attestation pop endpoints mtlsEndpoints w1 = (Inr (client, verified), w2)"
    by (auto simp: authenticateRequest_def bindS_Inr simp del: bindS_liftS)
  from resolveAttestationHeaders_Inr [OF headers] authenticateClient_cases [OF client] proofs
  show ?thesis
    by (auto simp: client_shown_def resolveDPoPProof_def split: prod.splits bool.splits)
qed

section \<open>The key of the token\<close>

definition key_shown :: "'s server \<Rightarrow> RegisteredClient \<Rightarrow> string \<Rightarrow> certificate option \<Rightarrow> string \<Rightarrow> bool" where
  "key_shown s client proof_text peerCert thumbprint \<longleftrightarrow>
     (if rclSenderConstrain client = SenderConstrainMTLS
      then \<exists>cert. peerCert = Some cert \<and> thumbprint = certificate_thumbprint s cert
      else \<exists>target now v. target \<in> {scTokenEndpoint (svConfig s), scMTLSTokenEndpoint (svConfig s)} \<and> proof_text \<noteq> [] \<and>
        verify_proof (sv_crypto s) (seParse (svEnv s)) (server_proof_request s proof_text now (url_value target)) = Inr v \<and>
        thumbprint = thumbprint_String (vpThumbprint v))"

lemma on_snd_Inr: "on_snd m rw = (x, rw') \<longleftrightarrow> (\<exists>w'. m (snd rw) = (x, w') \<and> rw' = (fst rw, w'))"
  by (cases rw) (simp add: on_snd_eq)

lemma verifyDPoPAtEitherEndpoint_Inr:
  assumes "verifyDPoPAtEitherEndpoint s proof_text now primary mtlsAlias w = (Inr v, w')"
  shows "\<exists>target \<in> {primary, mtlsAlias}.
    verify_proof (sv_crypto s) (seParse (svEnv s)) (server_proof_request s proof_text now (url_value target)) = Inr v"
  using assms dpop_Verify_proof
  by (fastforce simp: verifyDPoPAtEitherEndpoint_def Let_def split: prod.splits sum.splits if_splits)

lemma verifyTokenRequestBinding_shown:
  assumes "verifyTokenRequestBinding s client proof_text peerCert rw = (Inr thumbprint, rw')"
  shows "key_shown s client proof_text peerCert thumbprint"
proof (cases "rclSenderConstrain client = SenderConstrainMTLS")
  case True
  with assms show ?thesis
    by (auto simp: verifyTokenRequestBinding_def key_shown_def split: option.splits)
next
  case False
  with assms obtain v rw1 where v: "verifyTokenRequestDPoP s proof_text rw = (Inr v, rw1)"
      "thumbprint = thumbprint_String (vpThumbprint v)"
    by (auto simp: verifyTokenRequestBinding_def bindS_Inr)
  from v(1) obtain now w w' where "proof_text \<noteq> []"
      "verifyDPoPAtEitherEndpoint s proof_text now (scTokenEndpoint (svConfig s)) (scMTLSTokenEndpoint (svConfig s)) w = (Inr v, w')"
    by (auto simp: verifyTokenRequestDPoP_def bindS_Inr on_snd_Inr simp del: bindS_liftS)
  with verifyDPoPAtEitherEndpoint_Inr v(2) False show ?thesis
    unfolding key_shown_def by (metis (no_types, lifting))
qed

section \<open>What a token says\<close>

definition token_issued :: "'s server \<Rightarrow> access_token_params \<Rightarrow> string \<Rightarrow> bool" where
  "token_issued s p tok \<longleftrightarrow> (\<exists>key w w'. sdAccessTokens (svDeps s) p w = (Inr (tok, key), w'))"

lemma server_issueAccessToken_issued:
  "server_issueAccessToken s p w = (Inr (tok, key), w') \<Longrightarrow> token_issued s p tok"
  by (auto simp: server_issueAccessToken_def token_issued_def bindS_Inr and_then_eq_Inr simp del: bindS_liftS)

text \<open>Nothing is added when resources are narrowed.\<close>

lemma narrow_each_subset:
  "narrow_each granted narrowed rs = Inr xs \<Longrightarrow> set narrowed \<subseteq> set granted \<Longrightarrow>
     set xs \<subseteq> set granted \<and> (narrowed @ rs \<noteq> [] \<longrightarrow> xs \<noteq> [])"
  by (induction granted narrowed rs rule: narrow_each.induct) (auto split: if_splits)

lemma narrowResources_subset:
  assumes "narrowResources granted requested = Inr xs"
  shows "set xs \<subseteq> set granted \<and> (granted \<noteq> [] \<longrightarrow> xs \<noteq> [])"
  using assms narrow_each_subset [of granted "[]" requested xs] by (auto simp: narrowResources_def split: if_splits)

lemma collect_resources_set:
  "collect_resources s client resources unlisted rs = Inr (xs, us) \<Longrightarrow> set xs = set resources \<union> set rs"
  by (induction s client resources unlisted rs rule: collect_resources.induct) (auto split: if_splits)

lemma checkRequestedResources_same:
  assumes "checkRequestedResources s client requested w = (Inr xs, w')" "requested \<noteq> []"
  shows "set xs = set requested"
  using assms
  by (auto simp: checkRequestedResources_def bindS_Inr simp del: bindS_liftS split: if_splits option.splits
      dest: collect_resources_set)

text \<open>A token of a grant names no resource the grant does not, where the grant names any.\<close>

definition within_resources :: "'s server \<Rightarrow> grantRecord \<Rightarrow> string \<Rightarrow> string list \<Rightarrow> bool" where
  "within_resources s g audience audiences \<longleftrightarrow>
     (gnResources g \<noteq> [] \<longrightarrow> audiences \<noteq> [] \<and> set audiences \<subseteq> set (gnResources g)) \<and>
     audience = (case audiences of [] \<Rightarrow> sv_issuer s | r # _ \<Rightarrow> r)"

lemma server_accessTokenAudience_eq:
  "server_accessTokenAudience s rs = (audience, audiences) \<longleftrightarrow>
     audiences = rs \<and> audience = (case rs of [] \<Rightarrow> sv_issuer s | r # _ \<Rightarrow> r)"
  by (auto simp: server_accessTokenAudience_def split: list.splits)

lemma narrowedAudience_within:
  assumes "narrowedAudience s client (gnResources g) requested w = (Inr (audience, audiences), w')"
  shows "within_resources s g audience audiences"
proof -
  from assms obtain narrowed w1 where "narrowResources (gnResources g) requested = Inr narrowed"
      "checkRequestedResources s client narrowed w1 = (Inr audiences, w')"
      "audience = (case audiences of [] \<Rightarrow> sv_issuer s | r # _ \<Rightarrow> r)"
    by (auto simp: narrowedAudience_def bindS_Inr server_accessTokenAudience_eq simp del: bindS_liftS)
  with narrowResources_subset checkRequestedResources_same show ?thesis
    unfolding within_resources_def by (metis set_empty subset_empty)
qed

text \<open>Nor authorization details it was not asked to keep: they are the grant's, or narrowed from them.\<close>

definition within_details :: "'s server \<Rightarrow> grantRecord \<Rightarrow> json list option \<Rightarrow> grantRecord \<Rightarrow> bool" where
  "within_details s g requested g' \<longleftrightarrow>
     (case requested of
        None \<Rightarrow> g' = g
      | Some [] \<Rightarrow> g' = g\<lparr>gnAuthorizationDetails := None\<rparr>
      | Some objects \<Rightarrow>
          \<exists>r details granted narrowed. scRAR (svConfig s) = Some r \<and> gnAuthorizationDetails g = Some details \<and>
            rar_parse r (rrSize r details) True (Some details) False = Inr granted \<and>
            rar_parse r (rrSize r (JArr objects)) True (Some (JArr objects)) False = Inr narrowed \<and>
            rar_ValidateNarrowing r granted narrowed = Inr () \<and>
            g' = g\<lparr>gnAuthorizationDetails := Some (JArr objects)\<rparr>)"

lemma accessTokenGrant_within:
  assumes "accessTokenGrant s g requested = Inr g'"
  shows "within_details s g requested g'"
  using assms
  by (auto simp: accessTokenGrant_def within_details_def validateNarrowedAuthorizationDetails_def
      checkAuthorizationDetailsSubset_def and_then_eq_Inr of_option_eq_Inr Let_def
      split: option.splits list.splits if_splits)

lemma allowedGrantAudience_within:
  assumes "allowedGrantAudience s client g scope details requested w = (Inr (g', audience, audiences), w')"
  shows "within_resources s g audience audiences \<and> within_details s g details g' \<and>
    (\<forall>sc \<in> set scope. clientAllowsScope s client sc)"
proof -
  from assms obtain w1 w2 where "checkGrantStillAllowed s client g scope = Inr ()"
      "accessTokenGrant s g details = Inr g'"
      "narrowedAudience s client (gnResources g) requested w1 = (Inr (audience, audiences), w2)"
    by (auto simp: allowedGrantAudience_def narrowedAccessGrant_def bindS_Inr simp del: bindS_liftS)
  then show ?thesis
    using narrowedAudience_within accessTokenGrant_within
    by (auto simp: checkGrantStillAllowed_def and_then_eq_Inr check_all_Inr require_eq_Inr)
qed

section \<open>Requests\<close>

lemma failing_Inr [simp]: "failing c attach m w = (Inr x, w') \<longleftrightarrow> m w = (Inr x, w')"
  by (simp add: failing_def)

lemma token_handler_Inr:
  "token_handler s event body rw = (Inr result, rw') \<Longrightarrow> \<exists>client rw1. body rw = (Inr (client, result), rw1)"
  by (auto simp: token_handler_def Let_def apfst_def map_prod_def split: prod.splits sum.splits option.splits)

text \<open>What is known of a token request whose client authenticated.\<close>

definition request_begun :: "'s server \<Rightarrow> string \<Rightarrow> FormParameter list \<Rightarrow> requestCredentials \<Rightarrow> url option list \<Rightarrow> url option list
    \<Rightarrow> token_request \<Rightarrow> bool" where
  "request_begun s grantType parameters creds endpoints mtlsEndpoints q \<longleftrightarrow>
     formParametersToMap (fst (takeResourceParameters s parameters)) = Inr (tqParams q) \<and>
     tqResources q = snd (takeResourceParameters s parameters) \<and>
     param (tqParams q) ''grant_type'' = grantType \<and>
     (\<exists>verified. client_shown s (tqParams q) creds endpoints mtlsEndpoints (tqClient q) verified \<and>
        tqInstanceKey q = vdInstanceKey verified)"

lemma begin_token_request_begun:
  assumes "begin_token_request s grantType parameters creds endpoints mtlsEndpoints rw = (Inr q, rw')"
  shows "request_begun s grantType parameters creds endpoints mtlsEndpoints q"
  using assms
  by (auto simp: begin_token_request_def request_begun_def bindS_Inr on_snd_Inr Let_def simp del: bindS_liftS
      split: prod.splits dest!: authenticateRequest_shown)

section \<open>Authorization codes\<close>

lemma redeem_code_Inr:
  "redeem_code s client codeHash w = (Inr redeemed, w') \<Longrightarrow>
     gtRedeemCode (sdGrants (svDeps s)) \<lparr>crCodeHash = codeHash, crClientID = rclID client\<rparr> w = (Inr redeemed, w')"
  by (auto simp: redeem_code_def Let_def split: prod.splits sum.splits)

text \<open>A redeemed code that is this server's, this client's, unexpired, and presented as it was asked for.\<close>

definition code_matches :: "'s server \<Rightarrow> RegisteredClient \<Rightarrow> RedeemedGrant \<Rightarrow> code_request \<Rightarrow> string \<Rightarrow> string \<Rightarrow> time \<Rightarrow> grantRecord \<Rightarrow> bool" where
  "code_matches s client redeemed presented thumbprint instanceKey now g \<longleftrightarrow>
     decodeOwnGrantRecord s (rgGrant redeemed) = Inr g \<and> gnKind g = grantKindAuthorizationCode \<and>
     rgClientID redeemed = rclID client \<and> now < rgExpiresAt redeemed \<and>
     issuedWithin (gnIssuedAt g) (slAuthorizationCodeLifetime (sv_limits s)) now \<and>
     gnRedirectURI g = cqRedirectURI presented \<and>
     HasRedirectURI (seParse (svEnv s)) (seLoopback (svEnv s)) client (cqRedirectURI presented) \<and>
     gnDPoPJKT g \<in> {[], thumbprint} \<and> gnClientInstanceKey g = instanceKey \<and>
     pkce_Verify (sv_crypto s) (gnCodeChallenge g) S256 (cqCodeVerifier presented) = Inr ()"

definition with_code_grant :: "'s server \<Rightarrow> bytes \<Rightarrow> grantRecord \<Rightarrow> grantRecord" where
  "with_code_grant s codeHash g =
     (if grantRevocationReader s \<noteq> None then g\<lparr>gnCodeGrantID := CodeGrantID (sv_crypto s) codeHash\<rparr> else g)"

lemma with_code_grant_fields [simp]:
  "gnKind (with_code_grant s h g) = gnKind g" "gnIssuedAt (with_code_grant s h g) = gnIssuedAt g"
  "gnRedirectURI (with_code_grant s h g) = gnRedirectURI g" "gnDPoPJKT (with_code_grant s h g) = gnDPoPJKT g"
  "gnClientInstanceKey (with_code_grant s h g) = gnClientInstanceKey g"
  "gnCodeChallenge (with_code_grant s h g) = gnCodeChallenge g" "gnScope (with_code_grant s h g) = gnScope g"
  "gnResources (with_code_grant s h g) = gnResources g"
  "gnAuthorizationDetails (with_code_grant s h g) = gnAuthorizationDetails g"
  "accessTokenSubjects (with_code_grant s h g) = accessTokenSubjects g"
  by (simp_all add: with_code_grant_def accessTokenSubjects_def)

lemma redeemedCodeGrant_matches:
  assumes "redeemedCodeGrant s client redeemed codeHash presented thumbprint instanceKey now w = (Inr g', w')"
  shows "\<exists>g. code_matches s client redeemed presented thumbprint instanceKey now g \<and> g' = with_code_grant s codeHash g \<and>
    (\<exists>w1. server_checkGrantNotRevoked s g' w1 = (Inr (), w'))"
proof -
  from assms obtain g where g: "decodeOwnGrantRecord s (rgGrant redeemed) = Inr g" "isKind g grantKindAuthorizationCode"
    and g': "g' = with_code_grant s codeHash g"
    and rest: "issuedWithin (gnIssuedAt g') (slAuthorizationCodeLifetime (sv_limits s)) now"
      "validateRedeemedAuthorizationCode (sv_crypto s) redeemed g' (rclID client) presented thumbprint now = Inr ()"
      "checkCodeInstance g' instanceKey = Inr ()" "\<exists>w1. server_checkGrantNotRevoked s g' w1 = (Inr (), w')"
      "HasRedirectURI (seParse (svEnv s)) (seLoopback (svEnv s)) client (cqRedirectURI presented)"
    unfolding with_code_grant_def [symmetric] redeemedCodeGrant_def Let_def
    by (auto simp: bindS_Inr simp del: bindS_liftS)
  from g(2) have "gnKind g = grantKindAuthorizationCode"
    by (auto simp: isKind_def split: if_splits)
  with g(1) g' rest show ?thesis
    by (auto simp: code_matches_def validateRedeemedAuthorizationCode_def checkCodeInstance_def and_then_eq_Inr require_eq_Inr)
qed

lemma issueCodeExchangeTokens_issued:
  assumes "issueCodeExchangeTokens s client g p binding codeHash w = (Inr (tok, idToken, refreshToken), w')"
  shows "token_issued s p tok"
  using assms server_issueAccessToken_issued
  by (fastforce simp: issueCodeExchangeTokens_def Let_def bindS_Inr simp del: bindS_liftS split: option.splits if_splits)

text \<open>
  C1. A token comes out of the authorization code grant only for a client that authenticated, in the
  way its registration allows, and that showed the key the token is bound to; for a code that was
  redeemed for this client, unexpired, decoded as a code of this server, presented with the redirect
  URI, the PKCE verifier and the client instance it was issued for; and the token says no more than
  the code's grant: its scope, its subject, at most its resources and its authorization details.
\<close>

theorem code_exchange_sound:
  assumes "ExchangeAuthorizationCode s parameters creds rw = (Inr result, rw')"
  shows "\<exists>q presented thumbprint redeemed g g' p now w w'.
    request_begun s ''authorization_code'' parameters creds [] [] q \<and>
    codeExchangeParameters s (tqParams q) = Inr presented \<and>
    key_shown s (tqClient q) (tqProof q) (rqcPeerCertificate creds) thumbprint \<and>
    gtRedeemCode (sdGrants (svDeps s))
      \<lparr>crCodeHash = presented_code_hash s q presented, crClientID = rclID (tqClient q)\<rparr> w = (Inr redeemed, w') \<and>
    code_matches s (tqClient q) redeemed presented thumbprint (tqInstanceKey q) now g \<and>
    within_details s (with_code_grant s (presented_code_hash s q presented) g) (cqDetails presented) g' \<and>
    token_issued s p (trAccessToken result) \<and>
    atpClientID p = rclID (tqClient q) \<and> atpThumbprint p = thumbprint \<and> atpNow p = now \<and>
    atpScope p = gnScope g \<and> trScope result = join_space (gnScope g) \<and>
    (\<forall>sc \<in> set (gnScope g). clientAllowsScope s (tqClient q) sc) \<and>
    (atpSubject p, atpInternalSubject p) = accessTokenSubjects g \<and>
    atpClaims p = accessTokenClaims g' \<and> trAuthorizationDetails result = gnAuthorizationDetails g' \<and>
    within_resources s g (atpAudience p) (atpAudiences p)"
proof -
  from assms obtain client rw1 where "code_exchange s parameters creds rw = (Inr (client, result), rw1)"
    unfolding ExchangeAuthorizationCode_def using token_handler_Inr by blast
  then obtain q presented thumbprint rw2 where
    "code_exchange_begin s parameters creds rw = (Inr (q, presented, thumbprint), rw2)" and
    fin: "code_exchange_finish s q presented thumbprint rw2 = (Inr (client, result), rw1)"
    by (auto simp: code_exchange_def bindS_Inr)
  then have begun: "request_begun s ''authorization_code'' parameters creds [] [] q"
      "codeExchangeParameters s (tqParams q) = Inr presented"
      "key_shown s (tqClient q) (tqProof q) (rqcPeerCertificate creds) thumbprint"
    by (auto simp: code_exchange_begin_def bindS_Inr simp del: bindS_liftS
        dest: begin_token_request_begun verifyTokenRequestBinding_shown)
  let ?h = "presented_code_hash s q presented"
  from fin obtain redeemed now h g' audience audiences tok idToken refreshToken nonce w w1 w2 w3 w4 w5 w6 w7 where
    redeemed: "redeem_code s (tqClient q) ?h w = (Inr redeemed, w1)" and
    grant: "redeemedCodeGrant s (tqClient q) redeemed ?h presented thumbprint (tqInstanceKey q) now w2 = (Inr h, w3)" and
    allowed: "allowedGrantAudience s (tqClient q) h (gnScope h) (cqDetails presented) (tqResources q) w4
      = (Inr (g', audience, audiences), w5)" and
    issued: "issueCodeExchangeTokens s (tqClient q) h
      (grant_token_params s (tqClient q) h g' (gnScope h) thumbprint audience audiences now)
      \<lparr>rbThumbprint = thumbprint, rbInstanceKey = tqInstanceKey q\<rparr> ?h w6 = (Inr (tok, idToken, refreshToken), w7)" and
    result: "result = token_result s (tqClient q) (gnScope h) (gnAuthorizationDetails g') tok idToken refreshToken nonce"
    by (auto simp: code_exchange_finish_def code_exchange_tokens_def Let_def bindS_Inr on_snd_Inr simp del: bindS_liftS)
  from redeemedCodeGrant_matches [OF grant] obtain g where
    g: "code_matches s (tqClient q) redeemed presented thumbprint (tqInstanceKey q) now g" "h = with_code_grant s ?h g"
    by blast
  let ?p = "grant_token_params s (tqClient q) h g' (gnScope h) thumbprint audience audiences now"
  have p: "token_issued s ?p (trAccessToken result)" "atpClientID ?p = rclID (tqClient q)" "atpThumbprint ?p = thumbprint"
      "atpNow ?p = now" "atpScope ?p = gnScope g" "trScope result = join_space (gnScope g)"
      "(atpSubject ?p, atpInternalSubject ?p) = accessTokenSubjects g" "atpClaims ?p = accessTokenClaims g'"
      "trAuthorizationDetails result = gnAuthorizationDetails g'"
    using issueCodeExchangeTokens_issued [OF issued] by (simp_all add: grant_token_params_def token_result_def result g(2))
  have within: "within_details s h (cqDetails presented) g'" "\<forall>sc \<in> set (gnScope g). clientAllowsScope s (tqClient q) sc"
      "within_resources s g (atpAudience ?p) (atpAudiences ?p)"
    using allowedGrantAudience_within [OF allowed] by (simp_all add: grant_token_params_def within_resources_def g(2))
  show ?thesis
    using begun redeem_code_Inr [OF redeemed] g(1) within(1) [unfolded g(2)] p within(2,3) by blast
qed

section \<open>Refresh tokens\<close>

definition refresh_matches :: "'s server \<Rightarrow> RegisteredClient \<Rightarrow> RedeemedGrant \<Rightarrow> string \<Rightarrow> time \<Rightarrow> grantRecord \<Rightarrow> bool" where
  "refresh_matches s client redeemed instanceKey now g \<longleftrightarrow>
     decodeOwnGrantRecord s (rgGrant redeemed) = Inr g \<and> isKind g grantKindRefreshToken \<and>
     rgClientID redeemed = rclID client \<and> now < rgExpiresAt redeemed \<and>
     issuedWithin (gnIssuedAt g) (slRefreshTokenLifetime (sv_limits s)) now \<and>
     gnClientInstanceKey g = instanceKey \<and> checkGrantTypeStillAllowed s client g = Inr ()"

lemma redeemRefreshGrantFor_matches:
  assumes "redeemRefreshGrantFor s client instanceKey rawToken w = (Inr (g, now), w')"
  shows "\<exists>redeemed w1 w2. gtRedeemRefresh (sdGrants (svDeps s)) (sha256 (sv_crypto s) (string_bytes rawToken)) w = (Inr redeemed, w1) \<and>
    refresh_matches s client redeemed instanceKey now g \<and> server_checkGrantNotRevoked s g w2 = (Inr (), w')"
  using assms
  by (auto simp: redeemRefreshGrantFor_def redeemRefreshGrant_def refresh_matches_def checkRefreshInstance_def bindS_Inr
      simp del: bindS_liftS split: if_splits)

text \<open>The scopes of a refreshed token are the grant's, or words of it that the request named.\<close>

lemma refreshScope_within:
  assumes "refreshScope params g client = Inr scope"
  shows "scope = gnScope g \<or> set scope \<subseteq> set (strings_Fields (join_space (gnScope g)))"
  using assms
  by (auto simp: refreshScope_def validateGrantedScopeSubset_def and_then_eq_Inr check_all_Inr require_eq_Inr Let_def
      split: if_splits)

text \<open>
  C7. A refreshed token is issued only to the client the refresh token was issued to, authenticated
  again and as the same instance. It is bound to the key that this request shows:
  the refresh token itself is bound to no key. It never says more than the grant: its scope
  is the grant's or a part of it, its resources and authorization details are within the grant's,
  its subject is the same. The refresh token stays as it was, whatever the token was narrowed to.
\<close>

theorem refresh_never_widens:
  assumes "RefreshAccessToken s parameters creds rw = (Inr result, rw')"
  shows "\<exists>q details thumbprint redeemed g g' scope p now rawToken w w'.
    request_begun s ''refresh_token'' parameters creds [scTokenEndpoint (svConfig s)] [scMTLSTokenEndpoint (svConfig s)] q \<and>
    refreshParameters s (tqParams q) = Inr (rawToken, details) \<and>
    key_shown s (tqClient q) (tqProof q) (rqcPeerCertificate creds) thumbprint \<and>
    gtRedeemRefresh (sdGrants (svDeps s)) (sha256 (sv_crypto s) (string_bytes rawToken)) w = (Inr redeemed, w') \<and>
    refresh_matches s (tqClient q) redeemed (tqInstanceKey q) now g \<and>
    within_details s g details g' \<and>
    (scope = gnScope g \<or> set scope \<subseteq> set (strings_Fields (join_space (gnScope g)))) \<and>
    token_issued s p (trAccessToken result) \<and>
    atpClientID p = rclID (tqClient q) \<and> atpThumbprint p = thumbprint \<and> atpNow p = now \<and>
    atpScope p = scope \<and> trScope result = join_space scope \<and>
    (\<forall>sc \<in> set scope. clientAllowsScope s (tqClient q) sc) \<and>
    (atpSubject p, atpInternalSubject p) = accessTokenSubjects g \<and>
    atpClaims p = accessTokenClaims g' \<and> trAuthorizationDetails result = gnAuthorizationDetails g' \<and>
    within_resources s g (atpAudience p) (atpAudiences p) \<and>
    trRefreshToken result = Some rawToken"
proof -
  from assms obtain client rw1 where "refresh_exchange s parameters creds rw = (Inr (client, result), rw1)"
    unfolding RefreshAccessToken_def using token_handler_Inr by blast
  then obtain q rawToken details thumbprint g now scope g' audience audiences tok key idToken nonce
      rw2 rw3 rw4 w1 w2 w3 w4 w5 w6 where
    begun: "begin_token_request s ''refresh_token'' parameters creds
      [scTokenEndpoint (svConfig s)] [scMTLSTokenEndpoint (svConfig s)] rw = (Inr q, rw2)"
      "refreshParameters s (tqParams q) = Inr (rawToken, details)"
      "verifyTokenRequestBinding s (tqClient q) (tqProof q) (rqcPeerCertificate creds) rw3 = (Inr thumbprint, rw4)" and
    redeemed: "redeemRefreshGrantFor s (tqClient q) (tqInstanceKey q) rawToken w1 = (Inr (g, now), w2)" and
    scope: "refreshScope (tqParams q) g (tqClient q) = Inr scope" and
    allowed: "allowedGrantAudience s (tqClient q) g scope details (tqResources q) w3 = (Inr (g', audience, audiences), w4)" and
    issued: "server_issueAccessToken s (grant_token_params s (tqClient q) g g' scope thumbprint audience audiences now) w5
      = (Inr (tok, key), w6)" and
    result: "result = token_result s (tqClient q) scope (gnAuthorizationDetails g') tok idToken (Some rawToken) nonce"
    by (auto simp: refresh_exchange_def Let_def bindS_Inr on_snd_Inr simp del: bindS_liftS)
  let ?p = "grant_token_params s (tqClient q) g g' scope thumbprint audience audiences now"
  have p: "token_issued s ?p (trAccessToken result)" "atpClientID ?p = rclID (tqClient q)" "atpThumbprint ?p = thumbprint"
      "atpNow ?p = now" "atpScope ?p = scope" "trScope result = join_space scope"
      "(atpSubject ?p, atpInternalSubject ?p) = accessTokenSubjects g" "atpClaims ?p = accessTokenClaims g'"
      "trAuthorizationDetails result = gnAuthorizationDetails g'" "trRefreshToken result = Some rawToken"
    using server_issueAccessToken_issued [OF issued] by (simp_all add: grant_token_params_def token_result_def result)
  have within: "within_details s g details g'" "\<forall>sc \<in> set scope. clientAllowsScope s (tqClient q) sc"
      "within_resources s g (atpAudience ?p) (atpAudiences ?p)"
    using allowedGrantAudience_within [OF allowed] by (simp_all add: grant_token_params_def)
  from redeemRefreshGrantFor_matches [OF redeemed] obtain r w7 where
    "gtRedeemRefresh (sdGrants (svDeps s)) (sha256 (sv_crypto s) (string_bytes rawToken)) w1 = (Inr r, w7)"
    "refresh_matches s (tqClient q) r (tqInstanceKey q) now g"
    by blast
  then show ?thesis
    using begin_token_request_begun [OF begun(1)] begun(2) verifyTokenRequestBinding_shown [OF begun(3)]
      within p refreshScope_within [OF scope] by blast
qed

end
