(* ===== verification/Server_Once.thy ===== *)
theory Server_Once
  imports Server_Sound Memstore_Grants
begin

text \<open>
  What the handlers of the token endpoint leave as it is. A property of the dependencies' state that
  every dependency keeps is kept by the handlers, since they change the state by calling
  dependencies only; so a code that a store has spent stays spent, and one that issues tokens once.
\<close>

section \<open>Properties that effects keep\<close>

definition keeps :: "('s \<Rightarrow> bool) \<Rightarrow> ('s, 'e, 'a) effect \<Rightarrow> bool" where
  "keeps P m \<longleftrightarrow> (\<forall>w. P w \<longrightarrow> P (snd (m w)))"

lemma keepsD: "keeps P m \<Longrightarrow> P w \<Longrightarrow> m w = (x, w') \<Longrightarrow> P w'"
  unfolding keeps_def by (metis snd_conv)

named_theorems keeps_intros \<open>effects that keep what their parts keep\<close>

lemma keeps_liftS [keeps_intros]: "keeps P (liftS r)"
  by (simp add: keeps_def liftS_def)

lemma keeps_bindS [keeps_intros]: "keeps P m \<Longrightarrow> (\<And>x. keeps P (f x)) \<Longrightarrow> keeps P (bindS m f)"
  by (auto simp: keeps_def bindS_def split: prod.splits sum.splits)

lemma keeps_catchS [keeps_intros]: "keeps P m \<Longrightarrow> keeps P (catchS h m)"
  by (auto simp: keeps_def catchS_def split: prod.splits sum.splits)

lemma keeps_on_snd [keeps_intros]: "keeps P m \<Longrightarrow> keeps (\<lambda>rw. P (snd rw)) (on_snd m)"
  by (auto simp: keeps_def on_snd_def split: prod.splits)

lemma keeps_failing [keeps_intros]: "keeps P m \<Longrightarrow> keeps P (failing c a m)"
  by (simp add: failing_def keeps_catchS)

lemma keeps_attempt [keeps_intros]: "keeps P m \<Longrightarrow> keeps P (attempt m)"
  by (simp add: keeps_def attempt_def)

lemma keeps_if [keeps_intros]: "(b \<Longrightarrow> keeps P m) \<Longrightarrow> (\<not> b \<Longrightarrow> keeps P n) \<Longrightarrow> keeps P (if b then m else n)"
  by simp

lemma keeps_prod [keeps_intros]: "(\<And>a b. keeps P (f a b)) \<Longrightarrow> keeps P (case p of (a, b) \<Rightarrow> f a b)"
  by (cases p) simp

lemma keeps_option [keeps_intros]:
  "keeps P m \<Longrightarrow> (\<And>x. v = Some x \<Longrightarrow> keeps P (f x)) \<Longrightarrow> keeps P (case v of None \<Rightarrow> m | Some x \<Rightarrow> f x)"
  by (cases v) simp_all

lemma keeps_list [keeps_intros]:
  "keeps P m \<Longrightarrow> (\<And>x xs. keeps P (f x xs)) \<Longrightarrow> keeps P (case v of [] \<Rightarrow> m | x # xs \<Rightarrow> f x xs)"
  by (cases v) simp_all

lemma keeps_Let [keeps_intros]: "(\<And>x. keeps P (f x)) \<Longrightarrow> keeps P (Let v f)"
  by simp

section \<open>Dependencies that keep a property\<close>

definition nonces_keep :: "('s \<Rightarrow> bool) \<Rightarrow> 's nonce_store \<Rightarrow> bool" where
  "nonces_keep P n \<longleftrightarrow> (\<forall>x t. keeps P (nsIssue n x t)) \<and> (\<forall>x. keeps P (nsLookup n x))"

definition grants_keep :: "('s \<Rightarrow> bool) \<Rightarrow> 's grant_store \<Rightarrow> bool" where
  "grants_keep P g \<longleftrightarrow>
     (\<forall>r. keeps P (gtRedeemCode g r)) \<and> (\<forall>h k t. keeps P (gtRecordAccess g h k t)) \<and>
     (\<forall>h k t. keeps P (gtRecordRefresh g h k t)) \<and>
     (\<forall>f \<in> set_option (gtRecordTokens g). \<forall>h k t k' t'. keeps P (f h k t k' t')) \<and>
     (\<forall>t. keeps P (gtCreateRefresh g t)) \<and> (\<forall>h. keeps P (gtRedeemRefresh g h)) \<and> (\<forall>h. keeps P (gtRevokeRefresh g h))"

definition revocation_keeps :: "('s \<Rightarrow> bool) \<Rightarrow> 's revocation_sink \<Rightarrow> bool" where
  "revocation_keeps P r \<longleftrightarrow>
     (\<forall>k t. keeps P (rvRevoke r k t)) \<and>
     (\<forall>reader \<in> set_option (rvReader r). (\<forall>k. keeps P (rvIsRevoked reader k)) \<and>
        (\<forall>f \<in> set_option (rvIsAnyRevoked reader). \<forall>ks. keeps P (f ks)))"

text \<open>Those that even a refused request may call: the clock, the random source, the audit, the nonces.\<close>

definition deps_quiet :: "('s \<Rightarrow> bool) \<Rightarrow> 's server_deps \<Rightarrow> bool" where
  "deps_quiet P d \<longleftrightarrow>
     (\<forall>w. P w \<longrightarrow> P (snd (sdNow d w))) \<and> (\<forall>n w. P w \<longrightarrow> P (snd (sdRandom d n w))) \<and>
     (\<forall>f \<in> set_option (sdAudit d). \<forall>e w. P w \<longrightarrow> P (f e w)) \<and>
     (\<forall>n \<in> set_option (sdNonces d). nonces_keep P n)"

definition deps_keep :: "('s \<Rightarrow> bool) \<Rightarrow> 's server_deps \<Rightarrow> bool" where
  "deps_keep P d \<longleftrightarrow> deps_quiet P d \<and>
     (\<forall>c. keeps P (sdResolveClient d c)) \<and> (\<forall>u. keeps P (sdReplay d u)) \<and>
     (\<forall>c p a k. keeps P (sdClientKeys d c p a k)) \<and> (\<forall>c a. keeps P (sdAttesterKey d c a)) \<and>
     (\<forall>c t. keeps P (sdCheckRevocation d c t)) \<and>
     (\<forall>f \<in> set_option (sdAttestationStatus d). \<forall>v. keeps P (f v)) \<and>
     (\<forall>c t. keeps P (sdCertificateTrust d c t)) \<and>
     grants_keep P (sdGrants d) \<and> revocation_keeps P (sdRevocation d) \<and>
     (\<forall>p. keeps P (sdAccessTokens d p)) \<and> (\<forall>p a. keeps P (sdSigner d p a)) \<and>
     (\<forall>c a. keeps P (sdEncryptionKeys d c a)) \<and> (\<forall>a e k t. keeps P (sdEncrypt d a e k t)) \<and>
     (\<forall>f \<in> set_option (sdIdentityClaims d). \<forall>x ns. keeps P (f x ns)) \<and>
     (\<forall>f \<in> set_option (sdResourcePolicy d). \<forall>c rs. keeps P (f c rs)) \<and>
     (\<forall>f \<in> set_option (sdClientCredentialsRAR d). \<forall>c os. keeps P (f c os))"

lemma deps_keep_quiet: "deps_keep P d \<Longrightarrow> deps_quiet P d"
  by (simp add: deps_keep_def)

lemma deps_quietD:
  assumes "deps_quiet P (svDeps s)"
  shows "P w \<Longrightarrow> P (snd (sdNow (svDeps s) w))" "P w \<Longrightarrow> P (snd (sdRandom (svDeps s) n w))"
    "sdAudit (svDeps s) = Some fa \<Longrightarrow> P w \<Longrightarrow> P (fa e w)"
  using assms by (simp_all add: deps_quiet_def)

lemma deps_quiet_step:
  assumes "deps_quiet P (svDeps s)"
  shows "sdNow (svDeps s) w = (t, w') \<Longrightarrow> P w \<Longrightarrow> P w'" "sdRandom (svDeps s) n w = (bs, w') \<Longrightarrow> P w \<Longrightarrow> P w'"
  using deps_quietD [OF assms] by (metis snd_conv)+

lemma deps_keep_effects [keeps_intros]:
  assumes "deps_keep P (svDeps s)"
  shows "keeps P (sdResolveClient (svDeps s) c)" "keeps P (sdReplay (svDeps s) u)"
    "keeps P (sdClientKeys (svDeps s) c pu al kid)" "keeps P (sdAttesterKey (svDeps s) cl at)"
    "keeps P (sdCheckRevocation (svDeps s) cs t)" "keeps P (sdCertificateTrust (svDeps s) ce t)"
    "keeps P (sdAccessTokens (svDeps s) p)" "keeps P (sdSigner (svDeps s) sp al)"
    "keeps P (sdEncryptionKeys (svDeps s) c km)" "keeps P (sdEncrypt (svDeps s) km en k tok)"
  using assms by (simp_all add: deps_keep_def)

lemma deps_keep_optional [keeps_intros]:
  "deps_keep P (svDeps s) \<Longrightarrow> sdAttestationStatus (svDeps s) = Some f1 \<Longrightarrow> keeps P (f1 v)"
  "deps_keep P (svDeps s) \<Longrightarrow> sdIdentityClaims (svDeps s) = Some f2 \<Longrightarrow> keeps P (f2 x ns)"
  "deps_keep P (svDeps s) \<Longrightarrow> sdResourcePolicy (svDeps s) = Some f3 \<Longrightarrow> keeps P (f3 cl rs)"
  "deps_keep P (svDeps s) \<Longrightarrow> sdClientCredentialsRAR (svDeps s) = Some f4 \<Longrightarrow> keeps P (f4 c os)"
  by (simp_all add: deps_keep_def)

lemma grants_keep_effects [keeps_intros]:
  assumes "deps_keep P (svDeps s)"
  shows "keeps P (gtRedeemCode (sdGrants (svDeps s)) r)" "keeps P (gtRecordAccess (sdGrants (svDeps s)) h k t)"
    "keeps P (gtRecordRefresh (sdGrants (svDeps s)) h h' t)" "keeps P (gtCreateRefresh (sdGrants (svDeps s)) rt)"
    "keeps P (gtRedeemRefresh (sdGrants (svDeps s)) h)" "keeps P (gtRevokeRefresh (sdGrants (svDeps s)) h)"
    "gtRecordTokens (sdGrants (svDeps s)) = Some f \<Longrightarrow> keeps P (f h k t h' t')"
  using assms by (simp_all add: deps_keep_def grants_keep_def)

lemma revocation_keeps_effects [keeps_intros]:
  assumes "deps_keep P (svDeps s)"
  shows "keeps P (rvRevoke (sdRevocation (svDeps s)) k t)"
  using assms by (simp add: deps_keep_def revocation_keeps_def)

lemma keeps_anyRevoked [keeps_intros]:
  assumes "deps_keep P (svDeps s)" "grantRevocationReader s = Some reader"
  shows "keeps P (anyRevoked reader ks)"
proof -
  have single: "keeps P (rvIsRevoked reader k)" for k
    using assms by (simp add: deps_keep_def revocation_keeps_def grantRevocationReader_def)
  have "keeps P (each_revoked (rvIsRevoked reader) ks)"
    by (induction ks) (auto intro!: keeps_intros single)
  moreover have "keeps P (f ks)" if "rvIsAnyRevoked reader = Some f" for f
    using assms that by (simp add: deps_keep_def revocation_keeps_def grantRevocationReader_def)
  ultimately show ?thesis
    by (simp add: anyRevoked_def split: option.split)
qed

section \<open>The server's own operations\<close>

lemma quiet_clock: "deps_quiet P (svDeps s) \<Longrightarrow> keeps P (clock s)"
  by (auto simp: keeps_def clock_def split: prod.split dest: deps_quiet_step)

lemmas keeps_clock [keeps_intros] = quiet_clock [OF deps_keep_quiet]

lemma keeps_generateRandomToken [keeps_intros]: "deps_keep P (svDeps s) \<Longrightarrow> keeps P (generateRandomToken s n)"
  by (auto simp: keeps_def generateRandomToken_def split: prod.split option.split dest: deps_quiet_step [OF deps_keep_quiet])

lemma audit_keeps: "deps_quiet P (svDeps s) \<Longrightarrow> P w \<Longrightarrow> P (audit s e c r d w)"
  using deps_quietD(1) [of P s w] deps_quietD(3) [of P s]
  by (auto simp: audit_def split: option.split prod.split)

lemma keeps_resolveClientKeys [keeps_intros]:
  "deps_keep P (svDeps s) \<Longrightarrow> keeps P (resolveClientKeys s c pu al kid)"
  unfolding resolveClientKeys_def by (intro keeps_intros)

lemma keeps_verifyWithCandidates [keeps_intros]:
  assumes "\<And>k. keeps P (test k)"
  shows "keeps P (verifyWithCandidates invalid test e ks)"
proof -
  have step: "test k w = (x, w') \<Longrightarrow> P w \<Longrightarrow> P w'" for k w x w'
    using keepsD [OF assms] by blast
  have "P w \<Longrightarrow> P (snd (verifyWithCandidates invalid test e ks w))" for e w
    by (induction ks arbitrary: e w) (auto split: prod.splits sum.splits dest: step)
  then show ?thesis by (simp add: keeps_def)
qed

lemma keeps_resolve_client [keeps_intros]: "deps_keep P (svDeps s) \<Longrightarrow> keeps P (resolve_client s c)"
  unfolding resolve_client_def by (intro keeps_intros)

lemma keeps_Assertion_Verify [keeps_intros]:
  "(\<And>jti t. keeps P (useOnce jti t)) \<Longrightarrow> keeps P (Assertion_Verify C a pub policy (Some useOnce))"
  unfolding Assertion_Verify_def option.case by (intro keeps_intros)

lemma keeps_PoP_Verify [keeps_intros]:
  "(\<And>k jti t. keeps P (useOnce k jti t)) \<Longrightarrow> keeps P (PoP_Verify C p jwk policy (Some useOnce))"
  unfolding PoP_Verify_def option.case by (intro keeps_intros)

lemma keeps_dpop_Verify [keeps_intros]:
  "(\<And>k jti t. keeps P (useOnce k jti t)) \<Longrightarrow> keeps P (dpop_Verify C parse req (Some useOnce))"
  by (auto simp: keeps_def dpop_Verify_def split: sum.split prod.split) (metis snd_conv)+

lemma keeps_replay [keeps_intros]:
  assumes "deps_keep P (svDeps s)"
  shows "keeps P (clientSignedJWTReplayChecker s c jti t)" "keeps P (dpopReplayChecker s k jti t)"
    "keeps P (clientAttestationPoPReplayChecker s c k jti t)"
  unfolding clientSignedJWTReplayChecker_def dpopReplayChecker_def clientAttestationPoPReplayChecker_def
  using assms by (auto intro!: keeps_intros)

lemma keeps_viaAssertion [keeps_intros]:
  "deps_keep P (svDeps s) \<Longrightarrow> keeps P (authenticateClientViaAssertion s params es ms)"
  unfolding authenticateClientViaAssertion_def by (intro keeps_intros)

lemma keeps_checkChainsRevocation [keeps_intros]:
  assumes "\<And>c t. keeps P (revocation c t)"
  shows "keeps P (checkChainsRevocation revocation now r u chain_list)"
proof -
  have step: "revocation c t w = (x, w') \<Longrightarrow> P w \<Longrightarrow> P w'" for c t w x w'
    using keepsD [OF assms] by blast
  have "P w \<Longrightarrow> P (snd (checkChainsRevocation revocation now r u chain_list w))" for r u w
    by (induction chain_list arbitrary: r u w)
      (auto split: prod.splits sum.splits revocation_failure.splits dest: step)
  then show ?thesis by (simp add: keeps_def)
qed

lemma keeps_verifyClientAttestation [keeps_intros]:
  "deps_keep P (svDeps s) \<Longrightarrow> keeps P (verifyClientAttestation s c a)"
  unfolding verifyClientAttestation_def by (intro keeps_intros)

lemma keeps_checkAttestationStillValid [keeps_intros]:
  "deps_keep P (svDeps s) \<Longrightarrow> keeps P (checkAttestationStillValid s c v sg k)"
  unfolding checkAttestationStillValid_def by (intro keeps_intros)

lemma keeps_viaAttestation [keeps_intros]:
  "deps_keep P (svDeps s) \<Longrightarrow> keeps P (authenticateClientViaAttestation s c a p)"
  unfolding authenticateClientViaAttestation_def by (intro keeps_intros)

lemma keeps_verifyChainedFieldMatch [keeps_intros]:
  "deps_keep P (svDeps s) \<Longrightarrow> keeps P (verifyChainedFieldMatch s c cert m)"
  unfolding verifyChainedFieldMatch_def checkChainsToRoot_def by (intro keeps_intros)

lemma keeps_verifyClientCertificate [keeps_intros]:
  assumes "deps_keep P (svDeps s)"
  shows "keeps P (verifyClientCertificate s c cert)"
proof -
  have some: "verifyClientCertificateFor s m c cert = None \<or>
      (\<exists>r. verifyClientCertificateFor s m c cert = Some (liftS r)) \<or>
      (\<exists>b. verifyClientCertificateFor s m c cert = Some (verifyChainedFieldMatch s c cert b))" for m
    by (cases m) auto
  have one: "keeps P eff" if "verifyClientCertificateFor s m c cert = Some eff" for m eff
    using some [of m] that keeps_liftS keeps_verifyChainedFieldMatch [OF assms] by auto
  have "P w \<Longrightarrow> P (snd (try_certificate_methods s c cert e ms w))" for e ms w
  proof (induction ms arbitrary: e w)
    case (Cons m ms)
    show ?case
    proof (cases "verifyClientCertificateFor s m c cert")
      case None
      with Cons show ?thesis by simp
    next
      case (Some eff)
      obtain x w' where x: "eff w = (x, w')" by fastforce
      then have "P w'" using keepsD [OF one [OF Some] Cons.prems] by simp
      with Some x Cons.IH show ?thesis by (simp split: sum.split)
    qed
  qed simp
  then show ?thesis by (simp add: keeps_def verifyClientCertificate_def)
qed

lemma keeps_viaCertificate [keeps_intros]:
  "deps_keep P (svDeps s) \<Longrightarrow> keeps P (authenticateClientViaCertificate s c cert)"
  unfolding authenticateClientViaCertificate_def by (intro keeps_intros)

lemma keeps_authenticateRequest [keeps_intros]:
  "deps_keep P (svDeps s) \<Longrightarrow> keeps P (authenticateRequest s params creds es ms)"
  unfolding authenticateRequest_def authenticateClient_def by (intro keeps_intros)

lemma quiet_server_issueDPoPNonce:
  assumes "deps_quiet P (svDeps s)" "sdNonces (svDeps s) = Some nonces"
  shows "keeps (\<lambda>rw. P (snd rw)) (server_issueDPoPNonce s nonces now)"
proof -
  have issue: "keeps P (nsIssue nonces n t)" for n t
    using assms by (simp add: deps_quiet_def nonces_keep_def)
  have issue_step: "nsIssue nonces n t w = (x, w') \<Longrightarrow> P w \<Longrightarrow> P w'" for n t w x w'
    using keepsD [OF issue] by blast
  have rotate: "P w \<Longrightarrow> P (snd (snd (Rotator_Current (nsIssue nonces) random l now (r, w))))" for random l r w
    by (auto simp: Rotator_Current_def dest: issue_step split: prod.splits sum.splits option.splits)
  have drawn: "P w \<Longrightarrow> P (snd (if b then (None, w) else sdRandom (svDeps s) nonceSize w))" for b w
    using deps_quietD(2) [OF assms(1)] by simp
  have "P (snd (snd (server_issueDPoPNonce s nonces now (r, w))))" if "P w" for r w
  proof -
    let ?l = "slDPoPNonceLifetime (sv_limits s)"
    obtain random w1 where d: "(if roCurrent r \<noteq> [] \<and> now < roExpiresAt r + half_before ?l then (None, w)
        else sdRandom (svDeps s) nonceSize w) = (random, w1)"
      by (metis surj_pair)
    then have "P w1" using drawn [OF that] by (metis snd_conv)
    moreover obtain v rw' where c: "Rotator_Current (nsIssue nonces) random ?l now (r, w1) = (v, rw')"
      by (metis surj_pair)
    ultimately have "P (snd rw')" using rotate by (metis snd_conv)
    then show ?thesis
      unfolding server_issueDPoPNonce_def Let_def prod.case d c by (simp split: option.split)
  qed
  then show ?thesis by (simp add: keeps_def)
qed

lemmas keeps_server_issueDPoPNonce [keeps_intros] = quiet_server_issueDPoPNonce [OF deps_keep_quiet]

lemma keeps_server_checkDPoPNonce [keeps_intros]:
  assumes "deps_keep P (svDeps s)" "sdNonces (svDeps s) = Some nonces"
  shows "keeps (\<lambda>rw. P (snd rw)) (server_checkDPoPNonce s nonces presented now)"
proof -
  have valid: "keeps (\<lambda>rw. P (snd rw)) (on_snd (Nonce_Valid (nsLookup nonces) presented now))"
    using assms unfolding Nonce_Valid_def
    by (intro keeps_intros) (simp add: deps_keep_def deps_quiet_def nonces_keep_def)
  have issue: "keeps (\<lambda>rw. P (snd rw)) (bindS (catchS (\<lambda>_. server_nonceNotIssued) (server_issueDPoPNonce s nonces now))
      (\<lambda>current. liftS (Inl ((srv_error ErrorUseDPoPNonce 400 ''DPoP proof must carry a current nonce'')\<lparr>svNonce := current\<rparr>))))"
    for e :: "ServerError + unit"
    using assms by (intro keeps_intros)
  show ?thesis
    unfolding keeps_def server_checkDPoPNonce_def
    using keepsD [OF valid] issue [unfolded keeps_def]
    by (fastforce split: prod.split sum.split bool.split)
qed

lemma quiet_nextDPoPNonce: "deps_quiet P (svDeps s) \<Longrightarrow> keeps (\<lambda>rw. P (snd rw)) (nextDPoPNonce s c now)"
  unfolding nextDPoPNonce_def nextTokenEndpointDPoPNonce_def
  by (intro keeps_if keeps_liftS keeps_option keeps_catchS quiet_server_issueDPoPNonce)

lemmas keeps_nextDPoPNonce [keeps_intros] = quiet_nextDPoPNonce [OF deps_keep_quiet]

lemma keeps_verifyDPoPAtEitherEndpoint [keeps_intros]:
  assumes "deps_keep P (svDeps s)"
  shows "keeps P (verifyDPoPAtEitherEndpoint s pr now u m)"
proof -
  have one: "keeps P (dpop_Verify (sv_crypto s) (seParse (svEnv s)) req (Some (dpopReplayChecker s)))" for req
    using assms by (intro keeps_intros)
  show ?thesis
    unfolding keeps_def verifyDPoPAtEitherEndpoint_def Let_def
    using keepsD [OF one] one [unfolded keeps_def] by (fastforce split: prod.split sum.split)
qed

lemma keeps_verifyTokenRequestBinding [keeps_intros]:
  "deps_keep P (svDeps s) \<Longrightarrow> keeps (\<lambda>rw. P (snd rw)) (verifyTokenRequestBinding s c pr cert)"
  unfolding verifyTokenRequestBinding_def verifyTokenRequestDPoP_def by (intro keeps_intros)

lemma keeps_begin_token_request [keeps_intros]:
  "deps_keep P (svDeps s) \<Longrightarrow> keeps (\<lambda>rw. P (snd rw)) (begin_token_request s gt ps creds es ms)"
  unfolding begin_token_request_def by (intro keeps_intros)

lemma keeps_server_checkGrantNotRevoked [keeps_intros]:
  "deps_keep P (svDeps s) \<Longrightarrow> keeps P (server_checkGrantNotRevoked s g)"
  unfolding server_checkGrantNotRevoked_def by (intro keeps_intros)

lemma keeps_checkRequestedResources [keeps_intros]:
  "deps_keep P (svDeps s) \<Longrightarrow> keeps P (checkRequestedResources s c rs)"
  unfolding checkRequestedResources_def by (intro keeps_intros)

lemma keeps_allowedGrantAudience [keeps_intros]:
  "deps_keep P (svDeps s) \<Longrightarrow> keeps P (allowedGrantAudience s c g scope details rs)"
  unfolding allowedGrantAudience_def narrowedAccessGrant_def narrowedAudience_def by (intro keeps_intros)

lemma keeps_server_issueAccessToken [keeps_intros]:
  "deps_keep P (svDeps s) \<Longrightarrow> keeps P (server_issueAccessToken s p)"
  unfolding server_issueAccessToken_def by (intro keeps_intros)

lemma keeps_optional_id_token [keeps_intros]:
  "deps_keep P (svDeps s) \<Longrightarrow> keeps P (optional_id_token s c g scope nonce tok)"
  unfolding optional_id_token_def issueIDTokenForGrant_def withIdentityClaims_def issueIDToken_def encryptIDToken_def
    resolveClientEncryptionKey_def
  by (intro keeps_intros)

lemma keeps_issueRefreshToken [keeps_intros]:
  "deps_keep P (svDeps s) \<Longrightarrow> keeps P (issueRefreshToken s c g b)"
  unfolding issueRefreshToken_def by (intro keeps_intros)

lemma keeps_issueCodeExchangeTokens [keeps_intros]:
  "deps_keep P (svDeps s) \<Longrightarrow> keeps P (issueCodeExchangeTokens s c g p b h)"
  unfolding issueCodeExchangeTokens_def issueOptionalRefreshToken_def Let_def by (intro keeps_intros)

lemma keeps_redeemedCodeGrant [keeps_intros]:
  "deps_keep P (svDeps s) \<Longrightarrow> keeps P (redeemedCodeGrant s c r h q t i now)"
  unfolding redeemedCodeGrant_def by (intro keeps_intros)

lemma keeps_redeemRefreshGrantFor [keeps_intros]:
  "deps_keep P (svDeps s) \<Longrightarrow> keeps P (redeemRefreshGrantFor s c i t)"
  unfolding redeemRefreshGrantFor_def redeemRefreshGrant_def by (intro keeps_intros)

lemma revokeTokensForReusedCode_keeps:
  assumes "deps_keep P (svDeps s)" "P w"
  shows "P (snd (revokeTokensForReusedCode s failure c h w))"
proof -
  have until: "P w \<Longrightarrow> P (snd (case sdNow (svDeps s) w of (now, w') \<Rightarrow> rvRevoke (sdRevocation (svDeps s)) k (now + l) w'))" for w k l
    using deps_quietD(1) [OF deps_keep_quiet [OF assms(1)]] revocation_keeps_effects [OF assms(1)]
    by (auto simp: keeps_def split: prod.split) (metis snd_conv)
  have refresh: "P w \<Longrightarrow> P (snd (gtRevokeRefresh (sdGrants (svDeps s)) k w))" for w k
    using grants_keep_effects(6) [OF assms(1)] by (simp add: keeps_def)
  show ?thesis
    using assms(2) until refresh
    by (auto simp: revokeTokensForReusedCode_def Let_def case_prod_beta split: redeem_failure.split option.split)
qed

lemma keeps_redeem_code [keeps_intros]:
  assumes "deps_keep P (svDeps s)"
  shows "keeps P (redeem_code s c h)"
  unfolding keeps_def redeem_code_def
  using keepsD [OF grants_keep_effects(1) [OF assms]] revokeTokensForReusedCode_keeps [OF assms]
  by (auto simp: Let_def split: prod.split sum.split) (metis snd_conv)

lemma keeps_code_exchange_begin [keeps_intros]:
  "deps_keep P (svDeps s) \<Longrightarrow> keeps (\<lambda>rw. P (snd rw)) (code_exchange_begin s ps creds)"
  unfolding code_exchange_begin_def by (intro keeps_intros)

lemma keeps_code_exchange_tokens [keeps_intros]:
  "deps_keep P (svDeps s) \<Longrightarrow> keeps (\<lambda>rw. P (snd rw)) (code_exchange_tokens s q presented thumbprint redeemed)"
  unfolding code_exchange_tokens_def by (intro keeps_intros)

lemma keeps_code_exchange_finish [keeps_intros]:
  "deps_keep P (svDeps s) \<Longrightarrow> keeps (\<lambda>rw. P (snd rw)) (code_exchange_finish s q presented thumbprint)"
  unfolding code_exchange_finish_def by (intro keeps_intros)

lemma keeps_code_exchange [keeps_intros]:
  "deps_keep P (svDeps s) \<Longrightarrow> keeps (\<lambda>rw. P (snd rw)) (code_exchange s ps creds)"
  unfolding code_exchange_def by (intro keeps_intros)

lemma keeps_refresh_exchange [keeps_intros]:
  "deps_keep P (svDeps s) \<Longrightarrow> keeps (\<lambda>rw. P (snd rw)) (refresh_exchange s ps creds)"
  unfolding refresh_exchange_def by (intro keeps_intros)

lemma keeps_bindS_liftS: "(\<And>x. r = Inr x \<Longrightarrow> keeps P (f x)) \<Longrightarrow> keeps P (bindS (liftS r) f)"
  by (auto simp: keeps_def split: sum.split)

lemma keeps_applyRARPolicy [keeps_intros]:
  assumes "\<And>f c os. policy = Some f \<Longrightarrow> keeps P (f c os)"
  shows "keeps P (applyRARPolicy s c policy requested)"
  unfolding applyRARPolicy_def
  by (intro keeps_option keeps_liftS keeps_bindS_liftS keeps_bindS keeps_catchS) (simp_all add: assms of_option_eq_Inr)

lemma keeps_client_credentials [keeps_intros]:
  "deps_keep P (svDeps s) \<Longrightarrow> keeps (\<lambda>rw. P (snd rw)) (client_credentials s ps creds)"
  unfolding client_credentials_def clientCredentialsGrant_def by (intro keeps_intros)

lemma token_handler_keeps:
  assumes "deps_quiet P (svDeps s)" "body rw = (x, rw1)" "P (snd rw1)"
  shows "P (snd (snd (token_handler s event body rw)))"
proof (cases x)
  case (Inl f)
  obtain r w where rw1: "rw1 = (r, w)" by fastforce
  let ?rw = "(r, audit s event (tfClient f) AuditOutcomeFailure (tfAudit f) w)"
  have audited: "P (snd ?rw)" using audit_keeps [OF assms(1)] assms(3) rw1 by simp
  have "P (snd rw')" if "bindS (on_snd (clock s)) (nextDPoPNonce s c) ?rw = (x, rw')" for c x rw'
  proof -
    have "keeps (\<lambda>rw. P (snd rw)) (bindS (on_snd (clock s)) (nextDPoPNonce s c))"
      by (intro keeps_bindS keeps_on_snd quiet_clock quiet_nextDPoPNonce assms(1))
    with audited that show ?thesis unfolding keeps_def by (metis snd_conv)
  qed
  then have "P (snd (snd (attachNextDPoPNonce s c e ?rw)))" for c e
    using audited unfolding attachNextDPoPNonce_def by (auto split: prod.split sum.split)
  with audited show ?thesis
    by (simp add: token_handler_def assms(2) Inl rw1 Let_def split: option.split)
next
  case (Inr y)
  with assms(2,3) audit_keeps [OF assms(1)] show ?thesis
    by (cases y; cases rw1) (auto simp: token_handler_def)
qed

lemma keeps_token_handler [keeps_intros]:
  assumes "deps_keep P (svDeps s)" "keeps (\<lambda>rw. P (snd rw)) body"
  shows "keeps (\<lambda>rw. P (snd rw)) (token_handler s event body)"
  unfolding keeps_def
  using token_handler_keeps [OF deps_keep_quiet [OF assms(1)]] keepsD [OF assms(2)] by (metis prod.collapse)

section \<open>One code, one answer\<close>

text \<open>
  What an implementation of the grant store promises of codes: a redemption spends the code, which
  is not spent before; and nothing any dependency does makes it unspent. The steps of dependencies
  include those of other requests.
\<close>

definition spends_codes :: "'s server \<Rightarrow> ('s \<Rightarrow> bytes \<Rightarrow> bool) \<Rightarrow> bool" where
  "spends_codes s spent \<longleftrightarrow> (\<forall>h. deps_keep (\<lambda>w. spent w h) (svDeps s)) \<and>
     (\<forall>r w g w'. gtRedeemCode (sdGrants (svDeps s)) r w = (Inr g, w') \<longrightarrow> \<not> spent w (crCodeHash r) \<and> spent w' (crCodeHash r))"

datatype token_op =
    ExchangeOp "FormParameter list" requestCredentials
  | RefreshOp "FormParameter list" requestCredentials
  | CredentialsOp "FormParameter list" requestCredentials

fun token_step :: "'s server \<Rightarrow> token_op \<Rightarrow> Rotator \<times> 's \<Rightarrow> (ServerError + TokenResult) \<times> (Rotator \<times> 's)" where
  "token_step s (ExchangeOp ps creds) = ExchangeAuthorizationCode s ps creds"
| "token_step s (RefreshOp ps creds) = RefreshAccessToken s ps creds"
| "token_step s (CredentialsOp ps creds) = RequestClientCredentialsToken s ps creds"

text \<open>The code a request was answered with tokens for.\<close>

definition exchanged_code :: "'s server \<Rightarrow> Rotator \<times> 's \<Rightarrow> token_op \<Rightarrow> bytes option" where
  "exchanged_code s rw op =
     (case op of
        ExchangeOp ps creds \<Rightarrow>
          (case (fst (ExchangeAuthorizationCode s ps creds rw), fst (code_exchange_begin s ps creds rw)) of
             (Inr result, Inr (q, presented, thumbprint)) \<Rightarrow> Some (presented_code_hash s q presented)
           | _ \<Rightarrow> None)
      | _ \<Rightarrow> None)"

lemma keeps_token_step:
  assumes "deps_keep P (svDeps s)"
  shows "keeps (\<lambda>rw. P (snd rw)) (token_step s op)"
  using assms
  by (cases op) (simp_all add: ExchangeAuthorizationCode_def RefreshAccessToken_def RequestClientCredentialsToken_def
      keeps_token_handler keeps_code_exchange keeps_refresh_exchange keeps_client_credentials)

lemma exchanged_code_redeems:
  assumes "exchanged_code s rw op = Some h" "spends_codes s spent"
  shows "\<not> spent (snd rw) h \<and> spent (snd (snd (token_step s op rw))) h"
proof -
  have keep: "deps_keep (\<lambda>w. spent w h) (svDeps s)" using assms(2) by (simp add: spends_codes_def)
  from assms(1) obtain ps creds result q presented thumbprint where
    op: "op = ExchangeOp ps creds" and ok: "fst (ExchangeAuthorizationCode s ps creds rw) = Inr result" and
    b: "fst (code_exchange_begin s ps creds rw) = Inr (q, presented, thumbprint)" and
    h: "h = presented_code_hash s q presented"
    by (auto simp: exchanged_code_def split: token_op.splits sum.splits)
  obtain rw1 where begun: "code_exchange_begin s ps creds rw = (Inr (q, presented, thumbprint), rw1)"
    using b by (metis prod.collapse)
  obtain rw2 where exchanged: "ExchangeAuthorizationCode s ps creds rw = (Inr result, rw2)"
    using ok by (metis prod.collapse)
  have "keeps (\<lambda>rw. spent (snd rw) h) (code_exchange_begin s ps creds)" using keep by (rule keeps_code_exchange_begin)
  then have unspent: "\<not> spent (snd rw1) h \<Longrightarrow> \<not> spent (snd rw) h" using begun by (auto dest: keepsD)
  from exchanged obtain client rw3 where ex: "code_exchange s ps creds rw = (Inr (client, result), rw3)"
    unfolding ExchangeAuthorizationCode_def using token_handler_Inr by blast
  with begun have "code_exchange_finish s q presented thumbprint rw1 = (Inr (client, result), rw3)"
    by (simp add: code_exchange_def bindS_def)
  then obtain redeemed w1 where r: "redeem_code s (tqClient q) h (snd rw1) = (Inr redeemed, w1)" and
    fin: "code_exchange_tokens s q presented thumbprint redeemed (fst rw1, w1) = (Inr (client, result), rw3)"
    by (auto simp: code_exchange_finish_def bindS_Inr on_snd_Inr h)
  from assms(2) redeem_code_Inr [OF r] have fresh: "\<not> spent (snd rw1) h" "spent w1 h"
    unfolding spends_codes_def by fastforce+
  have "spent (snd rw3) h"
    using keepsD [OF keeps_code_exchange_tokens [OF keep] _ fin] fresh(2) by simp
  then have "spent (snd rw2) h"
    using token_handler_keeps [where P = "\<lambda>w. spent w h" and s = s and body = "code_exchange s ps creds",
        OF deps_keep_quiet [OF keep] ex] exchanged
    unfolding ExchangeAuthorizationCode_def by (metis snd_conv)
  with unspent [OF fresh(1)] exchanged op show ?thesis by simp
qed

text \<open>
  C3. However token requests of every kind interleave, replayed, retried or made by several clients,
  no authorization code is answered with tokens twice; and once it was answered, no later request
  is, whatever came between.
\<close>

theorem code_exchanged_once:
  assumes "spends_codes s spent"
  shows "distinct (consumed (token_step s) (exchanged_code s) ops rw) \<and>
    (exchanged_code s rw op = Some h \<longrightarrow>
       exchanged_code s (after (token_step s) ops (snd (token_step s op rw))) op' \<noteq> Some h)"
proof -
  have keep: "keeps (\<lambda>rw. spent (snd rw) h) (token_step s op)" for h op
    using assms by (intro keeps_token_step) (simp add: spends_codes_def)
  have once: "single_use (token_step s) (exchanged_code s) (\<lambda>rw h. spent (snd rw) h)"
    using exchanged_code_redeems [OF _ assms] keep by unfold_locales (auto simp: keeps_def)
  then show ?thesis
    using single_use.consumed_distinct [OF once] single_use.used_at_most_once [OF once] by blast
qed

section \<open>A code used again\<close>

text \<open>What the stores promise of revocation: what was revoked stays so, whatever a dependency does.\<close>

definition revokes :: "'s server \<Rightarrow> ('s \<Rightarrow> string \<Rightarrow> bool) \<Rightarrow> ('s \<Rightarrow> bytes \<Rightarrow> bool) \<Rightarrow> bool" where
  "revokes s revoked refused \<longleftrightarrow>
     (\<forall>k. deps_keep (\<lambda>w. revoked w k) (svDeps s)) \<and> (\<forall>h. deps_keep (\<lambda>w. refused w h) (svDeps s)) \<and>
     (\<forall>k t w. revoked (snd (rvRevoke (sdRevocation (svDeps s)) k t w)) k) \<and>
     (\<forall>h w. refused (snd (gtRevokeRefresh (sdGrants (svDeps s)) h w)) h)"

lemma revoke_until_keeps:
  assumes "deps_keep P (svDeps s)" "P w"
  shows "P (snd (case sdNow (svDeps s) w of (now, w') \<Rightarrow> rvRevoke (sdRevocation (svDeps s)) k (now + l) w'))"
  using deps_quietD(1) [OF deps_keep_quiet [OF assms(1)], of w] revocation_keeps_effects [OF assms(1)] assms(2)
  by (auto simp: keeps_def split: prod.split)

lemma own_code_revoked:
  assumes "revokes s revoked refused" "owner = [] \<or> owner = client"
    "revokeTokensForReusedCode s (AlreadyRedeemed key refresh owner) client h w = (cross, w')"
  shows "\<not> cross \<and> (key \<noteq> [] \<longrightarrow> revoked w' key) \<and> (\<forall>h. refresh = Some h \<longrightarrow> refused w' h) \<and>
    (grantRevocationReader s \<noteq> None \<longrightarrow> revoked w' (CodeKey (sv_issuer s) (CodeGrantID (sv_crypto s) h)))"
proof -
  let ?revoke = "\<lambda>k l w. snd (case sdNow (svDeps s) w of (now, w') \<Rightarrow> rvRevoke (sdRevocation (svDeps s)) k (now + l) w')"
  let ?l = "SaturatingAdd [slAccessTokenLifetime (sv_limits s), slMaxClockSkew (sv_limits s), slMaxClockSkew (sv_limits s)]"
  let ?ck = "CodeKey (sv_issuer s) (CodeGrantID (sv_crypto s) h)"
  define w1 where "w1 = (if key \<noteq> [] then ?revoke key ?l w else w)"
  define w2 where "w2 = (case refresh of None \<Rightarrow> w1 | Some h \<Rightarrow> snd (gtRevokeRefresh (sdGrants (svDeps s)) h w1))"
  define w3 where "w3 = (if grantRevocationReader s \<noteq> None then ?revoke ?ck (grantRevocationHorizon s) w2 else w2)"
  have keep: "deps_keep (\<lambda>w. revoked w k) (svDeps s)" "deps_keep (\<lambda>w. refused w h') (svDeps s)"
    and revoke: "revoked (?revoke k l w) k" and refuse: "refused (snd (gtRevokeRefresh (sdGrants (svDeps s)) h' w)) h'" for k h' l w
    using assms(1) by (auto simp: revokes_def split: prod.split)
  have refresh_keeps: "revoked w k \<Longrightarrow> revoked (snd (gtRevokeRefresh (sdGrants (svDeps s)) h' w)) k" for w k h'
    using grants_keep_effects(6) [OF keep(1)] by (simp add: keeps_def)
  have revoke_keeps: "revoked w k \<Longrightarrow> revoked (?revoke k' l w) k" "refused w h' \<Longrightarrow> refused (?revoke k' l w) h'" for w k k' h' l
    using revoke_until_keeps [OF keep(1)] revoke_until_keeps [OF keep(2)] by blast+
  have r: "revokeTokensForReusedCode s (AlreadyRedeemed key refresh owner) client h w = (False, w3)"
    using assms(2) unfolding revokeTokensForReusedCode_def w1_def w2_def w3_def Let_def case_prod_beta
    by (simp split: option.split)
  have "revoked w3 key" if "key \<noteq> []"
    using that revoke refresh_keeps revoke_keeps(1) by (simp add: w1_def w2_def w3_def split: option.split)
  moreover have "refused w3 h'" if "refresh = Some h'" for h'
    using that refuse revoke_keeps(2) by (simp add: w2_def w3_def)
  moreover have "revoked w3 ?ck" if "grantRevocationReader s \<noteq> None"
    using that revoke by (simp add: w3_def)
  ultimately show ?thesis using r assms(3) by simp
qed

lemma attachNextDPoPNonce_code: "svCode (fst (attachNextDPoPNonce s c e rw)) = svCode e"
  by (simp add: attachNextDPoPNonce_def split: prod.split sum.split)

lemma token_handler_Inl:
  assumes "body rw = (Inl f, rw1)"
  shows "\<exists>e rw2. token_handler s event body rw = (Inl e, rw2) \<and> svCode e = svCode (tfError f)"
proof -
  obtain r w where rw1: "rw1 = (r, w)" by fastforce
  show ?thesis
  proof (cases "tfAttach f")
    case None
    then show ?thesis by (simp add: token_handler_def assms rw1)
  next
    case (Some c)
    obtain e rw2 where "attachNextDPoPNonce s c (tfError f)
        (r, audit s event (tfClient f) AuditOutcomeFailure (tfAudit f) w) = (e, rw2)" by (metis prod.collapse)
    moreover from this have "svCode e = svCode (tfError f)" by (metis attachNextDPoPNonce_code fst_conv)
    ultimately show ?thesis by (simp add: token_handler_def assms rw1 Some)
  qed
qed

text \<open>
  C9. A code presented again, as the request that presented it got to the store, is refused. If it
  is the code of the client that presents it now, or if the store does not say whose code it was, then
  the access token recorded for it, its refresh token and whatever carries the identifier of its grant
  are revoked when the refusal is answered, whoever the presenter is in the second case. If the
  store names another client, then nothing is revoked or recorded: all the server still uses is its
  clock, random source, audit and nonces.
\<close>

theorem code_reuse_revokes:
  assumes "code_exchange_begin s parameters creds rw = (Inr (q, presented, thumbprint), (r, w))"
    and "gtRedeemCode (sdGrants (svDeps s))
      \<lparr>crCodeHash = presented_code_hash s q presented, crClientID = rclID (tqClient q)\<rparr> w = (Inl (AlreadyRedeemed key refresh owner), w1)"
    and "revokes s revoked refused"
  shows "\<exists>e rw'. ExchangeAuthorizationCode s parameters creds rw = (Inl e, rw') \<and> svCode e = ErrorInvalidGrant \<and>
    (if owner = [] \<or> owner = rclID (tqClient q)
     then (key \<noteq> [] \<longrightarrow> revoked (snd rw') key) \<and> (\<forall>h. refresh = Some h \<longrightarrow> refused (snd rw') h) \<and>
       (grantRevocationReader s \<noteq> None \<longrightarrow>
          revoked (snd rw') (CodeKey (sv_issuer s) (CodeGrantID (sv_crypto s) (presented_code_hash s q presented))))
     else \<forall>P. deps_quiet P (svDeps s) \<longrightarrow> P w1 \<longrightarrow> P (snd rw'))"
proof -
  let ?h = "presented_code_hash s q presented" and ?c = "rclID (tqClient q)"
  obtain cross w2 where rv: "revokeTokensForReusedCode s (AlreadyRedeemed key refresh owner) ?c ?h w1 = (cross, w2)" by fastforce
  define f where "f = \<lparr>tfClient = ?c, tfError = invalid_grant codeUnknownDescription,
    tfAudit = (if cross then ''code reused by another client'' else svCode (invalid_grant codeUnknownDescription)),
    tfAttach = Some (tqClient q)\<rparr>"
  have "redeem_code s (tqClient q) ?h w = (Inl f, w2)"
    by (simp add: redeem_code_def assms(2) rv Let_def f_def)
  then have body: "code_exchange s parameters creds rw = (Inl f, (r, w2))"
    by (simp add: code_exchange_def code_exchange_finish_def bindS_def on_snd_def assms(1))
  obtain e rw' where ex: "ExchangeAuthorizationCode s parameters creds rw = (Inl e, rw')" "svCode e = svCode (tfError f)"
    using token_handler_Inl [where body = "code_exchange s parameters creds" and rw = rw, OF body]
    unfolding ExchangeAuthorizationCode_def by blast
  then have code: "svCode e = ErrorInvalidGrant" by (simp add: f_def invalid_grant_def srv_error_def)
  have kept: "P (snd rw')" if "deps_quiet P (svDeps s)" "P w2" for P
    using token_handler_keeps [where P = P and s = s and body = "code_exchange s parameters creds", OF that(1) body] that(2) ex(1)
    unfolding ExchangeAuthorizationCode_def by (metis snd_conv)
  have quiet: "deps_quiet (\<lambda>w. revoked w k) (svDeps s)" "deps_quiet (\<lambda>w. refused w h) (svDeps s)" for k h
    using assms(3) by (auto simp: revokes_def intro: deps_keep_quiet)
  show ?thesis
  proof (cases "owner = [] \<or> owner = ?c")
    case True
    from own_code_revoked [OF assms(3) True rv] kept [OF quiet(1)] kept [OF quiet(2)] ex(1) code True
    show ?thesis by auto
  next
    case False
    then have "w2 = w1" using rv by (simp add: revokeTokensForReusedCode_def)
    with kept ex(1) code False show ?thesis by auto
  qed
qed

end
