(* ===== verification/Server_Example.thy ===== *)
theory Server_Example
  imports Server_Once
begin

text \<open>
  A server over the stores of \<open>Memstore\<close>: what the contracts of \<open>Server_Once\<close> ask of a store is
  proved of them, and a code and a refresh token are exchanged step by step, so that the properties
  of the token endpoint are seen to hold of something.
\<close>

section \<open>The grant store of a world\<close>

text \<open>A part of the state: how it is read, and how it is changed.\<close>

type_synonym ('w, 'a) part = "('w \<Rightarrow> 'a) \<times> (('a \<Rightarrow> 'a) \<Rightarrow> 'w \<Rightarrow> 'w)"

fun redeem_error :: "store_error \<Rightarrow> redeem_failure" where
  "redeem_error (CodeAlreadyRedeemed key refresh client) = AlreadyRedeemed key refresh client"
| "redeem_error _ = NotRedeemed"

definition done_to :: "('w, 'a) part \<Rightarrow> ('a \<Rightarrow> 'a) \<Rightarrow> ('w, dependency_error, unit) effect" where
  "done_to part f w = (Inr (), snd part f w)"

definition memstore_grants :: "('w, GrantStore) part \<Rightarrow> 'w grant_store" where
  "memstore_grants part =
     \<lparr>gtRedeemCode = (\<lambda>r w. case RedeemAuthorizationCode r (fst part w) of
          (x, st) \<Rightarrow> (map_sum redeem_error (\<lambda>g. g) x, snd part (\<lambda>_. st) w)),
      gtRecordAccess = (\<lambda>h key _. done_to part (RecordIssuedAccessToken h key)),
      gtRecordRefresh = (\<lambda>h refresh _. done_to part (RecordIssuedRefreshToken h refresh)),
      gtRecordTokens = None,
      gtCreateRefresh = (\<lambda>tok. done_to part (CreateRefreshToken tok)),
      gtRedeemRefresh = (\<lambda>h w. (map_sum (\<lambda>_. OtherFailure) (\<lambda>g. g) (RedeemRefreshToken h (fst part w)), w)),
      gtRevokeRefresh = (\<lambda>h. done_to part (RevokeRefreshToken h))\<rparr>"

definition memstore_revocation :: "('w, RevocationStore) part \<Rightarrow> 'w revocation_sink" where
  "memstore_revocation part =
     \<lparr>rvRevoke = (\<lambda>k t. done_to part (Revoke k t)),
      rvReader = Some \<lparr>rvIsRevoked = (\<lambda>k w. (Inr (IsRevoked k (fst part w)), w)), rvIsAnyRevoked = None\<rparr>\<rparr>"

section \<open>A server\<close>

record example_world =
  ewGrants :: GrantStore
  ewTokens :: AccessTokenStore
  ewRevoked :: RevocationStore

definition world_grants :: "(example_world, GrantStore) part" where "world_grants = (ewGrants, ewGrants_update)"
definition world_tokens :: "(example_world, AccessTokenStore) part" where "world_tokens = (ewTokens, ewTokens_update)"
definition world_revoked :: "(example_world, RevocationStore) part" where "world_revoked = (ewRevoked, ewRevoked_update)"

definition answers :: "'a option \<Rightarrow> ('w, dependency_error, 'a) effect" where
  "answers x = liftS (of_option OtherFailure x)"

definition short_hash :: "bytes \<Rightarrow> bytes" where
  "short_hash bs = take 32 (rev bs @ replicate 32 0)"

definition server_crypto :: crypto where
  "server_crypto = example_crypto (\<lambda>_. None) \<lparr>sha256 := short_hash\<rparr>"

definition example_thumbprint :: string where
  "example_thumbprint = mtls_Thumbprint server_crypto [1, 2, 3]"

definition example_client :: RegisteredClient where
  "example_client =
     \<lparr>rclID = ''c1'', rclRedirectURIs = [''https://c.example/cb''], rclApplicationType = ApplicationTypeWeb,
      rclClientAssertionAlgorithms = [], rclRequestObjectAlgorithm = None, rclSenderConstrain = SenderConstrainMTLS,
      rclClientAuthMethods = [ClientAuthMethodSelfSignedTLSClientAuth], rclCertificateThumbprint = example_thumbprint,
      rclAdditionalThumbprints = [], rclCertificateKeyThumbprints = [], rclSubjectDN = [], rclSANDNS = [], rclSANURI = [],
      rclSANIP = [], rclSANEmail = [], rclAttesterIssuer = [], rclAttestationAlgorithm = None,
      rclAllowedScopes = [''accounts'', ''offline_access''], rclAuthorizationDetailsTypes = [], rclAllowedResources = [],
      rclIDTokenEncryption = None, rclBackchannelAlgorithm = None, rclClientCredentials = False,
      rclAutomaticFederation = False, rclSubjectType = None, rclSector = [],
      rclDisplay = \<lparr>cdName = [], cdLogoURI = None, cdPolicyURI = None, cdTermsOfServiceURI = None\<rparr>\<rparr>"

definition example_certificate :: certificate where
  "example_certificate =
     \<lparr>xcRaw = [1, 2, 3], xcRawSubjectString = None, xcSubjectString = [], xcSubjectNames = [], xcDNSNames = [], xcURIs = [],
      xcIPAddresses = [], xcEmailAddresses = [], xcKeyThumbprint = None\<rparr>"

definition example_limits :: server_limits where
  "example_limits =
     \<lparr>slPushedRequestLifetime = 60 * second, slMaxClientAssertionLifetime = 60 * second,
      slMaxRequestObjectLifetime = 60 * second, slAuthorizationCodeLifetime = 60 * second,
      slAccessTokenLifetime = 300 * second, slIDTokenLifetime = 300 * second, slMaxIDTokenClaimsBytes = 4096,
      slMaxAccessTokenClaimsBytes = 4096, slRefreshTokenLifetime = 3600 * second, slMaxDPoPProofAge = 60 * second,
      slMaxClockSkew = 5 * second, slDPoPNonceLifetime = 60 * second, slBackchannelRequestLifetime = 60 * second,
      slMaxClientAttestationLifetime = 60 * second, slMaxClientAttestationPoPAge = 60 * second\<rparr>"

definition example_config :: server_config where
  "example_config =
     \<lparr>scIssuer = ''https://as.example'', scTokenEndpoint = None, scPAREndpoint = None, scMTLSTokenEndpoint = None,
      scMTLSPAREndpoint = None, scProfile = ProfileFAPISecurity, scClientAssertionAlgs = [], scRequestObjectAlgs = [],
      scIDTokenAlg = ES256, scIDTokenEncryptionKeyManagement = [], scIDTokenEncryptionContent = [],
      scClientAttestationAlgs = [], scClientAttestationPoPAlgs = [], scLimits = example_limits, scSubjects = PublicSubjects,
      scRAR = None, scClientCredentialsGrant = False, scAdditionalGrantTypes = [], scResources = [],
      scAttestationAuth = False, scOAuthOnly = False\<rparr>"

definition example_env :: server_env where
  "example_env =
     \<lparr>seCrypto = server_crypto, seParse = (\<lambda>_. None), seLoopback = (\<lambda>_. False), seParseIP = (\<lambda>_. None),
      seRawSize = (\<lambda>_. 10), seFormatTime = (\<lambda>t. Some [char_of (nat (t div second))]),
      seParseTime = (\<lambda>t. case t of [c] \<Rightarrow> Some (int (of_char c) * second) | _ \<Rightarrow> None)\<rparr>"

definition example_now :: time where "example_now = 100 * second"

definition deps_with :: "(access_token_params \<Rightarrow> (example_world, dependency_error, string \<times> string) effect)
    \<Rightarrow> example_world server_deps" where
  "deps_with issue =
     \<lparr>sdNow = Pair example_now, sdRandom = (\<lambda>n. Pair (Some (replicate n 7))), sdAudit = None,
      sdResolveClient = (\<lambda>c. answers (if c = ''c1'' then Some example_client else None)),
      sdReplay = (\<lambda>_. answers (Some ())), sdClientKeys = (\<lambda>_ _ _ _. answers None), sdAttesterKey = (\<lambda>_ _. answers None),
      sdCheckRevocation = (\<lambda>_ _. liftS (Inr ())), sdAttestationStatus = None,
      sdCertificateTrust = (\<lambda>_ _. liftS (Inr ())), sdNonces = None, sdGrants = memstore_grants world_grants,
      sdRevocation = memstore_revocation world_revoked, sdAccessTokens = issue, sdSigner = (\<lambda>_ _. answers None),
      sdEncryptionKeys = (\<lambda>_ _. answers None), sdEncrypt = (\<lambda>_ _ _ _. liftS (Inl ())), sdIdentityClaims = None,
      sdResourcePolicy = None, sdClientCredentialsRAR = None\<rparr>"

definition server_with :: "(access_token_params \<Rightarrow> (example_world, dependency_error, string \<times> string) effect)
    \<Rightarrow> example_world server" where
  "server_with issue = \<lparr>svEnv = example_env, svConfig = example_config, svDeps = deps_with issue\<rparr>"

definition example_issue :: "access_token_params \<Rightarrow> (example_world, dependency_error, string \<times> string) effect" where
  "example_issue =
     opaque_IssueAccessToken (server_with (\<lambda>_. answers None)) (\<lambda>tok. done_to world_tokens (CreateAccessToken tok))"

definition example_server :: "example_world server" where
  "example_server = server_with example_issue"

section \<open>Its contracts\<close>

lemma keeps_done_to: "(\<And>w. P w \<Longrightarrow> P (snd part f w)) \<Longrightarrow> keeps P (done_to part f)"
  by (simp add: keeps_def done_to_def)

lemma keeps_answers: "keeps P (answers x)"
  by (simp add: answers_def keeps_liftS)

lemma example_issue_keeps:
  assumes "\<And>f w. P w \<Longrightarrow> P (ewTokens_update f w)"
  shows "keeps P (example_issue p)"
proof -
  have random: "keeps P (generateRandomToken (server_with i) n)" for n i
    by (simp add: keeps_def generateRandomToken_def server_with_def deps_with_def)
  show ?thesis
    unfolding example_issue_def opaque_IssueAccessToken_def
    by (intro keeps_intros random keeps_done_to) (simp add: world_tokens_def assms)
qed

text \<open>What the stores change is all that can change.\<close>

lemma example_deps_keep:
  assumes "\<And>f w. P w \<Longrightarrow> P (ewTokens_update f w)" "\<And>k t w. P w \<Longrightarrow> P (ewRevoked_update (Revoke k t) w)"
    "\<And>r w. P w \<Longrightarrow> P (ewGrants_update (\<lambda>_. snd (RedeemAuthorizationCode r (ewGrants w))) w)"
    "\<And>h k w. P w \<Longrightarrow> P (ewGrants_update (RecordIssuedAccessToken h k) w)"
    "\<And>h k w. P w \<Longrightarrow> P (ewGrants_update (RecordIssuedRefreshToken h k) w)"
    "\<And>t w. P w \<Longrightarrow> P (ewGrants_update (CreateRefreshToken t) w)"
    "\<And>h w. P w \<Longrightarrow> P (ewGrants_update (RevokeRefreshToken h) w)"
  shows "deps_keep P (svDeps example_server)"
proof -
  have "grants_keep P (memstore_grants world_grants)"
    using assms(3-7)
    by (simp add: grants_keep_def memstore_grants_def world_grants_def keeps_done_to keeps_def done_to_def case_prod_beta)
  moreover have "revocation_keeps P (memstore_revocation world_revoked)"
    using assms(2) by (simp add: revocation_keeps_def memstore_revocation_def world_revoked_def keeps_def done_to_def)
  ultimately show ?thesis
    using example_issue_keeps [of P] assms(1)
    by (simp add: deps_keep_def deps_quiet_def example_server_def server_with_def deps_with_def keeps_answers keeps_liftS)
qed

lemma example_spends_codes: "spends_codes example_server (\<lambda>w h. gsCodeRedeemed (ewGrants w) h)"
proof -
  have "deps_keep (\<lambda>w. gsCodeRedeemed (ewGrants w) h) (svDeps example_server)" for h
    by (rule example_deps_keep) (simp_all add: gsCodeRedeemed_redeem grant_op_defs)
  moreover have "\<not> gsCodeRedeemed (ewGrants w) (crCodeHash r) \<and> gsCodeRedeemed (ewGrants w') (crCodeHash r)"
    if "gtRedeemCode (sdGrants (svDeps example_server)) r w = (Inr g, w')" for r w g w'
  proof -
    obtain x st where r: "RedeemAuthorizationCode r (ewGrants w) = (x, st)" by fastforce
    with that have x: "x = Inr g" and w': "w' = ewGrants_update (\<lambda>_. st) w"
      by (auto simp: example_server_def server_with_def deps_with_def memstore_grants_def world_grants_def)
    from r x have "fst (RedeemAuthorizationCode r (ewGrants w)) = Inr g" by simp
    then show ?thesis
      using gsCodeRedeemed_redeem [of r "ewGrants w" "crCodeHash r"] RedeemAuthorizationCode_Inr [of r "ewGrants w" g]
        r x w' by simp
  qed
  ultimately show ?thesis by (simp add: spends_codes_def)
qed

lemma example_revokes:
  "revokes example_server (\<lambda>w k. IsRevoked k (ewRevoked w)) (\<lambda>w h. gsRefreshRevoked (ewGrants w) h)"
proof -
  have "deps_keep (\<lambda>w. IsRevoked k (ewRevoked w)) (svDeps example_server)" for k
    by (rule example_deps_keep) (simp_all add: IsRevoked_def Revoke_def)
  moreover have "deps_keep (\<lambda>w. gsRefreshRevoked (ewGrants w) h) (svDeps example_server)" for h
    by (rule example_deps_keep) (simp_all add: grant_op_defs)
  ultimately show ?thesis
    by (simp add: revokes_def example_server_def server_with_def deps_with_def memstore_grants_def
        memstore_revocation_def world_grants_def world_revoked_def done_to_def IsRevoked_def Revoke_def RevokeRefreshToken_def)
qed

section \<open>A code exchanged\<close>

definition example_verifier :: string where "example_verifier = replicate 43 (CHR ''a'')"

definition example_grant :: grantRecord where
  "example_grant = grantRecord_zero\<lparr>gnVersion := 1, gnKind := grantKindAuthorizationCode, gnIssuer := ''https://as.example'',
     gnRedirectURI := ''https://c.example/cb'', gnCodeChallenge := encode_raw True (short_hash (string_bytes example_verifier)),
     gnSubject := ''alice'', gnScope := [''accounts''], gnAuthTime := 50 * second, gnGrantType := ''authorization_code''\<rparr>"

definition example_grant_json :: json where
  "example_grant_json = JObj [(''v'', JNum False 1 None), (''kind'', JStr grantKindAuthorizationCode),
     (''iss'', JStr ''https://as.example''), (''redirect_uri'', JStr ''https://c.example/cb''),
     (''code_challenge'', JStr (encode_raw True (short_hash (string_bytes example_verifier)))),
     (''sub'', JStr ''alice''), (''scope'', JArr [JStr ''accounts'']), (''auth_time'', JStr [char_of (50 :: nat)]),
     (''grant_type'', JStr ''authorization_code'')]"

definition example_code_request :: "FormParameter list" where
  "example_code_request = [(''grant_type'', ''authorization_code''), (''client_id'', ''c1''), (''code'', ''abc''),
     (''redirect_uri'', ''https://c.example/cb''), (''code_verifier'', example_verifier)]"

definition example_credentials :: requestCredentials where
  "example_credentials = \<lparr>rqcPeerCertificate = Some example_certificate, rqcDPoPProofs = [], rqcAttestations = [],
     rqcAttestationPoPs = []\<rparr>"

definition example_code_hash :: bytes where "example_code_hash = authorizationCodeHash server_crypto ''abc'' []"

definition example_world_0 :: example_world where
  "example_world_0 = \<lparr>ewGrants = CreateAuthorizationCode \<lparr>acCodeHash = example_code_hash, acClientID = ''c1'',
       acGrant = Some example_grant_json, acExpiresAt = 150 * second\<rparr> NewGrantStore,
     ewTokens = Map.empty, ewRevoked = Map.empty\<rparr>"

definition no_nonce :: Rotator where "no_nonce = \<lparr>roCurrent = [], roExpiresAt = zero_time\<rparr>"

lemmas example_defs = example_server_def server_with_def deps_with_def sv_crypto_def sv_limits_def sv_issuer_def
lemmas effect_steps = bindS_def catchS_def liftS_def on_snd_def failing_def

lemma example_thumbprint_ne: "example_thumbprint \<noteq> []"
proof -
  have "length example_thumbprint \<noteq> 0"
    by (simp add: example_thumbprint_def mtls_Thumbprint_def server_crypto_def short_hash_def length_encode_raw)
  then show ?thesis by auto
qed

lemma example_certificate_thumbprint: "certificate_thumbprint example_server example_certificate = example_thumbprint"
  by (simp add: certificate_thumbprint_def example_thumbprint_def example_defs example_env_def example_certificate_def)

definition example_verified :: VerifiedAssertion where
  "example_verified = \<lparr>vdClientID = ''c1'', vdExpiresAt = zero_time, vdInstanceKey = []\<rparr>"

lemma example_authenticated:
  assumes "param params ''client_id'' = ''c1''" "param params ''client_assertion'' = []" "param params ''client_assertion_type'' = []"
  shows "authenticateRequest example_server params example_credentials es ms w = (Inr (example_client, [], example_verified), w)"
proof -
  have "verifyClientCertificate example_server example_client example_certificate w = (Inr (), w)"
    using example_thumbprint_ne
    by (simp add: verifyClientCertificate_def example_client_def matchesRegisteredThumbprint_def
        example_certificate_thumbprint ExpectedCertificateThumbprints_def require_def liftS_def)
  moreover have "resolve_client example_server ''c1'' w = (Inr example_client, w)"
    by (simp add: resolve_client_def example_defs answers_def effect_steps)
  ultimately have "authenticateClientViaCertificate example_server ''c1'' (Some example_certificate) w = (Inr (example_client, example_verified), w)"
    by (simp add: authenticateClientViaCertificate_def effect_steps require_def example_verified_def)
      (simp add: example_client_def isCertificateAuthMethod_def)
  then show ?thesis
    by (simp add: authenticateRequest_def example_credentials_def resolveDPoPProof_def ResolveHeaderValues_def
        resolveAttestationHeaders_def authenticateClient_def assms effect_steps)
qed

definition example_request :: "string assoc \<Rightarrow> token_request" where
  "example_request params = \<lparr>tqParams = params, tqResources = [], tqClient = example_client, tqProof = [], tqInstanceKey = []\<rparr>"

lemma example_resources_off: "takeResourceParameters example_server ps = (fst (splitResourceParameters ps), [])"
  by (simp add: takeResourceParameters_def resourceIndicatorsEnabled_def example_defs example_config_def split: prod.split)

definition example_presented :: code_request where
  "example_presented = \<lparr>cqCode = ''abc'', cqRedirectURI = ''https://c.example/cb'', cqCodeVerifier = example_verifier, cqDetails = None\<rparr>"

lemma example_verifier_ne: "example_verifier \<noteq> []" by (simp add: example_verifier_def)

lemma example_params: "formParametersToMap (fst (splitResourceParameters example_code_request)) = Inr example_code_request"
  by (simp add: example_code_request_def splitResourceParameters_def formParametersToMap_def maxFormParameters_def
      maxFormParameterBytes_def maxFormRequestBytes_def resourceParameter_def example_verifier_def)

lemma example_param:
  "param example_code_request ''grant_type'' = ''authorization_code''" "param example_code_request ''client_id'' = ''c1''"
  "param example_code_request ''client_assertion'' = []" "param example_code_request ''client_assertion_type'' = []"
  "param example_code_request ''code'' = ''abc''" "param example_code_request ''redirect_uri'' = ''https://c.example/cb''"
  "param example_code_request ''code_verifier'' = example_verifier"
  "map_of example_code_request authorizationDetailsParameter = None"
  by (simp_all add: param_def example_code_request_def authorizationDetailsParameter_def)

lemma example_codeExchangeParameters: "codeExchangeParameters example_server example_code_request = Inr example_presented"
  by (simp add: codeExchangeParameters_def example_param require_def tokenRequestAuthorizationDetails_def example_presented_def
      example_verifier_ne)

lemma example_presented_hash: "presented_code_hash example_server (example_request ps) example_presented = example_code_hash"
  by (simp add: presented_code_hash_def example_request_def example_presented_def example_code_hash_def example_server_def
      server_with_def sv_crypto_def example_env_def)

lemma example_binding:
  "verifyTokenRequestBinding example_server example_client [] (Some example_certificate) rw = (Inr example_thumbprint, rw)"
  by (simp add: verifyTokenRequestBinding_def example_client_def example_certificate_thumbprint [unfolded example_client_def] liftS_def)

lemma example_begun:
  "code_exchange_begin example_server example_code_request example_credentials (r, w) =
     (Inr (example_request example_code_request, example_presented, example_thumbprint), (r, w))"
proof -
  have "begin_token_request example_server ''authorization_code'' example_code_request example_credentials [] [] (r, w) =
      (Inr (example_request example_code_request), (r, w))"
    by (simp add: begin_token_request_def example_resources_off example_params example_param require_def effect_steps
        example_authenticated example_request_def example_verified_def)
  then show ?thesis
    by (simp add: code_exchange_begin_def effect_steps example_request_def example_credentials_def example_binding
        example_codeExchangeParameters)
qed


lemma example_code_decoded: "decodeOwnGrantRecord example_server (Some example_grant_json) = Inr example_grant"
  by code_simp

definition example_redeemed :: RedeemedGrant where
  "example_redeemed = \<lparr>rgClientID = ''c1'', rgGrant = Some example_grant_json, rgExpiresAt = 150 * second\<rparr>"

definition world_spent :: example_world where
  "world_spent = example_world_0\<lparr>ewGrants := (ewGrants example_world_0)\<lparr>gsCodeRedeemed := (\<lambda>h. h = example_code_hash)\<rparr>\<rparr>"

lemma example_redeems:
  "gtRedeemCode (sdGrants (svDeps example_server)) \<lparr>crCodeHash = example_code_hash, crClientID = ''c1''\<rparr> example_world_0 =
     (Inr example_redeemed, world_spent)"
  by (simp add: example_defs memstore_grants_def world_grants_def RedeemAuthorizationCode_def example_world_0_def
      CreateAuthorizationCode_def NewGrantStore_def example_redeemed_def world_spent_def Let_def fun_upd_def)

definition example_code_grant :: grantRecord where
  "example_code_grant = with_code_grant example_server example_code_hash example_grant"

definition example_reader :: "example_world revocation_reader" where
  "example_reader = \<lparr>rvIsRevoked = (\<lambda>k w. (Inr (IsRevoked k (ewRevoked w)), w)), rvIsAnyRevoked = None\<rparr>"

lemma example_reads_revocation: "grantRevocationReader example_server = Some example_reader"
  by (simp add: grantRevocationReader_def example_defs memstore_revocation_def example_reader_def world_revoked_def)

lemma example_not_revoked:
  assumes "ewRevoked w = Map.empty"
  shows "server_checkGrantNotRevoked example_server g w = (Inr (), w)"
proof -
  have "each_revoked (rvIsRevoked example_reader) ks w = (Inr False, w)" for ks
    by (induction ks) (simp_all add: example_reader_def IsRevoked_def assms effect_steps)
  then have "anyRevoked example_reader ks w = (Inr False, w)" for ks
    by (simp add: anyRevoked_def) (simp add: example_reader_def)
  then show ?thesis
    by (simp add: server_checkGrantNotRevoked_def example_reads_revocation effect_steps require_def)
qed

lemma example_pkce: "pkce_Verify server_crypto (encode_raw True (short_hash (string_bytes example_verifier))) S256 example_verifier = Inr ()"
  by (simp add: pkce_Verify_Inr validateVerifierSyntax_Inr example_verifier_def server_crypto_def isUnreservedChar_def list_all_iff)

lemma example_clock: "clock example_server w = (Inr example_now, w)"
  by (simp add: clock_def example_defs)

lemma example_code_usable:
  assumes "ewRevoked w = Map.empty"
  shows "redeemedCodeGrant example_server example_client example_redeemed example_code_hash example_presented example_thumbprint [] example_now w =
    (Inr example_code_grant, w)"
proof -
  have valid: "validateRedeemedAuthorizationCode (sv_crypto example_server) example_redeemed example_code_grant (rclID example_client)
      example_presented example_thumbprint example_now = Inr ()"
    using example_pkce
    by (simp add: validateRedeemedAuthorizationCode_def example_redeemed_def example_code_grant_def example_presented_def
        example_now_def second_def require_def example_grant_def grantRecord_zero_def example_client_def example_defs example_env_def)
  have uri: "HasRedirectURI p l example_client ''https://c.example/cb''" for p l
    by (simp add: HasRedirectURI_def example_client_def)
  have facts: "rgGrant example_redeemed = Some example_grant_json" "isKind example_grant grantKindAuthorizationCode"
      "issuedWithin (gnIssuedAt example_grant) l example_now" "checkCodeInstance example_code_grant [] = Inr ()"
      "AllowsAuthorizationCodeGrant example_client" "cqRedirectURI example_presented = ''https://c.example/cb''" for l
    by (simp_all add: example_redeemed_def isKind_def example_grant_def grantRecord_zero_def grantKindAuthorizationCode_def
        issuedWithin_def example_code_grant_def checkCodeInstance_def require_def AllowsAuthorizationCodeGrant_def
        example_client_def example_presented_def)
  show ?thesis
    unfolding redeemedCodeGrant_def with_code_grant_def [symmetric] Let_def
    by (simp add: facts example_code_decoded valid example_not_revoked [OF assms] uri require_def effect_steps
        example_code_grant_def [symmetric])
qed

lemma example_allowed:
  assumes "gnAuthorizationDetails g = None" "gnResources g = []" "gnClientSubject g = []"
  shows "allowedGrantAudience example_server example_client g [''accounts''] None [] w =
    (Inr (g, ''https://as.example'', []), w)"
proof -
  have "checkGrantStillAllowed example_server example_client g [''accounts''] = Inr ()"
    by (simp add: checkGrantStillAllowed_def checkGrantSubjectStillIssued_def assms effectiveSubjects_def PublicSubjects_def
        clientAllowsScope_def AllowsScope_def example_client_def require_def example_defs example_config_def)
  moreover have "checkRequestedResources example_server example_client [] w = (Inr [], w)"
    by (simp add: checkRequestedResources_def defaultResources_def resourceIndicatorsEnabled_def AllowedResources_def
        example_client_def example_defs example_config_def liftS_def)
  ultimately show ?thesis
    by (simp add: allowedGrantAudience_def narrowedAccessGrant_def narrowedAudience_def accessTokenGrant_def assms
        narrowResources_def server_accessTokenAudience_def effect_steps)
      (simp add: example_defs example_config_def)
qed

lemma example_code_allowed:
  "allowedGrantAudience example_server example_client example_code_grant [''accounts''] None [] w =
    (Inr (example_code_grant, ''https://as.example'', []), w)"
  by (rule example_allowed) (simp_all add: example_code_grant_def example_grant_def grantRecord_zero_def with_code_grant_def)

definition example_token :: string where "example_token = encode_raw True (replicate 32 7)"

lemma example_token_length: "length example_token = 43"
  by (simp add: example_token_def length_encode_raw)

lemma example_token_issued:
  assumes "claimsSize example_env (atpClaims p) \<le> 4096" "atpIssuer p \<noteq> []"
  shows "\<exists>key tokens. server_issueAccessToken example_server p w = (Inr (example_token, key), w\<lparr>ewTokens := tokens\<rparr>)"
proof -
  have random: "generateRandomToken (server_with (\<lambda>_. answers None)) opaqueAccessTokenSize w = (Inr example_token, w)"
    by (simp add: generateRandomToken_def opaqueAccessTokenSize_def server_with_def deps_with_def example_token_def)
  have "\<exists>key tokens. example_issue p w = (Inr (example_token, key), w\<lparr>ewTokens := tokens\<rparr>)"
    by (simp add: example_issue_def opaque_IssueAccessToken_def require_def assms(2) random effect_steps done_to_def world_tokens_def)
      (cases w, auto)
  moreover have "slMaxAccessTokenClaimsBytes (sv_limits example_server) = 4096" "svEnv example_server = example_env"
      "sdAccessTokens (svDeps example_server) = example_issue"
    by (simp_all add: example_defs example_config_def example_limits_def)
  moreover have "int (length example_token) \<le> MaxAccessTokenBytes (sv_limits example_server)"
    by (simp add: example_token_length MaxAccessTokenBytes_def defaultMaxAccessTokenBytes_def Let_def)
  ultimately show ?thesis
    using assms(1) by (auto simp: server_issueAccessToken_def require_def effect_steps)
qed

definition example_result :: TokenResult where
  "example_result = token_result example_server example_client [''accounts''] None example_token None None []"

lemma example_exchanged:
  "\<exists>w'. ExchangeAuthorizationCode example_server example_code_request example_credentials (no_nonce, example_world_0) =
     (Inr example_result, (no_nonce, w'))"
proof -
  let ?p = "grant_token_params example_server example_client example_code_grant example_code_grant [''accounts''] example_thumbprint
    ''https://as.example'' [] example_now"
  have fields: "gnScope example_code_grant = [''accounts'']" "gnAuthorizationDetails example_code_grant = None"
    by (simp_all add: example_code_grant_def example_grant_def grantRecord_zero_def)
  have client: "rclID example_client = ''c1''" by (simp add: example_client_def)
  have "redeem_code example_server example_client example_code_hash example_world_0 = (Inr example_redeemed, world_spent)"
    by (simp add: redeem_code_def example_redeems client)
  moreover have "ewRevoked world_spent = Map.empty" by (simp add: world_spent_def example_world_0_def)
  moreover obtain key tokens where "server_issueAccessToken example_server ?p world_spent = (Inr (example_token, key), world_spent\<lparr>ewTokens := tokens\<rparr>)"
  proof -
    obtain cg where cg: "gnCodeGrantID example_code_grant = cg" by blast
    have "gnRequestedUserinfoClaims example_code_grant = []" "gnTokenClaims example_code_grant = []"
        "gnAuthorizationDetails example_code_grant = None" "gnGrantID example_code_grant = []" "gnClientSubject example_code_grant = []"
      by (simp_all add: example_code_grant_def with_code_grant_def example_grant_def grantRecord_zero_def)
    then have "accessTokenClaims example_code_grant = withManagedClaim [] CodeClaim cg"
      by (simp add: accessTokenClaims_def Let_def cg withRequestedUserinfoClaims_def withAuthorizationDetails_def withManagedClaim_def)
    then have "claimsSize example_env (atpClaims ?p) \<le> 4096"
      by (simp add: grant_token_params_def withManagedClaim_def claimsSize_def CodeClaim_def example_env_def)
    moreover have "atpIssuer ?p \<noteq> []" by (simp add: grant_token_params_def example_defs example_config_def)
    ultimately have small: "claimsSize example_env (atpClaims ?p) \<le> 4096" "atpIssuer ?p \<noteq> []" by blast+
    from example_token_issued [OF small, of world_spent] show thesis using that by blast
  qed
  moreover have "gtRecordTokens (sdGrants (svDeps example_server)) = None"
    by (simp add: example_defs memstore_grants_def)
  ultimately have "\<exists>w'. issueCodeExchangeTokens example_server example_client example_code_grant ?p b example_code_hash world_spent
      = (Inr (example_token, None, None), w')" for b
    by (simp add: issueCodeExchangeTokens_def Let_def effect_steps attempt_def optional_id_token_def issueOptionalRefreshToken_def
        containsScope_def fields)
  then obtain w' where issued: "issueCodeExchangeTokens example_server example_client example_code_grant ?p
      \<lparr>rbThumbprint = example_thumbprint, rbInstanceKey = []\<rparr> example_code_hash world_spent = (Inr (example_token, None, None), w')"
    by blast
  have "nextDPoPNonce example_server example_client now rw = (Inr [], rw)" for now rw
    by (simp add: nextDPoPNonce_def example_client_def liftS_def)
  moreover have "redeem_code example_server example_client example_code_hash example_world_0 = (Inr example_redeemed, world_spent)"
    by (simp add: redeem_code_def example_redeems client)
  moreover have "redeemedCodeGrant example_server example_client example_redeemed example_code_hash example_presented example_thumbprint []
      example_now world_spent = (Inr example_code_grant, world_spent)"
    by (rule example_code_usable) (simp add: world_spent_def example_world_0_def)
  moreover have "tqClient (example_request ps) = example_client" "tqInstanceKey (example_request ps) = []" "tqResources (example_request ps) = []" for ps
    by (simp_all add: example_request_def)
  moreover have "cqDetails example_presented = None" by (simp add: example_presented_def)
  ultimately have "code_exchange_finish example_server (example_request ps) example_presented example_thumbprint (no_nonce, example_world_0) =
      (Inr (example_client, example_result), (no_nonce, w'))" for ps
    by (simp add: code_exchange_finish_def code_exchange_tokens_def Let_def effect_steps example_presented_hash fields example_clock
        example_code_allowed issued example_result_def)
  then have "code_exchange example_server example_code_request example_credentials (no_nonce, example_world_0) =
      (Inr (example_client, example_result), (no_nonce, w'))"
    by (simp add: code_exchange_def bindS_def example_begun)
  moreover have "audit example_server e c oc d w = w" for e c oc d w
    by (simp add: audit_def example_defs)
  ultimately show ?thesis
    by (simp add: ExchangeAuthorizationCode_def token_handler_def)
qed

section \<open>The witnesses\<close>

lemma code_exchange_sound_witness:
  "\<exists>q p redeemed g. request_begun example_server ''authorization_code'' example_code_request example_credentials [] [] q \<and>
     token_issued example_server p example_token \<and> atpClientID p = rclID (tqClient q) \<and>
     code_matches example_server (tqClient q) redeemed example_presented (atpThumbprint p) (tqInstanceKey q) (atpNow p) g"
proof -
  obtain w' where ex: "ExchangeAuthorizationCode example_server example_code_request example_credentials (no_nonce, example_world_0) =
     (Inr example_result, (no_nonce, w'))"
    using example_exchanged by blast
  have tok: "trAccessToken example_result = example_token" by (simp add: example_result_def token_result_def)
  from code_exchange_sound [OF ex] obtain q presented thumbprint redeemed g p now where
    a: "request_begun example_server ''authorization_code'' example_code_request example_credentials [] [] q"
      "codeExchangeParameters example_server (tqParams q) = Inr presented"
      "code_matches example_server (tqClient q) redeemed presented thumbprint (tqInstanceKey q) now g"
      "token_issued example_server p example_token" "atpClientID p = rclID (tqClient q)" "atpThumbprint p = thumbprint" "atpNow p = now"
    unfolding tok by blast
  have "tqParams q = example_code_request"
    using a(1) example_params by (simp add: request_begun_def example_resources_off)
  then have "presented = example_presented" using a(2) example_codeExchangeParameters by simp
  with a show ?thesis by blast
qed

lemma example_exchanged_code:
  "exchanged_code example_server (no_nonce, example_world_0) (ExchangeOp example_code_request example_credentials) = Some example_code_hash"
  using example_exchanged by (auto simp: exchanged_code_def example_begun example_presented_hash)

lemma code_exchanged_once_witness:
  "let op = ExchangeOp example_code_request example_credentials in
     exchanged_code example_server (no_nonce, example_world_0) op = Some example_code_hash \<and>
     exchanged_code example_server (snd (token_step example_server op (no_nonce, example_world_0))) op \<noteq> Some example_code_hash"
  using code_exchanged_once [OF example_spends_codes, where ops = "[]" and rw = "(no_nonce, example_world_0)"
      and op = "ExchangeOp example_code_request example_credentials" and h = example_code_hash
      and op' = "ExchangeOp example_code_request example_credentials"] example_exchanged_code
  by (simp add: Let_def)

definition world_used :: example_world where
  "world_used = world_spent\<lparr>ewGrants := RecordIssuedAccessToken example_code_hash ''k'' (ewGrants world_spent)\<rparr>"

lemma code_reuse_revokes_witness:
  "\<exists>e rw'. ExchangeAuthorizationCode example_server example_code_request example_credentials (no_nonce, world_used) = (Inl e, rw') \<and>
     svCode e = ErrorInvalidGrant \<and> IsRevoked ''k'' (ewRevoked (snd rw'))"
proof -
  have client: "rclID example_client = ''c1''" by (simp add: example_client_def)
  have q: "tqClient (example_request example_code_request) = example_client" by (simp add: example_request_def)
  have "gtRedeemCode (sdGrants (svDeps example_server))
      \<lparr>crCodeHash = presented_code_hash example_server (example_request example_code_request) example_presented,
       crClientID = rclID (tqClient (example_request example_code_request))\<rparr> world_used =
      (Inl (AlreadyRedeemed ''k'' None ''c1''), world_used)"
    unfolding example_presented_hash q client
    by (simp add: example_defs memstore_grants_def world_grants_def RedeemAuthorizationCode_def world_used_def world_spent_def
        RecordIssuedAccessToken_def example_world_0_def CreateAuthorizationCode_def NewGrantStore_def Let_def)
  from code_reuse_revokes [OF example_begun [of no_nonce world_used] this example_revokes]
  show ?thesis by (simp add: q client) blast
qed

section \<open>A refreshed token\<close>

definition example_refresh_json :: json where
  "example_refresh_json = JObj [(''v'', JNum False 1 None), (''kind'', JStr grantKindRefreshToken),
     (''iss'', JStr ''https://as.example''), (''sub'', JStr ''alice''),
     (''scope'', JArr [JStr ''accounts'', JStr ''offline_access'']), (''auth_time'', JStr [char_of (50 :: nat)]),
     (''grant_type'', JStr ''authorization_code''), (''issued_at'', JStr [char_of (90 :: nat)])]"

definition example_refresh_grant :: grantRecord where
  "example_refresh_grant = grantRecord_zero\<lparr>gnVersion := 1, gnKind := grantKindRefreshToken, gnIssuer := ''https://as.example'',
     gnSubject := ''alice'', gnScope := [''accounts'', ''offline_access''], gnAuthTime := 50 * second,
     gnGrantType := ''authorization_code'', gnIssuedAt := Some (90 * second)\<rparr>"

lemma example_refresh_decoded: "decodeOwnGrantRecord example_server (Some example_refresh_json) = Inr example_refresh_grant"
  by code_simp

definition example_refresh_request :: "FormParameter list" where
  "example_refresh_request = [(''grant_type'', ''refresh_token''), (''client_id'', ''c1''), (''refresh_token'', ''r1''),
     (''scope'', ''accounts'')]"

definition world_refresh :: example_world where
  "world_refresh = example_world_0\<lparr>ewGrants := CreateRefreshToken
     \<lparr>rtTokenHash = short_hash (string_bytes ''r1''), rtClientID = ''c1'', rtGrant = Some example_refresh_json,
      rtExpiresAt = 500 * second\<rparr> NewGrantStore\<rparr>"

lemma example_refresh_params:
  "formParametersToMap (fst (splitResourceParameters example_refresh_request)) = Inr example_refresh_request"
  by (simp add: example_refresh_request_def splitResourceParameters_def formParametersToMap_def maxFormParameters_def
      maxFormParameterBytes_def maxFormRequestBytes_def resourceParameter_def)

lemma example_refresh_param:
  "param example_refresh_request ''grant_type'' = ''refresh_token''" "param example_refresh_request ''client_id'' = ''c1''"
  "param example_refresh_request ''client_assertion'' = []" "param example_refresh_request ''client_assertion_type'' = []"
  "param example_refresh_request ''refresh_token'' = ''r1''" "param example_refresh_request ''scope'' = ''accounts''"
  "map_of example_refresh_request authorizationDetailsParameter = None"
  by (simp_all add: param_def example_refresh_request_def authorizationDetailsParameter_def)

lemma example_refresh_usable:
  "redeemRefreshGrantFor example_server example_client [] ''r1'' world_refresh = (Inr (example_refresh_grant, example_now), world_refresh)"
proof -
  let ?r = "\<lparr>rgClientID = ''c1'', rgGrant = Some example_refresh_json, rgExpiresAt = 500 * second\<rparr>"
  have redeem: "gtRedeemRefresh (sdGrants (svDeps example_server)) (sha256 (sv_crypto example_server) (string_bytes ''r1'')) world_refresh =
      (Inr ?r, world_refresh)"
    by (simp add: example_defs memstore_grants_def world_grants_def RedeemRefreshToken_def world_refresh_def
        CreateRefreshToken_def NewGrantStore_def example_env_def server_crypto_def)
  have facts: "isKind example_refresh_grant grantKindRefreshToken" "checkRefreshInstance example_refresh_grant [] = Inr ()"
      "issuedWithin (gnIssuedAt example_refresh_grant) (slRefreshTokenLifetime (sv_limits example_server)) example_now"
      "checkGrantTypeStillAllowed example_server example_client example_refresh_grant = Inr ()"
      "rclID example_client = ''c1''" "example_now < 500 * second"
    by (simp_all add: isKind_def example_refresh_grant_def grantRecord_zero_def grantKindRefreshToken_def issuedWithin_def
        checkRefreshInstance_def checkGrantTypeStillAllowed_def AllowsAuthorizationCodeGrant_def example_client_def require_def
        example_now_def second_def example_defs example_config_def example_limits_def)
  have "ewRevoked world_refresh = Map.empty" by (simp add: world_refresh_def example_world_0_def)
  then show ?thesis
    by (simp add: redeemRefreshGrantFor_def redeemRefreshGrant_def effect_steps redeem facts require_def example_clock
        example_refresh_decoded example_not_revoked)
qed

lemma example_refresh_scope:
  "refreshScope example_refresh_request example_refresh_grant example_client = Inr [''accounts'']"
proof -
  have words: "strings_Fields ''accounts'' = [''accounts'']"
    "strings_Fields ''accounts offline_access'' = [''accounts'', ''offline_access'']"
    "join_space [''accounts'', ''offline_access''] = ''accounts offline_access''"
    by code_simp+
  have "checkScopeLength (length ''accounts'') example_client = Inr ()"
    by (simp add: checkScopeLength_def scopeBound_def maxAuthorizationTextParameterBytes_def require_def)
  then show ?thesis
    unfolding refreshScope_def Let_def example_refresh_param
    by (simp add: words validateGrantedScopeSubset_def example_refresh_grant_def grantRecord_zero_def require_def)
qed

definition example_refreshed :: TokenResult where
  "example_refreshed = token_result example_server example_client [''accounts''] None example_token None (Some ''r1'') []"

lemma example_refreshes:
  "\<exists>w'. RefreshAccessToken example_server example_refresh_request example_credentials (no_nonce, world_refresh) =
     (Inr example_refreshed, (no_nonce, w'))"
proof -
  let ?g = example_refresh_grant
  let ?p = "grant_token_params example_server example_client ?g ?g [''accounts''] example_thumbprint ''https://as.example'' [] example_now"
  have fields: "gnAuthorizationDetails ?g = None" "gnResources ?g = []" "gnClientSubject ?g = []"
      "gnRequestedUserinfoClaims ?g = []" "gnTokenClaims ?g = []" "gnGrantID ?g = []" "gnCodeGrantID ?g = []"
    by (simp_all add: example_refresh_grant_def grantRecord_zero_def)
  then have "accessTokenClaims ?g = []"
    by (simp add: accessTokenClaims_def Let_def withRequestedUserinfoClaims_def withAuthorizationDetails_def withManagedClaim_def)
  then have small: "claimsSize example_env (atpClaims ?p) \<le> 4096" "atpIssuer ?p \<noteq> []"
    by (simp_all add: grant_token_params_def claimsSize_def example_defs example_config_def)
  obtain key tokens where issued: "server_issueAccessToken example_server ?p world_refresh
      = (Inr (example_token, key), world_refresh\<lparr>ewTokens := tokens\<rparr>)"
    using example_token_issued [OF small] by blast
  have begun: "begin_token_request example_server ''refresh_token'' example_refresh_request example_credentials es ms rw =
      (Inr (example_request example_refresh_request), rw)" for es ms rw
    by (cases rw) (simp add: begin_token_request_def example_resources_off example_refresh_params example_refresh_param require_def
        effect_steps example_authenticated example_request_def example_verified_def)
  have parameters: "refreshParameters example_server example_refresh_request = Inr (''r1'', None)"
    by (simp add: refreshParameters_def example_refresh_param require_def tokenRequestAuthorizationDetails_def)
  have allowed: "allowedGrantAudience example_server example_client ?g [''accounts''] None [] w = (Inr (?g, ''https://as.example'', []), w)" for w
    by (rule example_allowed) (simp_all add: fields)
  have request: "tqClient (example_request ps) = example_client" "tqInstanceKey (example_request ps) = []"
      "tqResources (example_request ps) = []" "tqParams (example_request ps) = ps" "tqProof (example_request ps) = []" for ps
    by (simp_all add: example_request_def)
  have peer: "rqcPeerCertificate example_credentials = Some example_certificate" by (simp add: example_credentials_def)
  have nonce: "nextDPoPNonce example_server example_client now rw = (Inr [], rw)" for now rw
    by (simp add: nextDPoPNonce_def example_client_def liftS_def)
  have "refresh_exchange example_server example_refresh_request example_credentials (no_nonce, world_refresh) =
      (Inr (example_client, example_refreshed), (no_nonce, world_refresh\<lparr>ewTokens := tokens\<rparr>))"
    by (simp add: refresh_exchange_def Let_def effect_steps begun parameters request peer example_binding example_refresh_usable
        example_refresh_scope allowed issued nonce optional_id_token_def containsScope_def fields example_refreshed_def)
  moreover have "audit example_server e c oc d w = w" for e c oc d w
    by (simp add: audit_def example_defs)
  ultimately show ?thesis
    by (simp add: RefreshAccessToken_def token_handler_def)
qed

lemma refresh_never_widens_witness:
  "\<exists>q p (g :: grantRecord). request_begun example_server ''refresh_token'' example_refresh_request example_credentials [None] [None] q \<and>
     token_issued example_server p example_token \<and> atpClientID p = rclID (tqClient q) \<and>
     join_space (atpScope p) = ''accounts'' \<and>
     (atpScope p = gnScope g \<or> set (atpScope p) \<subseteq> set (strings_Fields (join_space (gnScope g))))"
proof -
  obtain w' where ex: "RefreshAccessToken example_server example_refresh_request example_credentials (no_nonce, world_refresh) =
     (Inr example_refreshed, (no_nonce, w'))"
    using example_refreshes by blast
  have tok: "trAccessToken example_refreshed = example_token" and scope: "trScope example_refreshed = ''accounts''"
    by (simp_all add: example_refreshed_def token_result_def)
  have none: "scTokenEndpoint (svConfig example_server) = None" "scMTLSTokenEndpoint (svConfig example_server) = None"
    by (simp_all add: example_defs example_config_def)
  from refresh_never_widens [OF ex, unfolded tok scope none] obtain q p scope and g :: grantRecord where
    "request_begun example_server ''refresh_token'' example_refresh_request example_credentials [None] [None] q"
    "token_issued example_server p example_token" "atpClientID p = rclID (tqClient q)" and
    sc: "atpScope p = scope" "''accounts'' = join_space scope"
      "scope = gnScope g \<or> set scope \<subseteq> set (strings_Fields (join_space (gnScope g)))"
    by (elim exE conjE) (rule that)
  moreover from this have "join_space (atpScope p) = ''accounts'' \<and>
      (atpScope p = gnScope g \<or> set (atpScope p) \<subseteq> set (strings_Fields (join_space (gnScope g))))"
    by (simp only: sc simp_thms)
  ultimately show ?thesis
    by (intro exI conjI) (assumption | simp only: simp_thms)+
qed

end
