(* ===== verification/Fapi_Url.thy ===== *)
theory Fapi_Url
  imports Registered_Client Canonical_Uri
begin

text \<open>
  Where a browser may be sent, and how parameters travel there: the validated URLs of
  \<^verbatim>\<open>url.go\<close>, \<^verbatim>\<open>internal/querystring\<close>, and the forms and request URIs of
  \<^verbatim>\<open>internal/par\<close>. \<open>parse\<close> is \<^verbatim>\<open>url.Parse\<close>, \<open>loopback\<close> the test for a loopback host.
\<close>

section \<open>Validated URLs\<close>

text \<open>The two options of \<^verbatim>\<open>URLOption\<close>.\<close>

record url_options =
  allowLoopbackHTTP :: bool
  allowPrivateUseScheme :: bool

definition isLabelRune :: "char \<Rightarrow> bool" where
  "isLabelRune c \<longleftrightarrow>
     (let n = (of_char c :: nat) in 97 \<le> n \<and> n \<le> 122 \<or> 65 \<le> n \<and> n \<le> 90 \<or> 48 \<le> n \<and> n \<le> 57 \<or> n = 45)"

fun split_at :: "char \<Rightarrow> string \<Rightarrow> string list" where
  "split_at d [] = [[]]"
| "split_at d (c # cs) =
     (if c = d then [] # split_at d cs
      else case split_at d cs of [] \<Rightarrow> [[c]] | w # ws \<Rightarrow> (c # w) # ws)"

definition isReverseDomainScheme :: "string \<Rightarrow> bool" where
  "isReverseDomainScheme scheme \<longleftrightarrow>
     (let labels = split_at (CHR ''.'') scheme in
      2 \<le> length labels \<and>
      list_all (\<lambda>label. label \<noteq> [] \<and> hd label \<noteq> CHR ''-'' \<and> last label \<noteq> CHR ''-'' \<and> list_all isLabelRune label) labels)"

definition parsePrivateUseURL :: "string \<Rightarrow> url \<Rightarrow> url option" where
  "parsePrivateUseURL raw parsed =
     (if \<not> isReverseDomainScheme (uScheme parsed) then None
      else if uOpaque parsed \<noteq> [] \<or> uHost parsed \<noteq> [] \<or> uHasUser parsed \<or> \<not> has_prefix (uPath parsed) ''/''
        \<or> has_prefix (uPath parsed) ''//'' \<or> has_prefix (url_String parsed) (uScheme parsed @ ''://'') then None
      else if contains_hash raw then None
      else Some parsed)"

definition parseSecureURL :: "(string \<Rightarrow> url option) \<Rightarrow> (string \<Rightarrow> bool) \<Rightarrow> string \<Rightarrow> url_options \<Rightarrow> url option" where
  "parseSecureURL parse loopback raw opts =
     (if raw = [] then None
      else case parse raw of
        None \<Rightarrow> None
      | Some u \<Rightarrow>
          if uScheme u = [] then None
          else if uHost u = [] then None
          else if \<not> IsASCII (uHost u) then None
          else if uHasUser u then None
          else if contains_hash raw then None
          else if uScheme u = ''https'' \<or> uScheme u = ''http'' \<and> allowLoopbackHTTP opts \<and> loopback (Hostname u)
          then Some (u\<lparr>uScheme := LowerASCII (uScheme u), uHost := LowerASCII (uHost u)\<rparr>)
          else None)"

definition ParseRedirectURL :: "(string \<Rightarrow> url option) \<Rightarrow> (string \<Rightarrow> bool) \<Rightarrow> string \<Rightarrow> url_options
    \<Rightarrow> url option" where
  "ParseRedirectURL parse loopback raw opts =
     (case (if allowPrivateUseScheme opts then parse raw else None) of
        Some parsed \<Rightarrow>
          if uScheme parsed \<noteq> ''http'' \<and> uScheme parsed \<noteq> ''https'' \<and> uScheme parsed \<noteq> []
          then parsePrivateUseURL raw parsed
          else parseSecureURL parse loopback raw opts
      | None \<Rightarrow> parseSecureURL parse loopback raw opts)"

definition ParseEndpointURL :: "(string \<Rightarrow> url option) \<Rightarrow> (string \<Rightarrow> bool) \<Rightarrow> string \<Rightarrow> url_options \<Rightarrow> url option" where
  "ParseEndpointURL parse loopback raw opts = parseSecureURL parse loopback raw opts"

definition ParseIssuerURL :: "(string \<Rightarrow> url option) \<Rightarrow> (string \<Rightarrow> bool) \<Rightarrow> string \<Rightarrow> url_options \<Rightarrow> url option" where
  "ParseIssuerURL parse loopback raw opts =
     (case parseSecureURL parse loopback raw opts of
        None \<Rightarrow> None
      | Some u \<Rightarrow> if uRawQuery u \<noteq> [] \<or> uForceQuery u then None else Some u)"

text \<open>What a redirect can be: encrypted, to the machine itself, or to an app under its own scheme.\<close>

lemma ParseRedirectURL_safe:
  assumes "ParseRedirectURL parse loopback raw opts = Some u"
  shows "\<not> uHasUser u \<and> \<not> contains_hash raw \<and>
    (uScheme u = ''https'' \<and> uHost u \<noteq> [] \<or>
     uScheme u = ''http'' \<and> allowLoopbackHTTP opts \<and> (\<exists>v. parse raw = Some v \<and> loopback (Hostname v)) \<or>
     allowPrivateUseScheme opts \<and> isReverseDomainScheme (uScheme u) \<and> uHost u = [])"
proof -
  have secure: "\<not> uHasUser u \<and> \<not> contains_hash raw \<and> uHost u \<noteq> [] \<and>
      (uScheme u = ''https'' \<or>
       uScheme u = ''http'' \<and> allowLoopbackHTTP opts \<and> (\<exists>v. parse raw = Some v \<and> loopback (Hostname v)))"
    if "parseSecureURL parse loopback raw opts = Some u"
  proof -
    have lower: "LowerASCII ''https'' = ''https''" "LowerASCII ''http'' = ''http''"
      by code_simp+
    have ne: "LowerASCII s = [] \<longleftrightarrow> s = []" for s by (simp add: LowerASCII_map)
    from that obtain v where v: "parse raw = Some v" "uHost v \<noteq> []" "\<not> uHasUser v" "\<not> contains_hash raw"
        "uScheme v = ''https'' \<or> uScheme v = ''http'' \<and> allowLoopbackHTTP opts \<and> loopback (Hostname v)"
        "u = v\<lparr>uScheme := LowerASCII (uScheme v), uHost := LowerASCII (uHost v)\<rparr>"
      unfolding parseSecureURL_def by (simp split: option.splits if_splits)
    then show ?thesis by (auto simp: lower ne simp del: LowerASCII.simps)
  qed
  have own_scheme: "\<not> uHasUser u \<and> \<not> contains_hash raw \<and> isReverseDomainScheme (uScheme u) \<and> uHost u = []"
    if "parsePrivateUseURL raw v = Some u" for v
    using that unfolding parsePrivateUseURL_def by (simp split: if_splits)
  show ?thesis
  proof (cases "\<exists>v. allowPrivateUseScheme opts \<and> parsePrivateUseURL raw v = Some u")
    case True
    then show ?thesis using own_scheme by blast
  next
    case False
    then have "parseSecureURL parse loopback raw opts = Some u"
      using assms unfolding ParseRedirectURL_def by (simp split: option.splits if_splits)
    then show ?thesis using secure by blast
  qed
qed

section \<open>Queries\<close>

text \<open>\<^verbatim>\<open>querystring.Append\<close>, which keeps what is there to the byte.\<close>

definition query_Append :: "string \<Rightarrow> string \<Rightarrow> string" where
  "query_Append raw add =
     (if add = [] then raw
      else if raw = [] then add
      else if last raw = CHR ''&'' then raw @ add
      else raw @ ''&'' @ add)"

definition WithAddedQuery :: "url \<Rightarrow> string \<Rightarrow> url" where
  "WithAddedQuery u encoded = u\<lparr>uRawQuery := query_Append (uRawQuery u) encoded\<rparr>"

text \<open>
  \<^verbatim>\<open>url.QueryEscape\<close> and \<^verbatim>\<open>url.QueryUnescape\<close>, \<^verbatim>\<open>url.Values.Encode\<close>
  for names with one value each, and \<^verbatim>\<open>url.ParseQuery\<close>.
\<close>

definition escape_char :: "char \<Rightarrow> string" where
  "escape_char c =
     (if isUnreserved c then [c]
      else if c = CHR '' '' then ''+''
      else [CHR ''%'', hex_digit (char_code c div 16), hex_digit (char_code c mod 16)])"

definition QueryEscape :: "string \<Rightarrow> string" where
  "QueryEscape s = concat (map escape_char s)"

fun QueryUnescape :: "string \<Rightarrow> string option" where
  "QueryUnescape [] = Some []"
| "QueryUnescape (c # cs) =
     (if c = CHR ''%'' then
        (case cs of
           a # b # rest \<Rightarrow>
             if isHex a \<and> isHex b then map_option ((#) (char_of (unhex a * 16 + unhex b))) (QueryUnescape rest) else None
         | _ \<Rightarrow> None)
      else map_option ((#) (if c = CHR ''+'' then CHR '' '' else c)) (QueryUnescape cs))"

fun join_with :: "string \<Rightarrow> string list \<Rightarrow> string" where
  "join_with sep [] = []"
| "join_with sep [s] = s"
| "join_with sep (s # t # ss) = s @ sep @ join_with sep (t # ss)"

definition encode_pair :: "string \<times> string \<Rightarrow> string" where
  "encode_pair = (\<lambda>(k, v). QueryEscape k @ ''='' @ QueryEscape v)"

definition query_Encode :: "string assoc \<Rightarrow> string" where
  "query_Encode values = join_with ''&'' (map encode_pair (sort_key fst values))"

definition cut_at :: "char \<Rightarrow> string \<Rightarrow> string \<times> string" where
  "cut_at d s = (takeWhile (\<lambda>c. c \<noteq> d) s, tl (dropWhile (\<lambda>c. c \<noteq> d) s))"

definition decode_pair :: "string \<Rightarrow> (string \<times> string) option" where
  "decode_pair part =
     (if CHR '';'' \<in> set part then None
      else let (k, v) = cut_at (CHR ''='') part in
        case (QueryUnescape k, QueryUnescape v) of (Some k, Some v) \<Rightarrow> Some (k, v) | _ \<Rightarrow> None)"

fun decode_pairs :: "string list \<Rightarrow> (string \<times> string) list option" where
  "decode_pairs [] = Some []"
| "decode_pairs (p # ps) =
     (if p = [] then decode_pairs ps
      else case decode_pair p of None \<Rightarrow> None | Some kv \<Rightarrow> map_option ((#) kv) (decode_pairs ps))"

text \<open>Nothing where \<^verbatim>\<open>ParseQuery\<close> reports an error.\<close>

definition query_Parse :: "string \<Rightarrow> (string \<times> string) list option" where
  "query_Parse s = (if s = [] then Some [] else decode_pairs (split_at (CHR ''&'') s))"

section \<open>Pushed authorization requests on the wire\<close>

datatype par_error = ErrFormTooLarge | ErrMalformedForm | ErrDuplicateParameter string

definition maxFormBytes :: nat where "maxFormBytes = 64 * 1024"

definition EncodeForm :: "string assoc \<Rightarrow> string" where
  "EncodeForm params = query_Encode params"

fun single_valued :: "string assoc \<Rightarrow> (string \<times> string) list \<Rightarrow> par_error + string assoc" where
  "single_valued params [] = Inr params"
| "single_valued params ((k, v) # rest) =
     (if map_of params k \<noteq> None then Inl (ErrDuplicateParameter k) else single_valued (params @ [(k, v)]) rest)"

definition DecodeForm :: "string \<Rightarrow> par_error + string assoc" where
  "DecodeForm body =
     (if maxFormBytes < length body then Inl ErrFormTooLarge
      else and_then (of_option ErrMalformedForm (query_Parse body)) (single_valued []))"

subsection \<open>Forms survive the wire\<close>

lemma hex_digit_hex:
  assumes "d < 16"
  shows "isHex (hex_digit d) \<and> unhex (hex_digit d) = d \<and> isUnreserved (hex_digit d)"
  using assms
  by (cases "d < 10") (simp_all add: isHex_def unhex_def hex_digit_def char_code_def isUnreserved_def between_def hex_value_def Let_def)

lemma char_code_halves: "char_code c div 16 < 16" "char_of (char_code c div 16 * 16 + char_code c mod 16) = c"
proof -
  have "char_code c < 256" by (simp add: char_code_def)
  then show "char_code c div 16 < 16" by simp
  show "char_of (char_code c div 16 * 16 + char_code c mod 16) = c" by (simp add: char_code_def)
qed

lemma reserved_delimiters:
  "\<not> isUnreserved (CHR ''&'')" "\<not> isUnreserved (CHR ''='')" "\<not> isUnreserved (CHR '';'')" "\<not> isUnreserved (CHR ''%'')"
  "\<not> isUnreserved (CHR ''+'')"
  by code_simp+

lemma escape_char_set: "x \<in> set (escape_char c) \<Longrightarrow> isUnreserved x \<or> x = CHR ''+'' \<or> x = CHR ''%''"
  using hex_digit_hex [of "char_code c div 16"] hex_digit_hex [of "char_code c mod 16"] char_code_halves(1) [of c]
  by (auto simp: escape_char_def split: if_splits)

lemma QueryEscape_delimiters:
  "CHR ''&'' \<notin> set (QueryEscape s)" "CHR ''='' \<notin> set (QueryEscape s)" "CHR '';'' \<notin> set (QueryEscape s)"
  using escape_char_set reserved_delimiters unfolding QueryEscape_def by fastforce+

lemma unescape_escape_char: "QueryUnescape (escape_char c @ s) = map_option ((#) c) (QueryUnescape s)"
proof -
  have hex: "isHex (hex_digit (char_code c div 16)) \<and> unhex (hex_digit (char_code c div 16)) = char_code c div 16"
      "isHex (hex_digit (char_code c mod 16)) \<and> unhex (hex_digit (char_code c mod 16)) = char_code c mod 16"
    using hex_digit_hex [of "char_code c div 16"] hex_digit_hex [of "char_code c mod 16"] char_code_halves(1) [of c] by simp_all
  show ?thesis
  proof (cases "isUnreserved c")
    case True
    then have "c \<noteq> CHR ''%'' \<and> c \<noteq> CHR ''+''" using reserved_delimiters by auto
    with True show ?thesis by (simp add: escape_char_def)
  next
    case False
    then show ?thesis using hex char_code_halves(2) [of c] by (cases "c = CHR '' ''") (simp_all add: escape_char_def)
  qed
qed

lemma unescape_escape [simp]: "QueryUnescape (QueryEscape s) = Some s"
  by (induction s) (simp_all add: QueryEscape_def unescape_escape_char)

lemma split_at_free: "d \<notin> set s \<Longrightarrow> split_at d s = [s]"
  by (induction s) auto

lemma split_at_append: "d \<notin> set s \<Longrightarrow> split_at d (s @ d # t) = s # split_at d t"
  by (induction s) auto

lemma split_join:
  "ws \<noteq> [] \<Longrightarrow> (\<And>w. w \<in> set ws \<Longrightarrow> d \<notin> set w) \<Longrightarrow> split_at d (join_with [d] ws) = ws"
  by (induction "[d]" ws rule: join_with.induct) (simp_all add: split_at_free split_at_append)

lemma encode_pair_delimiters: "CHR ''&'' \<notin> set (encode_pair kv)" "CHR '';'' \<notin> set (encode_pair kv)" "encode_pair kv \<noteq> []"
  by (auto simp: encode_pair_def QueryEscape_delimiters split: prod.splits)

lemma decode_encode_pair [simp]: "decode_pair (encode_pair kv) = Some kv"
proof (cases kv)
  case (Pair k v)
  have none: "\<forall>c \<in> set (QueryEscape k). c \<noteq> CHR ''=''" using QueryEscape_delimiters(2) by metis
  then have "cut_at (CHR ''='') (QueryEscape k @ CHR ''='' # QueryEscape v) = (QueryEscape k, QueryEscape v)"
    by (simp add: cut_at_def takeWhile_append2 dropWhile_append2)
  with encode_pair_delimiters(2) [of kv] show ?thesis
    by (simp add: decode_pair_def Pair encode_pair_def)
qed

lemma decode_encoded_pairs: "decode_pairs (map encode_pair kvs) = Some kvs"
  by (induction kvs) (simp_all add: encode_pair_delimiters)

lemma query_Parse_Encode: "query_Parse (query_Encode values) = Some (sort_key fst values)"
proof (cases "values = []")
  case True
  then show ?thesis by (simp add: query_Encode_def query_Parse_def)
next
  case False
  let ?ws = "map encode_pair (sort_key fst values)"
  have ne: "?ws \<noteq> []" using False by (metis length_0_conv length_map length_sort)
  have "split_at (CHR ''&'') (join_with ''&'' ?ws) = ?ws"
    using ne encode_pair_delimiters(1) by (intro split_join) auto
  moreover have "join_with ''&'' ?ws \<noteq> []"
    using ne encode_pair_delimiters(3) by (cases ?ws rule: join_with.cases [of "(''&'', _)"]) auto
  ultimately show ?thesis
    by (simp add: query_Parse_def query_Encode_def decode_encoded_pairs)
qed

lemma single_valued_distinct:
  "distinct (map fst params @ map fst rest) \<Longrightarrow> single_valued params rest = Inr (params @ rest)"
  by (induction params rest rule: single_valued.induct) (auto simp: map_of_eq_None_iff dest: map_of_SomeD)

text \<open>
  A pushed authorization request survives its form encoding: what the client wrote is, up to the
  order of its parameters, what the server reads, unless the form is longer than the server takes.
\<close>

theorem DecodeForm_EncodeForm:
  assumes "distinct (map fst params)"
  shows "DecodeForm (EncodeForm params) =
    (if maxFormBytes < length (EncodeForm params) then Inl ErrFormTooLarge else Inr (sort_key fst params))"
proof -
  have "distinct (map fst (sort_key fst params))"
    using assms by (metis distinct_map distinct_sort set_sort)
  then show ?thesis
    by (simp add: DecodeForm_def EncodeForm_def query_Parse_Encode single_valued_distinct)
qed

lemma DecodeForm_EncodeForm_witness:
  "distinct (map fst [(''scope'', ''a b''), (''client_id'', ''c&1'')]) \<and>
   DecodeForm (EncodeForm [(''scope'', ''a b''), (''client_id'', ''c&1'')]) = Inr [(''client_id'', ''c&1''), (''scope'', ''a b'')]"
proof -
  have d: "distinct (map fst [(''scope'', ''a b''), (''client_id'', ''c&1'')])" by simp
  have enc: "EncodeForm [(''scope'', ''a b''), (''client_id'', ''c&1'')] = ''client_id=c%261&scope=a+b''"
    "sort_key fst [(''scope'', ''a b''), (''client_id'', ''c&1'')] = [(''client_id'', ''c&1''), (''scope'', ''a b'')]"
    by code_simp+
  with DecodeForm_EncodeForm [OF d] d show ?thesis by (simp add: maxFormBytes_def)
qed

end
