(* ===== verification/Request_Params.thy ===== *)
theory Request_Params
  imports Server_Grant Fapi_Url
begin

text \<open>
  The parameters of an authorization request and how they are read, at the pushed request and at
  every later step: \<^verbatim>\<open>server/request_parameter_types.go\<close>, \<^verbatim>\<open>request_parameter_sizes.go\<close>,
  \<^verbatim>\<open>max_age.go\<close>, \<^verbatim>\<open>prompt.go\<close>, \<^verbatim>\<open>claims_parameter.go\<close>,
  \<^verbatim>\<open>essential_acr.go\<close>, \<^verbatim>\<open>requested_subject.go\<close>, \<^verbatim>\<open>identity_claims.go\<close>,
  \<^verbatim>\<open>locales.go\<close>. A parameter is the tree of its raw message; a failure is the text the client
  is told, without the numbers in it.
\<close>

text \<open>
  \<open>rawSize\<close> is the length of a raw message's text, \<open>rawLossless\<close> whether the JSON decoder
  reads that text without replacing anything, \<open>rawDecode\<close> the decoder for texts within texts.
\<close>

record raw_reader =
  rawSize :: "json \<Rightarrow> int"
  rawLossless :: "json \<Rightarrow> bool"
  rawDecode :: "bytes \<Rightarrow> json option"

section \<open>Strings\<close>

definition jsonStringValue :: "json \<Rightarrow> unit + string" where
  "jsonStringValue raw = of_option () (unmarshal_string raw)"

definition jsonString :: "json assoc \<Rightarrow> string \<Rightarrow> unit + string" where
  "jsonString params key = and_then (of_option () (map_of params key)) jsonStringValue"

definition optionalJSONString :: "json assoc \<Rightarrow> string \<Rightarrow> unit + string" where
  "optionalJSONString params key = (if map_of params key = None then Inr [] else jsonString params key)"

lemma space_len_Nil: "space_len [] = 0"
  by code_simp

text \<open>\<^verbatim>\<open>bytes.TrimSpace\<close>, by the runes that count as white space.\<close>

function drop_spaces :: "string \<Rightarrow> string" where
  "drop_spaces s = (if space_len s = 0 then s else drop_spaces (drop (space_len s) s))"
  by pat_completeness auto
termination
  by (relation "measure length", simp) (case_tac s, simp_all add: space_len_Nil)

declare drop_spaces.simps [simp del]

definition space_len_end :: "string \<Rightarrow> nat" where
  "space_len_end s =
     (case find (\<lambda>bs. map of_char (take (length bs) s) = rev bs) space_runes of
        None \<Rightarrow> 0 | Some bs \<Rightarrow> length bs)"

lemma space_len_end_Nil: "space_len_end [] = 0"
  by code_simp

function drop_spaces_end :: "string \<Rightarrow> string" where
  "drop_spaces_end s = (if space_len_end s = 0 then s else drop_spaces_end (drop (space_len_end s) s))"
  by pat_completeness auto
termination
  by (relation "measure length", simp) (case_tac s, simp_all add: space_len_end_Nil)

declare drop_spaces_end.simps [simp del]

definition TrimSpace :: "string \<Rightarrow> string" where
  "TrimSpace s = rev (drop_spaces_end (rev (drop_spaces s)))"

section \<open>Types\<close>

datatype json_kind = jsonStringKind | jsonNumberKind | jsonObjectKind

fun jsonKindOf :: "json \<Rightarrow> json_kind option" where
  "jsonKindOf (JStr _) = Some jsonStringKind"
| "jsonKindOf (JObj _) = Some jsonObjectKind"
| "jsonKindOf (JNum _ _ _) = Some jsonNumberKind"
| "jsonKindOf _ = None"

record parameterType =
  ptName :: string
  ptKinds :: "json_kind list"
  ptNonEmpty :: bool

definition string_parameter :: "string \<Rightarrow> parameterType" where
  "string_parameter name = \<lparr>ptName = name, ptKinds = [jsonStringKind], ptNonEmpty = False\<rparr>"

definition authorizationParameterTypes :: "parameterType list" where
  "authorizationParameterTypes =
     map string_parameter [''response_type'', ''redirect_uri'', ''scope'', ''state'', ''nonce'', ''code_challenge'',
       ''code_challenge_method'', ''response_mode'', ''prompt'', ''acr_values'', ''login_hint'', ''id_token_hint'']
     @ [\<lparr>ptName = ''dpop_jkt'', ptKinds = [jsonStringKind], ptNonEmpty = True\<rparr>,
        \<lparr>ptName = ''max_age'', ptKinds = [jsonStringKind, jsonNumberKind], ptNonEmpty = False\<rparr>,
        \<lparr>ptName = ''claims'', ptKinds = [jsonStringKind, jsonObjectKind], ptNonEmpty = False\<rparr>]"

definition backchannelParameterTypes :: "parameterType list" where
  "backchannelParameterTypes =
     map string_parameter [''scope'', ''login_hint'', ''login_hint_token'', ''id_token_hint'', ''acr_values'',
       ''binding_message'', ''client_notification_token'']
     @ [\<lparr>ptName = ''dpop_jkt'', ptKinds = [jsonStringKind], ptNonEmpty = True\<rparr>,
        \<lparr>ptName = ''requested_expiry'', ptKinds = [jsonStringKind, jsonNumberKind], ptNonEmpty = False\<rparr>,
        \<lparr>ptName = ''claims'', ptKinds = [jsonStringKind, jsonObjectKind], ptNonEmpty = False\<rparr>]"

definition kinds_String :: "json_kind list \<Rightarrow> string" where
  "kinds_String kinds =
     (if set kinds = {jsonStringKind, jsonNumberKind} then ''a number or a string''
      else if set kinds = {jsonStringKind, jsonObjectKind} then ''a JSON object or a string''
      else ''a string'')"

definition parameterType_check :: "parameterType \<Rightarrow> json \<Rightarrow> string + unit" where
  "parameterType_check pt raw =
     (case jsonKindOf raw of
        None \<Rightarrow> Inl (''must be '' @ kinds_String (ptKinds pt))
      | Some kind \<Rightarrow>
          if kind \<notin> set (ptKinds pt) then Inl (''must be '' @ kinds_String (ptKinds pt))
          else if kind = jsonStringKind \<and> ptNonEmpty pt
            \<and> (case jsonStringValue raw of Inl _ \<Rightarrow> True | Inr s \<Rightarrow> s = [])
          then Inl ''must be a non-empty string''
          else Inr ())"

definition checkParameterTypes :: "json assoc \<Rightarrow> parameterType list \<Rightarrow> string + unit" where
  "checkParameterTypes params types =
     check_all (\<lambda>pt. case map_of params (ptName pt) of
        None \<Rightarrow> Inr ()
      | Some raw \<Rightarrow> map_sum (\<lambda>e. ptName pt @ '' '' @ e) (\<lambda>x. x) (parameterType_check pt raw)) types"

section \<open>Sizes\<close>

definition maxIDTokenHintBytes :: int where "maxIDTokenHintBytes = DefaultMaxCompactBytes"
definition maxCodeChallengeBytes :: int where "maxCodeChallengeBytes = 128"
definition maxDPoPJKTBytes :: int where "maxDPoPJKTBytes = 128"
definition maxMaxAgeBytes :: int where "maxMaxAgeBytes = 32"

definition authorizationParameterSizes :: "(string \<times> int) list" where
  "authorizationParameterSizes =
     [(''state'', maxAuthorizationTextParameterBytes), (''nonce'', maxAuthorizationTextParameterBytes),
      (''login_hint'', maxAuthorizationTextParameterBytes), (''acr_values'', maxAuthorizationTextParameterBytes),
      (''id_token_hint'', maxIDTokenHintBytes), (''code_challenge'', maxCodeChallengeBytes),
      (''dpop_jkt'', maxDPoPJKTBytes), (''max_age'', maxMaxAgeBytes)]"

definition parameterLength :: "raw_reader \<Rightarrow> json \<Rightarrow> int" where
  "parameterLength R raw =
     (if jsonKindOf raw = Some jsonStringKind
      then (case jsonStringValue raw of Inr s \<Rightarrow> int (length s) | Inl _ \<Rightarrow> rawSize R raw)
      else rawSize R raw)"

definition checkParameterSizes :: "raw_reader \<Rightarrow> json assoc \<Rightarrow> (string \<times> int) list \<Rightarrow> string + unit" where
  "checkParameterSizes R params sizes =
     check_all (\<lambda>(name, maxBytes). case map_of params name of
        None \<Rightarrow> Inr ()
      | Some raw \<Rightarrow> require (parameterLength R raw \<le> maxBytes) (name @ '' is too long'')) sizes"

definition checkAuthorizationParameterSizes :: "raw_reader \<Rightarrow> json assoc \<Rightarrow> RegisteredClient \<Rightarrow> string + unit" where
  "checkAuthorizationParameterSizes R params client =
     and_then (checkParameterSizes R params authorizationParameterSizes) (\<lambda>_.
     case map_of params ''scope'' of
       None \<Rightarrow> Inr ()
     | Some raw \<Rightarrow> map_sum (\<lambda>_. ''scope is too long'') (\<lambda>x. x) (checkScopeLength (nat (parameterLength R raw)) client))"

section \<open>Authentication\<close>

text \<open>\<^verbatim>\<open>strconv.ParseInt\<close> of base ten and 64 bits.\<close>

definition ParseInt :: "string \<Rightarrow> int option" where
  "ParseInt s =
     (let digits = (if s \<noteq> [] \<and> hd s \<in> set ''+-'' then tl s else s);
          n = (if s \<noteq> [] \<and> hd s = CHR ''-'' then - int (decimal digits) else int (decimal digits)) in
      if digits \<noteq> [] \<and> list_all is_digit digits \<and> minInt64 \<le> n \<and> n \<le> maxInt64 then Some n else None)"

definition maxMaxAge :: int where "maxMaxAge = 100 * 366 * 24 * 60 * 60"

definition max_age_seconds :: "json \<Rightarrow> int option" where
  "max_age_seconds raw =
     (case raw of JStr text \<Rightarrow> ParseInt text | JNum neg m None \<Rightarrow> unmarshal_int64 raw | _ \<Rightarrow> None)"

definition requestedMaxAge :: "json assoc \<Rightarrow> unit + duration option" where
  "requestedMaxAge params =
     (case map_of params ''max_age'' of
        None \<Rightarrow> Inr None
      | Some raw \<Rightarrow>
          and_then (of_option () (max_age_seconds raw)) (\<lambda>seconds.
          and_then (require (0 \<le> seconds \<and> seconds \<le> maxMaxAge) ()) (\<lambda>_.
          Inr (Some (seconds * second)))))"

definition requestedACRValues :: "json assoc \<Rightarrow> string list" where
  "requestedACRValues params = (case jsonString params ''acr_values'' of Inl _ \<Rightarrow> [] | Inr v \<Rightarrow> strings_Fields v)"

definition maxPromptBytes :: nat where "maxPromptBytes = 256"
definition maxPromptValues :: nat where "maxPromptValues = 16"

definition PromptNone :: string where "PromptNone = ''none''"
definition PromptLogin :: string where "PromptLogin = ''login''"

text \<open>Each value once, in the order sent.\<close>

fun prompt_values :: "string list \<Rightarrow> string list \<Rightarrow> string + string list" where
  "prompt_values p [] = Inr p"
| "prompt_values p (v # more_values) =
     (if v \<in> set p then prompt_values p more_values
      else if length p = maxPromptValues then Inl ''prompt carries too many values''
      else prompt_values (p @ [v]) more_values)"

definition requestedPrompt :: "json assoc \<Rightarrow> string + string list" where
  "requestedPrompt params =
     (case map_of params ''prompt'' of
        None \<Rightarrow> Inr []
      | Some raw \<Rightarrow>
          and_then (map_sum (\<lambda>_. ''prompt must be a string'') (\<lambda>x. x) (jsonStringValue raw)) (\<lambda>v.
          and_then (require (length v \<le> maxPromptBytes) ''prompt is too long'') (\<lambda>_.
          and_then (prompt_values [] (strings_Fields v)) (\<lambda>p.
          and_then (require (\<not> (PromptNone \<in> set p \<and> 1 < length p)) ''prompt none must not be combined with another value'') (\<lambda>_.
          Inr p)))))"

section \<open>The claims parameter\<close>

definition maxClaimsParameterBytes :: int where "maxClaimsParameterBytes = 16 * 2 ^ 10"
definition maxRequestedClaimsPerLocation :: nat where "maxRequestedClaimsPerLocation = 256"
definition maxEssentialACRValues :: nat where "maxEssentialACRValues = 32"

text \<open>The text of the parameter: the raw message, or what the string it is holds.\<close>

record claims_text =
  ctSize :: int
  ctLossless :: bool
  ctTree :: "json option"

definition claimsObject :: "raw_reader \<Rightarrow> json \<Rightarrow> claims_text" where
  "claimsObject R raw =
     (case raw of
        JStr s \<Rightarrow>
          (let object = string_bytes (TrimSpace s) in
           \<lparr>ctSize = int (length object), ctLossless = DecodesLosslessly object, ctTree = rawDecode R object\<rparr>)
      | _ \<Rightarrow> \<lparr>ctSize = rawSize R raw, ctLossless = rawLossless R raw, ctTree = Some raw\<rparr>)"

fun object_members :: "json option \<Rightarrow> json assoc option" where
  "object_members (Some (JObj ms)) = Some (obj_members ms)"
| "object_members _ = None"

definition claimsMembers :: "raw_reader \<Rightarrow> raw \<Rightarrow> json assoc option" where
  "claimsMembers R raw = (case raw of None \<Rightarrow> None | Some j \<Rightarrow> object_members (ctTree (claimsObject R j)))"

definition claimsLocation :: "json assoc \<Rightarrow> string \<Rightarrow> json assoc option" where
  "claimsLocation members location = object_members (map_of members location)"

definition checkMemberCase :: "json assoc \<Rightarrow> string \<Rightarrow> string list \<Rightarrow> string + unit" where
  "checkMemberCase members where_found names =
     check_all (\<lambda>(key, _). check_all (\<lambda>name.
       require (\<not> (key \<noteq> name \<and> FoldKey key = FoldKey name))
         (where_found @ '' member '' @ name @ '' must be spelled in lowercase'')) names) members"

definition validateClaimsLocationValue :: "string \<Rightarrow> json \<Rightarrow> string + unit" where
  "validateClaimsLocationValue member v =
     and_then (of_option (''claims.'' @ member @ '' must be a JSON object'') (object_members (Some v))) (\<lambda>requests.
     and_then (require (length requests \<le> maxRequestedClaimsPerLocation) (''claims.'' @ member @ '' requests too many claims'')) (\<lambda>_.
     check_all (\<lambda>(_, request). require (request = JNull \<or> (case request of JObj _ \<Rightarrow> True | _ \<Rightarrow> False))
       (''claims.'' @ member @ '' must map each claim name to null or a JSON object'')) requests))"

definition errClaimsNotLossless :: string where
  "errClaimsNotLossless = ''claims must be valid UTF-8, without unpaired surrogate escapes''"

definition validateClaimsParameter :: "raw_reader \<Rightarrow> json assoc \<Rightarrow> string + unit" where
  "validateClaimsParameter R params =
     (case map_of params ''claims'' of
        None \<Rightarrow> Inr ()
      | Some raw \<Rightarrow>
          let object = claimsObject R raw in
          and_then (require (ctSize object \<le> maxClaimsParameterBytes) ''claims is too long'') (\<lambda>_.
          and_then (require (rawLossless R raw \<and> ctLossless object) errClaimsNotLossless) (\<lambda>_.
          and_then (of_option ''claims must be a JSON object'' (claimsMembers R (ctTree object))) (\<lambda>members.
          and_then (checkMemberCase members ''claims'' [''id_token'', ''userinfo'']) (\<lambda>_.
          check_all (\<lambda>member. case map_of members member of
              None \<Rightarrow> Inr ()
            | Some v \<Rightarrow> if v = JNull then Inr () else validateClaimsLocationValue member v) [''id_token'', ''userinfo''])))))"

definition checkPlainClaimsParameter :: "string assoc \<Rightarrow> string + unit" where
  "checkPlainClaimsParameter params =
     (case map_of params ''claims'' of
        None \<Rightarrow> Inr ()
      | Some v \<Rightarrow> require (utf8_valid (string_bytes v)) errClaimsNotLossless)"

subsection \<open>An essential acr\<close>

definition dedupeStrings :: "string list \<Rightarrow> string list" where
  "dedupeStrings vs = rev (remdups (rev vs))"

definition claimsIDTokenMembers :: "raw_reader \<Rightarrow> raw \<Rightarrow> json assoc option" where
  "claimsIDTokenMembers R raw = Option.bind (claimsMembers R raw) (\<lambda>ms. claimsLocation ms ''id_token'')"

definition entry_members :: "string list" where "entry_members = [''essential'', ''value'', ''values'']"

definition idTokenACREntry :: "raw_reader \<Rightarrow> json assoc \<Rightarrow> string + json assoc option" where
  "idTokenACREntry R params =
     (case Option.bind (claimsIDTokenMembers R (map_of params ''claims'')) (\<lambda>idToken. map_of idToken ''acr'') of
        None \<Rightarrow> Inr None
      | Some JNull \<Rightarrow> Inr None
      | Some raw \<Rightarrow>
          and_then (of_option ''claims: the id_token acr entry must be a JSON object or null'' (object_members (Some raw))) (\<lambda>entry.
          and_then (checkMemberCase entry ''claims: the id_token acr entry's'' entry_members) (\<lambda>_.
          Inr (Some entry))))"

definition acrEntryEssential :: "json assoc \<Rightarrow> string + bool" where
  "acrEntryEssential entry =
     (case map_of entry ''essential'' of
        None \<Rightarrow> Inr False
      | Some v \<Rightarrow> of_option ''claims: the id_token acr entry's essential must be a boolean'' (unmarshal_bool v))"

definition acrEntryValues :: "json assoc \<Rightarrow> string + string list" where
  "acrEntryValues entry =
     and_then (case map_of entry ''value'' of
         None \<Rightarrow> Inr []
       | Some v \<Rightarrow> (case unmarshal_string v of
           None \<Rightarrow> Inl ''claims: the id_token acr entry's value must be a non-empty string''
         | Some s \<Rightarrow> if s = [] then Inl ''claims: the id_token acr entry's value must be a non-empty string'' else Inr [s])) (\<lambda>one.
     and_then (case map_of entry ''values'' of
         None \<Rightarrow> Inr []
       | Some v \<Rightarrow> (case unmarshal_strings v of
           Some (Some list) \<Rightarrow> if list = [] \<or> [] \<in> set list
             then Inl ''claims: the id_token acr entry's values must be a non-empty array of non-empty strings'' else Inr list
         | _ \<Rightarrow> Inl ''claims: the id_token acr entry's values must be a non-empty array of non-empty strings'')) (\<lambda>many.
     and_then (require (length (one @ many) \<le> maxEssentialACRValues) ''claims: the id_token acr entry names too many values'') (\<lambda>_.
     Inr (one @ many))))"

definition essentialACRValues :: "raw_reader \<Rightarrow> json assoc \<Rightarrow> string + string list" where
  "essentialACRValues R params =
     and_then (idTokenACREntry R params) (\<lambda>entry.
     case entry of
       None \<Rightarrow> Inr []
     | Some entry \<Rightarrow>
         and_then (acrEntryEssential entry) (\<lambda>essential.
         and_then (acrEntryValues entry) (\<lambda>vs.
         Inr (if \<not> essential \<or> vs = [] then [] else dedupeStrings vs))))"

definition meetsEssentialACR :: "string list \<Rightarrow> string \<Rightarrow> bool" where
  "meetsEssentialACR required acr \<longleftrightarrow> required = [] \<or> acr \<in> set required"

subsection \<open>A named end user\<close>

definition subEntryValue :: "json assoc \<Rightarrow> string \<Rightarrow> string + string" where
  "subEntryValue entry prefix =
     (case map_of entry ''value'' of
        None \<Rightarrow> Inr []
      | Some v \<Rightarrow> (case unmarshal_string v of
          None \<Rightarrow> Inl (prefix @ '' value must be a non-empty string'')
        | Some s \<Rightarrow> if s = [] then Inl (prefix @ '' value must be a non-empty string'') else Inr s))"

definition subEntryValues :: "json assoc \<Rightarrow> string \<Rightarrow> string + string" where
  "subEntryValues entry prefix =
     (case map_of entry ''values'' of
        None \<Rightarrow> Inr []
      | Some v \<Rightarrow> (case unmarshal_strings v of
          Some (Some [s]) \<Rightarrow> if s = [] then Inl (prefix @ '' values must be an array of exactly one non-empty string'') else Inr s
        | _ \<Rightarrow> Inl (prefix @ '' values must be an array of exactly one non-empty string'')))"

definition claimsLocationSubValue :: "json assoc option \<Rightarrow> string \<Rightarrow> string + string" where
  "claimsLocationSubValue requests location =
     (case Option.bind requests (\<lambda>ms. map_of ms ''sub'') of
        None \<Rightarrow> Inr []
      | Some JNull \<Rightarrow> Inr []
      | Some raw \<Rightarrow>
          let prefix = ''claims: the '' @ location @ '' sub entry's'' in
          and_then (of_option (''claims: the '' @ location @ '' sub entry must be a JSON object or null'') (object_members (Some raw))) (\<lambda>entry.
          and_then (checkMemberCase entry prefix entry_members) (\<lambda>_.
          and_then (subEntryValue entry prefix) (\<lambda>one.
          and_then (subEntryValues entry prefix) (\<lambda>many.
          and_then (require (\<not> (one \<noteq> [] \<and> many \<noteq> [] \<and> one \<noteq> many)) (prefix @ '' value and values name different end users'')) (\<lambda>_.
          Inr (if one \<noteq> [] then one else many)))))))"

definition claimsSubValue :: "raw_reader \<Rightarrow> json assoc \<Rightarrow> string + string" where
  "claimsSubValue R params =
     (case claimsMembers R (map_of params ''claims'') of
        None \<Rightarrow> Inr []
      | Some members \<Rightarrow>
          foldR (\<lambda>subject location.
            and_then (claimsLocationSubValue (claimsLocation members location) location) (\<lambda>v.
            if v = [] then Inr subject
            else if subject \<noteq> [] \<and> v \<noteq> subject then Inl ''claims: the id_token and userinfo sub values differ''
            else Inr v)) [] [''id_token'', ''userinfo''])"

definition meetsRequiredSubject :: "string \<Rightarrow> string \<Rightarrow> bool" where
  "meetsRequiredSubject required clientSub \<longleftrightarrow> required = [] \<or> clientSub = required"

subsection \<open>Requested claims\<close>

record RequestedClaims =
  rqIDToken :: "string list"
  rqUserInfo :: "string list"

definition claimNames :: "json assoc option \<Rightarrow> string list" where
  "claimNames m = (case m of None \<Rightarrow> [] | Some ms \<Rightarrow> sort (map fst ms))"

definition parseRequestedClaimNames :: "raw_reader \<Rightarrow> raw \<Rightarrow> string list \<times> string list" where
  "parseRequestedClaimNames R raw =
     (case claimsMembers R raw of
        None \<Rightarrow> ([], [])
      | Some members \<Rightarrow> (claimNames (claimsLocation members ''id_token''), claimNames (claimsLocation members ''userinfo'')))"

definition requestedClaimsFrom :: "raw_reader \<Rightarrow> json assoc \<Rightarrow> RequestedClaims" where
  "requestedClaimsFrom R params =
     (let (idToken, userinfo) = parseRequestedClaimNames R (map_of params ''claims'') in
      \<lparr>rqIDToken = idToken, rqUserInfo = userinfo\<rparr>)"

definition RequestedClaims_Names :: "RequestedClaims \<Rightarrow> string list" where
  "RequestedClaims_Names r = remdups (sort (rqIDToken r @ rqUserInfo r))"

definition approvedClaimNames :: "raw_reader \<Rightarrow> json assoc \<Rightarrow> string list \<Rightarrow> unit + string list \<times> string list" where
  "approvedClaimNames R params approved =
     (let requested = requestedClaimsFrom R params in
      and_then (check_all (\<lambda>name. require (name \<in> set (RequestedClaims_Names requested)) ()) approved) (\<lambda>_.
      Inr (filter (\<lambda>n. n \<in> set approved) (rqIDToken requested), filter (\<lambda>n. n \<in> set approved) (rqUserInfo requested))))"

definition requestedClaimValues :: "raw_reader \<Rightarrow> json assoc \<Rightarrow> string \<Rightarrow> string list \<Rightarrow> Acceptable" where
  "requestedClaimValues R params location names =
     (case claimsMembers R (map_of params ''claims'') of
        None \<Rightarrow> []
      | Some members \<Rightarrow>
          concat (map (\<lambda>name.
            case Option.bind (Option.bind (claimsLocation members location) (\<lambda>ms. map_of ms name)) FromRequest of
              None \<Rightarrow> []
            | Some acceptable \<Rightarrow> [(name, acceptable)]) names))"

section \<open>Preferences\<close>

definition displays :: "string list" where "displays = [''page'', ''popup'', ''touch'', ''wap'']"

definition knownDisplay :: "string \<Rightarrow> string" where
  "knownDisplay d = (if d \<in> set displays then d else [])"

definition requestedDisplay :: "json assoc \<Rightarrow> string" where
  "requestedDisplay params = (case jsonString params ''display'' of Inl _ \<Rightarrow> [] | Inr v \<Rightarrow> knownDisplay v)"

definition maxLocaleTags :: nat where "maxLocaleTags = 16"
definition maxLocaleTagLength :: nat where "maxLocaleTagLength = 35"
definition maxLocalesBytes :: int where "maxLocalesBytes = int maxLocaleTags * (int maxLocaleTagLength + 1)"
definition maxDisplayBytes :: int where "maxDisplayBytes = 64"

definition is_ascii_letter :: "char \<Rightarrow> bool" where
  "is_ascii_letter c \<longleftrightarrow>
     (let n = (of_char c :: nat) in 97 \<le> n \<and> n \<le> 122 \<or> 65 \<le> n \<and> n \<le> 90)"

definition isSubtagShaped :: "string \<Rightarrow> bool \<Rightarrow> bool" where
  "isSubtagShaped subtag first \<longleftrightarrow>
     subtag \<noteq> [] \<and> length subtag \<le> 8 \<and> list_all (\<lambda>c. is_ascii_letter c \<or> \<not> first \<and> is_digit c) subtag"

definition isLanguageTagShaped :: "string \<Rightarrow> bool" where
  "isLanguageTagShaped tag \<longleftrightarrow>
     tag \<noteq> [] \<and> length tag \<le> maxLocaleTagLength \<and>
     (let subtags = split_at (CHR ''-'') tag in
      isSubtagShaped (hd subtags) True \<and> list_all (\<lambda>t. isSubtagShaped t False) (tl subtags))"

text \<open>Both sides of the comparison have the shape of a tag, so they are ASCII.\<close>

definition containsFold :: "string list \<Rightarrow> string \<Rightarrow> bool" where
  "containsFold tags tag \<longleftrightarrow> list_ex (\<lambda>t. EqualFoldASCII t tag) tags"

fun collect_tags :: "string list \<Rightarrow> string list \<Rightarrow> string list" where
  "collect_tags tags [] = tags"
| "collect_tags tags (t # ts) =
     (if length tags = maxLocaleTags then tags
      else if \<not> isLanguageTagShaped t \<or> containsFold tags t then collect_tags tags ts
      else collect_tags (tags @ [t]) ts)"

definition languageTags :: "string list \<Rightarrow> string list" where
  "languageTags candidates = collect_tags [] candidates"

definition requestedLocales :: "json assoc \<Rightarrow> string \<Rightarrow> string list" where
  "requestedLocales params name = (case jsonString params name of Inl _ \<Rightarrow> [] | Inr v \<Rightarrow> languageTags (strings_Fields v))"

definition bound_locales :: "raw_reader \<Rightarrow> json assoc \<Rightarrow> string \<Rightarrow> json assoc" where
  "bound_locales R params name =
     (case map_of params name of
        None \<Rightarrow> params
      | Some raw \<Rightarrow>
          if rawSize R raw \<le> maxLocalesBytes then params
          else let tags = requestedLocales params name in
            if tags = [] then AList.delete name params else AList.update name (JStr (join_space tags)) params)"

definition boundPresentationPreferences :: "raw_reader \<Rightarrow> json assoc \<Rightarrow> json assoc" where
  "boundPresentationPreferences R params =
     (let params = foldl (bound_locales R) params [''ui_locales'', ''claims_locales''] in
      case map_of params ''display'' of
        None \<Rightarrow> params
      | Some raw \<Rightarrow> if maxDisplayBytes < rawSize R raw then AList.delete ''display'' params else params)"

end
