(* ===== verification/Extension.thy ===== *)
theory Extension
  imports Rar Token
begin

text \<open>
  Custom authorization parameters, \<^verbatim>\<open>extension/definition.go\<close>, \<^verbatim>\<open>registry.go\<close> and
  \<^verbatim>\<open>source.go\<close>: what a server registers of them, the validation of a request's parameters
  against it, and the values copied into tokens. What a definition's values are, and how the JSON
  decoder reads one without unknown members and in the exact case, is the application's.
\<close>

datatype extension_source = SourcePlainParameter | SourceRequestObject
datatype Cardinality = Single | Multiple
datatype Sensitivity = NotSensitive | Sensitive

datatype extension_error =
    ErrSourceNotAllowed string
  | ErrValueTooLarge string
  | ErrDuplicateDefinition string
  | ErrCardinalityMismatch string
  | ErrReservedTokenClaim string
  | ExtensionEmptyName
  | ExtensionNoSensitivity string
  | ExtensionMalformed string
  | ExtensionRefused string

text \<open>
  A \<^verbatim>\<open>Definition[T]\<close>; \<open>edIsSlice\<close> is the kind of \<^verbatim>\<open>T\<close>. The zero
  values of its two enumerations are \<open>None\<close>.
\<close>

record 'v extension_definition =
  edName :: string
  edCardinality :: "Cardinality option"
  edIsSlice :: bool
  edAllowedSources :: "extension_source list"
  edMaxBytes :: int
  edSensitivity :: "Sensitivity option"
  edReturnInTokenClaims :: bool
  edStrict :: "json \<Rightarrow> 'v option"
  edEncode :: "'v \<Rightarrow> json option"
  edDecode :: "json \<Rightarrow> 'v option"
  edValidate :: "('v \<Rightarrow> bool) option"

text \<open>A \<^verbatim>\<open>Source\<close> is the list of its bits.\<close>

definition source_Allows :: "extension_source list \<Rightarrow> extension_source list \<Rightarrow> bool" where
  "source_Allows allowed one \<longleftrightarrow> list_ex (\<lambda>x. x \<in> set allowed) one"

text \<open>
  The methods of the interface \<^verbatim>\<open>Registered\<close>; the length of a raw message's text and the
  folding of names are arguments, as for authorization details.
\<close>

definition cardinalityOK :: "'v extension_definition \<Rightarrow> bool" where
  "cardinalityOK d =
     (case edCardinality d of
        Some Single \<Rightarrow> \<not> edIsSlice d
      | Some Multiple \<Rightarrow> edIsSlice d
      | None \<Rightarrow> False)"

definition extension_validate :: "(json \<Rightarrow> int) \<Rightarrow> (string \<Rightarrow> string) \<Rightarrow> 'v extension_definition \<Rightarrow> json
    \<Rightarrow> extension_source list \<Rightarrow> extension_error + unit" where
  "extension_validate size_of fold_name d raw source =
     and_then (require (source_Allows (edAllowedSources d) source) (ErrSourceNotAllowed (edName d))) (\<lambda>_.
     and_then (require (0 < edMaxBytes d \<and> size_of raw \<le> edMaxBytes d) (ErrValueTooLarge (edName d))) (\<lambda>_.
     and_then (require (checkValueMembers fold_name raw) (ExtensionMalformed (edName d))) (\<lambda>_.
     and_then (of_option (ExtensionMalformed (edName d)) (edStrict d raw)) (\<lambda>v.
     require (hook_ok (edValidate d) v) (ExtensionRefused (edName d))))))"

record registered_extension =
  reName :: string
  reCardinalityOK :: bool
  reSensitivityOK :: bool
  reReturnInTokenClaims :: bool
  reValidate :: "json \<Rightarrow> extension_source list \<Rightarrow> extension_error + unit"

definition register_extension :: "(json \<Rightarrow> int) \<Rightarrow> (string \<Rightarrow> string) \<Rightarrow> 'v extension_definition \<Rightarrow> registered_extension" where
  "register_extension size_of fold_name d =
     \<lparr>reName = edName d, reCardinalityOK = cardinalityOK d, reSensitivityOK = (edSensitivity d \<noteq> None),
      reReturnInTokenClaims = edReturnInTokenClaims d, reValidate = extension_validate size_of fold_name d\<rparr>"

section \<open>The registry\<close>

type_synonym ExtensionRegistry = "registered_extension assoc"
type_synonym extension_values = "json assoc"

definition checkDefinition :: "registered_extension \<Rightarrow> extension_error + unit" where
  "checkDefinition d =
     and_then (require (reName d \<noteq> []) ExtensionEmptyName) (\<lambda>_.
     and_then (require (reCardinalityOK d) (ErrCardinalityMismatch (reName d))) (\<lambda>_.
     and_then (require (reSensitivityOK d) (ExtensionNoSensitivity (reName d))) (\<lambda>_.
     require (\<not> (reReturnInTokenClaims d \<and> ReservedInTokens SourceClient (reName d)))
       (ErrReservedTokenClaim (reName d)))))"

fun add_definitions :: "ExtensionRegistry \<Rightarrow> registered_extension list \<Rightarrow> extension_error + ExtensionRegistry" where
  "add_definitions byName [] = Inr byName"
| "add_definitions byName (d # ds) =
     and_then (checkDefinition d) (\<lambda>_.
     if map_of byName (reName d) \<noteq> None then Inl (ErrDuplicateDefinition (reName d))
     else add_definitions (byName @ [(reName d, d)]) ds)"

definition NewRegistry :: "registered_extension list \<Rightarrow> extension_error + ExtensionRegistry" where
  "NewRegistry defs = add_definitions [] defs"

text \<open>
  Returns the values and what is left of the parameters: a name that is neither the caller's nor
  registered goes.
\<close>

fun extension_Parse :: "ExtensionRegistry \<Rightarrow> string list \<Rightarrow> extension_source list \<Rightarrow> json assoc
    \<Rightarrow> extension_error + extension_values \<times> json assoc" where
  "extension_Parse r core source [] = Inr ([], [])"
| "extension_Parse r core source ((name, raw) # params) =
     (if name \<in> set core
      then and_then (extension_Parse r core source params) (\<lambda>(values, rest). Inr (values, (name, raw) # rest))
      else case map_of r name of
        None \<Rightarrow> extension_Parse r core source params
      | Some def \<Rightarrow>
          and_then (reValidate def raw source) (\<lambda>_.
          and_then (extension_Parse r core source params) (\<lambda>(values, rest).
          Inr ((name, raw) # values, (name, raw) # rest))))"

definition TokenClaimNames :: "ExtensionRegistry \<Rightarrow> string list" where
  "TokenClaimNames r = sort (map fst (filter (\<lambda>(_, d). reReturnInTokenClaims d) r))"

definition AsParameters :: "extension_values \<Rightarrow> registered_extension list \<Rightarrow> json assoc" where
  "AsParameters values defs =
     concat (map (\<lambda>d. case map_of values (reName d) of
        Some raw \<Rightarrow> if reReturnInTokenClaims d then [(reName d, raw)] else []
      | None \<Rightarrow> []) defs)"

text \<open>\<^verbatim>\<open>Set\<close> and \<^verbatim>\<open>Get\<close>.\<close>

definition extension_Set :: "(json \<Rightarrow> int) \<Rightarrow> (string \<Rightarrow> string) \<Rightarrow> 'v extension_definition \<Rightarrow> 'v \<Rightarrow> extension_values
    \<Rightarrow> extension_error + extension_values" where
  "extension_Set size_of fold_name d v values =
     and_then (require (hook_ok (edValidate d) v) (ExtensionRefused (edName d))) (\<lambda>_.
     and_then (of_option (ExtensionMalformed (edName d)) (edEncode d v)) (\<lambda>encoded.
     and_then (require (0 < edMaxBytes d \<and> size_of encoded \<le> edMaxBytes d) (ErrValueTooLarge (edName d))) (\<lambda>_.
     and_then (require (checkValueMembers fold_name encoded) (ExtensionMalformed (edName d))) (\<lambda>_.
     Inr (AList.update (edName d) encoded values)))))"

definition extension_Get :: "'v extension_definition \<Rightarrow> extension_values \<Rightarrow> 'v option" where
  "extension_Get d values = (case map_of values (edName d) of None \<Rightarrow> None | Some raw \<Rightarrow> edDecode d raw)"

section \<open>What a registry lets through\<close>

definition registered_ok :: "ExtensionRegistry \<Rightarrow> bool" where
  "registered_ok r \<longleftrightarrow> distinct (map fst r) \<and> (\<forall>(n, d) \<in> set r. reName d = n \<and> checkDefinition d = Inr ())"

lemma add_definitions_registered:
  "add_definitions byName defs = Inr r \<Longrightarrow> registered_ok byName \<Longrightarrow> registered_ok r"
proof (induction byName defs rule: add_definitions.induct)
  case (1 byName)
  then show ?case by simp
next
  case (2 byName d ds)
  from "2.prems"(1) have d: "checkDefinition d = Inr ()" "map_of byName (reName d) = None"
      and rest: "add_definitions (byName @ [(reName d, d)]) ds = Inr r"
    by (simp_all add: and_then_eq_Inr split: if_splits)
  have "registered_ok (byName @ [(reName d, d)])"
    using "2.prems"(2) d by (simp add: registered_ok_def map_of_eq_None_iff)
  then show ?case using "2.IH" [OF d(1) _ rest] d(2) by simp
qed

lemma registered_okD: "registered_ok r \<Longrightarrow> (n, d) \<in> set r \<Longrightarrow> reName d = n \<and> checkDefinition d = Inr ()"
  unfolding registered_ok_def by fast

lemma extension_Parse_parts:
  assumes "extension_Parse r core source params = Inr (vs, rest)"
  shows "set vs \<subseteq> set rest \<and> set rest \<subseteq> set params \<and>
    rest = filter (\<lambda>(n, _). n \<in> set core \<or> map_of r n \<noteq> None) params \<and>
    vs = filter (\<lambda>(n, _). n \<notin> set core) rest \<and>
    (\<forall>(n, raw) \<in> set vs. \<exists>d. map_of r n = Some d \<and> reValidate d raw source = Inr ())"
  using assms
proof (induction r core source params arbitrary: vs rest rule: extension_Parse.induct)
  case (2 r core source name raw params)
  show ?case
  proof (cases "name \<in> set core")
    case True
    then obtain rest' where rec: "extension_Parse r core source params = Inr (vs, rest')" "rest = (name, raw) # rest'"
      using "2.prems" by (auto simp: and_then_eq_Inr)
    from "2.IH"(1) [OF True rec(1)] rec(2) True show ?thesis by auto
  next
    case core: False
    show ?thesis
    proof (cases "map_of r name")
      case None
      then have "extension_Parse r core source params = Inr (vs, rest)" using "2.prems" core by simp
      from "2.IH"(2) [OF core None this] None core show ?thesis by auto
    next
      case (Some d)
      then obtain vs' rest' where rec: "reValidate d raw source = Inr ()" "extension_Parse r core source params = Inr (vs', rest')"
          "vs = (name, raw) # vs'" "rest = (name, raw) # rest'"
        using "2.prems" core by (auto simp: and_then_eq_Inr)
      from "2.IH"(3) [OF core Some rec(1,2)] rec Some core show ?thesis by auto
    qed
  qed
qed simp

text \<open>
  Nothing a client sends under a name of its own gets past a registry: a request's parameter is
  kept only under a core name or one that was registered, and then as its definition validated it
  from where it came; and what is copied into tokens of it is never under a name that a token's
  recipient takes from the server, the resource owner or the token itself.
\<close>

theorem registry_closed:
  assumes "NewRegistry defs = Inr r" "extension_Parse r core source params = Inr (vs, rest)"
  shows "(\<forall>n \<in> fst ` set rest. n \<in> set core \<or> n \<in> fst ` set r) \<and>
    (\<forall>(n, raw) \<in> set vs. \<exists>d \<in> set (map snd r). reName d = n \<and> reValidate d raw source = Inr ()) \<and>
    (\<forall>n \<in> fst ` set (AsParameters vs (map snd r)). n \<in> fst ` set vs \<and> \<not> ReservedInTokens SourceClient n)"
proof -
  have "registered_ok []" by (simp add: registered_ok_def)
  then have r: "registered_ok r"
    using add_definitions_registered assms(1) unfolding NewRegistry_def by blast
  note parts = extension_Parse_parts [OF assms(2)]
  have kept: "n \<in> set core \<or> n \<in> fst ` set r" if "n \<in> fst ` set rest" for n
  proof -
    from that obtain raw where "(n, raw) \<in> set rest" by force
    with parts have "(n, raw) \<in> set (filter (\<lambda>(n, _). n \<in> set core \<or> map_of r n \<noteq> None) params)" by metis
    then have "n \<in> set core \<or> map_of r n \<noteq> None" by simp
    then show ?thesis by (simp add: map_of_eq_None_iff)
  qed
  have valid: "\<exists>d \<in> set (map snd r). reName d = n \<and> reValidate d raw source = Inr ()" if "(n, raw) \<in> set vs" for n raw
  proof -
    from that parts obtain d where d: "map_of r n = Some d" "reValidate d raw source = Inr ()" by blast
    from map_of_SomeD [OF d(1)] registered_okD [OF r] d(2) show ?thesis by (metis in_set_conv_nth snd_conv image_eqI set_map)
  qed
  have claims: "n \<in> fst ` set vs \<and> \<not> ReservedInTokens SourceClient n"
    if "n \<in> fst ` set (AsParameters vs (map snd r))" for n
  proof -
    from that obtain k d raw where d: "(k, d) \<in> set r" "map_of vs (reName d) = Some raw" "reReturnInTokenClaims d" "n = reName d"
      unfolding AsParameters_def by (auto split: option.splits if_splits) (metis (no_types))
    have "checkDefinition d = Inr ()" using registered_okD [OF r d(1)] by simp
    then have "\<not> ReservedInTokens SourceClient n"
      using d(3,4) by (simp add: checkDefinition_def and_then_eq_Inr)
    moreover have "n \<in> fst ` set vs" using map_of_SomeD [OF d(2)] d(4) by force
    ultimately show ?thesis by simp
  qed
  show ?thesis using kept valid claims by blast
qed

section \<open>An example\<close>

definition issuer_state :: "string extension_definition" where
  "issuer_state =
     \<lparr>edName = ''issuer_state'', edCardinality = Some Single, edIsSlice = False, edAllowedSources = [SourceRequestObject],
      edMaxBytes = 64, edSensitivity = Some Sensitive, edReturnInTokenClaims = True, edStrict = unmarshal_string,
      edEncode = (\<lambda>s. Some (JStr s)), edDecode = unmarshal_string, edValidate = None\<rparr>"

lemma registry_closed_witness:
  "\<exists>r. NewRegistry [register_extension (\<lambda>_. 10) FoldKey issuer_state] = Inr r \<and>
     extension_Parse r [''scope''] [SourceRequestObject]
       [(''scope'', JStr ''a''), (''roles'', JStr ''admin''), (''issuer_state'', JStr ''x'')]
     = Inr ([(''issuer_state'', JStr ''x'')], [(''scope'', JStr ''a''), (''issuer_state'', JStr ''x'')]) \<and>
     \<not> ReservedInTokens SourceClient ''issuer_state''"
proof -
  let ?d = "register_extension (\<lambda>_. 10) FoldKey issuer_state"
  have "ReservedInTokens SourceClient ''issuer_state'' = False" by code_simp
  then have new: "NewRegistry [?d] = Inr [(''issuer_state'', ?d)]"
    by (simp add: NewRegistry_def checkDefinition_def register_extension_def issuer_state_def cardinalityOK_def require_def)
  have parsed: "extension_Parse [(''issuer_state'', ?d)] [''scope''] [SourceRequestObject]
       [(''scope'', JStr ''a''), (''roles'', JStr ''admin''), (''issuer_state'', JStr ''x'')]
     = Inr ([(''issuer_state'', JStr ''x'')], [(''scope'', JStr ''a''), (''issuer_state'', JStr ''x'')])"
    by (simp add: register_extension_def issuer_state_def extension_validate_def source_Allows_def require_def hook_ok_def)
  have "''issuer_state'' \<in> fst ` set (AsParameters [(''issuer_state'', JStr ''x'')] (map snd [(''issuer_state'', ?d)]))"
    by (simp add: AsParameters_def register_extension_def issuer_state_def)
  with registry_closed [OF new parsed] have "\<not> ReservedInTokens SourceClient ''issuer_state''" by blast
  with new parsed show ?thesis by blast
qed

end
