(* ===== verification/Server_Request.thy ===== *)
theory Server_Request
  imports Request_Params Extension Server_Token
begin

text \<open>
  What the authorization endpoints add to the server: their part of its configuration and of its
  dependencies, the record a pushed request is stored as (\<^verbatim>\<open>server/records.go\<close>), the keys it and
  its interactions are stored under (\<^verbatim>\<open>transaction_keys.go\<close>, \<^verbatim>\<open>internal/par\<close>), and the
  subject a client is given for an end user (\<^verbatim>\<open>client_subject.go\<close>,
  \<^verbatim>\<open>requested_subject.go\<close>, \<^verbatim>\<open>subject.go\<close>, \<^verbatim>\<open>pairwise/pairwise.go\<close>).
\<close>

section \<open>The authorization server\<close>

record authorization_config =
  acExtensions :: ExtensionRegistry
  acJARMAlg :: SignatureAlgorithm
  acProduction :: bool
  acInteractionLifetime :: duration
  acJARMResponseLifetime :: duration

text \<open>
  \<open>adPairwise\<close> derives the body of a pairwise subject from an issuer, a sector and an internal
  subject; \<open>adPairwiseLookup\<close> is there when it implements \<^verbatim>\<open>pairwise.Lookup\<close>, too.
  \<open>adHintKeys\<close> are this server's own keys for ID tokens, current and previous.
\<close>

datatype derive_failure = ErrSubjectTooLong | DeriveFailed

record 's authorization_deps =
  adCreatePAR :: "NewPARRecord \<Rightarrow> ('s, dependency_error, unit) effect"
  adBegin :: "BeginAuthorizationTransaction \<Rightarrow> ('s, dependency_error, CompletedInteraction) effect"
  adComplete :: "string \<Rightarrow> ('s, dependency_error, CompletedInteraction) effect"
  adCreateCode :: "NewAuthorizationCode \<Rightarrow> ('s, dependency_error, unit) effect"
  adCodeRAR :: "(string \<Rightarrow> json list \<Rightarrow> ('s, dependency_error, json list) effect) option"
  adPairwise :: "(string \<Rightarrow> string \<Rightarrow> string \<Rightarrow> ('s, derive_failure, string) effect) option"
  adPairwiseLookup :: "(string \<Rightarrow> string \<Rightarrow> string \<Rightarrow> ('s, pairwise_failure, string) effect) option"
  adPairwiseResolver :: "(string \<Rightarrow> string \<Rightarrow> string \<Rightarrow> ('s, pairwise_failure, string) effect) option"
  adHintKeys :: "SignatureAlgorithm \<Rightarrow> string \<Rightarrow> ('s, dependency_error, public_key list) effect"

text \<open>\<open>azLossless\<close>: the JSON decoder reads the text of a raw message without replacing anything.\<close>

record 's authorization_server =
  azServer :: "'s server"
  azConfig :: authorization_config
  azDeps :: "'s authorization_deps"
  azLossless :: "json \<Rightarrow> bool"

definition az_reader :: "'s authorization_server \<Rightarrow> raw_reader" where
  "az_reader a =
     \<lparr>rawSize = seRawSize (svEnv (azServer a)), rawLossless = azLossless a,
      rawDecode = json_decode (sv_crypto (azServer a))\<rparr>"

section \<open>Keys of the transaction store\<close>

definition RequestURIPrefix :: string where "RequestURIPrefix = ''urn:ietf:params:oauth:request_uri:''"
definition referenceSize :: nat where "referenceSize = 32"

definition GenerateRequestURI :: "'s server \<Rightarrow> ('s, unit, string) effect" where
  "GenerateRequestURI s = bindS (generateRandomToken s referenceSize) (\<lambda>r. liftS (Inr (RequestURIPrefix @ r)))"

definition SplitRequestURI :: "string \<Rightarrow> string option" where
  "SplitRequestURI requestURI =
     (if has_prefix requestURI RequestURIPrefix \<and> drop (length RequestURIPrefix) requestURI \<noteq> []
      then Some (drop (length RequestURIPrefix) requestURI) else None)"

text \<open>\<^verbatim>\<open>strconv.Itoa\<close> of a length.\<close>

fun itoa :: "nat \<Rightarrow> string" where
  "itoa n = (if n < 10 then [char_of (48 + n)] else itoa (n div 10) @ [char_of (48 + n mod 10)])"

declare itoa.simps [simp del]

definition parReferenceKeyPrefix :: bytes where
  "parReferenceKeyPrefix = string_bytes ''fapigo pushed authorization request'' @ [0]"
definition interactionHandleKeyPrefix :: bytes where
  "interactionHandleKeyPrefix = string_bytes ''fapigo interaction handle'' @ [0]"

definition par_reference_text :: "string \<Rightarrow> string \<Rightarrow> bytes" where
  "par_reference_text clientID reference =
     parReferenceKeyPrefix @ string_bytes (itoa (length clientID) @ '':'' @ clientID @ reference)"

definition parReferenceKey :: "crypto \<Rightarrow> string \<Rightarrow> string \<Rightarrow> string" where
  "parReferenceKey C clientID reference = encode_raw True (sha256 C (par_reference_text clientID reference))"

definition interactionHandleKey :: "crypto \<Rightarrow> string \<Rightarrow> string" where
  "interactionHandleKey C handle = encode_raw True (sha256 C (interactionHandleKeyPrefix @ string_bytes handle))"

section \<open>Request records\<close>

text \<open>\<open>rqExtensionSource\<close> holds the bits of a \<^verbatim>\<open>Source\<close>, none in a record written before it.\<close>

record requestRecord =
  rqVersion :: int
  rqIssuer :: string
  rqParameters :: "json assoc"
  rqTokenClaims :: "json assoc"
  rqDPoPJKT :: string
  rqExtensionSource :: int
  rqExpiresAt :: "time option"
  rqPushedAt :: "time option"
  rqEssentialACRValues :: "string list"
  rqRequiredSubject :: string
  rqRequiredInternalSubject :: string
  rqResources :: "string list"
  rqClientInstanceKey :: string

definition requestRecord_zero :: requestRecord where
  "requestRecord_zero =
     \<lparr>rqVersion = 0, rqIssuer = [], rqParameters = [], rqTokenClaims = [], rqDPoPJKT = [], rqExtensionSource = 0,
      rqExpiresAt = None, rqPushedAt = None, rqEssentialACRValues = [], rqRequiredSubject = [],
      rqRequiredInternalSubject = [], rqResources = [], rqClientInstanceKey = []\<rparr>"

definition requiredSubjectForApplication :: "requestRecord \<Rightarrow> string" where
  "requiredSubjectForApplication r =
     (if rqRequiredInternalSubject r \<noteq> [] then rqRequiredInternalSubject r else rqRequiredSubject r)"

definition source_bits :: "extension_source \<Rightarrow> int" where
  "source_bits src = (case src of SourcePlainParameter \<Rightarrow> 1 | SourceRequestObject \<Rightarrow> 2)"

definition bits_source :: "int \<Rightarrow> extension_source list" where
  "bits_source n =
     (if n mod 2 = 1 then [SourcePlainParameter] else []) @ (if n div 2 mod 2 = 1 then [SourceRequestObject] else [])"

definition dec_uint8 :: "(int \<Rightarrow> 'r \<Rightarrow> 'r) \<Rightarrow> json \<Rightarrow> 'r \<Rightarrow> 'r option" where
  "dec_uint8 set_field v r =
     (if v = JNull then Some r
      else case unmarshal_int64 v of
        None \<Rightarrow> None
      | Some n \<Rightarrow> if 0 \<le> n \<and> n \<le> 255 then Some (set_field n r) else None)"

definition request_decoders :: "server_env \<Rightarrow> requestRecord decoders" where
  "request_decoders env =
     [(''v'', dec_int (\<lambda>x. rqVersion_update (\<lambda>_. x))),
      (''iss'', dec_string (\<lambda>x. rqIssuer_update (\<lambda>_. x))),
      (''parameters'', dec_raw_map (\<lambda>x. rqParameters_update (\<lambda>_. x)) rqParameters),
      (''token_claims'', dec_raw_map (\<lambda>x. rqTokenClaims_update (\<lambda>_. x)) rqTokenClaims),
      (''dpop_jkt'', dec_string (\<lambda>x. rqDPoPJKT_update (\<lambda>_. x))),
      (''extension_source'', dec_uint8 (\<lambda>x. rqExtensionSource_update (\<lambda>_. x))),
      (''expires_at'', dec_time_ptr env (\<lambda>x. rqExpiresAt_update (\<lambda>_. x))),
      (''pushed_at'', dec_time_ptr env (\<lambda>x. rqPushedAt_update (\<lambda>_. x))),
      (''essential_acr_values'', dec_list (\<lambda>x. rqEssentialACRValues_update (\<lambda>_. x))),
      (''required_subject'', dec_string (\<lambda>x. rqRequiredSubject_update (\<lambda>_. x))),
      (''required_internal_subject'', dec_string (\<lambda>x. rqRequiredInternalSubject_update (\<lambda>_. x))),
      (''resources'', dec_list (\<lambda>x. rqResources_update (\<lambda>_. x))),
      (''client_instance_jkt'', dec_string (\<lambda>x. rqClientInstanceKey_update (\<lambda>_. x)))]"

definition opt_time :: "server_env \<Rightarrow> string \<Rightarrow> time option \<Rightarrow> (string \<times> json) list option" where
  "opt_time env name t =
     (case t of None \<Rightarrow> Some [] | Some t \<Rightarrow> map_option (\<lambda>s. [(name, JStr s)]) (seFormatTime env t))"

definition request_json :: "server_env \<Rightarrow> requestRecord \<Rightarrow> json option" where
  "request_json env r =
     (case (opt_time env ''expires_at'' (rqExpiresAt r), opt_time env ''pushed_at'' (rqPushedAt r)) of
        (Some expiresAt, Some pushedAt) \<Rightarrow> Some (JObj (concat
          [[(''v'', json_int (rqVersion r))], opt_string ''iss'' (rqIssuer r),
           [(''parameters'', marshal_object (rqParameters r))], opt_map ''token_claims'' (rqTokenClaims r),
           opt_string ''dpop_jkt'' (rqDPoPJKT r),
           (if rqExtensionSource r = 0 then [] else [(''extension_source'', json_int (rqExtensionSource r))]),
           expiresAt, pushedAt, opt_list ''essential_acr_values'' (rqEssentialACRValues r),
           opt_string ''required_subject'' (rqRequiredSubject r),
           opt_string ''required_internal_subject'' (rqRequiredInternalSubject r),
           opt_list ''resources'' (rqResources r), opt_string ''client_instance_jkt'' (rqClientInstanceKey r)]))
      | _ \<Rightarrow> None)"

definition encodeRequestRecord :: "server_env \<Rightarrow> requestRecord \<Rightarrow> unit + raw" where
  "encodeRequestRecord env r0 =
     (let r = r0\<lparr>rqVersion := recordVersion\<rparr> in
      and_then (requireUTF8 [rqDPoPJKT r, rqClientInstanceKey r]) (\<lambda>_.
      and_then (requireUTF8 (map fst (rqParameters r) @ map fst (rqTokenClaims r))) (\<lambda>_.
      and_then (of_option () (request_json env r)) (\<lambda>j.
      Inr (json_decode (seCrypto env) (MarshalUnescaped (seCrypto env) j))))))"

definition decodeRequestRecord :: "server_env \<Rightarrow> raw \<Rightarrow> record_error + requestRecord" where
  "decodeRequestRecord env raw =
     and_then (of_option RecordEmpty raw) (\<lambda>j.
     and_then (of_option RecordMalformed (decode_table (request_decoders env) requestRecord_zero j)) (\<lambda>r.
     and_then (require (rqVersion r = recordVersion) (RecordVersion (rqVersion r))) (\<lambda>_.
     Inr r)))"

definition server_encodeRequestRecord :: "'s server \<Rightarrow> requestRecord \<Rightarrow> unit + raw" where
  "server_encodeRequestRecord s r = encodeRequestRecord (svEnv s) (r\<lparr>rqIssuer := sv_issuer s\<rparr>)"

definition decodeOwnRequestRecord :: "'s server \<Rightarrow> raw \<Rightarrow> record_error + requestRecord" where
  "decodeOwnRequestRecord s raw =
     and_then (decodeRequestRecord (svEnv s) raw) (\<lambda>r.
     and_then (require (ownsRecord s (rqIssuer r)) errForeignRecord) (\<lambda>_. Inr r))"

section \<open>Subjects\<close>

definition printable_ascii :: "char \<Rightarrow> bool" where
  "printable_ascii c \<longleftrightarrow> 32 \<le> (of_char c :: nat) \<and> (of_char c :: nat) \<le> 126"

definition maxSubjectIDLength :: nat where "maxSubjectIDLength = 255"

definition NewSubjectID :: "string \<Rightarrow> bool" where
  "NewSubjectID v \<longleftrightarrow> v \<noteq> [] \<and> length v \<le> maxSubjectIDLength \<and> list_all printable_ascii v"

definition MaxInputLength :: nat where "MaxInputLength = 2048"

text \<open>The control runes from 0x80 on are two bytes, the first of them 0xC2.\<close>

fun no_controls :: "nat list \<Rightarrow> bool" where
  "no_controls [] = True"
| "no_controls (b # bs) \<longleftrightarrow>
     \<not> (b < 32 \<or> b = 127) \<and> (b = 194 \<longrightarrow> \<not> (bs \<noteq> [] \<and> 128 \<le> hd bs \<and> hd bs < 160)) \<and> no_controls bs"

definition pairwise_checkText :: "string \<Rightarrow> bool" where
  "pairwise_checkText s \<longleftrightarrow>
     s \<noteq> [] \<and> length s \<le> MaxInputLength \<and> utf8_valid (string_bytes s) \<and> no_controls (string_bytes s)"

definition pairwise_NewInput :: "string \<Rightarrow> string \<Rightarrow> string \<Rightarrow> bool" where
  "pairwise_NewInput issuer sector subject \<longleftrightarrow>
     pairwise_checkText issuer \<and> pairwise_checkText sector \<and>
     subject \<noteq> [] \<and> length subject \<le> 255 \<and> list_all printable_ascii subject"

definition subjectTypeFor :: "'s server \<Rightarrow> RegisteredClient \<Rightarrow> ServerError + SubjectType option" where
  "subjectTypeFor s client =
     (let subjects = effectiveSubjects (svConfig s);
          subjectType = (if rclSubjectType client = None then sjDefault subjects else rclSubjectType client) in
      if sjEnforcement subjects = Some SubjectTypesPairwiseOnly \<and> subjectType \<noteq> Some SubjectTypePairwise
      then Inl (server_error ''the client is registered for public subjects, but this server issues only pairwise subjects'')
      else Inr subjectType)"

fun not_derived :: "derive_failure \<Rightarrow> ServerError" where
  "not_derived ErrSubjectTooLong = server_error ''the end user's internal subject is longer than the reversible pairwise deriver's limit''"
| "not_derived DeriveFailed = server_error ''failed to derive the client's pairwise subject''"

text \<open>The sub an end user has at a client, and the sector it was derived for.\<close>

definition clientSubjectFor :: "'s authorization_server \<Rightarrow> RegisteredClient \<Rightarrow> string
    \<Rightarrow> ('s, ServerError, string \<times> string) effect" where
  "clientSubjectFor a client internal =
     (let s = azServer a in
      bindS (liftS (subjectTypeFor s client)) (\<lambda>subjectType.
      if subjectType \<noteq> Some SubjectTypePairwise then liftS (Inr (internal, []))
      else bindS (liftS (of_option (server_error ''the client is registered for pairwise subjects, but dependencies.pairwise_subjects is nil'')
          (adPairwise (azDeps a)))) (\<lambda>derive.
        let sector = rclSector client in
        bindS (liftS (require (pairwise_NewInput (sv_issuer s) sector internal)
          (server_error ''the client's pairwise subject can't be derived (does it have a sector?)''))) (\<lambda>_.
        bindS (catchS not_derived (derive (sv_issuer s) sector internal)) (\<lambda>body.
        bindS (liftS (require (CheckBody body) (server_error ''failed to derive the client's pairwise subject''))) (\<lambda>_.
        let sub = prefix_String (sjPrefix (effectiveSubjects (svConfig s))) @ body in
        bindS (liftS (require (NewSubjectID sub) (server_error ''the derived pairwise subject isn't a usable sub''))) (\<lambda>_.
        liftS (Inr (sub, sector)))))))))"

definition subjectAtClient :: "'s authorization_server \<Rightarrow> string \<Rightarrow> string \<Rightarrow> ('s, ServerError, string \<times> string) effect" where
  "subjectAtClient a clientID internal =
     bindS (catchS (\<lambda>_. server_error ''failed to resolve the client for its subject type'')
       (sdResolveClient (svDeps (azServer a)) clientID)) (\<lambda>client.
     clientSubjectFor a client internal)"

definition checkClientSubjectIssuable :: "'s authorization_server \<Rightarrow> RegisteredClient \<Rightarrow> ServerError + unit" where
  "checkClientSubjectIssuable a client =
     and_then (subjectTypeFor (azServer a) client) (\<lambda>subjectType.
     if subjectType \<noteq> Some SubjectTypePairwise then Inr ()
     else if adPairwise (azDeps a) = None
     then Inl (server_error ''the client is registered for pairwise subjects, but dependencies.pairwise_subjects is nil'')
     else if rclSector client = []
     then Inl (server_error ''the client gets pairwise subjects but has no sector to derive them for (set its Sector)'')
     else Inr ())"

definition unissued_sub :: ServerError where
  "unissued_sub = invalid_request ''the sub isn't a pairwise subject this server issued to the client''"

text \<open>\<open>Inl None\<close> is \<^verbatim>\<open>ErrNoPairwiseSubjectLookup\<close>.\<close>

definition lookup_error :: "pairwise_failure \<Rightarrow> ServerError option" where
  "lookup_error e = (case e of ErrSubjectNotFound \<Rightarrow> Some unissued_sub
     | PairwiseLookupFailed \<Rightarrow> Some (server_error ''failed to look up the client's pairwise subject''))"

definition internalSubjectFor :: "'s authorization_server \<Rightarrow> RegisteredClient \<Rightarrow> string
    \<Rightarrow> ('s, ServerError option, string) effect" where
  "internalSubjectFor a client sub =
     (let s = azServer a in
      bindS (catchS Some (liftS (subjectTypeFor s client))) (\<lambda>subjectType.
      if subjectType \<noteq> Some SubjectTypePairwise then liftS (Inr sub)
      else case (case adPairwiseLookup (azDeps a) of
          Some lookup \<Rightarrow> Some (\<lambda>body. lookup (sv_issuer s) (rclSector client) body)
        | None \<Rightarrow> map_option (\<lambda>resolve _. resolve (sv_issuer s) (rclSector client) sub) (adPairwiseResolver (azDeps a))) of
        None \<Rightarrow> liftS (Inl None)
      | Some find_subject \<Rightarrow>
          let prefix = prefix_String (sjPrefix (effectiveSubjects (svConfig s))); body = drop (length prefix) sub in
          bindS (liftS (require (has_prefix sub prefix \<and> CheckBody body) (Some unissued_sub))) (\<lambda>_.
          catchS lookup_error (find_subject body))))"

definition distinctClientSubject :: "string \<Rightarrow> string \<Rightarrow> string" where
  "distinctClientSubject clientSub internal = (if clientSub = internal then [] else clientSub)"

text \<open>The internal subject, and whether the server cannot map it.\<close>

definition requiredInternalSubject :: "'s authorization_server \<Rightarrow> RegisteredClient \<Rightarrow> string
    \<Rightarrow> ('s, ServerError, string \<times> bool) effect" where
  "requiredInternalSubject a client required w =
     (if required = [] then (Inr ([], False), w)
      else case internalSubjectFor a client required w of
        (Inl None, w') \<Rightarrow> (Inr ([], True), w')
      | (Inl (Some e), w') \<Rightarrow> (Inl e, w')
      | (Inr mapped, w') \<Rightarrow> (Inr (distinctClientSubject mapped required, False), w'))"

subsection \<open>Named end users\<close>

definition bad_hint :: ServerError where
  "bad_hint = invalid_request ''id_token_hint is not an ID token this server issued to the client''"

definition verifyIDTokenHint :: "'s authorization_server \<Rightarrow> string \<Rightarrow> string \<Rightarrow> ('s, ServerError, string) effect" where
  "verifyIDTokenHint a hint clientID =
     (let s = azServer a; C = sv_crypto s; alg = scIDTokenAlg (svConfig s) in
      bindS (liftS (require (\<not> scOAuthOnly (svConfig s)) bad_hint)) (\<lambda>_.
      bindS (liftS (map_sum (\<lambda>_. bad_hint) (\<lambda>x. x) (ParseIDToken C hint))) (\<lambda>parsed.
      bindS (catchS (\<lambda>_. server_error ''failed to resolve the ID token keys'')
        (adHintKeys (azDeps a) alg (hdKeyID (cmHeader (idtCompact parsed))))) (\<lambda>keys.
      catchS (\<lambda>_. bad_hint)
        (verifyWithCandidates (\<lambda>_. True)
          (\<lambda>pub. liftS (VerifyHint C parsed pub
             \<lparr>hpExpectedIssuer = sv_issuer s, hpClient = clientID, hpAlgorithm = alg\<rparr>))
          (ErrBadPolicy ''no ID token key matches its kid'') keys)))))"

definition requiredSubject :: "'s authorization_server \<Rightarrow> json assoc \<Rightarrow> string \<Rightarrow> ('s, ServerError, string) effect" where
  "requiredSubject a params clientID =
     bindS (liftS (map_sum (requestError ErrorInvalidRequest) (\<lambda>x. x) (claimsSubValue (az_reader a) params))) (\<lambda>claimed.
     case map_of params ''id_token_hint'' of
       None \<Rightarrow> liftS (Inr claimed)
     | Some raw \<Rightarrow>
         bindS (liftS (map_sum (\<lambda>_. invalid_request ''id_token_hint must be a non-empty string'') (\<lambda>x. x) (jsonStringValue raw))) (\<lambda>hint.
         bindS (liftS (require (hint \<noteq> []) (invalid_request ''id_token_hint must be a non-empty string''))) (\<lambda>_.
         bindS (verifyIDTokenHint a hint clientID) (\<lambda>subject.
         bindS (liftS (require (\<not> (claimed \<noteq> [] \<and> claimed \<noteq> subject))
           (invalid_request ''id_token_hint and the claims parameter's sub value name different end users''))) (\<lambda>_.
         liftS (Inr subject))))))"

end
