(* ===== verification/Server_Par.thy ===== *)
theory Server_Par
  imports Server_Request Request_Object
begin

text \<open>
  The pushed authorization request endpoint, \<^verbatim>\<open>server/par.go\<close> (RFC 9126): a client authenticates,
  its parameters are taken from its signed request object or from the form, validated against its
  registration and stored for the authorization endpoint under a request URI.
\<close>

section \<open>Parameters\<close>

definition coreAuthorizationParameters :: "string list" where
  "coreAuthorizationParameters =
     [''response_type'', ''client_id'', ''redirect_uri'', ''scope'', ''state'', ''nonce'', ''code_challenge'',
      ''code_challenge_method'', ''login_hint'', ''id_token_hint'', ''dpop_jkt'', ''claims'', ''prompt'',
      ''authorization_details'', ''response_mode'', ''acr_values'', ''max_age'', ''ui_locales'', ''claims_locales'',
      ''display'']"

text \<open>
  The form's parameters as JSON strings. The text of authorization details is JSON of its own, or
  is not JSON at all, so it is apart: its length, whether it decodes losslessly, its tree.
\<close>

record details_text =
  dtSize :: int
  dtLossless :: bool
  dtTree :: "json option"

definition plain_string :: "crypto \<Rightarrow> string \<Rightarrow> json option" where
  "plain_string C v = json_decode C (json_marshal C True (JStr v))"

definition plainParamsToJSON :: "crypto \<Rightarrow> string assoc \<Rightarrow> json assoc \<times> details_text option" where
  "plainParamsToJSON C params =
     (List.map_filter (\<lambda>(k, v). map_option (Pair k) (plain_string C v))
        (filter (\<lambda>(k, _). k \<notin> {''client_assertion'', ''client_assertion_type'', ''request'', authorizationDetailsParameter}) params),
      map_option (\<lambda>text. \<lparr>dtSize = int (length text), dtLossless = DecodesLosslessly (string_bytes text),
          dtTree = json_decode C (string_bytes text)\<rparr>) (map_of params authorizationDetailsParameter))"

text \<open>A request object's, whose details are a raw message like any other.\<close>

definition object_parameters :: "raw_reader \<Rightarrow> json assoc \<Rightarrow> json assoc \<times> details_text option" where
  "object_parameters R params =
     (filter (\<lambda>(k, _). k \<noteq> authorizationDetailsParameter) params,
      map_option (\<lambda>j. \<lparr>dtSize = rawSize R j, dtLossless = rawLossless R j, dtTree = Some j\<rparr>)
        (map_of params authorizationDetailsParameter))"

definition requested_details :: "'s server \<Rightarrow> details_text option \<Rightarrow> unit + raw" where
  "requested_details s details =
     (case details of
        None \<Rightarrow> Inr None
      | Some t \<Rightarrow>
          and_then (of_option () (scRAR (svConfig s))) (\<lambda>r.
          and_then (map_sum (\<lambda>_. ()) (\<lambda>x. x) (rar_parse r (dtSize t) (dtLossless t) (dtTree t) True)) (\<lambda>_.
          Inr (dtTree t))))"

definition invalid_parameter_code :: "extension_source \<Rightarrow> string" where
  "invalid_parameter_code source = (if source = SourceRequestObject then ErrorInvalidRequestObject else ErrorInvalidRequest)"

text \<open>The claims for tokens, and the parameters without what nobody registered.\<close>

definition checkExtensions :: "'s authorization_server \<Rightarrow> RegisteredClient \<Rightarrow> json assoc \<times> details_text option \<Rightarrow> extension_source
    \<Rightarrow> ('s, ServerError, json assoc \<times> json assoc) effect" where
  "checkExtensions a client = (\<lambda>(params, details) source.
     let r = acExtensions (azConfig a) in
     bindS (liftS (map_sum (\<lambda>_. srv_error (invalid_parameter_code source) 400 ''request contains an invalid parameter'') (\<lambda>x. x)
       (extension_Parse r coreAuthorizationParameters [source] params))) (\<lambda>(vs, params).
     bindS (liftS (map_sum (\<lambda>_. invalid_details ''authorization_details is invalid'') (\<lambda>x. x)
       (requested_details (azServer a) details))) (\<lambda>requested.
     bindS (catchS (\<lambda>_. invalid_details ''authorization_details is not permitted for this client'')
       (applyRARPolicy (azServer a) client (adCodeRAR (azDeps a)) requested)) (\<lambda>granted.
     liftS (Inr (AsParameters vs (map snd r),
       case granted of None \<Rightarrow> params | Some d \<Rightarrow> params @ [(authorizationDetailsParameter, d)]))))))"

section \<open>Where the parameters come from\<close>

definition resourcesFromParameters :: "'s authorization_server \<Rightarrow> json assoc \<Rightarrow> ServerError + string list" where
  "resourcesFromParameters a params =
     (if \<not> resourceIndicatorsEnabled (azServer a) then Inr []
      else case map_of params resourceParameter of
        None \<Rightarrow> Inr []
      | Some raw \<Rightarrow>
          and_then (require (azLossless a raw)
            (invalid_target ''resource must be valid UTF-8, without unpaired surrogate escapes'')) (\<lambda>_.
          case unmarshal_string raw of
            Some one \<Rightarrow> Inr [one]
          | None \<Rightarrow> (case unmarshal_strings raw of
              Some (Some (r # rs)) \<Rightarrow> Inr (r # rs)
            | _ \<Rightarrow> Inl (invalid_target ''resource must be a string or a non-empty array of strings''))))"

record authorization_request =
  aqParameters :: "json assoc"
  aqTokenClaims :: "json assoc"
  aqResources :: "string list"

definition resolvePlainAuthorizationParameters :: "'s authorization_server \<Rightarrow> string assoc \<Rightarrow> RegisteredClient
    \<Rightarrow> ('s, ServerError, json assoc \<times> json assoc) effect" where
  "resolvePlainAuthorizationParameters a params client =
     bindS (liftS (require (scProfile (svConfig (azServer a)) \<noteq> ProfileFAPISecurityWithMessageSigning)
       (invalid_request ''a signed request object is required''))) (\<lambda>_.
     bindS (liftS (map_sum (requestError ErrorInvalidRequest) (\<lambda>x. x) (checkPlainClaimsParameter params))) (\<lambda>_.
     checkExtensions a client (plainParamsToJSON (sv_crypto (azServer a)) params) SourcePlainParameter))"

definition invalid_object :: "string \<Rightarrow> ServerError" where
  "invalid_object = srv_error ErrorInvalidRequestObject 400"

definition request_object_policy :: "'s server \<Rightarrow> RegisteredClient \<Rightarrow> SignatureAlgorithm \<Rightarrow> time \<Rightarrow> RequestVerifyPolicy" where
  "request_object_policy s client alg now =
     \<lparr>rpExpectedClientID = rclID client, rpExpectedAudience = sv_issuer s, rpAlgorithm = alg, rpNow = now,
      rpMaxLifetime = slMaxRequestObjectLifetime (sv_limits s), rpMaxClockSkew = slMaxClockSkew (sv_limits s),
      rpRequireNotBefore = (scProfile (svConfig s) = ProfileFAPISecurityWithMessageSigning),
      rpRequireIssuedAt = False, rpRequireJTI = False, rpAutomaticFederationRegistration = rclAutomaticFederation client\<rparr>"

definition resolve_request_object :: "'s authorization_server \<Rightarrow> string \<Rightarrow> RegisteredClient
    \<Rightarrow> ('s, ServerError, authorization_request) effect" where
  "resolve_request_object a requestParam client =
     (let s = azServer a; C = sv_crypto s in
      bindS (liftS (of_option (invalid_object ''client is not permitted to submit request objects'')
        (rclRequestObjectAlgorithm client))) (\<lambda>alg.
      bindS (liftS (require (alg \<in> set (scRequestObjectAlgs (svConfig s)))
        (invalid_object ''request object algorithm is not permitted''))) (\<lambda>_.
      bindS (liftS (map_sum (\<lambda>_. invalid_object ''malformed request object'') (\<lambda>x. x) (ParseRequestObject C requestParam))) (\<lambda>ob.
      bindS (catchS (\<lambda>_. invalid_object ''no matching client key'')
        (resolveClientKeys s (rclID client) RequestObjectVerification alg (hdKeyID (cmHeader (roCompact ob))))) (\<lambda>candidates.
      bindS (clock s) (\<lambda>now.
      bindS (catchS (\<lambda>_. invalid_object ''request object verification failed'')
        (verifyWithCandidates (\<lambda>e. e = RequestJose ErrSignature)
          (\<lambda>pub. RequestObject_Verify C ob pub (request_object_policy s client alg now)
             (Some (clientSignedJWTReplayChecker s (rclID client))))
          (RequestJose ErrSignature) candidates)) (\<lambda>verified.
      let params = voParameters verified in
      bindS (liftS (require (map_of params ''request_uri'' = None)
        (invalid_object ''request object must not contain request_uri''))) (\<lambda>_.
      bindS (liftS (require (\<not> (map_of params ''client_id'' = None \<and> rclAutomaticFederation client))
        (invalid_object ''request object must contain client_id''))) (\<lambda>_.
      bindS (liftS (map_sum (requestError ErrorInvalidRequestObject) (\<lambda>x. x)
        (checkParameterTypes params authorizationParameterTypes))) (\<lambda>_.
      bindS (liftS (resourcesFromParameters a params)) (\<lambda>resources.
      bindS (checkExtensions a client (object_parameters (az_reader a) params) SourceRequestObject) (\<lambda>(tokenClaims, params).
      liftS (Inr \<lparr>aqParameters = params, aqTokenClaims = tokenClaims, aqResources = resources\<rparr>)))))))))))))"

definition resolveAuthorizationParameters :: "'s authorization_server \<Rightarrow> string assoc \<Rightarrow> string list \<Rightarrow> RegisteredClient
    \<Rightarrow> ('s, ServerError, authorization_request) effect" where
  "resolveAuthorizationParameters a params formResources client =
     bindS (liftS (require (map_of params ''request_uri'' = None) (invalid_request ''request_uri must not be present''))) (\<lambda>_.
     case map_of params ''request'' of
       None \<Rightarrow>
         bindS (resolvePlainAuthorizationParameters a params client) (\<lambda>(tokenClaims, plain).
         liftS (Inr \<lparr>aqParameters = plain, aqTokenClaims = tokenClaims, aqResources = formResources\<rparr>))
     | Some requestParam \<Rightarrow> resolve_request_object a requestParam client)"

section \<open>Validation\<close>

definition checkResponseMode :: "'s server \<Rightarrow> json assoc \<Rightarrow> ServerError + unit" where
  "checkResponseMode s params =
     (if map_of params ''response_mode'' = None then Inr ()
      else and_then (map_sum (\<lambda>_. invalid_request ''response_mode must be a string'') (\<lambda>x. x)
          (jsonString params ''response_mode'')) (\<lambda>mode.
        if scProfile (svConfig s) = ProfileFAPISecurityWithMessageSigning
        then require (mode = ''jwt'' \<or> mode = ''query.jwt'') (invalid_request ''response_mode must be jwt'')
        else require (mode = ''query'') (invalid_request ''response_mode must be query'')))"

definition parseRedirectURI :: "'s authorization_server \<Rightarrow> RegisteredClient \<Rightarrow> string \<Rightarrow> url option" where
  "parseRedirectURI a client raw =
     (let env = svEnv (azServer a) in
      ParseRedirectURL (seParse env) (seLoopback env) raw
        (if rclApplicationType client = ApplicationTypeNative
         then \<lparr>allowLoopbackHTTP = True, allowPrivateUseScheme = True\<rparr>
         else \<lparr>allowLoopbackHTTP = \<not> acProduction (azConfig a), allowPrivateUseScheme = False\<rparr>))"

definition validateScope :: "'s server \<Rightarrow> string \<Rightarrow> RegisteredClient \<Rightarrow> unit + unit" where
  "validateScope s scope client = check_all (\<lambda>tok. require (clientAllowsScope s client tok) ()) (strings_Fields scope)"

definition validate_response :: "'s server \<Rightarrow> json assoc \<Rightarrow> ServerError + unit" where
  "validate_response s params =
     and_then (checkResponseMode s params) (\<lambda>_.
     and_then (map_sum (\<lambda>_. invalid_request ''response_type is required'') (\<lambda>x. x) (jsonString params ''response_type'')) (\<lambda>responseType.
     and_then (require (responseType \<noteq> []) (invalid_request ''response_type is required'')) (\<lambda>_.
     require (responseType = ''code'') (srv_error ErrorUnsupportedResponseType 400 ''response_type must be code''))))"

definition validate_redirect :: "'s authorization_server \<Rightarrow> json assoc \<Rightarrow> RegisteredClient \<Rightarrow> ServerError + unit" where
  "validate_redirect a params client =
     (let env = svEnv (azServer a) in
      and_then (map_sum (\<lambda>_. invalid_request ''redirect_uri is required'') (\<lambda>x. x) (jsonString params ''redirect_uri'')) (\<lambda>redirectURI.
      and_then (require (HasRedirectURI (seParse env) (seLoopback env) client redirectURI)
        (invalid_request ''redirect_uri is not registered for this client'')) (\<lambda>_.
      require (parseRedirectURI a client redirectURI \<noteq> None)
        (invalid_request ''redirect_uri is not an acceptable redirect destination''))))"

definition validate_challenge :: "json assoc \<Rightarrow> ServerError + unit" where
  "validate_challenge params =
     and_then (map_sum (\<lambda>_. invalid_request ''code_challenge is required'') (\<lambda>x. x) (jsonString params ''code_challenge'')) (\<lambda>codeChallenge.
     and_then (require (codeChallenge \<noteq> []) (invalid_request ''code_challenge must not be empty'')) (\<lambda>_.
     and_then (map_sum (\<lambda>_. invalid_request ''code_challenge_method is required'') (\<lambda>x. x) (jsonString params ''code_challenge_method'')) (\<lambda>codeChallengeMethod.
     map_sum (\<lambda>_. invalid_request ''code_challenge_method must be S256'') (\<lambda>_. ()) (ParseMethod codeChallengeMethod))))"

definition validate_authentication :: "raw_reader \<Rightarrow> json assoc \<Rightarrow> ServerError + unit" where
  "validate_authentication R params =
     and_then (map_sum (\<lambda>_. invalid_request ''max_age must be a non-negative whole number of seconds'') (\<lambda>x. x) (requestedMaxAge params)) (\<lambda>_.
     and_then (map_sum (requestError ErrorInvalidRequest) (\<lambda>x. x) (requestedPrompt params)) (\<lambda>_.
     and_then (map_sum (requestError ErrorInvalidRequest) (\<lambda>x. x) (validateClaimsParameter R params)) (\<lambda>_.
     map_sum (requestError ErrorInvalidRequest) (\<lambda>_. ()) (essentialACRValues R params))))"

definition validate_scope :: "'s server \<Rightarrow> json assoc \<Rightarrow> RegisteredClient \<Rightarrow> ServerError + unit" where
  "validate_scope s params client =
     (case map_of params ''scope'' of
        None \<Rightarrow> Inr ()
      | Some scopeRaw \<Rightarrow>
          and_then (map_sum (\<lambda>_. invalid_request ''scope must be a string'') (\<lambda>x. x) (jsonStringValue scopeRaw)) (\<lambda>scope.
          map_sum (\<lambda>_. srv_error ErrorInvalidScope 400 ''scope is not valid for this client'') (\<lambda>x. x) (validateScope s scope client)))"

definition validateAuthorizationParameters :: "'s authorization_server \<Rightarrow> json assoc \<Rightarrow> RegisteredClient \<Rightarrow> ServerError + json assoc" where
  "validateAuthorizationParameters a params client =
     and_then (require (AllowsAuthorizationCodeGrant client)
       (srv_error ErrorUnauthorizedClient 400 ''the client is not registered for the authorization code grant'')) (\<lambda>_.
     and_then (map_sum (requestError ErrorInvalidRequest) (\<lambda>x. x) (checkAuthorizationParameterSizes (az_reader a) params client)) (\<lambda>_.
     let params = boundPresentationPreferences (az_reader a) params in
     and_then (validate_response (azServer a) params) (\<lambda>_.
     and_then (validate_redirect a params client) (\<lambda>_.
     and_then (validate_challenge params) (\<lambda>_.
     and_then (validate_authentication (az_reader a) params) (\<lambda>_.
     and_then (validate_scope (azServer a) params client) (\<lambda>_.
     Inr params)))))))"

definition validateAuthorizationRequest :: "'s authorization_server \<Rightarrow> json assoc \<Rightarrow> string list \<Rightarrow> RegisteredClient
    \<Rightarrow> ('s, ServerError, json assoc \<times> string list) effect" where
  "validateAuthorizationRequest a params requestedResources client =
     bindS (liftS (validateAuthorizationParameters a params client)) (\<lambda>validated.
     bindS (checkRequestedResources (azServer a) client requestedResources) (\<lambda>resources.
     liftS (Inr (validated, resources))))"

section \<open>The key of the request\<close>

definition reconcileParDPoPBinding :: "'s authorization_server \<Rightarrow> string \<Rightarrow> json assoc
    \<Rightarrow> (Rotator \<times> 's, ServerError, json assoc) effect" where
  "reconcileParDPoPBinding a proof_text params =
     (let s = azServer a in
      if proof_text = [] then liftS (Inr params)
      else
        bindS (on_snd (clock s)) (\<lambda>now.
        bindS (on_snd (catchS (\<lambda>_. srv_error ErrorInvalidDPoPProof 400 ''DPoP proof verification failed'')
          (verifyDPoPAtEitherEndpoint s proof_text now (scPAREndpoint (svConfig s)) (scMTLSPAREndpoint (svConfig s))))) (\<lambda>verified.
        bindS (case sdNonces (svDeps s) of
                 None \<Rightarrow> liftS (Inr ())
               | Some nonces \<Rightarrow> bindS (on_snd (clock s)) (\<lambda>now. server_checkDPoPNonce s nonces (vpNonce verified) now)) (\<lambda>_.
        let thumbprint = thumbprint_String (vpThumbprint verified) in
        case jsonString params ''dpop_jkt'' of
          Inr declared \<Rightarrow>
            if declared = [] then liftS (Inr (AList.update ''dpop_jkt'' (JStr thumbprint) params))
            else if declared \<noteq> thumbprint
            then liftS (Inl (invalid_request ''dpop_jkt does not match the DPoP proof presented to the pushed authorization request endpoint''))
            else liftS (Inr params)
        | Inl _ \<Rightarrow> liftS (Inr (AList.update ''dpop_jkt'' (JStr thumbprint) params))))))"

section \<open>The endpoint\<close>

record PushAuthorizationResult =
  prRequestURI :: string
  prExpiresIn :: duration
  prNextDPoPNonce :: string

definition par_EncodeResult :: "string \<Rightarrow> duration \<Rightarrow> json option" where
  "par_EncodeResult requestURI expiresIn =
     (if requestURI = [] \<or> expiresIn \<le> 0 then None
      else Some (JObj [(''request_uri'', JStr requestURI), (''expires_in'', json_int (whole_seconds expiresIn))]))"

definition PushAuthorizationResult_WriteJSON :: "PushAuthorizationResult \<Rightarrow> http_response" where
  "PushAuthorizationResult_WriteJSON r =
     \<lparr>hrStatus = 201,
      hrHeaders = (if prNextDPoPNonce r \<noteq> [] then [(''DPoP-Nonce'', prNextDPoPNonce r)] else []) @ noStore
        @ [(''Content-Type'', ''application/json'')],
      hrBody = par_EncodeResult (prRequestURI r) (prExpiresIn r)\<rparr>"

text \<open>A failure names the client once it authenticated.\<close>

definition for_client :: "string \<Rightarrow> ('w, ServerError, 'a) effect \<Rightarrow> ('w, string \<times> ServerError, 'a) effect" where
  "for_client clientID m = catchS (Pair clientID) m"

record checked_request =
  krClient :: RegisteredClient
  krInstanceKey :: string
  krSource :: extension_source
  krParameters :: "json assoc"
  krTokenClaims :: "json assoc"
  krResources :: "string list"
  krRequiredSubject :: string
  krRequiredInternal :: string

definition check_pushed :: "'s authorization_server \<Rightarrow> FormParameter list \<Rightarrow> requestCredentials
    \<Rightarrow> (Rotator \<times> 's, string \<times> ServerError, checked_request) effect" where
  "check_pushed a parameters creds =
     (let s = azServer a; (formParams, formResources) = takeResourceParameters s parameters in
      bindS (for_client [] (liftS (map_sum (\<lambda>_. invalid_request ''the request's parameters are duplicated, too many, or too large'') (\<lambda>x. x)
        (formParametersToMap formParams)))) (\<lambda>params.
      bindS (for_client [] (on_snd (authenticateRequest s params creds [] []))) (\<lambda>(client, dpopProof, authn).
      let clientID = rclID client in
      bindS (for_client clientID (liftS (checkClientSubjectIssuable a client))) (\<lambda>_.
      bindS (for_client clientID (on_snd (resolveAuthorizationParameters a params formResources client))) (\<lambda>aq.
      bindS (for_client clientID (on_snd (validateAuthorizationRequest a (aqParameters aq) (aqResources aq) client))) (\<lambda>(validated, resources).
      bindS (for_client clientID (on_snd (requiredSubject a validated clientID))) (\<lambda>required.
      bindS (for_client clientID (on_snd (requiredInternalSubject a client required))) (\<lambda>(requiredInternal, _).
      bindS (for_client clientID (reconcileParDPoPBinding a dpopProof validated)) (\<lambda>validated.
      liftS (Inr \<lparr>krClient = client, krInstanceKey = vdInstanceKey authn,
        krSource = (if map_of params ''request'' = None then SourcePlainParameter else SourceRequestObject),
        krParameters = validated, krTokenClaims = aqTokenClaims aq, krResources = resources,
        krRequiredSubject = required, krRequiredInternal = requiredInternal\<rparr>))))))))))"

text \<open>What is stored of it, at \<open>now\<close>.\<close>

definition pushed_record :: "'s authorization_server \<Rightarrow> checked_request \<Rightarrow> time \<Rightarrow> requestRecord" where
  "pushed_record a k now =
     requestRecord_zero\<lparr>rqParameters := krParameters k, rqTokenClaims := krTokenClaims k,
       rqExtensionSource := source_bits (krSource k), rqPushedAt := Some now,
       rqEssentialACRValues := (case essentialACRValues (az_reader a) (krParameters k) of Inl _ \<Rightarrow> [] | Inr vs \<Rightarrow> vs),
       rqRequiredSubject := krRequiredSubject k, rqRequiredInternalSubject := krRequiredInternal k,
       rqResources := krResources k, rqClientInstanceKey := krInstanceKey k\<rparr>"

definition store_pushed :: "'s authorization_server \<Rightarrow> checked_request
    \<Rightarrow> (Rotator \<times> 's, ServerError, PushAuthorizationResult) effect" where
  "store_pushed a k =
     (let s = azServer a; client = rclID (krClient k) in
      bindS (on_snd (catchS (\<lambda>_. server_error ''failed to generate request_uri'') (GenerateRequestURI s))) (\<lambda>requestURI.
      let reference = (case SplitRequestURI requestURI of None \<Rightarrow> [] | Some r \<Rightarrow> r) in
      bindS (on_snd (clock s)) (\<lambda>now.
      bindS (liftS (map_sum (\<lambda>_. server_error ''failed to encode pushed authorization request'') (\<lambda>x. x)
        (server_encodeRequestRecord s (pushed_record a k now)))) (\<lambda>request.
      bindS (on_snd (catchS (\<lambda>_. server_error ''failed to persist pushed authorization request'')
        (adCreatePAR (azDeps a) \<lparr>parReference = parReferenceKey (sv_crypto s) client reference, parClientID = client,
          parRequest = request, parExpiresAt = now + slPushedRequestLifetime (sv_limits s)\<rparr>))) (\<lambda>_.
      bindS (case sdNonces (svDeps s) of
               None \<Rightarrow> liftS (Inr [])
             | Some nonces \<Rightarrow> catchS (\<lambda>_. server_nonceNotIssued) (server_issueDPoPNonce s nonces now)) (\<lambda>nextNonce.
      liftS (Inr \<lparr>prRequestURI = requestURI, prExpiresIn = slPushedRequestLifetime (sv_limits s), prNextDPoPNonce = nextNonce\<rparr>)))))))"

definition push_request :: "'s authorization_server \<Rightarrow> FormParameter list \<Rightarrow> requestCredentials
    \<Rightarrow> (Rotator \<times> 's, string \<times> ServerError, string \<times> PushAuthorizationResult) effect" where
  "push_request a parameters creds =
     bindS (check_pushed a parameters creds) (\<lambda>k.
     bindS (for_client (rclID (krClient k)) (store_pushed a k)) (\<lambda>result.
     liftS (Inr (rclID (krClient k), result))))"

definition PushAuthorizationRequest :: "'s authorization_server \<Rightarrow> FormParameter list \<Rightarrow> requestCredentials
    \<Rightarrow> (Rotator \<times> 's, ServerError, PushAuthorizationResult) effect" where
  "PushAuthorizationRequest a parameters creds rw =
     (case push_request a parameters creds rw of
        (Inl (client, e), (r, w)) \<Rightarrow>
          (Inl e, (r, audit (azServer a) AuditEventPushAuthorizationRequest client AuditOutcomeFailure (svCode e) w))
      | (Inr (client, result), (r, w)) \<Rightarrow>
          (Inr result, (r, audit (azServer a) AuditEventPushAuthorizationRequest client AuditOutcomeSuccess [] w)))"

end
