(* ===== verification/Server_Authorization.thy ===== *)
theory Server_Authorization
  imports Server_Par
begin

text \<open>
  The authorization endpoint. \<^verbatim>\<open>server/authorization.go\<close> redeems a pushed request for an
  interaction with the end user, at most \<^verbatim>\<open>interaction_slots.go\<close>'s eight times;
  \<^verbatim>\<open>complete_authorization.go\<close> concludes one, with a code or an error sent to the client's
  redirect URI, signed under message signing (\<^verbatim>\<open>jarm.go\<close>). The memory store's operations
  of the same names are \<open>Memstore.BeginAuthorization\<close> and \<open>Memstore.CompleteAuthorization\<close>.
\<close>

section \<open>Interactions\<close>

definition ErrorInvalidRequestURI :: string where "ErrorInvalidRequestURI = ''invalid_request_uri''"
definition ErrorRequestNotSupported :: string where "ErrorRequestNotSupported = ''request_not_supported''"
definition ErrorAccessDenied :: string where "ErrorAccessDenied = ''access_denied''"

definition interactionHandleSize :: nat where "interactionHandleSize = 32"

text \<open>\<open>irMaxAge\<close> is \<^verbatim>\<open>MaxAge\<close> with \<^verbatim>\<open>HasMaxAge\<close>.\<close>

record InteractionRequest =
  irClientID :: string
  irScope :: "string list"
  irLoginHint :: string
  irACRValues :: "string list"
  irEssentialACRValues :: "string list"
  irRequiredSubject :: string
  irMaxAge :: "duration option"
  irPrompt :: "string list"
  irUILocales :: "string list"
  irClaimsLocales :: "string list"
  irDisplay :: string
  irClientDisplay :: ClientDisplay
  irRedirectURI :: "url option"
  irAuthorizationDetails :: RARValues
  irResources :: "string list"
  irRequestedClaims :: RequestedClaims
  irExtensions :: extension_values

datatype AuthorizationAction =
    InteractionRequired string InteractionRequest time
  | RedirectResponse url
  | LocalErrorResponse ServerError

definition any_redirect :: url_options where
  "any_redirect = \<lparr>allowLoopbackHTTP = True, allowPrivateUseScheme = True\<rparr>"

definition or_default :: "'a \<Rightarrow> 'e + 'a \<Rightarrow> 'a" where
  "or_default d r = (case r of Inl _ \<Rightarrow> d | Inr v \<Rightarrow> v)"

definition rarValuesFromStoredParameters :: "RARRegistry option \<Rightarrow> json assoc \<Rightarrow> RARValues" where
  "rarValuesFromStoredParameters registry params =
     (case (registry, map_of params authorizationDetailsParameter) of
        (Some r, Some raw) \<Rightarrow> or_default [] (rar_parse r (rrSize r raw) True (Some raw) False)
      | _ \<Rightarrow> [])"

definition interactionExtensions :: "'s authorization_server \<Rightarrow> json assoc \<Rightarrow> string list \<Rightarrow> int
    \<Rightarrow> extension_error + extension_values" where
  "interactionExtensions a params core source =
     (if source = 0 then Inr []
      else map_sum (\<lambda>e. e) fst (extension_Parse (acExtensions (azConfig a)) core (bits_source source) params))"

definition interactionRequestFrom :: "'s authorization_server \<Rightarrow> string \<Rightarrow> json assoc \<Rightarrow> ClientDisplay \<Rightarrow> InteractionRequest" where
  "interactionRequestFrom a clientID params display =
     (let R = az_reader a; env = svEnv (azServer a) in
      \<lparr>irClientID = clientID, irScope = strings_Fields (or_default [] (jsonString params ''scope'')),
       irLoginHint = or_default [] (jsonString params ''login_hint''), irACRValues = requestedACRValues params,
       irEssentialACRValues = or_default [] (essentialACRValues R params), irRequiredSubject = [],
       irMaxAge = or_default None (requestedMaxAge params), irPrompt = or_default [] (requestedPrompt params),
       irUILocales = requestedLocales params ''ui_locales'', irClaimsLocales = requestedLocales params ''claims_locales'',
       irDisplay = requestedDisplay params, irClientDisplay = display,
       irRedirectURI = (case jsonString params ''redirect_uri'' of
           Inl _ \<Rightarrow> None | Inr raw \<Rightarrow> ParseRedirectURL (seParse env) (seLoopback env) raw any_redirect),
       irAuthorizationDetails = rarValuesFromStoredParameters (scRAR (svConfig (azServer a))) params,
       irResources = [], irRequestedClaims = requestedClaimsFrom R params, irExtensions = []\<rparr>)"

section \<open>Beginning one\<close>

definition maxInteractionsPerRequestURI :: nat where "maxInteractionsPerRequestURI = 8"
definition interactionSlotReplayNamespace :: string where
  "interactionSlotReplayNamespace = ''server:authorization-interaction''"

definition slot_use :: "crypto \<Rightarrow> string \<Rightarrow> time \<Rightarrow> nat \<Rightarrow> ReplayUse" where
  "slot_use C referenceKey expiresAt slot =
     \<lparr>ruNamespace = interactionSlotReplayNamespace, ruDigest = Digest C referenceKey (itoa slot), ruExpiresAt = expiresAt\<rparr>"

fun claim_slots :: "'s server \<Rightarrow> string \<Rightarrow> time \<Rightarrow> nat list \<Rightarrow> ('s, ServerError, unit) effect" where
  "claim_slots s referenceKey expiresAt [] w =
     (Inl (srv_error ErrorInvalidRequestURI 400 ''request_uri has begun too many interactions''), w)"
| "claim_slots s referenceKey expiresAt (slot # slots) w =
     (case sdReplay (svDeps s) (slot_use (sv_crypto s) referenceKey expiresAt slot) w of
        (Inr _, w') \<Rightarrow> (Inr (), w')
      | (Inl StoreUnavailable, w') \<Rightarrow> (Inl (server_error ''failed to record the interaction''), w')
      | (Inl OtherFailure, w') \<Rightarrow> claim_slots s referenceKey expiresAt slots w')"

definition claimInteractionSlot :: "'s server \<Rightarrow> string \<Rightarrow> time \<Rightarrow> ('s, ServerError, unit) effect" where
  "claimInteractionSlot s referenceKey now =
     claim_slots s referenceKey (now + (slPushedRequestLifetime (sv_limits s) + 2 * slMaxClockSkew (sv_limits s)))
       [0..<maxInteractionsPerRequestURI]"

fun no_longer_registered :: "dependency_error \<Rightarrow> ServerError" where
  "no_longer_registered StoreUnavailable = server_error ''failed to look up the client''"
| "no_longer_registered OtherFailure = srv_error ErrorUnauthorizedClient 400 ''client is no longer registered''"

definition invalid_request_uri :: "string \<Rightarrow> ServerError" where
  "invalid_request_uri = srv_error ErrorInvalidRequestURI 400"

definition unusable_request_uri :: ServerError where
  "unusable_request_uri = invalid_request_uri ''request_uri is invalid, expired, or already used''"

text \<open>What the request itself must hold, and the interaction it is redeemed for.\<close>

definition redeem_request_uri :: "'s authorization_server \<Rightarrow> string \<Rightarrow> string \<Rightarrow> string
    \<Rightarrow> ('s, ServerError, string \<times> time \<times> CompletedInteraction) effect" where
  "redeem_request_uri a requestURI clientID requestObject =
     (let s = azServer a in
      bindS (liftS (require (\<not> (requestURI = [] \<and> requestObject \<noteq> [])) (srv_error ErrorRequestNotSupported 400
        ''the request parameter is not supported at the authorization endpoint: push the request object (RFC 9126)''))) (\<lambda>_.
      bindS (liftS (of_option (invalid_request ''request_uri is not recognized'') (SplitRequestURI requestURI))) (\<lambda>reference.
      bindS (liftS (require (clientID \<noteq> []) (invalid_request ''client_id is required''))) (\<lambda>_.
      bindS (catchS (\<lambda>_. server_error ''failed to generate interaction handle'') (generateRandomToken s interactionHandleSize)) (\<lambda>handle.
      bindS (clock s) (\<lambda>now.
      let referenceKey = parReferenceKey (sv_crypto s) clientID reference in
      bindS (claimInteractionSlot s referenceKey now) (\<lambda>_.
      bindS (catchS (\<lambda>_. unusable_request_uri) (adBegin (azDeps a)
        \<lparr>btReference = referenceKey, btHandle = interactionHandleKey (sv_crypto s) handle,
         btHandleExpiresAt = now + acInteractionLifetime (azConfig a), btNow = now\<rparr>)) (\<lambda>pushed.
      bindS (liftS (require (ciClientID pushed = clientID)
        (invalid_request_uri ''client_id does not match the pushed authorization request''))) (\<lambda>_.
      liftS (Inr (handle, now, pushed)))))))))))"

definition begin_interaction :: "'s authorization_server \<Rightarrow> string \<Rightarrow> string \<times> time \<times> CompletedInteraction
    \<Rightarrow> ('s, ServerError, AuthorizationAction) effect" where
  "begin_interaction a clientID = (\<lambda>(handle, now, pushed).
     let s = azServer a in
     bindS (liftS (require (now < ciExpiresAt pushed) (invalid_request_uri ''request_uri has expired''))) (\<lambda>_.
     bindS (catchS no_longer_registered (sdResolveClient (svDeps s) clientID)) (\<lambda>client.
     bindS (liftS (map_sum (\<lambda>e. recordFailure e unusable_request_uri ''pushed authorization request'') (\<lambda>x. x)
       (decodeOwnRequestRecord s (ciRequest pushed)))) (\<lambda>request.
     bindS (liftS (map_sum (\<lambda>_. server_error ''stored extension parameters no longer validate'') (\<lambda>x. x)
       (interactionExtensions a (rqParameters request) coreAuthorizationParameters (rqExtensionSource request)))) (\<lambda>extensions.
     liftS (Inr (InteractionRequired handle
       ((interactionRequestFrom a clientID (rqParameters request) (rclDisplay client))\<lparr>
          irRequiredSubject := requiredSubjectForApplication request, irExtensions := extensions,
          irResources := rqResources request\<rparr>)
       (now + acInteractionLifetime (azConfig a)))))))))"

definition server_BeginAuthorization :: "'s authorization_server \<Rightarrow> string \<Rightarrow> string \<Rightarrow> string \<Rightarrow> 's \<Rightarrow> AuthorizationAction \<times> 's" where
  "server_BeginAuthorization a requestURI clientID requestObject w =
     (case bindS (for_client [] (redeem_request_uri a requestURI clientID requestObject))
             (\<lambda>redeemed. for_client clientID (begin_interaction a clientID redeemed)) w of
        (Inl (client, e), w') \<Rightarrow>
          (LocalErrorResponse e, audit (azServer a) AuditEventBeginAuthorization client AuditOutcomeFailure (svCode e) w')
      | (Inr action, w') \<Rightarrow>
          (action, audit (azServer a) AuditEventBeginAuthorization clientID AuditOutcomeSuccess [] w'))"

section \<open>Answering the client\<close>

text \<open>\<^verbatim>\<open>URL.String\<close>, with the query.\<close>

definition url_with_query :: "url \<Rightarrow> string" where
  "url_with_query u =
     url_String (u\<lparr>uForceQuery := False\<rparr>) @ (if uForceQuery u \<or> uRawQuery u \<noteq> [] then ''?'' @ uRawQuery u else [])"

definition jarm_parameters :: "crypto \<Rightarrow> string assoc \<Rightarrow> json assoc" where
  "jarm_parameters C params =
     List.map_filter (\<lambda>(k, v). map_option (Pair k) (plain_string C v)) (filter (\<lambda>(_, v). v \<noteq> []) params)"

definition signJARMResponse :: "'s authorization_server \<Rightarrow> string \<Rightarrow> string assoc \<Rightarrow> ('s, unit, string) effect" where
  "signJARMResponse a clientID params =
     (let s = azServer a in
      bindS (catchS (\<lambda>_. ()) (sdSigner (svDeps s) JARMSigning (acJARMAlg (azConfig a)))) (\<lambda>(signer, kid).
      bindS (clock s) (\<lambda>now.
      liftS (map_sum (\<lambda>_. ()) (\<lambda>x. x) (CreateJarm (sv_crypto s)
        \<lparr>jmSigner = Some signer, jmAlgorithm = acJARMAlg (azConfig a), jmKeyID = kid, jmIssuer = sv_issuer s,
         jmAudience = clientID, jmNow = now, jmLifetime = acJARMResponseLifetime (azConfig a),
         jmParameters = jarm_parameters (sv_crypto s) params\<rparr>)))))"

definition response_values :: "'s authorization_server \<Rightarrow> string \<Rightarrow> string assoc \<Rightarrow> ('s, ServerError, string assoc) effect" where
  "response_values a clientID params =
     (if scProfile (svConfig (azServer a)) = ProfileFAPISecurityWithMessageSigning
      then bindS (catchS (\<lambda>_. server_error ''failed to sign authorization response'') (signJARMResponse a clientID params)) (\<lambda>jwt.
        liftS (Inr [(''response'', jwt)]))
      else liftS (Inr (AList.update ''iss'' (sv_issuer (azServer a)) (filter (\<lambda>(_, v). v \<noteq> []) params))))"

definition buildAuthorizationResponse :: "'s authorization_server \<Rightarrow> string \<Rightarrow> string \<Rightarrow> string assoc
    \<Rightarrow> ('s, ServerError, url) effect" where
  "buildAuthorizationResponse a clientID redirectURI params =
     (let env = svEnv (azServer a) in
      bindS (liftS (of_option (server_error ''stored redirect_uri is malformed'') (seParse env redirectURI))) (\<lambda>base.
      bindS (response_values a clientID params) (\<lambda>response.
      liftS (of_option (server_error ''failed to construct redirect destination'')
        (ParseRedirectURL (seParse env) (seLoopback env)
          (url_with_query (WithAddedQuery base (query_Encode response))) any_redirect)))))"

text \<open>The parameters of an error; a description that is not error text is dropped.\<close>

definition error_parameters :: "string \<Rightarrow> string \<Rightarrow> string \<Rightarrow> string assoc" where
  "error_parameters errorCode state description =
     [(''error'', errorCode), (''state'', state)]
     @ (if IsErrorText description then [(''error_description'', description)] else [])"

text \<open>The destination and the audit of it, or the failure.\<close>

definition BuildAuthorizationErrorRedirect :: "'s authorization_server \<Rightarrow> RegisteredClient \<Rightarrow> string \<Rightarrow> string \<Rightarrow> string \<Rightarrow> string
    \<Rightarrow> ('s, ServerError, url) effect" where
  "BuildAuthorizationErrorRedirect a client redirectURI state errorCode description =
     (let s = azServer a; env = svEnv s in
      bindS (liftS (require (\<not> acProduction (azConfig a)) (server_error
        ''an authorization error redirect before the user has authenticated is refused under AssuranceProduction (RFC 9700 section 4.11.2)''))) (\<lambda>_.
      bindS (liftS (require (HasRedirectURI (seParse env) (seLoopback env) client redirectURI)
        (invalid_request ''redirect_uri is not registered for this client''))) (\<lambda>_.
      bindS (liftS (require (parseRedirectURI a client redirectURI \<noteq> None)
        (invalid_request ''redirect_uri is not an acceptable redirect destination''))) (\<lambda>_.
      bindS (liftS (require (IsErrorText errorCode) (server_error ''errorCode is not RFC 6749 error text''))) (\<lambda>_.
      bindS (buildAuthorizationResponse a (rclID client) redirectURI (error_parameters errorCode state description)) (\<lambda>dest w.
      (Inr dest, audit s AuditEventBeginAuthorization (rclID client) AuditOutcomeFailure errorCode w)))))))"

section \<open>Concluding one\<close>

text \<open>\<open>NewAuthenticationContext\<close> is what makes a context; the zero value is none.\<close>

record AuthenticationContext =
  xtAuthTime :: time
  xtACR :: string
  xtAMR :: "string list"

definition NewAuthenticationContext :: "time \<Rightarrow> string \<Rightarrow> string list \<Rightarrow> AuthenticationContext option" where
  "NewAuthenticationContext authTime acr amr =
     (if authTime = zero_time then None
      else if authTime < 0 then None
      else if \<not> utf8_valid (string_bytes acr) then None
      else if \<not> list_all (\<lambda>m. utf8_valid (string_bytes m)) amr then None
      else Some \<lparr>xtAuthTime = authTime, xtACR = acr, xtAMR = amr\<rparr>)"

definition authTimeProblem :: "AuthenticationContext \<Rightarrow> time \<Rightarrow> duration \<Rightarrow> string" where
  "authTimeProblem auth now skew =
     (if xtAuthTime auth = zero_time
      then ''authorize result carries no authentication context (use NewAuthenticationContext)''
      else if now + skew < xtAuthTime auth then ''authorize result's authentication time is in the future''
      else [])"

record GrantedAuthorization =
  gaScope :: "string list"
  gaApprovedIdentityClaims :: "string list"
  gaAuthorizationDetails :: "json list"
  gaResources :: "string list"
  gaIDTokenClaims :: "json assoc"
  gaGrantID :: string

text \<open>An \<^verbatim>\<open>InteractionNeed\<close> is any number; the results are closed but for Go's nil.\<close>

type_synonym InteractionNeed = int

definition NeedLogin :: InteractionNeed where "NeedLogin = 1"
definition NeedConsent :: InteractionNeed where "NeedConsent = 2"
definition NeedAccountSelection :: InteractionNeed where "NeedAccountSelection = 3"
definition NeedInteraction :: InteractionNeed where "NeedInteraction = 4"

definition need_errorCode :: "InteractionNeed \<Rightarrow> string" where
  "need_errorCode need =
     (if need = NeedLogin then ''login_required''
      else if need = NeedConsent then ''consent_required''
      else if need = NeedAccountSelection then ''account_selection_required''
      else if need = NeedInteraction then ''interaction_required''
      else [])"

datatype InteractionResult =
    Authorize string AuthenticationContext GrantedAuthorization
  | Deny string
  | DenyLocally string
  | AuthenticationFailed string
  | InteractionNeeded InteractionNeed string

definition localDenial :: "string \<Rightarrow> ServerError" where
  "localDenial reason =
     srv_error ErrorAccessDenied 403 (if reason = [] \<or> \<not> IsErrorText reason then ''the request was declined'' else reason)"

definition checkRedirectURIStillRegistered :: "'s server \<Rightarrow> string \<Rightarrow> string \<Rightarrow> ('s, ServerError, unit) effect" where
  "checkRedirectURIStillRegistered s clientID redirectURI =
     bindS (catchS no_longer_registered (sdResolveClient (svDeps s) clientID)) (\<lambda>client.
     liftS (require (HasRedirectURI (seParse (svEnv s)) (seLoopback (svEnv s)) client redirectURI)
       (invalid_request ''redirect_uri is no longer registered for this client'')))"

subsection \<open>What was asked for\<close>

definition loginRequiredProblem :: "'s server \<Rightarrow> requestRecord \<Rightarrow> AuthenticationContext \<Rightarrow> string \<Rightarrow> ('s, ServerError, string) effect" where
  "loginRequiredProblem s request auth clientSub =
     (let skew = slMaxClockSkew (sv_limits s) in
      bindS (case requestedMaxAge (rqParameters request) of
          Inr (Some maxAge) \<Rightarrow> bindS (clock s) (\<lambda>now. liftS (Inr (xtAuthTime auth < now + (- maxAge - skew))))
        | _ \<Rightarrow> liftS (Inr False)) (\<lambda>older.
      liftS (Inr
        (if older then ''the user's authentication is older than the requested max_age''
         else if PromptLogin \<in> set (or_default [] (requestedPrompt (rqParameters request)))
           \<and> (case rqPushedAt request of None \<Rightarrow> False | Some pushedAt \<Rightarrow> xtAuthTime auth < pushedAt - skew)
         then ''the user didn't authenticate again for prompt=login''
         else if \<not> meetsEssentialACR (rqEssentialACRValues request) (xtACR auth)
         then ''the user's authentication doesn't meet the requested essential acr''
         else if \<not> meetsRequiredSubject (rqRequiredSubject request) clientSub
         then ''the authenticated user isn't the one the request named''
         else []))))"

definition validateGrantedIDTokenClaims :: "'s authorization_server \<Rightarrow> json assoc \<Rightarrow> int \<Rightarrow> unit + unit" where
  "validateGrantedIDTokenClaims a claims maxBytes =
     and_then (require (claimsSize (svEnv (azServer a)) claims \<le> maxBytes) ()) (\<lambda>_.
     check_all (\<lambda>(name, v). require (name \<noteq> [] \<and> utf8_valid (string_bytes name)
       \<and> \<not> isServerManagedIDTokenClaim name \<and> azLossless a v) ()) claims)"

record approvedGrant =
  agAuthorizationDetails :: raw
  agResources :: "string list"
  agIDTokenClaims :: "string list"
  agUserinfoClaims :: "string list"
  agIDTokenClaimValues :: Acceptable
  agUserinfoClaimValues :: Acceptable

definition checkApprovedGrant :: "'s authorization_server \<Rightarrow> requestRecord \<Rightarrow> GrantedAuthorization \<Rightarrow> ServerError + approvedGrant" where
  "checkApprovedGrant a request granted =
     (let s = azServer a; R = az_reader a; params = rqParameters request in
      and_then (map_sum (\<lambda>_. invalid_request ''granted scope is empty or exceeds requested scope'') (\<lambda>x. x)
        (validateGrantedScopeSubset (gaScope granted) (or_default [] (jsonString params ''scope'')))) (\<lambda>_.
      and_then (map_sum (\<lambda>_. invalid_request ''granted authorization_details exceeds what was requested'') (\<lambda>x. x)
        (validateGrantedAuthorizationDetails s (map_of params authorizationDetailsParameter) (gaAuthorizationDetails granted))) (\<lambda>details.
      and_then (grantedResources (rqResources request) (gaResources granted)) (\<lambda>resources.
      and_then (map_sum (\<lambda>_. invalid_request ''granted ID token claims are not valid'') (\<lambda>x. x)
        (validateGrantedIDTokenClaims a (gaIDTokenClaims granted) (slMaxIDTokenClaimsBytes (sv_limits s)))) (\<lambda>_.
      and_then (require (validateGrantID s (gaGrantID granted)) (invalid_request ''the grant ID is not valid'')) (\<lambda>_.
      and_then (map_sum (\<lambda>_. invalid_request ''approved identity claims exceed what was requested'') (\<lambda>x. x)
        (approvedClaimNames R params (gaApprovedIdentityClaims granted))) (\<lambda>(idTokenClaims, userinfoClaims).
      Inr \<lparr>agAuthorizationDetails = details, agResources = resources, agIDTokenClaims = idTokenClaims,
        agUserinfoClaims = userinfoClaims,
        agIDTokenClaimValues = requestedClaimValues R params ''id_token'' idTokenClaims,
        agUserinfoClaimValues = requestedClaimValues R params ''userinfo'' userinfoClaims\<rparr>)))))))"

definition checkAuthorizeResult :: "'s authorization_server \<Rightarrow> string \<Rightarrow> string \<Rightarrow> AuthenticationContext
    \<Rightarrow> ('s, ServerError, string \<times> string) effect" where
  "checkAuthorizeResult a clientID subject auth =
     (let s = azServer a in
      bindS (liftS (require (subject \<noteq> []) (server_error ''authorize result carries no authenticated subject''))) (\<lambda>_.
      bindS (clock s) (\<lambda>now.
      let problem = authTimeProblem auth now (slMaxClockSkew (sv_limits s)) in
      bindS (liftS (require (problem = []) (server_error problem))) (\<lambda>_.
      subjectAtClient a clientID subject))))"

subsection \<open>The code\<close>

definition pairwisePrefixOf :: "server_config \<Rightarrow> string \<Rightarrow> string" where
  "pairwisePrefixOf cfg sector = (if sector = [] then [] else prefix_String (sjPrefix (effectiveSubjects cfg)))"

text \<open>The grant of a code, made at \<open>now\<close>.\<close>

record code_parameters =
  kpRedirectURI :: string
  kpCodeChallenge :: string
  kpNonce :: string
  kpDPoPJKT :: string

definition code_grant :: "'s server \<Rightarrow> requestRecord \<Rightarrow> code_parameters \<Rightarrow> string \<Rightarrow> AuthenticationContext \<Rightarrow> GrantedAuthorization
    \<Rightarrow> approvedGrant \<Rightarrow> string \<times> string \<Rightarrow> time \<Rightarrow> grantRecord" where
  "code_grant s request k subject auth granted approved = (\<lambda>(clientSub, sector) now.
     grantRecord_zero\<lparr>gnKind := grantKindAuthorizationCode, gnIssuedAt := Some now, gnRedirectURI := kpRedirectURI k,
       gnCodeChallenge := kpCodeChallenge k, gnNonce := kpNonce k, gnDPoPJKT := kpDPoPJKT k, gnSubject := subject,
       gnClientSubject := distinctClientSubject clientSub subject, gnPairwiseSector := sector,
       gnPairwisePrefix := pairwisePrefixOf (svConfig s) sector, gnScope := gaScope granted,
       gnAuthTime := xtAuthTime auth, gnACR := xtACR auth, gnAMR := xtAMR auth,
       gnAuthorizationDetails := agAuthorizationDetails approved, gnResources := agResources approved,
       gnTokenClaims := rqTokenClaims request, gnRequestedIDTokenClaims := agIDTokenClaims approved,
       gnRequestedUserinfoClaims := agUserinfoClaims approved,
       gnRequestedIDTokenClaimValues := agIDTokenClaimValues approved,
       gnRequestedUserinfoClaimValues := agUserinfoClaimValues approved, gnIDTokenClaims := gaIDTokenClaims granted,
       gnGrantID := gaGrantID granted, gnClientInstanceKey := rqClientInstanceKey request,
       gnGrantType := ''authorization_code''\<rparr>)"

definition stored_parameter :: "json assoc \<Rightarrow> string \<Rightarrow> ServerError + string" where
  "stored_parameter params name =
     map_sum (\<lambda>_. server_error (''pushed authorization request has a malformed '' @ name)) (\<lambda>x. x) (optionalJSONString params name)"

definition required_parameter :: "json assoc \<Rightarrow> string \<Rightarrow> ServerError + string" where
  "required_parameter params name =
     map_sum (\<lambda>_. server_error (''pushed authorization request is missing '' @ name)) (\<lambda>x. x) (jsonString params name)"

text \<open>The code is drawn between its challenge and the other parameters being read.\<close>

definition issue_code :: "'s authorization_server \<Rightarrow> string \<Rightarrow> requestRecord \<Rightarrow> string \<Rightarrow> string \<Rightarrow> AuthenticationContext
    \<Rightarrow> GrantedAuthorization \<Rightarrow> approvedGrant \<Rightarrow> string \<times> string \<Rightarrow> ('s, ServerError, string) effect" where
  "issue_code a clientID request redirectURI subject auth granted approved client_sub =
     (let s = azServer a; params = rqParameters request in
      bindS (liftS (required_parameter params ''code_challenge'')) (\<lambda>codeChallenge.
      bindS (catchS (\<lambda>_. server_error ''failed to generate authorization code'') (generateRandomToken s authorizationCodeSize)) (\<lambda>code.
      bindS (liftS (stored_parameter params ''nonce'')) (\<lambda>nonce.
      bindS (liftS (stored_parameter params ''dpop_jkt'')) (\<lambda>dpopJKT.
      bindS (clock s) (\<lambda>now.
      bindS (liftS (map_sum (\<lambda>_. server_error ''failed to encode authorization code grant'') (\<lambda>x. x)
        (server_encodeGrantRecord s (code_grant s request
          \<lparr>kpRedirectURI = redirectURI, kpCodeChallenge = codeChallenge, kpNonce = nonce, kpDPoPJKT = dpopJKT\<rparr>
          subject auth granted approved client_sub now)))) (\<lambda>encoded.
      bindS (catchS (\<lambda>_. server_error ''failed to persist authorization code'') (adCreateCode (azDeps a)
        \<lparr>acCodeHash = authorizationCodeHash (sv_crypto s) code (rqClientInstanceKey request), acClientID = clientID,
         acGrant = encoded, acExpiresAt = now + slAuthorizationCodeLifetime (sv_limits s)\<rparr>)) (\<lambda>_.
      liftS (Inr code)))))))))"

text \<open>A redirect, and how it is audited.\<close>

record completed_redirect =
  rdDestination :: url
  rdOutcome :: audit_outcome
  rdDescription :: string

definition completeErrorRedirect :: "'s authorization_server \<Rightarrow> string \<Rightarrow> string \<Rightarrow> string \<Rightarrow> string \<Rightarrow> string
    \<Rightarrow> ('s, ServerError, completed_redirect) effect" where
  "completeErrorRedirect a clientID redirectURI state errorCode description =
     bindS (buildAuthorizationResponse a clientID redirectURI (error_parameters errorCode state description)) (\<lambda>destination.
     liftS (Inr \<lparr>rdDestination = destination, rdOutcome = AuditOutcomeFailure, rdDescription = errorCode\<rparr>))"

definition completeAuthorize :: "'s authorization_server \<Rightarrow> string \<Rightarrow> requestRecord \<Rightarrow> string \<Rightarrow> string \<Rightarrow> string
    \<Rightarrow> AuthenticationContext \<Rightarrow> GrantedAuthorization \<Rightarrow> ('s, ServerError, completed_redirect) effect" where
  "completeAuthorize a clientID request redirectURI state subject auth granted =
     bindS (checkAuthorizeResult a clientID subject auth) (\<lambda>client_sub.
     bindS (loginRequiredProblem (azServer a) request auth (fst client_sub)) (\<lambda>problem.
     if problem \<noteq> [] then completeErrorRedirect a clientID redirectURI state ''login_required'' problem
     else bindS (liftS (checkApprovedGrant a request granted)) (\<lambda>approved.
       bindS (issue_code a clientID request redirectURI subject auth granted approved client_sub) (\<lambda>code.
       bindS (buildAuthorizationResponse a clientID redirectURI [(''code'', code), (''state'', state)]) (\<lambda>destination.
       liftS (Inr \<lparr>rdDestination = destination, rdOutcome = AuditOutcomeSuccess, rdDescription = []\<rparr>))))))"

definition conclude :: "'s authorization_server \<Rightarrow> string \<Rightarrow> requestRecord \<Rightarrow> string \<Rightarrow> string \<Rightarrow> InteractionResult option
    \<Rightarrow> ('s, ServerError, completed_redirect) effect" where
  "conclude a clientID request redirectURI state result =
     (case result of
        Some (Authorize subject auth granted) \<Rightarrow> completeAuthorize a clientID request redirectURI state subject auth granted
      | Some (Deny reason) \<Rightarrow> completeErrorRedirect a clientID redirectURI state ''access_denied'' reason
      | Some (AuthenticationFailed reason) \<Rightarrow> completeErrorRedirect a clientID redirectURI state ''login_required'' reason
      | Some (InteractionNeeded need reason) \<Rightarrow>
          if need_errorCode need = [] then liftS (Inl (server_error ''unrecognized interaction need''))
          else completeErrorRedirect a clientID redirectURI state (need_errorCode need) reason
      | _ \<Rightarrow> liftS (Inl (server_error ''unrecognized interaction result'')))"

definition unusable_handle :: ServerError where
  "unusable_handle = invalid_request ''interaction handle is invalid, expired, or already used''"

definition complete_interaction :: "'s authorization_server \<Rightarrow> CompletedInteraction \<Rightarrow> InteractionResult option
    \<Rightarrow> ('s, ServerError, completed_redirect) effect" where
  "complete_interaction a completed result =
     (let s = azServer a; clientID = ciClientID completed in
      bindS (clock s) (\<lambda>now.
      bindS (liftS (require (now < ciExpiresAt completed) (invalid_request ''interaction handle has expired''))) (\<lambda>_.
      bindS (liftS (map_sum (\<lambda>e. recordFailure e unusable_handle ''pushed authorization request'') (\<lambda>x. x)
        (decodeOwnRequestRecord s (ciRequest completed)))) (\<lambda>request.
      bindS (liftS (required_parameter (rqParameters request) ''redirect_uri'')) (\<lambda>redirectURI.
      bindS (liftS (stored_parameter (rqParameters request) ''state'')) (\<lambda>state.
      case result of
        Some (DenyLocally reason) \<Rightarrow> liftS (Inl (localDenial reason))
      | _ \<Rightarrow>
          bindS (checkRedirectURIStillRegistered s clientID redirectURI) (\<lambda>_.
          conclude a clientID request redirectURI state result)))))))"

datatype AuthorizationResult = AuthorizationRedirect url | AuthorizationLocalError ServerError

definition complete_body :: "'s authorization_server \<Rightarrow> string \<Rightarrow> InteractionResult option
    \<Rightarrow> ('s, string \<times> ServerError, string \<times> completed_redirect) effect" where
  "complete_body a handle result =
     bindS (for_client [] (catchS (\<lambda>_. unusable_handle) (adComplete (azDeps a) (interactionHandleKey (sv_crypto (azServer a)) handle)))) (\<lambda>completed.
     bindS (for_client (ciClientID completed) (complete_interaction a completed result)) (\<lambda>r.
     liftS (Inr (ciClientID completed, r))))"

definition server_CompleteAuthorization :: "'s authorization_server \<Rightarrow> string \<Rightarrow> InteractionResult option \<Rightarrow> 's
    \<Rightarrow> AuthorizationResult \<times> 's" where
  "server_CompleteAuthorization a handle result w =
     (case complete_body a handle result w of
        (Inl (client, e), w') \<Rightarrow>
          (AuthorizationLocalError e, audit (azServer a) AuditEventCompleteAuthorization client AuditOutcomeFailure (svCode e) w')
      | (Inr (client, r), w') \<Rightarrow>
          (AuthorizationRedirect (rdDestination r),
           audit (azServer a) AuditEventCompleteAuthorization client (rdOutcome r) (rdDescription r) w'))"

end
