(* ===== verification/Authorization_Sound.thy ===== *)
theory Authorization_Sound
  imports Server_Authorization Server_Sound
begin

text \<open>
  What has to hold before an authorization request is stored, before a code is issued for it, and of
  every place a browser is sent.
\<close>

lemma for_client_Inr [simp]: "for_client c m w = (Inr x, w') \<longleftrightarrow> m w = (Inr x, w')"
  by (simp add: for_client_def)

section \<open>Parameters\<close>











section \<open>Resources\<close>



section \<open>Where the parameters come from\<close>










section \<open>Pushed requests\<close>










section \<open>Codes and redirects\<close>













end
