(* ===== verification/Memstore_Refinement.thy ===== *)
theory Memstore_Refinement
  imports Memstore_Properties
begin

text \<open>
  The contract \<^verbatim>\<open>storage/transaction_store.go\<close> states for its \<^verbatim>\<open>TransactionStore\<close>, as an
  abstract machine without flags, and the proof that the memory store refines it: completing an
  interaction removes the pushed request it was begun for, with everything else begun for it. The store
  keeps them and marks them instead.
\<close>

section \<open>The contract\<close>








section \<open>The store\<close>







section \<open>Runs\<close>









end
