(* ===== verification/Authorization_Example.thy ===== *)
theory Authorization_Example
  imports Authorization_Sound Server_Example Memstore_Refinement
begin

text \<open>
  A request pushed, an interaction begun for it and concluded, over the stores of \<open>Memstore\<close>:
  the properties of the authorization endpoint hold of something.
\<close>

section \<open>A server\<close>

record authorization_world =
  awTransactions :: TransactionStore
  awGrants :: GrantStore

definition aw_transactions :: "(authorization_world, TransactionStore) part" where
  "aw_transactions = (awTransactions, awTransactions_update)"
definition aw_grants :: "(authorization_world, GrantStore) part" where
  "aw_grants = (awGrants, awGrants_update)"

definition memstore_authorization :: "('w, TransactionStore) part \<Rightarrow> ('w, GrantStore) part \<Rightarrow> 'w authorization_deps" where
  "memstore_authorization transactions grants =
     \<lparr>adCreatePAR = (\<lambda>r. done_to transactions (CreatePAR r)),
      adBegin = (\<lambda>txn w. case Memstore.BeginAuthorization txn (fst transactions w) of
          (x, st) \<Rightarrow> (map_sum (\<lambda>_. OtherFailure) (\<lambda>ci. ci) x, snd transactions (\<lambda>_. st) w)),
      adComplete = (\<lambda>h w. case Memstore.CompleteAuthorization h (fst transactions w) of
          (x, st) \<Rightarrow> (map_sum (\<lambda>_. OtherFailure) (\<lambda>ci. ci) x, snd transactions (\<lambda>_. st) w)),
      adCreateCode = (\<lambda>c. done_to grants (CreateAuthorizationCode c)),
      adCodeRAR = None, adPairwise = None, adPairwiseLookup = None, adPairwiseResolver = None,
      adHintKeys = (\<lambda>_ _. answers None)\<rparr>"

text \<open>The codec writes a string as its bytes, and anything else as the one request record.\<close>

definition example_pushed_json :: json where
  "example_pushed_json = JObj [(''v'', JNum False 1 None), (''iss'', JStr ''https://as.example''),
     (''parameters'', JObj [(''client_id'', JStr ''c1''), (''response_type'', JStr ''code''),
        (''redirect_uri'', JStr ''https://c.example/cb''), (''scope'', JStr ''accounts''), (''state'', JStr ''s''),
        (''code_challenge'', JStr ''ch''), (''code_challenge_method'', JStr ''S256'')]),
     (''extension_source'', JNum False 1 None), (''pushed_at'', JStr [char_of (100 :: nat)])]"

fun tagged_marshal :: "bool \<Rightarrow> json \<Rightarrow> bytes" where
  "tagged_marshal esc (JStr s) = 1 # string_bytes s"
| "tagged_marshal esc _ = [0]"

fun tagged_decode :: "bytes \<Rightarrow> json option" where
  "tagged_decode (Suc 0 # bs) = Some (JStr (map char_of bs))"
| "tagged_decode _ = Some example_pushed_json"

definition callback_url :: "string \<Rightarrow> url option" where
  "callback_url raw =
     (if has_prefix raw ''https://c.example/cb'' then
        Some \<lparr>uScheme = ''https'', uHasUser = False, uHost = ''c.example'', uPath = ''/cb'',
          uRawQuery = drop 21 raw, uForceQuery = False, uOpaque = [], uRawPath = [], uOmitHost = False\<rparr>
      else None)"

definition authorization_env :: server_env where
  "authorization_env =
     example_env\<lparr>seCrypto := server_crypto\<lparr>json_marshal := tagged_marshal, json_decode := tagged_decode\<rparr>,
       seParse := callback_url\<rparr>"

definition example_authorization_deps :: "authorization_world server_deps" where
  "example_authorization_deps =
     \<lparr>sdNow = Pair example_now, sdRandom = (\<lambda>n. Pair (Some (replicate n 7))), sdAudit = None,
      sdResolveClient = (\<lambda>c. answers (if c = ''c1'' then Some example_client else None)),
      sdReplay = (\<lambda>_. answers (Some ())), sdClientKeys = (\<lambda>_ _ _ _. answers None), sdAttesterKey = (\<lambda>_ _. answers None),
      sdCheckRevocation = (\<lambda>_ _. liftS (Inr ())), sdAttestationStatus = None,
      sdCertificateTrust = (\<lambda>_ _. liftS (Inr ())), sdNonces = None, sdGrants = memstore_grants aw_grants,
      sdRevocation = \<lparr>rvRevoke = (\<lambda>_ _. answers None), rvReader = None\<rparr>, sdAccessTokens = (\<lambda>_. answers None),
      sdSigner = (\<lambda>_ _. answers None), sdEncryptionKeys = (\<lambda>_ _. answers None), sdEncrypt = (\<lambda>_ _ _ _. liftS (Inl ())),
      sdIdentityClaims = None, sdResourcePolicy = None, sdClientCredentialsRAR = None\<rparr>"

definition example_authorization_server :: "authorization_world authorization_server" where
  "example_authorization_server =
     \<lparr>azServer = \<lparr>svEnv = authorization_env, svConfig = example_config, svDeps = example_authorization_deps\<rparr>,
      azConfig = \<lparr>acExtensions = [], acJARMAlg = ES256, acProduction = True, acInteractionLifetime = 60 * second,
        acJARMResponseLifetime = 60 * second\<rparr>,
      azDeps = memstore_authorization aw_transactions aw_grants, azLossless = (\<lambda>_. True)\<rparr>"

definition example_authorization_world :: authorization_world where
  "example_authorization_world = \<lparr>awTransactions = NewTransactionStore, awGrants = NewGrantStore\<rparr>"

section \<open>A request pushed, begun and concluded\<close>

definition example_push :: "FormParameter list" where
  "example_push = [(''client_id'', ''c1''), (''response_type'', ''code''), (''redirect_uri'', ''https://c.example/cb''),
     (''scope'', ''accounts''), (''state'', ''s''), (''code_challenge'', ''ch''), (''code_challenge_method'', ''S256'')]"

definition example_parameters :: "json assoc" where
  "example_parameters = map (\<lambda>(k, v). (k, JStr v)) example_push"

abbreviation ex_as :: "authorization_world server" where "ex_as \<equiv> azServer example_authorization_server"

lemmas ex_as_defs = example_authorization_server_def authorization_env_def example_authorization_deps_def
  sv_crypto_def sv_limits_def sv_issuer_def

lemma ex_as_config [simp]: "svConfig ex_as = example_config"
  by (simp add: example_authorization_server_def)


lemma ex_as_client: "resolve_client ex_as ''c1'' w = (Inr example_client, w)"
  "sdResolveClient (svDeps ex_as) ''c1'' w = (Inr example_client, w)"
  by (simp_all add: resolve_client_def ex_as_defs answers_def effect_steps)














section \<open>The request stored\<close>

definition example_reference :: string where "example_reference = encode_raw True (replicate 32 7)"
definition example_reference_key :: string where
  "example_reference_key = parReferenceKey (sv_crypto ex_as) ''c1'' example_reference"

definition example_request_record :: NewPARRecord where
  "example_request_record = \<lparr>parReference = example_reference_key, parClientID = ''c1'',
     parRequest = Some example_pushed_json, parExpiresAt = example_now + 60 * second\<rparr>"

definition world_pushed :: authorization_world where
  "world_pushed = awTransactions_update (CreatePAR example_request_record) example_authorization_world"

definition example_push_result :: PushAuthorizationResult where
  "example_push_result = \<lparr>prRequestURI = RequestURIPrefix @ example_reference, prExpiresIn = 60 * second, prNextDPoPNonce = []\<rparr>"

lemma ex_random: "generateRandomToken ex_as 32 w = (Inr example_reference, w)"
  by (simp add: generateRandomToken_def ex_as_defs example_reference_def)

lemma ex_reference_ne: "example_reference \<noteq> []"
proof -
  have "length example_reference \<noteq> 0" by (simp add: example_reference_def length_encode_raw)
  then show ?thesis by auto
qed

lemma ex_split: "SplitRequestURI (RequestURIPrefix @ example_reference) = Some example_reference"
  by (simp add: SplitRequestURI_def has_prefix_iff ex_reference_ne)

lemma ex_clock: "clock ex_as w = (Inr example_now, w)"
  by (simp add: clock_def ex_as_defs)




section \<open>The interaction\<close>

definition example_handle_key :: string where
  "example_handle_key = interactionHandleKey (sv_crypto ex_as) example_reference"

definition example_interaction :: CompletedInteraction where
  "example_interaction = \<lparr>ciClientID = ''c1'', ciRequest = Some example_pushed_json, ciExpiresAt = example_now + 60 * second\<rparr>"

definition world_begun :: authorization_world where
  "world_begun = world_pushed\<lparr>awTransactions := (awTransactions world_pushed)\<lparr>txByHandle :=
     Map.empty(example_handle_key \<mapsto> \<lparr>piReference = example_reference_key, piInteraction = example_interaction\<rparr>)\<rparr>\<rparr>"

definition example_record :: requestRecord where
  "example_record = requestRecord_zero\<lparr>rqVersion := 1, rqIssuer := ''https://as.example'', rqParameters := example_parameters,
     rqExtensionSource := 1, rqPushedAt := Some example_now\<rparr>"

lemma ex_decoded: "decodeOwnRequestRecord ex_as (Some example_pushed_json) = Inr example_record"
  by code_simp

lemma ex_extensions: "interactionExtensions example_authorization_server example_parameters coreAuthorizationParameters 1 = Inr []"
proof -
  have "extension_Parse [] coreAuthorizationParameters src example_parameters = Inr ([], example_parameters)" for src
    by (simp add: example_parameters_def example_push_def coreAuthorizationParameters_def)
  then show ?thesis by (simp add: interactionExtensions_def example_authorization_server_def)
qed

lemma example_begins:
  "\<exists>request. server_BeginAuthorization example_authorization_server (prRequestURI example_push_result) ''c1'' [] world_pushed =
     (InteractionRequired example_reference request (example_now + 60 * second), world_begun)"
proof -
  have slot: "claimInteractionSlot ex_as k now w = (Inr (), w)" for k now w
    by (simp add: claimInteractionSlot_def maxInteractionsPerRequestURI_def upt_conv_Cons)
      (simp add: ex_as_defs answers_def effect_steps)
  have begins: "adBegin (azDeps example_authorization_server)
      \<lparr>btReference = example_reference_key, btHandle = example_handle_key,
       btHandleExpiresAt = example_now + acInteractionLifetime (azConfig example_authorization_server), btNow = example_now\<rparr> world_pushed =
      (Inr \<lparr>ciClientID = ''c1'', ciRequest = Some example_pushed_json, ciExpiresAt = example_now + 60 * second\<rparr>, world_begun)"
    by (simp add: example_authorization_server_def memstore_authorization_def aw_transactions_def world_pushed_def
        example_authorization_world_def CreatePAR_def NewTransactionStore_def Memstore.BeginAuthorization_def
        example_request_record_def world_begun_def example_interaction_def second_def)
  have "redeem_request_uri example_authorization_server (prRequestURI example_push_result) ''c1'' [] world_pushed =
      (Inr (example_reference, example_now, \<lparr>ciClientID = ''c1'', ciRequest = Some example_pushed_json,
         ciExpiresAt = example_now + 60 * second\<rparr>), world_begun)"
    by (simp add: redeem_request_uri_def Let_def effect_steps require_def example_push_result_def ex_split ex_random
        interactionHandleSize_def ex_clock slot begins flip: example_reference_key_def example_handle_key_def)
  moreover have "acInteractionLifetime (azConfig example_authorization_server) = 60 * second"
    by (simp add: example_authorization_server_def)
  moreover have "rqParameters example_record = example_parameters" "rqExtensionSource example_record = 1"
    by (simp_all add: example_record_def requestRecord_zero_def)
  ultimately show ?thesis
    by (simp add: server_BeginAuthorization_def bindS_def for_client_def catchS_def begin_interaction_def liftS_def require_def
        ex_as_client ex_decoded ex_extensions second_def)
      (simp add: audit_def ex_as_defs)
qed












end
