(* ===== verification/Spec2Isabelle.thy ===== *)
theory Spec2Isabelle
  imports Resolver_Search Jwk_Properties Entity_Statement_Properties Policy_Properties
    Memstore_Properties Memstore_Grants Memstore_Ciba_Properties Token_Roundtrip Dpop_Nonce Resource_Example
    Message_Kinds Claim_Values_Properties Server_Example Authorization_Example
begin

text \<open>
  FAPIgo is a Go library for FAPI 2.0: an authorization server, its clients and resource servers,
  and OpenID Federation. This development models its core in HOL: what a party accepts, what it
  issues, and what its stores keep.

  \<^bold>\<open>Data.\<close> A byte string is a list of numbers below 256, a JSON text is what \<^verbatim>\<open>encoding/json\<close>
  reads from it (\<open>Json\<close>: a tree with the members of an object in order, duplicates included), a
  time a number of nanoseconds, an error a value of a sum type that says which check failed. The
  texts of errors are left out. Each theory names the files under \<^verbatim>\<open>src/\<close> it follows, and keeps
  their names.

  \<^bold>\<open>Foundations.\<close> \<open>Prelude\<close> has the error sums, checks over lists and association lists all
  theories share. \<open>Canonical\<close> is \<^verbatim>\<open>internal/canonical/ascii.go\<close>, \<open>Strict_B64\<close> is
  \<^verbatim>\<open>internal/strictb64\<close>, \<open>Strict_Json\<close> is \<^verbatim>\<open>internal/strictjson\<close>, \<open>Timeutil\<close> is
  \<^verbatim>\<open>internal/timeutil\<close> and \<^verbatim>\<open>internal/numericdate\<close>, \<open>Url\<close> the part of \<^verbatim>\<open>net/url\<close> that the
  code reads, \<open>Canonical_Uri\<close> is \<^verbatim>\<open>internal/canonical/uri.go\<close>; \<open>Uri_Properties\<close> shows its dot
  segment removal equal to a reference on path segments, \<open>Uri_Canonical\<close> that a canonical URI
  reads back as itself.

  \<^bold>\<open>Keys and signatures.\<close> \<open>Jwk\<close> and \<open>Jose\<close> are the keys, key sets, headers and compact
  serialization of \<^verbatim>\<open>internal/jose\<close>, \<open>Jose_Sign\<close> its signing and thumbprints.
  \<open>Jwk_Properties\<close> shows what a parsed key is and that keys round trip; \<open>Jose_Sign\<close>
  that what is signed parses and verifies. The record \<open>crypto\<close> holds what lies outside: the curve
  test, the hashes, the verification primitives, the decoder and the encoder of JSON texts.

  \<^bold>\<open>Proof keys and tokens.\<close> \<open>Pkce\<close> is \<^verbatim>\<open>internal/pkce\<close>; \<open>Token\<close> and \<open>Token_Issue\<close> are
  \<^verbatim>\<open>internal/token\<close> and \<^verbatim>\<open>internal/claimnames\<close>; \<open>Token_Properties\<close> and \<open>Token_Roundtrip\<close> show
  what a validated token guarantees, and that an issued one validates.

  \<^bold>\<open>Proofs of possession.\<close> \<open>Dpop\<close> is \<^verbatim>\<open>internal/dpop\<close>, \<^verbatim>\<open>internal/replaykey\<close>,
  \<^verbatim>\<open>internal/dpopnonce\<close> and the replay checkers of \<^verbatim>\<open>server\<close> and \<^verbatim>\<open>resource\<close>;
  \<open>Dpop_Properties\<close> shows what an accepted proof guarantees, that a created one verifies and that
  it is accepted once, \<open>Dpop_Nonce\<close> that a nonce handed out can be used.

  \<^bold>\<open>Federation.\<close> \<open>Policy\<close> is the metadata policy language of \<^verbatim>\<open>internal/federation\<close>, with
  \<open>Policy_Correct\<close> and \<open>Policy_Properties\<close> on merging and applying; \<open>Entity_Statement\<close> its
  statements; \<open>Chain_Constraints\<close> the constraints and Entity Identifiers of \<^verbatim>\<open>federation\<close>.
  \<open>Resolver\<close> and \<open>Resolver_Fetch\<close> are the search for a Trust Chain, \<^verbatim>\<open>federation/resolver.go\<close>:
  the HTTP responses are a function of the requests made before, so a responder may answer the same
  request differently later. \<open>Resolver_Correct\<close> has the invariant of the walk, and
  \<open>Resolver_Properties\<close>, \<open>Resolver_Policy\<close> and \<open>Resolver_Search\<close> what a resolved entity
  guarantees; \<open>Resolver_Example\<close> is a federation that resolves. The walk recurses on the depth it
  may still go and the hints it may still try, as the code bounds both.

  \<^bold>\<open>Stores.\<close> \<open>Store_Contracts\<close> states the interfaces of \<^verbatim>\<open>storage\<close> as locales: a store is a
  transition function, and what is promised of it holds along every run. \<open>Memstore\<close> and
  \<open>Memstore_Ciba\<close> are the implementation in \<^verbatim>\<open>storage/memstore\<close>; each operation is one step, as each
  holds its mutex throughout. \<open>Memstore_Properties\<close>, \<open>Memstore_Grants\<close> and
  \<open>Memstore_Ciba_Properties\<close> interpret the locales on it; \<open>Memstore_Refinement\<close> shows that the
  store of authorization transactions refines an abstract machine that has only what its contract
  speaks of: a phase for each reference and each interaction handle.

  \<^bold>\<open>The resource server.\<close> \<open>Effects\<close> is how a handler calls its dependencies: a step of a state with
  an answer or an error, so that what was written before an error stays. \<open>Grant_Revocation\<close> is
  \<^verbatim>\<open>internal/grantrevocation\<close>, \<open>Http_Error\<close> is \<^verbatim>\<open>internal/httperror\<close> with
  \<^verbatim>\<open>resource/errors.go\<close>; \<open>Resource_Verify\<close> and \<open>Resource_Server\<close> are the verifier of
  \<^verbatim>\<open>resource\<close> and its two token resolvers. \<open>Resource_Properties\<close> states the contracts of its
  dependencies as locales and what they give the revocation checks, \<open>Resource_Accept\<close> what an
  accepted request guarantees, and \<open>Resource_Memstore\<close> interprets them on the in-memory stores and
  follows runs of requests, revocations and issuance; \<open>Resource_Example\<close> is a request that is
  accepted.

  \<^bold>\<open>Messages of the client.\<close> \<open>Client_Assertion\<close> is \<^verbatim>\<open>internal/clientassertion\<close>, \<open>Request_Object\<close> is
  \<^verbatim>\<open>internal/requestobject\<close> and \<^verbatim>\<open>internal/jarm\<close>, \<open>Client_Attestation\<close> is
  \<^verbatim>\<open>internal/clientattestation\<close>. \<open>Message_Kinds\<close> takes all signed messages together and shows that
  none passes for one of another kind.

  \<^bold>\<open>The authorization server.\<close> \<open>Registered_Client\<close> is the client record of
  \<^verbatim>\<open>storage/client_repository.go\<close>, \<open>Rar\<close> the registry of authorization details of
  \<^verbatim>\<open>extension/rar.go\<close>, \<open>Claim_Values\<close> is \<^verbatim>\<open>internal/claimvalues\<close>. \<open>Server_Types\<close> has the server's
  configuration and its dependencies, functions on a state that is any type; \<open>Server_Auth\<close> is the
  authentication of clients by assertion, attestation or certificate, \<open>Server_Records\<close> the grant
  records and their JSON form, \<open>Server_Grant\<close> what of a grant a token may say, \<open>Server_Token\<close> the
  token endpoint: the authorization code, refresh token and client credentials grants.
  \<open>Server_Sound\<close> shows what stands behind every token these issue, \<open>Server_Once\<close> that a code is
  answered once in every run and what its reuse revokes; \<open>Server_Example\<close> is a server on the
  in-memory stores that exchanges a code and refreshes a token.

  \<^bold>\<open>The authorization endpoint.\<close> \<open>Fapi_Url\<close> is \<^verbatim>\<open>url.go\<close>, \<^verbatim>\<open>internal/querystring\<close> and
  \<^verbatim>\<open>internal/par\<close>; \<open>Extension\<close> the extension parameters of \<^verbatim>\<open>extension\<close>, their definitions,
  registry and sources; \<open>Request_Params\<close> the parameters of an authorization request in
  \<^verbatim>\<open>server\<close>: claims, locales, prompts, authentication contexts. \<open>Server_Request\<close> has the record of
  a request, its keys and the subject of the user; \<open>Server_Par\<close> is \<^verbatim>\<open>server/par.go\<close>, which
  stores a pushed request; \<open>Server_Authorization\<close> is \<^verbatim>\<open>server/authorization.go\<close>,
  \<^verbatim>\<open>complete_authorization.go\<close>, \<^verbatim>\<open>interaction_slots.go\<close> and \<^verbatim>\<open>jarm.go\<close>, which begin and
  conclude an interaction with the user. A transaction goes from pushed to begun to concluded, and
  the stores hold its state. \<open>Authorization_Sound\<close> shows what stands behind every request URI,
  every redirect and every authorization code; in \<open>Authorization_Example\<close> a request is pushed, begun
  and concluded on the in-memory stores.

  \<^bold>\<open>Parameters.\<close> Beside \<open>crypto\<close>: the URL parser, the IP address parser, the HTTP responses, the
  signers and what a random source returns; for the authorization server the parsed certificates and
  the verification of their chains, the text form of a time, the encryption of an ID token, the
  codecs of authorization details and extensions, the test for loopback hosts and the deriver of
  pairwise subjects. Theorems state what they need of one as a hypothesis,
  and a witness instantiates it.

  \<^bold>\<open>Not modelled.\<close> The endpoints of \<^verbatim>\<open>server\<close> for backchannel authentication and metadata, and the
  validation of its configuration; the flows of \<^verbatim>\<open>client\<close>, key generation and
  storage in \<^verbatim>\<open>keys\<close>, encryption in \<^verbatim>\<open>internal/jwe\<close>, certificates and TLS; tests, examples and
  the conformance suite. Contexts, locks and the copying of slices have no counterpart.
\<close>

end
